(* ===== verification/Prelude.thy ===== *)
theory Prelude
  imports
    Main
    "HOL-Library.Word"
    "HOL-Library.Char_ord"
    "HOL-Library.List_Lexorder"
    "HOL-Library.Sublist"
    "HOL-Library.Multiset"
begin

text \<open>
  What every component of the kernel model shares: the machine integer types, results and
  errors, the saturating and profile-dependent arithmetic of Rust, and the part of the Rust
  standard library on strings that the sources call.

  \<^item> A Rust \<^verbatim>\<open>String\<close> or \<^verbatim>\<open>&str\<close> is its UTF-8 byte sequence, a \<open>string\<close> (one
    \<open>char\<close> is one byte); \<open>utf8_valid\<close> is the well-formedness of such a sequence.
  \<^item> \<^verbatim>\<open>anyhow::Result<T>\<close> is \<open>'a result\<close>: \<open>Inr\<close> a value, \<open>Inl (Anyhow m)\<close> an error
    whose \<^verbatim>\<open>Display\<close> text is \<open>m\<close> (attaching a context replaces the displayed text), and
    \<open>Inl Panicked\<close> an unwinding panic, which no handler of the sources intercepts.
  \<^item> \<^verbatim>\<open>HashMap<String, V>\<close> is a map \<open>string \<rightharpoonup> 'v\<close>.
\<close>

named_theorems rust_str \<open>equations that evaluate the string operations\<close>
named_theorems result_simps \<open>equations for results\<close>

section \<open>Machine integers\<close>

type_synonym u8 = "8 word"
type_synonym u32 = "32 word"
type_synonym u64 = "64 word"
type_synonym u128 = "128 word"

definition saturating_add :: "'a::len word \<Rightarrow> 'a word \<Rightarrow> 'a word" where
  "saturating_add a b = (if unat a + unat b < 2 ^ LENGTH('a) then a + b else - 1)"

definition saturating_sub :: "'a::len word \<Rightarrow> 'a word \<Rightarrow> 'a word" where
  "saturating_sub a b = (if a < b then 0 else a - b)"

lemma unat_plus_no_overflow:
  fixes a b :: "'a::len word"
  shows "unat a + unat b < 2 ^ LENGTH('a) \<Longrightarrow> unat (a + b) = unat a + unat b"
  by (simp add: unat_word_ariths)

lemma unat_saturating_add:
  fixes a b :: "'a::len word"
  shows "unat (saturating_add a b) = min (unat a + unat b) (2 ^ LENGTH('a) - 1)"
  by (auto simp: saturating_add_def unat_plus_no_overflow unsigned_minus_1_eq_mask mask_eq_exp_minus_1)

lemma unat_saturating_sub [simp]: "unat (saturating_sub a b) = unat a - unat b"
  by (auto simp: saturating_sub_def unat_sub_if_size word_less_nat_alt)

lemma saturating_sub_0 [simp]: "saturating_sub a 0 = a"
  by (simp add: saturating_sub_def)

lemma saturating_add_sub_cancel:
  fixes a b :: "'a::len word"
  assumes "unat a + unat b < 2 ^ LENGTH('a)"
  shows "saturating_sub (a + b) b = a"
  using assms by (simp add: word_unat_eq_iff unat_plus_no_overflow)

section \<open>Results\<close>

datatype error = Anyhow string | Panicked

type_synonym 'a result = "error + 'a"

abbreviation Ok :: "'a \<Rightarrow> 'a result" where
  "Ok \<equiv> Inr"

abbreviation Err :: "string \<Rightarrow> 'a result" where
  "Err m \<equiv> Inl (Anyhow m)"

definition and_then :: "'a result \<Rightarrow> ('a \<Rightarrow> 'b result) \<Rightarrow> 'b result" where
  "and_then r f = (case r of Inl e \<Rightarrow> Inl e | Inr x \<Rightarrow> f x)"

definition ok_or :: "'a option \<Rightarrow> string \<Rightarrow> 'a result" where
  "ok_or x m = (case x of None \<Rightarrow> Err m | Some v \<Rightarrow> Ok v)"

definition ensure :: "bool \<Rightarrow> string \<Rightarrow> unit result" where
  "ensure b m = (if b then Ok () else Err m)"

text \<open>\<^verbatim>\<open>Context::with_context\<close>: the displayed text is the context's.\<close>

definition with_context :: "string \<Rightarrow> 'a result \<Rightarrow> 'a result" where
  "with_context m r = (case r of Inl (Anyhow _) \<Rightarrow> Err m | _ \<Rightarrow> r)"

definition is_ok :: "'a result \<Rightarrow> bool" where
  "is_ok r \<longleftrightarrow> (case r of Inl _ \<Rightarrow> False | Inr _ \<Rightarrow> True)"

lemma and_then_simps [simp, result_simps]:
  "and_then (Inl e) f = Inl e" "and_then (Inr x) f = f x"
  by (simp_all add: and_then_def)

lemma and_then_Ok_iff [result_simps]:
  "and_then r f = Inr y \<longleftrightarrow> (\<exists>x. r = Inr x \<and> f x = Inr y)"
  by (cases r) auto

lemma and_then_Inl_iff:
  "and_then r f = Inl e \<longleftrightarrow> r = Inl e \<or> (\<exists>x. r = Inr x \<and> f x = Inl e)"
  by (cases r) auto

lemma ok_or_simps [simp, result_simps]:
  "ok_or None m = Err m" "ok_or (Some v) m = Ok v"
  by (simp_all add: ok_or_def)

lemma ok_or_Ok_iff [result_simps]: "ok_or x m = Inr v \<longleftrightarrow> x = Some v"
  by (cases x) auto

lemma ensure_simps [simp, result_simps]:
  "ensure True m = Ok ()" "ensure False m = Err m"
  by (simp_all add: ensure_def)

lemma ensure_Ok_iff [result_simps]: "ensure b m = Inr u \<longleftrightarrow> b"
  by (cases b) auto

lemma with_context_simps [simp, result_simps]:
  "with_context m (Inr x) = Inr x" "with_context m (Inl (Anyhow e)) = Err m"
  "with_context m (Inl Panicked) = Inl Panicked"
  by (simp_all add: with_context_def)

lemma with_context_Ok_iff [result_simps]: "with_context m r = Inr x \<longleftrightarrow> r = Inr x"
  by (auto simp: with_context_def split: sum.splits error.splits)

lemma is_ok_simps [simp]: "is_ok (Inr x)" "\<not> is_ok (Inl e)"
  by (simp_all add: is_ok_def)

lemma is_ok_iff: "is_ok r \<longleftrightarrow> (\<exists>x. r = Inr x)"
  by (cases r) auto

text \<open>
  \<^verbatim>\<open>a + b\<close> on an unsigned type: with overflow checks (the \<^verbatim>\<open>dev\<close> and \<^verbatim>\<open>test\<close> profiles) an
  overflow panics, without them (the \<^verbatim>\<open>release\<close> profile) it wraps.
\<close>

definition checked_plus :: "bool \<Rightarrow> 'a::len word \<Rightarrow> 'a word \<Rightarrow> 'a word result" where
  "checked_plus overflow_checks a b =
     (if unat a + unat b < 2 ^ LENGTH('a) then Ok (a + b)
      else if overflow_checks then Inl Panicked
      else Ok (a + b))"

lemma checked_plus_Ok_checked:
  "checked_plus True a b = Inr c \<Longrightarrow> unat c = unat a + unat b"
  by (auto simp: checked_plus_def unat_plus_no_overflow split: if_splits)

lemma checked_plus_no_overflow:
  fixes a b :: "'a::len word"
  shows "unat a + unat b < 2 ^ LENGTH('a) \<Longrightarrow> checked_plus oc a b = Inr (a + b)"
  by (simp add: checked_plus_def)

lemma checked_plus_release: "checked_plus False a b = Inr (a + b)"
  by (simp add: checked_plus_def)

section \<open>Lists\<close>

text \<open>\<^verbatim>\<open>Iterator::filter_map\<close>.\<close>

fun filter_map :: "('a \<Rightarrow> 'b option) \<Rightarrow> 'a list \<Rightarrow> 'b list" where
  "filter_map f [] = []"
| "filter_map f (x # xs) = (case f x of None \<Rightarrow> filter_map f xs | Some y \<Rightarrow> y # filter_map f xs)"

lemma filter_map_append [simp]: "filter_map f (xs @ ys) = filter_map f xs @ filter_map f ys"
  by (induction xs) (auto split: option.splits)

lemma sum_list_sort_key: "sum_list (map f (sort_key g xs)) = sum_list (map (f :: 'a \<Rightarrow> nat) xs)"
  by (metis mset_map mset_sort sum_mset_sum_list)

end
