(* ===== verification/Exec_State.thy ===== *)
theory Exec_State
  imports Prelude
begin

text \<open>
  The mandatory state machine of \<^verbatim>\<open>NoumenonCore/src/state.rs\<close>. \<open>can_transition\<close> is the
  source's matrix, \<open>transit\<close> the guarded move. On top of them: the machine as a step
  relation, its reachable states, and what a run to a given state must have gone through.
\<close>

datatype ExecutionStatus =
    PendingAdmission
  | Admitted
  | Enforcing
  | Executing
  | RecordingEvidence
  | Verifying
  | Rejected
  | Failed
  | RolledBack
  | Completed

fun debug_status :: "ExecutionStatus \<Rightarrow> string" where
  "debug_status PendingAdmission = ''PendingAdmission''"
| "debug_status Admitted = ''Admitted''"
| "debug_status Enforcing = ''Enforcing''"
| "debug_status Executing = ''Executing''"
| "debug_status RecordingEvidence = ''RecordingEvidence''"
| "debug_status Verifying = ''Verifying''"
| "debug_status Rejected = ''Rejected''"
| "debug_status Failed = ''Failed''"
| "debug_status RolledBack = ''RolledBack''"
| "debug_status Completed = ''Completed''"

definition can_transition :: "ExecutionStatus \<Rightarrow> ExecutionStatus \<Rightarrow> bool" where
  "can_transition from_state next_state \<longleftrightarrow>
     (from_state, next_state) \<in>
       {(PendingAdmission, Admitted),
        (PendingAdmission, Rejected),
        (Admitted, Enforcing),
        (Enforcing, Executing),
        (Enforcing, Rejected),
        (Executing, RecordingEvidence),
        (Executing, Failed),
        (RecordingEvidence, Verifying),
        (RecordingEvidence, Failed),
        (Verifying, Completed),
        (Verifying, Failed),
        (Failed, RolledBack)}"

text \<open>The matrix read by rows and by columns.\<close>

lemma can_transition_from [simp]:
  "can_transition PendingAdmission t \<longleftrightarrow> t = Admitted \<or> t = Rejected"
  "can_transition Admitted t \<longleftrightarrow> t = Enforcing"
  "can_transition Enforcing t \<longleftrightarrow> t = Executing \<or> t = Rejected"
  "can_transition Executing t \<longleftrightarrow> t = RecordingEvidence \<or> t = Failed"
  "can_transition RecordingEvidence t \<longleftrightarrow> t = Verifying \<or> t = Failed"
  "can_transition Verifying t \<longleftrightarrow> t = Completed \<or> t = Failed"
  "can_transition Failed t \<longleftrightarrow> t = RolledBack"
  "\<not> can_transition Rejected t" "\<not> can_transition RolledBack t" "\<not> can_transition Completed t"
  by (simp_all add: can_transition_def)

lemma can_transition_to:
  "can_transition s Admitted \<longleftrightarrow> s = PendingAdmission"
  "can_transition s Enforcing \<longleftrightarrow> s = Admitted"
  "can_transition s Executing \<longleftrightarrow> s = Enforcing"
  "can_transition s RecordingEvidence \<longleftrightarrow> s = Executing"
  "can_transition s Verifying \<longleftrightarrow> s = RecordingEvidence"
  "can_transition s Completed \<longleftrightarrow> s = Verifying"
  "can_transition s RolledBack \<longleftrightarrow> s = Failed"
  "can_transition s Failed \<longleftrightarrow> s = Executing \<or> s = RecordingEvidence \<or> s = Verifying"
  "can_transition s Rejected \<longleftrightarrow> s = PendingAdmission \<or> s = Enforcing"
  "\<not> can_transition s PendingAdmission"
  by (simp_all add: can_transition_def)

record StateMachine =
  sm_state :: ExecutionStatus

definition new_sm :: StateMachine where
  "new_sm = \<lparr> sm_state = PendingAdmission \<rparr>"

definition transit :: "StateMachine \<Rightarrow> ExecutionStatus \<Rightarrow> unit result \<times> StateMachine" where
  "transit sm to =
     (if \<not> can_transition (sm_state sm) to then
        (Err (''invalid state transition: '' @ debug_status (sm_state sm) @ '' -> '' @
              debug_status to), sm)
      else (Ok (), sm\<lparr> sm_state := to \<rparr>))"

definition is_terminal :: "StateMachine \<Rightarrow> bool" where
  "is_terminal sm \<longleftrightarrow> sm_state sm \<in> {Completed, Rejected, Failed, RolledBack}"

definition allows_side_effect :: "StateMachine \<Rightarrow> bool" where
  "allows_side_effect sm \<longleftrightarrow> sm_state sm = Executing"

definition allows_ledger_write :: "StateMachine \<Rightarrow> bool" where
  "allows_ledger_write sm \<longleftrightarrow> sm_state sm = RecordingEvidence"

text \<open>Successive moves, stopping at the first refused one as \<^verbatim>\<open>?\<close> does.\<close>

fun transits :: "StateMachine \<Rightarrow> ExecutionStatus list \<Rightarrow> unit result \<times> StateMachine" where
  "transits sm [] = (Ok (), sm)"
| "transits sm (t # ts) =
     (case transit sm t of
        (Inl e, sm') \<Rightarrow> (Inl e, sm')
      | (Inr _, sm') \<Rightarrow> transits sm' ts)"

section \<open>The machine as a transition system\<close>

inductive sm_step :: "ExecutionStatus \<Rightarrow> ExecutionStatus \<Rightarrow> bool" where
  move: "can_transition s t \<Longrightarrow> sm_step s t"

inductive_simps sm_step_iff [simp]: "sm_step s t"

inductive_cases sm_step_from_failed: "sm_step Failed t"

inductive sm_path :: "ExecutionStatus \<Rightarrow> ExecutionStatus list \<Rightarrow> ExecutionStatus \<Rightarrow> bool" where
  stop: "sm_path s [] s"
| go: "sm_step s t \<Longrightarrow> sm_path t ts u \<Longrightarrow> sm_path s (t # ts) u"

inductive_simps sm_path_Nil [simp]: "sm_path s [] u"
inductive_simps sm_path_Cons [simp]: "sm_path s (t # ts) u"

lemma transit_Ok_iff:
  "transit sm t = (Inr u, sm') \<longleftrightarrow> can_transition (sm_state sm) t \<and> sm' = sm\<lparr> sm_state := t \<rparr>"
  by (auto simp: transit_def)

lemma transit_ok [simp]:
  "can_transition (sm_state sm) t \<Longrightarrow> transit sm t = (Ok (), sm\<lparr> sm_state := t \<rparr>)"
  by (simp add: transit_def)

lemma transits_path:
  "transits sm ts = (Inr u, sm') \<longleftrightarrow>
     sm_path (sm_state sm) ts (sm_state sm') \<and> sm' = sm\<lparr> sm_state := sm_state sm' \<rparr>"
proof (induction ts arbitrary: sm)
  case Nil
  then show ?case by (cases sm; cases sm') (auto)
next
  case (Cons t ts)
  show ?case
  proof (cases "can_transition (sm_state sm) t")
    case True
    then show ?thesis using Cons [of "sm\<lparr> sm_state := t \<rparr>"] by simp
  next
    case False
    then show ?thesis by (simp add: transit_def)
  qed
qed

text \<open>A path ends where its last move went.\<close>

lemma sm_path_snoc: "sm_path s (ts @ [t]) u \<longleftrightarrow> u = t \<and> (\<exists>v. sm_path s ts v \<and> sm_step v t)"
  by (induction ts arbitrary: s) auto

text \<open>Each process state has one predecessor, so the path to it is forced.\<close>

lemma sm_path_to:
  "sm_path PendingAdmission ts Admitted \<longleftrightarrow> ts = [Admitted]"
  "sm_path PendingAdmission ts Enforcing \<longleftrightarrow> ts = [Admitted, Enforcing]"
  "sm_path PendingAdmission ts Executing \<longleftrightarrow> ts = [Admitted, Enforcing, Executing]"
  "sm_path PendingAdmission ts RecordingEvidence \<longleftrightarrow>
     ts = [Admitted, Enforcing, Executing, RecordingEvidence]"
  "sm_path PendingAdmission ts Verifying \<longleftrightarrow>
     ts = [Admitted, Enforcing, Executing, RecordingEvidence, Verifying]"
  "sm_path PendingAdmission ts Completed \<longleftrightarrow>
     ts = [Admitted, Enforcing, Executing, RecordingEvidence, Verifying, Completed]"
proof -
  have to0: "sm_path PendingAdmission ts PendingAdmission \<longleftrightarrow> ts = []" for ts
    by (cases ts rule: rev_cases) (auto simp: sm_path_snoc can_transition_to)
  have one: "sm_path PendingAdmission ts t \<longleftrightarrow> (\<exists>us. ts = us @ [t] \<and> sm_path PendingAdmission us p)"
    if "\<And>s. can_transition s t \<longleftrightarrow> s = p" "t \<noteq> PendingAdmission" for ts t p
    using that by (cases ts rule: rev_cases) (auto simp: sm_path_snoc)
  show a: "sm_path PendingAdmission ts Admitted \<longleftrightarrow> ts = [Admitted]" for ts
    by (subst one [where p = PendingAdmission]) (auto simp: can_transition_to to0)
  show b: "sm_path PendingAdmission ts Enforcing \<longleftrightarrow> ts = [Admitted, Enforcing]" for ts
    by (subst one [where p = Admitted]) (auto simp: can_transition_to a)
  show c: "sm_path PendingAdmission ts Executing \<longleftrightarrow> ts = [Admitted, Enforcing, Executing]" for ts
    by (subst one [where p = Enforcing]) (auto simp: can_transition_to b)
  show d: "sm_path PendingAdmission ts RecordingEvidence \<longleftrightarrow>
     ts = [Admitted, Enforcing, Executing, RecordingEvidence]" for ts
    by (subst one [where p = Executing]) (auto simp: can_transition_to c)
  show e: "sm_path PendingAdmission ts Verifying \<longleftrightarrow>
     ts = [Admitted, Enforcing, Executing, RecordingEvidence, Verifying]" for ts
    by (subst one [where p = RecordingEvidence]) (auto simp: can_transition_to d)
  show "sm_path PendingAdmission ts Completed \<longleftrightarrow>
     ts = [Admitted, Enforcing, Executing, RecordingEvidence, Verifying, Completed]"
    by (subst one [where p = Verifying]) (auto simp: can_transition_to e)
qed

lemma sm_path_append:
  "sm_path s (ts @ us) u \<longleftrightarrow> (\<exists>v. sm_path s ts v \<and> sm_path v us u)"
  by (induction ts arbitrary: s) auto

text \<open>A rank that every move raises: no run is longer than seven moves.\<close>

fun sm_rank :: "ExecutionStatus \<Rightarrow> nat" where
  "sm_rank PendingAdmission = 0"
| "sm_rank Admitted = 1"
| "sm_rank Enforcing = 2"
| "sm_rank Executing = 3"
| "sm_rank RecordingEvidence = 4"
| "sm_rank Verifying = 5"
| "sm_rank Failed = 6"
| "sm_rank Completed = 7"
| "sm_rank Rejected = 7"
| "sm_rank RolledBack = 7"

lemma sm_rank_step: "can_transition s t \<Longrightarrow> sm_rank s < sm_rank t"
  by (auto simp: can_transition_def)

lemma sm_rank_path: "sm_path s ts u \<Longrightarrow> sm_rank s + length ts \<le> sm_rank u"
proof (induction rule: sm_path.induct)
  case (go s t ts u)
  then show ?case using sm_rank_step [of s t] by simp
qed simp

lemma sm_rank_bound: "sm_rank s \<le> 7"
  by (cases s) auto

section \<open>Properties\<close>

text \<open>
  C8: the only sequence of moves a fresh state machine accepts that ends in \<open>Completed\<close> is
  the mandatory path Admitted, Enforcing, Executing, RecordingEvidence, Verifying,
  Completed.
\<close>

theorem completed_only_by_mandatory_path:
  "transits new_sm ts = (Ok (), \<lparr> sm_state = Completed \<rparr>) \<longleftrightarrow>
     ts = [Admitted, Enforcing, Executing, RecordingEvidence, Verifying, Completed]"
  by (simp add: transits_path new_sm_def sm_path_to)

text \<open>
  the gates of the machine (invariants I2 and I3 of the kernel's architecture document):
  whatever moves a fresh machine has accepted, a side effect is allowed exactly after
  Admitted, Enforcing, Executing, and a ledger write exactly after one more move to
  RecordingEvidence.
\<close>

lemma gates_open_only_on_mandatory_path:
  assumes "transits new_sm ts = (Ok (), sm)"
  shows "(allows_side_effect sm \<longleftrightarrow> ts = [Admitted, Enforcing, Executing]) \<and>
         (allows_ledger_write sm \<longleftrightarrow> ts = [Admitted, Enforcing, Executing, RecordingEvidence])"
proof -
  from assms have "sm_path PendingAdmission ts (sm_state sm)"
    by (simp add: transits_path new_sm_def)
  then show ?thesis
    by (auto simp: allows_side_effect_def allows_ledger_write_def sm_path_to)
qed

lemma gates_open_only_on_mandatory_path_example:
  "let ts = [Admitted, Enforcing, Executing, RecordingEvidence];
       sm = \<lparr> sm_state = RecordingEvidence \<rparr>
   in transits new_sm ts = (Ok (), sm) \<and> allows_ledger_write sm \<and> \<not> allows_side_effect sm"
proof -
  have run: "transits new_sm [Admitted, Enforcing, Executing, RecordingEvidence] =
      (Ok (), \<lparr> sm_state = RecordingEvidence \<rparr>)"
    by (simp add: new_sm_def)
  show ?thesis
    using run gates_open_only_on_mandatory_path [OF run] by simp
qed

text \<open>
  the machine cannot loop: every accepted sequence of moves has at most seven of them,
  and after a failure the only accepted move is the rollback, after which nothing is
  accepted (invariant I4).
\<close>

lemma runs_are_bounded_and_failure_rolls_back:
  "(fst (transits new_sm ts) = Ok () \<longrightarrow> length ts \<le> 7) \<and>
   (fst (transits \<lparr> sm_state = Failed \<rparr> ts) = Ok () \<longrightarrow> ts = [] \<or> ts = [RolledBack])"
proof (intro conjI impI)
  assume "fst (transits new_sm ts) = Ok ()"
  then obtain sm where "transits new_sm ts = (Ok (), sm)"
    by (metis prod.collapse)
  then have "sm_path PendingAdmission ts (sm_state sm)"
    by (simp add: transits_path new_sm_def)
  from sm_rank_path [OF this] sm_rank_bound [of "sm_state sm"] show "length ts \<le> 7"
    by simp
next
  assume "fst (transits \<lparr> sm_state = Failed \<rparr> ts) = Ok ()"
  then obtain sm where "transits \<lparr> sm_state = Failed \<rparr> ts = (Ok (), sm)"
    by (metis prod.collapse)
  then have path: "sm_path Failed ts (sm_state sm)"
    by (simp add: transits_path)
  show "ts = [] \<or> ts = [RolledBack]"
  proof (cases ts)
    case (Cons t us)
    with path show ?thesis by (cases us) auto
  qed simp
qed

lemma runs_are_bounded_and_failure_rolls_back_example:
  "fst (transits new_sm [Admitted, Enforcing, Executing, Failed, RolledBack]) = Ok () \<and>
   length [Admitted, Enforcing, Executing, Failed, RolledBack] \<le> 7"
proof -
  have run: "fst (transits new_sm [Admitted, Enforcing, Executing, Failed, RolledBack]) = Ok ()"
    by (simp add: new_sm_def)
  with runs_are_bounded_and_failure_rolls_back [of "[Admitted, Enforcing, Executing, Failed, RolledBack]"]
  show ?thesis by blast
qed

end
