(* ===== verification/Rust_Strings.thy ===== *)
theory Rust_Strings
  imports Prelude
begin

text \<open>
  The operations of Rust's \<^verbatim>\<open>str\<close>, \<^verbatim>\<open>slice::join\<close>, \<^verbatim>\<open>ToString\<close> and \<^verbatim>\<open>FromStr\<close> that the
  kernel calls, on UTF-8 byte sequences, with the round trips the ledgers rely on:
  splitting a joined line, reading back an appended line, parsing a printed integer.
\<close>

section \<open>ASCII case\<close>

definition ascii_lower :: "char \<Rightarrow> char" where
  "ascii_lower c =
     (let n = (of_char c :: nat) in if 65 \<le> n \<and> n \<le> 90 then char_of (n + 32) else c)"

definition to_ascii_lowercase :: "string \<Rightarrow> string" where
  "to_ascii_lowercase s = map ascii_lower s"

definition eq_ignore_ascii_case :: "string \<Rightarrow> string \<Rightarrow> bool" where
  "eq_ignore_ascii_case s t \<longleftrightarrow> to_ascii_lowercase s = to_ascii_lowercase t"

lemma length_to_ascii_lowercase [simp]: "length (to_ascii_lowercase s) = length s"
  by (simp add: to_ascii_lowercase_def)

lemma to_ascii_lowercase_simps [simp, rust_str]:
  "to_ascii_lowercase [] = []"
  "to_ascii_lowercase (c # s) = ascii_lower c # to_ascii_lowercase s"
  by (simp_all add: to_ascii_lowercase_def)

section \<open>UTF-8\<close>

definition byte :: "char \<Rightarrow> nat" where
  "byte c = of_char c"

definition is_ascii :: "char \<Rightarrow> bool" where
  "is_ascii c \<longleftrightarrow> byte c < 128"

definition cont :: "char \<Rightarrow> bool" where
  "cont c \<longleftrightarrow> 128 \<le> byte c \<and> byte c \<le> 191"

definition ascii_alphanumeric :: "char \<Rightarrow> bool" where
  "ascii_alphanumeric c \<longleftrightarrow>
     48 \<le> byte c \<and> byte c \<le> 57 \<or> 65 \<le> byte c \<and> byte c \<le> 90 \<or> 97 \<le> byte c \<and> byte c \<le> 122"

text \<open>Table 3-7 of the Unicode standard, which \<^verbatim>\<open>String::from_utf8\<close> checks.\<close>

fun utf8_valid :: "string \<Rightarrow> bool" where
  "utf8_valid [] = True"
| "utf8_valid (a # s) =
     (if byte a < 128 then utf8_valid s
      else if 194 \<le> byte a \<and> byte a \<le> 223 then
        (case s of b # r \<Rightarrow> cont b \<and> utf8_valid r | _ \<Rightarrow> False)
      else if 224 \<le> byte a \<and> byte a \<le> 239 then
        (case s of b # c # r \<Rightarrow>
             cont b \<and> (byte a = 224 \<longrightarrow> 160 \<le> byte b) \<and> (byte a = 237 \<longrightarrow> byte b \<le> 159) \<and>
             cont c \<and> utf8_valid r
         | _ \<Rightarrow> False)
      else if 240 \<le> byte a \<and> byte a \<le> 244 then
        (case s of b # c # d # r \<Rightarrow>
             cont b \<and> (byte a = 240 \<longrightarrow> 144 \<le> byte b) \<and> (byte a = 244 \<longrightarrow> byte b \<le> 143) \<and>
             cont c \<and> cont d \<and> utf8_valid r
         | _ \<Rightarrow> False)
      else False)"

lemma utf8_valid_ascii: "list_all is_ascii s \<Longrightarrow> utf8_valid s"
  by (induction s) (auto simp: is_ascii_def)

lemma utf8_valid_append: "utf8_valid s \<Longrightarrow> utf8_valid t \<Longrightarrow> utf8_valid (s @ t)"
  by (induction s rule: utf8_valid.induct) (auto split: if_splits list.splits)

lemma utf8_valid_append_ascii:
  "utf8_valid s \<Longrightarrow> list_all is_ascii t \<Longrightarrow> utf8_valid (s @ t)"
  by (simp add: utf8_valid_append utf8_valid_ascii)

section \<open>Searching\<close>

fun contains :: "string \<Rightarrow> string \<Rightarrow> bool" where
  "contains [] t \<longleftrightarrow> t = []"
| "contains (c # s) t \<longleftrightarrow> prefix t (c # s) \<or> contains s t"

lemma contains_iff_sublist: "contains s t \<longleftrightarrow> sublist t s"
  by (induction s) (auto simp: sublist_Cons_right)

lemma contains_set: "contains s t \<Longrightarrow> set t \<subseteq> set s"
  by (simp add: contains_iff_sublist set_mono_sublist)

lemma contains_append_mid: "contains (a @ t @ b) t"
  by (auto simp: contains_iff_sublist sublist_def)

text \<open>\<^verbatim>\<open>str::find\<close> of a pattern and \<^verbatim>\<open>str::rfind\<close> of a character: byte offsets.\<close>

fun find_str :: "string \<Rightarrow> string \<Rightarrow> nat option" where
  "find_str [] t = (if t = [] then Some 0 else None)"
| "find_str (c # s) t =
     (if prefix t (c # s) then Some 0 else map_option Suc (find_str s t))"

fun rfind_char :: "string \<Rightarrow> char \<Rightarrow> nat option" where
  "rfind_char [] d = None"
| "rfind_char (c # s) d =
     (case rfind_char s d of Some i \<Rightarrow> Some (Suc i) | None \<Rightarrow> if c = d then Some 0 else None)"

lemma rfind_char_Some:
  "rfind_char s d = Some i \<Longrightarrow> i < length s \<and> s ! i = d \<and> d \<notin> set (drop (Suc i) s)"
proof (induction s arbitrary: i)
  case (Cons c s)
  have none: "rfind_char s d = None \<Longrightarrow> d \<notin> set s" for s
    by (induction s) (auto split: option.splits if_splits)
  from Cons show ?case
    by (cases "rfind_char s d") (auto dest: none split: if_splits)
qed simp

section \<open>Splitting and joining\<close>

fun split_on :: "char \<Rightarrow> string \<Rightarrow> string list" where
  "split_on d [] = [[]]"
| "split_on d (c # s) =
     (if c = d then [] # split_on d s
      else (case split_on d s of [] \<Rightarrow> [[c]] | p # ps \<Rightarrow> (c # p) # ps))"

fun join :: "string \<Rightarrow> string list \<Rightarrow> string" where
  "join sep [] = []"
| "join sep [x] = x"
| "join sep (x # y # xs) = x @ sep @ join sep (y # xs)"

lemma join_Cons: "xs \<noteq> [] \<Longrightarrow> join sep (x # xs) = x @ sep @ join sep xs"
  by (cases xs) auto

lemma split_on_not_Nil [simp]: "split_on d s \<noteq> []"
  by (induction s) (auto split: list.splits)

lemma split_on_no_delim: "d \<notin> set s \<Longrightarrow> split_on d s = [s]"
  by (induction s) auto

lemma split_on_append: "d \<notin> set s \<Longrightarrow> split_on d (s @ d # t) = s # split_on d t"
  by (induction s) auto

lemma split_on_append_last:
  "split_on d (s @ d # t) = split_on d s @ split_on d t"
  by (induction s) (auto split: list.splits)

lemma split_on_pieces: "p \<in> set (split_on d s) \<Longrightarrow> d \<notin> set p"
  by (induction s arbitrary: p) (auto split: list.splits if_splits)

text \<open>Splitting at the delimiter undoes joining fields that do not hold it.\<close>

lemma split_on_join:
  assumes "xs \<noteq> []" and "\<forall>x\<in>set xs. d \<notin> set x"
  shows "split_on d (join [d] xs) = xs"
  using assms
proof (induction xs)
  case (Cons x xs)
  show ?case
  proof (cases "xs = []")
    case True
    with Cons.prems show ?thesis by (simp add: split_on_no_delim)
  next
    case False
    with Cons show ?thesis by (simp add: join_Cons split_on_append)
  qed
qed simp

lemma set_join_subset: "set (join sep xs) \<subseteq> set sep \<union> \<Union>(set ` set xs)"
  by (induction sep xs rule: join.induct) auto

subsection \<open>Lines\<close>

definition newline :: char where
  "newline = CHR 0x0A"

definition carriage_return :: char where
  "carriage_return = CHR 0x0D"

lemma newline_neq_cr [simp]: "newline \<noteq> carriage_return" "carriage_return \<noteq> newline"
  by (simp_all add: newline_def carriage_return_def)

definition strip_cr :: "string \<Rightarrow> string" where
  "strip_cr l = (if l \<noteq> [] \<and> last l = carriage_return then butlast l else l)"

text \<open>
  \<^verbatim>\<open>str::lines\<close>: the pieces between newlines, a final empty piece dropped, one carriage
  return dropped before each newline.
\<close>

definition lines :: "string \<Rightarrow> string list" where
  "lines s =
     (let ps = split_on newline s
      in map strip_cr (butlast ps) @ (if last ps = [] then [] else [last ps]))"

definition ends_with_newline :: "string \<Rightarrow> bool" where
  "ends_with_newline s \<longleftrightarrow> s = [] \<or> last s = newline"

lemma lines_Nil [simp]: "lines [] = []"
  by (simp add: lines_def)

lemma last_split_on_newline:
  "ends_with_newline s \<Longrightarrow> last (split_on newline s) = []"
proof (induction s)
  case (Cons c s)
  then show ?case
    by (cases s) (auto simp: ends_with_newline_def split: list.splits if_splits)
qed simp

text \<open>Appending one clean line to a file that ends with a newline adds exactly that line.\<close>

lemma lines_append_line:
  assumes fin: "ends_with_newline s" and nl: "newline \<notin> set l" and cr: "carriage_return \<notin> set l"
  shows "lines (s @ l @ [newline]) = lines s @ [l]"
proof -
  have strip: "strip_cr l = l"
    using cr unfolding strip_cr_def by (metis last_in_set)
  have split_l: "split_on newline (l @ [newline]) = [l, []]"
    using nl by (simp add: split_on_append)
  show ?thesis
  proof (cases "s = []")
    case True
    then show ?thesis using split_l strip by (simp add: lines_def)
  next
    case False
    with fin obtain s' where s: "s = s' @ [newline]"
      by (metis append_butlast_last_id ends_with_newline_def)
    have "split_on newline (s' @ newline # l @ [newline]) =
        split_on newline s' @ [l, []]"
      using nl by (simp add: split_on_append_last split_on_no_delim)
    moreover have "split_on newline s = split_on newline s' @ [[]]"
      by (simp add: s split_on_append_last)
    ultimately show ?thesis
      using strip by (simp add: lines_def s butlast_append)
  qed
qed

lemma ends_with_newline_append_line [simp]: "ends_with_newline (s @ l @ [newline])"
  by (simp add: ends_with_newline_def)

lemma ends_with_newline_Nil [simp]: "ends_with_newline []"
  by (simp add: ends_with_newline_def)

section \<open>Trimming\<close>

text \<open>
  The UTF-8 encodings of the characters with the \<^verbatim>\<open>White_Space\<close> property, which
  \<^verbatim>\<open>char::is_whitespace\<close> tests.
\<close>

definition utf8_bytes :: "nat list \<Rightarrow> string" where
  "utf8_bytes ns = map char_of ns"

definition whitespace :: "string list" where
  "whitespace = map utf8_bytes
     ([[9], [10], [11], [12], [13], [32], [194, 133], [194, 160], [225, 154, 128]] @
      map (\<lambda>n. [226, 128, n]) [128..<139] @
      [[226, 128, 168], [226, 128, 169], [226, 128, 175], [226, 129, 159], [227, 128, 128]])"

fun strip_prefix_of :: "string list \<Rightarrow> string \<Rightarrow> string option" where
  "strip_prefix_of [] s = None"
| "strip_prefix_of (w # ws) s =
     (if w \<noteq> [] \<and> prefix w s then Some (drop (length w) s) else strip_prefix_of ws s)"

lemma strip_prefix_of_shorter: "strip_prefix_of ws s = Some t \<Longrightarrow> length t < length s"
proof (induction ws)
  case (Cons w ws)
  then show ?case
    by (auto split: if_splits dest: prefix_length_le simp: Suc_le_eq)
      (metis One_nat_def Suc_leI diff_less length_greater_0_conv prefix_bot.extremum_uniqueI)+
qed simp

function trim_with :: "string list \<Rightarrow> string \<Rightarrow> string" where
  "trim_with ws s = (case strip_prefix_of ws s of None \<Rightarrow> s | Some t \<Rightarrow> trim_with ws t)"
  by pat_completeness auto
termination
  by (relation "measure (\<lambda>(ws, s). length s)") (auto dest: strip_prefix_of_shorter)

declare trim_with.simps [simp del]

definition trim_start :: "string \<Rightarrow> string" where
  "trim_start s = trim_with whitespace s"

definition trim_end :: "string \<Rightarrow> string" where
  "trim_end s = rev (trim_with (map rev whitespace) (rev s))"

definition trim :: "string \<Rightarrow> string" where
  "trim s = trim_end (trim_start s)"

lemma trim_with_Nil [simp, rust_str]: "trim_with ws [] = []"
proof -
  have "strip_prefix_of ws [] = None" by (induction ws) auto
  then show ?thesis by (simp add: trim_with.simps)
qed

lemma trim_Nil [simp]: "trim [] = []"
  by (simp add: trim_def trim_start_def trim_end_def)

text \<open>A text that starts and ends with a visible ASCII character is left alone.\<close>

definition graphic :: "char \<Rightarrow> bool" where
  "graphic c \<longleftrightarrow> 33 \<le> byte c \<and> byte c \<le> 126"

lemma strip_prefix_of_None:
  "\<forall>w\<in>set ws. w \<noteq> [] \<longrightarrow> hd w \<noteq> c \<Longrightarrow> strip_prefix_of ws (c # s) = None"
proof (induction ws)
  case (Cons w ws)
  then show ?case by (cases w) auto
qed simp

lemma trim_with_id:
  "\<forall>w\<in>set ws. w \<noteq> [] \<longrightarrow> hd w \<noteq> c \<Longrightarrow> trim_with ws (c # s) = c # s"
  by (simp add: trim_with.simps strip_prefix_of_None)

lemma whitespace_not_graphic:
  "\<forall>w\<in>set whitespace. w \<noteq> [] \<and> \<not> graphic (hd w) \<and> \<not> graphic (last w)"
  by (auto simp: whitespace_def utf8_bytes_def graphic_def byte_def)

lemma trim_graphic:
  assumes "s \<noteq> []" and "graphic (hd s)" and "graphic (last s)"
  shows "trim s = s"
proof -
  obtain c t where s: "s = c # t" using assms(1) by (cases s) auto
  have start: "trim_start s = s"
    using whitespace_not_graphic assms(2) unfolding trim_start_def s
    by (intro trim_with_id) auto
  obtain d u where r: "rev s = d # u" using assms(1) by (cases "rev s") auto
  then have d: "graphic d" using assms(1,3) by (metis hd_rev list.sel(1))
  have "trim_with (map rev whitespace) (d # u) = d # u"
    using whitespace_not_graphic d by (intro trim_with_id) (auto simp: hd_rev)
  then have "trim_end s = rev (rev s)" by (simp add: trim_end_def r)
  then show ?thesis by (simp add: trim_def start)
qed

section \<open>Decimal integers\<close>

definition digit_char :: "nat \<Rightarrow> char" where
  "digit_char d = char_of (48 + d)"

definition digit_val :: "char \<Rightarrow> nat option" where
  "digit_val c = (if 48 \<le> byte c \<and> byte c \<le> 57 then Some (byte c - 48) else None)"

fun show_nat :: "nat \<Rightarrow> string" where
  "show_nat n = (if n < 10 then [digit_char n] else show_nat (n div 10) @ [digit_char (n mod 10)])"

declare show_nat.simps [simp del]

fun parse_digits :: "nat \<Rightarrow> string \<Rightarrow> nat option" where
  "parse_digits acc [] = Some acc"
| "parse_digits acc (c # s) =
     (case digit_val c of None \<Rightarrow> None | Some d \<Rightarrow> parse_digits (acc * 10 + d) s)"

text \<open>
  \<^verbatim>\<open>str::parse\<close> at an unsigned integer type of \<open>w\<close> bits: an optional \<open>+\<close>, at least one
  digit, digits only, no overflow.
\<close>

definition parse_uint :: "nat \<Rightarrow> string \<Rightarrow> nat option" where
  "parse_uint w s =
     (let ds = (case s of c # t \<Rightarrow> if c = CHR ''+'' then t else s | [] \<Rightarrow> [])
      in if ds = [] then None
         else case parse_digits 0 ds of
           None \<Rightarrow> None
         | Some n \<Rightarrow> if n < 2 ^ w then Some n else None)"

lemma byte_digit_char: "d < 10 \<Longrightarrow> byte (digit_char d) = 48 + d"
  by (simp add: byte_def digit_char_def)

lemma digit_val_digit_char [simp]: "d < 10 \<Longrightarrow> digit_val (digit_char d) = Some d"
  by (simp add: digit_val_def byte_digit_char)

lemma parse_digits_append:
  "parse_digits acc (s @ t) =
     (case parse_digits acc s of None \<Rightarrow> None | Some n \<Rightarrow> parse_digits n t)"
  by (induction s arbitrary: acc) (auto split: option.splits)

lemma parse_digits_show_nat: "parse_digits 0 (show_nat n) = Some n"
proof (induction n rule: show_nat.induct)
  case (1 n)
  show ?case
  proof (cases "n < 10")
    case True
    then show ?thesis by (simp add: show_nat.simps [of n])
  next
    case False
    with 1 show ?thesis by (simp add: show_nat.simps [of n] parse_digits_append)
  qed
qed

lemma show_nat_bytes: "c \<in> set (show_nat n) \<Longrightarrow> 48 \<le> byte c \<and> byte c \<le> 57"
proof (induction n rule: show_nat.induct)
  case (1 n)
  then show ?case
    by (cases "n < 10") (auto simp: show_nat.simps [of n] byte_digit_char)
qed

lemma show_nat_not_Nil [simp]: "show_nat n \<noteq> []"
  by (simp add: show_nat.simps [of n])

lemma show_nat_no_char: "byte c < 48 \<or> 57 < byte c \<Longrightarrow> c \<notin> set (show_nat n)"
  using show_nat_bytes [of c n] by auto

text \<open>Parsing undoes printing, for every value of the type.\<close>

lemma parse_uint_show_nat:
  assumes "n < 2 ^ w"
  shows "parse_uint w (show_nat n) = Some n"
proof -
  have "CHR ''+'' \<notin> set (show_nat n)"
    by (rule show_nat_no_char) (simp add: byte_def)
  then have "(case show_nat n of c # t \<Rightarrow> if c = CHR ''+'' then t else show_nat n | [] \<Rightarrow> []) =
      show_nat n"
    by (cases "show_nat n") auto
  then show ?thesis
    using assms by (simp add: parse_uint_def parse_digits_show_nat)
qed

definition show_word :: "'a::len word \<Rightarrow> string" where
  "show_word x = show_nat (unat x)"

definition parse_word :: "string \<Rightarrow> 'a::len word option" where
  "parse_word s = map_option word_of_nat (parse_uint LENGTH('a) s)"

lemma parse_word_show_word [simp]: "parse_word (show_word x) = Some x"
  by (simp add: parse_word_def show_word_def parse_uint_show_nat)

definition show_bool :: "bool \<Rightarrow> string" where
  "show_bool b = (if b then ''true'' else ''false'')"

section \<open>The hex crate\<close>

text \<open>
  \<^verbatim>\<open>hex::encode\<close> and \<^verbatim>\<open>hex::decode\<close> are a third-party crate: the definitions that call
  them take them as arguments. This is what the crate documents and the ledgers rely on:
  the encoding of every byte sequence decodes to it, and consists of lowercase hexadecimal
  digits.
\<close>

definition hex_digit :: "char \<Rightarrow> bool" where
  "hex_digit c \<longleftrightarrow> 48 \<le> byte c \<and> byte c \<le> 57 \<or> 97 \<le> byte c \<and> byte c \<le> 102"

definition hex_crate :: "(string \<Rightarrow> string) \<Rightarrow> (string \<Rightarrow> string option) \<Rightarrow> bool" where
  "hex_crate henc hdec \<longleftrightarrow>
     (\<forall>s. hdec (henc s) = Some s) \<and> (\<forall>s. list_all hex_digit (henc s))"

lemma hex_digit_not:
  assumes "list_all hex_digit s"
  shows "CHR ''|'' \<notin> set s" "CHR '':'' \<notin> set s" "newline \<notin> set s" "carriage_return \<notin> set s"
  using assms by (auto simp: list_all_iff hex_digit_def byte_def newline_def carriage_return_def)

lemma hex_digit_ascii: "list_all hex_digit s \<Longrightarrow> list_all is_ascii s"
  by (auto simp: list_all_iff hex_digit_def is_ascii_def)

lemma hex_crate_decode [simp]: "hex_crate henc hdec \<Longrightarrow> hdec (henc s) = Some s"
  by (simp add: hex_crate_def)

lemma hex_crate_digits: "hex_crate henc hdec \<Longrightarrow> list_all hex_digit (henc s)"
  by (simp add: hex_crate_def)

text \<open>An instance of the contract: two lowercase digits per byte.\<close>

definition nibble_char :: "nat \<Rightarrow> char" where
  "nibble_char n = (if n < 10 then char_of (48 + n) else char_of (87 + n))"

definition nibble_val :: "char \<Rightarrow> nat option" where
  "nibble_val c =
     (if 48 \<le> byte c \<and> byte c \<le> 57 then Some (byte c - 48)
      else if 97 \<le> byte c \<and> byte c \<le> 102 then Some (byte c - 87)
      else None)"

fun hex_encode :: "string \<Rightarrow> string" where
  "hex_encode [] = []"
| "hex_encode (c # s) =
     nibble_char (byte c div 16) # nibble_char (byte c mod 16) # hex_encode s"

fun hex_decode :: "string \<Rightarrow> string option" where
  "hex_decode [] = Some []"
| "hex_decode [c] = None"
| "hex_decode (a # b # s) =
     (case (nibble_val a, nibble_val b, hex_decode s) of
        (Some x, Some y, Some t) \<Rightarrow> Some (char_of (16 * x + y) # t)
      | _ \<Rightarrow> None)"

lemma byte_less: "byte c < 256"
  by (simp add: byte_def)

lemma nibble_val_char [simp]: "n < 16 \<Longrightarrow> nibble_val (nibble_char n) = Some n"
  by (auto simp: nibble_val_def nibble_char_def byte_def)

lemma hex_digit_nibble_char: "n < 16 \<Longrightarrow> hex_digit (nibble_char n)"
  by (auto simp: hex_digit_def nibble_char_def byte_def)

lemma hex_crate_instance: "hex_crate hex_encode hex_decode"
proof -
  have hi: "byte c div 16 < 16" for c
    using byte_less [of c] by simp
  have "hex_decode (hex_encode s) = Some s" for s
    by (induction s) (simp_all add: hi, simp add: byte_def)
  moreover have "list_all hex_digit (hex_encode s)" for s
    by (induction s) (simp_all add: hi hex_digit_nibble_char)
  ultimately show ?thesis by (simp add: hex_crate_def)
qed

text \<open>\<^verbatim>\<open>{:016x}\<close>.\<close>

definition show_hex16 :: "64 word \<Rightarrow> string" where
  "show_hex16 w = map (\<lambda>i. nibble_char (unat w div 16 ^ i mod 16)) (rev [0..<16])"

section \<open>Splitting at a text, replacing, words\<close>

text \<open>\<^verbatim>\<open>str::split\<close> at a non-empty text.\<close>

lemma find_str_length: "find_str s d = Some i \<Longrightarrow> i \<le> length s"
  by (induction s arbitrary: i) (auto split: if_splits)

function split_str :: "string \<Rightarrow> string \<Rightarrow> string list" where
  "split_str d s =
     (if d = [] then [s]
      else case find_str s d of
        None \<Rightarrow> [s]
      | Some i \<Rightarrow> if length s < i + length d then [s]
                  else take i s # split_str d (drop (i + length d) s))"
  by pat_completeness auto
termination
  by (relation "measure (\<lambda>(d, s). length s)") (auto simp: not_less neq_Nil_conv)

declare split_str.simps [simp del]

text \<open>\<^verbatim>\<open>str::replace\<close> of a non-empty text.\<close>

definition str_replace :: "string \<Rightarrow> string \<Rightarrow> string \<Rightarrow> string" where
  "str_replace s pat rep = join rep (split_str pat s)"

text \<open>\<^verbatim>\<open>str::split_whitespace\<close>.\<close>

fun take_word :: "string \<Rightarrow> string \<times> string" where
  "take_word [] = ([], [])"
| "take_word (c # s) =
     (if strip_prefix_of whitespace (c # s) \<noteq> None then ([], c # s)
      else (case take_word s of (w, r) \<Rightarrow> (c # w, r)))"

lemma take_word_append: "take_word s = (w, r) \<Longrightarrow> s = w @ r"
  by (induction s arbitrary: w r) (auto split: if_splits prod.splits)

lemma trim_with_le: "length (trim_with ws s) \<le> length s"
proof (induction ws s rule: trim_with.induct)
  case (1 ws s)
  show ?case
  proof (cases "strip_prefix_of ws s")
    case None
    then show ?thesis by (subst trim_with.simps) simp
  next
    case (Some t)
    then have "length (trim_with ws t) \<le> length t" "length t < length s"
      by (rule 1, rule strip_prefix_of_shorter)
    moreover have "trim_with ws s = trim_with ws t" using Some by (subst trim_with.simps) simp
    ultimately show ?thesis by simp
  qed
qed

lemma take_word_rest:
  assumes "take_word (trim_start s) = (c # w, r)"
  shows "length r < length s"
  using take_word_append [OF assms] trim_with_le [of whitespace s]
  by (simp add: trim_start_def)

function split_whitespace :: "string \<Rightarrow> string list" where
  "split_whitespace s =
     (case take_word (trim_start s) of
        ([], r) \<Rightarrow> []
      | (c # w, r) \<Rightarrow> (c # w) # split_whitespace r)"
  by pat_completeness auto
termination
  by (relation "measure length") (auto intro: take_word_rest dest: sym)

declare split_whitespace.simps [simp del]

end
