(* ===== verification/IR.thy ===== *)
theory IR
  imports Rust_Strings
begin

text \<open>
  The intermediate representation of \<^verbatim>\<open>NoumenonCore/src/ir.rs\<close>: the request the kernel is
  given (identity, intent, plan, constraints, verification spec, supply-chain envelope,
  reproducible closure) and the record it answers with. A field carries a short prefix of
  its struct, since the structs share field names; the order is the source's.
\<close>

record IdentityContext =
  id_principal :: string
  id_tenant_id :: string
  id_workspace :: string
  id_signature :: string

record Intent =
  in_operation :: string
  in_payload :: string

datatype StepAction = CapabilityCall | Transform | Verify | Branch

datatype RuntimeIsland = Trusted | Wasm | Ffi | Plugin

fun requires_hardening :: "RuntimeIsland \<Rightarrow> bool" where
  "requires_hardening Trusted = False"
| "requires_hardening Wasm = True"
| "requires_hardening Ffi = True"
| "requires_hardening Plugin = True"

fun debug_island :: "RuntimeIsland \<Rightarrow> string" where
  "debug_island Trusted = ''Trusted''"
| "debug_island Wasm = ''Wasm''"
| "debug_island Ffi = ''Ffi''"
| "debug_island Plugin = ''Plugin''"

record HardeningPolicy =
  hp_hardening_profile :: "string option"
  hp_syscall_policy_ref :: "string option"
  hp_syscall_allowlist :: "string list"
  hp_seccomp_profile_ref :: "string option"
  hp_enforce_namespace_isolation :: bool
  hp_enforce_cgroup_isolation :: bool
  hp_enforce_fs_isolation :: bool
  hp_enforce_network_isolation :: bool
  hp_max_runtime_ms :: "u64 option"
  hp_max_memory_mb :: "u32 option"
  hp_max_cpu_units :: "u32 option"

definition default_hardening :: HardeningPolicy where
  "default_hardening =
     \<lparr> hp_hardening_profile = None, hp_syscall_policy_ref = None, hp_syscall_allowlist = [],
       hp_seccomp_profile_ref = None, hp_enforce_namespace_isolation = False,
       hp_enforce_cgroup_isolation = False, hp_enforce_fs_isolation = False,
       hp_enforce_network_isolation = False, hp_max_runtime_ms = None,
       hp_max_memory_mb = None, hp_max_cpu_units = None \<rparr>"

record FailurePolicy =
  fp_retry_max :: u8
  fp_allow_degrade :: bool
  fp_rollback_on_fail :: bool

definition default_failure_policy :: FailurePolicy where
  "default_failure_policy =
     \<lparr> fp_retry_max = 0, fp_allow_degrade = False, fp_rollback_on_fail = True \<rparr>"

record ExecutionStep =
  st_step_id :: string
  st_action :: StepAction
  st_capability_ref :: "string option"
  st_runtime_island :: RuntimeIsland
  st_hardening :: HardeningPolicy
  st_input :: string
  st_dependencies :: "string list"
  st_local_constraints :: "string \<rightharpoonup> string"
  st_failure_policy :: FailurePolicy

record ExecutionPlan =
  pl_plan_id :: string
  pl_version :: u32
  pl_strategy :: string
  pl_steps :: "ExecutionStep list"

record ConstraintSet =
  cs_max_runtime_ms :: u64
  cs_max_cpu_units :: u32
  cs_max_memory_mb :: u32
  cs_policy_refs :: "string list"

record VerificationSpec =
  vs_verify_environment :: bool
  vs_verify_identity :: bool
  vs_validate_output :: bool
  vs_trust_level :: string

record SupplyChainEnvelope =
  sc_executor_digest :: string
  sc_verifier_digest :: string
  sc_policy_bundle_digest :: string
  sc_capability_package_digest :: string
  sc_provenance_digest :: string
  sc_signer_identity_ref :: string
  sc_signer_oidc_issuer :: string
  sc_rekor_url :: string
  sc_rekor_log_ref :: string
  sc_rekor_inclusion_proof :: string
  sc_provenance_type :: string

record ReproducibleClosure =
  cl_flake_ref :: string
  cl_flake_lock_digest :: string
  cl_derivation_digest :: string
  cl_store_paths :: "string list"
  cl_runtime_closure_hash :: string
  cl_generation_id :: string
  cl_profile_id :: string
  cl_config_digest :: string

record TraceContext =
  tc_trace_id :: string
  tc_parent_execution_id :: "string option"
  tc_submitted_at_ms :: u128

record TrustedExecutionRequest =
  rq_execution_id :: string
  rq_identity :: IdentityContext
  rq_intent :: Intent
  rq_plan :: ExecutionPlan
  rq_constraints :: ConstraintSet
  rq_verification_spec :: VerificationSpec
  rq_supply_chain :: SupplyChainEnvelope
  rq_closure :: ReproducibleClosure
  rq_trace_context :: TraceContext

record StepRecord =
  sr_step_id :: string
  sr_capability_ref :: "string option"
  sr_input_digest :: string
  sr_output_digest :: string
  sr_success :: bool
  sr_error :: "string option"
  sr_cost_units :: u64
  sr_timestamp_ms :: u128

record FingerprintMaterial =
  fm_flake_lock_digest :: string
  fm_derivation_digest :: string
  fm_canonical_store_paths :: "string list"
  fm_store_paths_digest :: string
  fm_runtime_closure_hash :: string
  fm_policy_bundle_digest :: string
  fm_wasm_plugin_digest :: string
  fm_verifier_digest :: string
  fm_config_digest :: string
  fm_generation_id :: string

definition default_fingerprint_material :: FingerprintMaterial where
  "default_fingerprint_material =
     \<lparr> fm_flake_lock_digest = [], fm_derivation_digest = [], fm_canonical_store_paths = [],
       fm_store_paths_digest = [], fm_runtime_closure_hash = [], fm_policy_bundle_digest = [],
       fm_wasm_plugin_digest = [], fm_verifier_digest = [], fm_config_digest = [],
       fm_generation_id = [] \<rparr>"

record EvidenceBundle =
  eb_evidence_record_ids :: "string list"
  eb_execution_fingerprint :: string
  eb_fingerprint_material :: FingerprintMaterial
  eb_mismatch_explanation :: "string option"

record LedgerRefs =
  lr_budget_account_id :: string
  lr_evidence_stream_id :: string

record ExecutionRecord =
  er_execution_id :: string
  er_final_status :: string
  er_final_output :: "string option"
  er_step_records :: "StepRecord list"
  er_evidence_bundle :: EvidenceBundle
  er_ledger_refs :: LedgerRefs

abbreviation steps :: "TrustedExecutionRequest \<Rightarrow> ExecutionStep list" where
  "steps request \<equiv> pl_steps (rq_plan request)"

abbreviation record_fingerprint :: "ExecutionRecord \<Rightarrow> string" where
  "record_fingerprint rec \<equiv> eb_execution_fingerprint (er_evidence_bundle rec)"

abbreviation record_material :: "ExecutionRecord \<Rightarrow> FingerprintMaterial" where
  "record_material rec \<equiv> eb_fingerprint_material (er_evidence_bundle rec)"

text \<open>Exactly the islands other than \<open>Trusted\<close> are high-risk.\<close>

lemma requires_hardening_iff: "requires_hardening i \<longleftrightarrow> i \<noteq> Trusted"
  by (cases i) auto

end
