(* ===== verification/Samples.thy ===== *)
theory Samples
  imports IR
begin

text \<open>
  Concrete requests, built like the fixtures of the kernel's tests
  (\<^verbatim>\<open>NoumenonCore/tests\<close>): the inputs at which theorems with hypotheses are applied.
\<close>

definition sample_step :: "string \<Rightarrow> string \<Rightarrow> string \<Rightarrow> ExecutionStep" where
  "sample_step sid cap input =
     \<lparr> st_step_id = sid, st_action = CapabilityCall, st_capability_ref = Some cap,
       st_runtime_island = Trusted, st_hardening = default_hardening, st_input = input,
       st_dependencies = [], st_local_constraints = Map.empty,
       st_failure_policy = default_failure_policy \<rparr>"

definition sample_closure :: ReproducibleClosure where
  "sample_closure =
     \<lparr> cl_flake_ref = ''flake'', cl_flake_lock_digest = ''lock'', cl_derivation_digest = ''drv'',
       cl_store_paths = [''/nix/b'', ''/nix/a''], cl_runtime_closure_hash = ''closure'',
       cl_generation_id = ''gen-1'', cl_profile_id = ''profile'', cl_config_digest = ''config'' \<rparr>"

definition sample_supply_chain :: SupplyChainEnvelope where
  "sample_supply_chain =
     \<lparr> sc_executor_digest = ''executor'', sc_verifier_digest = ''verifier'',
       sc_policy_bundle_digest = ''policy'', sc_capability_package_digest = ''package'',
       sc_provenance_digest = ''provenance'', sc_signer_identity_ref = ''signer'',
       sc_signer_oidc_issuer = ''issuer'', sc_rekor_url = ''https://rekor'',
       sc_rekor_log_ref = ''rekor'', sc_rekor_inclusion_proof = ''proof'',
       sc_provenance_type = ''slsa'' \<rparr>"

definition sample_identity :: IdentityContext where
  "sample_identity =
     \<lparr> id_principal = ''user'', id_tenant_id = ''acme'', id_workspace = ''ws'',
       id_signature = ''sig'' \<rparr>"

definition sample_request :: "string \<Rightarrow> ExecutionStep list \<Rightarrow> TrustedExecutionRequest" where
  "sample_request eid ss =
     \<lparr> rq_execution_id = eid,
       rq_identity = sample_identity,
       rq_intent = \<lparr> in_operation = ''run'', in_payload = ''payload'' \<rparr>,
       rq_plan = \<lparr> pl_plan_id = ''plan'', pl_version = 1, pl_strategy = ''seq'', pl_steps = ss \<rparr>,
       rq_constraints = \<lparr> cs_max_runtime_ms = 1000, cs_max_cpu_units = 4, cs_max_memory_mb = 64,
                          cs_policy_refs = [''policy''] \<rparr>,
       rq_verification_spec = \<lparr> vs_verify_environment = True, vs_verify_identity = True,
                                vs_validate_output = True, vs_trust_level = ''hard'' \<rparr>,
       rq_supply_chain = sample_supply_chain,
       rq_closure = sample_closure,
       rq_trace_context = \<lparr> tc_trace_id = ''trace'', tc_parent_execution_id = None,
                            tc_submitted_at_ms = 1 \<rparr> \<rparr>"

lemma sample_request_simps [simp]:
  "rq_execution_id (sample_request eid ss) = eid"
  "steps (sample_request eid ss) = ss"
  by (simp_all add: sample_request_def)

end
