(* ===== verification/Syscall.thy ===== *)
theory Syscall
  imports Rust_Strings
begin

text \<open>
  The syscall queue and scheduler of \<^verbatim>\<open>NoumenonCore/src/syscall.rs\<close>: requests numbered on
  submission, served highest priority first and oldest first within a priority. The queue
  trait is the locale \<open>syscall_queue\<close>; the \<^verbatim>\<open>VecDeque\<close> of the in-memory queue is a list.
\<close>

datatype SyscallKind = KindCapabilityCall

record SyscallRequest =
  sy_syscall_id :: u64
  sy_step_id :: string
  sy_kind :: SyscallKind
  sy_capability :: string
  sy_input :: string
  sy_priority :: u8
  sy_seq :: u64

record SyscallResponse =
  sp_syscall_id :: u64
  sp_step_id :: string
  sp_output :: string
  sp_cost_units :: u64

section \<open>The in-memory queue\<close>

type_synonym InMemorySyscallQueue = "SyscallRequest list"

definition enqueue :: "InMemorySyscallQueue \<Rightarrow> SyscallRequest \<Rightarrow> unit result \<times> InMemorySyscallQueue" where
  "enqueue q req = (Ok (), q @ [req])"

text \<open>One iteration's test: does the item replace the best one so far?\<close>

definition replaces :: "SyscallRequest \<Rightarrow> SyscallRequest \<Rightarrow> bool" where
  "replaces item best \<longleftrightarrow>
     (let higher = sy_priority item > sy_priority best;
          equal_older = sy_priority item = sy_priority best \<and> sy_seq item < sy_seq best
      in higher \<or> equal_older)"

text \<open>The loop over \<^verbatim>\<open>q.iter().enumerate()\<close>: the items from index \<open>i\<close> on remain.\<close>

fun scan_best :: "SyscallRequest list \<Rightarrow> nat \<Rightarrow> SyscallRequest list \<Rightarrow> nat \<Rightarrow> nat" where
  "scan_best q i [] best_idx = best_idx"
| "scan_best q i (item # rest) best_idx =
     scan_best q (Suc i) rest (if replaces item (q ! best_idx) then i else best_idx)"

definition dequeue :: "InMemorySyscallQueue \<Rightarrow> SyscallRequest option \<times> InMemorySyscallQueue" where
  "dequeue q =
     (if q = [] then (None, q)
      else let best_idx = scan_best q 0 q 0
           in (Some (q ! best_idx), take best_idx q @ drop (Suc best_idx) q))"

definition queue_is_empty :: "InMemorySyscallQueue \<Rightarrow> bool" where
  "queue_is_empty q \<longleftrightarrow> q = []"

section \<open>The order of service\<close>

text \<open>Priority descending, then sequence number ascending, as a linear order of keys.\<close>

datatype sched_key = SchedKey u8 u64

instantiation sched_key :: linorder
begin

fun less_eq_sched_key :: "sched_key \<Rightarrow> sched_key \<Rightarrow> bool" where
  "less_eq_sched_key (SchedKey p s) (SchedKey p' s') \<longleftrightarrow> p > p' \<or> p = p' \<and> s \<le> s'"

fun less_sched_key :: "sched_key \<Rightarrow> sched_key \<Rightarrow> bool" where
  "less_sched_key (SchedKey p s) (SchedKey p' s') \<longleftrightarrow> p > p' \<or> p = p' \<and> s < s'"

instance
proof
  fix x y z :: sched_key
  show "x < y \<longleftrightarrow> x \<le> y \<and> \<not> y \<le> x" by (cases x; cases y) auto
  show "x \<le> x" by (cases x) auto
  show "x \<le> y \<Longrightarrow> y \<le> z \<Longrightarrow> x \<le> z" by (cases x; cases y; cases z) auto
  show "x \<le> y \<Longrightarrow> y \<le> x \<Longrightarrow> x = y" by (cases x; cases y) auto
  show "x \<le> y \<or> y \<le> x" by (cases x; cases y) auto
qed

end

definition sched_key :: "SyscallRequest \<Rightarrow> sched_key" where
  "sched_key r = SchedKey (sy_priority r) (sy_seq r)"

lemma replaces_iff: "replaces a b \<longleftrightarrow> sched_key a < sched_key b"
  by (simp add: replaces_def sched_key_def Let_def)

lemma scan_best_correct:
  assumes "drop i q = rest" and "b < i \<or> (i = 0 \<and> b = 0)" and "i \<le> length q" and "q \<noteq> []"
    and "\<forall>j<i. sched_key (q ! b) \<le> sched_key (q ! j)"
    and "\<forall>j<b. sched_key (q ! b) < sched_key (q ! j)"
  shows "scan_best q i rest b < length q \<and>
         (\<forall>j<length q. sched_key (q ! scan_best q i rest b) \<le> sched_key (q ! j)) \<and>
         (\<forall>j. j < scan_best q i rest b \<longrightarrow> sched_key (q ! scan_best q i rest b) < sched_key (q ! j))"
  using assms
proof (induction rest arbitrary: i b)
  case Nil
  then have "i = length q" by simp
  with Nil show ?case by auto
next
  case (Cons x rest)
  have i: "i < length q"
    using Cons.prems(1) by (metis drop_all leI list.distinct(1))
  with Cons.prems(1) have x: "x = q ! i" and rest: "drop (Suc i) q = rest"
    by (metis Cons_nth_drop_Suc list.inject)+
  let ?b = "if replaces x (q ! b) then i else b"
  have all: "\<forall>j<Suc i. sched_key (q ! ?b) \<le> sched_key (q ! j)"
    using Cons.prems(2,5) by (auto simp: replaces_iff x less_Suc_eq intro: order.strict_implies_order less_le_trans)
  have first: "\<forall>j<?b. sched_key (q ! ?b) < sched_key (q ! j)"
    using Cons.prems(2,5,6) by (auto simp: replaces_iff x intro: less_le_trans)
  show ?case
    using Cons.IH [OF rest _ _ Cons.prems(4) all first] i Cons.prems(2) by auto
qed

lemma dequeue_best:
  assumes "dequeue q = (Some r, q')"
  shows "r \<in> set q" "q' = remove1 r q" "\<forall>x\<in>set q. sched_key r \<le> sched_key x"
proof -
  let ?b = "scan_best q 0 q 0"
  from assms have ne: "q \<noteq> []" and r: "r = q ! ?b" and q': "q' = take ?b q @ drop (Suc ?b) q"
    by (auto simp: dequeue_def Let_def split: if_splits)
  have "?b < length q \<and> (\<forall>j<length q. sched_key (q ! ?b) \<le> sched_key (q ! j)) \<and>
      (\<forall>j<?b. sched_key (q ! ?b) < sched_key (q ! j))"
    by (rule scan_best_correct) (use ne in auto)
  then have b: "?b < length q" and best: "\<forall>j<length q. sched_key (q ! ?b) \<le> sched_key (q ! j)"
    and first: "\<forall>j<?b. sched_key (q ! ?b) < sched_key (q ! j)" by auto
  show "r \<in> set q" using b by (simp add: r)
  show "\<forall>x\<in>set q. sched_key r \<le> sched_key x" using best by (auto simp: r in_set_conv_nth)
  have "r \<notin> set (take ?b q)"
  proof
    assume "r \<in> set (take ?b q)"
    then obtain j where "j < ?b" "q ! j = r" by (auto simp: in_set_conv_nth)
    with first show False by (auto simp: r)
  qed
  moreover have "q = take ?b q @ r # drop (Suc ?b) q"
    unfolding r using b by (rule id_take_nth_drop)
  ultimately show "q' = remove1 r q"
    unfolding q' by (metis remove1_append remove1.simps(2))
qed

lemma dequeue_None_iff: "fst (dequeue q) = None \<longleftrightarrow> q = []"
  by (simp add: dequeue_def Let_def)

lemma dequeue_shorter: "dequeue q = (Some r, q') \<Longrightarrow> length q' < length q"
  using dequeue_best(1,2) [of q r q'] length_pos_if_in_set [of r q] by (simp add: length_remove1)

lemma sort_key_Cons_min:
  assumes "distinct (map f xs)" and "x \<in> set xs" and "\<forall>y\<in>set xs. f x \<le> f y"
  shows "sort_key f xs = x # sort_key f (remove1 x xs)"
proof (rule sort_key_inj_key_eq)
  show "mset xs = mset (x # sort_key f (remove1 x xs))" using assms(2) by simp
  show "inj_on f (set xs)" using assms(1) by (simp add: distinct_map)
  have "set (remove1 x xs) \<subseteq> set xs" by (rule set_remove1_subset)
  then show "sorted (map f (x # sort_key f (remove1 x xs)))" using assms(3) by auto
qed

section \<open>The queue interface\<close>

text \<open>
  The contract of \<^verbatim>\<open>trait SyscallQueue\<close>: \<open>items\<close> lists what is queued; a dequeued request
  is a best one and leaves exactly the others.
\<close>

locale syscall_queue =
  fixes enq :: "'q \<Rightarrow> SyscallRequest \<Rightarrow> unit result \<times> 'q"
    and deq :: "'q \<Rightarrow> SyscallRequest option \<times> 'q"
    and empty :: "'q \<Rightarrow> bool"
    and items :: "'q \<Rightarrow> SyscallRequest list"
  assumes enq_ok: "fst (enq q r) = Ok ()"
    and enq_items: "items (snd (enq q r)) = items q @ [r]"
    and deq_None: "fst (deq q) = None \<longleftrightarrow> items q = []"
    and deq_Some: "deq q = (Some r, q') \<Longrightarrow>
      r \<in> set (items q) \<and> items q' = remove1 r (items q) \<and>
      (\<forall>x\<in>set (items q). sched_key r \<le> sched_key x)"
    and empty_iff: "empty q \<longleftrightarrow> items q = []"
begin

text \<open>The agenda of a queue whose keys are distinct: what dequeuing serves, in order.\<close>

definition agenda :: "'q \<Rightarrow> SyscallRequest list" where
  "agenda q = sort_key sched_key (items q)"

lemma agenda_Nil: "deq q = (None, q') \<Longrightarrow> agenda q = []"
  using deq_None [of q] by (simp add: agenda_def)

lemma agenda_Cons:
  assumes "distinct (map sched_key (items q))" and "deq q = (Some r, q')"
  shows "agenda q = r # agenda q'" and "distinct (map sched_key (items q'))"
proof -
  from deq_Some [OF assms(2)] have r: "r \<in> set (items q)" and q': "items q' = remove1 r (items q)"
    and best: "\<forall>x\<in>set (items q). sched_key r \<le> sched_key x" by auto
  show "agenda q = r # agenda q'"
    unfolding agenda_def q' by (rule sort_key_Cons_min [OF assms(1) r best])
  from assms(1) r show "distinct (map sched_key (items q'))"
    by (auto simp: q' distinct_map intro: inj_on_subset)
qed

lemma deq_progress: "\<not> empty q \<Longrightarrow> \<exists>r q'. deq q = (Some r, q')"
  using deq_None [of q] empty_iff [of q] by (metis option.exhaust prod.collapse)

end

interpretation mem_queue: syscall_queue enqueue dequeue queue_is_empty "\<lambda>q. q"
proof unfold_locales
  fix q q' :: InMemorySyscallQueue and r :: SyscallRequest
  show "fst (enqueue q r) = Ok ()" "snd (enqueue q r) = q @ [r]"
    by (simp_all add: enqueue_def)
  show "(fst (dequeue q) = None) = (q = [])" by (rule dequeue_None_iff)
  show "dequeue q = (Some r, q') \<Longrightarrow>
      r \<in> set q \<and> q' = remove1 r q \<and> (\<forall>x\<in>set q. sched_key r \<le> sched_key x)"
    using dequeue_best by blast
  show "queue_is_empty q = (q = [])" by (simp add: queue_is_empty_def)
qed

section \<open>The scheduler\<close>

record SyscallScheduler =
  sch_queue :: InMemorySyscallQueue
  sch_counter :: u64

definition new_scheduler :: "InMemorySyscallQueue \<Rightarrow> SyscallScheduler" where
  "new_scheduler q = \<lparr> sch_queue = q, sch_counter = 0 \<rparr>"

text \<open>\<open>oc\<close> says whether the build checks integer overflow.\<close>

definition submit ::
  "bool \<Rightarrow> SyscallScheduler \<Rightarrow> string \<Rightarrow> string \<Rightarrow> string \<Rightarrow> u8 \<Rightarrow> unit result \<times> SyscallScheduler" where
  "submit oc sch step_id capability input prio =
     (case checked_plus oc (sch_counter sch) 1 of
        Inl e \<Rightarrow> (Inl e, sch)
      | Inr c \<Rightarrow>
          (let req = \<lparr> sy_syscall_id = c, sy_step_id = step_id, sy_kind = KindCapabilityCall,
                       sy_capability = capability, sy_input = input, sy_priority = prio,
                       sy_seq = c \<rparr>;
               (r, q) = enqueue (sch_queue sch) req
           in (r, sch\<lparr> sch_counter := c, sch_queue := q \<rparr>)))"

text \<open>The closure handed to \<^verbatim>\<open>drain\<close> may update its captured state \<open>'s\<close>.\<close>

type_synonym 's executor = "SyscallRequest \<Rightarrow> 's \<Rightarrow> (string \<times> u64) result \<times> 's"

definition response :: "SyscallRequest \<Rightarrow> string \<Rightarrow> u64 \<Rightarrow> SyscallResponse" where
  "response req out cost =
     \<lparr> sp_syscall_id = sy_syscall_id req, sp_step_id = sy_step_id req, sp_output = out,
       sp_cost_units = cost \<rparr>"

function drain_loop ::
  "'s executor \<Rightarrow> InMemorySyscallQueue \<Rightarrow> 's \<Rightarrow> SyscallResponse list \<Rightarrow>
     SyscallResponse list result \<times> InMemorySyscallQueue \<times> 's" where
  "drain_loop executor q s out =
     (case dequeue q of
        (None, q') \<Rightarrow> (Ok out, q', s)
      | (Some req, q') \<Rightarrow>
          (case executor req s of
             (Inl e, s') \<Rightarrow> (Inl e, q', s')
           | (Inr (output, cost_units), s') \<Rightarrow>
               drain_loop executor q' s' (out @ [response req output cost_units])))"
  by pat_completeness auto
termination
  by (relation "measure (\<lambda>(ex, q, s, out). length q)") (auto dest: dequeue_shorter [OF sym])

declare drain_loop.simps [simp del]

definition drain ::
  "SyscallScheduler \<Rightarrow> 's executor \<Rightarrow> 's \<Rightarrow>
     SyscallResponse list result \<times> SyscallScheduler \<times> 's" where
  "drain sch executor s =
     (case drain_loop executor (sch_queue sch) s [] of
        (r, q, s') \<Rightarrow> (r, sch\<lparr> sch_queue := q \<rparr>, s'))"

section \<open>Draining serves the agenda\<close>

text \<open>The reference: serve a list of requests in order, stopping at the first error.\<close>

fun serve ::
  "'s executor \<Rightarrow> SyscallRequest list \<Rightarrow> 's \<Rightarrow> SyscallResponse list \<Rightarrow>
     SyscallResponse list result \<times> 's" where
  "serve executor [] s out = (Ok out, s)"
| "serve executor (req # reqs) s out =
     (case executor req s of
        (Inl e, s') \<Rightarrow> (Inl e, s')
      | (Inr (output, cost_units), s') \<Rightarrow>
          serve executor reqs s' (out @ [response req output cost_units]))"

lemma drain_loop_serves:
  assumes "distinct (map sched_key q)"
  shows "(case drain_loop executor q s out of (r, _, s') \<Rightarrow> (r, s')) =
         serve executor (mem_queue.agenda q) s out"
  using assms
proof (induction executor q s out rule: drain_loop.induct)
  case (1 executor q s out)
  show ?case
  proof (cases "dequeue q")
    case (Pair opt q')
    show ?thesis
    proof (cases opt)
      case None
      with Pair mem_queue.agenda_Nil [of q q'] show ?thesis
        by (simp add: drain_loop.simps [of executor q])
    next
      case (Some req)
      with Pair have deq: "dequeue q = (Some req, q')" by simp
      note agenda = mem_queue.agenda_Cons [OF "1.prems" deq]
      show ?thesis
        using "1.IH" [OF deq [symmetric] refl] agenda
        by (auto simp: drain_loop.simps [of executor q] deq split: sum.splits prod.splits)
    qed
  qed
qed

lemma drain_loop_queue_empty:
  "drain_loop executor q s out = (Inr r, q', s') \<Longrightarrow> q' = []"
proof (induction executor q s out rule: drain_loop.induct)
  case (1 executor q s out)
  show ?case
  proof (cases "dequeue q")
    case (Pair opt q1)
    show ?thesis
    proof (cases opt)
      case None
      with Pair have "q1 = []"
        using dequeue_None_iff [of q] by (auto simp: dequeue_def split: if_splits)
      with None Pair "1.prems" show ?thesis by (simp add: drain_loop.simps [of executor q])
    next
      case (Some req)
      with Pair "1" show ?thesis
        by (auto simp: drain_loop.simps [of executor q] split: sum.splits prod.splits)
    qed
  qed
qed

lemma serve_Ok_steps:
  "serve executor reqs s out = (Inr rs, s') \<Longrightarrow>
     map sp_step_id rs = map sp_step_id out @ map sy_step_id reqs"
proof (induction reqs arbitrary: s out)
  case (Cons req reqs)
  then show ?case
    by (fastforce simp: response_def split: sum.splits prod.splits)
qed simp

end
