(* ===== verification/Routing.thy ===== *)
theory Routing
  imports Rust_Strings
begin

text \<open>
  Model routing, \<^verbatim>\<open>NoumenonCore/src/routing.rs\<close>: the candidate list of a step and the choice
  of one candidate, pinned or round robin. The router's cursor (a \<^verbatim>\<open>usize\<close> behind a mutex)
  is threaded through \<open>select\<close>.
\<close>

record LlmBackend =
  be_name :: string
  be_infer :: "string \<Rightarrow> string result"

datatype RoutingStrategy = Sequential | Pinned

record ModelRouter =
  mr_strategy :: RoutingStrategy
  mr_pinned :: "string option"
  mr_cursor :: u64

definition router_sequential :: ModelRouter where
  "router_sequential = \<lparr> mr_strategy = Sequential, mr_pinned = None, mr_cursor = 0 \<rparr>"

definition router_pinned :: "string \<Rightarrow> ModelRouter" where
  "router_pinned model = \<lparr> mr_strategy = Pinned, mr_pinned = Some model, mr_cursor = 0 \<rparr>"

definition select :: "ModelRouter \<Rightarrow> string list \<Rightarrow> string result \<times> ModelRouter" where
  "select self candidates =
     (if candidates = [] then (Err ''no candidate models available'', self)
      else case mr_strategy self of
        Pinned \<Rightarrow>
          (case mr_pinned self of
             None \<Rightarrow> (Err ''pinned model missing'', self)
           | Some p \<Rightarrow>
               if list_ex (\<lambda>c. c = p) candidates then (Ok p, self)
               else (Err ''pinned model not found in candidates'', self))
      | Sequential \<Rightarrow>
          (let idx = unat (mr_cursor self) mod length candidates
           in (Ok (candidates ! idx), self\<lparr> mr_cursor := saturating_add (mr_cursor self) 1 \<rparr>)))"

definition parse_model_candidates :: "(string \<rightharpoonup> string) \<Rightarrow> string list \<Rightarrow> string list" where
  "parse_model_candidates local_constraints all_models =
     (case local_constraints ''model_candidates'' of
        Some raw \<Rightarrow>
          (let v = filter (\<lambda>x. x \<noteq> []) (map trim (split_on (CHR '','') raw))
           in if v \<noteq> [] then v else all_models)
      | None \<Rightarrow> all_models)"

definition echo_backend :: "string \<Rightarrow> LlmBackend" where
  "echo_backend name =
     \<lparr> be_name = name,
       be_infer = (\<lambda>input. Ok (''model='' @ name @ '' output='' @ input)) \<rparr>"

section \<open>Selection\<close>

lemma select_member: "select self candidates = (Inr m, self') \<Longrightarrow> m \<in> set candidates"
  by (auto simp: select_def Let_def list_ex_iff split: if_splits RoutingStrategy.splits option.splits)

lemma parse_model_candidates_nonempty:
  "all_models \<noteq> [] \<Longrightarrow> parse_model_candidates lc all_models \<noteq> []"
  by (auto simp: parse_model_candidates_def Let_def split: option.splits)

text \<open>A run of selections over the same candidates.\<close>

fun select_many :: "ModelRouter \<Rightarrow> string list \<Rightarrow> nat \<Rightarrow> string result list \<times> ModelRouter" where
  "select_many self candidates 0 = ([], self)"
| "select_many self candidates (Suc n) =
     (let (r, self1) = select self candidates;
          (rs, self2) = select_many self1 candidates n
      in (r # rs, self2))"

lemma select_sequential:
  assumes "mr_strategy self = Sequential" and "candidates \<noteq> []" and "unat (mr_cursor self) + 1 < 2 ^ 64"
  shows "select self candidates =
     (Ok (candidates ! (unat (mr_cursor self) mod length candidates)),
      self\<lparr> mr_cursor := mr_cursor self + 1 \<rparr>)"
    and "unat (mr_cursor self + 1) = unat (mr_cursor self) + 1"
  using assms by (auto simp: select_def Let_def saturating_add_def unat_plus_no_overflow)

lemma select_many_sequential:
  assumes "mr_strategy self = Sequential" and "candidates \<noteq> []" and "unat (mr_cursor self) + n < 2 ^ 64"
  shows "fst (select_many self candidates n) =
     map (\<lambda>k. Ok (candidates ! ((unat (mr_cursor self) + k) mod length candidates))) [0..<n]"
  using assms
proof (induction n arbitrary: self)
  case (Suc n)
  let ?next = "self\<lparr> mr_cursor := mr_cursor self + 1 \<rparr>"
  have bound: "unat (mr_cursor self) + 1 < 2 ^ 64" using Suc.prems(3) by simp
  note sel = select_sequential [OF Suc.prems(1,2) bound]
  have "fst (select_many ?next candidates n) =
      map (\<lambda>k. Ok (candidates ! ((unat (mr_cursor ?next) + k) mod length candidates))) [0..<n]"
    by (rule Suc.IH) (use Suc.prems sel(2) in auto)
  then have rest: "fst (select_many ?next candidates n) =
      map (\<lambda>k. Ok (candidates ! ((unat (mr_cursor self) + Suc k) mod length candidates))) [0..<n]"
    using sel(2) by simp
  have upt: "[0..<Suc n] = 0 # map Suc [0..<n]"
    by (simp add: upt_conv_Cons map_Suc_upt del: upt_Suc)
  show ?case
    unfolding upt by (simp add: sel(1) rest Let_def split_beta)
qed simp

section \<open>Properties\<close>

text \<open>
  sequential routing is round robin: from a router whose cursor does not reach the end
  of \<^verbatim>\<open>usize\<close>, \<open>n\<close> selections over the same nonempty candidates return, in order, the
  candidates at cursor, cursor + 1, ... modulo their number, and none of them fails.
\<close>

lemma sequential_router_is_round_robin:
  assumes "mr_strategy router = Sequential" and "candidates \<noteq> []"
    and "unat (mr_cursor router) + n < 2 ^ 64"
  shows "fst (select_many router candidates n) =
     map (\<lambda>k. Ok (candidates ! ((unat (mr_cursor router) + k) mod length candidates))) [0..<n]"
  using assms by (rule select_many_sequential)

lemma sequential_router_is_round_robin_example:
  "fst (select_many router_sequential [''model-a'', ''model-b''] 3) =
     [Ok ''model-a'', Ok ''model-b'', Ok ''model-a'']"
proof -
  have "fst (select_many router_sequential [''model-a'', ''model-b''] 3) =
     map (\<lambda>k. Ok ([''model-a'', ''model-b''] ! ((unat (mr_cursor router_sequential) + k) mod
       length [''model-a'', ''model-b'']))) [0..<3]"
    by (rule sequential_router_is_round_robin) (simp_all add: router_sequential_def)
  then show ?thesis by (simp add: router_sequential_def upt_rec)
qed

end
