(* ===== verification/Execution.thy ===== *)
theory Execution
  imports IR Samples Syscall Routing "HOL-Library.AList"
begin

text \<open>
  The capability registry and the plan executor of \<^verbatim>\<open>NoumenonCore/src/execution.rs\<close>. The
  registry holds the adapters in registration order, the LLM backends (a \<^verbatim>\<open>HashMap\<close>, here the
  list of its entries in iteration order, keys distinct) and the router, whose cursor is the
  only part that execution changes. A plan is run by submitting every step to a fresh
  scheduler and draining it.
\<close>

record CapabilityAdapter =
  ad_capability_name :: string
  ad_execute :: "string \<Rightarrow> string result"

record CapabilityRegistry =
  cr_adapters :: "CapabilityAdapter list"
  cr_llm_backends :: "(string \<times> LlmBackend) list"
  cr_router :: "ModelRouter option"

definition new_registry :: CapabilityRegistry where
  "new_registry = \<lparr> cr_adapters = [], cr_llm_backends = [], cr_router = None \<rparr>"

definition register :: "CapabilityRegistry \<Rightarrow> CapabilityAdapter \<Rightarrow> CapabilityRegistry" where
  "register self adapter = self\<lparr> cr_adapters := cr_adapters self @ [adapter] \<rparr>"

text \<open>\<^verbatim>\<open>HashMap::insert\<close>: replace the entry of the key, or add one.\<close>

definition register_llm_backend :: "CapabilityRegistry \<Rightarrow> LlmBackend \<Rightarrow> CapabilityRegistry" where
  "register_llm_backend self backend =
     self\<lparr> cr_llm_backends := AList.update (be_name backend) backend (cr_llm_backends self) \<rparr>"

definition set_router :: "CapabilityRegistry \<Rightarrow> ModelRouter \<Rightarrow> CapabilityRegistry" where
  "set_router self router = self\<lparr> cr_router := Some router \<rparr>"

definition execute_capability :: "CapabilityRegistry \<Rightarrow> string \<Rightarrow> string \<Rightarrow> string result" where
  "execute_capability self capability input =
     and_then (ok_or (find (\<lambda>a. ad_capability_name a = capability) (cr_adapters self))
                (''capability not found: '' @ capability))
       (\<lambda>adapter. ad_execute adapter input)"

definition execute_llm_routed ::
  "CapabilityRegistry \<Rightarrow> ExecutionStep \<Rightarrow> string \<Rightarrow> string result \<times> CapabilityRegistry" where
  "execute_llm_routed self step input =
     (if cr_llm_backends self = [] then (Err ''no llm backends registered'', self)
      else let all_models = map fst (cr_llm_backends self);
               candidates = parse_model_candidates (st_local_constraints step) all_models
           in case cr_router self of
                None \<Rightarrow> (Err ''model router is not configured'', self)
              | Some router \<Rightarrow>
                  (let (sel, router') = select router candidates;
                       self' = self\<lparr> cr_router := Some router' \<rparr>
                   in (and_then sel (\<lambda>selected.
                         and_then (ok_or (map_of (cr_llm_backends self) selected)
                                    (''selected model backend not found: '' @ selected))
                           (\<lambda>backend. be_infer backend input)), self')))"

definition execute_syscall ::
  "CapabilityRegistry \<Rightarrow> SyscallRequest \<Rightarrow> ExecutionStep \<Rightarrow>
     (string \<times> u64) result \<times> CapabilityRegistry" where
  "execute_syscall self req step =
     (if sy_capability req = ''llm.route'' then
        (let (r, self') = execute_llm_routed self step (sy_input req)
         in (and_then r (\<lambda>out. Ok (out, 2)), self'))
      else (and_then (execute_capability self (sy_capability req) (sy_input req))
              (\<lambda>out. Ok (out, 1)), self))"

record StepExecutionOutput =
  so_step_id :: string
  so_output :: string
  so_cost_units :: u64

section \<open>Running a plan\<close>

definition step_priority :: "ExecutionStep \<Rightarrow> u8" where
  "step_priority step =
     (case st_local_constraints step ''priority'' of
        None \<Rightarrow> 1
      | Some v \<Rightarrow> (case parse_word v of None \<Rightarrow> 1 | Some p \<Rightarrow> p))"

fun submit_steps ::
  "bool \<Rightarrow> ExecutionStep list \<Rightarrow> SyscallScheduler \<Rightarrow> unit result \<times> SyscallScheduler" where
  "submit_steps oc [] sch = (Ok (), sch)"
| "submit_steps oc (step # rest) sch =
     (case st_capability_ref step of
        None \<Rightarrow> (Err (''step '' @ st_step_id step @ '' missing capability_ref''), sch)
      | Some capability \<Rightarrow>
          (case submit oc sch (st_step_id step) capability (st_input step) (step_priority step) of
             (Inl e, sch') \<Rightarrow> (Inl e, sch')
           | (Inr _, sch') \<Rightarrow> submit_steps oc rest sch'))"

definition find_step :: "TrustedExecutionRequest \<Rightarrow> string \<Rightarrow> ExecutionStep option" where
  "find_step request sid = find (\<lambda>s. st_step_id s = sid) (steps request)"

definition plan_executor :: "TrustedExecutionRequest \<Rightarrow> CapabilityRegistry executor" where
  "plan_executor request req registry =
     (case find_step request (sy_step_id req) of
        None \<Rightarrow> (Err (''step not found for syscall: '' @ sy_step_id req), registry)
      | Some step \<Rightarrow> execute_syscall registry req step)"

definition output_of_response :: "SyscallResponse \<Rightarrow> StepExecutionOutput" where
  "output_of_response r =
     \<lparr> so_step_id = sp_step_id r, so_output = sp_output r, so_cost_units = sp_cost_units r \<rparr>"

definition run_plan ::
  "bool \<Rightarrow> CapabilityRegistry \<Rightarrow> TrustedExecutionRequest \<Rightarrow>
     StepExecutionOutput list result \<times> CapabilityRegistry" where
  "run_plan oc registry request =
     (case submit_steps oc (steps request) (new_scheduler []) of
        (Inl e, _) \<Rightarrow> (Inl e, registry)
      | (Inr _, scheduler) \<Rightarrow>
          (case drain scheduler (plan_executor request) registry of
             (Inl e, _, registry') \<Rightarrow> (Inl e, registry')
           | (Inr responses, _, registry') \<Rightarrow>
               (Ok (map output_of_response responses), registry')))"

fun run_batch_from ::
  "bool \<Rightarrow> CapabilityRegistry \<Rightarrow> TrustedExecutionRequest list \<Rightarrow> StepExecutionOutput list list \<Rightarrow>
     StepExecutionOutput list list result \<times> CapabilityRegistry" where
  "run_batch_from oc registry [] all = (Ok all, registry)"
| "run_batch_from oc registry (req # reqs) all =
     (case run_plan oc registry req of
        (Inl e, registry') \<Rightarrow> (Inl e, registry')
      | (Inr outs, registry') \<Rightarrow> run_batch_from oc registry' reqs (all @ [outs]))"

definition run_batch ::
  "bool \<Rightarrow> CapabilityRegistry \<Rightarrow> TrustedExecutionRequest list \<Rightarrow>
     StepExecutionOutput list list result \<times> CapabilityRegistry" where
  "run_batch oc registry requests = run_batch_from oc registry requests []"

definition echo_capability :: "string \<Rightarrow> CapabilityAdapter" where
  "echo_capability name =
     \<lparr> ad_capability_name = name, ad_execute = (\<lambda>input. Ok (''echo:'' @ input)) \<rparr>"

section \<open>What is submitted\<close>

text \<open>The request made of a step, as the \<open>n\<close>-th submission.\<close>

definition step_request :: "u64 \<Rightarrow> ExecutionStep \<Rightarrow> SyscallRequest" where
  "step_request n step =
     \<lparr> sy_syscall_id = n, sy_step_id = st_step_id step, sy_kind = KindCapabilityCall,
       sy_capability = the (st_capability_ref step), sy_input = st_input step,
       sy_priority = step_priority step, sy_seq = n \<rparr>"

fun step_requests :: "u64 \<Rightarrow> ExecutionStep list \<Rightarrow> SyscallRequest list" where
  "step_requests n [] = []"
| "step_requests n (step # rest) = step_request (n + 1) step # step_requests (n + 1) rest"

lemma submit_steps_Ok:
  assumes "unat (sch_counter sch) + length ss < 2 ^ 64"
  shows "submit_steps oc ss sch = (Inr u, sch') \<longleftrightarrow>
     (\<forall>s\<in>set ss. st_capability_ref s \<noteq> None) \<and>
     sch' = \<lparr> sch_queue = sch_queue sch @ step_requests (sch_counter sch) ss,
              sch_counter = sch_counter sch + of_nat (length ss) \<rparr>"
  using assms
proof (induction ss arbitrary: sch)
  case Nil
  then show ?case by (cases sch) auto
next
  case (Cons s ss)
  let ?c = "sch_counter sch + 1"
  have plus: "checked_plus oc (sch_counter sch) 1 = Inr ?c"
    using Cons.prems by (simp add: checked_plus_def)
  have c: "unat ?c = unat (sch_counter sch) + 1"
    using Cons.prems by (subst unat_plus_no_overflow) auto
  show ?case
  proof (cases "st_capability_ref s")
    case (Some cap)
    let ?sch = "sch\<lparr> sch_counter := ?c, sch_queue := sch_queue sch @ [step_request ?c s] \<rparr>"
    have "submit oc sch (st_step_id s) cap (st_input s) (step_priority s) = (Ok (), ?sch)"
      using plus Some by (simp add: submit_def enqueue_def step_request_def Let_def)
    moreover have "unat (sch_counter ?sch) + length ss < 2 ^ 64"
      using Cons.prems c by simp
    note Cons.IH [OF this]
    ultimately show ?thesis using Some by (auto simp: algebra_simps)
  qed auto
qed

lemma submit_steps_missing:
  assumes "unat (sch_counter sch) + length ss < 2 ^ 64"
    and "\<exists>s\<in>set ss. st_capability_ref s = None"
  shows "\<exists>s sch'. s \<in> set ss \<and> st_capability_ref s = None \<and>
     submit_steps oc ss sch = (Err (''step '' @ st_step_id s @ '' missing capability_ref''), sch')"
  using assms
proof (induction ss arbitrary: sch)
  case (Cons s ss)
  let ?c = "sch_counter sch + 1"
  have plus: "checked_plus oc (sch_counter sch) 1 = Inr ?c"
    using Cons.prems(1) by (simp add: checked_plus_def)
  have c: "unat ?c = unat (sch_counter sch) + 1"
    using Cons.prems(1) by (subst unat_plus_no_overflow) auto
  show ?case
  proof (cases "st_capability_ref s")
    case (Some cap)
    let ?sch = "sch\<lparr> sch_counter := ?c, sch_queue := sch_queue sch @ [step_request ?c s] \<rparr>"
    have "submit oc sch (st_step_id s) cap (st_input s) (step_priority s) = (Ok (), ?sch)"
      using plus Some by (simp add: submit_def enqueue_def step_request_def Let_def)
    with Cons.IH [of ?sch] Cons.prems c Some show ?thesis by fastforce
  qed auto
qed simp

section \<open>The order of execution\<close>

lemma step_requests_seq:
  "unat n + length ss < 2 ^ 64 \<Longrightarrow> r \<in> set (step_requests n ss) \<Longrightarrow> n < sy_seq r"
proof (induction ss arbitrary: n)
  case (Cons s ss)
  have n: "unat (n + 1) = unat n + 1" using Cons.prems(1) by (subst unat_plus_no_overflow) auto
  then have "n < n + 1" by (simp add: word_less_nat_alt)
  moreover have "n + 1 < sy_seq r" if "r \<in> set (step_requests (n + 1) ss)"
    using Cons.IH [of "n + 1"] Cons.prems n that by simp
  ultimately show ?case using Cons.prems(2) by (auto simp: step_request_def)
qed simp

lemma step_requests_distinct:
  "unat n + length ss < 2 ^ 64 \<Longrightarrow> distinct (map sched_key (step_requests n ss))"
proof (induction ss arbitrary: n)
  case (Cons s ss)
  have n: "unat (n + 1) = unat n + 1" using Cons.prems by (subst unat_plus_no_overflow) auto
  have "sched_key (step_request (n + 1) s) \<noteq> sched_key r" if "r \<in> set (step_requests (n + 1) ss)" for r
    using step_requests_seq [OF _ that] Cons.prems n by (auto simp: sched_key_def step_request_def)
  then show ?case using Cons n by auto
qed simp

definition demand :: "SyscallRequest \<Rightarrow> nat" where
  "demand r = 255 - unat (sy_priority r)"

lemma u8_le_255: "unat (p :: u8) \<le> 255"
proof -
  have "unat p < 2 ^ LENGTH(8)" by (rule unsigned_less)
  then show ?thesis by simp
qed

lemma insort_key_cong_on:
  "\<forall>y\<in>set ys. (f x \<le> f y) = (g x \<le> g y) \<Longrightarrow> insort_key f x ys = insort_key g x ys"
  by (induction ys) auto

text \<open>
  Sequence numbers grow along the submissions, so the order by (priority, sequence) is the
  stable sort by priority alone.
\<close>

lemma sort_step_requests:
  "unat n + length ss < 2 ^ 64 \<Longrightarrow>
     sort_key sched_key (step_requests n ss) = sort_key demand (step_requests n ss)"
proof (induction ss arbitrary: n)
  case (Cons s ss)
  have n: "unat (n + 1) = unat n + 1" using Cons.prems by (subst unat_plus_no_overflow) auto
  let ?x = "step_request (n + 1) s"
  have "(sched_key ?x \<le> sched_key y) = (demand ?x \<le> demand y)"
    if "y \<in> set (step_requests (n + 1) ss)" for y
  proof -
    have "sy_seq ?x < sy_seq y"
      using step_requests_seq [OF _ that] Cons.prems n by (simp add: step_request_def)
    then show ?thesis
      using u8_le_255 [of "sy_priority ?x"] u8_le_255 [of "sy_priority y"]
      by (auto simp: sched_key_def demand_def word_less_nat_alt word_le_nat_alt word_unat_eq_iff)
  qed
  then have "insort_key sched_key ?x (sort_key demand (step_requests (n + 1) ss)) =
      insort_key demand ?x (sort_key demand (step_requests (n + 1) ss))"
    by (intro insort_key_cong_on) simp
  with Cons n show ?case by simp
qed simp

definition by_priority :: "ExecutionStep list \<Rightarrow> ExecutionStep list" where
  "by_priority ss = sort_key (\<lambda>s. 255 - unat (step_priority s)) ss"

lemma map_insort_key:
  "\<forall>y\<in>set ys. (f x \<le> f y) = (g (h x) \<le> g (h y)) \<Longrightarrow>
     map h (insort_key f x ys) = insort_key g (h x) (map h ys)"
  by (induction ys) auto

lemma map_sort_key:
  "\<forall>x\<in>set xs. \<forall>y\<in>set xs. (f x \<le> f y) = (g (h x) \<le> g (h y)) \<Longrightarrow>
     map h (sort_key f xs) = sort_key g (map h xs)"
proof (induction xs)
  case (Cons x xs)
  then have "\<forall>y\<in>set (sort_key f xs). (f x \<le> f y) = (g (h x) \<le> g (h y))" by simp
  then have "map h (insort_key f x (sort_key f xs)) = insort_key g (h x) (map h (sort_key f xs))"
    by (rule map_insort_key)
  with Cons show ?case by simp
qed simp

lemma sort_demand_contents:
  "map (\<lambda>r. (sy_step_id r, sy_capability r, sy_input r)) (sort_key demand (step_requests n ss)) =
   map (\<lambda>s. (st_step_id s, the (st_capability_ref s), st_input s)) (by_priority ss)"
proof -
  define pair where "pair r = (demand r, sy_step_id r, sy_capability r, sy_input r)" for r
  define spair where
    "spair s = (255 - unat (step_priority s), st_step_id s, the (st_capability_ref s), st_input s)" for s
  have "map pair (step_requests n ss) = map spair ss"
    by (induction ss arbitrary: n) (simp_all add: pair_def spair_def demand_def step_request_def)
  then have "map pair (sort_key demand (step_requests n ss)) = map spair (by_priority ss)"
    by (simp add: map_sort_key [where g = fst] pair_def spair_def by_priority_def)
  then have "map snd (map pair (sort_key demand (step_requests n ss))) =
      map snd (map spair (by_priority ss))"
    by simp
  then show ?thesis by (simp add: pair_def spair_def o_def)
qed

text \<open>The plan's agenda: the requests of its steps, by priority.\<close>

definition plan_agenda :: "TrustedExecutionRequest \<Rightarrow> SyscallRequest list" where
  "plan_agenda request = sort_key demand (step_requests 0 (steps request))"

lemma run_plan_serves:
  assumes "length (steps request) < 2 ^ 64"
    and "\<forall>s\<in>set (steps request). st_capability_ref s \<noteq> None"
  shows "run_plan oc registry request =
     (case serve (plan_executor request) (plan_agenda request) registry [] of
        (Inl e, registry') \<Rightarrow> (Inl e, registry')
      | (Inr rs, registry') \<Rightarrow> (Ok (map output_of_response rs), registry'))"
proof -
  let ?q = "step_requests 0 (steps request)"
  have bound: "unat (0 :: u64) + length (steps request) < 2 ^ 64" using assms(1) by simp
  have sub: "submit_steps oc (steps request) (new_scheduler []) =
      (Ok (), \<lparr> sch_queue = ?q, sch_counter = of_nat (length (steps request)) \<rparr>)"
    by (subst submit_steps_Ok) (use assms in \<open>auto simp: new_scheduler_def\<close>)
  have "mem_queue.agenda ?q = plan_agenda request"
    unfolding mem_queue.agenda_def plan_agenda_def by (rule sort_step_requests [OF bound])
  then have "(case drain_loop (plan_executor request) ?q registry [] of (r, _, s') \<Rightarrow> (r, s')) =
      serve (plan_executor request) (plan_agenda request) registry []"
    using drain_loop_serves [OF step_requests_distinct [OF bound]] by simp
  then show ?thesis
    by (auto simp: run_plan_def sub drain_def split: prod.splits sum.splits)
qed

lemma run_plan_missing_capability:
  assumes "length (steps request) < 2 ^ 64" and "\<exists>s\<in>set (steps request). st_capability_ref s = None"
  shows "\<exists>s. s \<in> set (steps request) \<and> st_capability_ref s = None \<and>
     run_plan oc registry request =
       (Err (''step '' @ st_step_id s @ '' missing capability_ref''), registry)"
  using submit_steps_missing [of "new_scheduler []" "steps request" oc] assms
  by (fastforce simp: new_scheduler_def run_plan_def)

lemma run_plan_Ok_capabilities:
  assumes "length (steps request) < 2 ^ 64" and "run_plan oc registry request = (Inr outs, registry')"
  shows "\<forall>s\<in>set (steps request). st_capability_ref s \<noteq> None"
proof (rule ccontr)
  assume "\<not> ?thesis"
  then have "\<exists>s\<in>set (steps request). st_capability_ref s = None" by simp
  from run_plan_missing_capability [OF assms(1) this, of oc registry] assms(2) show False
    by auto
qed

lemma map_so_step_id: "map so_step_id (map output_of_response rs) = map sp_step_id rs"
  by (simp add: output_of_response_def)

section \<open>Outcomes of a plan\<close>

text \<open>What a step is charged.\<close>

definition step_cost :: "ExecutionStep \<Rightarrow> u64" where
  "step_cost s = (if st_capability_ref s = Some ''llm.route'' then 2 else 1)"

definition request_cost :: "SyscallRequest \<Rightarrow> u64" where
  "request_cost r = (if sy_capability r = ''llm.route'' then 2 else 1)"

lemma execute_syscall_cost:
  "execute_syscall registry r s = (Inr (out, cost), registry') \<Longrightarrow> cost = request_cost r"
  by (auto simp: execute_syscall_def request_cost_def and_then_Ok_iff split: if_splits prod.splits)

lemma plan_executor_cost:
  "plan_executor request r registry = (Inr (out, cost), registry') \<Longrightarrow> cost = request_cost r"
  by (auto simp: plan_executor_def dest: execute_syscall_cost split: option.splits)

lemma serve_Ok_costs:
  "serve (plan_executor request) reqs registry out = (Inr rs, registry') \<Longrightarrow>
     map sp_cost_units rs = map sp_cost_units out @ map request_cost reqs"
proof (induction reqs arbitrary: registry out)
  case (Cons req reqs)
  then show ?case
    by (fastforce simp: response_def split: sum.splits prod.splits dest: plan_executor_cost)
qed simp

lemma agenda_step_ids: "map sy_step_id (plan_agenda request) = map st_step_id (by_priority (steps request))"
  using arg_cong [OF sort_demand_contents [of 0 "steps request"], of "map fst"]
  by (simp add: plan_agenda_def o_def)

lemma agenda_costs:
  assumes "\<forall>s\<in>set (steps request). st_capability_ref s \<noteq> None"
  shows "map request_cost (plan_agenda request) = map step_cost (by_priority (steps request))"
proof -
  have "step_cost s = (if the (st_capability_ref s) = ''llm.route'' then 2 else 1)"
    if "s \<in> set (by_priority (steps request))" for s
    using assms that by (auto simp: step_cost_def by_priority_def)
  then have "map step_cost (by_priority (steps request)) =
      map (\<lambda>c. if c = ''llm.route'' then 2 else 1)
        (map (\<lambda>s. the (st_capability_ref s)) (by_priority (steps request)))"
    by simp
  then show ?thesis
    using arg_cong [OF sort_demand_contents [of 0 "steps request"],
        of "map (\<lambda>p. if fst (snd p) = ''llm.route'' then 2 else (1 :: u64))"]
    by (simp add: plan_agenda_def o_def request_cost_def [abs_def])
qed

lemma find_step_iff: "find_step request sid \<noteq> None \<longleftrightarrow> sid \<in> st_step_id ` set (steps request)"
  by (auto simp: find_step_def find_None_iff)

lemma agenda_find_step:
  assumes "r \<in> set (plan_agenda request)"
  shows "find_step request (sy_step_id r) \<noteq> None"
proof -
  have "sy_step_id r \<in> set (map sy_step_id (plan_agenda request))" using assms by simp
  then show ?thesis unfolding agenda_step_ids find_step_iff by (simp add: by_priority_def)
qed

lemma run_plan_Ok:
  assumes "length (steps request) < 2 ^ 64" and "run_plan oc registry request = (Inr outs, registry')"
  obtains rs where "serve (plan_executor request) (plan_agenda request) registry [] = (Inr rs, registry')"
    and "outs = map output_of_response rs"
  using run_plan_serves [OF assms(1) run_plan_Ok_capabilities [OF assms]] assms(2)
  by (auto split: prod.splits sum.splits)

lemma run_plan_order:
  assumes "length (steps request) < 2 ^ 64" and "run_plan oc registry request = (Inr outs, registry')"
  shows "map so_step_id outs = map st_step_id (by_priority (steps request))"
proof -
  obtain rs where rs: "serve (plan_executor request) (plan_agenda request) registry [] = (Inr rs, registry')"
    and outs: "outs = map output_of_response rs"
    by (rule run_plan_Ok [OF assms])
  show ?thesis
    using serve_Ok_steps [OF rs] by (simp only: outs map_so_step_id agenda_step_ids) simp
qed

lemma run_plan_costs:
  assumes "length (steps request) < 2 ^ 64" and "run_plan oc registry request = (Inr outs, registry')"
  shows "map so_cost_units outs = map step_cost (by_priority (steps request))"
proof -
  obtain rs where rs: "serve (plan_executor request) (plan_agenda request) registry [] = (Inr rs, registry')"
    and outs: "outs = map output_of_response rs"
    by (rule run_plan_Ok [OF assms])
  have "map so_cost_units outs = map sp_cost_units rs"
    by (simp add: outs output_of_response_def)
  then show ?thesis
    using serve_Ok_costs [OF rs] agenda_costs [OF run_plan_Ok_capabilities [OF assms]] by simp
qed

lemma run_plan_find_step:
  assumes "length (steps request) < 2 ^ 64" and "run_plan oc registry request = (Inr outs, registry')"
    and "out \<in> set outs"
  shows "find_step request (so_step_id out) \<noteq> None"
proof -
  have "so_step_id out \<in> set (map so_step_id outs)" using assms(3) by simp
  then show ?thesis
    unfolding run_plan_order [OF assms(1,2)] find_step_iff by (simp add: by_priority_def)
qed

text \<open>
  C12: A plan that returns outputs ran every step exactly once, whatever adapters and router
  are registered: the outputs are those of the steps in the order of decreasing priority,
  steps of equal priority in plan order, and a step is charged two units when it is routed to
  a language model and one otherwise.
\<close>

theorem plan_runs_each_step_once_by_priority:
  assumes "length (steps request) < 2 ^ 64" and "run_plan oc registry request = (Ok outs, registry')"
  shows "map so_step_id outs =
           map st_step_id (sort_key (\<lambda>s. 255 - unat (step_priority s)) (steps request)) \<and>
         map so_cost_units outs =
           map step_cost (sort_key (\<lambda>s. 255 - unat (step_priority s)) (steps request)) \<and>
         mset (map so_step_id outs) = mset (map st_step_id (steps request))"
proof -
  have "mset (map so_step_id outs) = mset (map st_step_id (by_priority (steps request)))"
    by (simp only: run_plan_order [OF assms])
  then show ?thesis
    using run_plan_order [OF assms] run_plan_costs [OF assms] by (simp add: by_priority_def)
qed

definition sample_registry :: CapabilityRegistry where
  "sample_registry = register new_registry (echo_capability ''cap.echo'')"

definition urgent_request :: TrustedExecutionRequest where
  "urgent_request =
     sample_request ''exec-1''
       [sample_step ''a'' ''cap.echo'' ''x'',
        (sample_step ''b'' ''cap.echo'' ''y'')\<lparr> st_local_constraints := [''priority'' \<mapsto> ''9''] \<rparr>]"

lemma urgent_run:
  "run_plan True sample_registry urgent_request =
     (Ok [\<lparr> so_step_id = ''b'', so_output = ''echo:y'', so_cost_units = 1 \<rparr>,
          \<lparr> so_step_id = ''a'', so_output = ''echo:x'', so_cost_units = 1 \<rparr>], sample_registry)"
proof -
  have prio: "parse_word ''9'' = Some (9 :: u8)"
    by (simp add: parse_word_def parse_uint_def digit_val_def byte_def)
  show ?thesis
    by (simp add: urgent_request_def sample_step_def run_plan_def new_scheduler_def submit_def
        checked_plus_def enqueue_def step_priority_def prio drain_def drain_loop.simps dequeue_def
        replaces_def plan_executor_def find_step_def execute_syscall_def execute_capability_def
        sample_registry_def register_def new_registry_def echo_capability_def response_def
        output_of_response_def)
qed

theorem plan_runs_each_step_once_by_priority_witness:
  "[''b'', ''a''] = map st_step_id (sort_key (\<lambda>s. 255 - unat (step_priority s)) (steps urgent_request))"
  using plan_runs_each_step_once_by_priority [OF _ urgent_run] by (simp add: urgent_request_def)

lemma serve_adapters:
  assumes "\<forall>r\<in>set reqs. find_step request (sy_step_id r) \<noteq> None \<and> sy_capability r \<noteq> ''llm.route'' \<and>
             execute_capability registry (sy_capability r) (sy_input r) =
               Ok (f (sy_capability r) (sy_input r))"
  shows "serve (plan_executor request) reqs registry out =
     (Ok (out @ map (\<lambda>r. response r (f (sy_capability r) (sy_input r)) 1) reqs), registry)"
  using assms
proof (induction reqs arbitrary: out)
  case (Cons r reqs)
  then obtain s where "find_step request (sy_step_id r) = Some s" by auto
  with Cons show ?case by (simp add: plan_executor_def execute_syscall_def)
qed simp

lemma plan_executor_answers:
  assumes "length (steps request) < 2 ^ 64"
    and "\<forall>s\<in>set (steps request). \<exists>cap. st_capability_ref s = Some cap \<and> cap \<noteq> ''llm.route'' \<and>
           execute_capability registry cap (st_input s) = Ok (f cap (st_input s))"
  shows "run_plan oc registry request =
     (Ok (map (\<lambda>s. \<lparr> so_step_id = st_step_id s,
                     so_output = f (the (st_capability_ref s)) (st_input s),
                     so_cost_units = 1 \<rparr>) (by_priority (steps request))), registry)"
proof -
  have caps: "\<forall>s\<in>set (steps request). st_capability_ref s \<noteq> None"
    using assms(2) by auto
  let ?view = "\<lambda>(i, cap, inp). \<lparr> so_step_id = i, so_output = f cap inp, so_cost_units = (1 :: u64) \<rparr>"
  have "(sy_step_id r, sy_capability r, sy_input r) \<in>
      (\<lambda>s. (st_step_id s, the (st_capability_ref s), st_input s)) ` set (steps request)"
    if "r \<in> set (plan_agenda request)" for r
  proof -
    have "(sy_step_id r, sy_capability r, sy_input r) \<in>
        set (map (\<lambda>r. (sy_step_id r, sy_capability r, sy_input r)) (plan_agenda request))"
      using that by simp
    then show ?thesis
      unfolding plan_agenda_def sort_demand_contents by (simp add: by_priority_def)
  qed
  then have "\<forall>r\<in>set (plan_agenda request). find_step request (sy_step_id r) \<noteq> None \<and>
      sy_capability r \<noteq> ''llm.route'' \<and>
      execute_capability registry (sy_capability r) (sy_input r) = Ok (f (sy_capability r) (sy_input r))"
    using assms(2) agenda_find_step by fastforce
  note serve = serve_adapters [OF this, of "[]"]
  have "map output_of_response (map (\<lambda>r. response r (f (sy_capability r) (sy_input r)) 1)
      (plan_agenda request)) =
      map ?view (map (\<lambda>r. (sy_step_id r, sy_capability r, sy_input r)) (plan_agenda request))"
    by (simp add: output_of_response_def response_def)
  also have "\<dots> = map ?view (map (\<lambda>s. (st_step_id s, the (st_capability_ref s), st_input s))
      (by_priority (steps request)))"
    unfolding plan_agenda_def sort_demand_contents by simp
  finally show ?thesis
    using run_plan_serves [OF assms(1) caps, of oc registry] serve by simp
qed

text \<open>
  A plan whose steps all name registered capabilities that answer succeeds, and its
  outputs are the adapters' answers to the steps' inputs, one unit each, in priority order;
  the registry (and so the router) is left as it was.
\<close>

lemma plan_of_answering_adapters_succeeds:
  assumes "length (steps request) < 2 ^ 64"
    and "\<forall>s\<in>set (steps request). \<exists>cap. st_capability_ref s = Some cap \<and> cap \<noteq> ''llm.route'' \<and>
           execute_capability registry cap (st_input s) = Ok (f cap (st_input s))"
  shows "run_plan oc registry request =
     (Ok (map (\<lambda>s. \<lparr> so_step_id = st_step_id s,
                     so_output = f (the (st_capability_ref s)) (st_input s),
                     so_cost_units = 1 \<rparr>) (by_priority (steps request))), registry)"
  by (rule plan_executor_answers [OF assms])

lemma plan_of_answering_adapters_succeeds_example:
  "run_plan False sample_registry
     (sample_request ''e'' [sample_step ''s1'' ''cap.echo'' ''hi'', sample_step ''s2'' ''cap.echo'' ''ho'']) =
   (Ok (map (\<lambda>s. \<lparr> so_step_id = st_step_id s,
                   so_output = (\<lambda>cap inp. ''echo:'' @ inp) (the (st_capability_ref s)) (st_input s),
                   so_cost_units = 1 \<rparr>)
        (by_priority [sample_step ''s1'' ''cap.echo'' ''hi'', sample_step ''s2'' ''cap.echo'' ''ho''])),
    sample_registry)"
  by (subst plan_of_answering_adapters_succeeds [where f = "\<lambda>cap inp. ''echo:'' @ inp"])
    (simp_all add: sample_step_def execute_capability_def sample_registry_def register_def
      new_registry_def echo_capability_def)

text \<open>
  A plan with a step that names no capability fails before any step of it runs: the
  registry is untouched, and the error names such a step.
\<close>

lemma step_without_capability_runs_nothing:
  assumes "length (steps request) < 2 ^ 64" and "\<exists>s\<in>set (steps request). st_capability_ref s = None"
  shows "\<exists>s. s \<in> set (steps request) \<and> st_capability_ref s = None \<and>
     run_plan oc registry request =
       (Err (''step '' @ st_step_id s @ '' missing capability_ref''), registry)"
  by (rule run_plan_missing_capability [OF assms])

lemma step_without_capability_runs_nothing_example:
  "run_plan False sample_registry (sample_request ''e''
     [sample_step ''s1'' ''cap.echo'' ''hi'',
      (sample_step ''s2'' ''cap.echo'' ''ho'')\<lparr> st_capability_ref := None \<rparr>]) =
   (Err ''step s2 missing capability_ref'', sample_registry)"
  using step_without_capability_runs_nothing [of "sample_request ''e''
     [sample_step ''s1'' ''cap.echo'' ''hi'',
      (sample_step ''s2'' ''cap.echo'' ''ho'')\<lparr> st_capability_ref := None \<rparr>]" False sample_registry]
  by (auto simp: sample_step_def)

end
