(* ===== verification/Ledger.thy ===== *)
theory Ledger
  imports IR
begin

text \<open>
  The evidence and budget ledgers of \<^verbatim>\<open>NoumenonCore/src/ledger.rs\<close>, in memory and on file.
  A trait is a locale; the in-memory budget ledger is the reference that the file ledger is
  shown to simulate. The \<^verbatim>\<open>hex\<close> crate is the pair \<open>henc\<close>, \<open>hdec\<close>. Mutexes are not
  modelled: no operation here panics while it holds one.
\<close>

record EvidenceRecord =
  ev_record_id :: string
  ev_stream_id :: string
  ev_execution_id :: string
  ev_step_id :: string
  ev_event_type :: string
  ev_payload_digest :: string
  ev_prev_hash :: string
  ev_record_hash :: string
  ev_timestamp_ms :: u128

section \<open>Evidence in memory\<close>

type_synonym InMemoryEvidenceLedger = "EvidenceRecord list"

definition mem_append ::
  "InMemoryEvidenceLedger \<Rightarrow> EvidenceRecord \<Rightarrow> unit result \<times> InMemoryEvidenceLedger" where
  "mem_append records rec = (Ok (), records @ [rec])"

definition mem_by_execution :: "InMemoryEvidenceLedger \<Rightarrow> string \<Rightarrow> EvidenceRecord list" where
  "mem_by_execution records execution_id =
     filter (\<lambda>r. ev_execution_id r = execution_id) records"

section \<open>Files\<close>

text \<open>
  An append-only file: its bytes (\<open>None\<close> when it does not exist), whether it can be opened for
  appending, and the text of the operating system's error when it cannot.
\<close>

record LedgerFile =
  lf_content :: "string option"
  lf_writable :: bool
  lf_error :: string

definition append_to_file :: "LedgerFile \<Rightarrow> string \<Rightarrow> unit result \<times> LedgerFile" where
  "append_to_file f bytes =
     (case lf_content f of
        None \<Rightarrow> (Err (lf_error f), f)
      | Some c \<Rightarrow>
          if lf_writable f then (Ok (), f\<lparr> lf_content := Some (c @ bytes) \<rparr>)
          else (Err (lf_error f), f))"

text \<open>\<^verbatim>\<open>fs::read_to_string\<close>: an error unless the bytes are UTF-8.\<close>

definition read_to_string :: "LedgerFile \<Rightarrow> string result" where
  "read_to_string f =
     (case lf_content f of
        None \<Rightarrow> Err (lf_error f)
      | Some c \<Rightarrow> if utf8_valid c then Ok c else Err ''stream did not contain valid UTF-8'')"

text \<open>\<^verbatim>\<open>new\<close>: the file is created empty when it does not exist.\<close>

definition open_ledger :: "LedgerFile \<Rightarrow> LedgerFile result" where
  "open_ledger f =
     (case lf_content f of
        Some _ \<Rightarrow> Ok f
      | None \<Rightarrow>
          if lf_writable f then Ok (f\<lparr> lf_content := Some [] \<rparr>) else Err (lf_error f))"

definition wf_file :: "LedgerFile \<Rightarrow> bool" where
  "wf_file f \<longleftrightarrow>
     lf_writable f \<and>
     (case lf_content f of None \<Rightarrow> False | Some c \<Rightarrow> utf8_valid c \<and> ends_with_newline c)"

definition file_lines :: "LedgerFile \<Rightarrow> string list" where
  "file_lines f = (case read_to_string f of Inl _ \<Rightarrow> [] | Inr c \<Rightarrow> lines c)"

text \<open>A line that can be appended: ASCII, no line breaks.\<close>

definition clean_line :: "string \<Rightarrow> bool" where
  "clean_line l \<longleftrightarrow> list_all is_ascii l \<and> newline \<notin> set l \<and> carriage_return \<notin> set l"

lemma is_ascii_newline [simp]: "is_ascii newline"
  by (simp add: is_ascii_def newline_def byte_def)

lemma append_to_file_clean_line:
  assumes "wf_file f" and "clean_line l"
  shows "\<exists>f'. append_to_file f (l @ [newline]) = (Ok (), f') \<and> wf_file f' \<and>
              file_lines f' = file_lines f @ [l]"
proof -
  from assms(1) obtain c where c: "lf_content f = Some c" "lf_writable f" "utf8_valid c"
      "ends_with_newline c"
    by (auto simp: wf_file_def split: option.splits)
  have valid: "utf8_valid (c @ l @ [newline])"
    using c(3) assms(2) by (intro utf8_valid_append_ascii) (simp_all add: clean_line_def)
  have "lines (c @ l @ [newline]) = lines c @ [l]"
    using c(4) assms(2) by (intro lines_append_line) (simp_all add: clean_line_def)
  with c valid show ?thesis
    by (simp add: append_to_file_def wf_file_def file_lines_def read_to_string_def)
qed

lemma wf_open_ledger: "lf_content f = None \<Longrightarrow> lf_writable f \<Longrightarrow>
    \<exists>f'. open_ledger f = Ok f' \<and> wf_file f' \<and> file_lines f' = []"
  by (simp add: open_ledger_def wf_file_def file_lines_def read_to_string_def)

section \<open>Evidence on file\<close>

definition decode_field :: "(string \<Rightarrow> string option) \<Rightarrow> string \<Rightarrow> string option" where
  "decode_field hdec v =
     (case hdec v of None \<Rightarrow> None | Some bytes \<Rightarrow> if utf8_valid bytes then Some bytes else None)"

definition encode_evidence :: "(string \<Rightarrow> string) \<Rightarrow> EvidenceRecord \<Rightarrow> string" where
  "encode_evidence henc r =
     join ''|''
       [henc (ev_record_id r), henc (ev_stream_id r), henc (ev_execution_id r),
        henc (ev_step_id r), henc (ev_event_type r), henc (ev_payload_digest r),
        henc (ev_prev_hash r), henc (ev_record_hash r), show_word (ev_timestamp_ms r)]"

definition decode_evidence :: "(string \<Rightarrow> string option) \<Rightarrow> string \<Rightarrow> EvidenceRecord option" where
  "decode_evidence hdec line =
     (let p = split_on (CHR ''|'') line
      in if length p \<noteq> 9 then None
         else case (decode_field hdec (p ! 0), decode_field hdec (p ! 1), decode_field hdec (p ! 2),
                    decode_field hdec (p ! 3), decode_field hdec (p ! 4), decode_field hdec (p ! 5),
                    decode_field hdec (p ! 6), decode_field hdec (p ! 7), parse_word (p ! 8)) of
           (Some record_id, Some stream_id, Some execution_id, Some step_id, Some event_type,
            Some payload_digest, Some prev_hash, Some record_hash, Some timestamp_ms) \<Rightarrow>
             Some \<lparr> ev_record_id = record_id, ev_stream_id = stream_id,
                    ev_execution_id = execution_id, ev_step_id = step_id,
                    ev_event_type = event_type, ev_payload_digest = payload_digest,
                    ev_prev_hash = prev_hash, ev_record_hash = record_hash,
                    ev_timestamp_ms = timestamp_ms \<rparr>
         | _ \<Rightarrow> None)"

definition file_append ::
  "(string \<Rightarrow> string) \<Rightarrow> LedgerFile \<Rightarrow> EvidenceRecord \<Rightarrow> unit result \<times> LedgerFile" where
  "file_append henc f rec = append_to_file f (encode_evidence henc rec @ [newline])"

definition file_by_execution ::
  "(string \<Rightarrow> string option) \<Rightarrow> LedgerFile \<Rightarrow> string \<Rightarrow> EvidenceRecord list" where
  "file_by_execution hdec f execution_id =
     (case read_to_string f of
        Inl _ \<Rightarrow> []
      | Inr content \<Rightarrow>
          filter (\<lambda>r. ev_execution_id r = execution_id)
            (filter_map (decode_evidence hdec) (lines content)))"

text \<open>A Rust \<^verbatim>\<open>String\<close> is valid UTF-8: the records a program can hold.\<close>

definition utf8_record :: "EvidenceRecord \<Rightarrow> bool" where
  "utf8_record r \<longleftrightarrow>
     list_all utf8_valid
       [ev_record_id r, ev_stream_id r, ev_execution_id r, ev_step_id r, ev_event_type r,
        ev_payload_digest r, ev_prev_hash r, ev_record_hash r]"

lemma decode_field_encode [simp]:
  "hex_crate henc hdec \<Longrightarrow> utf8_valid v \<Longrightarrow> decode_field hdec (henc v) = Some v"
  by (simp add: decode_field_def)

lemma show_word_no_char: "byte c < 48 \<or> 57 < byte c \<Longrightarrow> c \<notin> set (show_word x)"
  unfolding show_word_def by (rule show_nat_no_char)

lemma show_word_ascii: "list_all is_ascii (show_word x)"
  using show_nat_bytes by (fastforce simp: list_all_iff show_word_def is_ascii_def)

lemma bar_free:
  assumes "hex_crate henc hdec"
  shows "CHR ''|'' \<notin> set (henc v)"
  using hex_digit_not(1) [OF hex_crate_digits [OF assms]] .

lemma bar_free_number: "CHR ''|'' \<notin> set (show_word x)"
  by (rule show_word_no_char) (simp add: byte_def)

lemma decode_encode_evidence:
  assumes crate: "hex_crate henc hdec" and rec: "utf8_record r"
  shows "decode_evidence hdec (encode_evidence henc r) = Some r"
proof -
  let ?fields = "[henc (ev_record_id r), henc (ev_stream_id r), henc (ev_execution_id r),
        henc (ev_step_id r), henc (ev_event_type r), henc (ev_payload_digest r),
        henc (ev_prev_hash r), henc (ev_record_hash r), show_word (ev_timestamp_ms r)]"
  have "split_on (CHR ''|'') (encode_evidence henc r) = ?fields"
    unfolding encode_evidence_def
    by (rule split_on_join) (simp_all add: bar_free [OF crate] bar_free_number)
  then show ?thesis
    using crate rec by (simp add: decode_evidence_def utf8_record_def)
qed

lemma clean_join:
  assumes "\<forall>x\<in>set xs. clean_line x"
  shows "clean_line (join ''|'' xs)"
proof -
  have mem: "c = CHR ''|'' \<or> (\<exists>x\<in>set xs. c \<in> set x)" if "c \<in> set (join ''|'' xs)" for c
    using set_join_subset [of "''|''" xs] that by auto
  have "byte (CHR ''|'') = 124" "byte newline = 10" "byte carriage_return = 13"
    by (simp_all add: byte_def newline_def carriage_return_def)
  then have bar: "is_ascii (CHR ''|'')" "CHR ''|'' \<noteq> newline" "CHR ''|'' \<noteq> carriage_return"
    by (auto simp: is_ascii_def)
  show ?thesis
    using assms mem bar unfolding clean_line_def list_all_iff by metis
qed

lemma clean_hex: "hex_crate henc hdec \<Longrightarrow> clean_line (henc v)"
  using hex_crate_digits [of henc hdec v]
  by (auto simp: clean_line_def hex_digit_ascii hex_digit_not)

lemma clean_number: "clean_line (show_word x)"
  by (simp add: clean_line_def show_word_ascii show_word_no_char newline_def carriage_return_def byte_def)

lemma clean_encode_evidence: "hex_crate henc hdec \<Longrightarrow> clean_line (encode_evidence henc r)"
  unfolding encode_evidence_def by (rule clean_join) (simp add: clean_hex clean_number)

section \<open>The evidence interface\<close>

text \<open>Appending a list of records, stopping at the first failure as \<^verbatim>\<open>?\<close> does.\<close>

fun store_all ::
  "('l \<Rightarrow> EvidenceRecord \<Rightarrow> unit result \<times> 'l) \<Rightarrow> 'l \<Rightarrow> EvidenceRecord list \<Rightarrow>
     unit result \<times> 'l" where
  "store_all app l [] = (Ok (), l)"
| "store_all app l (r # rs) =
     (case app l r of (Inl e, l') \<Rightarrow> (Inl e, l') | (Inr _, l') \<Rightarrow> store_all app l' rs)"

text \<open>
  What \<^verbatim>\<open>trait EvidenceLedger\<close> promises on records a program can hold (\<open>storable\<close>):
  appending succeeds and adds exactly the record at the end, and a query returns the records
  of the execution in the order they were appended.
\<close>

locale evidence_ledger =
  fixes append :: "'l \<Rightarrow> EvidenceRecord \<Rightarrow> unit result \<times> 'l"
    and by_execution :: "'l \<Rightarrow> string \<Rightarrow> EvidenceRecord list"
    and records :: "'l \<Rightarrow> EvidenceRecord list"
    and inv :: "'l \<Rightarrow> bool"
    and storable :: "EvidenceRecord \<Rightarrow> bool"
  assumes append_stores: "inv l \<Longrightarrow> storable r \<Longrightarrow>
      \<exists>l'. append l r = (Ok (), l') \<and> inv l' \<and> records l' = records l @ [r]"
    and query: "inv l \<Longrightarrow> by_execution l e = filter (\<lambda>r. ev_execution_id r = e) (records l)"
begin

lemma store_all_stores:
  "inv l \<Longrightarrow> list_all storable rs \<Longrightarrow>
     \<exists>l'. store_all append l rs = (Ok (), l') \<and> inv l' \<and> records l' = records l @ rs"
proof (induction rs arbitrary: l)
  case (Cons r rs)
  from append_stores [of l r] Cons.prems obtain l1 where
    l1: "append l r = (Ok (), l1)" "inv l1" "records l1 = records l @ [r]" by auto
  from Cons.IH [OF l1(2)] Cons.prems(2) l1 show ?case by auto
qed simp

lemma query_store_all:
  assumes "inv l" "list_all storable rs" "store_all append l rs = (Inr u, l')"
  shows "by_execution l' e = by_execution l e @ filter (\<lambda>r. ev_execution_id r = e) rs"
proof -
  from store_all_stores [OF assms(1,2)] assms(3)
  have "inv l'" "records l' = records l @ rs" by auto
  then show ?thesis using assms(1) by (simp add: query)
qed

end

interpretation mem_evidence:
  evidence_ledger mem_append mem_by_execution "\<lambda>l. l" "\<lambda>_. True" "\<lambda>_. True"
  by unfold_locales (simp_all add: mem_append_def mem_by_execution_def)

text \<open>The file ledger meets the same contract, for every encoding the hex crate allows.\<close>

definition file_records :: "(string \<Rightarrow> string option) \<Rightarrow> LedgerFile \<Rightarrow> EvidenceRecord list" where
  "file_records hdec f = filter_map (decode_evidence hdec) (file_lines f)"

lemma file_append_stores:
  assumes "hex_crate henc hdec" and "wf_file f" and "utf8_record r"
  shows "\<exists>f'. file_append henc f r = (Ok (), f') \<and> wf_file f' \<and>
              file_records hdec f' = file_records hdec f @ [r]"
proof -
  from append_to_file_clean_line [OF assms(2) clean_encode_evidence [OF assms(1)], of r]
  obtain f' where f': "append_to_file f (encode_evidence henc r @ [newline]) = (Ok (), f')"
      "wf_file f'" "file_lines f' = file_lines f @ [encode_evidence henc r]"
    by blast
  then show ?thesis
    by (simp add: file_append_def file_records_def decode_encode_evidence [OF assms(1,3)])
qed

lemma file_by_execution_records:
  "file_by_execution hdec f e = filter (\<lambda>r. ev_execution_id r = e) (file_records hdec f)"
  by (simp add: file_by_execution_def file_records_def file_lines_def split: sum.splits)

lemma file_evidence_ledger:
  "hex_crate henc hdec \<Longrightarrow>
     evidence_ledger (file_append henc) (file_by_execution hdec) (file_records hdec) wf_file utf8_record"
  by unfold_locales (blast intro: file_append_stores, simp add: file_by_execution_records)

interpretation file_evidence:
  evidence_ledger "file_append hex_encode" "file_by_execution hex_decode" "file_records hex_decode"
    wf_file utf8_record
  by (rule file_evidence_ledger [OF hex_crate_instance])

lemma store_all_mem: "store_all mem_append l rs = (Ok (), l @ rs)"
  by (induction rs arbitrary: l) (simp_all add: mem_append_def)

section \<open>Properties\<close>

text \<open>
  the file encoding of evidence loses nothing: with the hex crate's contract, decoding
  the line written for a record whose fields are UTF-8 gives back that record, separators,
  line breaks and any other text in the fields included.
\<close>

lemma evidence_line_roundtrip:
  assumes "hex_crate henc hdec" and "utf8_record r"
  shows "decode_evidence hdec (encode_evidence henc r) = Some r"
  using assms by (rule decode_encode_evidence)

definition sample_evidence :: EvidenceRecord where
  "sample_evidence =
     \<lparr> ev_record_id = ''e1|step-1'', ev_stream_id = ''s'', ev_execution_id = ''e1'',
       ev_step_id = ''step-1'', ev_event_type = ''STEP_EXECUTED'', ev_payload_digest = ''d1'',
       ev_prev_hash = ''genesis'', ev_record_hash = ''h1'', ev_timestamp_ms = 7 \<rparr>"

lemma sample_evidence_utf8: "utf8_record sample_evidence"
  by (simp add: utf8_record_def sample_evidence_def byte_def)

lemma evidence_line_roundtrip_example:
  "decode_evidence hex_decode (encode_evidence hex_encode sample_evidence) = Some sample_evidence"
  by (rule evidence_line_roundtrip [OF hex_crate_instance sample_evidence_utf8])

text \<open>
  C9: the file evidence ledger refines the in-memory one: on a file that ends with a newline
  and can be appended to, storing records succeeds, keeps the file in that shape, and every
  query then answers as the in-memory ledger holding the same records.
\<close>

theorem file_evidence_refines_memory:
  assumes "hex_crate henc hdec" and "wf_file f" and "list_all utf8_record rs"
  shows "\<exists>f'. store_all (file_append henc) f rs = (Ok (), f') \<and> wf_file f' \<and>
     (\<forall>e. file_by_execution hdec f' e =
          mem_by_execution (snd (store_all mem_append (file_records hdec f) rs)) e)"
proof -
  from evidence_ledger.store_all_stores [OF file_evidence_ledger [OF assms(1)] assms(2,3)]
  obtain f' where f': "store_all (file_append henc) f rs = (Ok (), f')" "wf_file f'"
      "file_records hdec f' = file_records hdec f @ rs" by blast
  then show ?thesis
    by (simp add: file_by_execution_records mem_by_execution_def store_all_mem)
qed

definition empty_file :: LedgerFile where
  "empty_file = \<lparr> lf_content = Some [], lf_writable = True, lf_error = ''denied'' \<rparr>"

lemma wf_empty_file: "wf_file empty_file"
  by (simp add: wf_file_def empty_file_def)

theorem file_evidence_refines_memory_witness:
  "\<exists>f'. store_all (file_append hex_encode) empty_file [sample_evidence] = (Ok (), f') \<and>
     file_by_execution hex_decode f' ''e1'' = [sample_evidence]"
proof -
  have "list_all utf8_record [sample_evidence]" by (simp add: sample_evidence_utf8)
  from file_evidence_refines_memory [OF hex_crate_instance wf_empty_file this]
  obtain f' where "store_all (file_append hex_encode) empty_file [sample_evidence] = (Ok (), f')"
    and "file_by_execution hex_decode f' ''e1'' =
      mem_by_execution (snd (store_all mem_append (file_records hex_decode empty_file) [sample_evidence])) ''e1''"
    by blast
  moreover have "file_records hex_decode empty_file = []"
    by (simp add: file_records_def file_lines_def read_to_string_def empty_file_def)
  moreover have "ev_execution_id sample_evidence = ''e1''"
    by (simp add: sample_evidence_def)
  ultimately show ?thesis
    by (simp add: mem_append_def mem_by_execution_def)
qed

end
