(* ===== verification/Budget.thy ===== *)
theory Budget
  imports Ledger
begin

text \<open>
  The budget ledgers of \<^verbatim>\<open>NoumenonCore/src/ledger.rs\<close>: accounts of reserved and consumed
  units. The in-memory ledger maps account ids to accounts; the file ledger appends one
  event per operation and recomputes the accounts from the file each time. The locale
  \<open>budget_ledger\<close> is the trait's contract: an implementation behaves as the in-memory map.
\<close>

record BudgetAccount =
  ba_account_id :: string
  ba_tenant_id :: string
  ba_reserved_units :: u64
  ba_consumed_units :: u64

type_synonym Accounts = "string \<rightharpoonup> BudgetAccount"

definition fresh_account :: "string \<Rightarrow> string \<Rightarrow> BudgetAccount" where
  "fresh_account account_id tenant_id =
     \<lparr> ba_account_id = account_id, ba_tenant_id = tenant_id, ba_reserved_units = 0,
       ba_consumed_units = 0 \<rparr>"

text \<open>\<^verbatim>\<open>entry(..).or_insert(..)\<close>: the account after the entry exists.\<close>

definition entry_or_insert :: "Accounts \<Rightarrow> string \<Rightarrow> string \<Rightarrow> BudgetAccount" where
  "entry_or_insert m account_id tenant_id =
     (case m account_id of None \<Rightarrow> fresh_account account_id tenant_id | Some e \<Rightarrow> e)"

section \<open>The in-memory ledger\<close>

definition mem_reserve :: "Accounts \<Rightarrow> string \<Rightarrow> string \<Rightarrow> u64 \<Rightarrow> unit result \<times> Accounts" where
  "mem_reserve m account_id tenant_id units =
     (let entry = entry_or_insert m account_id tenant_id
      in (Ok (), m(account_id \<mapsto>
            entry\<lparr> ba_reserved_units := saturating_add (ba_reserved_units entry) units \<rparr>)))"

definition mem_consume :: "Accounts \<Rightarrow> string \<Rightarrow> u64 \<Rightarrow> unit result \<times> Accounts" where
  "mem_consume m account_id units =
     (case m account_id of
        None \<Rightarrow> (Err ''budget account not found'', m)
      | Some entry \<Rightarrow>
          if ba_reserved_units entry < units then (Err ''insufficient reserved budget'', m)
          else (Ok (), m(account_id \<mapsto>
                 entry\<lparr> ba_reserved_units := ba_reserved_units entry - units,
                        ba_consumed_units := saturating_add (ba_consumed_units entry) units \<rparr>)))"

definition mem_refund :: "Accounts \<Rightarrow> string \<Rightarrow> u64 \<Rightarrow> unit result \<times> Accounts" where
  "mem_refund m account_id units =
     (case m account_id of
        None \<Rightarrow> (Err ''budget account not found'', m)
      | Some entry \<Rightarrow>
          (Ok (), m(account_id \<mapsto>
             entry\<lparr> ba_reserved_units := saturating_sub (ba_reserved_units entry) units \<rparr>)))"

definition mem_snapshot :: "Accounts \<Rightarrow> string \<Rightarrow> BudgetAccount option" where
  "mem_snapshot m account_id = m account_id"

section \<open>The file ledger\<close>

definition append_event ::
  "(string \<Rightarrow> string) \<Rightarrow> LedgerFile \<Rightarrow> string \<Rightarrow> string \<Rightarrow> string \<Rightarrow> u64 \<Rightarrow>
     unit result \<times> LedgerFile" where
  "append_event henc f kind account_id tenant_id units =
     append_to_file f
       (join ''|'' [kind, henc account_id, henc tenant_id, show_word units] @ [newline])"

definition apply_kind :: "string \<Rightarrow> u64 \<Rightarrow> BudgetAccount \<Rightarrow> BudgetAccount" where
  "apply_kind kind units entry =
     (if kind = ''reserve'' then
        entry\<lparr> ba_reserved_units := saturating_add (ba_reserved_units entry) units \<rparr>
      else if kind = ''consume'' then
        entry\<lparr> ba_reserved_units := saturating_sub (ba_reserved_units entry) units,
               ba_consumed_units := saturating_add (ba_consumed_units entry) units \<rparr>
      else if kind = ''refund'' then
        entry\<lparr> ba_reserved_units := saturating_sub (ba_reserved_units entry) units \<rparr>
      else entry)"

text \<open>One iteration of the loop over the lines: a malformed line is skipped.\<close>

definition load_line :: "(string \<Rightarrow> string option) \<Rightarrow> Accounts \<Rightarrow> string \<Rightarrow> Accounts" where
  "load_line hdec m line =
     (let p = split_on (CHR ''|'') line
      in if length p \<noteq> 4 then m
         else case (decode_field hdec (p ! 1), decode_field hdec (p ! 2), parse_word (p ! 3)) of
           (Some account_id, Some tenant_id, Some units) \<Rightarrow>
             m(account_id \<mapsto> apply_kind (p ! 0) units (entry_or_insert m account_id tenant_id))
         | _ \<Rightarrow> m)"

definition load_accounts :: "(string \<Rightarrow> string option) \<Rightarrow> LedgerFile \<Rightarrow> Accounts" where
  "load_accounts hdec f =
     (case read_to_string f of
        Inl _ \<Rightarrow> Map.empty
      | Inr content \<Rightarrow> foldl (load_line hdec) Map.empty (lines content))"

definition file_reserve ::
  "(string \<Rightarrow> string) \<Rightarrow> LedgerFile \<Rightarrow> string \<Rightarrow> string \<Rightarrow> u64 \<Rightarrow> unit result \<times> LedgerFile" where
  "file_reserve henc f account_id tenant_id units =
     append_event henc f ''reserve'' account_id tenant_id units"

definition file_consume ::
  "(string \<Rightarrow> string) \<Rightarrow> (string \<Rightarrow> string option) \<Rightarrow> LedgerFile \<Rightarrow> string \<Rightarrow> u64 \<Rightarrow>
     unit result \<times> LedgerFile" where
  "file_consume henc hdec f account_id units =
     (case load_accounts hdec f account_id of
        None \<Rightarrow> (Err ''budget account not found'', f)
      | Some current \<Rightarrow>
          if ba_reserved_units current < units then (Err ''insufficient reserved budget'', f)
          else append_event henc f ''consume'' account_id (ba_tenant_id current) units)"

definition file_refund ::
  "(string \<Rightarrow> string) \<Rightarrow> (string \<Rightarrow> string option) \<Rightarrow> LedgerFile \<Rightarrow> string \<Rightarrow> u64 \<Rightarrow>
     unit result \<times> LedgerFile" where
  "file_refund henc hdec f account_id units =
     (case load_accounts hdec f account_id of
        None \<Rightarrow> (Err ''budget account not found'', f)
      | Some current \<Rightarrow>
          append_event henc f ''refund'' account_id (ba_tenant_id current) units)"

definition file_snapshot ::
  "(string \<Rightarrow> string option) \<Rightarrow> LedgerFile \<Rightarrow> string \<Rightarrow> BudgetAccount option" where
  "file_snapshot hdec f account_id = load_accounts hdec f account_id"

section \<open>The budget interface\<close>

text \<open>
  The contract: seen through \<open>snapshot\<close>, every operation answers and acts as the in-memory
  ledger's, on the account and tenant ids a program can hold.
\<close>

locale budget_ledger =
  fixes reserve :: "'b \<Rightarrow> string \<Rightarrow> string \<Rightarrow> u64 \<Rightarrow> unit result \<times> 'b"
    and consume :: "'b \<Rightarrow> string \<Rightarrow> u64 \<Rightarrow> unit result \<times> 'b"
    and refund :: "'b \<Rightarrow> string \<Rightarrow> u64 \<Rightarrow> unit result \<times> 'b"
    and snapshot :: "'b \<Rightarrow> string \<Rightarrow> BudgetAccount option"
    and inv :: "'b \<Rightarrow> bool"
    and valid_id :: "string \<Rightarrow> bool"
  assumes reserve_sim: "inv b \<Longrightarrow> valid_id a \<Longrightarrow> valid_id t \<Longrightarrow>
      \<exists>b'. reserve b a t n = (fst (mem_reserve (snapshot b) a t n), b') \<and> inv b' \<and>
           snapshot b' = snd (mem_reserve (snapshot b) a t n)"
    and consume_sim: "inv b \<Longrightarrow> valid_id a \<Longrightarrow>
      \<exists>b'. consume b a n = (fst (mem_consume (snapshot b) a n), b') \<and> inv b' \<and>
           snapshot b' = snd (mem_consume (snapshot b) a n)"
    and refund_sim: "inv b \<Longrightarrow> valid_id a \<Longrightarrow>
      \<exists>b'. refund b a n = (fst (mem_refund (snapshot b) a n), b') \<and> inv b' \<and>
           snapshot b' = snd (mem_refund (snapshot b) a n)"
begin

definition reserved :: "'b \<Rightarrow> string \<Rightarrow> u64" where
  "reserved b a = (case snapshot b a of None \<Rightarrow> 0 | Some acc \<Rightarrow> ba_reserved_units acc)"

definition consumed :: "'b \<Rightarrow> string \<Rightarrow> u64" where
  "consumed b a = (case snapshot b a of None \<Rightarrow> 0 | Some acc \<Rightarrow> ba_consumed_units acc)"

lemma reserve_effect:
  assumes "inv b" "valid_id a" "valid_id t"
  shows "\<exists>b'. reserve b a t n = (Ok (), b') \<and> inv b' \<and> snapshot b' a \<noteq> None \<and>
     reserved b' a = saturating_add (reserved b a) n \<and> consumed b' a = consumed b a \<and>
     (\<forall>x. x \<noteq> a \<longrightarrow> snapshot b' x = snapshot b x)"
proof -
  from reserve_sim [OF assms, of n] obtain b' where b':
    "reserve b a t n = (Ok (), b')" "inv b'" "snapshot b' = snd (mem_reserve (snapshot b) a t n)"
    by (auto simp: mem_reserve_def Let_def)
  have "snapshot b' a \<noteq> None \<and> reserved b' a = saturating_add (reserved b a) n \<and>
      consumed b' a = consumed b a \<and> (\<forall>x. x \<noteq> a \<longrightarrow> snapshot b' x = snapshot b x)"
    unfolding reserved_def consumed_def b'(3)
    by (auto simp: mem_reserve_def entry_or_insert_def fresh_account_def Let_def split: option.splits)
  with b'(1,2) show ?thesis by blast
qed

lemma consume_effect:
  assumes "inv b" "valid_id a" "snapshot b a \<noteq> None" "n \<le> reserved b a"
  shows "\<exists>b'. consume b a n = (Ok (), b') \<and> inv b' \<and>
     reserved b' a = reserved b a - n \<and> consumed b' a = saturating_add (consumed b a) n \<and>
     (\<forall>x. x \<noteq> a \<longrightarrow> snapshot b' x = snapshot b x)"
proof -
  from assms(3) obtain acc where acc: "snapshot b a = Some acc" by auto
  from consume_sim [OF assms(1,2), of n] assms(4) acc obtain b' where b':
    "consume b a n = (Ok (), b')" "inv b'" "snapshot b' = snd (mem_consume (snapshot b) a n)"
    by (auto simp: mem_consume_def reserved_def not_less)
  have "reserved b' a = reserved b a - n \<and> consumed b' a = saturating_add (consumed b a) n \<and>
      (\<forall>x. x \<noteq> a \<longrightarrow> snapshot b' x = snapshot b x)"
    using leD [OF assms(4)] acc unfolding reserved_def consumed_def b'(3)
    by (simp add: mem_consume_def)
  with b'(1,2) show ?thesis by blast
qed

lemma consume_refused:
  assumes "inv b" "valid_id a" "snapshot b a \<noteq> None" "reserved b a < n"
  shows "\<exists>b'. consume b a n = (Err ''insufficient reserved budget'', b') \<and>
     inv b' \<and> snapshot b' = snapshot b"
  using consume_sim [OF assms(1,2), of n] assms(3,4)
  by (auto simp: mem_consume_def reserved_def)

end

interpretation mem_budget:
  budget_ledger mem_reserve mem_consume mem_refund "\<lambda>m. m" "\<lambda>_. True" "\<lambda>_. True"
  by unfold_locales (metis prod.collapse)+

section \<open>The file ledger simulates the map\<close>

lemma clean_event:
  assumes "hex_crate henc hdec" and "kind \<in> {''reserve'', ''consume'', ''refund''}"
  shows "clean_line (join ''|'' [kind, henc a, henc t, show_word n])"
proof -
  have "clean_line kind"
    using assms(2) by (auto simp: clean_line_def is_ascii_def byte_def newline_def carriage_return_def)
  then show ?thesis
    by (intro clean_join) (simp add: clean_hex [OF assms(1)] clean_number)
qed

lemma load_event_line:
  assumes "hex_crate henc hdec" and "utf8_valid a" "utf8_valid t"
    and "kind \<in> {''reserve'', ''consume'', ''refund''}"
  shows "load_line hdec m (join ''|'' [kind, henc a, henc t, show_word n]) =
     m(a \<mapsto> apply_kind kind n (entry_or_insert m a t))"
proof -
  have "CHR ''|'' \<notin> set kind" using assms(4) by auto
  then have "split_on (CHR ''|'') (join ''|'' [kind, henc a, henc t, show_word n]) =
      [kind, henc a, henc t, show_word n]"
    by (intro split_on_join) (simp_all add: bar_free [OF assms(1)] bar_free_number)
  then show ?thesis
    using assms by (simp add: load_line_def)
qed

lemma load_accounts_lines: "load_accounts hdec f = foldl (load_line hdec) Map.empty (file_lines f)"
  by (simp add: load_accounts_def file_lines_def split: sum.splits)

lemma append_event_effect:
  assumes "hex_crate henc hdec" and "wf_file f" and "utf8_valid a" "utf8_valid t"
    and "kind \<in> {''reserve'', ''consume'', ''refund''}"
  shows "\<exists>f'. append_event henc f kind a t n = (Ok (), f') \<and> wf_file f' \<and>
     load_accounts hdec f' =
       (load_accounts hdec f)(a \<mapsto> apply_kind kind n (entry_or_insert (load_accounts hdec f) a t))"
proof -
  from append_to_file_clean_line [OF assms(2) clean_event [OF assms(1,5)], of a t n]
  obtain f' where f': "append_to_file f (join ''|'' [kind, henc a, henc t, show_word n] @ [newline])
        = (Ok (), f')" "wf_file f'"
      "file_lines f' = file_lines f @ [join ''|'' [kind, henc a, henc t, show_word n]]"
    by blast
  then show ?thesis
    by (simp add: append_event_def load_accounts_lines load_event_line [OF assms(1,3,4,5)]
        del: join.simps)
qed

text \<open>Every tenant id in the accounts was decoded, so it is valid UTF-8.\<close>

lemma load_line_tenants:
  assumes "\<forall>acc\<in>ran m. utf8_valid (ba_tenant_id acc)"
  shows "\<forall>acc\<in>ran (load_line hdec m line). utf8_valid (ba_tenant_id acc)"
proof -
  have kind: "ba_tenant_id (apply_kind k n e) = ba_tenant_id e" for k n e
    by (simp add: apply_kind_def)
  have entry: "utf8_valid (ba_tenant_id (entry_or_insert m a t))" if "utf8_valid t" for a t
    using assms that by (auto simp: entry_or_insert_def fresh_account_def ran_def split: option.splits)
  have upd: "\<forall>acc\<in>ran (m(a \<mapsto> apply_kind k n (entry_or_insert m a t))). utf8_valid (ba_tenant_id acc)"
    if "utf8_valid t" for a k n t
    using assms entry [OF that, of a] by (auto simp: ran_def kind split: if_splits)
  show ?thesis
    using assms upd
    by (auto simp: load_line_def Let_def decode_field_def split: option.splits if_splits)
qed

lemma load_accounts_tenants:
  "load_accounts hdec f a = Some acc \<Longrightarrow> utf8_valid (ba_tenant_id acc)"
proof -
  have fold: "\<forall>acc\<in>ran m. utf8_valid (ba_tenant_id acc) \<Longrightarrow>
      \<forall>acc\<in>ran (foldl (load_line hdec) m ls). utf8_valid (ba_tenant_id acc)" for m ls
  proof (induction ls arbitrary: m)
    case (Cons l ls)
    from Cons.IH [OF load_line_tenants [OF Cons.prems]] show ?case by (simp only: foldl.simps)
  qed simp
  from fold [of Map.empty "file_lines f"]
  have "\<forall>acc\<in>ran (load_accounts hdec f). utf8_valid (ba_tenant_id acc)"
    by (simp add: load_accounts_lines)
  then show "load_accounts hdec f a = Some acc \<Longrightarrow> utf8_valid (ba_tenant_id acc)"
    by (auto simp: ran_def)
qed

lemma file_reserve_sim:
  assumes "hex_crate henc hdec" and "wf_file f" and "utf8_valid a" "utf8_valid t"
  shows "\<exists>f'. file_reserve henc f a t n = (fst (mem_reserve (load_accounts hdec f) a t n), f') \<and>
     wf_file f' \<and> load_accounts hdec f' = snd (mem_reserve (load_accounts hdec f) a t n)"
  using append_event_effect [OF assms, of "''reserve''" n]
  by (auto simp: file_reserve_def mem_reserve_def apply_kind_def Let_def)

lemma file_consume_sim:
  assumes "hex_crate henc hdec" and "wf_file f" and "utf8_valid a"
  shows "\<exists>f'. file_consume henc hdec f a n = (fst (mem_consume (load_accounts hdec f) a n), f') \<and>
     wf_file f' \<and> load_accounts hdec f' = snd (mem_consume (load_accounts hdec f) a n)"
proof (cases "load_accounts hdec f a")
  case None
  then show ?thesis using assms(2) by (simp add: file_consume_def mem_consume_def)
next
  case (Some acc)
  have sub: "saturating_sub (ba_reserved_units acc) n = ba_reserved_units acc - n"
    if "\<not> ba_reserved_units acc < n"
    using that by (simp add: saturating_sub_def)
  show ?thesis
    using append_event_effect [OF assms load_accounts_tenants [OF Some], of "''consume''" n]
      Some assms(2) sub
    by (auto simp: file_consume_def mem_consume_def apply_kind_def entry_or_insert_def)
qed

lemma file_refund_sim:
  assumes "hex_crate henc hdec" and "wf_file f" and "utf8_valid a"
  shows "\<exists>f'. file_refund henc hdec f a n = (fst (mem_refund (load_accounts hdec f) a n), f') \<and>
     wf_file f' \<and> load_accounts hdec f' = snd (mem_refund (load_accounts hdec f) a n)"
proof (cases "load_accounts hdec f a")
  case None
  then show ?thesis using assms(2) by (simp add: file_refund_def mem_refund_def)
next
  case (Some acc)
  show ?thesis
    using append_event_effect [OF assms load_accounts_tenants [OF Some], of "''refund''" n] Some
    by (auto simp: file_refund_def mem_refund_def apply_kind_def entry_or_insert_def)
qed

lemma file_budget_ledger:
  assumes "hex_crate henc hdec"
  shows "budget_ledger (file_reserve henc) (file_consume henc hdec) (file_refund henc hdec)
     (load_accounts hdec) wf_file utf8_valid"
  by unfold_locales
    (rule file_reserve_sim [OF assms] file_consume_sim [OF assms] file_refund_sim [OF assms]; assumption)+

interpretation file_budget:
  budget_ledger "file_reserve hex_encode" "file_consume hex_encode hex_decode"
    "file_refund hex_encode hex_decode" "load_accounts hex_decode" wf_file utf8_valid
  by (rule file_budget_ledger [OF hex_crate_instance])

section \<open>Runs of operations\<close>

datatype BudgetOp =
    Reserve string string u64
  | Consume string u64
  | Refund string u64

fun run_mem :: "Accounts \<Rightarrow> BudgetOp list \<Rightarrow> unit result list \<times> Accounts" where
  "run_mem m [] = ([], m)"
| "run_mem m (opn # ops) =
     (let (r, m') = (case opn of
            Reserve a t n \<Rightarrow> mem_reserve m a t n
          | Consume a n \<Rightarrow> mem_consume m a n
          | Refund a n \<Rightarrow> mem_refund m a n);
          (rs, m'') = run_mem m' ops
      in (r # rs, m''))"

fun run_file ::
  "(string \<Rightarrow> string) \<Rightarrow> (string \<Rightarrow> string option) \<Rightarrow> LedgerFile \<Rightarrow> BudgetOp list \<Rightarrow>
     unit result list \<times> LedgerFile" where
  "run_file henc hdec f [] = ([], f)"
| "run_file henc hdec f (opn # ops) =
     (let (r, f') = (case opn of
            Reserve a t n \<Rightarrow> file_reserve henc f a t n
          | Consume a n \<Rightarrow> file_consume henc hdec f a n
          | Refund a n \<Rightarrow> file_refund henc hdec f a n);
          (rs, f'') = run_file henc hdec f' ops
      in (r # rs, f''))"

fun op_ids :: "BudgetOp \<Rightarrow> string list" where
  "op_ids (Reserve a t n) = [a, t]"
| "op_ids (Consume a n) = [a]"
| "op_ids (Refund a n) = [a]"

lemma run_file_simulates:
  assumes "hex_crate henc hdec" and "wf_file f" and "list_all (\<lambda>opn. list_all utf8_valid (op_ids opn)) ops"
  shows "\<exists>f'. run_file henc hdec f ops = (fst (run_mem (load_accounts hdec f) ops), f') \<and>
     wf_file f' \<and> load_accounts hdec f' = snd (run_mem (load_accounts hdec f) ops)"
  using assms(2,3)
proof (induction ops arbitrary: f)
  case (Cons opn ops)
  define step where "step f =
      (case opn of Reserve a t n \<Rightarrow> file_reserve henc f a t n
        | Consume a n \<Rightarrow> file_consume henc hdec f a n
        | Refund a n \<Rightarrow> file_refund henc hdec f a n)" for f
  define ref where "ref m =
      (case opn of Reserve a t n \<Rightarrow> mem_reserve m a t n
        | Consume a n \<Rightarrow> mem_consume m a n
        | Refund a n \<Rightarrow> mem_refund m a n)" for m
  have "\<exists>f'. step f = (fst (ref (load_accounts hdec f)), f') \<and> wf_file f' \<and>
      load_accounts hdec f' = snd (ref (load_accounts hdec f))"
    using Cons.prems file_reserve_sim [OF assms(1)] file_consume_sim [OF assms(1)]
      file_refund_sim [OF assms(1)]
    by (cases opn) (simp_all add: step_def ref_def)
  then obtain f1 where f1: "step f = (fst (ref (load_accounts hdec f)), f1)" "wf_file f1"
      "load_accounts hdec f1 = snd (ref (load_accounts hdec f))" by blast
  from Cons.IH [OF f1(2)] Cons.prems(2) f1(3) obtain f2 where
    f2: "run_file henc hdec f1 ops = (fst (run_mem (snd (ref (load_accounts hdec f))) ops), f2)"
      "wf_file f2" "load_accounts hdec f2 = snd (run_mem (snd (ref (load_accounts hdec f))) ops)"
    by auto
  show ?case
    using f1(1) f2 by (simp add: step_def [symmetric] ref_def [symmetric] Let_def split_beta)
qed simp

section \<open>Units are not created\<close>

text \<open>What operations have asked to reserve for an account, without any saturation.\<close>

fun requested :: "string \<Rightarrow> BudgetOp list \<Rightarrow> nat" where
  "requested a [] = 0"
| "requested a (Reserve b t n # ops) = (if a = b then unat n else 0) + requested a ops"
| "requested a (_ # ops) = requested a ops"

definition units_held :: "Accounts \<Rightarrow> string \<Rightarrow> nat" where
  "units_held m a =
     (case m a of None \<Rightarrow> 0 | Some acc \<Rightarrow> unat (ba_reserved_units acc) + unat (ba_consumed_units acc))"

lemma units_held_reserve:
  "units_held (snd (mem_reserve m b t n)) a \<le> units_held m a + (if a = b then unat n else 0)"
  by (auto simp: units_held_def mem_reserve_def entry_or_insert_def fresh_account_def Let_def
      unat_saturating_add split: option.splits)

lemma units_held_consume: "units_held (snd (mem_consume m b n)) a \<le> units_held m a"
proof (cases "m b")
  case (Some acc)
  have "unat (ba_reserved_units acc - n) = unat (ba_reserved_units acc) - unat n \<and>
      unat n \<le> unat (ba_reserved_units acc)" if "\<not> ba_reserved_units acc < n"
    using that by (simp add: unat_sub word_le_nat_alt not_less)
  with Some show ?thesis
    by (auto simp: units_held_def mem_consume_def unat_saturating_add split: option.splits)
qed (simp add: units_held_def mem_consume_def)

lemma units_held_refund: "units_held (snd (mem_refund m b n)) a \<le> units_held m a"
  by (auto simp: units_held_def mem_refund_def split: option.splits)

lemma units_held_run:
  "units_held (snd (run_mem m ops)) a \<le> units_held m a + requested a ops"
proof (induction ops arbitrary: m)
  case (Cons opn ops)
  show ?case
  proof (cases opn)
    case (Reserve b t n)
    then show ?thesis
      using Cons.IH [of "snd (mem_reserve m b t n)"] units_held_reserve [of m b t n a]
      by (simp add: Let_def split_beta)
  next
    case (Consume b n)
    then show ?thesis
      using Cons.IH [of "snd (mem_consume m b n)"] units_held_consume [of m b n a]
      by (simp add: Let_def split_beta)
  next
    case (Refund b n)
    then show ?thesis
      using Cons.IH [of "snd (mem_refund m b n)"] units_held_refund [of m b n a]
      by (simp add: Let_def split_beta)
  qed
qed simp

section \<open>Properties\<close>

text \<open>
  C10: the file budget ledger refines the in-memory one: from a well-formed file, any sequence
  of reservations, consumptions and refunds on UTF-8 ids gives the same answers, errors
  included, as the in-memory ledger started from the accounts the file holds, and afterwards
  the file holds exactly the in-memory ledger's accounts.
\<close>

theorem file_budget_refines_memory:
  assumes "hex_crate henc hdec" and "wf_file f"
    and "list_all (\<lambda>opn. list_all utf8_valid (op_ids opn)) ops"
  shows "\<exists>f'. run_file henc hdec f ops = (fst (run_mem (load_accounts hdec f) ops), f') \<and>
     wf_file f' \<and> load_accounts hdec f' = snd (run_mem (load_accounts hdec f) ops)"
  using assms by (rule run_file_simulates)

theorem file_budget_refines_memory_witness:
  "\<exists>f'. run_file hex_encode hex_decode empty_file
       [Reserve ''acct'' ''tenant'' 5, Consume ''acct'' 2, Consume ''acct'' 9] =
     ([Ok (), Ok (), Err ''insufficient reserved budget''], f') \<and>
     map_option ba_reserved_units (load_accounts hex_decode f' ''acct'') = Some 3"
proof -
  let ?ops = "[Reserve ''acct'' ''tenant'' 5, Consume ''acct'' 2, Consume ''acct'' 9]"
  have valid: "list_all (\<lambda>opn. list_all utf8_valid (op_ids opn)) ?ops"
    by (simp add: byte_def)
  have empty: "load_accounts hex_decode empty_file = Map.empty"
    by (simp add: load_accounts_lines file_lines_def read_to_string_def empty_file_def)
  have run: "fst (run_mem Map.empty ?ops) = [Ok (), Ok (), Err ''insufficient reserved budget'']"
      "map_option ba_reserved_units (snd (run_mem Map.empty ?ops) ''acct'') = Some 3"
    by (simp_all add: mem_reserve_def mem_consume_def entry_or_insert_def fresh_account_def
        saturating_add_def)
  from file_budget_refines_memory [OF hex_crate_instance wf_empty_file valid]
  show ?thesis unfolding empty using run by metis
qed

text \<open>
  C11: a budget cannot be overspent: after any sequence of operations on a fresh ledger, the
  reserved and the consumed units of an account together never exceed what was reserved for
  it, whatever saturates on the way.
\<close>

theorem budget_never_overspent:
  "units_held (snd (run_mem Map.empty ops)) a \<le> requested a ops"
  using units_held_run [of Map.empty ops a] by (simp add: units_held_def)

end
