(* ===== verification/Governance.thy ===== *)
theory Governance
  imports IR
begin

text \<open>
  The mandatory gates of \<^verbatim>\<open>NoumenonCore/src/governance.rs\<close>: the keyword validator of an
  execution's output, the learning write gate and the recovery hook. \<^verbatim>\<open>str::to_lowercase\<close>
  uses the Unicode tables: it is the argument \<open>lower\<close>, known here only on ASCII text.
\<close>

type_synonym ResultValidator = "ExecutionRecord \<Rightarrow> unit result"
type_synonym LearningWriteGate = "ExecutionRecord \<Rightarrow> unit result"

definition unicode_lower :: "(string \<Rightarrow> string) \<Rightarrow> bool" where
  "unicode_lower lower \<longleftrightarrow> (\<forall>s. list_all is_ascii s \<longrightarrow> lower s = to_ascii_lowercase s)"

record KeywordResultValidator =
  banned :: "string list"

definition keyword_validate ::
  "(string \<Rightarrow> string) \<Rightarrow> KeywordResultValidator \<Rightarrow> ResultValidator" where
  "keyword_validate lower self rec =
     (let out = lower (case er_final_output rec of None \<Rightarrow> [] | Some o' \<Rightarrow> o')
      in case find (\<lambda>b. contains out (lower b)) (banned self) of
           Some hit \<Rightarrow> Err (''result policy violation: '' @ hit)
         | None \<Rightarrow> Ok ())"

definition status_allow_write :: LearningWriteGate where
  "status_allow_write rec =
     (if er_final_status rec = ''Completed'' then Ok ()
      else Err ''learning write denied for non-completed execution'')"

text \<open>\<^verbatim>\<open>NoopRecoverySubsystem\<close>: a recovery hook may have state of its own; this one has none.\<close>

definition noop_recover :: "'rc \<Rightarrow> ExecutionRecord \<Rightarrow> unit result \<times> 'rc" where
  "noop_recover s rec = (Ok (), s)"

lemma keyword_validate_Ok_iff:
  "keyword_validate lower self rec = Inr u \<longleftrightarrow>
     (\<forall>b\<in>set (banned self).
        \<not> contains (lower (case er_final_output rec of None \<Rightarrow> [] | Some o' \<Rightarrow> o')) (lower b))"
  by (auto simp: keyword_validate_def Let_def find_None_iff find_Some_iff split: option.splits)

lemma status_allow_write_Ok_iff [simp]:
  "status_allow_write rec = Inr u \<longleftrightarrow> er_final_status rec = ''Completed''"
  by (simp add: status_allow_write_def)

section \<open>What the validator can see\<close>

text \<open>
  The kernel hands the validator a record whose output is the digest of the last step's
  output. Lowercased, its characters are hexadecimal digits and those of
  \<^verbatim>\<open>output_digest:\<close>.
\<close>

definition digest_text_char :: "char \<Rightarrow> bool" where
  "digest_text_char c \<longleftrightarrow> hex_digit c \<or> c \<in> set ''output_digest:''"

lemma ascii_lower_digest_text: "digest_text_char c \<Longrightarrow> ascii_lower c = c"
  by (auto simp: digest_text_char_def hex_digit_def ascii_lower_def byte_def)

lemma digest_text_ascii: "digest_text_char c \<Longrightarrow> is_ascii c"
  by (auto simp: digest_text_char_def hex_digit_def is_ascii_def byte_def)

lemma lower_digest_text:
  assumes "unicode_lower lower" and "list_all digest_text_char s"
  shows "lower s = s"
proof -
  from assms(2) have "list_all is_ascii s"
    by (auto simp: list_all_iff digest_text_ascii)
  then have "lower s = map ascii_lower s"
    using assms(1) by (simp add: unicode_lower_def to_ascii_lowercase_def)
  also have "\<dots> = s"
    using assms(2) by (simp add: list_all_iff ascii_lower_digest_text map_idI)
  finally show ?thesis .
qed

lemma keyword_validate_blind:
  assumes low: "unicode_lower lower"
    and out: "er_final_output rec = Some (''output_digest:'' @ d)" and hex: "list_all hex_digit d"
    and words: "\<forall>b\<in>set (banned self). \<exists>c\<in>set (lower b). \<not> digest_text_char c"
  shows "keyword_validate lower self rec = Ok ()"
proof -
  have txt_ok: "list_all digest_text_char (''output_digest:'' @ d)"
    using hex by (auto simp: list_all_iff digest_text_char_def)
  have "\<not> contains (''output_digest:'' @ d) (lower b)" if "b \<in> set (banned self)" for b
  proof
    assume "contains (''output_digest:'' @ d) (lower b)"
    then have "set (lower b) \<subseteq> set (''output_digest:'' @ d)"
      by (rule contains_set)
    with words that txt_ok show False
      unfolding list_all_iff by blast
  qed
  moreover have "lower (''output_digest:'' @ d) = ''output_digest:'' @ d"
    by (rule lower_digest_text [OF low txt_ok])
  ultimately show ?thesis
    unfolding keyword_validate_Ok_iff out option.case by simp
qed

end
