(* ===== verification/Resource.thy ===== *)
theory Resource
  imports IR
begin

text \<open>
  \<^verbatim>\<open>NoumenonCore/src/resource.rs\<close>: the hardening gate of high-risk runtime islands and the
  resource governor. The host (operating system, isolation primitives, installed commands)
  is the argument \<open>Host\<close>. The governor's pool sits behind a mutex: a panic while it is held
  poisons the lock, which is the field \<open>rp_poisoned\<close>.
\<close>

section \<open>Requirements\<close>

record ResourceRequirement =
  rr_cpu_units :: u32
  rr_memory_mb :: u32
  rr_max_runtime_ms :: u64

definition from_constraints :: "ConstraintSet \<Rightarrow> ResourceRequirement" where
  "from_constraints c =
     \<lparr> rr_cpu_units = max (cs_max_cpu_units c) 1,
       rr_memory_mb = max (cs_max_memory_mb c) 64,
       rr_max_runtime_ms = max (cs_max_runtime_ms c) 1000 \<rparr>"

section \<open>The resource governor\<close>

record ResourcePoolState =
  rp_cpu_limit :: u32
  rp_memory_limit_mb :: u32
  rp_cpu_used :: u32
  rp_memory_used_mb :: u32
  rp_poisoned :: bool

definition new_governor :: "u32 \<Rightarrow> u32 \<Rightarrow> ResourcePoolState" where
  "new_governor cpu_limit memory_limit_mb =
     \<lparr> rp_cpu_limit = cpu_limit, rp_memory_limit_mb = memory_limit_mb, rp_cpu_used = 0,
       rp_memory_used_mb = 0, rp_poisoned = False \<rparr>"

definition governor_reserve ::
  "bool \<Rightarrow> ResourcePoolState \<Rightarrow> ResourceRequirement \<Rightarrow> unit result \<times> ResourcePoolState" where
  "governor_reserve oc s req =
     (if rp_poisoned s then (Err ''resource lock poisoned'', s)
      else case checked_plus oc (rp_cpu_used s) (rr_cpu_units req) of
        Inl e \<Rightarrow> (Inl e, s\<lparr> rp_poisoned := True \<rparr>)
      | Inr cpu \<Rightarrow>
          if cpu > rp_cpu_limit s then (Err ''cpu quota exceeded'', s)
          else (case checked_plus oc (rp_memory_used_mb s) (rr_memory_mb req) of
             Inl e \<Rightarrow> (Inl e, s\<lparr> rp_poisoned := True \<rparr>)
           | Inr mem \<Rightarrow>
               if mem > rp_memory_limit_mb s then (Err ''memory quota exceeded'', s)
               else (Ok (), s\<lparr> rp_cpu_used := cpu, rp_memory_used_mb := mem \<rparr>)))"

definition governor_release :: "ResourcePoolState \<Rightarrow> ResourceRequirement \<Rightarrow> ResourcePoolState" where
  "governor_release s req =
     (if rp_poisoned s then s
      else s\<lparr> rp_cpu_used := saturating_sub (rp_cpu_used s) (rr_cpu_units req),
             rp_memory_used_mb := saturating_sub (rp_memory_used_mb s) (rr_memory_mb req) \<rparr>)"

section \<open>The runtime island of a step\<close>

definition parse_runtime_island :: "string \<Rightarrow> RuntimeIsland option" where
  "parse_runtime_island label =
     (let l = to_ascii_lowercase (trim label)
      in if l = ''trusted'' then Some Trusted
         else if l = ''wasm'' then Some Wasm
         else if l = ''ffi'' then Some Ffi
         else if l = ''plugin'' then Some Plugin
         else None)"

definition infer_runtime_island_from_capability :: "string option \<Rightarrow> RuntimeIsland option" where
  "infer_runtime_island_from_capability capability_ref =
     (case capability_ref of
        None \<Rightarrow> None
      | Some c \<Rightarrow>
          (let cap = to_ascii_lowercase c
           in if contains cap ''wasm'' then Some Wasm
              else if contains cap ''ffi'' \<or> contains cap ''cabi'' then Some Ffi
              else if contains cap ''plugin'' then Some Plugin
              else None))"

definition effective_runtime_island :: "ExecutionStep \<Rightarrow> RuntimeIsland" where
  "effective_runtime_island step =
     (case Option.bind (st_local_constraints step ''runtime_island'') parse_runtime_island of
        Some parsed \<Rightarrow> parsed
      | None \<Rightarrow>
          if st_runtime_island step \<noteq> Trusted then st_runtime_island step
          else (case infer_runtime_island_from_capability (st_capability_ref step) of
                  Some i \<Rightarrow> i
                | None \<Rightarrow> Trusted))"

section \<open>Resolving the hardening of a step\<close>

definition non_empty :: "string option \<Rightarrow> string option" where
  "non_empty value =
     (case value of
        None \<Rightarrow> None
      | Some v \<Rightarrow> (let t = trim v in if t = [] then None else Some t))"

definition resolve_hardening_profile :: "ExecutionStep \<Rightarrow> string option" where
  "resolve_hardening_profile step =
     (case non_empty (hp_hardening_profile (st_hardening step)) of
        Some v \<Rightarrow> Some v
      | None \<Rightarrow> non_empty (st_local_constraints step ''hardening_profile''))"

definition resolve_syscall_constraints :: "ExecutionStep \<Rightarrow> bool" where
  "resolve_syscall_constraints step =
     (if non_empty (hp_syscall_policy_ref (st_hardening step)) \<noteq> None then True
      else if hp_syscall_allowlist (st_hardening step) \<noteq> [] then True
      else if non_empty (st_local_constraints step ''syscall_policy_ref'') \<noteq> None then True
      else non_empty (st_local_constraints step ''syscall_allowlist'') \<noteq> None)"

definition resolve_seccomp_profile :: "ExecutionStep \<Rightarrow> bool" where
  "resolve_seccomp_profile step =
     (if non_empty (hp_seccomp_profile_ref (st_hardening step)) \<noteq> None then True
      else non_empty (st_local_constraints step ''seccomp_profile_ref'') \<noteq> None)"

definition resolve_bool_constraint :: "ExecutionStep \<Rightarrow> string \<Rightarrow> bool option" where
  "resolve_bool_constraint step key =
     (case st_local_constraints step key of
        None \<Rightarrow> None
      | Some v \<Rightarrow>
          (let raw = to_ascii_lowercase (trim v)
           in if raw \<in> {''1'', ''true'', ''yes'', ''on''} then Some True
              else if raw \<in> {''0'', ''false'', ''no'', ''off''} then Some False
              else None))"

definition unwrap_or :: "'a option \<Rightarrow> 'a \<Rightarrow> 'a" where
  "unwrap_or x d = (case x of None \<Rightarrow> d | Some v \<Rightarrow> v)"

definition resolve_namespace_isolation :: "ExecutionStep \<Rightarrow> bool" where
  "resolve_namespace_isolation step \<longleftrightarrow>
     hp_enforce_namespace_isolation (st_hardening step) \<or>
     unwrap_or (resolve_bool_constraint step ''enforce_namespace_isolation'') False"

definition resolve_cgroup_isolation :: "ExecutionStep \<Rightarrow> bool" where
  "resolve_cgroup_isolation step \<longleftrightarrow>
     hp_enforce_cgroup_isolation (st_hardening step) \<or>
     unwrap_or (resolve_bool_constraint step ''enforce_cgroup_isolation'') False"

definition resolve_fs_isolation :: "ExecutionStep \<Rightarrow> bool" where
  "resolve_fs_isolation step \<longleftrightarrow>
     hp_enforce_fs_isolation (st_hardening step) \<or>
     unwrap_or (resolve_bool_constraint step ''enforce_fs_isolation'') False"

definition resolve_network_isolation :: "ExecutionStep \<Rightarrow> bool" where
  "resolve_network_isolation step \<longleftrightarrow>
     hp_enforce_network_isolation (st_hardening step) \<or>
     unwrap_or (resolve_bool_constraint step ''enforce_network_isolation'') False"

definition parse_u64_constraint :: "ExecutionStep \<Rightarrow> string \<Rightarrow> u64 option" where
  "parse_u64_constraint step key = Option.bind (st_local_constraints step key) parse_word"

definition parse_u32_constraint :: "ExecutionStep \<Rightarrow> string \<Rightarrow> u32 option" where
  "parse_u32_constraint step key = Option.bind (st_local_constraints step key) parse_word"

definition or_else :: "'a option \<Rightarrow> 'a option \<Rightarrow> 'a option" where
  "or_else x y = (case x of None \<Rightarrow> y | Some v \<Rightarrow> Some v)"

definition resolve_step_runtime_ms :: "ExecutionStep \<Rightarrow> u64 option" where
  "resolve_step_runtime_ms step =
     or_else (hp_max_runtime_ms (st_hardening step)) (parse_u64_constraint step ''step_max_runtime_ms'')"

definition resolve_step_memory_mb :: "ExecutionStep \<Rightarrow> u32 option" where
  "resolve_step_memory_mb step =
     or_else (hp_max_memory_mb (st_hardening step)) (parse_u32_constraint step ''step_max_memory_mb'')"

definition resolve_step_cpu_units :: "ExecutionStep \<Rightarrow> u32 option" where
  "resolve_step_cpu_units step =
     or_else (hp_max_cpu_units (st_hardening step)) (parse_u32_constraint step ''step_max_cpu_units'')"

definition resolve_isolation_backend :: "ExecutionStep \<Rightarrow> string option" where
  "resolve_isolation_backend step = non_empty (st_local_constraints step ''isolation_backend'')"

section \<open>Isolation backends\<close>

record Host =
  target_os_windows :: bool
  target_os_linux :: bool
  linux_kernel_isolation_primitives_available :: bool
  command_available :: "string \<Rightarrow> bool"

definition linux_backend_ok :: "Host \<Rightarrow> string \<Rightarrow> bool" where
  "linux_backend_ok h cmd \<longleftrightarrow>
     target_os_linux h \<and> linux_kernel_isolation_primitives_available h \<and> command_available h cmd"

definition backend_supported :: "Host \<Rightarrow> string \<Rightarrow> bool" where
  "backend_supported h backend_lc =
     (if backend_lc = ''auto'' then
        (if target_os_windows h then True
         else linux_backend_ok h ''nsjail'' \<or> linux_backend_ok h ''bwrap'' \<or>
              linux_backend_ok h ''firejail'' \<or> linux_backend_ok h ''unshare'')
      else if backend_lc = ''nsjail'' then linux_backend_ok h ''nsjail''
      else if backend_lc = ''bwrap'' \<or> backend_lc = ''bubblewrap'' then linux_backend_ok h ''bwrap''
      else if backend_lc = ''firejail'' then linux_backend_ok h ''firejail''
      else if backend_lc = ''unshare'' then linux_backend_ok h ''unshare''
      else if backend_lc = ''wasmtime'' then command_available h ''wasmtime''
      else if backend_lc = ''job_object'' \<or> backend_lc = ''windows-job-object'' then
        target_os_windows h
      else command_available h backend_lc)"

definition general_backends :: "string list" where
  "general_backends =
     [''auto'', ''nsjail'', ''bwrap'', ''bubblewrap'', ''firejail'', ''unshare'', ''job_object'',
      ''windows-job-object'']"

definition capability_name :: "ExecutionStep \<Rightarrow> string" where
  "capability_name step =
     (case st_capability_ref step of None \<Rightarrow> ''<missing-capability>'' | Some c \<Rightarrow> c)"

definition quoted :: "string \<Rightarrow> string" where
  "quoted s = CHR 0x27 # s @ [CHR 0x27]"

definition ensure_isolation_executor_available ::
  "Host \<Rightarrow> ExecutionStep \<Rightarrow> string \<Rightarrow> unit result" where
  "ensure_isolation_executor_available h step backend =
     (let capability = capability_name step;
          backend_lc = to_ascii_lowercase (trim backend);
          island = effective_runtime_island step
      in if \<not> backend_supported h backend_lc then
           Err (''isolation backend '' @ quoted backend @
                '' is unavailable for high-risk island capability: '' @ capability)
         else case island of
           Wasm \<Rightarrow>
             if backend_lc = ''wasmtime'' \<or> backend_lc \<in> set general_backends then Ok ()
             else Err (''isolation backend '' @ quoted backend @
                       '' is not allowed for wasm island capability: '' @ capability)
         | Trusted \<Rightarrow> Ok ()
         | _ \<Rightarrow>
             if backend_lc \<in> set general_backends then Ok ()
             else Err (''isolation backend '' @ quoted backend @ '' is not allowed for '' @
                       (case island of Ffi \<Rightarrow> ''ffi'' | Plugin \<Rightarrow> ''plugin'' | _ \<Rightarrow> ''unknown'') @
                       '' island capability: '' @ capability))"

section \<open>The hardening gate\<close>

definition check_step_resources ::
  "ExecutionStep \<Rightarrow> ConstraintSet \<Rightarrow> string \<Rightarrow> unit result" where
  "check_step_resources step constraints capability =
     and_then (ok_or (resolve_step_runtime_ms step)
         (''missing step_max_runtime_ms for high-risk island capability: '' @ capability))
     (\<lambda>step_runtime_ms.
     and_then (ok_or (resolve_step_memory_mb step)
         (''missing step_max_memory_mb for high-risk island capability: '' @ capability))
     (\<lambda>step_memory_mb.
     and_then (ok_or (resolve_step_cpu_units step)
         (''missing step_max_cpu_units for high-risk island capability: '' @ capability))
     (\<lambda>step_cpu_units.
       if step_runtime_ms = 0 \<or> step_memory_mb = 0 \<or> step_cpu_units = 0 then
         Err (''step resource constraints must be > 0 for high-risk island capability: '' @ capability)
       else let max_runtime_ms = max (cs_max_runtime_ms constraints) 1;
                max_memory_mb = max (cs_max_memory_mb constraints) 1;
                max_cpu_units = max (cs_max_cpu_units constraints) 1
       in if step_runtime_ms > max_runtime_ms then
            Err (''step_max_runtime_ms='' @ show_word step_runtime_ms @
                 '' exceeds request max_runtime_ms='' @ show_word max_runtime_ms @
                 '' for capability: '' @ capability)
          else if step_memory_mb > max_memory_mb then
            Err (''step_max_memory_mb='' @ show_word step_memory_mb @
                 '' exceeds request max_memory_mb='' @ show_word max_memory_mb @
                 '' for capability: '' @ capability)
          else if step_cpu_units > max_cpu_units then
            Err (''step_max_cpu_units='' @ show_word step_cpu_units @
                 '' exceeds request max_cpu_units='' @ show_word max_cpu_units @
                 '' for capability: '' @ capability)
          else Ok ())))"

definition enforce_runtime_island_hardening ::
  "Host \<Rightarrow> ExecutionStep \<Rightarrow> ConstraintSet \<Rightarrow> unit result" where
  "enforce_runtime_island_hardening h step constraints =
     (let island = effective_runtime_island step
      in if \<not> requires_hardening island then Ok ()
      else let capability = capability_name step
      in and_then (ok_or (resolve_hardening_profile step)
           (''missing hardening_profile for high-risk island capability: '' @ capability))
      (\<lambda>profile.
        if eq_ignore_ascii_case profile ''none'' then
          Err (''hardening_profile=none is forbidden for high-risk island capability: '' @ capability)
        else if \<not> resolve_seccomp_profile step then
          Err (''missing seccomp profile for high-risk island capability: '' @ capability)
        else if \<not> resolve_syscall_constraints step then
          Err (''missing syscall constraint (syscall_policy_ref or syscall_allowlist) for high-risk island capability: '' @ capability)
        else if \<not> resolve_namespace_isolation step then
          Err (''missing namespace isolation for high-risk island capability: '' @ capability)
        else if \<not> resolve_cgroup_isolation step then
          Err (''missing cgroup isolation for high-risk island capability: '' @ capability)
        else if \<not> resolve_fs_isolation step then
          Err (''missing fs isolation for high-risk island capability: '' @ capability)
        else if \<not> resolve_network_isolation step then
          Err (''missing network isolation for high-risk island capability: '' @ capability)
        else and_then (ok_or (resolve_isolation_backend step)
               (''missing isolation_backend for high-risk island capability: '' @ capability))
        (\<lambda>isolation_backend.
          and_then (ensure_isolation_executor_available h step isolation_backend)
          (\<lambda>_. check_step_resources step constraints capability))))"

section \<open>What the gate demands\<close>

definition within :: "'a::len word option \<Rightarrow> 'a word \<Rightarrow> bool" where
  "within bound limit \<longleftrightarrow> (case bound of None \<Rightarrow> False | Some v \<Rightarrow> 0 < v \<and> v \<le> max limit 1)"

definition isolated :: "Host \<Rightarrow> ExecutionStep \<Rightarrow> bool" where
  "isolated h step \<longleftrightarrow>
     (case resolve_isolation_backend step of
        None \<Rightarrow> False
      | Some b \<Rightarrow>
          (let lc = to_ascii_lowercase (trim b)
           in backend_supported h lc \<and>
              (lc \<in> set general_backends \<or>
               lc = ''wasmtime'' \<and> effective_runtime_island step = Wasm)))"

definition hardened :: "Host \<Rightarrow> ExecutionStep \<Rightarrow> ConstraintSet \<Rightarrow> bool" where
  "hardened h step cs \<longleftrightarrow>
     (case resolve_hardening_profile step of
        None \<Rightarrow> False | Some p \<Rightarrow> \<not> eq_ignore_ascii_case p ''none'') \<and>
     resolve_seccomp_profile step \<and> resolve_syscall_constraints step \<and>
     resolve_namespace_isolation step \<and> resolve_cgroup_isolation step \<and>
     resolve_fs_isolation step \<and> resolve_network_isolation step \<and>
     isolated h step \<and>
     within (resolve_step_runtime_ms step) (cs_max_runtime_ms cs) \<and>
     within (resolve_step_memory_mb step) (cs_max_memory_mb cs) \<and>
     within (resolve_step_cpu_units step) (cs_max_cpu_units cs)"

lemma check_step_resources_Ok:
  "check_step_resources step cs cap = Inr u \<longleftrightarrow>
     within (resolve_step_runtime_ms step) (cs_max_runtime_ms cs) \<and>
     within (resolve_step_memory_mb step) (cs_max_memory_mb cs) \<and>
     within (resolve_step_cpu_units step) (cs_max_cpu_units cs)"
  by (cases "resolve_step_runtime_ms step"; cases "resolve_step_memory_mb step";
      cases "resolve_step_cpu_units step")
    (auto simp: check_step_resources_def within_def Let_def word_neq_0_conv not_less le_max_iff_disj)

lemma ensure_isolation_Ok:
  assumes "effective_runtime_island step \<noteq> Trusted"
  shows "ensure_isolation_executor_available h step b = Inr u \<longleftrightarrow>
     (let lc = to_ascii_lowercase (trim b)
      in backend_supported h lc \<and>
         (lc \<in> set general_backends \<or> lc = ''wasmtime'' \<and> effective_runtime_island step = Wasm))"
proof -
  define lc where "lc = to_ascii_lowercase (trim b)"
  show ?thesis
    unfolding ensure_isolation_executor_available_def Let_def lc_def [symmetric]
    using assms by (cases "effective_runtime_island step") (auto simp del: list.set)
qed

lemma enforce_trusted:
  "effective_runtime_island step = Trusted \<Longrightarrow> enforce_runtime_island_hardening h step cs = Ok ()"
  by (simp add: enforce_runtime_island_hardening_def)

lemma if_Err_Ok_iff: "(if b then Err m else r) = Inr u \<longleftrightarrow> \<not> b \<and> r = Inr u"
  by simp

lemma enforce_Ok_iff:
  "enforce_runtime_island_hardening h step cs = Inr u \<longleftrightarrow>
     effective_runtime_island step = Trusted \<or> hardened h step cs"
proof (cases "effective_runtime_island step = Trusted")
  case True
  then show ?thesis by (simp add: enforce_trusted)
next
  case False
  define ok where "ok b \<longleftrightarrow> ensure_isolation_executor_available h step b = Inr ()" for b
  have iso: "isolated h step \<longleftrightarrow> (\<exists>b. resolve_isolation_backend step = Some b \<and> ok b)"
    using False by (auto simp: isolated_def ok_def ensure_isolation_Ok split: option.splits)
  show ?thesis
    using False
    by (simp add: enforce_runtime_island_hardening_def requires_hardening_iff Let_def
        if_Err_Ok_iff and_then_Ok_iff ok_or_Ok_iff check_step_resources_Ok hardened_def iso ok_def
        split: option.split del: if_split) auto
qed

section \<open>The pool under interleaving\<close>

text \<open>
  Executions on one kernel run concurrently: the pool is reserved from and released to in
  any order. The state pairs the pool with the reservations that are outstanding; \<open>held f\<close>
  is the amount of a resource they add up to.
\<close>

definition held :: "(ResourceRequirement \<Rightarrow> u32) \<Rightarrow> ResourceRequirement multiset \<Rightarrow> nat" where
  "held f out = (\<Sum>r\<in>#out. unat (f r))"

lemma held_add [simp]: "held f (add_mset r out) = unat (f r) + held f out"
  by (simp add: held_def)

lemma held_empty [simp]: "held f {#} = 0"
  by (simp add: held_def)

lemma held_minus: "r \<in># out \<Longrightarrow> held f (out - {#r#}) + unat (f r) = held f out"
  by (metis add.commute held_add insert_DiffM)

inductive pool_reachable ::
  "bool \<Rightarrow> u32 \<Rightarrow> u32 \<Rightarrow> ResourcePoolState \<Rightarrow> ResourceRequirement multiset \<Rightarrow> bool"
  for oc cpu_limit memory_limit_mb where
  fresh: "pool_reachable oc cpu_limit memory_limit_mb (new_governor cpu_limit memory_limit_mb) {#}"
| reserved: "pool_reachable oc cpu_limit memory_limit_mb s out \<Longrightarrow>
     governor_reserve oc s req = (Inr u, s') \<Longrightarrow>
     pool_reachable oc cpu_limit memory_limit_mb s' (add_mset req out)"
| refused: "pool_reachable oc cpu_limit memory_limit_mb s out \<Longrightarrow>
     governor_reserve oc s req = (Inl e, s') \<Longrightarrow>
     pool_reachable oc cpu_limit memory_limit_mb s' out"
| released: "pool_reachable oc cpu_limit memory_limit_mb s out \<Longrightarrow> req \<in># out \<Longrightarrow>
     pool_reachable oc cpu_limit memory_limit_mb (governor_release s req) (out - {#req#})"

text \<open>
  The pool's books: its limits are the configured ones, what is held is within them, and
  unless the lock is poisoned the counters are exactly what is held.
\<close>

definition books_balance ::
  "u32 \<Rightarrow> u32 \<Rightarrow> ResourcePoolState \<Rightarrow> ResourceRequirement multiset \<Rightarrow> bool" where
  "books_balance cpu_limit memory_limit_mb s out \<longleftrightarrow>
     rp_cpu_limit s = cpu_limit \<and> rp_memory_limit_mb s = memory_limit_mb \<and>
     held rr_cpu_units out \<le> unat cpu_limit \<and> held rr_memory_mb out \<le> unat memory_limit_mb \<and>
     (\<not> rp_poisoned s \<longrightarrow>
        unat (rp_cpu_used s) = held rr_cpu_units out \<and>
        unat (rp_memory_used_mb s) = held rr_memory_mb out)"

lemma governor_reserve_Ok:
  "governor_reserve oc s req = (Inr u, s') \<longleftrightarrow>
     \<not> rp_poisoned s \<and>
     (\<exists>cpu mem. checked_plus oc (rp_cpu_used s) (rr_cpu_units req) = Inr cpu \<and>
        checked_plus oc (rp_memory_used_mb s) (rr_memory_mb req) = Inr mem \<and>
        cpu \<le> rp_cpu_limit s \<and> mem \<le> rp_memory_limit_mb s \<and>
        s' = s\<lparr> rp_cpu_used := cpu, rp_memory_used_mb := mem \<rparr>)"
  by (auto simp: governor_reserve_def split: sum.splits if_splits)

lemma governor_reserve_Err:
  "governor_reserve oc s req = (Inl e, s') \<Longrightarrow> s' = s \<or> s' = s\<lparr> rp_poisoned := True \<rparr>"
  by (auto simp: governor_reserve_def split: sum.splits if_splits)

lemma books_balance_release:
  assumes "books_balance cl ml s out" and "req \<in># out"
  shows "books_balance cl ml (governor_release s req) (out - {#req#})"
  using assms held_minus [OF assms(2), of rr_cpu_units] held_minus [OF assms(2), of rr_memory_mb]
  by (auto simp: books_balance_def governor_release_def)

lemma books_balance_reserve:
  assumes "books_balance cl ml s out" and "governor_reserve True s req = (Inr u, s')"
  shows "books_balance cl ml s' (add_mset req out)"
proof -
  from assms(2) obtain cpu mem where
    cpu: "checked_plus True (rp_cpu_used s) (rr_cpu_units req) = Inr cpu" "cpu \<le> rp_cpu_limit s" and
    mem: "checked_plus True (rp_memory_used_mb s) (rr_memory_mb req) = Inr mem"
      "mem \<le> rp_memory_limit_mb s" and
    s': "\<not> rp_poisoned s" "s' = s\<lparr> rp_cpu_used := cpu, rp_memory_used_mb := mem \<rparr>"
    by (auto simp: governor_reserve_Ok)
  show ?thesis
    using assms(1) s' checked_plus_Ok_checked [OF cpu(1)] checked_plus_Ok_checked [OF mem(1)] cpu(2) mem(2)
    by (auto simp: books_balance_def word_le_nat_alt)
qed

lemma pool_books_balance:
  "pool_reachable True cl ml s out \<Longrightarrow> books_balance cl ml s out"
proof (induction rule: pool_reachable.induct)
  case fresh
  show ?case by (simp add: books_balance_def new_governor_def)
next
  case (reserved s out req u s')
  then show ?case by (blast intro: books_balance_reserve)
next
  case (refused s out req e s')
  from governor_reserve_Err [OF refused.hyps(2)] refused.IH show ?case
    by (auto simp: books_balance_def)
next
  case (released s out req)
  then show ?case by (blast intro: books_balance_release)
qed

section \<open>The governor interface\<close>

text \<open>
  What the kernel relies on: a refused reservation changes nothing (a panicking one may
  poison the lock), and a granted one is undone by its release.
\<close>

locale resource_governor =
  fixes reserve :: "'g \<Rightarrow> ResourceRequirement \<Rightarrow> unit result \<times> 'g"
    and release :: "'g \<Rightarrow> ResourceRequirement \<Rightarrow> 'g"
  assumes refuse: "reserve g r = (Inl (Anyhow m), g') \<Longrightarrow> g' = g"
    and undo: "reserve g r = (Inr u, g') \<Longrightarrow> release g' r = g"
begin

text \<open>A scoped reservation, as the guard type with its \<^verbatim>\<open>Drop\<close> makes it.\<close>

definition scoped :: "'g \<Rightarrow> ResourceRequirement \<Rightarrow> unit result \<times> 'g" where
  "scoped g r = (case reserve g r of (Inl e, g') \<Rightarrow> (Inl e, g') | (Inr u, g') \<Rightarrow> (Inr u, release g' r))"

lemma scoped_restores: "fst (scoped g r) \<noteq> Inl Panicked \<Longrightarrow> snd (scoped g r) = g"
  by (auto simp: scoped_def dest: refuse undo split: prod.splits sum.splits)
    (metis error.exhaust refuse)

end

lemma governor_undo:
  assumes "governor_reserve True g r = (Inr u, g')"
  shows "governor_release g' r = g"
proof -
  have cancel: "saturating_sub c b = a" if "checked_plus True a b = Inr c" for a b c :: u32
    using that by (auto simp: checked_plus_def saturating_add_sub_cancel split: if_splits)
  from assms show ?thesis
    by (cases g) (auto simp: governor_reserve_Ok governor_release_def cancel)
qed

text \<open>What the checked governor does when its addition overflows, and when the release build agrees with it.\<close>

lemma governor_panic:
  "governor_reserve oc g r = (Inl Panicked, g') \<Longrightarrow> g' = g\<lparr> rp_poisoned := True \<rparr>"
  by (auto simp: governor_reserve_def split: if_splits sum.splits)

definition fits_words :: "ResourcePoolState \<Rightarrow> ResourceRequirement \<Rightarrow> bool" where
  "fits_words g r \<longleftrightarrow> unat (rp_cpu_used g) + unat (rr_cpu_units r) < 2 ^ 32 \<and>
     unat (rp_memory_used_mb g) + unat (rr_memory_mb r) < 2 ^ 32"

lemma governor_builds_agree: "fits_words g r \<Longrightarrow> governor_reserve oc g r = governor_reserve True g r"
  by (simp add: governor_reserve_def fits_words_def checked_plus_def)

interpretation checked_governor: resource_governor "governor_reserve True" governor_release
proof unfold_locales
  fix g g' r m u
  show "governor_reserve True g r = (Inl (Anyhow m), g') \<Longrightarrow> g' = g"
    by (auto simp: governor_reserve_def checked_plus_def split: if_splits)
  show "governor_reserve True g r = (Inr u, g') \<Longrightarrow> governor_release g' r = g"
    by (rule governor_undo)
qed

section \<open>Properties\<close>

text \<open>
  the hardening gate lets a step pass exactly when its effective island is the trusted
  one, or every demand on a high-risk island holds: a profile other than \<open>none\<close>, a seccomp
  profile, a syscall constraint, the four isolations, an available isolation backend that is
  allowed for the island, and step limits that are positive and within the request's.
\<close>

lemma hardening_gate_exact:
  "enforce_runtime_island_hardening h step cs = Ok () \<longleftrightarrow>
     effective_runtime_island step = Trusted \<or> hardened h step cs"
  by (rule enforce_Ok_iff)

text \<open>
  the request can switch the gate off: a step whose own local constraints label it
  \<open>trusted\<close> passes with no hardening at all, whatever island it declares and whatever its
  capability is.
\<close>

lemma trusted_label_bypasses_hardening:
  assumes "st_local_constraints step ''runtime_island'' = Some label"
    and "parse_runtime_island label = Some Trusted"
  shows "enforce_runtime_island_hardening h step cs = Ok ()"
  using assms by (simp add: enforce_trusted effective_runtime_island_def)

definition wasm_step :: "(string \<rightharpoonup> string) \<Rightarrow> ExecutionStep" where
  "wasm_step lc =
     \<lparr> st_step_id = ''s1'', st_action = CapabilityCall, st_capability_ref = Some ''wasm.exec'',
       st_runtime_island = Wasm, st_hardening = default_hardening, st_input = ''hello'',
       st_dependencies = [], st_local_constraints = lc,
       st_failure_policy = default_failure_policy \<rparr>"

definition small_constraints :: ConstraintSet where
  "small_constraints =
     \<lparr> cs_max_runtime_ms = 30000, cs_max_cpu_units = 4, cs_max_memory_mb = 256,
       cs_policy_refs = [''sha256:policy-v1''] \<rparr>"

definition bare_host :: Host where
  "bare_host =
     \<lparr> target_os_windows = False, target_os_linux = True,
       linux_kernel_isolation_primitives_available = False, command_available = (\<lambda>_. False) \<rparr>"

lemma parse_trusted: "parse_runtime_island ''Trusted'' = Some Trusted"
proof -
  have "trim ''Trusted'' = ''Trusted''"
    by (rule trim_graphic) (simp_all add: graphic_def byte_def)
  moreover have "to_ascii_lowercase ''Trusted'' = ''trusted''"
    by code_simp
  ultimately show ?thesis by (simp add: parse_runtime_island_def)
qed

lemma trusted_label_bypasses_hardening_example:
  "st_runtime_island (wasm_step [''runtime_island'' \<mapsto> ''Trusted'']) = Wasm \<and>
   enforce_runtime_island_hardening bare_host (wasm_step [''runtime_island'' \<mapsto> ''Trusted''])
     small_constraints = Ok ()"
proof
  show "st_runtime_island (wasm_step [''runtime_island'' \<mapsto> ''Trusted'']) = Wasm"
    by (simp add: wasm_step_def)
  show "enforce_runtime_island_hardening bare_host (wasm_step [''runtime_island'' \<mapsto> ''Trusted''])
     small_constraints = Ok ()"
    by (rule trusted_label_bypasses_hardening [OF _ parse_trusted]) (simp add: wasm_step_def)
qed

text \<open>
  C13: in a build with overflow checks the governor is safe under any interleaving of
  reservations, refusals, panics and releases: the outstanding reservations never add up to
  more than the configured limits, and until the lock is poisoned the pool's counters are
  exactly their sums.
\<close>

theorem outstanding_reservations_within_limits:
  assumes "pool_reachable True cpu_limit memory_limit_mb s out"
  shows "held rr_cpu_units out \<le> unat cpu_limit \<and> held rr_memory_mb out \<le> unat memory_limit_mb \<and>
     (rp_poisoned s \<or> unat (rp_cpu_used s) = held rr_cpu_units out \<and>
        unat (rp_memory_used_mb s) = held rr_memory_mb out)"
  using pool_books_balance [OF assms] by (auto simp: books_balance_def)

definition sample_requirement :: "u32 \<Rightarrow> ResourceRequirement" where
  "sample_requirement cpu = \<lparr> rr_cpu_units = cpu, rr_memory_mb = 64, rr_max_runtime_ms = 1000 \<rparr>"

theorem outstanding_reservations_within_limits_witness:
  "\<exists>s. pool_reachable True 8 1024 s {#sample_requirement 5#} \<and> held rr_cpu_units {#sample_requirement 5#} \<le> 8"
proof -
  have "governor_reserve True (new_governor 8 1024) (sample_requirement 5) =
      (Ok (), (new_governor 8 1024)\<lparr> rp_cpu_used := 5, rp_memory_used_mb := 64 \<rparr>)"
    by (simp add: governor_reserve_def new_governor_def sample_requirement_def checked_plus_def)
  from pool_reachable.reserved [OF pool_reachable.fresh this]
  have reach: "pool_reachable True 8 1024
      ((new_governor 8 1024)\<lparr> rp_cpu_used := 5, rp_memory_used_mb := 64 \<rparr>) {#sample_requirement 5#}"
    by simp
  from outstanding_reservations_within_limits [OF this] have "held rr_cpu_units {#sample_requirement 5#} \<le> 8"
    by simp
  with reach show ?thesis by blast
qed

text \<open>
  without overflow checks (the release profile) the quota test wraps around: while two
  of eight CPU units are reserved, a request for \<open>2 ^ 32 - 2\<close> units is granted, so the
  outstanding reservations add up to \<open>2 ^ 32\<close> units of a pool of eight.
\<close>

lemma release_build_quota_wraps:
  "\<exists>s. pool_reachable False 8 1024 s {#sample_requirement (- 2), sample_requirement 2#} \<and>
       held rr_cpu_units {#sample_requirement (- 2), sample_requirement 2#} = 2 ^ 32"
proof -
  let ?s1 = "(new_governor 8 1024)\<lparr> rp_cpu_used := 2, rp_memory_used_mb := 64 \<rparr>"
  let ?s2 = "(new_governor 8 1024)\<lparr> rp_cpu_used := 0, rp_memory_used_mb := 128 \<rparr>"
  have first: "governor_reserve False (new_governor 8 1024) (sample_requirement 2) = (Ok (), ?s1)"
    by (simp add: governor_reserve_def new_governor_def sample_requirement_def checked_plus_def)
  have second: "governor_reserve False ?s1 (sample_requirement (- 2)) = (Ok (), ?s2)"
    by (simp add: governor_reserve_def new_governor_def sample_requirement_def checked_plus_def)
  have "pool_reachable False 8 1024 ?s2 {#sample_requirement (- 2), sample_requirement 2#}"
    using pool_reachable.reserved [OF pool_reachable.reserved [OF pool_reachable.fresh first] second]
    by simp
  moreover have "held rr_cpu_units {#sample_requirement (- 2), sample_requirement 2#} = 2 ^ 32"
    by (simp add: sample_requirement_def)
  ultimately show ?thesis by blast
qed

end
