(* ===== verification/Trust.thy ===== *)
theory Trust
  imports IR
begin

text \<open>
  The admission authorities of \<^verbatim>\<open>NoumenonCore/src/trust.rs\<close>: HMAC identity, tenant
  authorization, attestation, the static supply-chain verifier. A trait is the type of its
  method; the \<^verbatim>\<open>hmac\<close>, \<^verbatim>\<open>sha2\<close> and \<^verbatim>\<open>hex\<close> crates are arguments (\<open>hmac key message\<close> and
  \<open>sha256 bytes\<close> give the raw bytes, \<open>henc\<close> their hexadecimal text).
\<close>

datatype TrustLevel = Soft | Hard

type_synonym IdentityAuthority = "IdentityContext \<Rightarrow> unit result"
type_synonym TenantAuthority = "IdentityContext \<Rightarrow> string \<Rightarrow> unit result"
type_synonym AttestationVerifier = "unit result"
type_synonym SupplyChainVerifier = "TrustedExecutionRequest \<Rightarrow> unit result"
type_synonym CryptoService = "string \<Rightarrow> string"

section \<open>Identity\<close>

record HmacIdentityAuthority =
  secret :: string

definition sign ::
  "(string \<Rightarrow> string \<Rightarrow> string) \<Rightarrow> (string \<Rightarrow> string) \<Rightarrow> HmacIdentityAuthority \<Rightarrow>
     string \<Rightarrow> string \<Rightarrow> string \<Rightarrow> string" where
  "sign hmac henc self princ tenant_id workspace =
     henc (hmac (secret self) (princ @ '':'' @ tenant_id @ '':'' @ workspace))"

definition authenticate ::
  "(string \<Rightarrow> string \<Rightarrow> string) \<Rightarrow> (string \<Rightarrow> string) \<Rightarrow> HmacIdentityAuthority \<Rightarrow>
     IdentityAuthority" where
  "authenticate hmac henc self identity =
     (let expected = sign hmac henc self (id_principal identity) (id_tenant_id identity)
                       (id_workspace identity)
      in if expected = id_signature identity then Ok ()
         else Err ''identity signature mismatch'')"

lemma authenticate_Ok_iff:
  "authenticate hmac henc self identity = Inr u \<longleftrightarrow>
     id_signature identity =
       sign hmac henc self (id_principal identity) (id_tenant_id identity) (id_workspace identity)"
  by (auto simp: authenticate_def Let_def)

section \<open>Tenant, attestation, digests\<close>

definition static_authorize :: TenantAuthority where
  "static_authorize identity capability =
     (if id_tenant_id identity = [] \<or> capability = [] then
        Err ''invalid tenant authorization input''
      else Ok ())"

record StaticAttestationVerifier =
  trusted :: bool

definition static_attest :: "StaticAttestationVerifier \<Rightarrow> AttestationVerifier" where
  "static_attest self =
     (if trusted self then Ok () else Err ''attestation verification failed'')"

definition sha256_digest_hex ::
  "(string \<Rightarrow> string) \<Rightarrow> (string \<Rightarrow> string) \<Rightarrow> CryptoService" where
  "sha256_digest_hex sha256 henc data = henc (sha256 data)"

section \<open>The static supply-chain verifier\<close>

definition static_verify_admission :: SupplyChainVerifier where
  "static_verify_admission request =
     (let sc = rq_supply_chain request;
          closure = rq_closure request;
          policy_refs = cs_policy_refs (rq_constraints request)
      in if sc_executor_digest sc = [] then Err ''missing executor digest''
         else if sc_verifier_digest sc = [] then Err ''missing verifier digest''
         else if sc_policy_bundle_digest sc = [] then Err ''missing policy bundle digest''
         else if policy_refs = [] then Err ''missing pinned policy refs''
         else if \<not> list_ex (\<lambda>p. p = sc_policy_bundle_digest sc) policy_refs then
           Err ''policy bundle digest is not pinned in constraints''
         else if sc_capability_package_digest sc = [] then Err ''missing capability package digest''
         else if sc_provenance_digest sc = [] then Err ''missing provenance digest''
         else if sc_signer_oidc_issuer sc = [] then Err ''missing signer OIDC issuer''
         else if sc_rekor_log_ref sc = [] \<or> sc_rekor_inclusion_proof sc = [] then
           Err ''missing Rekor inclusion evidence''
         else if sc_rekor_url sc = [] then Err ''missing Rekor URL''
         else if sc_provenance_type sc = [] then Err ''missing provenance type''
         else if sc_signer_identity_ref sc = [] then Err ''missing signer identity reference''
         else if cl_flake_lock_digest closure = [] then Err ''missing flake.lock digest''
         else if cl_derivation_digest closure = [] then Err ''missing derivation digest''
         else if cl_runtime_closure_hash closure = [] then Err ''missing runtime closure hash''
         else if cl_store_paths closure = [] then Err ''missing store paths''
         else if cl_config_digest closure = [] then Err ''missing config digest''
         else if cl_generation_id closure = [] then Err ''missing generation id''
         else Ok ())"

text \<open>
  What the architecture document asks of an admitted request: the trusted artifact set is
  bound, the policy bundle pinned, the closure fields present.
\<close>

definition artifacts_bound :: "SupplyChainEnvelope \<Rightarrow> bool" where
  "artifacts_bound sc \<longleftrightarrow>
     [] \<notin> {sc_executor_digest sc, sc_verifier_digest sc, sc_policy_bundle_digest sc,
            sc_capability_package_digest sc, sc_provenance_digest sc, sc_signer_identity_ref sc,
            sc_signer_oidc_issuer sc, sc_rekor_url sc, sc_rekor_log_ref sc,
            sc_rekor_inclusion_proof sc, sc_provenance_type sc}"

definition closure_identified :: "ReproducibleClosure \<Rightarrow> bool" where
  "closure_identified c \<longleftrightarrow>
     cl_store_paths c \<noteq> [] \<and>
     [] \<notin> {cl_flake_lock_digest c, cl_derivation_digest c, cl_runtime_closure_hash c,
            cl_config_digest c, cl_generation_id c}"

definition policy_pinned :: "TrustedExecutionRequest \<Rightarrow> bool" where
  "policy_pinned request \<longleftrightarrow>
     sc_policy_bundle_digest (rq_supply_chain request)
       \<in> set (cs_policy_refs (rq_constraints request))"

lemma static_verify_admission_Ok:
  "static_verify_admission request = Inr u \<longleftrightarrow>
     artifacts_bound (rq_supply_chain request) \<and> policy_pinned request \<and>
     closure_identified (rq_closure request)"
  by (auto simp: static_verify_admission_def Let_def artifacts_bound_def closure_identified_def
      policy_pinned_def list_ex_iff)

section \<open>Properties\<close>

text \<open>
  the static supply-chain verifier admits a request exactly when all eleven envelope
  fields are present, the policy bundle digest is one of the pinned policy references, and
  all six closure fields are present (invariant I8).
\<close>

lemma static_verifier_admits_iff_bound:
  "static_verify_admission request = Ok () \<longleftrightarrow>
     artifacts_bound (rq_supply_chain request) \<and> policy_pinned request \<and>
     closure_identified (rq_closure request)"
  by (rule static_verify_admission_Ok)

text \<open>
  the signed message does not determine the identity: since the three fields are joined
  with an unescaped colon, moving a colon-separated part from the tenant to the principal
  leaves the signature unchanged, so a signature issued for one identity authenticates
  another, of a different tenant, under every key and every MAC.
\<close>

lemma identity_signature_is_ambiguous:
  "authenticate hmac henc self
      \<lparr> id_principal = p, id_tenant_id = t @ '':'' @ t', id_workspace = w, id_signature = sig \<rparr> =
   authenticate hmac henc self
      \<lparr> id_principal = p @ '':'' @ t, id_tenant_id = t', id_workspace = w, id_signature = sig \<rparr>"
  by (simp add: authenticate_def sign_def)

text \<open>A colon-free field is recovered from the joined message.\<close>

lemma colon_split_unique:
  assumes "CHR '':'' \<notin> set a" "CHR '':'' \<notin> set a'" "a @ CHR '':'' # b = a' @ CHR '':'' # b'"
  shows "a = a' \<and> b = b'"
  using assms
proof (induction a arbitrary: a')
  case Nil
  then show ?case by (cases a') auto
next
  case (Cons x a)
  then show ?case by (cases a') auto
qed

text \<open>
  for principals and tenants without a colon a signature does bind the identity: when
  the MAC does not collide on the two messages and the hex encoding is the crate's, a
  signature accepted for two such identities means that principal, tenant and workspace
  agree.
\<close>

lemma identity_signature_binds_without_colons:
  assumes crate: "hex_crate henc hdec"
    and mac: "inj_on (hmac (secret self))
        {id_principal i @ '':'' @ id_tenant_id i @ '':'' @ id_workspace i,
         id_principal j @ '':'' @ id_tenant_id j @ '':'' @ id_workspace j}"
    and free: "CHR '':'' \<notin> set (id_principal i)" "CHR '':'' \<notin> set (id_tenant_id i)"
      "CHR '':'' \<notin> set (id_principal j)" "CHR '':'' \<notin> set (id_tenant_id j)"
    and ok: "authenticate hmac henc self i = Ok ()" "authenticate hmac henc self j = Ok ()"
    and same: "id_signature i = id_signature j"
  shows "id_principal i = id_principal j \<and> id_tenant_id i = id_tenant_id j \<and>
         id_workspace i = id_workspace j"
proof -
  let ?m = "\<lambda>i. id_principal i @ '':'' @ id_tenant_id i @ '':'' @ id_workspace i"
  from ok same have "henc (hmac (secret self) (?m i)) = henc (hmac (secret self) (?m j))"
    by (simp add: authenticate_Ok_iff sign_def)
  then have "hmac (secret self) (?m i) = hmac (secret self) (?m j)"
    using hex_crate_decode [OF crate] by (metis option.inject)
  then have "?m i = ?m j"
    by (rule inj_onD [OF mac]) blast+
  then have "id_principal i = id_principal j \<and>
      id_tenant_id i @ CHR '':'' # id_workspace i = id_tenant_id j @ CHR '':'' # id_workspace j"
    using colon_split_unique [OF free(1) free(3)] by simp
  then show ?thesis
    using colon_split_unique [OF free(2) free(4)] by blast
qed

definition example_mac :: "string \<Rightarrow> string \<Rightarrow> string" where
  "example_mac key message = key @ message"

lemma identity_signature_binds_without_colons_example:
  "let self = \<lparr> secret = ''k'' \<rparr>;
       i = \<lparr> id_principal = ''a'', id_tenant_id = ''t'', id_workspace = ''w'',
             id_signature = sign example_mac hex_encode self ''a'' ''t'' ''w'' \<rparr>
   in id_principal i = ''a'' \<and> authenticate example_mac hex_encode self i = Ok () \<and>
      id_workspace i = id_workspace i"
proof -
  let ?self = "\<lparr> secret = ''k'' \<rparr>"
  let ?i = "\<lparr> id_principal = ''a'', id_tenant_id = ''t'', id_workspace = ''w'',
             id_signature = sign example_mac hex_encode ?self ''a'' ''t'' ''w'' \<rparr>"
  have ok: "authenticate example_mac hex_encode ?self ?i = Ok ()"
    by (simp add: authenticate_Ok_iff)
  have "id_principal ?i = id_principal ?i \<and> id_tenant_id ?i = id_tenant_id ?i \<and>
      id_workspace ?i = id_workspace ?i"
    by (rule identity_signature_binds_without_colons [OF hex_crate_instance _ _ _ _ _ ok ok refl])
      (simp_all add: inj_on_def)
  then show ?thesis using ok unfolding Let_def by (simp only: IdentityContext.simps)
qed

end
