(* ===== verification/Replay.thy ===== *)
theory Replay
  imports Ledger Trust Samples "HOL-Library.Product_Lexorder"
begin

unbundle bit_operations_syntax

text \<open>
  \<^verbatim>\<open>NoumenonCore/src/replay.rs\<close>: the rollout gates, the execution fingerprint and the
  digest of the output chain, from the step records at execution time and from the evidence
  ledger at replay time. The digest is the argument of type \<open>CryptoService\<close>.
\<close>

section \<open>Rollout\<close>

type_synonym RolloutGate = "TrustedExecutionRequest \<Rightarrow> unit result"
type_synonym ReplayExplainer = "ExecutionRecord \<Rightarrow> string \<Rightarrow> string"

record PercentRolloutGate =
  pr_percentage :: u8
  pr_salt :: string

text \<open>The loop over the seed's bytes: exclusive or, then a wrapping multiplication.\<close>

definition rollout_hash :: "string \<Rightarrow> u64" where
  "rollout_hash seed =
     foldl (\<lambda>acc b. (acc XOR word_of_nat (byte b)) * 1099511628211) 1469598103934665603 seed"

definition rollout_bucket :: "PercentRolloutGate \<Rightarrow> TrustedExecutionRequest \<Rightarrow> u8" where
  "rollout_bucket self request =
     ucast (rollout_hash (rq_execution_id request @ '':'' @ pr_salt self) mod 100)"

definition percent_admit :: "PercentRolloutGate \<Rightarrow> RolloutGate" where
  "percent_admit self request =
     (let p = min (pr_percentage self) 100
      in if p = 100 then Ok ()
         else if rollout_bucket self request < p then Ok ()
         else Err ''execution blocked by rollout gate'')"

definition open_admit :: RolloutGate where
  "open_admit request = Ok ()"

section \<open>Explanation\<close>

definition default_explain :: ReplayExplainer where
  "default_explain rec actual_fingerprint =
     (if er_step_records rec = [] then ''mismatch:no-step-records''
      else if record_fingerprint rec = [] then ''mismatch:missing-expected-fingerprint''
      else ''mismatch:fingerprint expected='' @ record_fingerprint rec @
           '' actual='' @ actual_fingerprint @
           '' step_count='' @ show_nat (length (er_step_records rec)))"

section \<open>The fingerprint\<close>

definition build_fingerprint_material ::
  "ReproducibleClosure \<Rightarrow> SupplyChainEnvelope \<Rightarrow> CryptoService \<Rightarrow> FingerprintMaterial" where
  "build_fingerprint_material closure supply_chain digest =
     (let canonical_store_paths = sort (cl_store_paths closure);
          store_paths_digest = digest (join ''|'' canonical_store_paths)
      in \<lparr> fm_flake_lock_digest = cl_flake_lock_digest closure,
           fm_derivation_digest = cl_derivation_digest closure,
           fm_canonical_store_paths = canonical_store_paths,
           fm_store_paths_digest = store_paths_digest,
           fm_runtime_closure_hash = cl_runtime_closure_hash closure,
           fm_policy_bundle_digest = sc_policy_bundle_digest supply_chain,
           fm_wasm_plugin_digest = sc_capability_package_digest supply_chain,
           fm_verifier_digest = sc_verifier_digest supply_chain,
           fm_config_digest = cl_config_digest closure,
           fm_generation_id = cl_generation_id closure \<rparr>)"

definition fingerprint_payload :: "FingerprintMaterial \<Rightarrow> string \<Rightarrow> string" where
  "fingerprint_payload m output_chain_digest =
     join ''|''
       [fm_flake_lock_digest m,
        fm_derivation_digest m,
        join ''|'' (fm_canonical_store_paths m),
        fm_store_paths_digest m,
        fm_runtime_closure_hash m,
        fm_policy_bundle_digest m,
        fm_wasm_plugin_digest m,
        fm_verifier_digest m,
        fm_config_digest m,
        fm_generation_id m,
        output_chain_digest]"

definition compute_execution_fingerprint ::
  "FingerprintMaterial \<Rightarrow> string \<Rightarrow> CryptoService \<Rightarrow> string" where
  "compute_execution_fingerprint material output_chain_digest digest =
     digest (fingerprint_payload material output_chain_digest)"

section \<open>The output chain\<close>

definition output_chain_digest_from_step_records :: "StepRecord list \<Rightarrow> CryptoService \<Rightarrow> string" where
  "output_chain_digest_from_step_records step_records digest =
     digest (foldl (\<lambda>chain step. chain @ sr_output_digest step) [] step_records)"

definition index_by_prev_hash :: "EvidenceRecord list \<Rightarrow> (string \<rightharpoonup> EvidenceRecord)" where
  "index_by_prev_hash events = foldl (\<lambda>m event. m(ev_prev_hash event \<mapsto> event)) Map.empty events"

definition push_output :: "string \<Rightarrow> EvidenceRecord \<Rightarrow> string" where
  "push_output chain event =
     (if ev_event_type event = ''STEP_EXECUTED'' then chain @ ev_payload_digest event else chain)"

text \<open>
  The \<^verbatim>\<open>while let\<close> walk along the hashes. The count of events still to visit is the first
  argument: the loop returns when it has visited them all, and ends without a result when no
  event follows. (No event at all means an empty index, so the walk ends at once.)
\<close>

fun walk_chain ::
  "nat \<Rightarrow> (string \<rightharpoonup> EvidenceRecord) \<Rightarrow> string \<Rightarrow> string \<Rightarrow> string option" where
  "walk_chain 0 by_prev_hash next_prev_hash chain = None"
| "walk_chain (Suc n) by_prev_hash next_prev_hash chain =
     (case by_prev_hash next_prev_hash of
        None \<Rightarrow> None
      | Some event \<Rightarrow>
          (let chain' = push_output chain event
           in if n = 0 then Some chain'
              else walk_chain n by_prev_hash (ev_record_hash event) chain'))"

definition output_chain_digest_from_evidence :: "EvidenceRecord list \<Rightarrow> CryptoService \<Rightarrow> string" where
  "output_chain_digest_from_evidence events digest =
     (case walk_chain (length events) (index_by_prev_hash events) ''genesis'' [] of
        Some chain \<Rightarrow> digest chain
      | None \<Rightarrow>
          (let ordered = sort_key (\<lambda>e. (ev_timestamp_ms e, ev_record_id e)) events
           in digest (foldl push_output [] ordered)))"

section \<open>Linked evidence\<close>

text \<open>Evidence in chain order: each record names the hash of the one before it.\<close>

fun linked :: "string \<Rightarrow> EvidenceRecord list \<Rightarrow> bool" where
  "linked prev [] = True"
| "linked prev (e # es) \<longleftrightarrow> ev_prev_hash e = prev \<and> linked (ev_record_hash e) es"

lemma linked_append:
  "linked p (xs @ ys) \<longleftrightarrow>
     linked p xs \<and> linked (if xs = [] then p else ev_record_hash (last xs)) ys"
  by (induction xs arbitrary: p) auto

lemma index_by_prev_hash_map_of:
  "index_by_prev_hash events = map_of (rev (map (\<lambda>e. (ev_prev_hash e, e)) events))"
proof -
  have "foldl (\<lambda>m event. m(ev_prev_hash event \<mapsto> event)) m events =
      m ++ map_of (rev (map (\<lambda>e. (ev_prev_hash e, e)) events))" for m
    by (induction events arbitrary: m) (simp_all add: map_add_def fun_eq_iff split: option.splits)
  then show ?thesis by (simp add: index_by_prev_hash_def)
qed

lemma index_by_prev_hash_lookup:
  assumes "distinct (map ev_prev_hash events)" and "e \<in> set events"
  shows "index_by_prev_hash events (ev_prev_hash e) = Some e"
proof -
  have "map fst (rev (map (\<lambda>e. (ev_prev_hash e, e)) events)) = rev (map ev_prev_hash events)"
    by (simp add: rev_map o_def)
  then have "distinct (map fst (rev (map (\<lambda>e. (ev_prev_hash e, e)) events)))"
    using assms(1) by simp
  then show ?thesis
    unfolding index_by_prev_hash_map_of using assms(2) by (intro map_of_is_SomeI) auto
qed

lemma walk_chain_linked:
  assumes "linked p es" and "es \<noteq> []" and "\<forall>e\<in>set es. m (ev_prev_hash e) = Some e"
  shows "walk_chain (length es) m p chain = Some (foldl push_output chain es)"
  using assms
proof (induction es arbitrary: p chain)
  case (Cons e es)
  then show ?case by (cases es) (auto simp: Let_def)
qed simp

lemma output_chain_linked:
  assumes "linked ''genesis'' es" and "distinct (map ev_prev_hash es)"
  shows "output_chain_digest_from_evidence es digest = digest (foldl push_output [] es)"
proof (cases "es = []")
  case True
  then show ?thesis by (simp add: output_chain_digest_from_evidence_def)
next
  case False
  have "walk_chain (length es) (index_by_prev_hash es) ''genesis'' [] =
      Some (foldl push_output [] es)"
    by (rule walk_chain_linked [OF assms(1) False]) (simp add: index_by_prev_hash_lookup assms(2))
  then show ?thesis by (simp add: output_chain_digest_from_evidence_def)
qed

lemma sort_eq_of_mset:
  fixes xs ys :: "'a::linorder list"
  assumes "mset xs = mset ys"
  shows "sort xs = sort ys"
  using assms by (metis sorted_list_of_multiset_mset)

text \<open>
  The declared store paths are a multiset to the fingerprint: the order in which a closure
  lists them changes neither the fingerprint material nor the execution fingerprint.
\<close>

lemma fingerprint_ignores_store_path_order:
  assumes "mset ps = mset (cl_store_paths c)"
  shows "compute_execution_fingerprint
           (build_fingerprint_material (c\<lparr> cl_store_paths := ps \<rparr>) sc digest) chain digest =
         compute_execution_fingerprint (build_fingerprint_material c sc digest) chain digest"
  using sort_eq_of_mset [OF assms] by (simp add: build_fingerprint_material_def)

lemma fingerprint_ignores_store_path_order_example:
  "compute_execution_fingerprint
     (build_fingerprint_material (sample_closure\<lparr> cl_store_paths := [''/nix/a'', ''/nix/b''] \<rparr>)
        sample_supply_chain (\<lambda>x. x)) ''chain'' (\<lambda>x. x) =
   compute_execution_fingerprint
     (build_fingerprint_material sample_closure sample_supply_chain (\<lambda>x. x)) ''chain'' (\<lambda>x. x)"
  by (rule fingerprint_ignores_store_path_order) (simp add: sample_closure_def)

section \<open>What a fingerprint binds\<close>

text \<open>The fields of a fingerprint payload, in order; the store paths are fields of their own.\<close>

definition fingerprint_fields :: "FingerprintMaterial \<Rightarrow> string \<Rightarrow> string list" where
  "fingerprint_fields m chain =
     fm_flake_lock_digest m # fm_derivation_digest m # fm_canonical_store_paths m @
     [fm_store_paths_digest m, fm_runtime_closure_hash m, fm_policy_bundle_digest m,
      fm_wasm_plugin_digest m, fm_verifier_digest m, fm_config_digest m, fm_generation_id m, chain]"

definition bar_free :: "FingerprintMaterial \<Rightarrow> string \<Rightarrow> bool" where
  "bar_free m chain \<longleftrightarrow> (\<forall>f\<in>set (fingerprint_fields m chain). CHR ''|'' \<notin> set f)"

lemma join_append:
  "xs \<noteq> [] \<Longrightarrow> ys \<noteq> [] \<Longrightarrow> join sep (xs @ ys) = join sep xs @ sep @ join sep ys"
  by (induction sep xs rule: join.induct) (auto simp: join_Cons)

lemma fingerprint_payload_fields:
  assumes "fm_canonical_store_paths m \<noteq> []"
  shows "fingerprint_payload m chain = join ''|'' (fingerprint_fields m chain)"
  using assms by (simp add: fingerprint_payload_def fingerprint_fields_def join_append join_Cons)

lemma fingerprint_fields_not_Nil: "fingerprint_fields m chain \<noteq> []"
  by (simp add: fingerprint_fields_def)

lemma fingerprint_fields_inj:
  assumes "fingerprint_fields m chain = fingerprint_fields m' chain'"
  shows "m = m' \<and> chain = chain'"
proof -
  have "length (fm_canonical_store_paths m) = length (fm_canonical_store_paths m')"
    using arg_cong [OF assms, of length] by (simp add: fingerprint_fields_def)
  with assms show ?thesis
    by (cases m; cases m') (simp add: fingerprint_fields_def)
qed

text \<open>
  C14: An execution fingerprint binds everything it is computed from: when no field holds the
  separator \<^verbatim>\<open>|\<close>, both closures name a store path and the digest does not collide on the two
  payloads, equal fingerprints mean the same lock, derivation, store paths, closure hash,
  policy, plugin, verifier, configuration, generation and output chain.
\<close>

theorem fingerprint_binds_material_and_outputs:
  assumes "compute_execution_fingerprint m chain digest = compute_execution_fingerprint m' chain' digest"
    and "bar_free m chain" and "bar_free m' chain'"
    and "fm_canonical_store_paths m \<noteq> []" and "fm_canonical_store_paths m' \<noteq> []"
    and "inj_on digest {fingerprint_payload m chain, fingerprint_payload m' chain'}"
  shows "m = m' \<and> chain = chain'"
proof -
  have "fingerprint_payload m chain = fingerprint_payload m' chain'"
    by (rule inj_onD [OF assms(6) assms(1) [unfolded compute_execution_fingerprint_def]]) blast+
  then have "split_on CHR ''|'' (join ''|'' (fingerprint_fields m chain)) =
      split_on CHR ''|'' (join ''|'' (fingerprint_fields m' chain'))"
    using assms(4,5) by (simp add: fingerprint_payload_fields)
  then have "fingerprint_fields m chain = fingerprint_fields m' chain'"
    using split_on_join [OF fingerprint_fields_not_Nil assms(2) [unfolded bar_free_def]]
      split_on_join [OF fingerprint_fields_not_Nil assms(3) [unfolded bar_free_def]]
    by metis
  then show ?thesis by (rule fingerprint_fields_inj)
qed

theorem fingerprint_binds_material_and_outputs_witness:
  "let m = build_fingerprint_material sample_closure sample_supply_chain (\<lambda>x. ''d'')
   in compute_execution_fingerprint m ''c1'' (\<lambda>x. x) \<noteq> compute_execution_fingerprint m ''c2'' (\<lambda>x. x)"
proof -
  define m where "m = build_fingerprint_material sample_closure sample_supply_chain (\<lambda>x. ''d'')"
  have paths: "fm_canonical_store_paths m \<noteq> []" by (simp add: m_def build_fingerprint_material_def sample_closure_def)
  have free: "bar_free m ''c1''" "bar_free m ''c2''"
    by (simp_all add: m_def bar_free_def fingerprint_fields_def build_fingerprint_material_def
        sample_closure_def sample_supply_chain_def)
  have "compute_execution_fingerprint m ''c1'' (\<lambda>x. x) \<noteq> compute_execution_fingerprint m ''c2'' (\<lambda>x. x)"
    using fingerprint_binds_material_and_outputs [OF _ free paths paths, of "\<lambda>x. x"] by auto
  then show ?thesis by (simp add: m_def Let_def)
qed

section \<open>The percentage gate\<close>

lemma rollout_bucket_below_100: "rollout_bucket g r < 100"
proof -
  have "unat (rollout_hash s mod 100) < 100" for s
    by (simp add: unat_mod)
  moreover have "unat (ucast (w :: u64) :: u8) = unat w" if "unat w < 100" for w
    using that by (simp add: unsigned_ucast_eq take_bit_nat_eq_self)
  ultimately show ?thesis by (simp add: rollout_bucket_def word_less_nat_alt)
qed

lemma percent_admit_Ok_iff:
  "percent_admit g r = Inr u \<longleftrightarrow> 100 \<le> pr_percentage g \<or> rollout_bucket g r < pr_percentage g"
proof -
  have "(100 :: u8) \<le> p \<Longrightarrow> min p 100 = 100" for p by (simp add: min_def)
  moreover have "\<not> (100 :: u8) \<le> p \<Longrightarrow> min p 100 = p \<and> p \<noteq> 100" for p by (auto simp: min_def)
  ultimately show ?thesis
    by (cases "100 \<le> pr_percentage g") (simp_all add: percent_admit_def Let_def)
qed

text \<open>
  The percentage gate is a staged rollout: no request passes at 0, every request passes
  from 100 on, and raising the percentage under one salt never turns away a request that was
  admitted before.
\<close>

lemma percent_gate_is_a_staged_rollout:
  "percent_admit \<lparr> pr_percentage = 0, pr_salt = s \<rparr> r \<noteq> Ok () \<and>
   (100 \<le> p \<longrightarrow> percent_admit \<lparr> pr_percentage = p, pr_salt = s \<rparr> r = Ok ()) \<and>
   (p \<le> q \<longrightarrow> percent_admit \<lparr> pr_percentage = p, pr_salt = s \<rparr> r = Ok () \<longrightarrow>
      percent_admit \<lparr> pr_percentage = q, pr_salt = s \<rparr> r = Ok ())"
proof -
  have "rollout_bucket \<lparr> pr_percentage = p, pr_salt = s \<rparr> r =
      rollout_bucket \<lparr> pr_percentage = q, pr_salt = s \<rparr> r"
    by (simp add: rollout_bucket_def)
  then show ?thesis
    by (auto simp: percent_admit_Ok_iff intro: order_trans order_less_le_trans)
qed

lemma percent_gate_is_a_staged_rollout_example:
  "percent_admit \<lparr> pr_percentage = 86, pr_salt = ''s'' \<rparr> (sample_request ''e'' []) = Ok () \<and>
   percent_admit \<lparr> pr_percentage = 90, pr_salt = ''s'' \<rparr> (sample_request ''e'' []) = Ok () \<and>
   percent_admit \<lparr> pr_percentage = 100, pr_salt = ''s'' \<rparr> (sample_request ''e'' []) = Ok ()"
proof -
  have at86: "percent_admit \<lparr> pr_percentage = 86, pr_salt = ''s'' \<rparr> (sample_request ''e'' []) = Ok ()"
    by (simp add: percent_admit_def rollout_bucket_def rollout_hash_def byte_def)
  have le: "(86 :: u8) \<le> 90" "(100 :: u8) \<le> 100" by simp_all
  show ?thesis
    using percent_gate_is_a_staged_rollout [of "''s''" "sample_request ''e'' []" 86 90]
      percent_gate_is_a_staged_rollout [of "''s''" "sample_request ''e'' []" 100 100] at86 le
    by blast
qed

end
