(* ===== verification/Kernel.thy ===== *)
theory Kernel
  imports Exec_State Execution Budget Governance Resource Replay
begin

text \<open>
  The mandatory execution path of \<^verbatim>\<open>NoumenonCore/src/kernel.rs\<close>. The services the kernel holds
  behind \<^verbatim>\<open>Arc<dyn Trait>\<close> are the fields of \<open>NoumenonCore\<close>: the functions of each trait the
  kernel calls. A ledger, governor or recovery hook has a state of its own, kept in
  \<open>KernelState\<close> with the registry and the number of clock readings made so far;
  \<open>clock i\<close> is the \<open>i\<close>-th reading of \<^verbatim>\<open>now_ms()\<close>.

  \<^verbatim>\<open>execute\<close> is one function in the source; here it is cut at its state transitions:
  \<open>admission\<close>, \<open>enforcement\<close>, \<open>reserved_run\<close>, \<open>executing\<close>, \<open>recording\<close>, \<open>verifying\<close>.
  Each returns the result, the state machine and the services' states; an error that
  \<^verbatim>\<open>?\<close> propagates ends the phase with the effects made so far.
\<close>

record ('ev, 'bd, 'gv, 'rc) NoumenonCore =
  identity_authority :: IdentityAuthority
  tenant_authority :: TenantAuthority
  attestation_verifier :: AttestationVerifier
  supply_chain_verifier :: SupplyChainVerifier
  crypto :: CryptoService
  evidence_append :: "'ev \<Rightarrow> EvidenceRecord \<Rightarrow> unit result \<times> 'ev"
  evidence_by_execution :: "'ev \<Rightarrow> string \<Rightarrow> EvidenceRecord list"
  budget_reserve :: "'bd \<Rightarrow> string \<Rightarrow> string \<Rightarrow> u64 \<Rightarrow> unit result \<times> 'bd"
  budget_consume :: "'bd \<Rightarrow> string \<Rightarrow> u64 \<Rightarrow> unit result \<times> 'bd"
  result_validator :: ResultValidator
  governor_acquire :: "'gv \<Rightarrow> ResourceRequirement \<Rightarrow> unit result \<times> 'gv"
  governor_return :: "'gv \<Rightarrow> ResourceRequirement \<Rightarrow> 'gv"
  learning_gate :: LearningWriteGate
  recovery_recover :: "'rc \<Rightarrow> ExecutionRecord \<Rightarrow> unit result \<times> 'rc"
  rollout_gate :: RolloutGate
  replay_explainer :: ReplayExplainer

record ('ev, 'bd, 'gv, 'rc) KernelState =
  ks_evidence :: 'ev
  ks_budget :: 'bd
  ks_governor :: 'gv
  ks_recovery :: 'rc
  ks_capabilities :: CapabilityRegistry
  ks_ticks :: nat

type_synonym ('s) outcome = "ExecutionRecord result \<times> StateMachine \<times> 's"

section \<open>Transitions and rejections\<close>

text \<open>\<^verbatim>\<open>sm.transit(to)?\<close> followed by the rest of the path.\<close>

definition move ::
  "StateMachine \<Rightarrow> ExecutionStatus \<Rightarrow> 's \<Rightarrow> (StateMachine \<Rightarrow> 'a result \<times> StateMachine \<times> 's) \<Rightarrow>
     'a result \<times> StateMachine \<times> 's" where
  "move sm to st k =
     (case transit sm to of
        (Inl e, sm') \<Rightarrow> (Inl e, sm', st)
      | (Inr _, sm') \<Rightarrow> k sm')"

text \<open>A refused gate: \<^verbatim>\<open>if let Err(e) = .. { sm.transit(Rejected)?; return Err(anyhow!(..)) }\<close>.\<close>

fun rejected :: "string \<Rightarrow> error \<Rightarrow> StateMachine \<Rightarrow> 's \<Rightarrow> 'a result \<times> StateMachine \<times> 's" where
  "rejected msg (Anyhow e) sm st = move sm Rejected st (\<lambda>sm. (Err (msg @ e), sm, st))"
| "rejected msg Panicked sm st = (Inl Panicked, sm, st)"

definition gate ::
  "unit result \<Rightarrow> string \<Rightarrow> StateMachine \<Rightarrow> 's \<Rightarrow>
     'a result \<times> StateMachine \<times> 's \<Rightarrow> 'a result \<times> StateMachine \<times> 's" where
  "gate verdict msg sm st k =
     (case verdict of Inl e \<Rightarrow> rejected msg e sm st | Inr _ \<Rightarrow> k)"

section \<open>Admission and enforcement\<close>

definition admission ::
  "('ev, 'bd, 'gv, 'rc, 'z) NoumenonCore_scheme \<Rightarrow> TrustedExecutionRequest \<Rightarrow>
     unit result \<times> StateMachine \<times> unit" where
  "admission self request =
     (let sm = new_sm
      in if in_operation (rq_intent request) = ''replay_only'' \<or>
            in_operation (rq_intent request) = ''audit_only''
         then move sm Rejected () (\<lambda>sm.
           (Err ''execution rejected: operation mode is outside mandatory kernel path'', sm, ()))
         else
           gate (identity_authority self (rq_identity request))
             ''execution rejected by identity authority: '' sm () (
           gate (supply_chain_verifier self request)
             ''execution rejected by supply-chain verifier: '' sm () (
           gate (rollout_gate self request)
             ''execution rejected by rollout gate: '' sm () (
           move sm Admitted () (\<lambda>sm.
           move sm Enforcing () (\<lambda>sm. (Ok (), sm, ())))))))"

fun enforce_steps ::
  "Host \<Rightarrow> ('ev, 'bd, 'gv, 'rc, 'z) NoumenonCore_scheme \<Rightarrow> TrustedExecutionRequest \<Rightarrow>
     ExecutionStep list \<Rightarrow> StateMachine \<Rightarrow> unit result \<times> StateMachine \<times> unit" where
  "enforce_steps h self request [] sm = (Ok (), sm, ())"
| "enforce_steps h self request (step # rest) sm =
     gate (case st_capability_ref step of
             None \<Rightarrow> Ok ()
           | Some cap \<Rightarrow> tenant_authority self (rq_identity request) cap)
       ''execution rejected by tenant authority: '' sm () (
     gate (enforce_runtime_island_hardening h step (rq_constraints request))
       ''execution rejected by runtime hardening gate: '' sm () (
     enforce_steps h self request rest sm))"

definition trust_level :: "TrustedExecutionRequest \<Rightarrow> TrustLevel" where
  "trust_level request =
     (if eq_ignore_ascii_case (vs_trust_level (rq_verification_spec request)) ''hard'' then Hard
      else Soft)"

definition enforcement ::
  "Host \<Rightarrow> ('ev, 'bd, 'gv, 'rc, 'z) NoumenonCore_scheme \<Rightarrow> TrustedExecutionRequest \<Rightarrow>
     StateMachine \<Rightarrow> unit result \<times> StateMachine \<times> unit" where
  "enforcement h self request sm =
     (if vs_verify_environment (rq_verification_spec request) \<and> trust_level request = Hard then
        gate (attestation_verifier self)
          ''execution rejected by attestation verifier: '' sm ()
          (enforce_steps h self request (steps request) sm)
      else enforce_steps h self request (steps request) sm)"

section \<open>Records\<close>

definition budget_id :: "TrustedExecutionRequest \<Rightarrow> string" where
  "budget_id request = ''budget:'' @ id_tenant_id (rq_identity request)"

definition stream_id :: "TrustedExecutionRequest \<Rightarrow> string" where
  "stream_id request = ''evidence:'' @ rq_execution_id request"

definition empty_record :: "TrustedExecutionRequest \<Rightarrow> string \<Rightarrow> ExecutionRecord" where
  "empty_record request status =
     \<lparr> er_execution_id = rq_execution_id request,
       er_final_status = status,
       er_final_output = None,
       er_step_records = [],
       er_evidence_bundle =
         \<lparr> eb_evidence_record_ids = [],
           eb_execution_fingerprint = [],
           eb_fingerprint_material = default_fingerprint_material,
           eb_mismatch_explanation = None \<rparr>,
       er_ledger_refs =
         \<lparr> lr_budget_account_id = ''budget:'' @ id_tenant_id (rq_identity request),
           lr_evidence_stream_id = ''evidence:'' @ rq_execution_id request \<rparr> \<rparr>"

definition hardening_entry :: "ExecutionStep \<Rightarrow> string" where
  "hardening_entry s =
     (let hp = st_hardening s;
          none = ''<none>''
      in join '':''
          [st_step_id s,
           unwrap_or (st_capability_ref s) ''<missing-capability>'',
           debug_island (st_runtime_island s),
           unwrap_or (hp_hardening_profile hp) none,
           unwrap_or (hp_seccomp_profile_ref hp) none,
           unwrap_or (hp_syscall_policy_ref hp) none,
           show_bool (hp_enforce_namespace_isolation hp),
           show_bool (hp_enforce_cgroup_isolation hp),
           show_bool (hp_enforce_fs_isolation hp),
           show_bool (hp_enforce_network_isolation hp)])"

definition build_execution_context_payload :: "TrustedExecutionRequest \<Rightarrow> string" where
  "build_execution_context_payload request =
     (let store_paths = sort (cl_store_paths (rq_closure request));
          capability_set = remdups_adj (sort (filter_map st_capability_ref (steps request)));
          hardening_view = sort (map hardening_entry (steps request));
          sc = rq_supply_chain request;
          cl = rq_closure request
      in join ''|''
          [''exec_id='' @ rq_execution_id request,
           ''tenant='' @ id_tenant_id (rq_identity request),
           ''principal='' @ id_principal (rq_identity request),
           ''operation='' @ in_operation (rq_intent request),
           ''policy='' @ sc_policy_bundle_digest sc,
           ''executor='' @ sc_executor_digest sc,
           ''verifier='' @ sc_verifier_digest sc,
           ''wasm_plugin='' @ sc_capability_package_digest sc,
           ''provenance='' @ sc_provenance_digest sc,
           ''rekor_ref='' @ sc_rekor_log_ref sc,
           ''rekor_proof='' @ sc_rekor_inclusion_proof sc,
           ''flake_lock='' @ cl_flake_lock_digest cl,
           ''drv='' @ cl_derivation_digest cl,
           ''closure='' @ cl_runtime_closure_hash cl,
           ''config='' @ cl_config_digest cl,
           ''generation='' @ cl_generation_id cl,
           ''profile='' @ cl_profile_id cl,
           ''store_paths='' @ join '','' store_paths,
           ''capability_set='' @ join '','' capability_set,
           ''hardening='' @ join '';'' hardening_view])"

section \<open>Recording evidence\<close>

definition chain_payload :: "string \<Rightarrow> string \<Rightarrow> string \<Rightarrow> string \<Rightarrow> string \<Rightarrow> string" where
  "chain_payload execution_id sid first_digest second_digest prev_hash =
     execution_id @ '':'' @ sid @ '':'' @ first_digest @ '':'' @ second_digest @ '':'' @ prev_hash"

definition context_evidence ::
  "('ev, 'bd, 'gv, 'rc, 'z) NoumenonCore_scheme \<Rightarrow> TrustedExecutionRequest \<Rightarrow> u128 \<Rightarrow>
     EvidenceRecord" where
  "context_evidence self request ts =
     (let prev_hash = ''genesis'';
          context_payload = build_execution_context_payload request;
          context_payload_digest = crypto self context_payload;
          context_record_hash = crypto self
            (chain_payload (rq_execution_id request) ''admission-context'' ''context''
               context_payload_digest prev_hash)
      in \<lparr> ev_record_id = rq_execution_id request @ '':admission-context'',
           ev_stream_id = stream_id request,
           ev_execution_id = rq_execution_id request,
           ev_step_id = ''admission-context'',
           ev_event_type = ''EXECUTION_CONTEXT_BOUND'',
           ev_payload_digest = context_payload_digest,
           ev_prev_hash = prev_hash,
           ev_record_hash = context_record_hash,
           ev_timestamp_ms = ts \<rparr>)"

definition step_evidence ::
  "('ev, 'bd, 'gv, 'rc, 'z) NoumenonCore_scheme \<Rightarrow> TrustedExecutionRequest \<Rightarrow>
     ExecutionStep \<Rightarrow> StepExecutionOutput \<Rightarrow> string \<Rightarrow> u128 \<Rightarrow> EvidenceRecord" where
  "step_evidence self request step out prev_hash ts =
     (let input_digest = crypto self (st_input step);
          output_digest = crypto self (so_output out);
          record_hash = crypto self
            (chain_payload (rq_execution_id request) (so_step_id out) input_digest output_digest
               prev_hash)
      in \<lparr> ev_record_id = rq_execution_id request @ '':'' @ so_step_id out,
           ev_stream_id = stream_id request,
           ev_execution_id = rq_execution_id request,
           ev_step_id = so_step_id out,
           ev_event_type = ''STEP_EXECUTED'',
           ev_payload_digest = output_digest,
           ev_prev_hash = prev_hash,
           ev_record_hash = record_hash,
           ev_timestamp_ms = ts \<rparr>)"

definition step_record ::
  "('ev, 'bd, 'gv, 'rc, 'z) NoumenonCore_scheme \<Rightarrow> ExecutionStep \<Rightarrow> StepExecutionOutput \<Rightarrow>
     u128 \<Rightarrow> StepRecord" where
  "step_record self step out ts =
     \<lparr> sr_step_id = so_step_id out,
       sr_capability_ref = st_capability_ref step,
       sr_input_digest = crypto self (st_input step),
       sr_output_digest = crypto self (so_output out),
       sr_success = True,
       sr_error = None,
       sr_cost_units = so_cost_units out,
       sr_timestamp_ms = ts \<rparr>"

text \<open>
  The loop over the outputs. It carries the previous hash, the evidence ids and the step
  records pushed so far, and reads the clock twice an iteration.
\<close>

fun record_outputs ::
  "('ev, 'bd, 'gv, 'rc, 'z) NoumenonCore_scheme \<Rightarrow> (nat \<Rightarrow> u128) \<Rightarrow> TrustedExecutionRequest \<Rightarrow>
     StepExecutionOutput list \<Rightarrow> string \<Rightarrow> string list \<Rightarrow> StepRecord list \<Rightarrow>
     ('ev, 'bd, 'gv, 'rc) KernelState \<Rightarrow>
     (string list \<times> StepRecord list) result \<times> ('ev, 'bd, 'gv, 'rc) KernelState" where
  "record_outputs self clock request [] prev_hash evidence_ids step_records st =
     (Ok (evidence_ids, step_records), st)"
| "record_outputs self clock request (out # outs) prev_hash evidence_ids step_records st =
     (case find_step request (so_step_id out) of
        None \<Rightarrow> (Err ''step not found during record build'', st)
      | Some step \<Rightarrow>
          (let evidence = step_evidence self request step out prev_hash (clock (ks_ticks st));
               (r, ev) = evidence_append self (ks_evidence st) evidence;
               st = st\<lparr> ks_evidence := ev, ks_ticks := ks_ticks st + 1 \<rparr>
           in case r of
                Inl e \<Rightarrow> (Inl e, st)
              | Inr _ \<Rightarrow>
                  record_outputs self clock request outs (ev_record_hash evidence)
                    (evidence_ids @ [ev_record_id evidence])
                    (step_records @ [step_record self step out (clock (ks_ticks st))])
                    (st\<lparr> ks_ticks := ks_ticks st + 1 \<rparr>)))"

text \<open>\<^verbatim>\<open>iter().map(..).sum()\<close> of \<^verbatim>\<open>u64\<close> costs, with the build's overflow behaviour.\<close>

definition sum_costs :: "bool \<Rightarrow> u64 list \<Rightarrow> u64 result" where
  "sum_costs oc costs = foldl (\<lambda>acc c. and_then acc (\<lambda>a. checked_plus oc a c)) (Ok 0) costs"

section \<open>Verification, roll-back and completion\<close>

text \<open>\<^verbatim>\<open>self.recovery.recover(..)?; sm.transit(RolledBack)?; .. return Ok(..)\<close>.\<close>

definition roll_back ::
  "('ev, 'bd, 'gv, 'rc, 'z) NoumenonCore_scheme \<Rightarrow> ExecutionRecord \<Rightarrow> ExecutionRecord \<Rightarrow>
     StateMachine \<Rightarrow> ('ev, 'bd, 'gv, 'rc) KernelState \<Rightarrow>
     ('ev, 'bd, 'gv, 'rc) KernelState outcome" where
  "roll_back self rec answer sm st =
     (let (r, rc) = recovery_recover self (ks_recovery st) rec;
          st = st\<lparr> ks_recovery := rc \<rparr>
      in case r of
           Inl e \<Rightarrow> (Inl e, sm, st)
         | Inr _ \<Rightarrow> move sm RolledBack st (\<lambda>sm. (Ok answer, sm, st)))"

text \<open>A mandatory check after recording: its refusal rolls back and explains the mismatch.\<close>

definition checked_or_rolled_back ::
  "('ev, 'bd, 'gv, 'rc, 'z) NoumenonCore_scheme \<Rightarrow> unit result \<Rightarrow> ExecutionRecord \<Rightarrow>
     StateMachine \<Rightarrow> ('ev, 'bd, 'gv, 'rc) KernelState \<Rightarrow>
     ('ev, 'bd, 'gv, 'rc) KernelState outcome \<Rightarrow> ('ev, 'bd, 'gv, 'rc) KernelState outcome" where
  "checked_or_rolled_back self verdict rec sm st k =
     (case verdict of
        Inr _ \<Rightarrow> k
      | Inl Panicked \<Rightarrow> (Inl Panicked, sm, st)
      | Inl (Anyhow e) \<Rightarrow>
          move sm Failed st (\<lambda>sm.
            let rec = rec\<lparr> er_final_status := ''RolledBack'',
                           er_evidence_bundle := (er_evidence_bundle rec)
                             \<lparr> eb_mismatch_explanation := Some e \<rparr> \<rparr>
            in roll_back self rec rec sm st))"

definition verifying ::
  "('ev, 'bd, 'gv, 'rc, 'z) NoumenonCore_scheme \<Rightarrow> TrustedExecutionRequest \<Rightarrow> ExecutionRecord \<Rightarrow>
     StateMachine \<Rightarrow> ('ev, 'bd, 'gv, 'rc) KernelState \<Rightarrow>
     ('ev, 'bd, 'gv, 'rc) KernelState outcome" where
  "verifying self request rec sm st =
     checked_or_rolled_back self
       (if vs_validate_output (rq_verification_spec request) then result_validator self rec
        else Ok ()) rec sm st (
     checked_or_rolled_back self (learning_gate self rec) rec sm st (
     move sm Completed st (\<lambda>sm. (Ok rec, sm, st))))"

definition completed_record ::
  "('ev, 'bd, 'gv, 'rc, 'z) NoumenonCore_scheme \<Rightarrow> TrustedExecutionRequest \<Rightarrow> string list \<Rightarrow>
     StepRecord list \<Rightarrow> ExecutionRecord" where
  "completed_record self request evidence_ids step_records =
     (let final_output =
            (if step_records = [] then None
             else Some (''output_digest:'' @ sr_output_digest (last step_records)));
          fingerprint_material =
            build_fingerprint_material (rq_closure request) (rq_supply_chain request) (crypto self);
          output_chain_digest = output_chain_digest_from_step_records step_records (crypto self);
          execution_fingerprint =
            compute_execution_fingerprint fingerprint_material output_chain_digest (crypto self)
      in \<lparr> er_execution_id = rq_execution_id request,
           er_final_status = ''Completed'',
           er_final_output = final_output,
           er_step_records = step_records,
           er_evidence_bundle =
             \<lparr> eb_evidence_record_ids = evidence_ids,
               eb_execution_fingerprint = execution_fingerprint,
               eb_fingerprint_material = fingerprint_material,
               eb_mismatch_explanation = None \<rparr>,
           er_ledger_refs =
             \<lparr> lr_budget_account_id = budget_id request,
               lr_evidence_stream_id = stream_id request \<rparr> \<rparr>)"

section \<open>The mandatory path\<close>

text \<open>From the total cost to the answer: consume the budget, build the record, verify.\<close>

definition settling ::
  "bool \<Rightarrow> ('ev, 'bd, 'gv, 'rc, 'z) NoumenonCore_scheme \<Rightarrow> TrustedExecutionRequest \<Rightarrow>
     string list \<Rightarrow> StepRecord list \<Rightarrow> StateMachine \<Rightarrow>
     ('ev, 'bd, 'gv, 'rc) KernelState \<Rightarrow> ('ev, 'bd, 'gv, 'rc) KernelState outcome" where
  "settling oc self request evidence_ids step_records sm st =
     (case sum_costs oc (map sr_cost_units step_records) of
        Inl e \<Rightarrow> (Inl e, sm, st)
      | Inr total_cost \<Rightarrow>
          (let (r, bd) = budget_consume self (ks_budget st) (budget_id request) total_cost;
               st = st\<lparr> ks_budget := bd \<rparr>
           in case r of
                Inl e \<Rightarrow> (Inl e, sm, st)
              | Inr _ \<Rightarrow>
                  (let rec = completed_record self request evidence_ids step_records
                   in move sm Verifying st (\<lambda>sm. verifying self request rec sm st))))"

definition recording ::
  "bool \<Rightarrow> ('ev, 'bd, 'gv, 'rc, 'z) NoumenonCore_scheme \<Rightarrow> (nat \<Rightarrow> u128) \<Rightarrow>
     TrustedExecutionRequest \<Rightarrow> StepExecutionOutput list \<Rightarrow> StateMachine \<Rightarrow>
     ('ev, 'bd, 'gv, 'rc) KernelState \<Rightarrow> ('ev, 'bd, 'gv, 'rc) KernelState outcome" where
  "recording oc self clock request run_outputs sm st =
     (let context = context_evidence self request (clock (ks_ticks st));
          (r, ev) = evidence_append self (ks_evidence st) context;
          st = st\<lparr> ks_evidence := ev, ks_ticks := ks_ticks st + 1 \<rparr>
      in case r of
           Inl e \<Rightarrow> (Inl e, sm, st)
         | Inr _ \<Rightarrow>
             (case record_outputs self clock request run_outputs (ev_record_hash context)
                     [ev_record_id context] [] st of
                (Inl e, st) \<Rightarrow> (Inl e, sm, st)
              | (Inr (evidence_ids, step_records), st) \<Rightarrow>
                  settling oc self request evidence_ids step_records sm st))"

definition executing ::
  "bool \<Rightarrow> ('ev, 'bd, 'gv, 'rc, 'z) NoumenonCore_scheme \<Rightarrow> (nat \<Rightarrow> u128) \<Rightarrow>
     TrustedExecutionRequest \<Rightarrow> StateMachine \<Rightarrow>
     ('ev, 'bd, 'gv, 'rc) KernelState \<Rightarrow> ('ev, 'bd, 'gv, 'rc) KernelState outcome" where
  "executing oc self clock request sm st =
     (let (r, caps) = run_plan oc (ks_capabilities st) request;
          st = st\<lparr> ks_capabilities := caps \<rparr>
      in case r of
           Inr run_outputs \<Rightarrow>
             move sm RecordingEvidence st (\<lambda>sm. recording oc self clock request run_outputs sm st)
         | Inl Panicked \<Rightarrow> (Inl Panicked, sm, st)
         | Inl (Anyhow exec_err) \<Rightarrow>
             move sm Failed st (\<lambda>sm.
               let rec = (empty_record request ''Failed'')\<lparr> er_final_output := Some exec_err \<rparr>
               in roll_back self rec (rec\<lparr> er_final_status := ''RolledBack'' \<rparr>) sm st))"

definition reserved_run ::
  "bool \<Rightarrow> ('ev, 'bd, 'gv, 'rc, 'z) NoumenonCore_scheme \<Rightarrow> (nat \<Rightarrow> u128) \<Rightarrow>
     TrustedExecutionRequest \<Rightarrow> StateMachine \<Rightarrow>
     ('ev, 'bd, 'gv, 'rc) KernelState \<Rightarrow> ('ev, 'bd, 'gv, 'rc) KernelState outcome" where
  "reserved_run oc self clock request sm st =
     (let (r, bd) = budget_reserve self (ks_budget st) (budget_id request)
                      (id_tenant_id (rq_identity request)) (of_nat (length (steps request)));
          st = st\<lparr> ks_budget := bd \<rparr>
      in gate r ''execution rejected by budget ledger reservation: '' sm st (
         move sm Executing st (\<lambda>sm. executing oc self clock request sm st)))"

text \<open>
  \<^verbatim>\<open>ResourceReservation\<close>: the guard holds the requirement while the body runs, and its
  \<^verbatim>\<open>Drop\<close> gives it back on every way out of the body, unwinding included.
\<close>

definition with_reservation ::
  "('ev, 'bd, 'gv, 'rc, 'z) NoumenonCore_scheme \<Rightarrow> ResourceRequirement \<Rightarrow> StateMachine \<Rightarrow>
     ('ev, 'bd, 'gv, 'rc) KernelState \<Rightarrow>
     (('ev, 'bd, 'gv, 'rc) KernelState \<Rightarrow> ('ev, 'bd, 'gv, 'rc) KernelState outcome) \<Rightarrow>
     ('ev, 'bd, 'gv, 'rc) KernelState outcome" where
  "with_reservation self req sm st body =
     (let (r, gv) = governor_acquire self (ks_governor st) req;
          st = st\<lparr> ks_governor := gv \<rparr>
      in case r of
           Inl Panicked \<Rightarrow> (Inl Panicked, sm, st)
         | Inl (Anyhow _) \<Rightarrow>
             move sm Rejected st (\<lambda>sm. (Err ''execution rejected by resource governor'', sm, st))
         | Inr _ \<Rightarrow>
             (let (r, sm, st) = body st
              in (r, sm, st\<lparr> ks_governor := governor_return self (ks_governor st) req \<rparr>)))"

definition execute ::
  "bool \<Rightarrow> Host \<Rightarrow> ('ev, 'bd, 'gv, 'rc, 'z) NoumenonCore_scheme \<Rightarrow> (nat \<Rightarrow> u128) \<Rightarrow>
     TrustedExecutionRequest \<Rightarrow> ('ev, 'bd, 'gv, 'rc) KernelState \<Rightarrow>
     ('ev, 'bd, 'gv, 'rc) KernelState outcome" where
  "execute oc h self clock request st =
     (case admission self request of
        (Inl e, sm, _) \<Rightarrow> (Inl e, sm, st)
      | (Inr _, sm, _) \<Rightarrow>
          (case enforcement h self request sm of
             (Inl e, sm, _) \<Rightarrow> (Inl e, sm, st)
           | (Inr _, sm, _) \<Rightarrow>
               with_reservation self (from_constraints (rq_constraints request)) sm st
                 (reserved_run oc self clock request sm)))"

definition replay_check ::
  "('ev, 'bd, 'gv, 'rc, 'z) NoumenonCore_scheme \<Rightarrow> ('ev, 'bd, 'gv, 'rc) KernelState \<Rightarrow>
     ExecutionRecord \<Rightarrow> string result" where
  "replay_check self st rec =
     (let events = evidence_by_execution self (ks_evidence st) (er_execution_id rec)
      in if events = [] then Err ''no evidence records for execution''
         else let output_chain_digest = output_chain_digest_from_evidence events (crypto self);
                  replay = compute_execution_fingerprint (record_material rec) output_chain_digest
                             (crypto self)
              in if replay = record_fingerprint rec then Ok replay
                 else Err (replay_explainer self rec replay))"

end
