(* ===== verification/Kernel_Safety.thy ===== *)
theory Kernel_Safety
  imports Kernel
begin

text \<open>
  Complete mediation on the mandatory path: what a request has passed when the kernel answers,
  and what it cannot have touched when it is refused. Everything here holds for every choice
  of services.
\<close>

section \<open>The gates, as predicates\<close>

definition admitted ::
  "('ev, 'bd, 'gv, 'rc, 'z) NoumenonCore_scheme \<Rightarrow> TrustedExecutionRequest \<Rightarrow> bool" where
  "admitted self request \<longleftrightarrow>
     in_operation (rq_intent request) \<notin> {''replay_only'', ''audit_only''} \<and>
     identity_authority self (rq_identity request) = Ok () \<and>
     supply_chain_verifier self request = Ok () \<and>
     rollout_gate self request = Ok ()"

definition step_enforced ::
  "Host \<Rightarrow> ('ev, 'bd, 'gv, 'rc, 'z) NoumenonCore_scheme \<Rightarrow> TrustedExecutionRequest \<Rightarrow>
     ExecutionStep \<Rightarrow> bool" where
  "step_enforced h self request s \<longleftrightarrow>
     (case st_capability_ref s of
        None \<Rightarrow> True
      | Some cap \<Rightarrow> tenant_authority self (rq_identity request) cap = Ok ()) \<and>
     enforce_runtime_island_hardening h s (rq_constraints request) = Ok ()"

definition enforced ::
  "Host \<Rightarrow> ('ev, 'bd, 'gv, 'rc, 'z) NoumenonCore_scheme \<Rightarrow> TrustedExecutionRequest \<Rightarrow> bool" where
  "enforced h self request \<longleftrightarrow>
     (vs_verify_environment (rq_verification_spec request) \<and> trust_level request = Hard \<longrightarrow>
        attestation_verifier self = Ok ()) \<and>
     list_all (step_enforced h self request) (steps request)"

section \<open>The phases\<close>

lemma move_simp [simp]:
  "can_transition (sm_state sm) to \<Longrightarrow> move sm to st k = k (sm\<lparr> sm_state := to \<rparr>)"
  by (simp add: move_def)

lemma gate_Ok [simp]: "gate (Inr u) msg sm st k = k"
  by (simp add: gate_def)

lemma sm_simps [simp]: "sm_state new_sm = PendingAdmission" "new_sm\<lparr> sm_state := s \<rparr> = \<lparr> sm_state = s \<rparr>"
  by (simp_all add: new_sm_def)

text \<open>What a refused gate leaves: the machine rejected, or stopped where the gate panicked.\<close>

definition refused :: "StateMachine \<Rightarrow> error \<Rightarrow> StateMachine \<Rightarrow> bool" where
  "refused sm e sm' \<longleftrightarrow> sm_state sm' = Rejected \<or> (e = Panicked \<and> sm' = sm)"

lemma rejected_refused:
  assumes "can_transition (sm_state sm) Rejected"
  shows "\<exists>e' sm'. rejected msg e sm st = (Inl e', sm', st) \<and> refused sm e' sm'"
  using assms by (cases e) (auto simp: refused_def)

lemma gate_refused:
  assumes "can_transition (sm_state sm) Rejected" and "verdict \<noteq> Ok ()"
  shows "\<exists>e' sm'. gate verdict msg sm st k = (Inl e', sm', st) \<and> refused sm e' sm'"
  using assms rejected_refused [OF assms(1)] by (cases verdict) (simp_all add: gate_def)

lemma admission_admitted:
  "admitted self request \<Longrightarrow> admission self request = (Ok (), \<lparr> sm_state = Enforcing \<rparr>, ())"
  by (auto simp: admission_def admitted_def)

lemma admission_refused:
  assumes "\<not> admitted self request"
  shows "\<exists>e sm. admission self request = (Inl e, sm, ()) \<and> refused new_sm e sm"
proof (cases "in_operation (rq_intent request) \<in> {''replay_only'', ''audit_only''}")
  case True
  then show ?thesis by (auto simp: admission_def refused_def)
next
  case op: False
  have rej: "can_transition (sm_state new_sm) Rejected" by simp
  show ?thesis
  proof (cases "identity_authority self (rq_identity request) = Ok ()")
    case id_ok: True
    show ?thesis
    proof (cases "supply_chain_verifier self request = Ok ()")
      case sc_ok: True
      with id_ok op assms have "rollout_gate self request \<noteq> Ok ()"
        by (simp add: admitted_def)
      then show ?thesis
        using op id_ok sc_ok gate_refused [OF rej] by (simp add: admission_def)
    qed (use op id_ok gate_refused [OF rej] in \<open>simp add: admission_def\<close>)
  qed (use op gate_refused [OF rej] in \<open>simp add: admission_def\<close>)
qed

lemma enforce_steps_Ok:
  "list_all (step_enforced h self request) ss \<Longrightarrow> enforce_steps h self request ss sm = (Ok (), sm, ())"
  by (induction ss) (auto simp: step_enforced_def split: option.splits)

lemma enforce_steps_refused:
  assumes "can_transition (sm_state sm) Rejected" and "\<not> list_all (step_enforced h self request) ss"
  shows "\<exists>e sm'. enforce_steps h self request ss sm = (Inl e, sm', ()) \<and> refused sm e sm'"
  using assms(2)
proof (induction ss)
  case (Cons s ss)
  let ?auth = "case st_capability_ref s of None \<Rightarrow> Ok ()
      | Some cap \<Rightarrow> tenant_authority self (rq_identity request) cap"
  show ?case
  proof (cases "?auth = Ok () \<and> enforce_runtime_island_hardening h s (rq_constraints request) = Ok ()")
    case True
    then have "step_enforced h self request s"
      by (auto simp: step_enforced_def split: option.splits)
    with True Cons show ?thesis by simp
  next
    case False
    then show ?thesis
      using gate_refused [OF assms(1)] by (cases "?auth = Ok ()") simp_all
  qed
qed simp

lemma enforcement_enforced:
  "enforced h self request \<Longrightarrow> enforcement h self request sm = (Ok (), sm, ())"
  by (auto simp: enforcement_def enforced_def enforce_steps_Ok)

lemma enforcement_refused:
  assumes "can_transition (sm_state sm) Rejected" and "\<not> enforced h self request"
  shows "\<exists>e sm'. enforcement h self request sm = (Inl e, sm', ()) \<and> refused sm e sm'"
proof (cases "list_all (step_enforced h self request) (steps request)")
  case True
  with assms(2) have "attestation_verifier self \<noteq> Ok ()"
    and "vs_verify_environment (rq_verification_spec request) \<and> trust_level request = Hard"
    by (auto simp: enforced_def)
  then show ?thesis
    using gate_refused [OF assms(1)] by (simp add: enforcement_def)
next
  case False
  note steps_refused = enforce_steps_refused [OF assms(1) False]
  show ?thesis
  proof (cases "attestation_verifier self = Ok ()")
    case True
    with steps_refused show ?thesis by (simp add: enforcement_def)
  next
    case att: False
    with steps_refused show ?thesis
      by (simp add: enforcement_def gate_refused [OF assms(1) att])
  qed
qed

section \<open>After the reservation\<close>

text \<open>
  Why an execution can stop with an error while it records: the evidence ledger refused a record, the
  budget ledger refused the cost, or the plan is longer than a 64-bit counter can number.
\<close>

definition stopped_recording ::
  "('ev, 'bd, 'gv, 'rc, 'z) NoumenonCore_scheme \<Rightarrow> TrustedExecutionRequest \<Rightarrow> string \<Rightarrow>
     ('ev, 'bd, 'gv, 'rc) KernelState \<Rightarrow> bool" where
  "stopped_recording self request m st' \<longleftrightarrow>
     (\<exists>ev r. evidence_append self ev r = (Err m, ks_evidence st')) \<or>
     (\<exists>bd cost. budget_consume self bd (budget_id request) cost = (Err m, ks_budget st')) \<or>
     2 ^ 64 \<le> length (steps request)"

text \<open>The states in which an error leaves the machine, each with its cause; \<open>rc\<close> is the recovery hook's state before.\<close>

definition ends_with_error ::
  "('ev, 'bd, 'gv, 'rc, 'z) NoumenonCore_scheme \<Rightarrow> TrustedExecutionRequest \<Rightarrow> 'rc \<Rightarrow> string \<Rightarrow>
     StateMachine \<Rightarrow> ('ev, 'bd, 'gv, 'rc) KernelState \<Rightarrow> bool" where
  "ends_with_error self request rc m sm st' \<longleftrightarrow>
     sm_state sm = Rejected \<and> ks_recovery st' = rc \<or>
     sm_state sm = Failed \<and> (\<exists>rec0. recovery_recover self rc rec0 = (Err m, ks_recovery st')) \<or>
     sm_state sm = RecordingEvidence \<and> ks_recovery st' = rc \<and> stopped_recording self request m st'"

lemma ends_with_error_governor [simp]:
  "ends_with_error self request rc m sm (st\<lparr> ks_governor := gv \<rparr>) = ends_with_error self request rc m sm st"
  by (simp add: ends_with_error_def stopped_recording_def)

text \<open>What the phases leave, by the state the machine ends in.\<close>

definition closed_with ::
  "('ev, 'bd, 'gv, 'rc, 'z) NoumenonCore_scheme \<Rightarrow> TrustedExecutionRequest \<Rightarrow>
     'rc \<Rightarrow> ('ev, 'bd, 'gv, 'rc) KernelState outcome \<Rightarrow> bool" where
  "closed_with self request rc out \<longleftrightarrow>
     (case out of
        (Inr rec, sm, st') \<Rightarrow>
          sm_state sm = Completed \<and> er_final_status rec = ''Completed'' \<and>
            (vs_validate_output (rq_verification_spec request) \<longrightarrow> result_validator self rec = Ok ()) \<and>
            learning_gate self rec = Ok () \<and> ks_recovery st' = rc \<or>
          sm_state sm = RolledBack \<and> er_final_status rec = ''RolledBack'' \<and>
            (\<exists>rec0. recovery_recover self rc rec0 = (Ok (), ks_recovery st'))
      | (Inl (Anyhow m), sm, st') \<Rightarrow> ends_with_error self request rc m sm st'
      | (Inl Panicked, sm, st') \<Rightarrow> sm_state sm \<noteq> Completed \<and> sm_state sm \<noteq> RolledBack)"

lemma closed_with_simps [simp]:
  "closed_with self request rc (Inl (Anyhow m), sm, st') \<longleftrightarrow> ends_with_error self request rc m sm st'"
  "closed_with self request rc (Inl Panicked, sm, st') \<longleftrightarrow> sm_state sm \<noteq> Completed \<and> sm_state sm \<noteq> RolledBack"
  by (simp_all add: closed_with_def)

lemma closed_with_rejected:
  "sm_state sm = Rejected \<Longrightarrow> ks_recovery st' = rc \<Longrightarrow> closed_with self request rc (Inl e, sm, st')"
  by (cases e) (simp_all add: ends_with_error_def)

lemma closed_with_refused:
  assumes "refused sm e sm'" "ks_recovery st' = rc" "sm_state sm \<noteq> Completed" "sm_state sm \<noteq> RolledBack"
  shows "closed_with self request rc (Inl e, sm', st')"
  using assms by (auto simp: refused_def intro: closed_with_rejected)

lemma roll_back_closed:
  assumes "sm_state sm = Failed" and "er_final_status answer = ''RolledBack''"
  shows "closed_with self request (ks_recovery st) (roll_back self rec answer sm st)"
proof (cases "recovery_recover self (ks_recovery st) rec")
  case (Pair r rc)
  show ?thesis
  proof (cases r)
    case (Inl e)
    with Pair assms show ?thesis by (cases e) (auto simp: roll_back_def ends_with_error_def)
  qed (use Pair assms in \<open>auto simp: roll_back_def Let_def closed_with_def\<close>)
qed

lemma checked_or_rolled_back_closed:
  assumes "sm_state sm = Verifying"
    and "\<And>u. verdict = Inr u \<Longrightarrow> closed_with self request (ks_recovery st) k"
  shows "closed_with self request (ks_recovery st) (checked_or_rolled_back self verdict rec sm st k)"
proof (cases verdict)
  case (Inl e)
  then show ?thesis
    using assms(1)
    by (cases e) (simp_all add: checked_or_rolled_back_def Let_def roll_back_closed)
qed (use assms(2) in \<open>simp add: checked_or_rolled_back_def\<close>)

lemma closed_with_completed:
  assumes "can_transition (sm_state sm) Completed" and "er_final_status rec = ''Completed''"
    and "vs_validate_output (rq_verification_spec request) \<longrightarrow> result_validator self rec = Ok ()"
    and "learning_gate self rec = Ok ()"
  shows "closed_with self request (ks_recovery st) (move sm Completed st (\<lambda>sm. (Ok rec, sm, st)))"
  using assms by (simp add: closed_with_def)

lemma verifying_closed:
  assumes "sm_state sm = Verifying" and "er_final_status rec = ''Completed''"
  shows "closed_with self request (ks_recovery st) (verifying self request rec sm st)"
  unfolding verifying_def
  by (intro checked_or_rolled_back_closed closed_with_completed)
    (use assms in \<open>simp_all split: if_splits\<close>)

lemma record_outputs_frame:
  "record_outputs self clock request outs prev ids recs st = (r, st') \<Longrightarrow>
     ks_recovery st' = ks_recovery st \<and> ks_budget st' = ks_budget st \<and>
     ks_governor st' = ks_governor st \<and> ks_capabilities st' = ks_capabilities st"
proof (induction outs arbitrary: prev ids recs st)
  case (Cons out outs)
  show ?case
  proof (cases "find_step request (so_step_id out)")
    case (Some step)
    let ?ev = "step_evidence self request step out prev (clock (ks_ticks st))"
    show ?thesis
    proof (cases "evidence_append self (ks_evidence st) ?ev")
      case (Pair a ev)
      with Cons.prems Some show ?thesis
        by (cases a) (auto simp: Let_def dest!: Cons.IH)
    qed
  qed (use Cons.prems in simp)
qed simp

lemma record_outputs_error:
  "record_outputs self clock request outs prev ids recs st = (Inl (Anyhow m), st') \<Longrightarrow>
     (\<exists>ev r. evidence_append self ev r = (Err m, ks_evidence st')) \<or>
     (\<exists>out \<in> set outs. find_step request (so_step_id out) = None)"
proof (induction outs arbitrary: prev ids recs st)
  case (Cons out outs)
  show ?case
  proof (cases "find_step request (so_step_id out)")
    case (Some step)
    let ?ev = "step_evidence self request step out prev (clock (ks_ticks st))"
    show ?thesis
    proof (cases "evidence_append self (ks_evidence st) ?ev")
      case (Pair a ev)
      with Cons.prems Some show ?thesis
        by (cases a) (auto simp: Let_def dest!: Cons.IH)
    qed
  qed simp
qed simp

lemma sum_costs_error: "sum_costs oc costs = Inl e \<Longrightarrow> e = Panicked"
proof -
  have "foldl (\<lambda>acc c. and_then acc (\<lambda>a. checked_plus oc a c)) r costs = Inl e \<Longrightarrow> e = Panicked"
    if "\<And>e. r = Inl e \<Longrightarrow> e = Panicked" for r :: "u64 result"
    using that
  proof (induction costs arbitrary: r)
    case (Cons c costs)
    show ?case
      by (rule Cons.IH [OF Cons.prems(1) [unfolded foldl_Cons]])
        (use Cons.prems(2) in \<open>cases r; auto simp: checked_plus_def split: if_splits\<close>)
  qed simp
  from this [of "Ok 0"] show "sum_costs oc costs = Inl e \<Longrightarrow> e = Panicked"
    by (simp add: sum_costs_def)
qed

lemma settling_closed:
  assumes "sm_state sm = RecordingEvidence"
  shows "closed_with self request (ks_recovery st) (settling oc self request ids recs sm st)"
proof (cases "sum_costs oc (map sr_cost_units recs)")
  case cost: (Inr total)
  show ?thesis
  proof (cases "budget_consume self (ks_budget st) (budget_id request) total")
    case (Pair r bd)
    have "closed_with self request (ks_recovery st)
        (verifying self request (completed_record self request ids recs)
          (sm\<lparr> sm_state := Verifying \<rparr>) (st\<lparr> ks_budget := bd \<rparr>))"
      using verifying_closed [where st = "st\<lparr> ks_budget := bd \<rparr>" and self = self]
      by (simp add: completed_record_def Let_def)
    moreover have "closed_with self request (ks_recovery st) (Inl e, sm, st\<lparr> ks_budget := bd \<rparr>)" if "r = Inl e" for e
      using Pair that assms by (cases e) (auto simp: ends_with_error_def stopped_recording_def)
    ultimately show ?thesis
      using cost Pair assms by (cases r) (simp_all add: settling_def)
  qed
qed (use assms sum_costs_error in \<open>fastforce simp: settling_def\<close>)

lemma recording_closed:
  assumes "sm_state sm = RecordingEvidence"
    and found: "\<exists>out \<in> set outs. find_step request (so_step_id out) = None \<Longrightarrow> 2 ^ 64 \<le> length (steps request)"
  shows "closed_with self request (ks_recovery st) (recording oc self clock request outs sm st)"
proof (cases "evidence_append self (ks_evidence st) (context_evidence self request (clock (ks_ticks st)))")
  case append: (Pair r ev)
  let ?st = "st\<lparr> ks_evidence := ev, ks_ticks := ks_ticks st + 1 \<rparr>"
  let ?c = "context_evidence self request (clock (ks_ticks st))"
  show ?thesis
  proof (cases r)
    case (Inr u)
    show ?thesis
    proof (cases "record_outputs self clock request outs (ev_record_hash ?c) [ev_record_id ?c] [] ?st")
      case rec: (Pair r2 st2)
      have frame: "ks_recovery st2 = ks_recovery st"
        using record_outputs_frame [OF rec] by simp
      show ?thesis
      proof (cases r2)
        case Inr2: (Inr p)
        obtain ids recs where p: "p = (ids, recs)" by (cases p)
        have "closed_with self request (ks_recovery st) (settling oc self request ids recs sm st2)"
          unfolding frame [symmetric] by (rule settling_closed [OF assms(1)])
        with append Inr rec Inr2 p assms show ?thesis by (simp add: recording_def)
      next
        case (Inl e)
        have "closed_with self request (ks_recovery st) (Inl e, sm, st2)"
        proof (cases e)
          case (Anyhow m)
          with record_outputs_error [OF rec [unfolded Inl Anyhow]] found have "stopped_recording self request m st2"
            unfolding stopped_recording_def by blast
          with Anyhow frame assms(1) show ?thesis by (simp add: ends_with_error_def)
        qed (use assms(1) in simp)
        with append Inr rec Inl show ?thesis by (simp add: recording_def)
      qed
    qed
  next
    case (Inl e)
    have "closed_with self request (ks_recovery st) (Inl e, sm, ?st)"
      using append Inl assms(1) by (cases e) (auto simp: ends_with_error_def stopped_recording_def)
    with append Inl show ?thesis by (simp add: recording_def)
  qed
qed

lemma executing_closed:
  assumes "sm_state sm = Executing"
  shows "closed_with self request (ks_recovery st) (executing oc self clock request sm st)"
proof (cases "run_plan oc (ks_capabilities st) request")
  case run: (Pair r caps)
  let ?st = "st\<lparr> ks_capabilities := caps \<rparr>"
  show ?thesis
  proof (cases r)
    case (Inl e)
    with run assms show ?thesis
      by (cases e) (simp_all add: executing_def Let_def roll_back_closed [where st = ?st, simplified])
  next
    case (Inr outs)
    have "2 ^ 64 \<le> length (steps request)" if "\<exists>out \<in> set outs. find_step request (so_step_id out) = None"
      using run_plan_find_step [of request oc "ks_capabilities st" outs caps] run Inr that by force
    from recording_closed [OF _ this, where sm = "sm\<lparr> sm_state := RecordingEvidence \<rparr>" and st = ?st] run Inr assms
    show ?thesis by (simp add: executing_def)
  qed
qed

section \<open>The whole path\<close>

lemma gate_closed:
  assumes "can_transition (sm_state sm) Rejected" "ks_recovery st = rc"
    and "verdict = Ok () \<Longrightarrow> closed_with self request rc k"
  shows "closed_with self request rc (gate verdict msg sm st k)"
proof (cases "verdict = Ok ()")
  case False
  obtain e' sm' where "gate verdict msg sm st k = (Inl e', sm', st)" "refused sm e' sm'"
    using gate_refused [OF assms(1) False] by metis
  moreover have "sm_state sm \<noteq> Completed" "sm_state sm \<noteq> RolledBack"
    using assms(1) by auto
  ultimately show ?thesis using assms(2) by (simp add: closed_with_refused)
qed (use assms(3) in simp)

lemma reserved_run_closed:
  assumes "sm_state sm = Enforcing"
  shows "closed_with self request (ks_recovery st) (reserved_run oc self clock request sm st)"
proof (cases "budget_reserve self (ks_budget st) (budget_id request)
    (id_tenant_id (rq_identity request)) (of_nat (length (steps request)))")
  case (Pair r bd)
  have "closed_with self request (ks_recovery st)
      (executing oc self clock request (sm\<lparr> sm_state := Executing \<rparr>) (st\<lparr> ks_budget := bd \<rparr>))"
    using executing_closed [of "sm\<lparr> sm_state := Executing \<rparr>" self request "st\<lparr> ks_budget := bd \<rparr>"]
    by simp
  with Pair assms show ?thesis
    by (auto simp: reserved_run_def Let_def intro!: gate_closed)
qed

lemma with_reservation_closed:
  assumes "sm_state sm = Enforcing"
    and "\<And>gv. closed_with self request (ks_recovery st) (body (st\<lparr> ks_governor := gv \<rparr>))"
  shows "closed_with self request (ks_recovery st) (with_reservation self req sm st body)"
proof (cases "governor_acquire self (ks_governor st) req")
  case acq: (Pair r gv)
  show ?thesis
  proof (cases r)
    case (Inl e)
    with acq assms(1) show ?thesis
      by (cases e) (simp_all add: with_reservation_def closed_with_rejected del: closed_with_simps(1))
  next
    case (Inr u)
    obtain r2 sm2 st2 where body: "body (st\<lparr> ks_governor := gv \<rparr>) = (r2, sm2, st2)"
      by (metis prod_cases3)
    with acq Inr assms(2) [of gv] show ?thesis
      by (cases r2; cases "projl r2") (simp_all add: with_reservation_def closed_with_def)
  qed
qed

text \<open>When both gates have passed, \<open>execute\<close> is the reserved run.\<close>

lemma execute_passed:
  assumes "admitted self request" and "enforced h self request"
  shows "execute oc h self clock request st =
     with_reservation self (from_constraints (rq_constraints request)) \<lparr> sm_state = Enforcing \<rparr> st
       (reserved_run oc self clock request \<lparr> sm_state = Enforcing \<rparr>)"
  using assms by (simp add: execute_def admission_admitted enforcement_enforced)

lemma execute_refused:
  assumes "\<not> (admitted self request \<and> enforced h self request)"
  shows "\<exists>e sm. execute oc h self clock request st = (Inl e, sm, st) \<and>
     (sm_state sm = Rejected \<or> e = Panicked \<and> sm_state sm \<in> {PendingAdmission, Enforcing})"
proof (cases "admitted self request")
  case True
  with assms have "\<not> enforced h self request" by simp
  then obtain e sm' where "enforcement h self request \<lparr> sm_state = Enforcing \<rparr> = (Inl e, sm', ())"
      "refused \<lparr> sm_state = Enforcing \<rparr> e sm'"
    using enforcement_refused [of "\<lparr> sm_state = Enforcing \<rparr>" h self request] by auto
  with True show ?thesis by (auto simp: execute_def admission_admitted refused_def)
next
  case False
  then obtain e sm where "admission self request = (Inl e, sm, ())" "refused new_sm e sm"
    using admission_refused by blast
  then show ?thesis by (auto simp: execute_def refused_def)
qed

lemma execute_closed: "closed_with self request (ks_recovery st) (execute oc h self clock request st)"
proof (cases "admitted self request \<and> enforced h self request")
  case True
  then have "admitted self request" "enforced h self request" by simp_all
  from execute_passed [OF this] show ?thesis
    using reserved_run_closed [of "\<lparr> sm_state = Enforcing \<rparr>" self request "st\<lparr> ks_governor := gv \<rparr>" for gv]
    by (simp add: with_reservation_closed)
next
  case False
  from execute_refused [OF this, of oc clock st] obtain e sm where
      "execute oc h self clock request st = (Inl e, sm, st)"
      "sm_state sm = Rejected \<or> e = Panicked \<and> sm_state sm \<in> {PendingAdmission, Enforcing}" by blast
  then show ?thesis by (cases "sm_state sm = Rejected") (auto simp: closed_with_rejected)
qed

section \<open>What an effect presupposes\<close>

text \<open>Everything the path checks before a step's output can be recorded.\<close>

definition mediated ::
  "bool \<Rightarrow> Host \<Rightarrow> ('ev, 'bd, 'gv, 'rc, 'z) NoumenonCore_scheme \<Rightarrow> TrustedExecutionRequest \<Rightarrow>
     ('ev, 'bd, 'gv, 'rc) KernelState \<Rightarrow> bool" where
  "mediated oc h self request st \<longleftrightarrow>
     admitted self request \<and> enforced h self request \<and>
     is_ok (fst (governor_acquire self (ks_governor st) (from_constraints (rq_constraints request)))) \<and>
     is_ok (fst (budget_reserve self (ks_budget st) (budget_id request)
       (id_tenant_id (rq_identity request)) (of_nat (length (steps request))))) \<and>
     is_ok (fst (run_plan oc (ks_capabilities st) request))"

lemma roll_back_frame:
  assumes "roll_back self rec answer sm st = (r, sm', st')" and "sm_state sm = Failed"
  shows "ks_evidence st' = ks_evidence st \<and> sm_state sm' \<noteq> Completed"
proof (cases "recovery_recover self (ks_recovery st) rec")
  case (Pair v rc)
  with assms show ?thesis by (cases v) (auto simp: roll_back_def Let_def)
qed

lemma executing_failed_plan:
  assumes "\<not> is_ok (fst (run_plan oc (ks_capabilities st) request))" and "sm_state sm = Executing"
    and "executing oc self clock request sm st = (r, sm', st')"
  shows "ks_evidence st' = ks_evidence st \<and> sm_state sm' \<noteq> Completed"
proof (cases "run_plan oc (ks_capabilities st) request")
  case (Pair r1 caps)
  with assms(1) obtain e where e: "r1 = Inl e" by (cases r1) auto
  let ?st = "st\<lparr> ks_capabilities := caps \<rparr>"
  show ?thesis
  proof (cases e)
    case (Anyhow m)
    let ?rec = "(empty_record request ''Failed'')\<lparr> er_final_output := Some m \<rparr>"
    have "roll_back self ?rec (?rec\<lparr> er_final_status := ''RolledBack'' \<rparr>)
        (sm\<lparr> sm_state := Failed \<rparr>) ?st = (r, sm', st')"
      using assms(2,3) Pair e Anyhow by (simp add: executing_def Let_def)
    from roll_back_frame [OF this] show ?thesis by simp
  next
    case Panicked
    with assms(2,3) Pair e show ?thesis by (auto simp: executing_def Let_def)
  qed
qed

lemma execute_unmediated:
  assumes "\<not> mediated oc h self request st" and "execute oc h self clock request st = (r, sm, st')"
  shows "ks_evidence st' = ks_evidence st \<and> sm_state sm \<noteq> Completed"
proof (cases "admitted self request \<and> enforced h self request")
  case False
  from execute_refused [OF this, of oc clock st] assms(2) show ?thesis by auto
next
  case passed: True
  let ?req = "from_constraints (rq_constraints request)" and ?sm = "\<lparr> sm_state = Enforcing \<rparr>"
  obtain a gv where acq: "governor_acquire self (ks_governor st) ?req = (a, gv)" by fastforce
  from passed execute_passed [of self request h oc clock st] assms(2)
  have run: "with_reservation self ?req ?sm st (reserved_run oc self clock request ?sm) = (r, sm, st')"
    by simp
  show ?thesis
  proof (cases a)
    case (Inl e)
    with run acq show ?thesis by (cases e) (auto simp: with_reservation_def)
  next
    case a: (Inr u)
    let ?st = "st\<lparr> ks_governor := gv \<rparr>"
    obtain b bd where res: "budget_reserve self (ks_budget st) (budget_id request)
        (id_tenant_id (rq_identity request)) (of_nat (length (steps request))) = (b, bd)"
      by fastforce
    let ?st2 = "?st\<lparr> ks_budget := bd \<rparr>"
    obtain r2 sm2 st2 where body: "reserved_run oc self clock request ?sm ?st = (r2, sm2, st2)"
      by (metis prod_cases3)
    have out: "sm = sm2" "ks_evidence st' = ks_evidence st2"
      using run acq a body by (auto simp: with_reservation_def)
    have "ks_evidence st2 = ks_evidence st \<and> sm_state sm2 \<noteq> Completed"
    proof (cases b)
      case (Inl e)
      with body res show ?thesis
        by (cases e) (auto simp: reserved_run_def gate_def)
    next
      case (Inr u')
      with passed a acq res assms(1) have "\<not> is_ok (fst (run_plan oc (ks_capabilities st) request))"
        by (simp add: mediated_def)
      moreover from body res Inr
      have "executing oc self clock request \<lparr> sm_state = Executing \<rparr> ?st2 = (r2, sm2, st2)"
        by (simp add: reserved_run_def)
      ultimately show ?thesis
        using executing_failed_plan [where st = ?st2 and sm = "\<lparr> sm_state = Executing \<rparr>"]
        by fastforce
    qed
    with out show ?thesis by simp
  qed
qed

end
