(* ===== verification/Kernel_Run.thy ===== *)
theory Kernel_Run
  imports Kernel_Safety
begin

text \<open>
  What a run that passes the gates does. The evidence a run records is written out as a list
  (\<open>evidence_chain\<close>), and the locale \<open>kernel_contract\<close> states the effect of the path on a
  kernel whose evidence ledger, budget ledger and resource governor keep their contracts. It
  is interpreted for the in-memory services and for the file ledgers.
\<close>

section \<open>The evidence of a run\<close>

fun step_chain ::
  "('ev, 'bd, 'gv, 'rc, 'z) NoumenonCore_scheme \<Rightarrow> (nat \<Rightarrow> u128) \<Rightarrow> TrustedExecutionRequest \<Rightarrow>
     StepExecutionOutput list \<Rightarrow> string \<Rightarrow> nat \<Rightarrow> EvidenceRecord list" where
  "step_chain self clock request [] prev t = []"
| "step_chain self clock request (out # outs) prev t =
     (let e = step_evidence self request (the (find_step request (so_step_id out))) out prev (clock t)
      in e # step_chain self clock request outs (ev_record_hash e) (t + 2))"

definition evidence_chain ::
  "('ev, 'bd, 'gv, 'rc, 'z) NoumenonCore_scheme \<Rightarrow> (nat \<Rightarrow> u128) \<Rightarrow> TrustedExecutionRequest \<Rightarrow>
     StepExecutionOutput list \<Rightarrow> nat \<Rightarrow> EvidenceRecord list" where
  "evidence_chain self clock request outs t =
     (let c = context_evidence self request (clock t)
      in c # step_chain self clock request outs (ev_record_hash c) (t + 1))"

fun step_records_of ::
  "('ev, 'bd, 'gv, 'rc, 'z) NoumenonCore_scheme \<Rightarrow> (nat \<Rightarrow> u128) \<Rightarrow> TrustedExecutionRequest \<Rightarrow>
     StepExecutionOutput list \<Rightarrow> nat \<Rightarrow> StepRecord list" where
  "step_records_of self clock request [] t = []"
| "step_records_of self clock request (out # outs) t =
     step_record self (the (find_step request (so_step_id out))) out (clock (t + 1)) #
       step_records_of self clock request outs (t + 2)"

lemma length_step_chain [simp]: "length (step_chain self clock request outs prev t) = length outs"
  by (induction outs arbitrary: prev t) (simp_all add: Let_def)

lemma step_records_costs [simp]:
  "map sr_cost_units (step_records_of self clock request outs t) = map so_cost_units outs"
  by (induction outs arbitrary: t) (simp_all add: step_record_def)

lemma step_records_outputs:
  "map sr_output_digest (step_records_of self clock request outs t) =
     map (\<lambda>out. crypto self (so_output out)) outs"
  by (induction outs arbitrary: t) (simp_all add: step_record_def)

lemma step_evidence_simps [simp]:
  "ev_execution_id (step_evidence self request s out prev ts) = rq_execution_id request"
  "ev_prev_hash (step_evidence self request s out prev ts) = prev"
  "ev_event_type (step_evidence self request s out prev ts) = ''STEP_EXECUTED''"
  "ev_payload_digest (step_evidence self request s out prev ts) = crypto self (so_output out)"
  "ev_step_id (step_evidence self request s out prev ts) = so_step_id out"
  by (simp_all add: step_evidence_def Let_def)

lemma context_evidence_simps [simp]:
  "ev_execution_id (context_evidence self request ts) = rq_execution_id request"
  "ev_prev_hash (context_evidence self request ts) = ''genesis''"
  "ev_event_type (context_evidence self request ts) = ''EXECUTION_CONTEXT_BOUND''"
  "ev_step_id (context_evidence self request ts) = ''admission-context''"
  "ev_payload_digest (context_evidence self request ts) =
     crypto self (build_execution_context_payload request)"
  by (simp_all add: context_evidence_def Let_def)

lemma step_chain_linked: "linked prev (step_chain self clock request outs prev t)"
  by (induction outs arbitrary: prev t) (simp_all add: Let_def)

lemma evidence_chain_linked: "linked ''genesis'' (evidence_chain self clock request outs t)"
  by (simp add: evidence_chain_def Let_def step_chain_linked)

lemma evidence_chain_execution:
  "list_all (\<lambda>e. ev_execution_id e = rq_execution_id request) (evidence_chain self clock request outs t)"
proof -
  have "list_all (\<lambda>e. ev_execution_id e = rq_execution_id request)
      (step_chain self clock request outs prev t)" for prev t
    by (induction outs arbitrary: prev t) (simp_all add: Let_def)
  then show ?thesis by (simp add: evidence_chain_def Let_def)
qed

lemma push_step_chain:
  "foldl push_output chain (step_chain self clock request outs prev t) =
     foldl (\<lambda>chain step. chain @ sr_output_digest step) chain
       (step_records_of self clock request outs t')"
  by (induction outs arbitrary: chain prev t t') (simp_all add: Let_def push_output_def step_record_def)

lemma push_evidence_chain:
  "digest (foldl push_output [] (evidence_chain self clock request outs t)) =
     output_chain_digest_from_step_records (step_records_of self clock request outs t') digest"
  by (simp add: evidence_chain_def Let_def push_output_def [of "[]"]
      output_chain_digest_from_step_records_def push_step_chain [where t' = t'])

section \<open>The path when every gate lets the request through\<close>

definition requirement :: "TrustedExecutionRequest \<Rightarrow> ResourceRequirement" where
  "requirement request = from_constraints (rq_constraints request)"

definition tenant :: "TrustedExecutionRequest \<Rightarrow> string" where
  "tenant request = id_tenant_id (rq_identity request)"

definition units :: "TrustedExecutionRequest \<Rightarrow> u64" where
  "units request = of_nat (length (steps request))"

text \<open>The states at the start of \<open>Executing\<close> and after the plan has run.\<close>

definition after_run ::
  "('ev, 'bd, 'gv, 'rc) KernelState \<Rightarrow> 'gv \<Rightarrow> 'bd \<Rightarrow> CapabilityRegistry \<Rightarrow>
     ('ev, 'bd, 'gv, 'rc) KernelState" where
  "after_run st gv bd caps =
     st\<lparr> ks_governor := gv, ks_budget := bd, ks_capabilities := caps \<rparr>"

definition released ::
  "('ev, 'bd, 'gv, 'rc, 'z) NoumenonCore_scheme \<Rightarrow> TrustedExecutionRequest \<Rightarrow>
     ('ev, 'bd, 'gv, 'rc) KernelState outcome \<Rightarrow> ('ev, 'bd, 'gv, 'rc) KernelState outcome" where
  "released self request out =
     (case out of (r, sm, st) \<Rightarrow>
        (r, sm, st\<lparr> ks_governor := governor_return self (ks_governor st) (requirement request) \<rparr>))"

lemma released_simps [simp]:
  "released self request (r, sm, st) =
     (r, sm, st\<lparr> ks_governor := governor_return self (ks_governor st) (requirement request) \<rparr>)"
  by (simp add: released_def)

lemma execute_executes:
  assumes "admitted self request" "enforced h self request"
    and "governor_acquire self (ks_governor st) (requirement request) = (Ok (), gv)"
    and "budget_reserve self (ks_budget st) (budget_id request) (tenant request) (units request) = (Ok (), bd)"
  shows "execute oc h self clock request st =
     released self request (executing oc self clock request \<lparr> sm_state = Executing \<rparr>
       (st\<lparr> ks_governor := gv, ks_budget := bd \<rparr>))"
  using assms
  by (simp add: execute_passed with_reservation_def reserved_run_def requirement_def tenant_def
      units_def released_def)

lemma execute_records:
  assumes "admitted self request" "enforced h self request"
    and "governor_acquire self (ks_governor st) (requirement request) = (Ok (), gv)"
    and "budget_reserve self (ks_budget st) (budget_id request) (tenant request) (units request) = (Ok (), bd)"
    and "run_plan oc (ks_capabilities st) request = (Ok outs, caps)"
  shows "execute oc h self clock request st =
     released self request (recording oc self clock request outs \<lparr> sm_state = RecordingEvidence \<rparr>
       (after_run st gv bd caps))"
  using assms by (simp add: execute_executes executing_def after_run_def)

lemma mediated_parts:
  assumes "mediated oc h self request st"
  obtains gv bd outs caps where "admitted self request" "enforced h self request"
    "governor_acquire self (ks_governor st) (requirement request) = (Ok (), gv)"
    "budget_reserve self (ks_budget st) (budget_id request) (tenant request) (units request) = (Ok (), bd)"
    "run_plan oc (ks_capabilities st) request = (Ok outs, caps)"
proof -
  obtain u1 gv where acq: "governor_acquire self (ks_governor st) (requirement request) = (Inr u1, gv)"
    using assms by (auto simp: mediated_def requirement_def is_ok_iff) (metis prod.collapse)
  obtain u2 bd where res:
    "budget_reserve self (ks_budget st) (budget_id request) (tenant request) (units request) = (Inr u2, bd)"
    using assms by (auto simp: mediated_def tenant_def units_def is_ok_iff) (metis prod.collapse)
  obtain outs caps where "run_plan oc (ks_capabilities st) request = (Inr outs, caps)"
    using assms by (auto simp: mediated_def is_ok_iff) (metis prod.collapse)
  with acq res assms that show thesis by (auto simp: mediated_def)
qed

section \<open>Verification leaves the ledgers alone\<close>

lemma roll_back_state:
  "\<exists>rc. snd (snd (roll_back self rec answer sm st)) = st\<lparr> ks_recovery := rc \<rparr>"
proof (cases "recovery_recover self (ks_recovery st) rec")
  case (Pair v rc)
  then show ?thesis
    by (cases v; cases "transit sm RolledBack"; cases "fst (transit sm RolledBack)")
      (auto simp: roll_back_def Let_def move_def)
qed

lemma checked_or_rolled_back_state:
  assumes "sm_state sm = Verifying" and "\<exists>rc. snd (snd k) = st\<lparr> ks_recovery := rc \<rparr>"
  shows "\<exists>rc. snd (snd (checked_or_rolled_back self verdict rec sm st k)) = st\<lparr> ks_recovery := rc \<rparr>"
proof (cases verdict)
  case (Inl e)
  show ?thesis
  proof (cases e)
    case (Anyhow m)
    with Inl assms(1) show ?thesis
      by (simp add: checked_or_rolled_back_def Let_def roll_back_state)
  next
    case Panicked
    with Inl show ?thesis
      by (auto simp: checked_or_rolled_back_def intro: exI [of _ "ks_recovery st"])
  qed
qed (use assms(2) in \<open>simp add: checked_or_rolled_back_def\<close>)

lemma verifying_state:
  assumes "sm_state sm = Verifying"
  shows "\<exists>rc. snd (snd (verifying self request rec sm st)) = st\<lparr> ks_recovery := rc \<rparr>"
  unfolding verifying_def
  by (intro checked_or_rolled_back_state assms)
    (use assms in \<open>auto intro: exI [of _ "ks_recovery st"]\<close>)

text \<open>A completed verification answers the record it was given.\<close>

lemma roll_back_not_completed:
  assumes "roll_back self rec answer sm st = (r, sm', st')" and "sm_state sm = Failed"
  shows "sm_state sm' \<noteq> Completed"
  using roll_back_frame [OF assms] by simp

lemma checked_or_rolled_back_completed:
  assumes "checked_or_rolled_back self verdict rec sm st k = (r, sm', st')"
    and "sm_state sm = Verifying" and "sm_state sm' = Completed"
  shows "k = (r, sm', st')"
proof (cases verdict)
  case (Inl e)
  with assms show ?thesis
    by (cases e) (auto simp: checked_or_rolled_back_def Let_def dest: roll_back_not_completed)
qed (use assms in \<open>simp add: checked_or_rolled_back_def\<close>)

lemma verifying_completed:
  assumes "verifying self request rec sm st = (r, sm', st')"
    and "sm_state sm = Verifying" and "sm_state sm' = Completed"
  shows "r = Ok rec \<and> st' = st"
proof -
  have "move sm Completed st (\<lambda>sm. (Ok rec, sm, st)) = (r, sm', st')"
    using assms unfolding verifying_def
    by (metis (no_types, lifting) checked_or_rolled_back_completed)
  with assms(2) show ?thesis by auto
qed

lemma settling_completed:
  assumes "settling oc self request ids recs sm st = (r, sm', st')"
    and "sm_state sm = RecordingEvidence" and "sm_state sm' = Completed"
  shows "\<exists>total bd. sum_costs oc (map sr_cost_units recs) = Ok total \<and>
     budget_consume self (ks_budget st) (budget_id request) total = (Ok (), bd) \<and>
     r = Ok (completed_record self request ids recs) \<and> st' = st\<lparr> ks_budget := bd \<rparr>"
proof (cases "sum_costs oc (map sr_cost_units recs)")
  case (Inl e)
  with assms show ?thesis by (auto simp: settling_def)
next
  case cost: (Inr total)
  obtain v bd where cons: "budget_consume self (ks_budget st) (budget_id request) total = (v, bd)"
    by fastforce
  show ?thesis
  proof (cases v)
    case (Inl e)
    with cost cons assms show ?thesis by (auto simp: settling_def)
  next
    case (Inr u)
    with cost cons assms(1,2)
    have "verifying self request (completed_record self request ids recs)
        (sm\<lparr> sm_state := Verifying \<rparr>) (st\<lparr> ks_budget := bd \<rparr>) = (r, sm', st')"
      by (simp add: settling_def)
    from verifying_completed [OF this] assms(3) cost cons Inr show ?thesis by simp
  qed
qed

lemma execute_completed_mediated:
  assumes "execute oc h self clock request st = (r, sm, st')" and "sm_state sm = Completed"
  shows "mediated oc h self request st"
  using execute_unmediated [OF _ assms(1)] assms(2) by blast

section \<open>The contract of the kernel's services\<close>

locale kernel_contract =
  evidence: evidence_ledger "evidence_append self" "evidence_by_execution self" records einv storable +
  budget: budget_ledger "budget_reserve self" "budget_consume self" refund snapshot binv valid_id +
  governor: resource_governor "governor_acquire self" "governor_return self"
  for self :: "('ev, 'bd, 'gv, 'rc, 'z) NoumenonCore_scheme"
    and records :: "'ev \<Rightarrow> EvidenceRecord list" and einv :: "'ev \<Rightarrow> bool"
    and storable :: "EvidenceRecord \<Rightarrow> bool"
    and refund :: "'bd \<Rightarrow> string \<Rightarrow> u64 \<Rightarrow> unit result \<times> 'bd"
    and snapshot :: "'bd \<Rightarrow> string \<Rightarrow> BudgetAccount option" and binv :: "'bd \<Rightarrow> bool"
    and valid_id :: "string \<Rightarrow> bool"
begin

lemma record_outputs_stores:
  assumes "einv (ks_evidence st)"
    and "list_all storable (step_chain self clock request outs prev (ks_ticks st))"
    and "\<forall>out\<in>set outs. find_step request (so_step_id out) \<noteq> None"
  shows "\<exists>ev. einv ev \<and>
     records ev = records (ks_evidence st) @ step_chain self clock request outs prev (ks_ticks st) \<and>
     record_outputs self clock request outs prev ids recs st =
       (Ok (ids @ map ev_record_id (step_chain self clock request outs prev (ks_ticks st)),
            recs @ step_records_of self clock request outs (ks_ticks st)),
        st\<lparr> ks_evidence := ev, ks_ticks := ks_ticks st + 2 * length outs \<rparr>)"
  using assms
proof (induction outs arbitrary: prev ids recs st)
  case (Cons out outs)
  then obtain s where s: "find_step request (so_step_id out) = Some s" by auto
  let ?e = "step_evidence self request s out prev (clock (ks_ticks st))"
  from evidence.append_stores [of "ks_evidence st" ?e] Cons.prems s obtain ev1 where ev1:
    "evidence_append self (ks_evidence st) ?e = (Ok (), ev1)" "einv ev1"
    "records ev1 = records (ks_evidence st) @ [?e]"
    by (auto simp: Let_def)
  let ?st = "st\<lparr> ks_evidence := ev1, ks_ticks := ks_ticks st + 2 \<rparr>"
  have "einv (ks_evidence ?st)"
    and "list_all storable (step_chain self clock request outs (ev_record_hash ?e) (ks_ticks ?st))"
    and "\<forall>out\<in>set outs. find_step request (so_step_id out) \<noteq> None"
    using ev1 Cons.prems s by (simp_all add: Let_def)
  from Cons.IH [OF this, of "ids @ [ev_record_id ?e]"
      "recs @ [step_record self s out (clock (ks_ticks st + 1))]"]
  show ?case using ev1 s by (auto simp: Let_def)
qed (auto intro: exI [of _ "ks_evidence st"])

lemma recording_stores:
  assumes "einv (ks_evidence st)"
    and "list_all storable (evidence_chain self clock request outs (ks_ticks st))"
    and "\<forall>out\<in>set outs. find_step request (so_step_id out) \<noteq> None"
  shows "\<exists>ev. einv ev \<and>
     records ev = records (ks_evidence st) @ evidence_chain self clock request outs (ks_ticks st) \<and>
     recording oc self clock request outs sm st =
       settling oc self request
         (map ev_record_id (evidence_chain self clock request outs (ks_ticks st)))
         (step_records_of self clock request outs (ks_ticks st + 1)) sm
         (st\<lparr> ks_evidence := ev, ks_ticks := ks_ticks st + 1 + 2 * length outs \<rparr>)"
proof -
  let ?c = "context_evidence self request (clock (ks_ticks st))"
  from evidence.append_stores [of "ks_evidence st" ?c] assms(1,2) obtain ev1 where ev1:
    "evidence_append self (ks_evidence st) ?c = (Ok (), ev1)" "einv ev1"
    "records ev1 = records (ks_evidence st) @ [?c]"
    by (auto simp: evidence_chain_def Let_def)
  let ?st = "st\<lparr> ks_evidence := ev1, ks_ticks := ks_ticks st + 1 \<rparr>"
  have "einv (ks_evidence ?st)"
    and "list_all storable (step_chain self clock request outs (ev_record_hash ?c) (ks_ticks ?st))"
    using ev1 assms(2) by (simp_all add: evidence_chain_def Let_def)
  from record_outputs_stores [OF this assms(3), of "[ev_record_id ?c]" "[]"] obtain ev2 where ev2:
    "einv ev2" "records ev2 = records (ks_evidence ?st) @
       step_chain self clock request outs (ev_record_hash ?c) (ks_ticks ?st)"
    "record_outputs self clock request outs (ev_record_hash ?c) [ev_record_id ?c] [] ?st =
       (Ok ([ev_record_id ?c] @ map ev_record_id
              (step_chain self clock request outs (ev_record_hash ?c) (ks_ticks ?st)),
            [] @ step_records_of self clock request outs (ks_ticks ?st)),
        ?st\<lparr> ks_evidence := ev2, ks_ticks := ks_ticks ?st + 2 * length outs \<rparr>)"
    by blast
  show ?thesis
    by (rule exI [of _ ev2])
      (use ev1 ev2 in \<open>simp add: recording_def evidence_chain_def Let_def\<close>)
qed

lemma executed_run:
  assumes "execute oc h self clock request st = (r, sm, st')" and "mediated oc h self request st"
    and "einv (ks_evidence st)" "binv (ks_budget st)"
    and "valid_id (budget_id request)" "valid_id (tenant request)"
    and "length (steps request) < 2 ^ 64"
    and "\<And>outs caps. run_plan oc (ks_capabilities st) request = (Ok outs, caps) \<Longrightarrow>
           list_all storable (evidence_chain self clock request outs (ks_ticks st))"
  obtains outs caps ev bd gv where
    "run_plan oc (ks_capabilities st) request = (Ok outs, caps)"
    "einv ev" "records ev = records (ks_evidence st) @ evidence_chain self clock request outs (ks_ticks st)"
    "binv bd" "snapshot bd =
       snd (mem_reserve (snapshot (ks_budget st)) (budget_id request) (tenant request) (units request))"
    "governor_return self gv (requirement request) = ks_governor st"
    "(r, sm, st') = released self request (settling oc self request
       (map ev_record_id (evidence_chain self clock request outs (ks_ticks st)))
       (step_records_of self clock request outs (ks_ticks st + 1)) \<lparr> sm_state = RecordingEvidence \<rparr>
       ((after_run st gv bd caps)\<lparr> ks_evidence := ev, ks_ticks := ks_ticks st + 1 + 2 * length outs \<rparr>))"
proof -
  from mediated_parts [OF assms(2)] obtain gv bd outs caps where parts:
    "admitted self request" "enforced h self request"
    "governor_acquire self (ks_governor st) (requirement request) = (Ok (), gv)"
    "budget_reserve self (ks_budget st) (budget_id request) (tenant request) (units request) = (Ok (), bd)"
    "run_plan oc (ks_capabilities st) request = (Ok outs, caps)"
    by metis
  let ?st = "after_run st gv bd caps"
  have ticks: "ks_ticks ?st = ks_ticks st" "ks_evidence ?st = ks_evidence st"
    by (simp_all add: after_run_def)
  have found: "\<forall>out\<in>set outs. find_step request (so_step_id out) \<noteq> None"
    using run_plan_find_step [OF assms(7) parts(5)] by blast
  have "einv (ks_evidence ?st)"
    and "list_all storable (evidence_chain self clock request outs (ks_ticks ?st))"
    using assms(3) assms(8) [OF parts(5)] by (simp_all add: ticks)
  from recording_stores [OF this found, of oc "\<lparr> sm_state = RecordingEvidence \<rparr>", unfolded ticks]
  obtain ev where ev:
    "einv ev" "records ev = records (ks_evidence st) @ evidence_chain self clock request outs (ks_ticks st)"
    "recording oc self clock request outs \<lparr> sm_state = RecordingEvidence \<rparr> ?st =
       settling oc self request
         (map ev_record_id (evidence_chain self clock request outs (ks_ticks st)))
         (step_records_of self clock request outs (ks_ticks st + 1)) \<lparr> sm_state = RecordingEvidence \<rparr>
         (?st\<lparr> ks_evidence := ev, ks_ticks := ks_ticks st + 1 + 2 * length outs \<rparr>)"
    by blast
  from budget.reserve_sim [OF assms(4-6), of "units request"] parts(4)
  have bd: "binv bd" "snapshot bd =
      snd (mem_reserve (snapshot (ks_budget st)) (budget_id request) (tenant request) (units request))"
    by auto
  have gv: "governor_return self gv (requirement request) = ks_governor st"
    by (rule governor.undo [OF parts(3)])
  from execute_records [OF parts] assms(1) ev(3)
  show thesis by (intro that [OF parts(5) ev(1,2) bd gv]) simp
qed

lemma completed_run:
  assumes "execute oc h self clock request st = (r, sm, st')" and "sm_state sm = Completed"
    and "einv (ks_evidence st)" "binv (ks_budget st)"
    and "valid_id (budget_id request)" "valid_id (tenant request)"
    and "length (steps request) < 2 ^ 64"
    and "\<And>outs caps. run_plan oc (ks_capabilities st) request = (Ok outs, caps) \<Longrightarrow>
           list_all storable (evidence_chain self clock request outs (ks_ticks st))"
  obtains outs caps total where
    "run_plan oc (ks_capabilities st) request = (Ok outs, caps)"
    "einv (ks_evidence st')"
    "records (ks_evidence st') =
       records (ks_evidence st) @ evidence_chain self clock request outs (ks_ticks st)"
    "sum_costs oc (map so_cost_units outs) = Ok total"
    "binv (ks_budget st')"
    "mem_consume (snd (mem_reserve (snapshot (ks_budget st)) (budget_id request) (tenant request)
       (units request))) (budget_id request) total = (Ok (), snapshot (ks_budget st'))"
    "ks_governor st' = ks_governor st" "ks_capabilities st' = caps"
    "ks_recovery st' = ks_recovery st" "ks_ticks st' = ks_ticks st + 1 + 2 * length outs"
    "r = Ok (completed_record self request
       (map ev_record_id (evidence_chain self clock request outs (ks_ticks st)))
       (step_records_of self clock request outs (ks_ticks st + 1)))"
proof -
  obtain outs caps ev bd gv where run:
    "run_plan oc (ks_capabilities st) request = (Ok outs, caps)"
    "einv ev" "records ev = records (ks_evidence st) @ evidence_chain self clock request outs (ks_ticks st)"
    "binv bd" "snapshot bd =
       snd (mem_reserve (snapshot (ks_budget st)) (budget_id request) (tenant request) (units request))"
    "governor_return self gv (requirement request) = ks_governor st"
    "(r, sm, st') = released self request (settling oc self request
       (map ev_record_id (evidence_chain self clock request outs (ks_ticks st)))
       (step_records_of self clock request outs (ks_ticks st + 1)) \<lparr> sm_state = RecordingEvidence \<rparr>
       ((after_run st gv bd caps)\<lparr> ks_evidence := ev, ks_ticks := ks_ticks st + 1 + 2 * length outs \<rparr>))"
    by (rule executed_run [OF assms(1) execute_completed_mediated [OF assms(1,2)] assms(3-8)])
  let ?st = "(after_run st gv bd caps)\<lparr> ks_evidence := ev, ks_ticks := ks_ticks st + 1 + 2 * length outs \<rparr>"
  obtain st2 where settle: "settling oc self request
      (map ev_record_id (evidence_chain self clock request outs (ks_ticks st)))
      (step_records_of self clock request outs (ks_ticks st + 1)) \<lparr> sm_state = RecordingEvidence \<rparr> ?st =
      (r, sm, st2)"
    and st': "st' = st2\<lparr> ks_governor := governor_return self (ks_governor st2) (requirement request) \<rparr>"
    using run(7) by (auto simp: released_def split: prod.splits)
  from settling_completed [OF settle] assms(2) obtain total bd2 where fin:
    "sum_costs oc (map so_cost_units outs) = Ok total"
    "budget_consume self bd (budget_id request) total = (Ok (), bd2)"
    "r = Ok (completed_record self request
       (map ev_record_id (evidence_chain self clock request outs (ks_ticks st)))
       (step_records_of self clock request outs (ks_ticks st + 1)))"
    "st2 = ?st\<lparr> ks_budget := bd2 \<rparr>"
    by (auto simp: after_run_def)
  from budget.consume_sim [OF run(4) assms(5), of total] fin(2) run(5)
  have consumed: "binv bd2" "mem_consume (snd (mem_reserve (snapshot (ks_budget st)) (budget_id request)
      (tenant request) (units request))) (budget_id request) total = (Ok (), snapshot bd2)"
    by (auto simp: prod_eq_iff)
  show thesis
    by (rule that [OF run(1)]) (use run fin consumed st' in \<open>simp_all add: after_run_def\<close>)
qed

end

end
