(* ===== verification/Compositions.thy ===== *)
theory Compositions
  imports Kernel_Run
begin

text \<open>
  The kernel put together with the ledgers and the governor of the crate, as its tests do
  (\<^verbatim>\<open>make_kernel_with_supply\<close> in \<^verbatim>\<open>NoumenonCore/src/lib.rs\<close>): in memory, and with both ledgers
  on files. The other services are those of the given kernel. Each composition interprets
  the kernel's contract, so the effect of a run is a fact about the code's own services.
\<close>

definition in_memory ::
  "bool \<Rightarrow> ('e, 'b, 'g, 'rc, 'z) NoumenonCore_scheme \<Rightarrow>
     (InMemoryEvidenceLedger, Accounts, ResourcePoolState, 'rc) NoumenonCore" where
  "in_memory oc services =
     \<lparr> identity_authority = identity_authority services,
       tenant_authority = tenant_authority services,
       attestation_verifier = attestation_verifier services,
       supply_chain_verifier = supply_chain_verifier services,
       crypto = crypto services,
       evidence_append = mem_append,
       evidence_by_execution = mem_by_execution,
       budget_reserve = mem_reserve,
       budget_consume = mem_consume,
       result_validator = result_validator services,
       governor_acquire = governor_reserve oc,
       governor_return = governor_release,
       learning_gate = learning_gate services,
       recovery_recover = recovery_recover services,
       rollout_gate = rollout_gate services,
       replay_explainer = replay_explainer services \<rparr>"

definition on_file ::
  "(string \<Rightarrow> string) \<Rightarrow> (string \<Rightarrow> string option) \<Rightarrow> bool \<Rightarrow>
     ('e, 'b, 'g, 'rc, 'z) NoumenonCore_scheme \<Rightarrow>
     (LedgerFile, LedgerFile, ResourcePoolState, 'rc) NoumenonCore" where
  "on_file henc hdec oc services =
     \<lparr> identity_authority = identity_authority services,
       tenant_authority = tenant_authority services,
       attestation_verifier = attestation_verifier services,
       supply_chain_verifier = supply_chain_verifier services,
       crypto = crypto services,
       evidence_append = file_append henc,
       evidence_by_execution = file_by_execution hdec,
       budget_reserve = file_reserve henc,
       budget_consume = file_consume henc hdec,
       result_validator = result_validator services,
       governor_acquire = governor_reserve oc,
       governor_return = governor_release,
       learning_gate = learning_gate services,
       recovery_recover = recovery_recover services,
       rollout_gate = rollout_gate services,
       replay_explainer = replay_explainer services \<rparr>"

lemma in_memory_simps [simp]:
  "identity_authority (in_memory oc services) = identity_authority services"
  "tenant_authority (in_memory oc services) = tenant_authority services"
  "attestation_verifier (in_memory oc services) = attestation_verifier services"
  "supply_chain_verifier (in_memory oc services) = supply_chain_verifier services"
  "crypto (in_memory oc services) = crypto services"
  "evidence_append (in_memory oc services) = mem_append"
  "evidence_by_execution (in_memory oc services) = mem_by_execution"
  "budget_reserve (in_memory oc services) = mem_reserve"
  "budget_consume (in_memory oc services) = mem_consume"
  "result_validator (in_memory oc services) = result_validator services"
  "governor_acquire (in_memory oc services) = governor_reserve oc"
  "governor_return (in_memory oc services) = governor_release"
  "learning_gate (in_memory oc services) = learning_gate services"
  "recovery_recover (in_memory oc services) = recovery_recover services"
  "rollout_gate (in_memory oc services) = rollout_gate services"
  "replay_explainer (in_memory oc services) = replay_explainer services"
  by (simp_all add: in_memory_def)

lemma on_file_simps [simp]:
  "identity_authority (on_file henc hdec oc services) = identity_authority services"
  "tenant_authority (on_file henc hdec oc services) = tenant_authority services"
  "attestation_verifier (on_file henc hdec oc services) = attestation_verifier services"
  "supply_chain_verifier (on_file henc hdec oc services) = supply_chain_verifier services"
  "crypto (on_file henc hdec oc services) = crypto services"
  "evidence_append (on_file henc hdec oc services) = file_append henc"
  "evidence_by_execution (on_file henc hdec oc services) = file_by_execution hdec"
  "budget_reserve (on_file henc hdec oc services) = file_reserve henc"
  "budget_consume (on_file henc hdec oc services) = file_consume henc hdec"
  "result_validator (on_file henc hdec oc services) = result_validator services"
  "governor_acquire (on_file henc hdec oc services) = governor_reserve oc"
  "governor_return (on_file henc hdec oc services) = governor_release"
  "learning_gate (on_file henc hdec oc services) = learning_gate services"
  "recovery_recover (on_file henc hdec oc services) = recovery_recover services"
  "rollout_gate (on_file henc hdec oc services) = rollout_gate services"
  "replay_explainer (on_file henc hdec oc services) = replay_explainer services"
  by (simp_all add: on_file_def)

interpretation memory_kernel:
  kernel_contract "in_memory True services" "\<lambda>l. l" "\<lambda>_. True" "\<lambda>_. True" mem_refund "\<lambda>m. m"
    "\<lambda>_. True" "\<lambda>_. True"
  for services
  unfolding kernel_contract_def in_memory_simps
  by (intro conjI mem_evidence.evidence_ledger_axioms mem_budget.budget_ledger_axioms
      checked_governor.resource_governor_axioms)

lemma file_kernel_contract:
  assumes "hex_crate henc hdec"
  shows "kernel_contract (on_file henc hdec True services) (file_records hdec) wf_file utf8_record
     (file_refund henc hdec) (load_accounts hdec) wf_file utf8_valid"
  unfolding kernel_contract_def on_file_simps
  by (intro conjI file_evidence_ledger [OF assms] file_budget_ledger [OF assms]
      checked_governor.resource_governor_axioms)

interpretation file_kernel:
  kernel_contract "on_file hex_encode hex_decode True services" "file_records hex_decode" wf_file
    utf8_record "file_refund hex_encode hex_decode" "load_accounts hex_decode" wf_file utf8_valid
  for services
  by (rule file_kernel_contract [OF hex_crate_instance])

end
