(* ===== verification/Kernel_Replay.thy ===== *)
theory Kernel_Replay
  imports Compositions
begin

text \<open>
  Replaying a completed run: the evidence it stored rebuilds the output chain the fingerprint
  was computed from. The chain can be walked because the record hashes of one run differ from
  each other and from \<^verbatim>\<open>genesis\<close>, which needs a digest that is hexadecimal and does not
  collide on the texts this run hashes.
\<close>

definition hex_digest :: "CryptoService \<Rightarrow> bool" where
  "hex_digest digest \<longleftrightarrow> (\<forall>x. list_all hex_digit (digest x))"

section \<open>The texts a run hashes\<close>

fun step_payloads ::
  "CryptoService \<Rightarrow> TrustedExecutionRequest \<Rightarrow> StepExecutionOutput list \<Rightarrow> string \<Rightarrow> string list" where
  "step_payloads digest request [] prev = []"
| "step_payloads digest request (out # outs) prev =
     (let p = chain_payload (rq_execution_id request) (so_step_id out)
                (digest (st_input (the (find_step request (so_step_id out)))))
                (digest (so_output out)) prev
      in p # step_payloads digest request outs (digest p))"

definition run_payloads ::
  "CryptoService \<Rightarrow> TrustedExecutionRequest \<Rightarrow> StepExecutionOutput list \<Rightarrow> string list" where
  "run_payloads digest request outs =
     (let p = chain_payload (rq_execution_id request) ''admission-context'' ''context''
                (digest (build_execution_context_payload request)) ''genesis''
      in p # step_payloads digest request outs (digest p))"

definition hashes :: "CryptoService \<Rightarrow> EvidenceRecord \<Rightarrow> string \<Rightarrow> bool" where
  "hashes digest e p \<longleftrightarrow>
     ev_record_hash e = digest p \<and> (\<exists>a. p = a @ CHR '':'' # ev_prev_hash e)"

lemma chain_payload_tail: "\<exists>x. chain_payload a b c d prev = x @ CHR '':'' # prev"
  by (rule exI [of _ "a @ '':'' @ b @ '':'' @ c @ '':'' @ d"]) (simp add: chain_payload_def)

lemma step_chain_hashes:
  "list_all2 (hashes (crypto self)) (step_chain self clock request outs prev t)
     (step_payloads (crypto self) request outs prev)"
proof (induction outs arbitrary: prev t)
  case (Cons out outs)
  let ?s = "the (find_step request (so_step_id out))"
  let ?p = "chain_payload (rq_execution_id request) (so_step_id out)
      (crypto self (st_input ?s)) (crypto self (so_output out)) prev"
  have "ev_record_hash (step_evidence self request ?s out prev (clock t)) = crypto self ?p"
    by (simp add: step_evidence_def Let_def)
  with Cons show ?case
    by (simp add: Let_def hashes_def chain_payload_tail)
qed simp

lemma evidence_chain_hashes:
  "list_all2 (hashes (crypto self)) (evidence_chain self clock request outs t)
     (run_payloads (crypto self) request outs)"
proof -
  have "ev_record_hash (context_evidence self request (clock t)) =
      crypto self (chain_payload (rq_execution_id request) ''admission-context'' ''context''
        (crypto self (build_execution_context_payload request)) ''genesis'')"
    by (simp add: context_evidence_def Let_def)
  then show ?thesis
    by (simp add: evidence_chain_def run_payloads_def Let_def step_chain_hashes hashes_def
        chain_payload_tail)
qed

section \<open>Hash chains visit distinct records\<close>

lemma linked_nth:
  assumes "linked p es" and "Suc i < length es"
  shows "ev_prev_hash (es ! Suc i) = ev_record_hash (es ! i)"
  using assms
proof (induction es arbitrary: p i)
  case (Cons e es)
  then show ?case by (cases i; cases es) auto
qed simp

lemma linked_head: "linked p es \<Longrightarrow> es \<noteq> [] \<Longrightarrow> ev_prev_hash (es ! 0) = p"
  by (cases es) auto

lemma linked_distinct:
  assumes "linked p es" and "\<forall>e\<in>set es. ev_record_hash e \<noteq> p"
    and "\<forall>e\<in>set es. \<forall>f\<in>set es. ev_record_hash e = ev_record_hash f \<longrightarrow> ev_prev_hash e = ev_prev_hash f"
  shows "distinct (map ev_prev_hash es)"
proof -
  have neq: "ev_prev_hash (es ! i) \<noteq> ev_prev_hash (es ! j)" if "i < j" "j < length es" for i j
    using that
  proof (induction i arbitrary: j)
    case 0
    then obtain k where j: "j = Suc k" by (cases j) auto
    with 0 have "ev_prev_hash (es ! j) = ev_record_hash (es ! k)" "k < length es"
      using linked_nth [OF assms(1)] by auto
    moreover have "ev_prev_hash (es ! 0) = p"
      using 0 linked_head [OF assms(1)] by (cases es) simp_all
    ultimately show ?case using assms(2) by auto
  next
    case (Suc i)
    then obtain k where j: "j = Suc k" by (cases j) auto
    with Suc.prems have prevs: "ev_prev_hash (es ! j) = ev_record_hash (es ! k)"
        "ev_prev_hash (es ! Suc i) = ev_record_hash (es ! i)" "i < k" "k < length es"
      using linked_nth [OF assms(1)] by auto
    have "ev_prev_hash (es ! i) \<noteq> ev_prev_hash (es ! k)"
      using Suc.IH prevs(3,4) by simp
    then have "ev_record_hash (es ! i) \<noteq> ev_record_hash (es ! k)"
      using assms(3) prevs(3,4) by (metis less_trans nth_mem)
    with prevs(1,2) show ?case by simp
  qed
  show ?thesis
    unfolding distinct_conv_nth using neq by (metis length_map linorder_neqE_nat nth_map)
qed

lemma colon_suffix_unique:
  assumes "CHR '':'' \<notin> set p" "CHR '':'' \<notin> set q" "a @ CHR '':'' # p = b @ CHR '':'' # q"
  shows "p = q"
proof -
  have "rev p @ CHR '':'' # rev a = rev q @ CHR '':'' # rev b"
    using arg_cong [OF assms(3), of rev] by simp
  with assms(1,2) show ?thesis
    using colon_split_unique [of "rev p" "rev q"] by simp
qed

lemma hex_digest_plain:
  assumes "hex_digest digest"
  shows "CHR '':'' \<notin> set (digest x)" and "digest x \<noteq> ''genesis''"
proof -
  have hex: "\<forall>c\<in>set (digest x). hex_digit c"
    using assms by (simp add: hex_digest_def list_all_iff)
  then show "CHR '':'' \<notin> set (digest x)"
    by (auto simp: hex_digit_def byte_def)
  show "digest x \<noteq> ''genesis''"
  proof
    assume "digest x = ''genesis''"
    with hex have "hex_digit CHR ''g''" by simp
    then show False by (simp add: hex_digit_def byte_def)
  qed
qed

lemma linked_prev_plain:
  assumes "linked p es" and "CHR '':'' \<notin> set p" and "\<forall>e\<in>set es. CHR '':'' \<notin> set (ev_record_hash e)"
  shows "\<forall>e\<in>set es. CHR '':'' \<notin> set (ev_prev_hash e)"
  using assms by (induction es arbitrary: p) auto

lemma evidence_chain_inj:
  assumes "hex_digest (crypto self)" and "inj_on (crypto self) (set (run_payloads (crypto self) request outs))"
    and es_def: "es = evidence_chain self clock request outs t"
  shows "\<forall>e\<in>set es. ev_record_hash e \<noteq> ''genesis''"
    and "\<forall>e\<in>set es. \<forall>f\<in>set es. ev_record_hash e = ev_record_hash f \<longrightarrow> ev_prev_hash e = ev_prev_hash f"
proof -
  have payload: "\<exists>p\<in>set (run_payloads (crypto self) request outs). hashes (crypto self) e p"
    if "e \<in> set es" for e
    using evidence_chain_hashes [of self clock request outs t] that unfolding es_def
    by (metis in_set_conv_nth list_all2_conv_all_nth)
  show "\<forall>e\<in>set es. ev_record_hash e \<noteq> ''genesis''"
    using payload hex_digest_plain(2) [OF assms(1)] by (fastforce simp: hashes_def)
  have hashes_plain: "\<forall>e\<in>set es. CHR '':'' \<notin> set (ev_record_hash e)"
    using payload hex_digest_plain(1) [OF assms(1)] by (fastforce simp: hashes_def)
  have "linked ''genesis'' es" unfolding es_def by (rule evidence_chain_linked)
  from linked_prev_plain [OF this _ hashes_plain]
  have plain: "\<forall>e\<in>set es. CHR '':'' \<notin> set (ev_prev_hash e)" by simp
  show "\<forall>e\<in>set es. \<forall>f\<in>set es. ev_record_hash e = ev_record_hash f \<longrightarrow> ev_prev_hash e = ev_prev_hash f"
  proof (intro ballI impI)
    fix e f assume ef: "e \<in> set es" "f \<in> set es" "ev_record_hash e = ev_record_hash f"
    from payload [OF ef(1)] payload [OF ef(2)] obtain p q a b where
      "p \<in> set (run_payloads (crypto self) request outs)" "q \<in> set (run_payloads (crypto self) request outs)"
      "crypto self p = crypto self q" "p = a @ CHR '':'' # ev_prev_hash e" "q = b @ CHR '':'' # ev_prev_hash f"
      using ef(3) by (auto simp: hashes_def)
    moreover from this(1-3) have "p = q" using assms(2) by (simp add: inj_on_eq_iff)
    ultimately show "ev_prev_hash e = ev_prev_hash f"
      using plain ef(1,2) colon_suffix_unique by metis
  qed
qed

lemma evidence_chain_distinct:
  assumes "hex_digest (crypto self)" and "inj_on (crypto self) (set (run_payloads (crypto self) request outs))"
  shows "distinct (map ev_prev_hash (evidence_chain self clock request outs t))"
  by (rule linked_distinct [OF evidence_chain_linked evidence_chain_inj [OF assms refl]])

section \<open>Replaying\<close>

text \<open>The evidence of one run, alone under its execution id, gives back the fingerprint.\<close>

lemma replay_of_chain:
  assumes "hex_digest (crypto self)" and "inj_on (crypto self) (set (run_payloads (crypto self) request outs))"
    and "evidence_by_execution self (ks_evidence st) (rq_execution_id request) =
           evidence_chain self clock request outs t"
  shows "replay_check self st (completed_record self request ids (step_records_of self clock' request outs t')) =
     Ok (record_fingerprint (completed_record self request ids (step_records_of self clock' request outs t')))"
proof -
  have "output_chain_digest_from_step_records (step_records_of self clock' request outs t') d =
      output_chain_digest_from_step_records (step_records_of self clock request outs t') d" for d
  proof -
    have "foldl (\<lambda>chain step. chain @ sr_output_digest step) c (step_records_of self clock' request outs n) =
        foldl (\<lambda>chain step. chain @ sr_output_digest step) c (step_records_of self clock request outs n)"
      for c n
      by (induction outs arbitrary: c n) (simp_all add: step_record_def)
    then show ?thesis by (simp add: output_chain_digest_from_step_records_def)
  qed
  moreover have "output_chain_digest_from_evidence (evidence_chain self clock request outs t) (crypto self) =
      output_chain_digest_from_step_records (step_records_of self clock request outs t') (crypto self)"
    using output_chain_linked [OF evidence_chain_linked evidence_chain_distinct [OF assms(1,2)]]
      push_evidence_chain by metis
  moreover have "evidence_chain self clock request outs t \<noteq> []"
    by (simp add: evidence_chain_def Let_def)
  ultimately show ?thesis
    using assms(3) by (simp add: replay_check_def completed_record_def Let_def)
qed

lemma completed_record_id [simp]:
  "er_execution_id (completed_record self request ids recs) = rq_execution_id request"
  by (simp add: completed_record_def Let_def)

context kernel_contract
begin

lemma completed_run_replays:
  assumes "execute oc h self clock request st = (Ok rec, sm, st')" and "sm_state sm = Completed"
    and "einv (ks_evidence st)" "binv (ks_budget st)"
    and "valid_id (budget_id request)" "valid_id (tenant request)"
    and "length (steps request) < 2 ^ 64"
    and run: "run_plan oc (ks_capabilities st) request = (Ok outs, caps)"
    and "list_all storable (evidence_chain self clock request outs (ks_ticks st))"
    and "hex_digest (crypto self)" and "inj_on (crypto self) (set (run_payloads (crypto self) request outs))"
    and fresh: "evidence_by_execution self (ks_evidence st) (rq_execution_id request) = []"
  shows "evidence_by_execution self (ks_evidence st') (rq_execution_id request) =
           evidence_chain self clock request outs (ks_ticks st) \<and>
         replay_check self st' rec = Ok (record_fingerprint rec)"
proof -
  have "list_all storable (evidence_chain self clock request outs' (ks_ticks st))"
    if "run_plan oc (ks_capabilities st) request = (Ok outs', caps')" for outs' caps'
    using that run assms(9) by simp
  note run_facts = completed_run [OF assms(1-7) this]
  obtain outs' caps' where ran: "run_plan oc (ks_capabilities st) request = (Ok outs', caps')"
    and inv': "einv (ks_evidence st')"
    and stored': "records (ks_evidence st') =
       records (ks_evidence st) @ evidence_chain self clock request outs' (ks_ticks st)"
    and rec': "Ok rec = Ok (completed_record self request
       (map ev_record_id (evidence_chain self clock request outs' (ks_ticks st)))
       (step_records_of self clock request outs' (ks_ticks st + 1)))"
    by (rule run_facts) blast
  from ran run have "outs' = outs" by simp
  with stored' rec' have stored: "records (ks_evidence st') =
       records (ks_evidence st) @ evidence_chain self clock request outs (ks_ticks st)"
    and rec: "rec = completed_record self request
       (map ev_record_id (evidence_chain self clock request outs (ks_ticks st)))
       (step_records_of self clock request outs (ks_ticks st + 1))"
    by simp_all
  have "filter (\<lambda>r. ev_execution_id r = rq_execution_id request) (records (ks_evidence st)) = []"
    using fresh evidence.query [OF assms(3)] by simp
  moreover have "filter (\<lambda>r. ev_execution_id r = rq_execution_id request)
      (evidence_chain self clock request outs (ks_ticks st)) =
      evidence_chain self clock request outs (ks_ticks st)"
    using evidence_chain_execution [of request self clock outs "ks_ticks st"]
    by (simp add: filter_id_conv list_all_iff)
  ultimately have chain: "evidence_by_execution self (ks_evidence st') (rq_execution_id request) =
      evidence_chain self clock request outs (ks_ticks st)"
    using evidence.query [OF inv'] stored by simp
  with replay_of_chain [OF assms(10,11) chain] rec show ?thesis by simp
qed

end

section \<open>The evidence of UTF-8 requests is UTF-8\<close>

lemma hex_digest_utf8: "hex_digest digest \<Longrightarrow> utf8_valid (digest x)"
  by (simp add: hex_digest_def utf8_valid_ascii hex_digit_ascii)

lemma ascii_utf8:
  "utf8_valid ''genesis''" "utf8_valid ''admission-context''" "utf8_valid ''STEP_EXECUTED''"
  "utf8_valid ''EXECUTION_CONTEXT_BOUND''" "utf8_valid '':admission-context''" "utf8_valid '':''"
  "utf8_valid ''evidence:''" "utf8_valid ''budget:''"
  by (simp_all add: utf8_valid_ascii is_ascii_def byte_def)

lemma step_evidence_utf8:
  assumes "hex_digest (crypto self)" "utf8_valid (rq_execution_id request)" "utf8_valid (so_step_id out)"
    and "utf8_valid prev"
  shows "utf8_record (step_evidence self request s out prev ts) \<and>
     utf8_valid (ev_record_hash (step_evidence self request s out prev ts))"
proof -
  have "utf8_valid ([CHR '':''] @ so_step_id out)"
    using assms(3) ascii_utf8(6) by (intro utf8_valid_append) simp_all
  then have "utf8_valid (rq_execution_id request @ CHR '':'' # so_step_id out)"
    using utf8_valid_append [OF assms(2)] by simp
  then show ?thesis
    using assms hex_digest_utf8 [OF assms(1)] ascii_utf8 utf8_valid_append [OF ascii_utf8(7) assms(2)]
    by (simp add: utf8_record_def step_evidence_def stream_id_def Let_def)
qed

lemma step_chain_utf8:
  assumes "hex_digest (crypto self)" "utf8_valid (rq_execution_id request)"
    and "\<forall>out\<in>set outs. utf8_valid (so_step_id out)" and "utf8_valid prev"
  shows "list_all utf8_record (step_chain self clock request outs prev t)"
  using assms(3,4)
proof (induction outs arbitrary: prev t)
  case (Cons out outs)
  with step_evidence_utf8 [OF assms(1,2), of out prev] show ?case by (simp add: Let_def)
qed simp

lemma evidence_chain_utf8:
  assumes "hex_digest (crypto self)" "utf8_valid (rq_execution_id request)"
    and "\<forall>out\<in>set outs. utf8_valid (so_step_id out)"
  shows "list_all utf8_record (evidence_chain self clock request outs t)"
proof -
  let ?c = "context_evidence self request (clock t)"
  have "utf8_record ?c \<and> utf8_valid (ev_record_hash ?c)"
    using hex_digest_utf8 [OF assms(1)] ascii_utf8 assms(2)
      utf8_valid_append [OF ascii_utf8(7) assms(2)] utf8_valid_append [OF assms(2) ascii_utf8(5)]
    by (simp add: utf8_record_def context_evidence_def stream_id_def Let_def)
  then show ?thesis
    using step_chain_utf8 [OF assms] by (simp add: evidence_chain_def Let_def)
qed

lemma run_step_ids_utf8:
  assumes "length (steps request) < 2 ^ 64" and "run_plan oc registry request = (Ok outs, caps)"
    and "\<forall>s\<in>set (steps request). utf8_valid (st_step_id s)"
  shows "\<forall>out\<in>set outs. utf8_valid (so_step_id out)"
proof -
  have "set (map so_step_id outs) = st_step_id ` set (steps request)"
    unfolding run_plan_order [OF assms(1,2)] by (simp add: by_priority_def)
  with assms(3) show ?thesis by (metis (no_types, lifting) image_iff in_set_conv_nth length_map nth_map)
qed

lemma budget_id_utf8: "utf8_valid (tenant request) \<Longrightarrow> utf8_valid (budget_id request)"
  unfolding budget_id_def tenant_def by (intro utf8_valid_append ascii_utf8)

section \<open>Two runs under one execution id\<close>

lemma walk_chain_stops:
  assumes "linked p es" and "\<forall>e\<in>set es. m (ev_prev_hash e) = Some e" and "length es < n"
    and "m (if es = [] then p else ev_record_hash (last es)) = None"
  shows "walk_chain n m p chain = None"
  using assms
proof (induction es arbitrary: p n chain)
  case Nil
  then show ?case by (cases n) auto
next
  case (Cons e es)
  then obtain k where n: "n = Suc k" "length es < k" by (cases n) auto
  have "m (if es = [] then ev_record_hash e else ev_record_hash (last es)) = None"
    using Cons.prems(4) by (cases es) auto
  with Cons.IH [of "ev_record_hash e" k] Cons.prems n show ?case
    by (auto simp: Let_def)
qed

definition pushed_length :: "EvidenceRecord list \<Rightarrow> nat" where
  "pushed_length es =
     sum_list (map (\<lambda>e. if ev_event_type e = ''STEP_EXECUTED'' then length (ev_payload_digest e) else 0) es)"

lemma length_foldl_push: "length (foldl push_output chain es) = length chain + pushed_length es"
  by (induction es arbitrary: chain) (simp_all add: push_output_def pushed_length_def)

lemma pushed_length_append: "pushed_length (xs @ ys) = pushed_length xs + pushed_length ys"
  by (simp add: pushed_length_def)

lemma pushed_length_sort: "pushed_length (sort_key f es) = pushed_length es"
  unfolding pushed_length_def by (rule sum_list_sort_key)

text \<open>The clock shows in the timestamps only.\<close>

lemma step_evidence_hash_time:
  "ev_record_hash (step_evidence self request s out prev ts) =
   ev_record_hash (step_evidence self request s out prev ts')"
  by (simp add: step_evidence_def Let_def)

lemma context_evidence_hash_time:
  "ev_record_hash (context_evidence self request ts) = ev_record_hash (context_evidence self request ts')"
  by (simp add: context_evidence_def Let_def)

definition timeless :: "EvidenceRecord \<Rightarrow> string \<times> string \<times> string \<times> string" where
  "timeless e = (ev_prev_hash e, ev_record_hash e, ev_event_type e, ev_payload_digest e)"

lemma step_chain_times:
  "map timeless (step_chain self clock request outs prev t) =
   map timeless (step_chain self clock' request outs prev t')"
proof (induction outs arbitrary: prev t t')
  case (Cons out outs)
  let ?e = "\<lambda>ts. step_evidence self request (the (find_step request (so_step_id out))) out prev ts"
  have hash: "ev_record_hash (?e (clock t)) = ev_record_hash (?e (clock' t'))"
    by (rule step_evidence_hash_time)
  then have "timeless (?e (clock t)) = timeless (?e (clock' t'))"
    by (simp add: timeless_def)
  with hash Cons.IH [of "ev_record_hash (?e (clock t))" "t + 2" "t' + 2"] show ?case
    by (simp add: Let_def)
qed simp

lemma evidence_chain_times:
  "map timeless (evidence_chain self clock request outs t) =
   map timeless (evidence_chain self clock' request outs t')"
proof -
  let ?c = "\<lambda>ts. context_evidence self request ts"
  have hash: "ev_record_hash (?c (clock t)) = ev_record_hash (?c (clock' t'))"
    by (rule context_evidence_hash_time)
  then have "timeless (?c (clock t)) = timeless (?c (clock' t'))"
    by (simp add: timeless_def)
  with hash step_chain_times [of self clock request outs _ "t + 1" clock' "t' + 1"] show ?thesis
    by (simp add: evidence_chain_def Let_def)
qed

lemma linked_last_hash:
  assumes "linked p es" and "\<forall>e\<in>set es. ev_record_hash e \<noteq> p"
    and "\<forall>e\<in>set es. \<forall>f\<in>set es. ev_record_hash e = ev_record_hash f \<longrightarrow> ev_prev_hash e = ev_prev_hash f"
    and "es \<noteq> []"
  shows "ev_record_hash (last es) \<notin> ev_prev_hash ` set es"
proof
  assume "ev_record_hash (last es) \<in> ev_prev_hash ` set es"
  then obtain i where i: "i < length es" "ev_record_hash (last es) = ev_prev_hash (es ! i)"
    by (metis image_iff in_set_conv_nth)
  show False
  proof (cases i)
    case 0
    then have "ev_record_hash (last es) = p"
      using i linked_head [OF assms(1,4)] by simp
    with assms(2,4) show False by simp
  next
    case (Suc k)
    with i have "ev_record_hash (last es) = ev_record_hash (es ! k)"
      using linked_nth [OF assms(1)] by simp
    moreover have "last es \<in> set es" "es ! k \<in> set es" using i Suc assms(4) by simp_all
    ultimately have "ev_prev_hash (last es) = ev_prev_hash (es ! k)" using assms(3) by blast
    then have "map ev_prev_hash es ! (length es - 1) = map ev_prev_hash es ! k"
      using i Suc assms(4) by (simp add: last_conv_nth)
    then have "length es - 1 = k"
      using nth_eq_iff_index_eq [OF linked_distinct [OF assms(1-3)], of "length es - 1" k] i Suc assms(4)
      by simp
    with i Suc show False by simp
  qed
qed

lemma evidence_chain_last_hash:
  assumes "hex_digest (crypto self)" and "inj_on (crypto self) (set (run_payloads (crypto self) request outs))"
  shows "ev_record_hash (last (evidence_chain self clock request outs t)) \<notin>
     ev_prev_hash ` set (evidence_chain self clock request outs t)"
  by (rule linked_last_hash [OF evidence_chain_linked evidence_chain_inj [OF assms refl]])
    (simp add: evidence_chain_def Let_def)

lemma index_append:
  "index_by_prev_hash (xs @ ys) k =
     (case index_by_prev_hash ys k of Some e \<Rightarrow> Some e | None \<Rightarrow> index_by_prev_hash xs k)"
  by (simp add: index_by_prev_hash_map_of map_add_def split: option.splits)

lemma index_None: "k \<notin> ev_prev_hash ` set es \<Longrightarrow> index_by_prev_hash es k = None"
  by (auto simp: index_by_prev_hash_map_of map_of_eq_None_iff)

text \<open>
  The evidence of two runs with the same outputs: the walk follows the second chain only, never
  visits every event, and the fallback collects the outputs of both.
\<close>

lemma two_chains_digest:
  assumes "hex_digest (crypto self)" and "inj_on (crypto self) (set (run_payloads (crypto self) request outs))"
  shows "\<exists>chain. output_chain_digest_from_evidence (evidence_chain self clock request outs t @
       evidence_chain self clock request outs t') (crypto self) = crypto self chain \<and>
     length chain = 2 * pushed_length (evidence_chain self clock request outs t)"
proof -
  let ?C = "evidence_chain self clock request outs t" and ?D = "evidence_chain self clock request outs t'"
  let ?m = "index_by_prev_hash (?C @ ?D)"
  have same: "map timeless ?C = map timeless ?D" by (rule evidence_chain_times)
  have prevs: "map ev_prev_hash ?C = map ev_prev_hash ?D"
    using arg_cong [OF same, of "map fst"] by (simp add: o_def timeless_def)
  have pushed: "pushed_length ?C = pushed_length ?D"
    using arg_cong [OF same, of "\<lambda>ps. sum_list (map (\<lambda>(_, _, ty, pd).
        if ty = ''STEP_EXECUTED'' then length pd else 0) ps)"]
    by (simp add: pushed_length_def o_def timeless_def)
  have nonempty: "?C \<noteq> []" "?D \<noteq> []" by (simp_all add: evidence_chain_def Let_def)
  have last: "ev_record_hash (last ?D) \<notin> ev_prev_hash ` set ?D"
    by (rule evidence_chain_last_hash [OF assms(1,2)])
  moreover have "ev_prev_hash ` set ?C = ev_prev_hash ` set ?D"
    using prevs by (metis list.set_map)
  ultimately have stop: "?m (ev_record_hash (last ?D)) = None"
    by (simp add: index_append index_None)
  have "index_by_prev_hash ?D (ev_prev_hash e) = Some e" if "e \<in> set ?D" for e
    by (rule index_by_prev_hash_lookup [OF evidence_chain_distinct [OF assms(1,2)] that])
  then have "\<forall>e\<in>set ?D. ?m (ev_prev_hash e) = Some e"
    by (simp add: index_append)
  then have "walk_chain (length (?C @ ?D)) ?m ''genesis'' [] = None"
    by (intro walk_chain_stops [OF evidence_chain_linked [of self clock request outs t']])
      (use stop nonempty in simp_all)
  then have "output_chain_digest_from_evidence (?C @ ?D) (crypto self) =
      crypto self (foldl push_output [] (sort_key (\<lambda>e. (ev_timestamp_ms e, ev_record_id e)) (?C @ ?D)))"
    by (simp add: output_chain_digest_from_evidence_def)
  moreover have "length (foldl push_output [] (sort_key (\<lambda>e. (ev_timestamp_ms e, ev_record_id e)) (?C @ ?D))) =
      2 * pushed_length ?C"
    by (simp add: length_foldl_push pushed_length_sort pushed_length_append pushed)
  ultimately show ?thesis by blast
qed

lemma fingerprint_payload_inj: "fingerprint_payload m a = fingerprint_payload m b \<Longrightarrow> a = b"
  by (simp add: fingerprint_payload_def)

lemma pushed_length_chain:
  assumes "outs \<noteq> []" and "\<forall>x. crypto self x \<noteq> []"
  shows "0 < pushed_length (evidence_chain self clock request outs t)"
  using assms by (cases outs) (simp_all add: evidence_chain_def pushed_length_def Let_def)

lemma replay_of_two_chains:
  assumes "hex_digest (crypto self)" and "inj (crypto self)" and "\<forall>x. crypto self x \<noteq> []"
    and "outs \<noteq> []"
    and "evidence_by_execution self (ks_evidence st) (rq_execution_id request) =
           evidence_chain self clock request outs t @ evidence_chain self clock request outs t'"
    and rec: "rec = completed_record self request ids (step_records_of self clock request outs t'')"
  shows "\<exists>m. replay_check self st rec = Err m"
proof -
  have inj: "inj_on (crypto self) A" for A using assms(2) inj_on_subset by blast
  let ?C = "evidence_chain self clock request outs t"
  let ?M = "build_fingerprint_material (rq_closure request) (rq_supply_chain request) (crypto self)"
  obtain chain where chain:
    "output_chain_digest_from_evidence (?C @ evidence_chain self clock request outs t') (crypto self) =
       crypto self chain" "length chain = 2 * pushed_length ?C"
    using two_chains_digest [OF assms(1) inj, where clock = clock and t = t and t' = t'] by blast
  have recorded: "output_chain_digest_from_step_records (step_records_of self clock request outs t'') (crypto self) =
      crypto self (foldl push_output [] ?C)"
    using push_evidence_chain [of "crypto self" self clock request outs t t''] by simp
  have "compute_execution_fingerprint ?M (crypto self chain) (crypto self) \<noteq>
      compute_execution_fingerprint ?M (crypto self (foldl push_output [] ?C)) (crypto self)"
  proof
    assume "compute_execution_fingerprint ?M (crypto self chain) (crypto self) =
      compute_execution_fingerprint ?M (crypto self (foldl push_output [] ?C)) (crypto self)"
    then have "fingerprint_payload ?M (crypto self chain) =
        fingerprint_payload ?M (crypto self (foldl push_output [] ?C))"
      using assms(2) by (simp add: compute_execution_fingerprint_def inj_eq)
    then have "chain = foldl push_output [] ?C"
      using assms(2) by (metis fingerprint_payload_inj inj_eq)
    then have "length chain = pushed_length ?C" by (simp add: length_foldl_push)
    with chain(2) pushed_length_chain [OF assms(4,3), of clock request t] show False by simp
  qed
  moreover have "record_material rec = ?M" "record_fingerprint rec =
      compute_execution_fingerprint ?M (crypto self (foldl push_output [] ?C)) (crypto self)"
    unfolding rec by (simp_all add: completed_record_def Let_def recorded)
  moreover have "er_execution_id rec = rq_execution_id request" unfolding rec by simp
  moreover have "?C \<noteq> []" by (simp add: evidence_chain_def Let_def)
  ultimately show ?thesis
    using assms(5) chain(1) by (simp add: replay_check_def Let_def)
qed

end
