(* ===== verification/Kernel_Accounts.thy ===== *)
theory Kernel_Accounts
  imports Compositions
begin

text \<open>
  What a run costs and gives back: the budget units it reserves and consumes, the resources it
  holds, and when it completes.
\<close>

section \<open>The cost of a plan\<close>

definition plan_cost :: "TrustedExecutionRequest \<Rightarrow> nat" where
  "plan_cost request = sum_list (map (\<lambda>s. unat (step_cost s)) (steps request))"

lemma step_cost_cases: "unat (step_cost s) = (if st_capability_ref s = Some ''llm.route'' then 2 else 1)"
  by (simp add: step_cost_def)

lemma plan_cost_bounds: "length (steps request) \<le> plan_cost request \<and> plan_cost request \<le> 2 * length (steps request)"
proof -
  have "length ss \<le> sum_list (map (\<lambda>s. unat (step_cost s)) ss) \<and>
      sum_list (map (\<lambda>s. unat (step_cost s)) ss) \<le> 2 * length ss" for ss
    by (induction ss) (auto simp: step_cost_cases)
  then show ?thesis by (simp add: plan_cost_def)
qed

text \<open>A plan costs its length exactly when no step is routed to a language model.\<close>

lemma plan_cost_eq_length:
  "plan_cost request = length (steps request) \<longleftrightarrow>
     (\<forall>s\<in>set (steps request). st_capability_ref s \<noteq> Some ''llm.route'')"
proof -
  have "length ss \<le> sum_list (map (\<lambda>s. unat (step_cost s)) ss)" for ss
    by (induction ss) (auto simp: step_cost_cases)
  then have "sum_list (map (\<lambda>s. unat (step_cost s)) ss) = length ss \<longleftrightarrow>
      (\<forall>s\<in>set ss. st_capability_ref s \<noteq> Some ''llm.route'')" for ss
  proof (induction ss)
    case (Cons s ss)
    have "length ss \<le> sum_list (map (\<lambda>s. unat (step_cost s)) ss)" by (rule Cons.prems)
    with Cons.IH [OF Cons.prems] show ?case by (auto simp: step_cost_cases)
  qed simp
  then show ?thesis by (simp add: plan_cost_def)
qed

lemma foldl_costs:
  fixes a :: u64
  assumes "unat a + sum_list (map unat cs) < 2 ^ 64"
  shows "\<exists>t. foldl (\<lambda>acc c. and_then acc (\<lambda>a. checked_plus oc a c)) (Ok a) cs = Ok t \<and>
     unat t = unat a + sum_list (map unat cs)"
  using assms
proof (induction cs arbitrary: a)
  case (Cons c cs)
  then have c: "checked_plus oc a c = Ok (a + c)" "unat (a + c) = unat a + unat c"
    by (simp_all add: checked_plus_def unat_plus_no_overflow)
  with Cons.prems have "unat (a + c) + sum_list (map unat cs) < 2 ^ 64" by simp
  from Cons.IH [OF this] c show ?case by (simp add: add.assoc)
qed simp

lemma run_cost:
  assumes "2 * length (steps request) < 2 ^ 64" and "run_plan oc registry request = (Ok outs, caps)"
  shows "\<exists>total. sum_costs oc (map so_cost_units outs) = Ok total \<and> unat total = plan_cost request"
proof -
  have "map so_cost_units outs = map step_cost (by_priority (steps request))"
    by (rule run_plan_costs [OF _ assms(2)]) (use assms(1) in simp)
  then have "sum_list (map unat (map so_cost_units outs)) = plan_cost request"
    using sum_list_sort_key [of "\<lambda>s. unat (step_cost s)" _ "steps request"]
    by (simp add: plan_cost_def by_priority_def o_def)
  with foldl_costs [of 0 "map so_cost_units outs" oc] plan_cost_bounds [of request] assms(1)
  show ?thesis by (simp add: sum_costs_def)
qed

section \<open>Reservation, consumption\<close>

lemma units_nat: "length (steps request) < 2 ^ 64 \<Longrightarrow> unat (units request) = length (steps request)"
  by (simp add: units_def unat_of_nat)

definition account_after_reserve :: "Accounts \<Rightarrow> TrustedExecutionRequest \<Rightarrow> Accounts" where
  "account_after_reserve m request =
     snd (mem_reserve m (budget_id request) (tenant request) (units request))"

lemma account_after_reserve_effect:
  "mem_budget.reserved (account_after_reserve m request) (budget_id request) =
     saturating_add (mem_budget.reserved m (budget_id request)) (units request)"
  "mem_budget.consumed (account_after_reserve m request) (budget_id request) =
     mem_budget.consumed m (budget_id request)"
  "account_after_reserve m request (budget_id request) \<noteq> None"
  "x \<noteq> budget_id request \<Longrightarrow> account_after_reserve m request x = m x"
proof -
  from mem_budget.reserve_effect [of m "budget_id request" "tenant request" "units request"] obtain m' where
    m': "mem_reserve m (budget_id request) (tenant request) (units request) = (Ok (), m')"
    "m' (budget_id request) \<noteq> None"
    "mem_budget.reserved m' (budget_id request) =
       saturating_add (mem_budget.reserved m (budget_id request)) (units request)"
    "mem_budget.consumed m' (budget_id request) = mem_budget.consumed m (budget_id request)"
    "\<forall>x. x \<noteq> budget_id request \<longrightarrow> m' x = m x"
    by auto
  then show "mem_budget.reserved (account_after_reserve m request) (budget_id request) =
     saturating_add (mem_budget.reserved m (budget_id request)) (units request)"
    "mem_budget.consumed (account_after_reserve m request) (budget_id request) =
     mem_budget.consumed m (budget_id request)"
    "account_after_reserve m request (budget_id request) \<noteq> None"
    "x \<noteq> budget_id request \<Longrightarrow> account_after_reserve m request x = m x"
    by (simp_all add: account_after_reserve_def)
qed

lemma mem_consume_Ok:
  assumes "mem_consume m a n = (Ok (), m')"
  shows "n \<le> mem_budget.reserved m a \<and> mem_budget.reserved m' a = mem_budget.reserved m a - n \<and>
     mem_budget.consumed m' a = saturating_add (mem_budget.consumed m a) n \<and>
     (\<forall>x. x \<noteq> a \<longrightarrow> m' x = m x)"
  using assms
  by (auto simp: mem_consume_def mem_budget.reserved_def mem_budget.consumed_def
      split: option.splits if_splits)

section \<open>The governor gets back what was reserved\<close>

lemma roll_back_governor: "ks_governor (snd (snd (roll_back self rec answer sm st))) = ks_governor st"
  using roll_back_state [of self rec answer sm st] by auto

lemma verifying_governor:
  assumes "sm_state sm = Verifying"
  shows "ks_governor (snd (snd (verifying self request rec sm st))) = ks_governor st"
  using verifying_state [OF assms, of self request rec st] by auto

lemma settling_governor:
  assumes "sm_state sm = RecordingEvidence"
  shows "ks_governor (snd (snd (settling oc self request ids recs sm st))) = ks_governor st"
proof (cases "sum_costs oc (map sr_cost_units recs)")
  case cost: (Inr total)
  show ?thesis
  proof (cases "budget_consume self (ks_budget st) (budget_id request) total")
    case (Pair r bd)
    with cost assms show ?thesis
      by (cases r) (simp_all add: settling_def verifying_governor)
  qed
qed (simp add: settling_def)

lemma recording_governor:
  assumes "sm_state sm = RecordingEvidence"
  shows "ks_governor (snd (snd (recording oc self clock request outs sm st))) = ks_governor st"
proof (cases "evidence_append self (ks_evidence st) (context_evidence self request (clock (ks_ticks st)))")
  case append: (Pair r ev)
  let ?st = "st\<lparr> ks_evidence := ev, ks_ticks := ks_ticks st + 1 \<rparr>"
  let ?c = "context_evidence self request (clock (ks_ticks st))"
  obtain r2 st2 where rec:
    "record_outputs self clock request outs (ev_record_hash ?c) [ev_record_id ?c] [] ?st = (r2, st2)"
    by fastforce
  have "ks_governor st2 = ks_governor st" using record_outputs_frame [OF rec] by simp
  then show ?thesis
    using append rec
    by (cases r; cases r2) (simp_all add: recording_def settling_governor [OF assms] split: prod.splits)
qed

lemma executing_governor:
  assumes "sm_state sm = Executing"
  shows "ks_governor (snd (snd (executing oc self clock request sm st))) = ks_governor st"
proof (cases "run_plan oc (ks_capabilities st) request")
  case (Pair r caps)
  show ?thesis
  proof (cases r)
    case (Inl e)
    with Pair assms show ?thesis
      by (cases e) (simp_all add: executing_def Let_def roll_back_governor)
  qed (use Pair assms in \<open>simp add: executing_def recording_governor\<close>)
qed

lemma reserved_run_governor:
  assumes "sm_state sm = Enforcing"
  shows "ks_governor (snd (snd (reserved_run oc self clock request sm st))) = ks_governor st"
proof (cases "budget_reserve self (ks_budget st) (budget_id request)
    (id_tenant_id (rq_identity request)) (of_nat (length (steps request)))")
  case (Pair r bd)
  show ?thesis
  proof (cases r)
    case (Inl e)
    with Pair assms show ?thesis
      by (cases e) (simp_all add: reserved_run_def gate_def)
  qed (use Pair assms in \<open>simp add: reserved_run_def executing_governor\<close>)
qed

text \<open>What the governor is left with: what its reservation made of it, released again when it was granted.\<close>

lemma execute_governor_outcome:
  assumes "governor_acquire self (ks_governor st) (requirement request) = (r, gv)"
  shows "ks_governor (snd (snd (execute oc h self clock request st))) =
    (if admitted self request \<and> enforced h self request
     then (case r of Inl e \<Rightarrow> gv | Inr u \<Rightarrow> governor_return self gv (requirement request))
     else ks_governor st)"
proof (cases "admitted self request \<and> enforced h self request")
  case False
  from execute_refused [OF this, of oc clock st] False show ?thesis by auto
next
  case True
  let ?sm = "\<lparr> sm_state = Enforcing \<rparr>"
  from True have run: "execute oc h self clock request st =
      with_reservation self (requirement request) ?sm st (reserved_run oc self clock request ?sm)"
    by (simp add: execute_passed requirement_def)
  show ?thesis
  proof (cases r)
    case (Inl e)
    with assms run True show ?thesis by (cases e) (simp_all add: with_reservation_def)
  next
    case (Inr u)
    with assms run True reserved_run_governor [of ?sm oc self clock request "st\<lparr> ks_governor := gv \<rparr>"]
    show ?thesis by (simp add: with_reservation_def split: prod.splits)
  qed
qed

context resource_governor
begin

lemma execute_governor:
  assumes "governor_acquire self = reserve" and "governor_return self = release"
    and "fst (reserve (ks_governor st) (requirement request)) \<noteq> Inl Panicked"
  shows "ks_governor (snd (snd (execute oc h self clock request st))) = ks_governor st"
proof -
  obtain r gv where acq: "reserve (ks_governor st) (requirement request) = (r, gv)" by fastforce
  have "(case r of Inl e \<Rightarrow> gv | Inr u \<Rightarrow> release gv (requirement request)) = ks_governor st"
  proof (cases r)
    case (Inl e)
    with acq assms(3) show ?thesis by (cases e) (auto dest: refuse)
  qed (use acq in \<open>auto dest: undo\<close>)
  with execute_governor_outcome [of self st request r gv oc h clock, unfolded assms(1,2), OF acq] show ?thesis
    by simp
qed

end

section \<open>When a run completes, and when it stops after recording\<close>

lemma settling_completes:
  assumes "sum_costs oc (map sr_cost_units recs) = Ok tot"
    and "budget_consume self (ks_budget st) (budget_id request) tot = (Ok (), bd)"
    and "vs_validate_output (rq_verification_spec request) \<longrightarrow>
           result_validator self (completed_record self request ids recs) = Ok ()"
    and "learning_gate self (completed_record self request ids recs) = Ok ()"
  shows "settling oc self request ids recs \<lparr> sm_state = RecordingEvidence \<rparr> st =
     (Ok (completed_record self request ids recs), \<lparr> sm_state = Completed \<rparr>, st\<lparr> ks_budget := bd \<rparr>)"
  using assms by (cases "vs_validate_output (rq_verification_spec request)")
    (simp_all add: settling_def verifying_def checked_or_rolled_back_def Let_def)

lemma settling_unfunded:
  assumes "sum_costs oc (map sr_cost_units recs) = Ok tot"
    and "budget_consume self (ks_budget st) (budget_id request) tot = (Inl e, bd)"
  shows "settling oc self request ids recs sm st = (Inl e, sm, st\<lparr> ks_budget := bd \<rparr>)"
  using assms by (simp add: settling_def)

context kernel_contract
begin

lemma mediated_run_completes:
  assumes "mediated oc h self request st"
    and "einv (ks_evidence st)" "binv (ks_budget st)"
    and "valid_id (budget_id request)" "valid_id (tenant request)"
    and "length (steps request) < 2 ^ 64"
    and run: "run_plan oc (ks_capabilities st) request = (Ok outs, caps)"
    and store: "list_all storable (evidence_chain self clock request outs (ks_ticks st))"
    and "sum_costs oc (map so_cost_units outs) = Ok tot"
    and "tot \<le> saturating_add (budget.reserved (ks_budget st) (budget_id request)) (units request)"
    and rec: "rec = completed_record self request
           (map ev_record_id (evidence_chain self clock request outs (ks_ticks st)))
           (step_records_of self clock request outs (ks_ticks st + 1))"
    and "vs_validate_output (rq_verification_spec request) \<longrightarrow> result_validator self rec = Ok ()"
    and "learning_gate self rec = Ok ()"
  shows "\<exists>st'. execute oc h self clock request st = (Ok rec, \<lparr> sm_state = Completed \<rparr>, st')"
proof -
  obtain r sm st' where ex: "execute oc h self clock request st = (r, sm, st')"
    by (metis prod_cases3)
  have "list_all storable (evidence_chain self clock request outs' (ks_ticks st))"
    if "run_plan oc (ks_capabilities st) request = (Ok outs', caps')" for outs' caps'
    using that run store by simp
  note facts = executed_run [OF ex assms(1-6) this]
  obtain outs' caps' ev bd gv where ran:
    "run_plan oc (ks_capabilities st) request = (Ok outs', caps')"
    "binv bd" "snapshot bd =
       snd (mem_reserve (snapshot (ks_budget st)) (budget_id request) (tenant request) (units request))"
    "(r, sm, st') = released self request (settling oc self request
       (map ev_record_id (evidence_chain self clock request outs' (ks_ticks st)))
       (step_records_of self clock request outs' (ks_ticks st + 1)) \<lparr> sm_state = RecordingEvidence \<rparr>
       ((after_run st gv bd caps')\<lparr> ks_evidence := ev, ks_ticks := ks_ticks st + 1 + 2 * length outs' \<rparr>))"
    by (rule facts) blast
  have outs: "outs' = outs" using ran(1) run by simp
  have "snapshot bd (budget_id request) \<noteq> None"
    "budget.reserved bd (budget_id request) =
       saturating_add (budget.reserved (ks_budget st) (budget_id request)) (units request)"
    by (auto simp: budget.reserved_def ran(3) mem_reserve_def entry_or_insert_def fresh_account_def
        Let_def split: option.splits)
  with budget.consume_effect [OF ran(2) assms(4)] assms(10) obtain bd2 where
    "budget_consume self bd (budget_id request) tot = (Ok (), bd2)"
    by metis
  then have "settling oc self request
      (map ev_record_id (evidence_chain self clock request outs (ks_ticks st)))
      (step_records_of self clock request outs (ks_ticks st + 1)) \<lparr> sm_state = RecordingEvidence \<rparr>
      ((after_run st gv bd caps')\<lparr> ks_evidence := ev, ks_ticks := ks_ticks st + 1 + 2 * length outs' \<rparr>) =
      (Ok rec, \<lparr> sm_state = Completed \<rparr>, ((after_run st gv bd caps')\<lparr> ks_evidence := ev,
         ks_ticks := ks_ticks st + 1 + 2 * length outs' \<rparr>)\<lparr> ks_budget := bd2 \<rparr>)"
    unfolding rec using assms(9,12,13)
    by (intro settling_completes) (simp_all add: after_run_def rec)
  with ran(4) outs ex show ?thesis by simp
qed

lemma unfunded_run_stops:
  assumes "mediated oc h self request st"
    and "einv (ks_evidence st)" "binv (ks_budget st)"
    and "valid_id (budget_id request)" "valid_id (tenant request)"
    and "length (steps request) < 2 ^ 64"
    and run: "run_plan oc (ks_capabilities st) request = (Ok outs, caps)"
    and store: "list_all storable (evidence_chain self clock request outs (ks_ticks st))"
    and "sum_costs oc (map so_cost_units outs) = Ok tot"
    and "saturating_add (budget.reserved (ks_budget st) (budget_id request)) (units request) < tot"
  shows "\<exists>st'. execute oc h self clock request st =
      (Err ''insufficient reserved budget'', \<lparr> sm_state = RecordingEvidence \<rparr>, st') \<and>
    records (ks_evidence st') =
      records (ks_evidence st) @ evidence_chain self clock request outs (ks_ticks st) \<and>
    ks_recovery st' = ks_recovery st \<and>
    snapshot (ks_budget st') =
      snd (mem_reserve (snapshot (ks_budget st)) (budget_id request) (tenant request) (units request))"
proof -
  obtain r sm st' where ex: "execute oc h self clock request st = (r, sm, st')"
    by (metis prod_cases3)
  have "list_all storable (evidence_chain self clock request outs' (ks_ticks st))"
    if "run_plan oc (ks_capabilities st) request = (Ok outs', caps')" for outs' caps'
    using that run store by simp
  note facts = executed_run [OF ex assms(1-6) this]
  obtain outs' caps' ev bd gv where ran:
    "run_plan oc (ks_capabilities st) request = (Ok outs', caps')"
    "binv bd" "snapshot bd =
       snd (mem_reserve (snapshot (ks_budget st)) (budget_id request) (tenant request) (units request))"
    "records ev = records (ks_evidence st) @ evidence_chain self clock request outs' (ks_ticks st)"
    "(r, sm, st') = released self request (settling oc self request
       (map ev_record_id (evidence_chain self clock request outs' (ks_ticks st)))
       (step_records_of self clock request outs' (ks_ticks st + 1)) \<lparr> sm_state = RecordingEvidence \<rparr>
       ((after_run st gv bd caps')\<lparr> ks_evidence := ev, ks_ticks := ks_ticks st + 1 + 2 * length outs' \<rparr>))"
    by (rule facts) blast
  have outs: "outs' = outs" using ran(1) run by simp
  have "snapshot bd (budget_id request) \<noteq> None"
    "budget.reserved bd (budget_id request) =
       saturating_add (budget.reserved (ks_budget st) (budget_id request)) (units request)"
    by (auto simp: budget.reserved_def ran(3) mem_reserve_def entry_or_insert_def fresh_account_def
        Let_def split: option.splits)
  with budget.consume_refused [OF ran(2) assms(4)] assms(10) obtain bd2 where bd2:
    "budget_consume self bd (budget_id request) tot = (Err ''insufficient reserved budget'', bd2)"
    "snapshot bd2 = snapshot bd"
    by metis
  let ?st = "(after_run st gv bd caps')\<lparr> ks_evidence := ev, ks_ticks := ks_ticks st + 1 + 2 * length outs' \<rparr>"
  have "settling oc self request
      (map ev_record_id (evidence_chain self clock request outs (ks_ticks st)))
      (step_records_of self clock request outs (ks_ticks st + 1)) \<lparr> sm_state = RecordingEvidence \<rparr> ?st =
      (Err ''insufficient reserved budget'', \<lparr> sm_state = RecordingEvidence \<rparr>, ?st\<lparr> ks_budget := bd2 \<rparr>)"
    using assms(9) bd2(1) by (intro settling_unfunded) (simp_all add: after_run_def)
  with ran(3,4,5) outs ex bd2(2) show ?thesis by (simp add: after_run_def)
qed

lemma failed_run_rolls_back:
  assumes "admitted self request" "enforced h self request"
    and acq: "governor_acquire self (ks_governor st) (requirement request) = (Ok (), gv)"
    and "binv (ks_budget st)" "valid_id (budget_id request)" "valid_id (tenant request)"
    and "run_plan oc (ks_capabilities st) request = (Err m, caps)"
    and "recovery_recover self (ks_recovery st)
           ((empty_record request ''Failed'')\<lparr> er_final_output := Some m \<rparr>) = (Ok (), rc)"
  shows "\<exists>st'. execute oc h self clock request st =
      (Ok ((empty_record request ''RolledBack'')\<lparr> er_final_output := Some m \<rparr>),
       \<lparr> sm_state = RolledBack \<rparr>, st') \<and>
    ks_evidence st' = ks_evidence st \<and> ks_governor st' = ks_governor st \<and> ks_recovery st' = rc \<and>
    snapshot (ks_budget st') =
      snd (mem_reserve (snapshot (ks_budget st)) (budget_id request) (tenant request) (units request))"
proof -
  from budget.reserve_sim [OF assms(4-6), of "units request"] obtain bd where bd:
    "budget_reserve self (ks_budget st) (budget_id request) (tenant request) (units request) = (Ok (), bd)"
    "snapshot bd = snd (mem_reserve (snapshot (ks_budget st)) (budget_id request) (tenant request)
       (units request))"
    by (auto simp: mem_reserve_def Let_def)
  have "(empty_record request ''Failed'')\<lparr> er_final_output := x, er_final_status := ''RolledBack'' \<rparr> =
      (empty_record request ''RolledBack'')\<lparr> er_final_output := x \<rparr>" for x
    by (simp add: empty_record_def)
  then show ?thesis
    using execute_executes [OF assms(1-3) bd(1), of oc clock] assms(7,8) bd(2) governor.undo [OF acq]
    by (simp add: executing_def roll_back_def)
qed

end

end
