(* ===== verification/Sigstore.thy ===== *)
theory Sigstore
  imports Trust Samples
begin

text \<open>
  The Sigstore admission verifier of \<^verbatim>\<open>NoumenonCore/src/admission_sigstore.rs\<close>. The
  \<^verbatim>\<open>CommandRunner\<close> trait is a function with a state of its own; what \<^verbatim>\<open>cosign\<close> answers is
  its business. SHA-256 and the hex encoding are arguments.
\<close>

record SigstoreAdmissionConfig =
  sg_cosign_path :: string
  sg_require_tlog_inclusion :: bool

definition default_sigstore_config :: SigstoreAdmissionConfig where
  "default_sigstore_config = \<lparr> sg_cosign_path = ''cosign'', sg_require_tlog_inclusion = True \<rparr>"

record CommandOutput =
  co_status :: "32 word"
  co_stdout :: string
  co_stderr :: string

type_synonym 'r runner = "'r \<Rightarrow> string \<Rightarrow> string list \<Rightarrow> CommandOutput result \<times> 'r"

text \<open>A fallible call followed by the rest, \<^verbatim>\<open>?\<close>, with the runner's state.\<close>

definition bind_run :: "'a result \<times> 'r \<Rightarrow> ('a \<Rightarrow> 'r \<Rightarrow> 'b result \<times> 'r) \<Rightarrow> 'b result \<times> 'r" where
  "bind_run m k = (case m of (Inl e, r) \<Rightarrow> (Inl e, r) | (Inr x, r) \<Rightarrow> k x r)"

definition context_run :: "string \<Rightarrow> 'a result \<times> 'r \<Rightarrow> 'a result \<times> 'r" where
  "context_run msg m = (case m of (x, r) \<Rightarrow> (with_context msg x, r))"

definition show_i32 :: "32 word \<Rightarrow> string" where
  "show_i32 w = (if sint w < 0 then CHR ''-'' # show_nat (nat (- sint w)) else show_nat (nat (sint w)))"

section \<open>Checks on the request\<close>

definition verify_policy_pin :: "TrustedExecutionRequest \<Rightarrow> unit result" where
  "verify_policy_pin request =
     (if cs_policy_refs (rq_constraints request) = [] then Err ''missing pinned policy refs''
      else if \<not> list_ex (\<lambda>p. p = sc_policy_bundle_digest (rq_supply_chain request))
                 (cs_policy_refs (rq_constraints request))
      then Err ''policy bundle digest is not pinned in constraints''
      else Ok ())"

definition verify_rekor_evidence_fields :: "TrustedExecutionRequest \<Rightarrow> unit result" where
  "verify_rekor_evidence_fields request =
     (if sc_rekor_log_ref (rq_supply_chain request) = [] then Err ''missing Rekor log reference''
      else if sc_rekor_inclusion_proof (rq_supply_chain request) = []
      then Err ''missing Rekor inclusion proof''
      else Ok ())"

definition rekor_url :: "TrustedExecutionRequest \<Rightarrow> string" where
  "rekor_url request =
     (if sc_rekor_url (rq_supply_chain request) = [] then ''https://rekor.sigstore.dev''
      else sc_rekor_url (rq_supply_chain request))"

definition digest_token :: "string \<Rightarrow> string option" where
  "digest_token artifact_ref =
     (let trimmed = trim artifact_ref
      in if trimmed = [] then None
         else case rfind_char trimmed (CHR ''@'') of
           Some idx \<Rightarrow> Some (trim (drop (idx + 1) trimmed))
         | None \<Rightarrow>
             (case find_str trimmed ''sha256:'' of
                Some idx \<Rightarrow> Some (trim (drop idx trimmed))
              | None \<Rightarrow> Some trimmed))"

definition expected_token :: "string \<Rightarrow> string" where
  "expected_token artifact_ref =
     (case digest_token artifact_ref of Some t \<Rightarrow> t | None \<Rightarrow> trim artifact_ref)"

definition verify_signature_output_binding :: "string \<Rightarrow> string \<Rightarrow> unit result" where
  "verify_signature_output_binding artifact_ref stdout =
     (if trim stdout = [] then Err ''empty signature verification output''
      else if \<not> contains stdout (expected_token artifact_ref)
      then Err (''verification output does not contain artifact digest token: '' @
                expected_token artifact_ref)
      else Ok ())"

section \<open>Calls of cosign\<close>

definition run_cosign ::
  "SigstoreAdmissionConfig \<Rightarrow> 'r runner \<Rightarrow> string list \<Rightarrow> 'r \<Rightarrow> string result \<times> 'r" where
  "run_cosign self run args r =
     bind_run (context_run (''failed to execute cosign: '' @ join '' '' args)
                 (run r (sg_cosign_path self) args))
       (\<lambda>out r. (if co_status out = 0 then Ok (co_stdout out)
                 else Err (''cosign exited with status '' @ show_i32 (co_status out) @ '': '' @
                           co_stderr out), r))"

definition tlog_args :: "SigstoreAdmissionConfig \<Rightarrow> string list" where
  "tlog_args self = (if sg_require_tlog_inclusion self then [''--insecure-ignore-tlog=false''] else [])"

definition identity_args :: "TrustedExecutionRequest \<Rightarrow> string list" where
  "identity_args request =
     [''--output'', ''json'', ''--rekor-url'', rekor_url request,
      ''--certificate-identity'', sc_signer_identity_ref (rq_supply_chain request),
      ''--certificate-oidc-issuer'', sc_signer_oidc_issuer (rq_supply_chain request)]"

definition signature_args ::
  "SigstoreAdmissionConfig \<Rightarrow> TrustedExecutionRequest \<Rightarrow> string \<Rightarrow> string list" where
  "signature_args self request artifact_ref =
     [''verify'', artifact_ref] @ identity_args request @ tlog_args self"

definition verify_artifact_signature ::
  "SigstoreAdmissionConfig \<Rightarrow> 'r runner \<Rightarrow> TrustedExecutionRequest \<Rightarrow> string \<Rightarrow> string \<Rightarrow> 'r \<Rightarrow>
     unit result \<times> 'r" where
  "verify_artifact_signature self run request artifact_ref label r =
     (if artifact_ref = [] then (Err (''missing artifact reference for '' @ label), r)
      else bind_run (context_run (''signature verification failed for '' @ label)
               (run_cosign self run (signature_args self request artifact_ref) r))
             (\<lambda>stdout r.
               (with_context (''signature output missing expected digest for '' @ label)
                  (verify_signature_output_binding artifact_ref stdout), r)))"

definition provenance_type :: "TrustedExecutionRequest \<Rightarrow> string" where
  "provenance_type request =
     (if sc_provenance_type (rq_supply_chain request) = [] then ''slsaprovenance''
      else sc_provenance_type (rq_supply_chain request))"

definition provenance_args ::
  "SigstoreAdmissionConfig \<Rightarrow> TrustedExecutionRequest \<Rightarrow> string list" where
  "provenance_args self request =
     [''verify-attestation'', sc_executor_digest (rq_supply_chain request),
      ''--type'', provenance_type request] @ identity_args request @ tlog_args self"

definition verify_provenance ::
  "(string \<Rightarrow> string) \<Rightarrow> (string \<Rightarrow> string) \<Rightarrow> SigstoreAdmissionConfig \<Rightarrow> 'r runner \<Rightarrow>
     TrustedExecutionRequest \<Rightarrow> 'r \<Rightarrow> unit result \<times> 'r" where
  "verify_provenance sha256 henc self run request r =
     (if sc_provenance_digest (rq_supply_chain request) = [] then (Err ''missing provenance digest'', r)
      else bind_run (context_run ''provenance attestation verification failed''
               (run_cosign self run (provenance_args self request) r))
        (\<lambda>stdout r.
          (let expected = trim (sc_provenance_digest (rq_supply_chain request));
               output_hash = sha256_digest_hex sha256 henc stdout;
               output_hash_prefixed = ''sha256:'' @ output_hash
           in if \<not> contains stdout expected \<and> expected \<noteq> output_hash \<and> expected \<noteq> output_hash_prefixed
              then Err (''provenance digest mismatch: expected='' @ expected @
                        '' output_sha256='' @ output_hash)
              else if \<not> contains stdout (trim (sc_rekor_log_ref (rq_supply_chain request))) \<and>
                      \<not> contains stdout (trim (sc_rekor_inclusion_proof (rq_supply_chain request)))
              then Err (''provenance output missing Rekor binding: ref='' @
                        sc_rekor_log_ref (rq_supply_chain request) @ '' proof='' @
                        sc_rekor_inclusion_proof (rq_supply_chain request))
              else Ok (), r)))"

definition sigstore_verify_admission ::
  "(string \<Rightarrow> string) \<Rightarrow> (string \<Rightarrow> string) \<Rightarrow> SigstoreAdmissionConfig \<Rightarrow> 'r runner \<Rightarrow>
     TrustedExecutionRequest \<Rightarrow> 'r \<Rightarrow> unit result \<times> 'r" where
  "sigstore_verify_admission sha256 henc self run request r =
     bind_run (verify_policy_pin request, r) (\<lambda>_ r.
     bind_run (verify_rekor_evidence_fields request, r) (\<lambda>_ r.
     bind_run (verify_artifact_signature self run request
       (sc_executor_digest (rq_supply_chain request)) ''executor'' r) (\<lambda>_ r.
     bind_run (verify_artifact_signature self run request
       (sc_verifier_digest (rq_supply_chain request)) ''verifier'' r) (\<lambda>_ r.
     bind_run (verify_artifact_signature self run request
       (sc_capability_package_digest (rq_supply_chain request)) ''capability package'' r) (\<lambda>_ r.
     bind_run (verify_artifact_signature self run request
       (sc_policy_bundle_digest (rq_supply_chain request)) ''policy bundle'' r) (\<lambda>_ r.
     verify_provenance sha256 henc self run request r))))))"

section \<open>What admission demands\<close>

text \<open>A runner whose answers depend on the command only, with the log of the commands run.\<close>

type_synonym log = "(string \<times> string list) list"

definition logged :: "(string \<Rightarrow> string list \<Rightarrow> CommandOutput result) \<Rightarrow> log runner" where
  "logged cosign l program args = (cosign program args, l @ [(program, args)])"

text \<open>The output of a successful run.\<close>

definition succeeded ::
  "SigstoreAdmissionConfig \<Rightarrow> (string \<Rightarrow> string list \<Rightarrow> CommandOutput result) \<Rightarrow> string list \<Rightarrow>
     string option" where
  "succeeded self cosign args =
     (case cosign (sg_cosign_path self) args of
        Inl _ \<Rightarrow> None
      | Inr out \<Rightarrow> if co_status out = 0 then Some (co_stdout out) else None)"

definition signed ::
  "SigstoreAdmissionConfig \<Rightarrow> (string \<Rightarrow> string list \<Rightarrow> CommandOutput result) \<Rightarrow>
     TrustedExecutionRequest \<Rightarrow> string \<Rightarrow> bool" where
  "signed self cosign request ref \<longleftrightarrow> ref \<noteq> [] \<and>
     (case succeeded self cosign (signature_args self request ref) of
        None \<Rightarrow> False
      | Some stdout \<Rightarrow> trim stdout \<noteq> [] \<and> contains stdout (expected_token ref))"

definition attested ::
  "(string \<Rightarrow> string) \<Rightarrow> (string \<Rightarrow> string) \<Rightarrow> SigstoreAdmissionConfig \<Rightarrow>
     (string \<Rightarrow> string list \<Rightarrow> CommandOutput result) \<Rightarrow> TrustedExecutionRequest \<Rightarrow> bool" where
  "attested sha256 henc self cosign request \<longleftrightarrow>
     sc_provenance_digest (rq_supply_chain request) \<noteq> [] \<and>
     (case succeeded self cosign (provenance_args self request) of
        None \<Rightarrow> False
      | Some stdout \<Rightarrow>
          (let expected = trim (sc_provenance_digest (rq_supply_chain request));
               output_hash = sha256_digest_hex sha256 henc stdout
           in (contains stdout expected \<or> expected \<in> {output_hash, ''sha256:'' @ output_hash}) \<and>
              (contains stdout (trim (sc_rekor_log_ref (rq_supply_chain request))) \<or>
               contains stdout (trim (sc_rekor_inclusion_proof (rq_supply_chain request))))))"

definition artifacts :: "TrustedExecutionRequest \<Rightarrow> string list" where
  "artifacts request =
     (let sc = rq_supply_chain request
      in [sc_executor_digest sc, sc_verifier_digest sc, sc_capability_package_digest sc,
          sc_policy_bundle_digest sc])"

definition commands :: "SigstoreAdmissionConfig \<Rightarrow> TrustedExecutionRequest \<Rightarrow> log" where
  "commands self request =
     map (\<lambda>args. (sg_cosign_path self, args))
       (map (signature_args self request) (artifacts request) @ [provenance_args self request])"

lemma bind_run_Ok:
  "bind_run m k = (Inr y, r') \<longleftrightarrow> (\<exists>x r. m = (Inr x, r) \<and> k x r = (Inr y, r'))"
  by (cases m; cases "fst m") (auto simp: bind_run_def)

lemma context_run_Ok: "context_run msg m = (Inr y, r') \<longleftrightarrow> m = (Inr y, r')"
  by (cases m) (auto simp: context_run_def with_context_Ok_iff)

lemma run_cosign_Ok:
  "run_cosign self (logged cosign) args l = (Inr stdout, l') \<longleftrightarrow>
     succeeded self cosign args = Some stdout \<and> l' = l @ [(sg_cosign_path self, args)]"
  by (auto simp: run_cosign_def bind_run_Ok context_run_Ok logged_def succeeded_def
      split: sum.splits if_splits)

lemma verify_policy_pin_Ok: "verify_policy_pin request = Inr u \<longleftrightarrow> policy_pinned request"
  by (auto simp: verify_policy_pin_def policy_pinned_def list_ex_iff)

lemma verify_rekor_Ok:
  "verify_rekor_evidence_fields request = Inr u \<longleftrightarrow>
     sc_rekor_log_ref (rq_supply_chain request) \<noteq> [] \<and>
     sc_rekor_inclusion_proof (rq_supply_chain request) \<noteq> []"
  by (simp add: verify_rekor_evidence_fields_def)

lemma verify_signature_output_binding_Ok:
  "verify_signature_output_binding ref stdout = Inr u \<longleftrightarrow>
     trim stdout \<noteq> [] \<and> contains stdout (expected_token ref)"
  by (simp add: verify_signature_output_binding_def)

lemma verify_artifact_signature_Ok:
  "verify_artifact_signature self (logged cosign) request ref label l = (Inr u, l') \<longleftrightarrow>
     signed self cosign request ref \<and>
     l' = l @ [(sg_cosign_path self, signature_args self request ref)]"
  by (cases "succeeded self cosign (signature_args self request ref)")
    (auto simp: verify_artifact_signature_def signed_def bind_run_Ok context_run_Ok run_cosign_Ok
      with_context_Ok_iff verify_signature_output_binding_Ok)

lemma verify_provenance_Ok:
  "verify_provenance sha256 henc self (logged cosign) request l = (Inr u, l') \<longleftrightarrow>
     attested sha256 henc self cosign request \<and>
     l' = l @ [(sg_cosign_path self, provenance_args self request)]"
  by (cases "succeeded self cosign (provenance_args self request)")
    (auto simp: verify_provenance_def attested_def bind_run_Ok context_run_Ok run_cosign_Ok Let_def)

section \<open>Properties\<close>

text \<open>
  C16: The Sigstore verifier admits a request exactly when the policy bundle is pinned, the
  Rekor fields are present, cosign succeeds for each of the four artifacts with an output that
  names the artifact's digest token, and the provenance attestation succeeds with an output
  bound to the declared provenance digest and to a Rekor reference; and then it has run exactly
  the five commands, in that order.
\<close>

theorem sigstore_admits_iff_verified:
  "sigstore_verify_admission sha256 henc self (logged cosign) request l = (Ok (), l') \<longleftrightarrow>
     policy_pinned request \<and>
     sc_rekor_log_ref (rq_supply_chain request) \<noteq> [] \<and>
     sc_rekor_inclusion_proof (rq_supply_chain request) \<noteq> [] \<and>
     list_all (signed self cosign request) (artifacts request) \<and>
     attested sha256 henc self cosign request \<and>
     l' = l @ commands self request"
  unfolding sigstore_verify_admission_def
  by (auto simp: bind_run_Ok verify_policy_pin_Ok verify_rekor_Ok verify_artifact_signature_Ok
      verify_provenance_Ok artifacts_def commands_def Let_def)

text \<open>
  The digest binding can be empty: an artifact reference that ends with \<^verbatim>\<open>@\<close> (as an OCI
  reference whose digest is missing) has the empty digest token, so every nonblank output of
  cosign is accepted as naming it.
\<close>

lemma dangling_reference_binds_nothing:
  assumes "graphic (hd (ref @ ''@''))" and "trim stdout \<noteq> []"
  shows "verify_signature_output_binding (ref @ ''@'') stdout = Ok ()"
proof -
  have "graphic (CHR ''@'')" by (simp add: graphic_def byte_def)
  then have "trim (ref @ ''@'') = ref @ ''@''"
    using assms(1) by (intro trim_graphic) simp_all
  moreover have "rfind_char (ref @ ''@'') (CHR ''@'') = Some (length ref)"
    by (induction ref) simp_all
  ultimately have "expected_token (ref @ ''@'') = []"
    by (simp add: expected_token_def digest_token_def)
  moreover have "contains stdout []"
    by (simp add: contains_iff_sublist)
  ultimately show ?thesis
    using assms(2) by (simp add: verify_signature_output_binding_def)
qed

lemma dangling_reference_binds_nothing_example:
  "verify_signature_output_binding ''registry/app@'' ''[]'' = Ok ()"
proof -
  have "trim ''[]'' = ''[]''" by (rule trim_graphic) (simp_all add: graphic_def byte_def)
  then show ?thesis
    using dangling_reference_binds_nothing [of "''registry/app''" "''[]''"]
    by (simp add: graphic_def byte_def)
qed

end
