(* ===== verification/Extensions.thy ===== *)
theory Extensions
  imports Execution Ledger
begin

text \<open>
  The kernel's extensions: recovery policies and advice (\<^verbatim>\<open>NoumenonCore/src/evolution.rs\<close>),
  tool orchestration (\<^verbatim>\<open>tooling.rs\<close>), memory notes (\<^verbatim>\<open>memory_evolution.rs\<close>) and the truth
  engine (\<^verbatim>\<open>truth.rs\<close>). The iteration order of a \<^verbatim>\<open>HashSet\<close> or \<^verbatim>\<open>HashMap\<close> is an argument.
\<close>

section \<open>Recovery policies\<close>

definition simple_suggest :: "TrustedExecutionRequest \<Rightarrow> string" where
  "simple_suggest request =
     (if cs_max_runtime_ms (rq_constraints request) > 60000 then ''suggest:reduce-runtime-budget''
      else ''suggest:policy-ok'')"

definition fallback_capability :: "(string \<rightharpoonup> string) \<Rightarrow> string \<Rightarrow> string option" where
  "fallback_capability fallbacks capability = fallbacks capability"

record RecoveryPolicy =
  rp_id :: string
  rp_max_retry :: u8
  rp_rollback_on_fail :: bool

definition policy_line :: "(string \<Rightarrow> string) \<Rightarrow> RecoveryPolicy \<Rightarrow> string" where
  "policy_line henc policy =
     join ''|'' [henc (rp_id policy), show_word (rp_max_retry policy),
                 if rp_rollback_on_fail policy then ''1'' else ''0'']"

definition policy_put ::
  "(string \<Rightarrow> string) \<Rightarrow> LedgerFile \<Rightarrow> RecoveryPolicy \<Rightarrow> unit result \<times> LedgerFile" where
  "policy_put henc f policy = append_to_file f (policy_line henc policy @ [newline])"

text \<open>
  The loop over the lines, the last one first: a line that is not three fields is skipped, one
  whose id cannot be decoded ends the search (\<^verbatim>\<open>ok()?\<close> returns from \<^verbatim>\<open>get\<close>).
\<close>

fun policy_scan :: "(string \<Rightarrow> string option) \<Rightarrow> string \<Rightarrow> string list \<Rightarrow> RecoveryPolicy option" where
  "policy_scan hdec pid [] = None"
| "policy_scan hdec pid (line # rest) =
     (let p = split_on (CHR ''|'') line
      in if length p \<noteq> 3 then policy_scan hdec pid rest
         else case decode_field hdec (p ! 0) of
           None \<Rightarrow> None
         | Some i \<Rightarrow>
             if i = pid then
               (case parse_word (p ! 1) of
                  None \<Rightarrow> None
                | Some n \<Rightarrow> Some \<lparr> rp_id = i, rp_max_retry = n, rp_rollback_on_fail = (p ! 2 = ''1'') \<rparr>)
             else policy_scan hdec pid rest)"

definition policy_get ::
  "(string \<Rightarrow> string option) \<Rightarrow> LedgerFile \<Rightarrow> string \<Rightarrow> RecoveryPolicy option" where
  "policy_get hdec f pid =
     (case read_to_string f of
        Inl _ \<Rightarrow> None
      | Inr content \<Rightarrow> policy_scan hdec pid (rev (lines content)))"

section \<open>Tools\<close>

record ToolRequest =
  tl_tool_name :: string
  tl_input :: string
  tl_workspace :: string

record ToolAdapter =
  ta_name :: string
  ta_invoke :: "ToolRequest \<Rightarrow> string result"

definition virtual_env_tool :: "string \<Rightarrow> string \<Rightarrow> ToolAdapter" where
  "virtual_env_tool tool_name env_name =
     \<lparr> ta_name = tool_name,
       ta_invoke = (\<lambda>request.
         if tl_workspace request = [] then Err ''workspace missing''
         else Ok (''venv='' @ env_name @ '' tool='' @ tl_tool_name request @ '' workspace='' @
                  tl_workspace request @ '' input='' @ tl_input request)) \<rparr>"

type_synonym ToolOrchestrator = "ToolAdapter list"

definition register_tool :: "ToolOrchestrator \<Rightarrow> ToolAdapter \<Rightarrow> ToolOrchestrator" where
  "register_tool self adapter = self @ [adapter]"

definition call_tool :: "ToolOrchestrator \<Rightarrow> ToolRequest \<Rightarrow> string result" where
  "call_tool self request =
     and_then (ok_or (find (\<lambda>a. ta_name a = tl_tool_name request) self)
                (''tool adapter not found: '' @ tl_tool_name request))
       (\<lambda>adapter. ta_invoke adapter request)"

section \<open>Memory notes\<close>

record MemoryNote =
  mn_id :: string
  mn_content :: string
  mn_context :: string
  mn_tags :: "string list"
  mn_links :: "string list"

type_synonym MemoryStore = "(string \<times> MemoryNote) list"

definition note_upsert :: "MemoryStore \<Rightarrow> MemoryNote \<Rightarrow> MemoryStore" where
  "note_upsert notes note = AList.update (mn_id note) note notes"

definition note_get :: "MemoryStore \<Rightarrow> string \<Rightarrow> MemoryNote option" where
  "note_get notes nid = map_of notes nid"

definition notes_all :: "MemoryStore \<Rightarrow> MemoryNote list" where
  "notes_all notes = map snd notes"

definition notes_by_tag :: "MemoryStore \<Rightarrow> string \<Rightarrow> MemoryNote list" where
  "notes_by_tag notes tag = filter (\<lambda>n. list_ex (\<lambda>t. t = tag) (mn_tags n)) (map snd notes)"

text \<open>\<^verbatim>\<open>str::split_whitespace\<close>: the token read so far is the first argument.\<close>

function split_whitespace_from :: "string \<Rightarrow> string \<Rightarrow> string list" where
  "split_whitespace_from acc [] = (if acc = [] then [] else [acc])"
| "split_whitespace_from acc (c # s) =
     (case strip_prefix_of whitespace (c # s) of
        Some t \<Rightarrow> (if acc = [] then [] else [acc]) @ split_whitespace_from [] t
      | None \<Rightarrow> split_whitespace_from (acc @ [c]) s)"
  by pat_completeness auto
termination
  by (relation "measure (\<lambda>(acc, s). length s)") (auto dest: strip_prefix_of_shorter)

definition token_overlap :: "string \<Rightarrow> string \<Rightarrow> nat" where
  "token_overlap a b =
     card (set (split_whitespace_from [] a) \<inter> set (split_whitespace_from [] b))"

text \<open>\<open>elems\<close> lists a hash set in its iteration order.\<close>

definition merge_notes :: "(string set \<Rightarrow> string list) \<Rightarrow> MemoryNote \<Rightarrow> MemoryNote \<Rightarrow> MemoryNote" where
  "merge_notes elems left right =
     (let tag_set = set (mn_tags left) \<union> set (mn_tags right);
          link_set = insert (mn_id right) (set (mn_links left))
      in \<lparr> mn_id = mn_id right,
           mn_content = mn_content right @ newline # mn_content left,
           mn_context = (if mn_context right = [] then mn_context left else mn_context right),
           mn_tags = elems tag_set,
           mn_links = elems link_set \<rparr>)"

datatype EvolutionAction = Add | Update | Merge

record EvolutionDecision =
  ed_action :: EvolutionAction
  ed_target_id :: "string option"
  ed_evolved :: MemoryNote
  ed_reasoning :: string

text \<open>\<^verbatim>\<open>Iterator::max_by_key\<close>: the last of the greatest elements.\<close>

definition max_by_key :: "('a \<Rightarrow> nat) \<Rightarrow> 'a list \<Rightarrow> 'a option" where
  "max_by_key f xs =
     foldl (\<lambda>best x. case best of None \<Rightarrow> Some x | Some b \<Rightarrow> if f b \<le> f x then Some x else Some b)
       None xs"

definition evolve ::
  "(string set \<Rightarrow> string list) \<Rightarrow> MemoryNote \<Rightarrow> MemoryNote list \<Rightarrow> EvolutionDecision" where
  "evolve elems candidate neighbors =
     (if neighbors = [] then
        \<lparr> ed_action = Add, ed_target_id = None, ed_evolved = candidate,
          ed_reasoning = ''no-neighbor-add'' \<rparr>
      else case max_by_key (\<lambda>n. token_overlap (mn_content candidate) (mn_content n)) neighbors of
        Some target \<Rightarrow>
          (let overlap = token_overlap (mn_content candidate) (mn_content target)
           in if overlap \<ge> 3 then
                \<lparr> ed_action = Merge, ed_target_id = Some (mn_id target),
                  ed_evolved = merge_notes elems candidate target,
                  ed_reasoning = ''merge-overlap='' @ show_nat overlap \<rparr>
              else
                (let updated = (if mn_content candidate \<noteq> [] then
                       target\<lparr> mn_content := mn_content target @ newline # mn_content candidate \<rparr>
                     else target);
                     tag_set = set (mn_tags target) \<union> set (mn_tags candidate);
                     updated = updated\<lparr> mn_tags := elems tag_set \<rparr>
                 in \<lparr> ed_action = Update, ed_target_id = Some (mn_id updated),
                      ed_evolved = updated, ed_reasoning = ''update-nearest-neighbor'' \<rparr>))
      | None \<Rightarrow>
          \<lparr> ed_action = Add, ed_target_id = None, ed_evolved = candidate,
            ed_reasoning = ''fallback-add'' \<rparr>)"

section \<open>The truth engine\<close>

datatype MismatchCategory =
    MissingEvidence | FingerprintMismatch | StepCountMismatch | OutputDrift | Unknown

record ReplayAnalysis =
  ra_matched :: bool
  ra_category :: "MismatchCategory option"
  ra_expected_fingerprint :: string
  ra_actual_fingerprint :: string
  ra_explanation :: string

definition replay_and_classify ::
  "bool \<Rightarrow> (string \<Rightarrow> string) \<Rightarrow> CapabilityRegistry \<Rightarrow> TrustedExecutionRequest \<Rightarrow> string \<Rightarrow>
     ReplayAnalysis result \<times> CapabilityRegistry" where
  "replay_and_classify oc henc registry request expected_fingerprint =
     (case run_plan oc registry request of
        (Inl e, registry') \<Rightarrow> (Inl e, registry')
      | (Inr outputs, registry') \<Rightarrow>
          (let aggregate = concat (map so_output outputs);
               actual = henc aggregate
           in if actual = expected_fingerprint then
                (Ok \<lparr> ra_matched = True, ra_category = None,
                      ra_expected_fingerprint = expected_fingerprint,
                      ra_actual_fingerprint = actual, ra_explanation = ''replay-match'' \<rparr>, registry')
              else
                (let category = (if outputs = [] then MissingEvidence else FingerprintMismatch)
                 in (Ok \<lparr> ra_matched = False, ra_category = Some category,
                          ra_expected_fingerprint = expected_fingerprint,
                          ra_actual_fingerprint = actual, ra_explanation = ''replay-mismatch'' \<rparr>,
                     registry'))))"

section \<open>The policy store is a map whose last put wins\<close>

lemma policy_get_lines: "policy_get hdec f pid = policy_scan hdec pid (rev (file_lines f))"
  by (simp add: policy_get_def file_lines_def split: sum.splits)

lemma policy_line_fields:
  assumes "hex_crate henc hdec"
  shows "split_on (CHR ''|'') (policy_line henc policy) =
     [henc (rp_id policy), show_word (rp_max_retry policy), if rp_rollback_on_fail policy then ''1'' else ''0'']"
proof -
  have "CHR ''|'' \<notin> set (henc (rp_id policy))"
    by (rule hex_digit_not [OF hex_crate_digits [OF assms]])
  moreover have "CHR ''|'' \<notin> set (show_word (rp_max_retry policy))"
    by (rule show_word_no_char) (simp add: byte_def)
  ultimately show ?thesis
    unfolding policy_line_def by (subst split_on_join) auto
qed

lemma policy_line_clean:
  assumes "hex_crate henc hdec"
  shows "clean_line (policy_line henc policy)"
proof -
  have "clean_line ''1''" "clean_line ''0''"
    by (simp_all add: clean_line_def is_ascii_def byte_def newline_def carriage_return_def)
  then show ?thesis
    unfolding policy_line_def
    by (intro clean_join) (simp add: clean_hex [OF assms] clean_number)
qed

lemma policy_scan_line:
  assumes "hex_crate henc hdec" and "utf8_valid (rp_id policy)"
  shows "policy_scan hdec pid (policy_line henc policy # rest) =
     (if pid = rp_id policy then Some policy else policy_scan hdec pid rest)"
  by (cases policy)
    (use assms in \<open>auto simp: policy_line_fields decode_field_encode\<close>)

text \<open>
  The recovery policy store is a map in which the last put wins: on a well-formed file, with
  the hex crate's contract, a put succeeds, and afterwards \<^verbatim>\<open>get\<close> answers the policy for its
  id, and for every other id what it answered before.
\<close>

lemma policy_store_last_put_wins:
  assumes "hex_crate henc hdec" and "wf_file f" and "utf8_valid (rp_id policy)"
  shows "\<exists>f'. policy_put henc f policy = (Ok (), f') \<and> wf_file f' \<and>
     (\<forall>pid. policy_get hdec f' pid = (if pid = rp_id policy then Some policy else policy_get hdec f pid))"
proof -
  from append_to_file_clean_line [OF assms(2) policy_line_clean [OF assms(1)], of policy] obtain f' where
    "append_to_file f (policy_line henc policy @ [newline]) = (Ok (), f')" "wf_file f'"
    "file_lines f' = file_lines f @ [policy_line henc policy]"
    by blast
  then show ?thesis
    using policy_scan_line [OF assms(1,3)] by (simp add: policy_put_def policy_get_lines)
qed

definition sample_policy :: RecoveryPolicy where
  "sample_policy = \<lparr> rp_id = ''p|1'', rp_max_retry = 3, rp_rollback_on_fail = True \<rparr>"

lemma policy_store_last_put_wins_example:
  "\<exists>f'. policy_put hex_encode empty_file sample_policy = (Ok (), f') \<and>
     policy_get hex_decode f' ''p|1'' = Some sample_policy"
proof -
  have "utf8_valid (rp_id sample_policy)"
    by (simp add: sample_policy_def utf8_valid_ascii is_ascii_def byte_def)
  from policy_store_last_put_wins [OF hex_crate_instance wf_empty_file this] show ?thesis
    by (auto simp: sample_policy_def)
qed

text \<open>
  One damaged line hides every older policy: when the last line of the file has three fields
  and its id is not hexadecimal, \<^verbatim>\<open>get\<close> finds nothing, whatever was stored before it.
\<close>

lemma damaged_line_hides_every_policy:
  assumes "file_lines f = stored @ [line]" and "split_on (CHR ''|'') line = [pid, retry, flag]"
    and "hdec pid = None"
  shows "policy_get hdec f x = None"
  using assms by (simp add: policy_get_lines decode_field_def)

lemma damaged_line_hides_every_policy_example:
  "policy_get hex_decode
     \<lparr> lf_content = Some (policy_line hex_encode sample_policy @ [newline] @ ''zz|3|1'' @ [newline]),
       lf_writable = True, lf_error = [] \<rparr> ''p|1'' = None"
proof (rule damaged_line_hides_every_policy)
  show "file_lines \<lparr> lf_content = Some (policy_line hex_encode sample_policy @ [newline] @ ''zz|3|1'' @ [newline]),
       lf_writable = True, lf_error = [] \<rparr> = [policy_line hex_encode sample_policy] @ [''zz|3|1'']"
    by code_simp
  show "split_on (CHR ''|'') ''zz|3|1'' = [''zz'', ''3'', ''1'']" by code_simp
  show "hex_decode ''zz'' = None" by code_simp
qed

section \<open>Memory notes evolve from their nearest neighbour\<close>

lemma max_by_key_foldl:
  "\<exists>m. foldl (\<lambda>best x. case best of None \<Rightarrow> Some x | Some b \<Rightarrow> if f b \<le> f x then Some x else Some b)
        (Some y) xs = Some m \<and> m \<in> set (y # xs) \<and> (\<forall>x\<in>set (y # xs). f x \<le> (f m :: nat))"
proof (induction xs arbitrary: y)
  case (Cons x xs)
  show ?case
  proof (cases "f y \<le> f x")
    case True
    with Cons.IH [of x] show ?thesis by (auto intro: order_trans)
  next
    case False
    with Cons.IH [of y] show ?thesis by (auto intro: order_trans less_imp_le)
  qed
qed simp

lemma max_by_key_max:
  assumes "xs \<noteq> []"
  shows "\<exists>m. max_by_key f xs = Some m \<and> m \<in> set xs \<and> (\<forall>x\<in>set xs. f x \<le> f m)"
  using assms max_by_key_foldl [of f "hd xs" "tl xs"] by (cases xs) (simp_all add: max_by_key_def)

text \<open>
  A note with neighbours evolves the nearest one: some neighbour whose token overlap with the
  note is the greatest is the target, the result keeps the target's id and has the tags of
  both, it is a merge when the overlap is at least three and an update otherwise.
\<close>

lemma evolution_targets_the_nearest_note:
  assumes "neighbors \<noteq> []" and "\<forall>S. finite S \<longrightarrow> set (elems S) = S"
  shows "\<exists>t. t \<in> set neighbors \<and>
     (\<forall>n\<in>set neighbors. token_overlap (mn_content candidate) (mn_content n) \<le>
        token_overlap (mn_content candidate) (mn_content t)) \<and>
     ed_target_id (evolve elems candidate neighbors) = Some (mn_id t) \<and>
     mn_id (ed_evolved (evolve elems candidate neighbors)) = mn_id t \<and>
     set (mn_tags (ed_evolved (evolve elems candidate neighbors))) =
       set (mn_tags candidate) \<union> set (mn_tags t) \<and>
     ed_action (evolve elems candidate neighbors) =
       (if 3 \<le> token_overlap (mn_content candidate) (mn_content t) then Merge else Update)"
proof -
  obtain t where t: "max_by_key (\<lambda>n. token_overlap (mn_content candidate) (mn_content n)) neighbors = Some t"
    "t \<in> set neighbors" "\<forall>n\<in>set neighbors. token_overlap (mn_content candidate) (mn_content n) \<le>
        token_overlap (mn_content candidate) (mn_content t)"
    using max_by_key_max [OF assms(1), of "\<lambda>n. token_overlap (mn_content candidate) (mn_content n)"]
    by blast
  have tags: "set (elems (set xs \<union> set ys)) = set xs \<union> set ys" for xs ys
    using assms(2) by simp
  show ?thesis
    by (rule exI [of _ t])
      (use t assms(1) tags in \<open>simp add: evolve_def merge_notes_def Let_def Un_commute\<close>)
qed

definition sample_note :: "string \<Rightarrow> string \<Rightarrow> MemoryNote" where
  "sample_note nid content =
     \<lparr> mn_id = nid, mn_content = content, mn_context = [], mn_tags = [nid], mn_links = [] \<rparr>"

lemma evolution_targets_the_nearest_note_example:
  "mn_id (ed_evolved (evolve sorted_list_of_set (sample_note ''n1'' ''a'') [sample_note ''n2'' ''b''])) = ''n2''"
  using evolution_targets_the_nearest_note [of "[sample_note ''n2'' ''b'']" sorted_list_of_set
      "sample_note ''n1'' ''a''"]
  by (simp add: sample_note_def)

text \<open>
  A merge loses links: the merged note keeps the candidate's links and gains a link to
  itself, and the target's own links are not among them unless the candidate had them.
\<close>

lemma merged_note_links_to_itself:
  assumes "\<forall>S. finite S \<longrightarrow> set (elems S) = S"
  shows "mn_id (merge_notes elems left right) \<in> set (mn_links (merge_notes elems left right)) \<and>
     set (mn_links (merge_notes elems left right)) = insert (mn_id right) (set (mn_links left))"
  using assms by (simp add: merge_notes_def Let_def)

lemma merged_note_links_to_itself_example:
  "set (mn_links (merge_notes sorted_list_of_set (sample_note ''n1'' ''a'')
     ((sample_note ''n2'' ''b'')\<lparr> mn_links := [''n3''] \<rparr>))) = {''n2''}"
  using merged_note_links_to_itself [of sorted_list_of_set "sample_note ''n1'' ''a''"
      "(sample_note ''n2'' ''b'')\<lparr> mn_links := [''n3''] \<rparr>"]
  by (simp add: sample_note_def)

end
