(* ===== verification/Workflow.thy ===== *)
theory Workflow
  imports Rust_Strings
begin

text \<open>
  The session workflow of the main crate: \<^verbatim>\<open>src/session/state.rs\<close>, \<^verbatim>\<open>signal.rs\<close>,
  \<^verbatim>\<open>transition.rs\<close>, \<^verbatim>\<open>machine.rs\<close> and the sinks of \<^verbatim>\<open>audit.rs\<close> that keep no database,
  and the orchestrator of \<^verbatim>\<open>src/orchestration/mod.rs\<close> as far as it drives the machine. The
  clock is an argument: a step of the machine reads it at most twice.
\<close>

datatype WorkflowState =
    St_Intake
  | St_PolicyReview
  | St_Planned
  | St_Scheduled
  | St_Executing
  | St_Verifying
  | St_Closed
  | St_Blocked

datatype WorkflowSignal =
    Sig_IntentReceived
  | Sig_PolicyApproved
  | Sig_PolicyRejected
  | Sig_PlanCommitted
  | Sig_TaskScheduled
  | Sig_ExecutionStarted
  | Sig_ExecutionFailed
  | Sig_RuntimeBlocked
  | Sig_VerifyPassed
  | Sig_VerifyRejected
  | Sig_Closed

record TransitionError =
  te_from :: WorkflowState
  te_signal :: WorkflowSignal

definition next_state ::
    "WorkflowState \<Rightarrow> WorkflowSignal \<Rightarrow> TransitionError + WorkflowState" where
  "next_state from_state signal =
     (case (from_state, signal) of
        (St_Intake, Sig_IntentReceived) \<Rightarrow> Inr St_PolicyReview
      | (St_PolicyReview, Sig_PolicyApproved) \<Rightarrow> Inr St_Planned
      | (St_PolicyReview, Sig_PolicyRejected) \<Rightarrow> Inr St_PolicyReview
      | (St_Planned, Sig_PlanCommitted) \<Rightarrow> Inr St_Scheduled
      | (St_Scheduled, Sig_TaskScheduled) \<Rightarrow> Inr St_Executing
      | (St_Executing, Sig_ExecutionStarted) \<Rightarrow> Inr St_Executing
      | (St_Executing, Sig_ExecutionFailed) \<Rightarrow> Inr St_Planned
      | (St_Executing, Sig_RuntimeBlocked) \<Rightarrow> Inr St_Blocked
      | (St_Executing, Sig_VerifyPassed) \<Rightarrow> Inr St_Verifying
      | (St_Executing, Sig_VerifyRejected) \<Rightarrow> Inr St_Verifying
      | (St_Verifying, Sig_VerifyRejected) \<Rightarrow> Inr St_Planned
      | (St_Verifying, Sig_VerifyPassed) \<Rightarrow> Inr St_Closed
      | (St_Blocked, Sig_PolicyApproved) \<Rightarrow> Inr St_Planned
      | (St_Closed, Sig_Closed) \<Rightarrow> Inr St_Closed
      | (_, Sig_Closed) \<Rightarrow> Inr St_Closed
      | (St_Executing, Sig_TaskScheduled) \<Rightarrow> Inr St_Executing
      | (St_Executing, Sig_PlanCommitted) \<Rightarrow> Inr St_Executing
      | (St_Executing, Sig_PolicyRejected) \<Rightarrow> Inr St_Planned
      | (St_Executing, Sig_PolicyApproved) \<Rightarrow> Inr St_Executing
      | (St_Scheduled, Sig_ExecutionStarted) \<Rightarrow> Inr St_Executing
      | (St_Planned, Sig_TaskScheduled) \<Rightarrow> Inr St_Scheduled
      | (St_Planned, Sig_VerifyRejected) \<Rightarrow> Inr St_Planned
      | (St_Planned, Sig_PolicyRejected) \<Rightarrow> Inr St_PolicyReview
      | (St_Closed, Sig_VerifyRejected) \<Rightarrow> Inr St_Planned
      | (St_Closed, Sig_VerifyPassed) \<Rightarrow> Inr St_Closed
      | _ \<Rightarrow> Inl \<lparr> te_from = from_state, te_signal = signal \<rparr>)"

section \<open>The machine and its audit sink\<close>

record TransitionRecord =
  tr_session_id :: string
  tr_from :: WorkflowState
  tr_signal :: WorkflowSignal
  tr_to :: WorkflowState
  tr_timestamp_ms :: "64 word"
  tr_reason :: "string option"

record StateTransition =
  tn_session_id :: string
  tn_from :: WorkflowState
  tn_signal :: WorkflowSignal
  tn_to :: WorkflowState
  tn_timestamp_ms :: "64 word"
  tn_reason :: "string option"

text \<open>An \<^verbatim>\<open>AuditSink\<close> is a function on a state of its own.\<close>

type_synonym 'a audit_sink = "'a \<Rightarrow> TransitionRecord \<Rightarrow> 'a \<times> unit result"

definition noop_audit_sink :: "unit audit_sink" where
  "noop_audit_sink a r = (a, Ok ())"

definition in_memory_audit_sink :: "TransitionRecord list audit_sink" where
  "in_memory_audit_sink records r = (records @ [r], Ok ())"

record 'a WorkflowMachine =
  wm_session_id :: string
  wm_state :: WorkflowState
  wm_audit :: 'a

definition new_machine :: "string \<Rightarrow> 'a \<Rightarrow> 'a WorkflowMachine" where
  "new_machine session_id audit =
     \<lparr> wm_session_id = session_id, wm_state = St_Intake, wm_audit = audit \<rparr>"

text \<open>The state has moved before the sink is asked, and stays moved when the sink fails.\<close>

definition apply_single ::
    "'a audit_sink \<Rightarrow> 64 word \<Rightarrow> 'a WorkflowMachine \<Rightarrow> WorkflowState \<Rightarrow> WorkflowSignal \<Rightarrow>
     string option \<Rightarrow> 'a WorkflowMachine \<times> (TransitionError + StateTransition)" where
  "apply_single sink now m to signal reason =
     (let from_state = wm_state m;
          m = m\<lparr> wm_state := to \<rparr>;
          transition = \<lparr> tn_session_id = wm_session_id m, tn_from = from_state,
                         tn_signal = signal, tn_to = to, tn_timestamp_ms = now,
                         tn_reason = reason \<rparr>;
          rec = \<lparr> tr_session_id = wm_session_id m, tr_from = from_state, tr_signal = signal,
                  tr_to = to, tr_timestamp_ms = now, tr_reason = reason \<rparr>
      in (case sink (wm_audit m) rec of
            (audit, Inl _) \<Rightarrow> (m\<lparr> wm_audit := audit \<rparr>,
                                Inl \<lparr> te_from = from_state, te_signal = signal \<rparr>)
          | (audit, Inr _) \<Rightarrow> (m\<lparr> wm_audit := audit \<rparr>, Inr transition)))"

definition apply_signal ::
    "'a audit_sink \<Rightarrow> 64 word \<times> 64 word \<Rightarrow> 'a WorkflowMachine \<Rightarrow> WorkflowSignal \<Rightarrow>
     string option \<Rightarrow> 'a WorkflowMachine \<times> (TransitionError + StateTransition)" where
  "apply_signal sink now m signal reason =
     (if wm_state m = St_Executing \<and> signal \<in> {Sig_VerifyPassed, Sig_VerifyRejected} then
        (case apply_single sink (fst now) m St_Verifying signal None of
           (m, Inl e) \<Rightarrow> (m, Inl e)
         | (m, Inr verify_hop) \<Rightarrow>
             (case next_state St_Verifying signal of
                Inl e \<Rightarrow> (m, Inl e)
              | Inr target \<Rightarrow>
                  (case apply_single sink (snd now) m target signal reason of
                     (m, Inl e) \<Rightarrow> (m, Inl e)
                   | (m, Inr final_step) \<Rightarrow>
                       (m, Inr \<lparr> tn_session_id = tn_session_id final_step,
                                 tn_from = tn_from verify_hop,
                                 tn_signal = tn_signal final_step,
                                 tn_to = tn_to final_step,
                                 tn_timestamp_ms = tn_timestamp_ms final_step,
                                 tn_reason = tn_reason final_step \<rparr>))))
      else
        (case next_state (wm_state m) signal of
           Inl e \<Rightarrow> (m, Inl e)
         | Inr to \<Rightarrow> apply_single sink (fst now) m to signal reason))"

section \<open>The orchestrator's use of the machine\<close>

text \<open>The orchestrator drops every answer: \<^verbatim>\<open>let _ = workflow.apply(..).await\<close>.\<close>

fun apply_all ::
    "'a audit_sink \<Rightarrow> (nat \<Rightarrow> 64 word \<times> 64 word) \<Rightarrow> 'a WorkflowMachine \<Rightarrow>
     (WorkflowSignal \<times> string option) list \<Rightarrow> 'a WorkflowMachine" where
  "apply_all sink now m [] = m"
| "apply_all sink now m (s # ss) =
     apply_all sink (\<lambda>i. now (Suc i)) (fst (apply_signal sink (now 0) m (fst s) (snd s))) ss"

definition banned_phrases :: "string list" where
  "banned_phrases =
     [''ignore previous instructions'', ''bypass safety'', ''disable verifier'',
      ''print sk-'', ''exfiltrate'']"

definition policy_requires_revision :: "string \<Rightarrow> string option" where
  "policy_requires_revision request =
     map_option (\<lambda>item. ''matched banned policy phrase: '' @ item)
       (find (contains (to_ascii_lowercase request)) banned_phrases)"

text \<open>The fields of an execution report that the workflow and the circuit breaker read.\<close>

record ExecutionReport =
  er_output :: string
  er_tool_used :: "string option"
  er_mcp_server :: "string option"
  er_outcome_score :: "32 word"
  er_guard_decision :: string

definition workflow_signal_from_execution_report :: "ExecutionReport \<Rightarrow> WorkflowSignal" where
  "workflow_signal_from_execution_report report =
     (if eq_ignore_ascii_case (er_guard_decision report) ''blocked'' then Sig_RuntimeBlocked
      else if sint (er_outcome_score report) \<le> 0
              \<or> contains (to_ascii_lowercase (er_output report)) ''failed''
              \<or> contains (to_ascii_lowercase (er_output report)) ''blocked'' then
        Sig_ExecutionFailed
      else Sig_ExecutionStarted)"

datatype VerifierVerdict = Verdict_Pass | Verdict_NeedsIteration | Verdict_Reject

definition intake_signals :: "string \<Rightarrow> (WorkflowSignal \<times> string option) list" where
  "intake_signals request =
     (Sig_IntentReceived, Some ''requirement received'') #
     (case policy_requires_revision request of
        Some policy_reason \<Rightarrow>
          [(Sig_PolicyRejected, Some (''policy rejected: '' @ policy_reason)),
           (Sig_PolicyApproved, Some ''policy revised and approved'')]
      | None \<Rightarrow> [(Sig_PolicyApproved, Some ''policy baseline approved'')])"

definition planning_signals :: "(WorkflowSignal \<times> string option) list" where
  "planning_signals =
     [(Sig_PlanCommitted, Some ''swarm plan committed''),
      (Sig_TaskScheduled, Some ''tasks scheduled''),
      (Sig_ExecutionStarted, Some ''swarm execution started'')]"

definition outcome_signals ::
    "ExecutionReport list \<Rightarrow> VerifierVerdict \<Rightarrow> (WorkflowSignal \<times> string option) list" where
  "outcome_signals reports verdict =
     map (\<lambda>report. (workflow_signal_from_execution_report report,
                     Some ''runtime execution outcome'')) reports @
     [(if verdict = Verdict_Pass then Sig_VerifyPassed else Sig_VerifyRejected,
       Some ''verifier completed''),
      (Sig_Closed, Some ''workflow closed'')]"

definition run_requirement_workflow ::
    "'a audit_sink \<Rightarrow> (nat \<Rightarrow> 64 word \<times> 64 word) \<Rightarrow> string \<Rightarrow> 'a \<Rightarrow> string \<Rightarrow>
     ExecutionReport list \<Rightarrow> VerifierVerdict \<Rightarrow> 'a WorkflowMachine" where
  "run_requirement_workflow sink now session_id audit request reports verdict =
     apply_all sink now (new_machine session_id audit)
       (intake_signals request @ planning_signals @ outcome_signals reports verdict)"

section \<open>The transition table\<close>

lemma next_state_Closed [simp]: "next_state s Sig_Closed = Inr St_Closed"
  by (cases s) (simp_all add: next_state_def)

lemma next_state_verify [simp]:
  "next_state St_Verifying Sig_VerifyPassed = Inr St_Closed"
  "next_state St_Verifying Sig_VerifyRejected = Inr St_Planned"
  "next_state St_Executing Sig_VerifyPassed = Inr St_Verifying"
  "next_state St_Executing Sig_VerifyRejected = Inr St_Verifying"
  by (simp_all add: next_state_def)

lemma next_state_unreviewed:
  assumes "s \<in> {St_Intake, St_PolicyReview}" "sig \<noteq> Sig_Closed" "sig \<noteq> Sig_PolicyApproved"
      and "next_state s sig = Inr t"
  shows "t \<in> {St_Intake, St_PolicyReview}"
  using assms by (cases sig) (auto simp: next_state_def)

section \<open>What a step does\<close>

lemma apply_single_state [simp]:
  "wm_state (fst (apply_single sink now m to sig reason)) = to"
  by (simp add: apply_single_def Let_def split: prod.split sum.split)

lemma apply_single_in_memory:
  "apply_single in_memory_audit_sink now m to sig reason =
     (m\<lparr> wm_state := to,
         wm_audit := wm_audit m @
           [\<lparr> tr_session_id = wm_session_id m, tr_from = wm_state m, tr_signal = sig,
              tr_to = to, tr_timestamp_ms = now, tr_reason = reason \<rparr>] \<rparr>,
      Inr \<lparr> tn_session_id = wm_session_id m, tn_from = wm_state m, tn_signal = sig,
            tn_to = to, tn_timestamp_ms = now, tn_reason = reason \<rparr>)"
  by (simp add: apply_single_def in_memory_audit_sink_def Let_def)

lemma apply_signal_Closed [simp]:
  "wm_state (fst (apply_signal sink now m Sig_Closed reason)) = St_Closed"
  by (simp add: apply_signal_def)

lemma apply_all_append:
  "apply_all sink now m (ss @ ts) =
     apply_all sink (\<lambda>i. now (i + length ss)) (apply_all sink now m ss) ts"
  by (induction ss arbitrary: now m) simp_all

text \<open>
  A list of records is a legal run from \<open>s\<close> to \<open>t\<close>: each record starts where the previous
  one ended and is an entry of the table.
\<close>

fun audit_chain :: "WorkflowState \<Rightarrow> TransitionRecord list \<Rightarrow> WorkflowState \<Rightarrow> bool" where
  "audit_chain s [] t \<longleftrightarrow> s = t"
| "audit_chain s (r # rs) t \<longleftrightarrow>
     tr_from r = s \<and> next_state s (tr_signal r) = Inr (tr_to r) \<and> audit_chain (tr_to r) rs t"

lemma audit_chain_append:
  "audit_chain s (rs @ rs') t \<longleftrightarrow> (\<exists>u. audit_chain s rs u \<and> audit_chain u rs' t)"
  by (induction rs arbitrary: s) auto

lemma apply_signal_in_memory_cases [consumes 1, case_names refused hop verify]:
  assumes "m' = fst (apply_signal in_memory_audit_sink now m sig reason)"
  obtains "m' = m"
  | to r where "next_state (wm_state m) sig = Inr to" "m' = m\<lparr> wm_state := to, wm_audit := wm_audit m @ [r] \<rparr>"
      "tr_from r = wm_state m" "tr_signal r = sig" "tr_to r = to"
      "wm_state m = St_Executing \<Longrightarrow> sig \<notin> {Sig_VerifyPassed, Sig_VerifyRejected}"
  | to r r' where "wm_state m = St_Executing" "sig \<in> {Sig_VerifyPassed, Sig_VerifyRejected}"
      "next_state St_Verifying sig = Inr to"
      "m' = m\<lparr> wm_state := to, wm_audit := wm_audit m @ [r, r'] \<rparr>"
      "tr_from r = St_Executing" "tr_signal r = sig" "tr_to r = St_Verifying"
      "tr_from r' = St_Verifying" "tr_signal r' = sig" "tr_to r' = to"
proof (cases "wm_state m = St_Executing \<and> sig \<in> {Sig_VerifyPassed, Sig_VerifyRejected}")
  case True
  then show thesis
    using assms that(3)
    by (auto simp: apply_signal_def apply_single_in_memory)
next
  case False
  show thesis
  proof (cases "next_state (wm_state m) sig")
    case (Inl e)
    then show thesis using assms False that(1) by (auto simp: apply_signal_def)
  next
    case (Inr to)
    then show thesis using assms False that(2)
      by (auto simp: apply_signal_def apply_single_in_memory)
  qed
qed

lemma apply_signal_chain:
  assumes "audit_chain s (wm_audit m) (wm_state m)"
      and "m' = fst (apply_signal in_memory_audit_sink now m sig reason)"
  shows "audit_chain s (wm_audit m') (wm_state m')"
  using assms(2)
proof (cases rule: apply_signal_in_memory_cases)
  case refused
  then show ?thesis using assms(1) by simp
next
  case (hop to r)
  then show ?thesis using assms(1) by (auto simp: audit_chain_append)
next
  case (verify to r r')
  then show ?thesis using assms(1) by (auto simp: audit_chain_append)
qed

lemma apply_all_chain:
  "audit_chain s (wm_audit m) (wm_state m) \<Longrightarrow>
   audit_chain s (wm_audit (apply_all in_memory_audit_sink now m ss))
     (wm_state (apply_all in_memory_audit_sink now m ss))"
  by (induction ss arbitrary: now m) (auto intro: apply_signal_chain)


section \<open>The run of the orchestrator\<close>

text \<open>What a log says of verified closure, and the machine seen through that.\<close>

definition closed_verified :: "TransitionRecord list \<Rightarrow> bool" where
  "closed_verified records \<longleftrightarrow>
     list_ex (\<lambda>r. tr_from r = St_Verifying \<and> tr_signal r = Sig_VerifyPassed \<and>
                   tr_to r = St_Closed) records"

definition phase :: "TransitionRecord list WorkflowMachine \<Rightarrow> WorkflowState \<times> bool" where
  "phase m = (wm_state m, closed_verified (wm_audit m))"

fun phase_step :: "WorkflowState \<times> bool \<Rightarrow> WorkflowSignal \<Rightarrow> WorkflowState \<times> bool" where
  "phase_step (s, v) sig =
     (if s = St_Executing \<and> sig = Sig_VerifyPassed then (St_Closed, True)
      else if s = St_Executing \<and> sig = Sig_VerifyRejected then (St_Planned, v)
      else (case next_state s sig of
              Inl _ \<Rightarrow> (s, v)
            | Inr t \<Rightarrow> (t, v \<or> s = St_Verifying \<and> sig = Sig_VerifyPassed \<and> t = St_Closed)))"

lemma phase_apply_signal:
  "phase (fst (apply_signal in_memory_audit_sink now m sig reason)) = phase_step (phase m) sig"
  by (auto simp: phase_def closed_verified_def apply_signal_def apply_single_in_memory
           split: sum.split)

lemma phase_apply_all:
  "phase (apply_all in_memory_audit_sink now m ss) = foldl phase_step (phase m) (map fst ss)"
  by (induction ss arbitrary: now m) (simp_all add: phase_apply_signal)

lemma phase_new_machine: "phase (new_machine session_id []) = (St_Intake, False)"
  by (simp add: phase_def new_machine_def closed_verified_def)

lemma intake_and_planning_reach_execution:
  "foldl phase_step (St_Intake, False) (map fst (intake_signals request @ planning_signals)) =
     (St_Executing, False)"
  by (cases "policy_requires_revision request")
     (simp_all add: intake_signals_def planning_signals_def next_state_def)

lemma report_signal_range:
  "workflow_signal_from_execution_report r \<in>
     {Sig_RuntimeBlocked, Sig_ExecutionFailed, Sig_ExecutionStarted}"
  by (simp add: workflow_signal_from_execution_report_def)

lemma reports_after_a_setback:
  assumes "s \<in> {St_Planned, St_Blocked}"
  shows "foldl phase_step (s, v) (map workflow_signal_from_execution_report reports) = (s, v)"
proof (induction reports)
  case (Cons r rs)
  have "phase_step (s, v) (workflow_signal_from_execution_report r) = (s, v)"
    using assms report_signal_range [of r] by (auto simp: next_state_def)
  with Cons.IH show ?case by simp
qed simp

abbreviation report_succeeds :: "ExecutionReport \<Rightarrow> bool" where
  "report_succeeds r \<equiv> workflow_signal_from_execution_report r = Sig_ExecutionStarted"

lemma reports_while_executing:
  "\<exists>s. foldl phase_step (St_Executing, v) (map workflow_signal_from_execution_report reports) =
         (s, v) \<and>
       (s = St_Executing \<longleftrightarrow> list_all report_succeeds reports) \<and>
       s \<in> {St_Executing, St_Planned, St_Blocked}"
proof (induction reports)
  case (Cons r rs)
  consider "report_succeeds r"
    | s where "s \<in> {St_Planned, St_Blocked}" "\<not> report_succeeds r"
        "phase_step (St_Executing, v) (workflow_signal_from_execution_report r) = (s, v)"
    using report_signal_range [of r] by (auto simp: next_state_def)
  then show ?case
  proof cases
    case 1
    with Cons.IH show ?thesis by (simp add: next_state_def)
  next
    case 2
    from 2(1) have "s \<noteq> St_Executing" by auto
    then show ?thesis
      using 2 reports_after_a_setback [OF 2(1), of v rs] by auto
  qed
qed simp

text \<open>
  C17: Whatever signals are applied to a new session workflow, in whatever order, the in-memory
  audit log is a legal run of the transition table: it starts in \<^verbatim>\<open>Intake\<close>, each record starts in
  the state the previous one ended in and is an entry of \<^verbatim>\<open>next_state\<close>, and the last one ends in the
  machine's present state. Verification really is a state hop of its own.
\<close>

theorem audit_log_is_a_legal_run:
  "audit_chain St_Intake
     (wm_audit (apply_all in_memory_audit_sink now (new_machine session_id []) steps))
     (wm_state (apply_all in_memory_audit_sink now (new_machine session_id []) steps))"
  by (rule apply_all_chain) (simp add: new_machine_def)

text \<open>
  The orchestrator's workflow ends in \<^verbatim>\<open>Closed\<close> for every request, every list of execution
  reports, every verdict of the verifier, every clock and every audit sink, one that fails on
  each record included: rejection and revision never leave it open.
\<close>

lemma orchestrated_workflow_closes:
  "wm_state (run_requirement_workflow sink now session_id audit request reports verdict) = St_Closed"
  by (simp add: run_requirement_workflow_def outcome_signals_def apply_all_append)

text \<open>
  C18: The log of an orchestrated run contains the verified closure (\<^verbatim>\<open>Verifying\<close> to \<^verbatim>\<open>Closed\<close> on
  \<^verbatim>\<open>VerifyPassed\<close>) exactly when the verifier passed and no execution report was blocked, failed
  or scored zero or less: one failed report cannot be outvoted by the verifier.
\<close>

theorem verified_closure_needs_every_report:
  "closed_verified
     (wm_audit (run_requirement_workflow in_memory_audit_sink now session_id [] request
        reports verdict)) \<longleftrightarrow>
   verdict = Verdict_Pass \<and> list_all report_succeeds reports"
proof -
  obtain s where s: "foldl phase_step (St_Executing, False)
        (map workflow_signal_from_execution_report reports) = (s, False)"
      "s = St_Executing \<longleftrightarrow> list_all report_succeeds reports"
      "s \<in> {St_Executing, St_Planned, St_Blocked}"
    using reports_while_executing by blast
  define sig where "sig = (if verdict = Verdict_Pass then Sig_VerifyPassed else Sig_VerifyRejected)"
  have "phase (run_requirement_workflow in_memory_audit_sink now session_id [] request
          reports verdict) = phase_step (phase_step (s, False) sig) Sig_Closed"
    using intake_and_planning_reach_execution [of request]
    by (simp add: run_requirement_workflow_def phase_apply_all phase_new_machine
                  outcome_signals_def comp_def s(1) sig_def)
  also have "snd \<dots> \<longleftrightarrow> verdict = Verdict_Pass \<and> s = St_Executing"
    using s(3) by (cases verdict) (auto simp: sig_def next_state_def)
  finally show ?thesis
    by (simp add: phase_def s(2))
qed

section \<open>Policy review\<close>

lemma unreviewed_until_approved:
  assumes "wm_state m \<in> {St_Intake, St_PolicyReview}" "Sig_Closed \<notin> fst ` set steps"
      and "Sig_PolicyApproved \<notin> fst ` set steps"
  shows "wm_state (apply_all in_memory_audit_sink now m steps) \<in> {St_Intake, St_PolicyReview}"
  using assms
proof (induction steps arbitrary: now m)
  case (Cons a steps)
  have "wm_state (fst (apply_signal in_memory_audit_sink (now 0) m (fst a) (snd a)))
          \<in> {St_Intake, St_PolicyReview}"
    using Cons.prems next_state_unreviewed [of "wm_state m" "fst a"]
    by (auto simp: apply_signal_def apply_single_in_memory split: sum.split)
  then show ?case using Cons.IH Cons.prems by simp
qed simp

text \<open>
  A workflow that has not been sent the closing signal reaches execution only after a policy
  approval was sent to it: no other sequence of signals leaves intake and policy review.
\<close>

lemma execution_needs_policy_approval:
  assumes "wm_state (apply_all in_memory_audit_sink now (new_machine session_id []) steps)
             = St_Executing"
      and "Sig_Closed \<notin> fst ` set steps"
  shows "Sig_PolicyApproved \<in> fst ` set steps"
  using assms unreviewed_until_approved [of "new_machine session_id []" steps now]
  by (auto simp: new_machine_def)

lemma execution_needs_policy_approval_example:
  "Sig_PolicyApproved \<in> fst ` set (intake_signals ''list files'' @ planning_signals)"
proof (rule execution_needs_policy_approval)
  have "phase (apply_all in_memory_audit_sink (\<lambda>_. (0, 0)) (new_machine ''s'' [])
          (intake_signals ''list files'' @ planning_signals)) = (St_Executing, False)"
    by (simp only: phase_apply_all phase_new_machine intake_and_planning_reach_execution)
  then show "wm_state (apply_all in_memory_audit_sink (\<lambda>_. (0, 0)) (new_machine ''s'' [])
               (intake_signals ''list files'' @ planning_signals)) = St_Executing"
    by (simp add: phase_def)
  show "Sig_Closed \<notin> fst ` set (intake_signals ''list files'' @ planning_signals)"
    by (auto simp: intake_signals_def planning_signals_def split: option.splits)
qed

text \<open>
  The closing signal is the exception: a workflow closed at intake is reopened by a rejected
  verification and executes with no policy approval in its whole history.
\<close>

lemma closed_workflow_executes_unreviewed:
  "wm_state (apply_all in_memory_audit_sink now (new_machine session_id [])
     [(Sig_Closed, None), (Sig_VerifyRejected, None), (Sig_PlanCommitted, None),
      (Sig_TaskScheduled, None)]) = St_Executing"
  by (simp add: apply_signal_def apply_single_in_memory new_machine_def next_state_def)

text \<open>
  A failing sink is reported as an illegal transition, although the machine has moved: the
  caller sees an error for a move that happened.
\<close>

lemma failed_audit_still_moves:
  assumes "sink (wm_audit m) = (\<lambda>r. (a, Inl e))" "wm_state m = St_Intake"
  shows "apply_signal sink now m Sig_IntentReceived reason =
    (m\<lparr> wm_state := St_PolicyReview, wm_audit := a \<rparr>,
     Inl \<lparr> te_from = St_Intake, te_signal = Sig_IntentReceived \<rparr>)"
  using assms by (simp add: apply_signal_def apply_single_def next_state_def Let_def)

end
