(* ===== verification/Knowledge.thy ===== *)
theory Knowledge
  imports Rust_Strings "HOL-Library.AList"
begin

text \<open>
  The knowledge table of \<^verbatim>\<open>autoloop-state-adapter/src/lib.rs\<close>: \<^verbatim>\<open>StateStore\<close> without a
  configured mirror over \<^verbatim>\<open>InMemorySpacetimeRepository\<close>, with the write-once rule for evidence
  keys that stands before every write. A \<^verbatim>\<open>HashMap\<close> is an association list without duplicate
  keys, of which only lookups are observed. The theory also holds the \<^verbatim>\<open>BTreeMap\<close> operations its
  clients use and the locale through which they see the table.
\<close>

section \<open>Sorted maps\<close>

fun str_less :: "string \<Rightarrow> string \<Rightarrow> bool" where
  "str_less s [] \<longleftrightarrow> False"
| "str_less [] (c # s) \<longleftrightarrow> True"
| "str_less (c # s) (d # t) \<longleftrightarrow> byte c < byte d \<or> c = d \<and> str_less s t"

fun btree_insert :: "string \<Rightarrow> 'v \<Rightarrow> (string \<times> 'v) list \<Rightarrow> (string \<times> 'v) list" where
  "btree_insert k v [] = [(k, v)]"
| "btree_insert k v ((k', v') # m) =
     (if k = k' then (k, v) # m
      else if str_less k k' then (k, v) # (k', v') # m
      else (k', v') # btree_insert k v m)"

lemma map_of_btree_insert [simp]: "map_of (btree_insert k v m) = (map_of m)(k \<mapsto> v)"
  by (induction k v m rule: btree_insert.induct) (auto simp: fun_eq_iff)

section \<open>The table\<close>

record KnowledgeRecord =
  kr_id :: "64 word"
  kr_key :: string
  kr_value :: string
  kr_source :: string

text \<open>\<^verbatim>\<open>next_id\<close> is an atomic counter; \<^verbatim>\<open>alloc_id\<close> is taken to wrap at 2 to the 64.\<close>

record KnowledgeTable =
  kt_knowledge :: "(string \<times> KnowledgeRecord) list"
  kt_next_id :: "64 word"

definition get_knowledge :: "KnowledgeTable \<Rightarrow> string \<Rightarrow> KnowledgeRecord option" where
  "get_knowledge db key = map_of (kt_knowledge db) key"

definition repo_upsert_knowledge ::
    "KnowledgeTable \<Rightarrow> string \<Rightarrow> string \<Rightarrow> string \<Rightarrow> KnowledgeTable \<times> KnowledgeRecord" where
  "repo_upsert_knowledge db key val source =
     (let (db, id) =
            (case get_knowledge db key of
               Some current \<Rightarrow> (db, kr_id current)
             | None \<Rightarrow> (db\<lparr> kt_next_id := kt_next_id db + 1 \<rparr>, kt_next_id db + 1));
          rec = \<lparr> kr_id = id, kr_key = key, kr_value = val, kr_source = source \<rparr>
      in (db\<lparr> kt_knowledge := AList.update key rec (kt_knowledge db) \<rparr>, rec))"

abbreviation evidence_key :: "string \<Rightarrow> bool" where
  "evidence_key key \<equiv> prefix ''evidence:'' key"

definition enforce_evidence_worm_write :: "KnowledgeTable \<Rightarrow> string \<Rightarrow> string \<Rightarrow> unit result" where
  "enforce_evidence_worm_write db key val =
     (if \<not> evidence_key key then Ok ()
      else (case get_knowledge db key of
              Some existing \<Rightarrow>
                if kr_value existing \<noteq> val then
                  Err (''evidence WORM violation: update attempt on existing key '' @
                       [CHR 0x27] @ key @ [CHR 0x27])
                else
                  Err (''evidence WORM violation: replay/duplicate write on key '' @
                       [CHR 0x27] @ key @ [CHR 0x27])
            | None \<Rightarrow> Ok ()))"

definition upsert_knowledge ::
    "KnowledgeTable \<Rightarrow> string \<Rightarrow> string \<Rightarrow> string \<Rightarrow> KnowledgeTable \<times> KnowledgeRecord result" where
  "upsert_knowledge db key val source =
     (case enforce_evidence_worm_write db key val of
        Inl e \<Rightarrow> (db, Inl e)
      | Inr _ \<Rightarrow> (case repo_upsert_knowledge db key val source of (db, r) \<Rightarrow> (db, Ok r)))"

text \<open>Successive writes, stopping at the first refused one as \<^verbatim>\<open>?\<close> does.\<close>

type_synonym knowledge_write = "string \<times> string \<times> string"

fun write_all ::
    "('s \<Rightarrow> string \<Rightarrow> string \<Rightarrow> string \<Rightarrow> 's \<times> KnowledgeRecord result) \<Rightarrow> 's \<Rightarrow>
     knowledge_write list \<Rightarrow> 's \<times> unit result" where
  "write_all upsert db [] = (db, Ok ())"
| "write_all upsert db ((key, val, source) # ws) =
     (case upsert db key val source of
        (db, Inl e) \<Rightarrow> (db, Inl e)
      | (db, Inr _) \<Rightarrow> write_all upsert db ws)"

section \<open>What the table promises its clients\<close>

locale knowledge_store =
  fixes get :: "'s \<Rightarrow> string \<Rightarrow> KnowledgeRecord option"
    and upsert :: "'s \<Rightarrow> string \<Rightarrow> string \<Rightarrow> string \<Rightarrow> 's \<times> KnowledgeRecord result"
  assumes accepts: "\<not> evidence_key key \<Longrightarrow>
      \<exists>db' r. upsert db key val source = (db', Ok r) \<and> kr_value r = val \<and>
              get db' = (get db)(key \<mapsto> r)"
    and write_once: "evidence_key key \<Longrightarrow> get db key = Some r \<Longrightarrow>
      \<exists>e. upsert db key val source = (db, Inl e)"
    and first_write: "evidence_key key \<Longrightarrow> get db key = None \<Longrightarrow>
      \<exists>db' r. upsert db key val source = (db', Ok r) \<and> kr_value r = val \<and>
              get db' = (get db)(key \<mapsto> r)"
begin

lemma upsert_cases:
  obtains db' r where "upsert db key val source = (db', Ok r)" "kr_value r = val"
      "get db' = (get db)(key \<mapsto> r)" "evidence_key key \<Longrightarrow> get db key = None"
  | e r where "upsert db key val source = (db, Inl e)" "evidence_key key" "get db key = Some r"
  by (metis accepts write_once first_write option.exhaust)

lemma evidence_stays:
  assumes "evidence_key key" "get db key = Some r"
  shows "get (fst (write_all upsert db ws)) key = Some r"
  using assms(2)
proof (induction ws arbitrary: db)
  case (Cons w ws)
  obtain k v src where w: "w = (k, v, src)" by (cases w) auto
  show ?case
  proof (cases rule: upsert_cases [of db k v src])
    case (1 db' r')
    then have "get db' key = Some r" using Cons.prems assms(1) by (cases "key = k") auto
    then show ?thesis using Cons.IH 1(1) w by simp
  next
    case (2 e r')
    then show ?thesis using Cons.prems w by simp
  qed
qed simp

lemma writes_succeed:
  assumes "list_all (\<lambda>w. \<not> evidence_key (fst w)) ws"
  obtains db' where "write_all upsert db ws = (db', Ok ())"
    "\<And>key. key \<notin> fst ` set ws \<Longrightarrow> get db' key = get db key"
  using assms
proof (induction ws arbitrary: db thesis)
  case Nil
  then show ?case by simp
next
  case (Cons w ws)
  obtain k v src where w: "w = (k, v, src)" by (cases w) auto
  obtain db1 r where 1: "upsert db k v src = (db1, Ok r)" "get db1 = (get db)(k \<mapsto> r)"
    using accepts [of k db v src] Cons.prems(2) w by auto
  obtain db' where 2: "write_all upsert db1 ws = (db', Ok ())"
      "\<And>key. key \<notin> fst ` set ws \<Longrightarrow> get db' key = get db1 key"
    using Cons.IH [of db1] Cons.prems(2) by auto
  show ?case by (rule Cons.prems(1) [of db']) (use 1 2 w in auto)
qed

end

lemma get_repo_upsert:
  "repo_upsert_knowledge db key val source = (db', r) \<Longrightarrow>
     kr_value r = val \<and> get_knowledge db' = (get_knowledge db)(key \<mapsto> r)"
  by (auto simp: repo_upsert_knowledge_def get_knowledge_def Let_def update_conv' fun_eq_iff
           split: option.splits)

interpretation knowledge: knowledge_store get_knowledge upsert_knowledge
proof
  fix db key val source
  assume "\<not> evidence_key key"
  then show "\<exists>db' r. upsert_knowledge db key val source = (db', Ok r) \<and> kr_value r = val \<and>
          get_knowledge db' = (get_knowledge db)(key \<mapsto> r)"
    using get_repo_upsert [of db key val source]
    by (cases "repo_upsert_knowledge db key val source")
       (simp add: upsert_knowledge_def enforce_evidence_worm_write_def)
next
  fix db key val source and r
  assume "evidence_key key" "get_knowledge db key = Some r"
  then show "\<exists>e. upsert_knowledge db key val source = (db, Inl e)"
    by (simp add: upsert_knowledge_def enforce_evidence_worm_write_def)
next
  fix db key val source
  assume "evidence_key key" "get_knowledge db key = None"
  then show "\<exists>db' r. upsert_knowledge db key val source = (db', Ok r) \<and> kr_value r = val \<and>
          get_knowledge db' = (get_knowledge db)(key \<mapsto> r)"
    using get_repo_upsert [of db key val source]
    by (cases "repo_upsert_knowledge db key val source")
       (simp add: upsert_knowledge_def enforce_evidence_worm_write_def)
qed

text \<open>
  C20: An evidence record is written once. Whatever is written to the store afterwards, through
  however many accepted or refused writes and whatever they contain, the record under an
  \<^verbatim>\<open>evidence:\<close> key is the one first written.
\<close>

theorem evidence_records_are_write_once:
  assumes "prefix ''evidence:'' key" "get_knowledge db key = Some r"
  shows "get_knowledge (fst (write_all upsert_knowledge db ws)) key = Some r"
  using assms by (rule knowledge.evidence_stays)

definition sample_table :: KnowledgeTable where
  "sample_table =
     \<lparr> kt_knowledge = [(''evidence:e'',
         \<lparr> kr_id = 1, kr_key = ''evidence:e'', kr_value = ''v'', kr_source = ''s'' \<rparr>)],
       kt_next_id = 1 \<rparr>"

theorem evidence_records_are_write_once_witness:
  "get_knowledge (fst (write_all upsert_knowledge sample_table
      [(''note'', ''n'', ''s''), (''evidence:e'', ''forged'', ''s'')])) ''evidence:e'' =
   Some \<lparr> kr_id = 1, kr_key = ''evidence:e'', kr_value = ''v'', kr_source = ''s'' \<rparr>"
  by (rule evidence_records_are_write_once)
     (simp_all add: sample_table_def get_knowledge_def)

end
