(* ===== verification/Sample_Codec.thy ===== *)
theory Sample_Codec
  imports Rust_Strings
begin

text \<open>
  Packed strings, from which the witnesses build concrete printers and parsers for the serde_json
  arguments of the main crate's components: a string is written with its length in unary, a list
  of strings one after the other.
\<close>

definition pack :: "string list \<Rightarrow> string" where
  "pack xs = concat (map (\<lambda>x. replicate (length x) (CHR ''1'') @ CHR ''0'' # x) xs)"

fun chunk :: "nat \<Rightarrow> string \<Rightarrow> string \<times> string" where
  "chunk n [] = ([], [])"
| "chunk n (c # s) = (if c = CHR ''1'' then chunk (Suc n) s else (take n s, drop n s))"

lemma chunk_le: "length (snd (chunk n s)) \<le> length s - 1"
  by (induction n s rule: chunk.induct) auto

function unpack :: "string \<Rightarrow> string list" where
  "unpack [] = []"
| "unpack (c # s) = fst (chunk 0 (c # s)) # unpack (snd (chunk 0 (c # s)))"
  by pat_completeness auto
termination
  by (relation "measure length") (auto simp: less_Suc_eq_le intro: le_trans [OF chunk_le])

lemma chunk_ones:
  "chunk n (replicate m (CHR ''1'') @ CHR ''0'' # s) = (take (n + m) s, drop (n + m) s)"
  by (induction m arbitrary: n) simp_all

lemma unpack_pack [simp]: "unpack (pack xs) = xs"
proof (induction xs)
  case (Cons x xs)
  have "chunk 0 (pack (x # xs)) = (x, pack xs)"
    by (simp add: pack_def chunk_ones)
  moreover have "pack (x # xs) \<noteq> []" by (simp add: pack_def)
  ultimately show ?case using Cons.IH by (cases "pack (x # xs)") auto
qed (simp add: pack_def)

definition pack_time :: "64 word option \<Rightarrow> string" where
  "pack_time t = (case t of None \<Rightarrow> [] | Some w \<Rightarrow> show_word w)"

definition unpack_time :: "string \<Rightarrow> 64 word option" where
  "unpack_time s = (if s = [] then None else parse_word s)"

lemma show_word_not_Nil [simp]: "show_word w \<noteq> []"
  by (simp add: show_word_def)

lemma unpack_time [simp]: "unpack_time (pack_time t) = t"
  by (cases t) (simp_all add: pack_time_def unpack_time_def)

definition pack_opt :: "string option \<Rightarrow> string" where
  "pack_opt x = (case x of None \<Rightarrow> pack [] | Some s \<Rightarrow> pack [s])"

definition unpack_opt :: "string \<Rightarrow> string option" where
  "unpack_opt s = (case unpack s of [] \<Rightarrow> None | x # _ \<Rightarrow> Some x)"

lemma unpack_opt [simp]: "unpack_opt (pack_opt x) = x"
  by (cases x) (simp_all add: pack_opt_def unpack_opt_def)

end
