(* ===== verification/Contracts.thy ===== *)
theory Contracts
  imports Rust_Strings
begin

text \<open>
  The data that the main crate passes around: JSON values, the task envelope of
  \<^verbatim>\<open>src/contracts/types.rs\<close>, and the identity and billing records of
  \<^verbatim>\<open>autoloop-state-adapter/src/lib.rs\<close>. The identifier newtypes are their strings.
\<close>

section \<open>JSON values\<close>

text \<open>A number that is not a \<^verbatim>\<open>u64\<close> is its text. An object has distinct keys.\<close>

datatype json =
    J_Null
  | J_Bool bool
  | J_Number "64 word"
  | J_Other_Number string
  | J_String string
  | J_Array "json list"
  | J_Object "(string \<times> json) list"

definition json_get :: "json \<Rightarrow> string \<Rightarrow> json option" where
  "json_get v key = (case v of J_Object m \<Rightarrow> map_of m key | _ \<Rightarrow> None)"

definition json_as_bool :: "json \<Rightarrow> bool option" where
  "json_as_bool v = (case v of J_Bool b \<Rightarrow> Some b | _ \<Rightarrow> None)"

definition json_as_str :: "json \<Rightarrow> string option" where
  "json_as_str v = (case v of J_String s \<Rightarrow> Some s | _ \<Rightarrow> None)"

definition json_as_array :: "json \<Rightarrow> json list option" where
  "json_as_array v = (case v of J_Array vs \<Rightarrow> Some vs | _ \<Rightarrow> None)"

definition json_opt_str :: "string option \<Rightarrow> json" where
  "json_opt_str x = (case x of None \<Rightarrow> J_Null | Some s \<Rightarrow> J_String s)"

lemma json_get_object [simp]: "json_get (J_Object m) key = map_of m key"
  by (simp add: json_get_def)

lemma json_as_simps [simp]:
  "json_as_str (J_String s) = Some s" "json_as_bool (J_Bool b) = Some b"
  "json_as_array (J_Array vs) = Some vs"
  by (simp_all add: json_as_str_def json_as_bool_def json_as_array_def)

section \<open>Task envelope\<close>

record ConstraintSet =
  cn_max_cpu_percent :: "8 word"
  cn_max_memory_mb :: "32 word"
  cn_timeout_ms :: "64 word"
  cn_max_retries :: "8 word"
  cn_max_tokens :: "32 word"
  cn_io_allow_paths :: "string list"
  cn_io_deny_paths :: "string list"
  cn_sandbox_profile :: string
  cn_requires_human_approval :: bool

record ExecutionIdentity =
  id_tenant_id :: string
  id_principal_id :: string
  id_policy_id :: string
  id_lease_token :: string

record TrustExecutionPlan =
  tp_trust_level :: string
  tp_verify_identity :: bool
  tp_verify_environment :: bool
  tp_rollout_gate :: string
  tp_attestation_backend :: string
  tp_attestation_required :: bool
  tp_attestation_policy_version :: "string option"
  tp_policy_refs :: "string list"
  tp_budget_scope :: string

record TaskEnvelope =
  te_session_id :: string
  te_trace_id :: string
  te_task_id :: string
  te_capability_id :: string
  te_identity :: ExecutionIdentity
  te_payload :: json
  te_constraints :: ConstraintSet
  te_trust_plan :: "TrustExecutionPlan option"

section \<open>Identity records\<close>

datatype PermissionAction = Perm_Read | Perm_Write | Perm_Dispatch | Perm_Admin

record Tenant =
  tn_tenant_id :: string
  tn_name :: string
  tn_status :: string
  tn_created_at_ms :: "64 word"

record Principal =
  pr_principal_id :: string
  pr_tenant_id :: string
  pr_principal_type :: string
  pr_status :: string
  pr_created_at_ms :: "64 word"

record RoleBinding =
  rb_tenant_id :: string
  rb_principal_id :: string
  rb_role :: string
  rb_updated_at_ms :: "64 word"

record PolicyBinding =
  pb_policy_id :: string
  pb_tenant_id :: string
  pb_role :: string
  pb_allowed_actions :: "PermissionAction list"
  pb_capability_prefixes :: "string list"
  pb_max_memory_mb :: "32 word"
  pb_max_tokens :: "32 word"
  pb_updated_at_ms :: "64 word"

record SessionLease =
  ls_lease_token :: string
  ls_session_id :: string
  ls_tenant_id :: string
  ls_principal_id :: string
  ls_policy_id :: string
  ls_expires_at_ms :: "64 word"
  ls_issued_at_ms :: "64 word"

section \<open>Billing records\<close>

record BudgetAccount =
  ba_account_id :: string
  ba_tenant_id :: string
  ba_principal_id :: string
  ba_policy_id :: string
  ba_total_budget_micros :: "64 word"
  ba_reserved_micros :: "64 word"
  ba_spent_micros :: "64 word"
  ba_blocked_count :: "64 word"
  ba_updated_at_ms :: "64 word"

datatype SpendLedgerKind = Spend_Reserve | Spend_Settle | Spend_Refund | Spend_Blocked

text \<open>\<^verbatim>\<open>amount_micros\<close> is an \<^verbatim>\<open>i64\<close>: the word is read with \<open>sint\<close>.\<close>

record SpendLedger =
  sl_ledger_id :: string
  sl_tenant_id :: string
  sl_account_id :: string
  sl_session_id :: string
  sl_trace_id :: string
  sl_task_id :: string
  sl_capability_id :: string
  sl_kind :: SpendLedgerKind
  sl_amount_micros :: "64 word"
  sl_token_cost_micros :: "64 word"
  sl_tool_cost_micros :: "64 word"
  sl_duration_cost_micros :: "64 word"
  sl_reason :: string
  sl_created_at_ms :: "64 word"

record QuotaWindow =
  qw_window_id :: string
  qw_tenant_id :: string
  qw_account_id :: string
  qw_window_start_ms :: "64 word"
  qw_window_end_ms :: "64 word"
  qw_window_budget_micros :: "64 word"
  qw_consumed_micros :: "64 word"
  qw_blocked_count :: "64 word"
  qw_updated_at_ms :: "64 word"

record CostAttribution =
  ca_attribution_id :: string
  ca_tenant_id :: string
  ca_principal_id :: string
  ca_policy_id :: string
  ca_session_id :: string
  ca_trace_id :: string
  ca_task_id :: string
  ca_capability_id :: string
  ca_provider_tokens :: "32 word"
  ca_tool_invocations :: "32 word"
  ca_duration_ms :: "64 word"
  ca_token_cost_micros :: "64 word"
  ca_tool_cost_micros :: "64 word"
  ca_duration_cost_micros :: "64 word"
  ca_total_cost_micros :: "64 word"
  ca_settled_at_ms :: "64 word"

end
