(* ===== verification/Flow_State.thy ===== *)
theory Flow_State
  imports Knowledge Sample_Codec Contracts
begin

text \<open>
  The flow map of a session: the structs of \<^verbatim>\<open>src/contracts/flow.rs\<close> it uses and
  \<^verbatim>\<open>src/runtime/flow_state_engine.rs\<close>, over the knowledge table of \<open>Knowledge\<close>. The serde_json
  crate is an argument: a printer for each of the three kinds of value the engine stores and the
  parser of the one it reads back. The clock is a sequence of readings.
\<close>

datatype FlowNodeState =
    Flow_Pending
  | Flow_Ready
  | Flow_Running
  | Flow_Succeeded
  | Flow_Failed
  | Flow_Blocked
  | Flow_Skipped
  | Flow_Degraded
  | Flow_Replayed

fun debug_flow :: "FlowNodeState \<Rightarrow> string" where
  "debug_flow Flow_Pending = ''Pending''"
| "debug_flow Flow_Ready = ''Ready''"
| "debug_flow Flow_Running = ''Running''"
| "debug_flow Flow_Succeeded = ''Succeeded''"
| "debug_flow Flow_Failed = ''Failed''"
| "debug_flow Flow_Blocked = ''Blocked''"
| "debug_flow Flow_Skipped = ''Skipped''"
| "debug_flow Flow_Degraded = ''Degraded''"
| "debug_flow Flow_Replayed = ''Replayed''"

record FlowStateFlags =
  ff_side_effect_state :: string
  ff_budget_state :: string
  ff_trigger_state :: string

definition default_flow_flags :: FlowStateFlags where
  "default_flow_flags =
     \<lparr> ff_side_effect_state = '''', ff_budget_state = '''', ff_trigger_state = '''' \<rparr>"

record FlowNodeRecord =
  fn_node_id :: string
  fn_task_id :: string
  fn_capability_id :: string
  fn_state :: FlowNodeState
  fn_depends_on :: "string list"
  fn_started_at_ms :: "64 word option"
  fn_ended_at_ms :: "64 word option"
  fn_flags :: FlowStateFlags
  fn_metadata :: "(string \<times> string) list"

record FlowMapSnapshot =
  fm_flow_id :: string
  fm_session_id :: string
  fm_plan_id :: string
  fm_run_id :: string
  fm_nodes :: "FlowNodeRecord list"
  fm_updated_at_ms :: "64 word"

record FlowStatePatch =
  fp_flow_id :: string
  fp_node_id :: string
  fp_from :: "FlowNodeState option"
  fp_to :: FlowNodeState
  fp_reason :: string
  fp_trace_id :: string
  fp_updated_at_ms :: "64 word"
  fp_metadata :: "(string \<times> string) list"

record FlowRuntimeUpdate =
  fu_session_id :: string
  fu_trace_id :: string
  fu_task_id :: string
  fu_capability_id :: string
  fu_state :: "FlowNodeState option"
  fu_reason :: string
  fu_side_effect_state :: "string option"
  fu_budget_state :: "string option"
  fu_trigger_state :: "string option"
  fu_metadata :: "(string \<times> string) list"

text \<open>serde_json's functions on the types above.\<close>

record serde =
  map_to_string :: "FlowMapSnapshot \<Rightarrow> string"
  map_from_str :: "string \<Rightarrow> string + FlowMapSnapshot"
  patch_to_string :: "FlowStatePatch \<Rightarrow> string"
  value_to_string :: "json \<Rightarrow> string"

definition serde_roundtrip :: "serde \<Rightarrow> bool" where
  "serde_roundtrip se \<longleftrightarrow> (\<forall>snapshot. map_from_str se (map_to_string se snapshot) = Inr snapshot)"

section \<open>Keys\<close>

definition FLOW_SCOPE :: string where
  "FLOW_SCOPE = ''flow-state-engine''"

definition flow_id_for_session :: "string \<Rightarrow> string" where
  "flow_id_for_session session_id = ''flow:'' @ session_id"

definition parse_session_from_flow_id :: "string \<Rightarrow> string option" where
  "parse_session_from_flow_id flow_id =
     (if prefix ''flow:'' flow_id then Some (drop 5 flow_id) else None)"

text \<open>
  \<^verbatim>\<open>sanitize_key_part\<close> works on characters: of a multi-byte character the first byte gives the
  hyphen and the continuation bytes give nothing.
\<close>

definition sanitize_key_part :: "string \<Rightarrow> string" where
  "sanitize_key_part s =
     map (\<lambda>c. if ascii_alphanumeric c \<or> c \<in> {CHR ''-'', CHR ''_'', CHR '':''} then c else CHR ''-'')
       (filter (\<lambda>c. \<not> cont c) s)"

definition flow_map_key :: "string \<Rightarrow> string" where
  "flow_map_key session_id = ''flow:map:'' @ session_id @ '':active''"

definition flow_index_key :: "string \<Rightarrow> string" where
  "flow_index_key flow_id = ''flow:index:'' @ flow_id"

definition flow_patch_key :: "string \<Rightarrow> string \<Rightarrow> string \<Rightarrow> 64 word \<Rightarrow> string" where
  "flow_patch_key session_id flow_id node_id updated_at_ms =
     ''flow:patch:'' @ session_id @ '':'' @ sanitize_key_part flow_id @ '':'' @
     sanitize_key_part node_id @ '':'' @ show_word updated_at_ms"

definition node_state_key :: "string \<Rightarrow> string \<Rightarrow> string" where
  "node_state_key session_id node_id =
     ''flow:node:'' @ session_id @ '':'' @ sanitize_key_part node_id @ '':state''"

definition side_effect_key :: "string \<Rightarrow> string \<Rightarrow> string" where
  "side_effect_key session_id node_id =
     ''flow:node:'' @ session_id @ '':'' @ sanitize_key_part node_id @ '':side_effect_state''"

definition budget_state_key :: "string \<Rightarrow> string \<Rightarrow> string" where
  "budget_state_key session_id node_id =
     ''flow:node:'' @ session_id @ '':'' @ sanitize_key_part node_id @ '':budget_state''"

definition trigger_state_key :: "string \<Rightarrow> string \<Rightarrow> string" where
  "trigger_state_key session_id node_id =
     ''flow:node:'' @ session_id @ '':'' @ sanitize_key_part node_id @ '':trigger_state''"

section \<open>Reading and writing the map\<close>

definition default_flow_map :: "64 word \<Rightarrow> string \<Rightarrow> FlowMapSnapshot" where
  "default_flow_map now session_id =
     \<lparr> fm_flow_id = flow_id_for_session session_id, fm_session_id = session_id,
       fm_plan_id = ''plan:runtime'', fm_run_id = ''run:'' @ session_id @ '':active'',
       fm_nodes = [], fm_updated_at_ms = now \<rparr>"

definition fetch_flow_map ::
    "serde \<Rightarrow> KnowledgeTable \<Rightarrow> string \<Rightarrow> FlowMapSnapshot option result" where
  "fetch_flow_map se db session_id =
     (case get_knowledge db (flow_map_key session_id) of
        None \<Rightarrow> Ok None
      | Some rec \<Rightarrow>
          (case map_from_str se (kr_value rec) of
             Inl e \<Rightarrow> Err (''failed to deserialize flow map snapshot for session '' @ session_id @
                            '': '' @ e)
           | Inr snapshot \<Rightarrow> Ok (Some snapshot)))"

definition json_opt_number :: "64 word option \<Rightarrow> json" where
  "json_opt_number x = (case x of None \<Rightarrow> J_Null | Some n \<Rightarrow> J_Number n)"

text \<open>The four views of a node, in the order \<^verbatim>\<open>persist_node_views\<close> writes them.\<close>

definition persist_node_views :: "serde \<Rightarrow> FlowMapSnapshot \<Rightarrow> FlowNodeRecord \<Rightarrow> knowledge_write list"
  where
  "persist_node_views se snapshot node =
     (let state_view = J_Object
            [(''session_id'', J_String (fm_session_id snapshot)),
             (''flow_id'', J_String (fm_flow_id snapshot)),
             (''plan_id'', J_String (fm_plan_id snapshot)),
             (''run_id'', J_String (fm_run_id snapshot)),
             (''node_id'', J_String (fn_node_id node)),
             (''task_id'', J_String (fn_task_id node)),
             (''capability_id'', J_String (fn_capability_id node)),
             (''state'', J_String (to_ascii_lowercase (debug_flow (fn_state node)))),
             (''started_at_ms'', json_opt_number (fn_started_at_ms node)),
             (''ended_at_ms'', json_opt_number (fn_ended_at_ms node)),
             (''updated_at_ms'', J_Number (fm_updated_at_ms snapshot))];
          flag_view = (\<lambda>v. J_Object
            [(''value'', J_String v), (''updated_at_ms'', J_Number (fm_updated_at_ms snapshot))]);
          session_id = fm_session_id snapshot; node_id = fn_node_id node
      in [(node_state_key session_id node_id, value_to_string se state_view, FLOW_SCOPE),
          (side_effect_key session_id node_id,
             value_to_string se (flag_view (ff_side_effect_state (fn_flags node))), FLOW_SCOPE),
          (budget_state_key session_id node_id,
             value_to_string se (flag_view (ff_budget_state (fn_flags node))), FLOW_SCOPE),
          (trigger_state_key session_id node_id,
             value_to_string se (flag_view (ff_trigger_state (fn_flags node))), FLOW_SCOPE)])"

definition flow_map_writes :: "serde \<Rightarrow> FlowMapSnapshot \<Rightarrow> knowledge_write list" where
  "flow_map_writes se snapshot =
     (flow_map_key (fm_session_id snapshot), map_to_string se snapshot, FLOW_SCOPE) #
     (flow_index_key (fm_flow_id snapshot), fm_session_id snapshot, FLOW_SCOPE) #
     concat (map (persist_node_views se snapshot) (fm_nodes snapshot))"

definition upsert_flow_map ::
    "serde \<Rightarrow> KnowledgeTable \<Rightarrow> FlowMapSnapshot \<Rightarrow> KnowledgeTable \<times> unit result" where
  "upsert_flow_map se db snapshot =
     write_all upsert_knowledge db (flow_map_writes se snapshot)"

section \<open>Patches\<close>

definition is_terminal_state :: "FlowNodeState \<Rightarrow> bool" where
  "is_terminal_state s \<longleftrightarrow>
     s \<in> {Flow_Succeeded, Flow_Failed, Flow_Blocked, Flow_Skipped, Flow_Degraded, Flow_Replayed}"

definition parse_depends_on :: "string option \<Rightarrow> string list" where
  "parse_depends_on raw =
     (case raw of
        None \<Rightarrow> []
      | Some v \<Rightarrow> filter (\<lambda>part. part \<noteq> []) (map trim (split_on (CHR '','') v)))"

fun position :: "('a \<Rightarrow> bool) \<Rightarrow> 'a list \<Rightarrow> nat option" where
  "position p [] = None"
| "position p (x # xs) = (if p x then Some 0 else map_option Suc (position p xs))"

definition with_flags :: "(string \<times> string) list \<Rightarrow> FlowStateFlags \<Rightarrow> FlowStateFlags" where
  "with_flags metadata flags =
     (let set = (\<lambda>key old. case map_of metadata key of Some v \<Rightarrow> v | None \<Rightarrow> old)
      in \<lparr> ff_side_effect_state = set ''side_effect_state'' (ff_side_effect_state flags),
           ff_budget_state = set ''budget_state'' (ff_budget_state flags),
           ff_trigger_state = set ''trigger_state'' (ff_trigger_state flags) \<rparr>)"

definition node_of_patch :: "FlowStatePatch \<Rightarrow> FlowNodeRecord" where
  "node_of_patch patch =
     (let metadata = fp_metadata patch; now = fp_updated_at_ms patch
      in \<lparr> fn_node_id = fp_node_id patch,
           fn_task_id = (case map_of metadata ''task_id'' of
                           Some v \<Rightarrow> v | None \<Rightarrow> fp_node_id patch),
           fn_capability_id = (case map_of metadata ''capability_id'' of
                                 Some v \<Rightarrow> v | None \<Rightarrow> ''capability:unknown''),
           fn_state = fp_to patch,
           fn_depends_on = parse_depends_on (map_of metadata ''depends_on''),
           fn_started_at_ms = (if fp_to patch = Flow_Running then Some now else None),
           fn_ended_at_ms = (if is_terminal_state (fp_to patch) then Some now else None),
           fn_flags = with_flags metadata default_flow_flags,
           fn_metadata = [] \<rparr>)"

definition patch_node :: "FlowStatePatch \<Rightarrow> FlowNodeRecord \<Rightarrow> FlowNodeRecord" where
  "patch_node patch node =
     (let now = fp_updated_at_ms patch;
          node = (case fp_from patch of
                    Some expected_from \<Rightarrow>
                      if expected_from \<noteq> fn_state node then
                        node\<lparr> fn_metadata := btree_insert ''transition_warning''
                          (''state mismatch before patch: expected='' @ debug_flow expected_from @
                           '', actual='' @ debug_flow (fn_state node)) (fn_metadata node) \<rparr>
                      else node
                  | None \<Rightarrow> node);
          node = node\<lparr> fn_state := fp_to patch \<rparr>;
          node = (if fp_to patch = Flow_Running \<and> fn_started_at_ms node = None
                  then node\<lparr> fn_started_at_ms := Some now \<rparr> else node);
          node = (if is_terminal_state (fp_to patch)
                  then node\<lparr> fn_ended_at_ms := Some now \<rparr> else node);
          node = node\<lparr> fn_flags := with_flags (fp_metadata patch) (fn_flags node) \<rparr>
      in node\<lparr> fn_metadata := fold (\<lambda>(k, v). btree_insert k v) (fp_metadata patch)
                               (fn_metadata node) \<rparr>)"

definition session_of_patch :: "KnowledgeTable \<Rightarrow> FlowStatePatch \<Rightarrow> string" where
  "session_of_patch db patch =
     (case map_of (fp_metadata patch) ''session_id'' of
        Some session \<Rightarrow> session
      | None \<Rightarrow>
          (case get_knowledge db (flow_index_key (fp_flow_id patch)) of
             Some rec \<Rightarrow> kr_value rec
           | None \<Rightarrow>
               (case parse_session_from_flow_id (fp_flow_id patch) of
                  Some session \<Rightarrow> session
                | None \<Rightarrow> ''session:unknown'')))"

text \<open>
  The node is looked up by \<^verbatim>\<open>position\<close> and appended when absent, so the two errors after the
  lookup (\<^verbatim>\<open>failed to allocate node\<close>, \<^verbatim>\<open>failed to fetch mutable flow node\<close>) cannot occur.
\<close>

definition patched_nodes :: "FlowStatePatch \<Rightarrow> FlowNodeRecord list \<Rightarrow> FlowNodeRecord list" where
  "patched_nodes patch nodes =
     (let (nodes, node_index) =
            (case position (\<lambda>node. fn_node_id node = fp_node_id patch) nodes of
               Some i \<Rightarrow> (nodes, i)
             | None \<Rightarrow> (nodes @ [node_of_patch patch], length nodes))
      in nodes[node_index := patch_node patch (nodes ! node_index)])"

definition patched_map :: "string \<Rightarrow> FlowStatePatch \<Rightarrow> FlowMapSnapshot \<Rightarrow> FlowMapSnapshot" where
  "patched_map session_id patch snapshot =
     (let snapshot = (if fm_flow_id snapshot = [] then snapshot\<lparr> fm_flow_id := fp_flow_id patch \<rparr>
                      else snapshot);
          snapshot = (if fm_flow_id snapshot \<noteq> fp_flow_id patch
                      then snapshot\<lparr> fm_flow_id := fp_flow_id patch \<rparr> else snapshot);
          snapshot = snapshot\<lparr> fm_nodes := patched_nodes patch (fm_nodes snapshot) \<rparr>;
          snapshot = snapshot\<lparr> fm_updated_at_ms := fp_updated_at_ms patch \<rparr>;
          snapshot = (if fm_plan_id snapshot = []
                      then snapshot\<lparr> fm_plan_id := ''plan:runtime'' \<rparr> else snapshot)
      in (if fm_run_id snapshot = []
          then snapshot\<lparr> fm_run_id := ''run:'' @ session_id @ '':active'' \<rparr> else snapshot))"

definition apply_patch ::
    "serde \<Rightarrow> 64 word \<Rightarrow> KnowledgeTable \<Rightarrow> FlowStatePatch \<Rightarrow> KnowledgeTable \<times> unit result" where
  "apply_patch se now db patch =
     (let session_id = session_of_patch db patch
      in (case fetch_flow_map se db session_id of
            Inl e \<Rightarrow> (db, Inl e)
          | Inr found \<Rightarrow>
              (let snapshot = (case found of Some s \<Rightarrow> s | None \<Rightarrow> default_flow_map now session_id);
                   snapshot = patched_map session_id patch snapshot
               in (case upsert_flow_map se db snapshot of
                     (db, Inl e) \<Rightarrow> (db, Inl e)
                   | (db, Inr _) \<Rightarrow>
                       write_all upsert_knowledge db
                         [(flow_patch_key session_id (fp_flow_id patch) (fp_node_id patch)
                             (fp_updated_at_ms patch), patch_to_string se patch, FLOW_SCOPE)]))))"

section \<open>Runtime updates\<close>

text \<open>
  The update reads the map to find the state the task is in; the \<^verbatim>\<open>Pending\<close> node it makes for a
  task it does not find stays in its own copy of the map.
\<close>

definition from_state_of :: "string \<Rightarrow> FlowMapSnapshot \<Rightarrow> FlowNodeState" where
  "from_state_of task_id snapshot =
     (case position (\<lambda>node. fn_node_id node = task_id) (fm_nodes snapshot) of
        Some i \<Rightarrow> fn_state (fm_nodes snapshot ! i)
      | None \<Rightarrow> Flow_Pending)"

definition insert_opt ::
    "string \<Rightarrow> string option \<Rightarrow> (string \<times> string) list \<Rightarrow> (string \<times> string) list" where
  "insert_opt key x m = (case x of Some v \<Rightarrow> btree_insert key v m | None \<Rightarrow> m)"

definition update_metadata :: "FlowRuntimeUpdate \<Rightarrow> (string \<times> string) list" where
  "update_metadata update =
     (let metadata = fu_metadata update;
          metadata = btree_insert ''session_id'' (fu_session_id update) metadata;
          metadata = btree_insert ''trace_id'' (fu_trace_id update) metadata;
          metadata = btree_insert ''task_id'' (fu_task_id update) metadata;
          metadata = btree_insert ''capability_id'' (fu_capability_id update) metadata;
          metadata = insert_opt ''side_effect_state'' (fu_side_effect_state update) metadata;
          metadata = insert_opt ''budget_state'' (fu_budget_state update) metadata
      in insert_opt ''trigger_state'' (fu_trigger_state update) metadata)"

definition patch_of_update :: "64 word \<Rightarrow> FlowNodeState \<Rightarrow> FlowRuntimeUpdate \<Rightarrow> FlowStatePatch" where
  "patch_of_update now from_state update =
     (let metadata = update_metadata update
      in \<lparr> fp_flow_id = flow_id_for_session (fu_session_id update),
           fp_node_id = fu_task_id update,
           fp_from = Some from_state,
           fp_to = (case fu_state update of Some s \<Rightarrow> s | None \<Rightarrow> from_state),
           fp_reason = fu_reason update,
           fp_trace_id = (case map_of metadata ''trace_id'' of
                            Some t \<Rightarrow> t | None \<Rightarrow> ''trace:unknown''),
           fp_updated_at_ms = now,
           fp_metadata = metadata \<rparr>)"

definition apply_runtime_update ::
    "serde \<Rightarrow> (nat \<Rightarrow> 64 word) \<Rightarrow> KnowledgeTable \<Rightarrow> FlowRuntimeUpdate \<Rightarrow>
     KnowledgeTable \<times> unit result" where
  "apply_runtime_update se now db update =
     (case fetch_flow_map se db (fu_session_id update) of
        Inl e \<Rightarrow> (db, Inl e)
      | Inr found \<Rightarrow>
          (let snapshot = (case found of
                             Some s \<Rightarrow> s | None \<Rightarrow> default_flow_map (now 0) (fu_session_id update));
               from_state = from_state_of (fu_task_id update) snapshot
           in apply_patch se (now 2) db (patch_of_update (now 1) from_state update)))"

definition set_budget_state ::
    "serde \<Rightarrow> (nat \<Rightarrow> 64 word) \<Rightarrow> KnowledgeTable \<Rightarrow> string \<Rightarrow> string \<Rightarrow> string \<Rightarrow> string \<Rightarrow>
     string \<Rightarrow> string \<Rightarrow> KnowledgeTable \<times> unit result" where
  "set_budget_state se now db session_id trace_id task_id capability_id budget_state reason =
     apply_runtime_update se now db
       \<lparr> fu_session_id = session_id, fu_trace_id = trace_id, fu_task_id = task_id,
         fu_capability_id = capability_id, fu_state = None, fu_reason = reason,
         fu_side_effect_state = None, fu_budget_state = Some budget_state,
         fu_trigger_state = None, fu_metadata = [] \<rparr>"


section \<open>The nodes of a map\<close>

lemma patched_nodes_simps [simp]:
  "patched_nodes patch [] = [patch_node patch (node_of_patch patch)]"
  "patched_nodes patch (n # ns) =
     (if fn_node_id n = fp_node_id patch then patch_node patch n # ns
      else n # patched_nodes patch ns)"
  by (auto simp: patched_nodes_def split: option.split)

lemma patch_node_simps [simp]:
  "fn_node_id (patch_node patch n) = fn_node_id n"
  "fn_state (patch_node patch n) = fp_to patch"
  by (simp_all add: patch_node_def Let_def split: option.split)

lemma node_of_patch_simps [simp]:
  "fn_node_id (node_of_patch patch) = fp_node_id patch" "fn_state (node_of_patch patch) = fp_to patch"
  "fn_metadata (node_of_patch patch) = []"
  by (simp_all add: node_of_patch_def Let_def)

abbreviation find_node :: "string \<Rightarrow> FlowNodeRecord list \<Rightarrow> FlowNodeRecord option" where
  "find_node task \<equiv> find (\<lambda>n. fn_node_id n = task)"

lemma find_patched_nodes:
  "find_node task (patched_nodes patch nodes) =
     (if task = fp_node_id patch
      then Some (patch_node patch (case find_node task nodes of
                                     Some n \<Rightarrow> n | None \<Rightarrow> node_of_patch patch))
      else find_node task nodes)"
  by (induction nodes) auto

lemma patched_nodes_ids:
  "fn_node_id ` set (patched_nodes patch nodes) = insert (fp_node_id patch) (fn_node_id ` set nodes)"
  by (induction nodes) auto

lemma patched_nodes_distinct:
  "distinct (map fn_node_id nodes) \<Longrightarrow> distinct (map fn_node_id (patched_nodes patch nodes))"
proof (induction nodes)
  case (Cons n ns)
  then show ?case using patched_nodes_ids [of patch ns] by auto
qed simp

lemma from_state_of_find:
  "from_state_of task snapshot =
     (case find_node task (fm_nodes snapshot) of Some n \<Rightarrow> fn_state n | None \<Rightarrow> Flow_Pending)"
proof -
  have "(case position (\<lambda>n. fn_node_id n = task) nodes of
           Some i \<Rightarrow> fn_state (nodes ! i) | None \<Rightarrow> Flow_Pending) =
        (case find_node task nodes of Some n \<Rightarrow> fn_state n | None \<Rightarrow> Flow_Pending)" for nodes
    by (induction nodes) (auto split: option.splits)
  then show ?thesis by (simp add: from_state_of_def)
qed

section \<open>The map in the table\<close>

lemma flow_map_key_eq [simp]: "flow_map_key s = flow_map_key t \<longleftrightarrow> s = t"
  by (simp add: flow_map_key_def)

lemmas flow_keys = flow_map_key_def flow_index_key_def flow_patch_key_def node_state_key_def
  side_effect_key_def budget_state_key_def trigger_state_key_def

lemma not_evidence [simp]:
  "\<not> evidence_key (flow_map_key s)" "\<not> evidence_key (flow_index_key s)"
  "\<not> evidence_key (flow_patch_key s f n t)" "\<not> evidence_key (node_state_key s n)"
  "\<not> evidence_key (side_effect_key s n)" "\<not> evidence_key (budget_state_key s n)"
  "\<not> evidence_key (trigger_state_key s n)"
  by (simp_all add: flow_keys)

lemma map_key_apart [simp]:
  "flow_map_key s \<noteq> flow_index_key f" "flow_map_key s \<noteq> flow_patch_key s' f n t"
  "flow_map_key s \<noteq> node_state_key s' n" "flow_map_key s \<noteq> side_effect_key s' n"
  "flow_map_key s \<noteq> budget_state_key s' n" "flow_map_key s \<noteq> trigger_state_key s' n"
  by (simp_all add: flow_keys)

lemma node_views_writes:
  "list_all (\<lambda>w. \<not> evidence_key (fst w) \<and> (\<forall>s. fst w \<noteq> flow_map_key s))
     (persist_node_views se snapshot node)"
  by (simp add: persist_node_views_def Let_def map_key_apart [symmetric])

lemma flow_map_writes_tail:
  "\<exists>ws. flow_map_writes se snapshot =
          (flow_map_key (fm_session_id snapshot), map_to_string se snapshot, FLOW_SCOPE) # ws \<and>
        list_all (\<lambda>w. \<not> evidence_key (fst w)) ws \<and>
        (\<forall>s. flow_map_key s \<notin> fst ` set ws)"
  using node_views_writes [of se snapshot]
  by (fastforce simp: flow_map_writes_def list_all_iff)

lemma upsert_flow_map_stores:
  obtains db' r where "upsert_flow_map se db snapshot = (db', Ok ())"
    "kr_value r = map_to_string se snapshot"
    "\<And>s. get_knowledge db' (flow_map_key s) =
       (if s = fm_session_id snapshot then Some r else get_knowledge db (flow_map_key s))"
proof -
  obtain ws where ws: "flow_map_writes se snapshot =
          (flow_map_key (fm_session_id snapshot), map_to_string se snapshot, FLOW_SCOPE) # ws"
      "list_all (\<lambda>w. \<not> evidence_key (fst w)) ws" "\<forall>s. flow_map_key s \<notin> fst ` set ws"
    using flow_map_writes_tail by blast
  obtain db1 r where r: "upsert_knowledge db (flow_map_key (fm_session_id snapshot))
        (map_to_string se snapshot) FLOW_SCOPE = (db1, Ok r)" "kr_value r = map_to_string se snapshot"
      "get_knowledge db1 = (get_knowledge db)(flow_map_key (fm_session_id snapshot) \<mapsto> r)"
    using knowledge.accepts [of "flow_map_key (fm_session_id snapshot)"] by fastforce
  obtain db' where "write_all upsert_knowledge db1 ws = (db', Ok ())"
      "\<And>key. key \<notin> fst ` set ws \<Longrightarrow> get_knowledge db' key = get_knowledge db1 key"
    using knowledge.writes_succeed [OF ws(2)] by metis
  then show thesis
    using that [of db' r] ws r by (simp add: upsert_flow_map_def)
qed

section \<open>The flow store\<close>

text \<open>Every stored map parses, is stored under its own session and lists a task once.\<close>

abbreviation stored_map_ok :: "string \<Rightarrow> FlowMapSnapshot option result \<Rightarrow> bool" where
  "stored_map_ok session_id fetched \<equiv>
     (case fetched of
        Inl _ \<Rightarrow> False
      | Inr None \<Rightarrow> True
      | Inr (Some snapshot) \<Rightarrow> fm_session_id snapshot = session_id \<and>
                            distinct (map fn_node_id (fm_nodes snapshot)))"

definition flow_store_ok :: "serde \<Rightarrow> KnowledgeTable \<Rightarrow> bool" where
  "flow_store_ok se db \<longleftrightarrow> (\<forall>s. stored_map_ok s (fetch_flow_map se db s))"

text \<open>The abstract views: of each session the nodes of its tasks, and their states.\<close>

definition flow_node :: "serde \<Rightarrow> KnowledgeTable \<Rightarrow> string \<Rightarrow> string \<rightharpoonup> FlowNodeRecord" where
  "flow_node se db session_id task =
     (case fetch_flow_map se db session_id of
        Inr (Some snapshot) \<Rightarrow> find_node task (fm_nodes snapshot)
      | _ \<Rightarrow> None)"

definition node_states :: "serde \<Rightarrow> KnowledgeTable \<Rightarrow> string \<Rightarrow> string \<rightharpoonup> FlowNodeState" where
  "node_states se db session_id task = map_option fn_state (flow_node se db session_id task)"

lemma flow_store_ok_cases:
  assumes "flow_store_ok se db"
  obtains "fetch_flow_map se db s = Inr None"
  | snapshot where "fetch_flow_map se db s = Inr (Some snapshot)" "fm_session_id snapshot = s"
      "distinct (map fn_node_id (fm_nodes snapshot))"
proof -
  have "stored_map_ok s (fetch_flow_map se db s)"
    using assms by (simp add: flow_store_ok_def)
  then show thesis
    using that by (cases "fetch_flow_map se db s") (auto split: option.splits)
qed

abbreviation found_or_default :: "64 word \<Rightarrow> string \<Rightarrow> FlowMapSnapshot option \<Rightarrow> FlowMapSnapshot" where
  "found_or_default now s found \<equiv>
     (case found of Some snapshot \<Rightarrow> snapshot | None \<Rightarrow> default_flow_map now s)"

lemma patched_map_simps [simp]:
  "fm_session_id (patched_map s patch snapshot) = fm_session_id snapshot"
  "fm_nodes (patched_map s patch snapshot) = patched_nodes patch (fm_nodes snapshot)"
  by (simp_all add: patched_map_def Let_def)

lemma default_flow_map_simps [simp]:
  "fm_session_id (default_flow_map now s) = s" "fm_nodes (default_flow_map now s) = []"
  by (simp_all add: default_flow_map_def)

text \<open>A patch on a good store succeeds and replaces the map of its session.\<close>

lemma apply_patch_stores:
  assumes "serde_roundtrip se" "flow_store_ok se db"
      and "fetch_flow_map se db (session_of_patch db patch) = Inr found"
  obtains db' where "apply_patch se now db patch = (db', Ok ())"
    "\<And>s. fetch_flow_map se db' s =
       (if s = session_of_patch db patch
        then Inr (Some (patched_map s patch (found_or_default now s found)))
        else fetch_flow_map se db s)"
proof -
  let ?s = "session_of_patch db patch"
  let ?m = "patched_map ?s patch (found_or_default now ?s found)"
  have sid: "fm_session_id ?m = ?s"
    using flow_store_ok_cases [OF assms(2), of ?s] assms(3) by (auto split: option.split)
  obtain db1 r where 1: "upsert_flow_map se db ?m = (db1, Ok ())" "kr_value r = map_to_string se ?m"
      "\<And>s. get_knowledge db1 (flow_map_key s) =
         (if s = ?s then Some r else get_knowledge db (flow_map_key s))"
    using upsert_flow_map_stores [of se db ?m] sid by metis
  let ?ws = "[(flow_patch_key ?s (fp_flow_id patch) (fp_node_id patch) (fp_updated_at_ms patch),
               patch_to_string se patch, FLOW_SCOPE)]"
  have "list_all (\<lambda>w. \<not> evidence_key (fst w)) ?ws" by simp
  then obtain db' where w: "write_all upsert_knowledge db1 ?ws = (db', Ok ())"
      "\<And>key. key \<notin> fst ` set ?ws \<Longrightarrow> get_knowledge db' key = get_knowledge db1 key"
    by (rule knowledge.writes_succeed) blast
  then have 2: "write_all upsert_knowledge db1 ?ws = (db', Ok ())"
      "\<And>s. get_knowledge db' (flow_map_key s) = get_knowledge db1 (flow_map_key s)"
    by simp_all
  show thesis
  proof (rule that [of db'])
    show "apply_patch se now db patch = (db', Ok ())"
      using assms(3) 1(1) 2(1) by (simp add: apply_patch_def Let_def)
    show "fetch_flow_map se db' s =
       (if s = ?s then Inr (Some (patched_map s patch (found_or_default now s found)))
        else fetch_flow_map se db s)" for s
      using assms(1) 1 2(2) by (auto simp: fetch_flow_map_def serde_roundtrip_def)
  qed
qed


text \<open>The metadata of an update always names its session, so the patch goes to that session.\<close>

lemma map_of_insert_opt [simp]:
  "map_of (insert_opt k x m) = (case x of Some v \<Rightarrow> (map_of m)(k \<mapsto> v) | None \<Rightarrow> map_of m)"
  by (simp add: insert_opt_def split: option.split)

lemma update_metadata_lookup:
  "map_of (update_metadata u) ''session_id'' = Some (fu_session_id u)"
  "map_of (update_metadata u) ''transition_warning'' = map_of (fu_metadata u) ''transition_warning''"
  "fu_budget_state u = Some b \<Longrightarrow> map_of (update_metadata u) ''budget_state'' = Some b"
  by (simp_all add: update_metadata_def Let_def split: option.split)

lemma patch_of_update_simps [simp]:
  "fp_node_id (patch_of_update now f u) = fu_task_id u"
  "fp_from (patch_of_update now f u) = Some f"
  "fp_to (patch_of_update now f u) = (case fu_state u of Some s \<Rightarrow> s | None \<Rightarrow> f)"
  "fp_metadata (patch_of_update now f u) = update_metadata u"
  by (simp_all add: patch_of_update_def Let_def)

lemma session_of_update [simp]: "session_of_patch db (patch_of_update now f u) = fu_session_id u"
  by (simp add: session_of_patch_def update_metadata_lookup)

abbreviation present_state ::
    "serde \<Rightarrow> KnowledgeTable \<Rightarrow> FlowRuntimeUpdate \<Rightarrow> FlowNodeState" where
  "present_state se db u \<equiv>
     (case node_states se db (fu_session_id u) (fu_task_id u) of Some s \<Rightarrow> s | None \<Rightarrow> Flow_Pending)"

text \<open>What an update does to the store, seen node by node.\<close>

lemma apply_runtime_update_nodes:
  assumes "serde_roundtrip se" "flow_store_ok se db"
  obtains db' where "apply_runtime_update se now db u = (db', Ok ())" "flow_store_ok se db'"
    "\<And>s task. flow_node se db' s task =
       (if s = fu_session_id u \<and> task = fu_task_id u
        then let patch = patch_of_update (now 1) (present_state se db u) u
             in Some (patch_node patch (case flow_node se db s task of
                        Some n \<Rightarrow> n | None \<Rightarrow> node_of_patch patch))
        else flow_node se db s task)"
proof -
  let ?s = "fu_session_id u"
  let ?patch = "patch_of_update (now 1) (present_state se db u) u"
  obtain found where found: "fetch_flow_map se db ?s = Inr found"
    using flow_store_ok_cases [OF assms(2), of ?s] by metis
  have nodes: "find_node task (fm_nodes (found_or_default t ?s found)) = flow_node se db ?s task"
    for task t
    using found by (simp add: flow_node_def split: option.split)
  have from_state: "from_state_of (fu_task_id u) (found_or_default (now 0) ?s found) = present_state se db u"
    unfolding from_state_of_find nodes node_states_def by (simp split: option.split)
  obtain db' where db': "apply_patch se (now 2) db ?patch = (db', Ok ())"
      "\<And>s. fetch_flow_map se db' s =
         (if s = ?s then Inr (Some (patched_map s ?patch (found_or_default (now 2) s found)))
          else fetch_flow_map se db s)"
    using apply_patch_stores [OF assms, of ?patch found "now 2"] found by simp metis
  show thesis
  proof (rule that)
    show "apply_runtime_update se now db u = (db', Ok ())"
      using found from_state db'(1) by (simp add: apply_runtime_update_def Let_def)
    have "stored_map_ok s (fetch_flow_map se db' s)" for s
    proof -
      have "stored_map_ok s (fetch_flow_map se db s)"
        using assms(2) by (simp add: flow_store_ok_def)
      then show ?thesis
        using found
        by (cases "s = ?s") (auto simp: db'(2) patched_nodes_distinct split: option.splits)
    qed
    then show "flow_store_ok se db'" by (simp add: flow_store_ok_def)
    show "flow_node se db' s task =
       (if s = ?s \<and> task = fu_task_id u
        then let patch = ?patch
             in Some (patch_node patch (case flow_node se db s task of
                        Some n \<Rightarrow> n | None \<Rightarrow> node_of_patch patch))
        else flow_node se db s task)" for s task
      using nodes
      by (cases "s = ?s") (simp_all add: flow_node_def [of se db'] flow_node_def [of se db s] db'(2)
                             find_patched_nodes Let_def)
  qed
qed


section \<open>A codec for examples\<close>

text \<open>
  One concrete printer and parser with the documented round trip, over the packed strings of
  \<open>Sample_Codec\<close>.
\<close>

definition unpack_state :: "string \<Rightarrow> FlowNodeState" where
  "unpack_state s = the (find (\<lambda>x. debug_flow x = s)
     [Flow_Pending, Flow_Ready, Flow_Running, Flow_Succeeded, Flow_Failed, Flow_Blocked,
      Flow_Skipped, Flow_Degraded, Flow_Replayed])"

definition pack_node :: "FlowNodeRecord \<Rightarrow> string" where
  "pack_node n = pack
     [fn_node_id n, fn_task_id n, fn_capability_id n, debug_flow (fn_state n),
      pack (fn_depends_on n), pack_time (fn_started_at_ms n), pack_time (fn_ended_at_ms n),
      ff_side_effect_state (fn_flags n), ff_budget_state (fn_flags n),
      ff_trigger_state (fn_flags n), pack (map (\<lambda>(k, v). pack [k, v]) (fn_metadata n))]"

definition unpack_node :: "string \<Rightarrow> FlowNodeRecord" where
  "unpack_node s =
     (let xs = unpack s
      in \<lparr> fn_node_id = xs ! 0, fn_task_id = xs ! 1, fn_capability_id = xs ! 2,
           fn_state = unpack_state (xs ! 3), fn_depends_on = unpack (xs ! 4),
           fn_started_at_ms = unpack_time (xs ! 5), fn_ended_at_ms = unpack_time (xs ! 6),
           fn_flags = \<lparr> ff_side_effect_state = xs ! 7, ff_budget_state = xs ! 8,
                        ff_trigger_state = xs ! 9 \<rparr>,
           fn_metadata = map (\<lambda>p. (unpack p ! 0, unpack p ! 1)) (unpack (xs ! 10)) \<rparr>)"

definition sample_serde :: serde where
  "sample_serde =
     \<lparr> map_to_string = (\<lambda>m. pack
         [fm_flow_id m, fm_session_id m, fm_plan_id m, fm_run_id m,
          pack (map pack_node (fm_nodes m)), show_word (fm_updated_at_ms m)]),
       map_from_str = (\<lambda>s. let xs = unpack s in
         if length xs \<noteq> 6 then Inl ''bad flow map''
         else Inr \<lparr> fm_flow_id = xs ! 0, fm_session_id = xs ! 1, fm_plan_id = xs ! 2,
                    fm_run_id = xs ! 3, fm_nodes = map unpack_node (unpack (xs ! 4)),
                    fm_updated_at_ms = the (parse_word (xs ! 5)) \<rparr>),
       patch_to_string = (\<lambda>p. fp_node_id p),
       value_to_string = (\<lambda>v. ''view'') \<rparr>"

lemma unpack_state [simp]: "unpack_state (debug_flow s) = s"
  by (cases s) (simp_all add: unpack_state_def)

lemma unpack_node [simp]: "unpack_node (pack_node n) = n"
  by (simp add: unpack_node_def pack_node_def Let_def comp_def case_prod_beta)

lemma sample_serde_roundtrip: "serde_roundtrip sample_serde"
  by (simp add: serde_roundtrip_def sample_serde_def comp_def)

lemma empty_flow_store: "flow_store_ok se \<lparr> kt_knowledge = [], kt_next_id = 0 \<rparr>"
  by (simp add: flow_store_ok_def fetch_flow_map_def get_knowledge_def)

section \<open>What runtime updates do\<close>

text \<open>
  A runtime update never fails on a store whose flow maps are good, and leaves them good:
  every stored map parses, is stored under the session it names and lists no task twice,
  whatever the update's session, task, state and metadata.
\<close>

lemma runtime_update_keeps_flow_store:
  assumes "serde_roundtrip se" "flow_store_ok se db"
  shows "\<exists>db'. apply_runtime_update se now db u = (db', Ok ()) \<and> flow_store_ok se db'"
  by (rule apply_runtime_update_nodes [OF assms, of now u]) blast

definition sample_update :: FlowRuntimeUpdate where
  "sample_update =
     \<lparr> fu_session_id = ''s'', fu_trace_id = ''t'', fu_task_id = ''task'', fu_capability_id = ''c'',
       fu_state = Some Flow_Succeeded, fu_reason = ''done'', fu_side_effect_state = None,
       fu_budget_state = None, fu_trigger_state = None, fu_metadata = [] \<rparr>"

abbreviation empty_table :: KnowledgeTable where
  "empty_table \<equiv> \<lparr> kt_knowledge = [], kt_next_id = 0 \<rparr>"

lemma runtime_update_keeps_flow_store_example:
  "\<exists>db'. apply_runtime_update sample_serde (\<lambda>_. 5) empty_table sample_update = (db', Ok ()) \<and>
         flow_store_ok sample_serde db'"
  by (rule runtime_update_keeps_flow_store [OF sample_serde_roundtrip empty_flow_store])

text \<open>
  C19: Seen through its contract, a map from sessions and tasks to states, a runtime update sets
  the state of its own task in its own session, to the state it names or, when it names none, to
  the one the task has (\<^verbatim>\<open>Pending\<close> for a task not seen before), and changes nothing else.
\<close>

theorem runtime_update_refines_state_map:
  assumes "serde_roundtrip se" "flow_store_ok se db"
  shows "node_states se (fst (apply_runtime_update se now db u)) =
     (node_states se db)(fu_session_id u :=
        (node_states se db (fu_session_id u))(fu_task_id u \<mapsto>
          (case fu_state u of Some s \<Rightarrow> s | None \<Rightarrow> present_state se db u)))"
  by (rule apply_runtime_update_nodes [OF assms, of now u])
     (auto simp: fun_eq_iff node_states_def Let_def split: option.split)

theorem runtime_update_refines_state_map_witness:
  "node_states sample_serde
     (fst (apply_runtime_update sample_serde (\<lambda>_. 5) empty_table sample_update)) =
   (node_states sample_serde empty_table)(''s'' :=
      (node_states sample_serde empty_table ''s'')(''task'' \<mapsto> Flow_Succeeded))"
  using runtime_update_refines_state_map [OF sample_serde_roundtrip empty_flow_store,
      of "\<lambda>_. 5" sample_update]
  by (simp add: sample_update_def)

definition transition_warning :: "serde \<Rightarrow> KnowledgeTable \<Rightarrow> string \<Rightarrow> string \<Rightarrow> string option" where
  "transition_warning se db session_id task =
     (case flow_node se db session_id task of
        None \<Rightarrow> None | Some n \<Rightarrow> map_of (fn_metadata n) ''transition_warning'')"

lemma map_of_fold_btree_insert:
  "map_of md k = None \<Longrightarrow> map_of (fold (\<lambda>(k, v). btree_insert k v) md m) k = map_of m k"
  by (induction md arbitrary: m) (auto split: if_splits)

lemma patch_node_warning:
  assumes "map_of (fp_metadata patch) ''transition_warning'' = None" "fp_from patch = Some f"
  shows "map_of (fn_metadata (patch_node patch n)) ''transition_warning'' =
     (if f = fn_state n then map_of (fn_metadata n) ''transition_warning''
      else Some (''state mismatch before patch: expected='' @ debug_flow f @ '', actual='' @
                 debug_flow (fn_state n)))"
  using assms by (simp add: patch_node_def Let_def map_of_fold_btree_insert)

text \<open>
  The warning of a state mismatch is written for exactly the wrong updates: the first update
  of a task, when it brings any state but \<^verbatim>\<open>Pending\<close>, always records a mismatch with the state
  that same update has just given the new node, and no later update ever records one.
\<close>

lemma first_update_warns_of_itself:
  assumes "serde_roundtrip se" "flow_store_ok se db"
      and "map_of (fu_metadata u) ''transition_warning'' = None"
  shows "transition_warning se (fst (apply_runtime_update se now db u))
           (fu_session_id u) (fu_task_id u) =
     (if flow_node se db (fu_session_id u) (fu_task_id u) = None \<and>
         fu_state u \<noteq> None \<and> fu_state u \<noteq> Some Flow_Pending
      then Some (''state mismatch before patch: expected=Pending, actual='' @
                 debug_flow (the (fu_state u)))
      else transition_warning se db (fu_session_id u) (fu_task_id u))"
proof (rule apply_runtime_update_nodes [OF assms(1,2), of now u])
  fix db'
  assume run: "apply_runtime_update se now db u = (db', Ok ())"
    and nodes: "\<And>s task. flow_node se db' s task =
       (if s = fu_session_id u \<and> task = fu_task_id u
        then let patch = patch_of_update (now 1) (present_state se db u) u
             in Some (patch_node patch (case flow_node se db s task of
                        Some n \<Rightarrow> n | None \<Rightarrow> node_of_patch patch))
        else flow_node se db s task)"
  have meta: "map_of (update_metadata u) ''transition_warning'' = None"
    using assms(3) by (simp add: update_metadata_lookup)
  show ?thesis
    using run meta
    by (auto simp: transition_warning_def nodes Let_def patch_node_warning node_states_def
             split: option.splits)
qed

lemma first_update_warns_of_itself_example:
  "transition_warning sample_serde
     (fst (apply_runtime_update sample_serde (\<lambda>_. 5) empty_table sample_update)) ''s'' ''task'' =
   Some ''state mismatch before patch: expected=Pending, actual=Succeeded''"
  using first_update_warns_of_itself [OF sample_serde_roundtrip empty_flow_store,
      of sample_update "\<lambda>_. 5"]
  by (simp add: sample_update_def flow_node_def fetch_flow_map_def get_knowledge_def)

text \<open>
  \<^verbatim>\<open>set_budget_state\<close> records the budget state in the flags of its task and leaves the task's
  state as it is; a task not seen before is added as \<^verbatim>\<open>Pending\<close>.
\<close>

lemma set_budget_state_only_sets_the_flag:
  assumes "serde_roundtrip se" "flow_store_ok se db"
  shows "map_option (\<lambda>n. (ff_budget_state (fn_flags n), fn_state n))
     (flow_node se (fst (set_budget_state se now db session trace task capability budget reason))
        session task) =
     Some (budget, case node_states se db session task of Some s \<Rightarrow> s | None \<Rightarrow> Flow_Pending)"
proof -
  let ?u = "\<lparr> fu_session_id = session, fu_trace_id = trace, fu_task_id = task,
         fu_capability_id = capability, fu_state = None, fu_reason = reason,
         fu_side_effect_state = None, fu_budget_state = Some budget,
         fu_trigger_state = None, fu_metadata = [] \<rparr>"
  have flags: "ff_budget_state (fn_flags (patch_node patch n)) = budget"
    if "map_of (fp_metadata patch) ''budget_state'' = Some budget" for patch n
    using that by (simp add: patch_node_def with_flags_def Let_def)
  show ?thesis
    by (rule apply_runtime_update_nodes [OF assms, of now ?u])
       (simp add: set_budget_state_def flags update_metadata_lookup Let_def)
qed

lemma set_budget_state_only_sets_the_flag_example:
  "map_option (\<lambda>n. (ff_budget_state (fn_flags n), fn_state n))
     (flow_node sample_serde
        (fst (set_budget_state sample_serde (\<lambda>_. 5) empty_table ''s'' ''t'' ''task'' ''c''
                ''reserved'' ''why'')) ''s'' ''task'') =
   Some (''reserved'', Flow_Pending)"
  using set_budget_state_only_sets_the_flag [OF sample_serde_roundtrip empty_flow_store,
      of "\<lambda>_. 5" "''s''" "''t''" "''task''" "''c''" "''reserved''" "''why''"]
  by (simp add: node_states_def flow_node_def fetch_flow_map_def get_knowledge_def)

text \<open>
  The views of a node are not keyed one to one: tasks whose ids differ in a character outside the
  allowed ones, and a session and task cut at another colon, write the same view.
\<close>

lemma node_views_collide:
  "budget_state_key session ''a/b'' = budget_state_key session ''a-b''"
  "budget_state_key ''s:a'' ''b'' = budget_state_key ''s'' ''a:b''"
  by (simp_all add: budget_state_key_def sanitize_key_part_def cont_def ascii_alphanumeric_def
                    byte_def)

end
