(* ===== verification/Checkpoint.thy ===== *)
theory Checkpoint
  imports Sample_Codec "HOL-Library.AList"
begin

text \<open>
  Session checkpoints: \<^verbatim>\<open>src/session/checkpoint.rs\<close>, \<^verbatim>\<open>src/session/runtime.rs\<close> and
  \<^verbatim>\<open>src/session/resume_runner.rs\<close>. The checkpoint directory is a map from relative paths to
  contents, on a file system that accepts every write. The serde_json crate is an argument, as
  is the standard library's \<^verbatim>\<open>DefaultHasher\<close>; the context items are opaque to this code and are a
  type variable.
\<close>

record ToolCall =
  tc_id :: string
  tc_name :: string
  tc_arguments :: string

record ChatMessage =
  cm_role :: string
  cm_content :: string
  cm_tool_call_id :: "string option"
  cm_tool_calls :: "ToolCall list option"

record SessionHistoryCompaction =
  hc_window_size :: nat
  hc_compacted_history :: "ChatMessage list"
  hc_digest :: string

record SessionRedactionSummary =
  rs_redacted_fields :: "32 word"
  rs_redaction_rules :: "string list"

record 'i SessionCheckpoint =
  sc_session_id :: string
  sc_history :: "ChatMessage list"
  sc_compaction :: SessionHistoryCompaction
  sc_updated_at_ms :: "64 word"
  sc_continuation_turn_id :: "string option"
  sc_continuation_checkpoint_token :: "string option"
  sc_context_items :: "'i list"
  sc_evidence_ref :: "string option"
  sc_redacted_compacted_history :: "ChatMessage list"
  sc_redaction_summary :: SessionRedactionSummary

record SessionCheckpointEvidenceRecord =
  ev_evidence_ref :: string
  ev_session_id :: string
  ev_updated_at_ms :: "64 word"
  ev_checkpoint_digest :: string
  ev_history_len :: nat
  ev_redacted_fields :: "32 word"
  ev_generated_at_ms :: "64 word"

text \<open>serde_json on the types above; a parser answers the error text or the value.\<close>

record 'i checkpoint_serde =
  messages_to_string :: "ChatMessage list \<Rightarrow> string"
  checkpoint_to_string :: "'i SessionCheckpoint \<Rightarrow> string"
  checkpoint_from_str :: "string \<Rightarrow> string + 'i SessionCheckpoint"
  evidence_to_string :: "SessionCheckpointEvidenceRecord \<Rightarrow> string"
  evidence_from_str :: "string \<Rightarrow> string + SessionCheckpointEvidenceRecord"

definition checkpoint_roundtrip :: "'i checkpoint_serde \<Rightarrow> bool" where
  "checkpoint_roundtrip se \<longleftrightarrow>
     (\<forall>c. checkpoint_from_str se (checkpoint_to_string se c) = Inr c) \<and>
     (\<forall>r. evidence_from_str se (evidence_to_string se r) = Inr r)"

section \<open>Compaction and digest\<close>

definition compact_history :: "'m list \<Rightarrow> nat \<Rightarrow> 'm list" where
  "compact_history history memory_window =
     drop (length history - max memory_window 1) history"

definition sanitize_session_id :: "string \<Rightarrow> string" where
  "sanitize_session_id session_id =
     (let cleaned = filter (\<lambda>c. ascii_alphanumeric c \<or> c = CHR ''-'' \<or> c = CHR ''_'') session_id
      in if cleaned = [] then ''session'' else cleaned)"

definition digest_messages ::
    "(string \<Rightarrow> 64 word) \<Rightarrow> 'i checkpoint_serde \<Rightarrow> ChatMessage list \<Rightarrow> string" where
  "digest_messages default_hash se messages = show_hex16 (default_hash (messages_to_string se messages))"

section \<open>Redaction\<close>

definition token_char :: "char \<Rightarrow> bool" where
  "token_char c \<longleftrightarrow> ascii_alphanumeric c \<or> c = CHR ''_'' \<or> c = CHR ''-''"

definition bearer_char :: "char \<Rightarrow> bool" where
  "bearer_char c \<longleftrightarrow> ascii_alphanumeric c \<or> c = CHR ''_'' \<or> c = CHR ''-'' \<or> c = CHR ''.''"

lemma find_str_end: "find_str s t = Some i \<Longrightarrow> i + length t \<le> length s"
  by (induction s t arbitrary: i rule: find_str.induct)
     (auto split: if_splits dest: prefix_length_le)

text \<open>
  \<^verbatim>\<open>replace_prefixed_token\<close> at the arguments of its only call: the prefix \<^verbatim>\<open>sk-\<close>, replaced when
  at least twelve token characters follow.
\<close>

function replace_prefixed_token :: "string \<Rightarrow> string \<times> 32 word" where
  "replace_prefixed_token content =
     (case find_str content ''sk-'' of
        None \<Rightarrow> (content, 0)
      | Some start \<Rightarrow>
          (let rest = drop (start + 3) content;
               token = takeWhile token_char rest;
               (output, replaced) = replace_prefixed_token (dropWhile token_char rest)
           in if 12 \<le> length token
              then (take start content @ ''[REDACTED_API_KEY]'' @ output, saturating_add replaced 1)
              else (take start content @ ''sk-'' @ token @ output, replaced)))"
  by pat_completeness auto
termination
  by (relation "measure length")
     (auto dest!: find_str_end intro: le_less_trans [OF length_dropWhile_le])

declare replace_prefixed_token.simps [simp del]

function redact_bearer_tokens :: "string \<Rightarrow> string \<times> 32 word" where
  "redact_bearer_tokens content =
     (case find_str content ''Bearer '' of
        None \<Rightarrow> (content, 0)
      | Some start \<Rightarrow>
          (let rest = drop (start + 7) content;
               token = takeWhile bearer_char rest;
               (output, replaced) = redact_bearer_tokens (dropWhile bearer_char rest)
           in if token \<noteq> []
              then (take (start + 7) content @ ''[REDACTED_TOKEN]'' @ output,
                    saturating_add replaced 1)
              else (take (start + 7) content @ output, replaced)))"
  by pat_completeness auto
termination
  by (relation "measure length")
     (auto dest!: find_str_end intro: le_less_trans [OF length_dropWhile_le])

declare redact_bearer_tokens.simps [simp del]

definition email_like :: "string \<Rightarrow> bool" where
  "email_like token \<longleftrightarrow> CHR ''@'' \<in> set token \<and> CHR ''.'' \<in> set token \<and> 6 \<le> length token"

definition count_saturating :: "'a list \<Rightarrow> 32 word" where
  "count_saturating xs = fold (\<lambda>_ n. saturating_add n 1) xs 0"

definition redact_email_like_tokens :: "string \<Rightarrow> string \<times> 32 word" where
  "redact_email_like_tokens content =
     (let tokens = split_whitespace content
      in (join '' '' (map (\<lambda>t. if email_like t then ''[REDACTED_EMAIL]'' else t) tokens),
          count_saturating (filter email_like tokens)))"

definition key_marker :: "string \<Rightarrow> bool" where
  "key_marker line \<longleftrightarrow>
     contains line ''BEGIN PRIVATE KEY'' \<or> contains line ''END PRIVATE KEY'' \<or>
     contains line ''BEGIN RSA PRIVATE KEY'' \<or> contains line ''END RSA PRIVATE KEY''"

definition redact_private_key_markers :: "string \<Rightarrow> string \<times> 32 word" where
  "redact_private_key_markers content =
     (join [newline] (map (\<lambda>l. if key_marker l then ''[REDACTED_KEY_MATERIAL]'' else l) (lines content)),
      count_saturating (filter key_marker (lines content)))"

text \<open>One rule of \<^verbatim>\<open>redact_sensitive_text\<close>: the text is replaced only when something changed.\<close>

definition redaction_rule ::
    "(string \<Rightarrow> string \<times> 32 word) \<Rightarrow> string \<Rightarrow> string \<times> 32 word \<times> string list \<Rightarrow>
     string \<times> 32 word \<times> string list" where
  "redaction_rule f rule = (\<lambda>(text, count, rules).
     (case f text of (nxt, changed) \<Rightarrow>
        if changed > 0 then (nxt, saturating_add count changed, rules @ [rule])
        else (text, count, rules)))"

text \<open>The four rule names are inserted in their alphabetical order, which the set keeps.\<close>

definition redact_sensitive_text :: "string \<Rightarrow> string \<times> 32 word \<times> string list" where
  "redact_sensitive_text content =
     redaction_rule redact_private_key_markers ''key_material''
       (redaction_rule redact_email_like_tokens ''email''
          (redaction_rule redact_bearer_tokens ''bearer_token''
             (redaction_rule replace_prefixed_token ''api_key'' (content, 0, []))))"

text \<open>The names of the rules that fired, collected in a \<^verbatim>\<open>BTreeSet\<close> over all messages.\<close>

definition rule_names :: "string list" where
  "rule_names = [''api_key'', ''bearer_token'', ''email'', ''key_material'']"

definition redact_messages :: "ChatMessage list \<Rightarrow> ChatMessage list \<times> SessionRedactionSummary" where
  "redact_messages messages =
     (let results = map (\<lambda>m. redact_sensitive_text (cm_content m)) messages;
          applied = concat (map (\<lambda>(_, _, rules). rules) results)
      in (map2 (\<lambda>m (content, _, _). \<lparr> cm_role = cm_role m, cm_content = content,
                  cm_tool_call_id = None, cm_tool_calls = None \<rparr>) messages results,
          \<lparr> rs_redacted_fields = fold (\<lambda>(_, count, _) n. saturating_add n count) results 0,
            rs_redaction_rules = filter (\<lambda>r. r \<in> set applied) rule_names \<rparr>))"

section \<open>The checkpoint store\<close>

text \<open>
  The files under the store's root, by their path relative to it. The names that
  \<^verbatim>\<open>sanitize_session_id\<close> leaves hold no slash and no dot, so the three kinds of path are apart.
\<close>

type_synonym checkpoint_files = "(string \<times> string) list"

definition path_for :: "string \<Rightarrow> string" where
  "path_for session_id = sanitize_session_id session_id @ ''.json''"

definition evidence_path_for :: "string \<Rightarrow> string" where
  "evidence_path_for session_id = ''evidence/'' @ sanitize_session_id session_id @ ''.json''"

definition named_path_for :: "string \<Rightarrow> string \<Rightarrow> string" where
  "named_path_for session_id snapshot_name =
     ''named/'' @ sanitize_session_id session_id @ ''/'' @ sanitize_session_id snapshot_name @ ''.json''"

definition verify_checkpoint_evidence ::
    "'i checkpoint_serde \<Rightarrow> checkpoint_files \<Rightarrow> 'i SessionCheckpoint \<Rightarrow> unit result" where
  "verify_checkpoint_evidence se fs checkpoint =
     (case sc_evidence_ref checkpoint of
        None \<Rightarrow> Ok ()
      | Some evidence_ref \<Rightarrow>
          (case map_of fs (evidence_path_for (sc_session_id checkpoint)) of
             None \<Rightarrow> Err (''checkpoint evidence missing for session '' @ [CHR 0x27] @
                         sc_session_id checkpoint @ [CHR 0x27] @ '' (ref='' @ evidence_ref @ '')'')
           | Some raw \<Rightarrow>
               (case evidence_from_str se raw of
                  Inl e \<Rightarrow> Err e
                | Inr evidence \<Rightarrow>
                    if ev_evidence_ref evidence \<noteq> evidence_ref then
                      Err (''checkpoint evidence_ref mismatch for session '' @ [CHR 0x27] @
                           sc_session_id checkpoint @ [CHR 0x27])
                    else if ev_checkpoint_digest evidence \<noteq> hc_digest (sc_compaction checkpoint) then
                      Err (''checkpoint digest mismatch for session '' @ [CHR 0x27] @
                           sc_session_id checkpoint @ [CHR 0x27])
                    else Ok ())))"

definition load_checkpoint ::
    "'i checkpoint_serde \<Rightarrow> checkpoint_files \<Rightarrow> string \<Rightarrow> 'i SessionCheckpoint option result" where
  "load_checkpoint se fs session_id =
     (case map_of fs (path_for session_id) of
        None \<Rightarrow> Ok None
      | Some raw \<Rightarrow>
          (case checkpoint_from_str se raw of
             Inl e \<Rightarrow> Err e
           | Inr checkpoint \<Rightarrow>
               (case verify_checkpoint_evidence se fs checkpoint of
                  Inl e \<Rightarrow> Inl e
                | Inr _ \<Rightarrow> Ok (Some checkpoint))))"

definition persist_evidence_record ::
    "'i checkpoint_serde \<Rightarrow> 64 word \<Rightarrow> checkpoint_files \<Rightarrow> 'i SessionCheckpoint \<Rightarrow> checkpoint_files"
  where
  "persist_evidence_record se now fs checkpoint =
     (case sc_evidence_ref checkpoint of
        None \<Rightarrow> fs
      | Some evidence_ref \<Rightarrow>
          AList.update (evidence_path_for (sc_session_id checkpoint))
            (evidence_to_string se
               \<lparr> ev_evidence_ref = evidence_ref,
                 ev_session_id = sc_session_id checkpoint,
                 ev_updated_at_ms = sc_updated_at_ms checkpoint,
                 ev_checkpoint_digest = hc_digest (sc_compaction checkpoint),
                 ev_history_len = length (sc_history checkpoint),
                 ev_redacted_fields = rs_redacted_fields (sc_redaction_summary checkpoint),
                 ev_generated_at_ms = now \<rparr>) fs)"

definition save_checkpoint ::
    "'i checkpoint_serde \<Rightarrow> 64 word \<Rightarrow> checkpoint_files \<Rightarrow> 'i SessionCheckpoint \<Rightarrow> checkpoint_files"
  where
  "save_checkpoint se now fs checkpoint =
     (let fs = AList.update (path_for (sc_session_id checkpoint))
                 (checkpoint_to_string se checkpoint) fs
      in (if sc_evidence_ref checkpoint \<noteq> None
          then persist_evidence_record se now fs checkpoint else fs))"

definition annotate_continuation ::
    "'i checkpoint_serde \<Rightarrow> 64 word \<Rightarrow> 64 word \<Rightarrow> checkpoint_files \<Rightarrow> string \<Rightarrow> string \<Rightarrow> string \<Rightarrow>
     checkpoint_files \<times> 'i SessionCheckpoint option result" where
  "annotate_continuation se now now' fs session_id turn_id checkpoint_token =
     (case load_checkpoint se fs session_id of
        Inl e \<Rightarrow> (fs, Inl e)
      | Inr None \<Rightarrow> (fs, Ok None)
      | Inr (Some checkpoint) \<Rightarrow>
          (let checkpoint = checkpoint\<lparr> sc_continuation_turn_id := Some turn_id,
                              sc_continuation_checkpoint_token := Some checkpoint_token,
                              sc_updated_at_ms := now \<rparr>
           in (save_checkpoint se now' fs checkpoint, Ok (Some checkpoint))))"

definition build_checkpoint ::
    "(string \<Rightarrow> 64 word) \<Rightarrow> 'i checkpoint_serde \<Rightarrow> 64 word \<Rightarrow> 'i SessionCheckpoint option \<Rightarrow>
     string \<Rightarrow> ChatMessage list \<Rightarrow> nat \<Rightarrow> 'i list \<Rightarrow> 'i SessionCheckpoint" where
  "build_checkpoint default_hash se now previous session_id history memory_window context_items =
     (let compacted_history = compact_history history memory_window;
          digest = digest_messages default_hash se compacted_history;
          compaction = \<lparr> hc_window_size = memory_window, hc_compacted_history = compacted_history,
                         hc_digest = digest \<rparr>;
          (redacted_compacted_history, redaction_summary) = redact_messages compacted_history;
          evidence_ref = ''session-evidence:'' @ sanitize_session_id session_id @ '':'' @
                         show_word now @ '':'' @ digest
      in \<lparr> sc_session_id = session_id,
           sc_history = history,
           sc_compaction = compaction,
           sc_updated_at_ms = now,
           sc_continuation_turn_id = Option.bind previous sc_continuation_turn_id,
           sc_continuation_checkpoint_token = Option.bind previous sc_continuation_checkpoint_token,
           sc_context_items = context_items,
           sc_evidence_ref = Some evidence_ref,
           sc_redacted_compacted_history = redacted_compacted_history,
           sc_redaction_summary = redaction_summary \<rparr>)"

definition update_history ::
    "(string \<Rightarrow> 64 word) \<Rightarrow> 'i checkpoint_serde \<Rightarrow> 64 word \<Rightarrow> 64 word \<Rightarrow> checkpoint_files \<Rightarrow> string \<Rightarrow>
     ChatMessage list \<Rightarrow> nat \<Rightarrow> 'i list \<Rightarrow> checkpoint_files \<times> 'i SessionCheckpoint" where
  "update_history default_hash se now now' fs session_id history memory_window context_items =
     (let previous = (case load_checkpoint se fs session_id of Inl _ \<Rightarrow> None | Inr c \<Rightarrow> c);
          checkpoint = build_checkpoint default_hash se now previous session_id history
                         memory_window context_items
      in (save_checkpoint se now' fs checkpoint, checkpoint))"

definition save_named_snapshot ::
    "'i checkpoint_serde \<Rightarrow> checkpoint_files \<Rightarrow> string \<Rightarrow> string \<Rightarrow> 'i SessionCheckpoint \<Rightarrow>
     checkpoint_files \<times> string" where
  "save_named_snapshot se fs session_id snapshot_name checkpoint =
     (AList.update (named_path_for session_id snapshot_name) (checkpoint_to_string se checkpoint) fs,
      named_path_for session_id snapshot_name)"

section \<open>The session runtime and the resume runner\<close>

record Session =
  ss_key :: string
  ss_history :: "ChatMessage list"

definition checkpoint_session ::
    "(string \<Rightarrow> 64 word) \<Rightarrow> 'i checkpoint_serde \<Rightarrow> 64 word \<Rightarrow> 64 word \<Rightarrow> nat \<Rightarrow> checkpoint_files \<Rightarrow>
     Session \<Rightarrow> 'i list \<Rightarrow> checkpoint_files \<times> 'i SessionCheckpoint" where
  "checkpoint_session default_hash se now now' memory_window fs session context_items =
     update_history default_hash se now now' fs (ss_key session) (ss_history session)
       memory_window context_items"

definition restore_session ::
    "'i checkpoint_serde \<Rightarrow> checkpoint_files \<Rightarrow> string \<Rightarrow> Session option result" where
  "restore_session se fs session_id =
     (case load_checkpoint se fs session_id of
        Inl e \<Rightarrow> Inl e
      | Inr None \<Rightarrow> Ok None
      | Inr (Some checkpoint) \<Rightarrow>
          Ok (Some \<lparr> ss_key = sc_session_id checkpoint, ss_history = sc_history checkpoint \<rparr>))"

definition resume_compacted_history ::
    "'i checkpoint_serde \<Rightarrow> nat \<Rightarrow> checkpoint_files \<Rightarrow> string \<Rightarrow> ChatMessage list option result" where
  "resume_compacted_history se memory_window fs session_id =
     (case load_checkpoint se fs session_id of
        Inl e \<Rightarrow> Inl e
      | Inr None \<Rightarrow> Ok None
      | Inr (Some checkpoint) \<Rightarrow>
          Ok (Some (compact_history (sc_history checkpoint) memory_window)))"

record SessionResumeSnapshot =
  rsn_session_id :: string
  rsn_recovered_messages :: nat
  rsn_compacted_history :: "ChatMessage list"
  rsn_checkpoint_digest :: string
  rsn_updated_at_ms :: "64 word"
  rsn_evidence_ref :: "string option"
  rsn_evidence_bound :: bool
  rsn_redacted_fields :: "32 word"

definition snapshot_from_checkpoint :: "'i SessionCheckpoint \<Rightarrow> SessionResumeSnapshot" where
  "snapshot_from_checkpoint checkpoint =
     \<lparr> rsn_session_id = sc_session_id checkpoint,
       rsn_recovered_messages = length (sc_history checkpoint),
       rsn_compacted_history =
         (if sc_redacted_compacted_history checkpoint = []
          then hc_compacted_history (sc_compaction checkpoint)
          else sc_redacted_compacted_history checkpoint),
       rsn_checkpoint_digest = hc_digest (sc_compaction checkpoint),
       rsn_updated_at_ms = sc_updated_at_ms checkpoint,
       rsn_evidence_ref = sc_evidence_ref checkpoint,
       rsn_evidence_bound = (sc_evidence_ref checkpoint \<noteq> None),
       rsn_redacted_fields = rs_redacted_fields (sc_redaction_summary checkpoint) \<rparr>"

definition resume ::
    "'i checkpoint_serde \<Rightarrow> checkpoint_files \<Rightarrow> string \<Rightarrow> SessionResumeSnapshot option result" where
  "resume se fs session_id =
     (case load_checkpoint se fs session_id of
        Inl e \<Rightarrow> Inl e
      | Inr c \<Rightarrow> Ok (map_option snapshot_from_checkpoint c))"

section \<open>Saving and loading\<close>

lemma sanitized_chars: "c \<in> set (sanitize_session_id s) \<Longrightarrow> c \<noteq> CHR ''/'' \<and> c \<noteq> CHR ''.''"
  by (auto simp: sanitize_session_id_def Let_def ascii_alphanumeric_def byte_def split: if_splits)

lemma path_for_eq [simp]: "path_for s = path_for t \<longleftrightarrow> sanitize_session_id s = sanitize_session_id t"
  by (simp add: path_for_def)

lemma evidence_path_for_eq [simp]:
  "evidence_path_for s = evidence_path_for t \<longleftrightarrow> sanitize_session_id s = sanitize_session_id t"
  by (simp add: evidence_path_for_def)

lemma path_not_evidence [simp]: "path_for s \<noteq> evidence_path_for t" "evidence_path_for t \<noteq> path_for s"
proof -
  have "CHR ''/'' \<notin> set (path_for s)"
    using sanitized_chars by (auto simp: path_for_def)
  moreover have "CHR ''/'' \<in> set (evidence_path_for t)"
    by (simp add: evidence_path_for_def)
  ultimately show "path_for s \<noteq> evidence_path_for t" "evidence_path_for t \<noteq> path_for s" by metis+
qed

lemma save_checkpoint_files:
  assumes "sc_evidence_ref c = Some r"
  shows "map_of (save_checkpoint se now fs c) =
     (map_of fs)(path_for (sc_session_id c) \<mapsto> checkpoint_to_string se c,
                 evidence_path_for (sc_session_id c) \<mapsto> evidence_to_string se
                   \<lparr> ev_evidence_ref = r, ev_session_id = sc_session_id c,
                     ev_updated_at_ms = sc_updated_at_ms c,
                     ev_checkpoint_digest = hc_digest (sc_compaction c),
                     ev_history_len = length (sc_history c),
                     ev_redacted_fields = rs_redacted_fields (sc_redaction_summary c),
                     ev_generated_at_ms = now \<rparr>)"
  using assms by (simp add: save_checkpoint_def persist_evidence_record_def Let_def update_conv')

text \<open>
  A loaded file names a session of its own; the files are consistent when that session shares
  the path it was loaded from, as \<^verbatim>\<open>save\<close> writes them.
\<close>

definition files_ok :: "'i checkpoint_serde \<Rightarrow> checkpoint_files \<Rightarrow> bool" where
  "files_ok se fs \<longleftrightarrow>
     (\<forall>s raw c. map_of fs (path_for s) = Some raw \<longrightarrow> checkpoint_from_str se raw = Inr c \<longrightarrow>
        sanitize_session_id (sc_session_id c) = sanitize_session_id s)"

lemma load_after_save:
  assumes "checkpoint_roundtrip se" "files_ok se fs" "sc_evidence_ref c = Some r"
  shows "load_checkpoint se (save_checkpoint se now fs c) s =
     (if sanitize_session_id s = sanitize_session_id (sc_session_id c) then Ok (Some c)
      else load_checkpoint se fs s)"
proof (cases "sanitize_session_id s = sanitize_session_id (sc_session_id c)")
  case True
  then have "path_for s = path_for (sc_session_id c)" by simp
  then show ?thesis
    using assms True
    by (simp add: load_checkpoint_def verify_checkpoint_evidence_def save_checkpoint_files
                  checkpoint_roundtrip_def)
next
  case False
  have "verify_checkpoint_evidence se (save_checkpoint se now fs c) c' =
          verify_checkpoint_evidence se fs c'"
    if "map_of fs (path_for s) = Some raw" "checkpoint_from_str se raw = Inr c'" for raw c'
  proof -
    have "sanitize_session_id (sc_session_id c') \<noteq> sanitize_session_id (sc_session_id c)"
      using assms(2) that False by (auto simp: files_ok_def)
    then show ?thesis
      using assms(3) by (cases "sc_evidence_ref c'")
        (simp_all add: verify_checkpoint_evidence_def save_checkpoint_files)
  qed
  then show ?thesis
    using assms(3) False
    by (simp add: load_checkpoint_def save_checkpoint_files split: option.split sum.split)
qed

lemma files_ok_save:
  assumes "checkpoint_roundtrip se" "files_ok se fs" "sc_evidence_ref c = Some r"
  shows "files_ok se (save_checkpoint se now fs c)"
  using assms by (auto simp: files_ok_def save_checkpoint_files checkpoint_roundtrip_def)

lemma build_checkpoint_simps [simp]:
  "sc_session_id (build_checkpoint h se now p s hist w items) = s"
  "sc_history (build_checkpoint h se now p s hist w items) = hist"
  "sc_evidence_ref (build_checkpoint h se now p s hist w items) =
     Some (''session-evidence:'' @ sanitize_session_id s @ '':'' @ show_word now @ '':'' @
           digest_messages h se (compact_history hist w))"
  by (simp_all add: build_checkpoint_def Let_def split: prod.split)


section \<open>A codec for examples\<close>

definition pack_call :: "ToolCall \<Rightarrow> string" where
  "pack_call t = pack [tc_id t, tc_name t, tc_arguments t]"

definition unpack_call :: "string \<Rightarrow> ToolCall" where
  "unpack_call s =
     (let ys = unpack s
      in \<lparr> tc_id = ys ! 0, tc_name = ys ! 1, tc_arguments = ys ! 2 \<rparr>)"

lemma unpack_call [simp]: "unpack_call (pack_call t) = t"
  by (simp add: unpack_call_def pack_call_def)

definition pack_message :: "ChatMessage \<Rightarrow> string" where
  "pack_message m = pack
     [cm_role m, cm_content m, pack_opt (cm_tool_call_id m),
      pack_opt (map_option (\<lambda>ts. pack (map pack_call ts)) (cm_tool_calls m))]"

definition unpack_message :: "string \<Rightarrow> ChatMessage" where
  "unpack_message s =
     (let xs = unpack s
      in \<lparr> cm_role = xs ! 0, cm_content = xs ! 1, cm_tool_call_id = unpack_opt (xs ! 2),
           cm_tool_calls = map_option (\<lambda>t. map unpack_call (unpack t)) (unpack_opt (xs ! 3)) \<rparr>)"

definition pack_checkpoint :: "string SessionCheckpoint \<Rightarrow> string" where
  "pack_checkpoint c = pack
     [sc_session_id c, pack (map pack_message (sc_history c)),
      show_nat (hc_window_size (sc_compaction c)),
      pack (map pack_message (hc_compacted_history (sc_compaction c))),
      hc_digest (sc_compaction c), show_word (sc_updated_at_ms c),
      pack_opt (sc_continuation_turn_id c), pack_opt (sc_continuation_checkpoint_token c),
      pack (sc_context_items c), pack_opt (sc_evidence_ref c),
      pack (map pack_message (sc_redacted_compacted_history c)),
      show_word (rs_redacted_fields (sc_redaction_summary c)),
      pack (rs_redaction_rules (sc_redaction_summary c))]"

definition unpack_nat :: "string \<Rightarrow> nat" where
  "unpack_nat s = the (parse_digits 0 s)"

definition unpack_checkpoint :: "string \<Rightarrow> string SessionCheckpoint" where
  "unpack_checkpoint s =
     (let xs = unpack s
      in \<lparr> sc_session_id = xs ! 0, sc_history = map unpack_message (unpack (xs ! 1)),
           sc_compaction = \<lparr> hc_window_size = unpack_nat (xs ! 2),
             hc_compacted_history = map unpack_message (unpack (xs ! 3)),
             hc_digest = xs ! 4 \<rparr>,
           sc_updated_at_ms = the (parse_word (xs ! 5)),
           sc_continuation_turn_id = unpack_opt (xs ! 6),
           sc_continuation_checkpoint_token = unpack_opt (xs ! 7),
           sc_context_items = unpack (xs ! 8), sc_evidence_ref = unpack_opt (xs ! 9),
           sc_redacted_compacted_history = map unpack_message (unpack (xs ! 10)),
           sc_redaction_summary = \<lparr> rs_redacted_fields = the (parse_word (xs ! 11)),
             rs_redaction_rules = unpack (xs ! 12) \<rparr> \<rparr>)"

definition pack_evidence :: "SessionCheckpointEvidenceRecord \<Rightarrow> string" where
  "pack_evidence r = pack
     [ev_evidence_ref r, ev_session_id r, show_word (ev_updated_at_ms r), ev_checkpoint_digest r,
      show_nat (ev_history_len r), show_word (ev_redacted_fields r), show_word (ev_generated_at_ms r)]"

definition unpack_evidence :: "string \<Rightarrow> SessionCheckpointEvidenceRecord" where
  "unpack_evidence s =
     (let xs = unpack s
      in \<lparr> ev_evidence_ref = xs ! 0, ev_session_id = xs ! 1,
           ev_updated_at_ms = the (parse_word (xs ! 2)), ev_checkpoint_digest = xs ! 3,
           ev_history_len = unpack_nat (xs ! 4), ev_redacted_fields = the (parse_word (xs ! 5)),
           ev_generated_at_ms = the (parse_word (xs ! 6)) \<rparr>)"

definition sample_checkpoint_serde :: "string checkpoint_serde" where
  "sample_checkpoint_serde =
     \<lparr> messages_to_string = (\<lambda>ms. pack (map pack_message ms)),
       checkpoint_to_string = pack_checkpoint,
       checkpoint_from_str = (\<lambda>s. if s = [] then Inl ''EOF'' else Inr (unpack_checkpoint s)),
       evidence_to_string = pack_evidence,
       evidence_from_str = (\<lambda>s. if s = [] then Inl ''EOF'' else Inr (unpack_evidence s)) \<rparr>"

lemma unpack_message [simp]: "unpack_message (pack_message m) = m"
  by (cases "cm_tool_calls m"; cases m)
     (simp_all add: unpack_message_def pack_message_def Let_def comp_def)

lemma unpack_nat [simp]: "unpack_nat (show_nat n) = n"
  by (simp add: unpack_nat_def parse_digits_show_nat)

lemma pack_not_Nil: "xs \<noteq> [] \<Longrightarrow> pack xs \<noteq> []"
  by (cases xs) (simp_all add: pack_def)

lemma sample_checkpoint_roundtrip: "checkpoint_roundtrip sample_checkpoint_serde"
proof -
  have "unpack_checkpoint (pack_checkpoint c) = c" for c
    by (simp add: unpack_checkpoint_def pack_checkpoint_def Let_def comp_def)
  moreover have "unpack_evidence (pack_evidence r) = r" for r
    by (simp add: unpack_evidence_def pack_evidence_def Let_def)
  moreover have "pack_checkpoint c \<noteq> []" "pack_evidence r \<noteq> []" for c r
    by (simp_all add: pack_checkpoint_def pack_evidence_def pack_not_Nil)
  ultimately show ?thesis
    by (simp add: checkpoint_roundtrip_def sample_checkpoint_serde_def)
qed

lemma no_files_ok: "files_ok se []"
  by (simp add: files_ok_def)

section \<open>What the checkpoints guarantee\<close>

lemma checkpoint_session_load:
  assumes "checkpoint_roundtrip se" "files_ok se fs"
  shows "load_checkpoint se (fst (checkpoint_session h se now now' w fs session items)) s =
     (if sanitize_session_id s = sanitize_session_id (ss_key session)
      then Ok (Some (snd (checkpoint_session h se now now' w fs session items)))
      else load_checkpoint se fs s)"
  using assms by (simp add: checkpoint_session_def update_history_def Let_def load_after_save)

lemma checkpoint_session_files_ok:
  assumes "checkpoint_roundtrip se" "files_ok se fs"
  shows "files_ok se (fst (checkpoint_session h se now now' w fs session items))"
  using assms by (simp add: checkpoint_session_def update_history_def Let_def files_ok_save)

text \<open>
  C21: Checkpointing a session and restoring brings the whole session back, key and full history,
  after any earlier checkpoints; and it brings that session back for every id that
  \<^verbatim>\<open>sanitize_session_id\<close> maps to the same file name, overwriting what was stored for it. Restoring
  any other id is unaffected.
\<close>

theorem checkpoint_restores_session_by_file_name:
  assumes "checkpoint_roundtrip se" "files_ok se fs"
  shows "restore_session se (fst (checkpoint_session h se now now' w fs session items)) s =
     (if sanitize_session_id s = sanitize_session_id (ss_key session) then Ok (Some session)
      else restore_session se fs s)"
proof -
  have "sc_session_id (snd (checkpoint_session h se now now' w fs session items)) = ss_key session"
    "sc_history (snd (checkpoint_session h se now now' w fs session items)) = ss_history session"
    by (simp_all add: checkpoint_session_def update_history_def Let_def)
  then show ?thesis
    using assms by (simp add: restore_session_def checkpoint_session_load)
qed

definition sample_session :: Session where
  "sample_session = \<lparr> ss_key = ''tenant:a'', ss_history =
     [\<lparr> cm_role = ''user'', cm_content = ''hello'', cm_tool_call_id = None, cm_tool_calls = None \<rparr>] \<rparr>"

text \<open>The session of \<open>tenant:a\<close> is handed to whoever asks for \<open>tenanta\<close>.\<close>

theorem checkpoint_restores_session_by_file_name_witness:
  "restore_session sample_checkpoint_serde (fst (checkpoint_session (\<lambda>_. 7)
     sample_checkpoint_serde 1 2 10 [] sample_session [''item''])) ''tenanta'' =
   Ok (Some sample_session)"
  by (subst checkpoint_restores_session_by_file_name [OF sample_checkpoint_roundtrip no_files_ok])
     (simp add: sanitize_session_id_def sample_session_def ascii_alphanumeric_def byte_def)

text \<open>
  The evidence check compares two stored digests and recomputes neither: a checkpoint whose
  history has been edited in place passes it.
\<close>

lemma edited_history_passes_the_evidence_check:
  "verify_checkpoint_evidence se fs
     (c\<lparr> sc_history := forged,
         sc_compaction := (sc_compaction c)\<lparr> hc_compacted_history := forged \<rparr> \<rparr>) =
   verify_checkpoint_evidence se fs c"
  by (simp add: verify_checkpoint_evidence_def split: option.split sum.split)

text \<open>The window keeps the most recent messages, at least one.\<close>

lemma compact_history_suffix:
  "suffix (compact_history hist w) hist"
  "length (compact_history hist w) = min (length hist) (max w 1)"
  by (simp_all add: compact_history_def suffix_drop)

lemma resume_after_checkpoint:
  assumes "checkpoint_roundtrip se" "files_ok se fs"
  shows "resume_compacted_history se w'
           (fst (checkpoint_session h se now now' w fs session items)) (ss_key session) =
         Ok (Some (compact_history (ss_history session) w'))"
  using assms
  by (simp add: resume_compacted_history_def checkpoint_session_load)
     (simp add: checkpoint_session_def update_history_def Let_def)

section \<open>Redaction of API keys\<close>

lemma find_str_first:
  "find_str s t = Some k \<Longrightarrow> prefix t (drop k s) \<and> (\<forall>i. prefix t (drop i s) \<longrightarrow> k \<le> i)"
proof (induction s t arbitrary: k rule: find_str.induct)
  case (2 c s t)
  show ?case
  proof (cases "prefix t (c # s)")
    case True
    then show ?thesis using 2(2) by simp
  next
    case False
    then obtain j where "find_str s t = Some j" "k = Suc j" using 2(2) by auto
    moreover have "Suc j \<le> i" if "prefix t (drop i (c # s))" for i
      using that False 2(1) calculation(1) by (cases i) auto
    ultimately show ?thesis using 2(1) False by auto
  qed
qed (auto split: if_splits)

lemma find_str_None: "find_str s t = None \<Longrightarrow> t \<noteq> [] \<Longrightarrow> \<not> prefix t (drop i s)"
proof (induction s t arbitrary: i rule: find_str.induct)
  case (2 c s t)
  then show ?case by (cases i) (auto split: if_splits)
qed auto

text \<open>An API key: the prefix followed by at least twelve token characters.\<close>

definition api_key_at :: "string \<Rightarrow> bool" where
  "api_key_at t \<longleftrightarrow> prefix ''sk-'' t \<and> 12 \<le> length (takeWhile token_char (drop 3 t))"

definition holds_api_key :: "string \<Rightarrow> bool" where
  "holds_api_key s \<longleftrightarrow> list_ex api_key_at (suffixes s)"

lemma token_chars [simp]: "token_char (CHR ''s'')" "token_char (CHR ''k'')" "token_char (CHR ''-'')"
  by (simp_all add: token_char_def ascii_alphanumeric_def byte_def)

lemma api_key_at_run:
  "api_key_at t \<longleftrightarrow>
     prefix ''sk-'' (takeWhile token_char t) \<and> 15 \<le> length (takeWhile token_char t)"
proof (cases "prefix ''sk-'' t")
  case True
  then obtain u where "t = ''sk-'' @ u" by (auto simp: prefix_def)
  then show ?thesis by (simp add: api_key_at_def numeral_3_eq_3)
next
  case False
  then have "\<not> prefix ''sk-'' (takeWhile token_char t)"
    by (metis append_assoc prefix_def takeWhile_dropWhile_id)
  with False show ?thesis by (simp add: api_key_at_def)
qed

lemma holds_api_key_simps [simp]:
  "\<not> holds_api_key []" "holds_api_key (c # s) \<longleftrightarrow> api_key_at (c # s) \<or> holds_api_key s"
  by (auto simp: holds_api_key_def api_key_at_def)

lemma holds_api_key_drop: "holds_api_key s \<longleftrightarrow> (\<exists>i. api_key_at (drop i s))"
proof (induction s)
  case Nil
  then show ?case by (simp add: api_key_at_def)
next
  case (Cons c s)
  have "(\<exists>i. api_key_at (drop i (c # s))) \<longleftrightarrow> api_key_at (c # s) \<or> (\<exists>i. api_key_at (drop i s))"
    by (metis drop0 drop_Suc_Cons not0_implies_Suc)
  then show ?case using Cons.IH by simp
qed

abbreviation token_break :: "string \<Rightarrow> bool" where
  "token_break s \<equiv> s = [] \<or> \<not> token_char (hd s)"

lemma holds_api_key_append:
  assumes "token_break t"
  shows "holds_api_key (s @ t) \<longleftrightarrow> holds_api_key s \<or> holds_api_key t"
proof (induction s)
  case (Cons c s)
  have "takeWhile token_char (u @ t) = takeWhile token_char u" for u
    using assms by (induction u) (cases t; auto)+
  from this [of "c # s"] have "api_key_at ((c # s) @ t) \<longleftrightarrow> api_key_at (c # s)"
    unfolding api_key_at_run by simp
  then show ?case using Cons.IH by simp
qed simp

lemma holds_api_key_take:
  assumes "find_str s ''sk-'' = Some k" "n < k + 15"
  shows "\<not> holds_api_key (take n s)"
proof
  assume "holds_api_key (take n s)"
  then obtain i where i: "api_key_at (drop i (take n s))" by (auto simp: holds_api_key_drop)
  have "prefix ''sk-'' (drop i s)"
    using i by (metis api_key_at_def drop_take prefix_order.trans take_is_prefix)
  then have "k \<le> i" using find_str_first [OF assms(1)] by blast
  moreover have "15 \<le> n - i"
  proof -
    have "length (takeWhile token_char (drop i (take n s))) \<le> length (drop i (take n s))"
      by (rule length_takeWhile_le)
    also have "\<dots> \<le> n - i" by simp
    finally show ?thesis using i by (simp add: api_key_at_run)
  qed
  ultimately show False using assms(2) by linarith
qed

lemma token_break_dropWhile: "token_break (dropWhile token_char s)"
  by (metis hd_dropWhile dropWhile_eq_Nil_conv)

lemma replace_prefixed_token_break:
  assumes "token_break s"
  shows "token_break (fst (replace_prefixed_token s))"
proof (cases "find_str s ''sk-''")
  case None
  then show ?thesis using assms by (simp add: replace_prefixed_token.simps [of s])
next
  case (Some k)
  from find_str_first [OF Some] have "prefix ''sk-'' (drop k s)" by simp
  then have "k \<noteq> 0" "s \<noteq> []" using assms by (cases k; auto simp: prefix_def)+
  then have "take k s \<noteq> []" "hd (take k s) = hd s" by simp_all
  then show ?thesis
    using assms Some \<open>s \<noteq> []\<close>
    by (subst replace_prefixed_token.simps) (auto simp: Let_def split: prod.split)
qed

text \<open>
  C22: No API key survives the redaction: in the text that \<^verbatim>\<open>replace_prefixed_token\<close> returns, no
  occurrence of \<^verbatim>\<open>sk-\<close> is followed by twelve or more letters, digits, hyphens or underscores,
  whatever the text around the keys and however keys overlap or touch.
\<close>

theorem redaction_leaves_no_api_key: "\<not> holds_api_key (fst (replace_prefixed_token content))"
proof (induction content rule: replace_prefixed_token.induct)
  case (1 content)
  show ?case
  proof (cases "find_str content ''sk-''")
    case None
    then have "\<not> holds_api_key content"
      using find_str_None [OF None] by (auto simp: holds_api_key_drop api_key_at_def)
    with None show ?thesis by (subst replace_prefixed_token.simps) simp
  next
    case (Some k)
    define rest where "rest = drop (k + 3) content"
    define tok where "tok = takeWhile token_char rest"
    define out where "out = fst (replace_prefixed_token (dropWhile token_char rest))"
    have IH: "\<not> holds_api_key out"
      using 1 [OF Some] by (simp add: out_def rest_def)
    have brk: "token_break out"
      unfolding out_def by (rule replace_prefixed_token_break [OF token_break_dropWhile])
    have "content = take k content @ ''sk-'' @ rest"
      using find_str_first [OF Some]
      by (metis One_nat_def Suc_1 append_take_drop_id drop_drop eval_nat_numeral(3) length_Cons
          list.size(3) prefix_def rest_def same_append_eq add.commute append_eq_conv_conj)
    then have split: "content = take k content @ ''sk-'' @ tok @ dropWhile token_char rest"
      by (simp add: tok_def)
    have len: "k + 3 \<le> length content" using find_str_end [OF Some] by simp
    have res: "fst (replace_prefixed_token content) =
        (if 12 \<le> length tok then take k content @ ''[REDACTED_API_KEY]'' @ out
         else take k content @ ''sk-'' @ tok @ out)"
      using Some by (subst replace_prefixed_token.simps)
        (simp add: Let_def rest_def tok_def out_def split: prod.split)
    show ?thesis
    proof (cases "12 \<le> length tok")
      case True
      have "\<not> token_char (CHR ''['')"
        by (simp add: token_char_def ascii_alphanumeric_def byte_def)
      then have "holds_api_key (take k content @ ''[REDACTED_API_KEY]'' @ out) \<longleftrightarrow>
            holds_api_key (take k content) \<or> holds_api_key (''[REDACTED_API_KEY]'' @ out)"
        by (intro holds_api_key_append) simp
      moreover have "\<not> holds_api_key (''[REDACTED_API_KEY]'' @ out)"
        using IH by (simp add: api_key_at_def)
      ultimately show ?thesis
        using True holds_api_key_take [OF Some, of k] by (simp add: res)
    next
      case False
      have "take (k + 3 + length tok) content = take k content @ ''sk-'' @ tok"
        using len by (subst split) (simp add: numeral_3_eq_3)
      then have "\<not> holds_api_key (take k content @ ''sk-'' @ tok)"
        using False holds_api_key_take [OF Some, of "k + 3 + length tok"] by simp
      then have "\<not> holds_api_key ((take k content @ ''sk-'' @ tok) @ out)"
        using IH holds_api_key_append [OF brk] by blast
      with False show ?thesis by (simp add: res)
    qed
  qed
qed

text \<open>
  The whole history stays in the same file beside its redacted copy: what is redacted is only
  the compacted history handed out by the resume runner.
\<close>

lemma checkpoint_keeps_raw_history:
  "sc_history (snd (update_history h se now now' fs s hist w items)) = hist"
  by (simp add: update_history_def Let_def)

end
