(* ===== verification/Listing.thy ===== *)
theory Listing
  imports Knowledge
begin

text \<open>
  The ordered listing of the knowledge table by key prefix, and the typed access that the other
  tables of \<^verbatim>\<open>autoloop-state-adapter/src/lib.rs\<close> build on it when no mirror is configured:
  \<^verbatim>\<open>upsert_json_knowledge\<close>, \<^verbatim>\<open>fallback_kv_get\<close>, \<^verbatim>\<open>fallback_kv_list\<close>. A codec is serde_json at one type.
\<close>

section \<open>Sequencing\<close>

text \<open>A call whose error ends the caller (\<^verbatim>\<open>?\<close>) and whose effect on the state stays.\<close>

definition then_do :: "'s \<times> 'a result \<Rightarrow> ('s \<Rightarrow> 'a \<Rightarrow> 's \<times> 'b result) \<Rightarrow> 's \<times> 'b result" where
  "then_do p f = (case p of (s, Inl e) \<Rightarrow> (s, Inl e) | (s, Inr x) \<Rightarrow> f s x)"

lemma then_do_simps [simp, result_simps]:
  "then_do (s, Inl e) f = (s, Inl e)" "then_do (s, Inr x) f = f s x"
  by (simp_all add: then_do_def)

lemma then_do_Ok_iff [result_simps]:
  "then_do p f = (s', Inr y) \<longleftrightarrow> (\<exists>s x. p = (s, Inr x) \<and> f s x = (s', Inr y))"
  by (cases p; cases "snd p") auto

section \<open>Listing by prefix\<close>

text \<open>A \<^verbatim>\<open>HashMap\<close> lists its values in some order; the sort by key fixes it.\<close>

definition list_knowledge_by_prefix :: "KnowledgeTable \<Rightarrow> string \<Rightarrow> KnowledgeRecord list" where
  "list_knowledge_by_prefix db pfx =
     sort_key kr_key (filter (\<lambda>r. prefix pfx (kr_key r)) (map snd (kt_knowledge db)))"

definition table_ok :: "KnowledgeTable \<Rightarrow> bool" where
  "table_ok db \<longleftrightarrow> distinct (map fst (kt_knowledge db)) \<and>
                 (\<forall>(k, r) \<in> set (kt_knowledge db). kr_key r = k)"

definition new_table :: KnowledgeTable where
  "new_table = \<lparr> kt_knowledge = [], kt_next_id = 0 \<rparr>"

locale knowledge_listing = knowledge_store get upsert
  for get :: "'s \<Rightarrow> string \<Rightarrow> KnowledgeRecord option"
    and upsert :: "'s \<Rightarrow> string \<Rightarrow> string \<Rightarrow> string \<Rightarrow> 's \<times> KnowledgeRecord result" +
  fixes ok :: "'s \<Rightarrow> bool"
    and listing :: "'s \<Rightarrow> string \<Rightarrow> KnowledgeRecord list"
  assumes keeps_ok: "ok db \<Longrightarrow> ok (fst (upsert db key val source))"
    and own_key: "ok db \<Longrightarrow> get db key = Some r \<Longrightarrow> kr_key r = key"
    and listed: "ok db \<Longrightarrow>
      set (listing db pfx) = {r. get db (kr_key r) = Some r \<and> prefix pfx (kr_key r)}"
    and in_order: "ok db \<Longrightarrow>
      sorted (map kr_key (listing db pfx)) \<and> distinct (map kr_key (listing db pfx))"
begin

lemma listing_unique:
  assumes "ok db" "sorted (map kr_key rs)" "distinct (map kr_key rs)"
    and "set rs = {r. get db (kr_key r) = Some r \<and> prefix pfx (kr_key r)}"
  shows "listing db pfx = rs"
proof (rule map_sorted_distinct_set_unique [where f = kr_key])
  have same: "set (listing db pfx) = set rs"
    by (simp only: listed [OF assms(1)] assms(4))
  show "inj_on kr_key (set (listing db pfx) \<union> set rs)"
  proof (rule inj_onI)
    fix r t assume "r \<in> set (listing db pfx) \<union> set rs" "t \<in> set (listing db pfx) \<union> set rs"
      and keys: "kr_key r = kr_key t"
    then have "get db (kr_key r) = Some r" "get db (kr_key t) = Some t"
      unfolding same assms(4) by blast+
    then show "r = t" by (metis keys option.inject)
  qed
  show "sorted (map kr_key (listing db pfx))" "distinct (map kr_key (listing db pfx))"
    by (simp_all only: in_order [OF assms(1)])
  show "set (listing db pfx) = set rs" by (rule same)
qed (fact assms(2,3))+

lemma listing_other:
  assumes "ok db" "upsert db key val source = (db', Ok r)" "\<not> prefix pfx key"
    and "get db' = (get db)(key \<mapsto> r)"
  shows "listing db' pfx = listing db pfx"
proof (rule listing_unique)
  have ok': "ok db'" using keeps_ok [OF assms(1), of key val source] assms(2) by simp
  then show "ok db'" .
  have "kr_key r = key" using own_key [OF ok', of key r] assms(4) by simp
  then show "set (listing db pfx) = {r. get db' (kr_key r) = Some r \<and> prefix pfx (kr_key r)}"
    using assms(3,4) by (auto simp: listed [OF assms(1)] split: if_splits)
qed (use in_order [OF assms(1)] in auto)

lemma listing_new:
  assumes "ok db" "upsert db key val source = (db', Ok r)" "prefix pfx key" "get db key = None"
    and "get db' = (get db)(key \<mapsto> r)"
  shows "listing db' pfx = insort_key kr_key r (listing db pfx)"
proof (rule listing_unique)
  have ok': "ok db'" using keeps_ok [OF assms(1), of key val source] assms(2) by simp
  then show "ok db'" .
  have key: "kr_key r = key" using own_key [OF ok', of key r] assms(5) by simp
  show "sorted (map kr_key (insort_key kr_key r (listing db pfx)))"
    using in_order [OF assms(1)] by (simp add: sorted_insort_key)
  have "key \<notin> kr_key ` set (listing db pfx)"
    using listed [OF assms(1)] assms(4) by auto
  then show "distinct (map kr_key (insort_key kr_key r (listing db pfx)))"
    using in_order [OF assms(1), of pfx] key
    by (simp add: distinct_map distinct_insort set_insort_key inj_on_insert) force
  show "set (insort_key kr_key r (listing db pfx)) =
          {r. get db' (kr_key r) = Some r \<and> prefix pfx (kr_key r)}"
    using assms(3-5) key by (auto simp: set_insort_key listed [OF assms(1)] split: if_splits)
qed

end

lemma table_ok_new: "table_ok new_table"
  by (simp add: table_ok_def new_table_def)

lemma table_ok_lookup: "table_ok db \<Longrightarrow> get_knowledge db k = Some r \<longleftrightarrow> (k, r) \<in> set (kt_knowledge db)"
  by (auto simp: table_ok_def get_knowledge_def dest: map_of_SomeD intro: map_of_is_SomeI)

lemma table_ok_iff:
  "table_ok db \<longleftrightarrow> distinct (map fst (kt_knowledge db)) \<and>
     (\<forall>k r. get_knowledge db k = Some r \<longrightarrow> kr_key r = k)"
  by (auto simp: table_ok_def get_knowledge_def dest: map_of_SomeD intro: map_of_is_SomeI)

lemma table_ok_repo_upsert:
  "table_ok db \<Longrightarrow> table_ok (fst (repo_upsert_knowledge db key val source))"
  by (auto simp: table_ok_iff repo_upsert_knowledge_def get_knowledge_def distinct_update update_conv Let_def
           simp del: map_of_eq_Some_iff
           split: option.splits if_splits)

lemma table_ok_upsert: "table_ok db \<Longrightarrow> table_ok (fst (upsert_knowledge db key val source))"
  using table_ok_repo_upsert [of db key val source]
  by (auto simp: upsert_knowledge_def split: sum.split prod.split)

interpretation table: knowledge_listing get_knowledge upsert_knowledge table_ok
  list_knowledge_by_prefix
proof
  fix db key val source pfx and r
  assume ok: "table_ok db"
  show "table_ok (fst (upsert_knowledge db key val source))" by (rule table_ok_upsert [OF ok])
  show "kr_key r = key" if "get_knowledge db key = Some r"
    using ok that by (auto simp: table_ok_lookup table_ok_def)
  show "set (list_knowledge_by_prefix db pfx) =
          {r. get_knowledge db (kr_key r) = Some r \<and> prefix pfx (kr_key r)}"
    using ok by (force simp: list_knowledge_by_prefix_def table_ok_lookup table_ok_def image_iff)
  have "map kr_key (map snd (kt_knowledge db)) = map fst (kt_knowledge db)"
    using ok by (auto simp: table_ok_def)
  then have "distinct (map kr_key (map snd (kt_knowledge db)))"
    using ok unfolding table_ok_def by (simp only:)
  then have "distinct (map kr_key (filter (\<lambda>r. prefix pfx (kr_key r)) (map snd (kt_knowledge db))))"
    by (rule distinct_map_filter)
  then show "sorted (map kr_key (list_knowledge_by_prefix db pfx)) \<and>
             distinct (map kr_key (list_knowledge_by_prefix db pfx))"
    by (simp add: list_knowledge_by_prefix_def distinct_map)
qed

section \<open>Typed records\<close>

type_synonym 'a codec = "('a \<Rightarrow> string) \<times> (string \<Rightarrow> string + 'a)"

definition codec_ok :: "'a codec \<Rightarrow> bool" where
  "codec_ok c \<longleftrightarrow> (\<forall>x. snd c (fst c x) = Inr x)"

definition upsert_json_knowledge ::
    "'a codec \<Rightarrow> KnowledgeTable \<Rightarrow> string \<Rightarrow> 'a \<Rightarrow> string \<Rightarrow> KnowledgeTable \<times> KnowledgeRecord result"
  where
  "upsert_json_knowledge c db key x source = upsert_knowledge db key (fst c x) source"

definition decode_record :: "'a codec \<Rightarrow> KnowledgeRecord \<Rightarrow> 'a option" where
  "decode_record c rec = (case snd c (kr_value rec) of Inl _ \<Rightarrow> None | Inr x \<Rightarrow> Some x)"

definition fallback_kv_get :: "'a codec \<Rightarrow> KnowledgeTable \<Rightarrow> string \<Rightarrow> 'a option" where
  "fallback_kv_get c db key = Option.bind (get_knowledge db key) (decode_record c)"

definition fallback_kv_list :: "'a codec \<Rightarrow> KnowledgeTable \<Rightarrow> string \<Rightarrow> 'a list" where
  "fallback_kv_list c db pfx = filter_map (decode_record c) (list_knowledge_by_prefix db pfx)"

lemma new_lookup [simp]: "get_knowledge new_table key = None" "fallback_kv_get c new_table key = None"
  by (simp_all add: get_knowledge_def new_table_def fallback_kv_get_def)

lemma decode_written: "codec_ok c \<Longrightarrow> kr_value r = fst c x \<Longrightarrow> decode_record c r = Some x"
  by (simp add: decode_record_def codec_ok_def)

text \<open>A write of one kind of record, as the readers of every kind see it.\<close>

lemma json_write:
  assumes "codec_ok c" "table_ok db" "\<not> evidence_key key \<or> get_knowledge db key = None"
  obtains db' r where "upsert_json_knowledge c db key x source = (db', Ok r)" "table_ok db'"
    "decode_record c r = Some x" "get_knowledge db' = (get_knowledge db)(key \<mapsto> r)"
    "\<And>pfx. \<not> prefix pfx key \<Longrightarrow> list_knowledge_by_prefix db' pfx = list_knowledge_by_prefix db pfx"
    "\<And>pfx. prefix pfx key \<Longrightarrow> get_knowledge db key = None \<Longrightarrow>
       list_knowledge_by_prefix db' pfx = insort_key kr_key r (list_knowledge_by_prefix db pfx)"
proof -
  obtain db' r where u: "upsert_knowledge db key (fst c x) source = (db', Ok r)"
      "kr_value r = fst c x" "get_knowledge db' = (get_knowledge db)(key \<mapsto> r)"
    using assms(3) knowledge.upsert_cases [of db key "fst c x" source] by (metis option.distinct(1))
  show thesis
  proof (rule that [of db' r])
    show "table_ok db'" using table_ok_upsert [OF assms(2), of key "fst c x" source] u(1) by simp
    show "upsert_json_knowledge c db key x source = (db', Ok r)"
      using u(1) by (simp add: upsert_json_knowledge_def)
    show "decode_record c r = Some x" by (rule decode_written [OF assms(1) u(2)])
  qed (use u table.listing_other [OF assms(2) u(1)] table.listing_new [OF assms(2) u(1)] in auto)
qed

lemma filter_map_insort_mset:
  "mset (filter_map f (insort_key g r rs)) =
     (case f r of None \<Rightarrow> {#} | Some x \<Rightarrow> {#x#}) + mset (filter_map f rs)"
  by (induction rs) (auto split: option.splits)

end
