(* ===== verification/State_Tables.thy ===== *)
theory State_Tables
  imports Listing Contracts
begin

text \<open>
  The identity and billing tables of \<^verbatim>\<open>autoloop-state-adapter/src/lib.rs\<close> without a configured
  mirror: typed records in the knowledge table, one key scheme per kind of record. serde_json at
  each record type is a codec.
\<close>

record table_codecs =
  tc_tenant :: "Tenant codec"
  tc_principal :: "Principal codec"
  tc_role_binding :: "RoleBinding codec"
  tc_policy_binding :: "PolicyBinding codec"
  tc_session_lease :: "SessionLease codec"
  tc_budget_account :: "BudgetAccount codec"
  tc_spend_ledger :: "SpendLedger codec"
  tc_quota_window :: "QuotaWindow codec"
  tc_cost_attribution :: "CostAttribution codec"

definition billing_codecs_ok :: "table_codecs \<Rightarrow> bool" where
  "billing_codecs_ok c \<longleftrightarrow>
     codec_ok (tc_budget_account c) \<and> codec_ok (tc_spend_ledger c) \<and>
     codec_ok (tc_quota_window c) \<and> codec_ok (tc_cost_attribution c)"

definition identity_codecs_ok :: "table_codecs \<Rightarrow> bool" where
  "identity_codecs_ok c \<longleftrightarrow>
     codec_ok (tc_tenant c) \<and> codec_ok (tc_principal c) \<and> codec_ok (tc_role_binding c) \<and>
     codec_ok (tc_policy_binding c) \<and> codec_ok (tc_session_lease c)"

text \<open>A store of one typed record, which is answered again.\<close>

definition put_record ::
    "'a codec \<Rightarrow> KnowledgeTable \<Rightarrow> string \<Rightarrow> 'a \<Rightarrow> string \<Rightarrow> KnowledgeTable \<times> 'a result" where
  "put_record c db key x source =
     then_do (upsert_json_knowledge c db key x source) (\<lambda>db _. (db, Ok x))"

section \<open>Identity\<close>

definition upsert_tenant :: "table_codecs \<Rightarrow> KnowledgeTable \<Rightarrow> Tenant \<Rightarrow> KnowledgeTable \<times> Tenant result"
  where
  "upsert_tenant c db x =
     put_record (tc_tenant c) db (''identity:tenant:'' @ tn_tenant_id x) x ''identity''"

definition get_tenant :: "table_codecs \<Rightarrow> KnowledgeTable \<Rightarrow> string \<Rightarrow> Tenant option" where
  "get_tenant c db tenant_id = fallback_kv_get (tc_tenant c) db (''identity:tenant:'' @ tenant_id)"

definition upsert_principal ::
    "table_codecs \<Rightarrow> KnowledgeTable \<Rightarrow> Principal \<Rightarrow> KnowledgeTable \<times> Principal result" where
  "upsert_principal c db x =
     put_record (tc_principal c) db
       (''identity:principal:'' @ pr_tenant_id x @ '':'' @ pr_principal_id x) x ''identity''"

definition get_principal :: "table_codecs \<Rightarrow> KnowledgeTable \<Rightarrow> string \<Rightarrow> string \<Rightarrow> Principal option"
  where
  "get_principal c db tenant_id principal_id =
     fallback_kv_get (tc_principal c) db (''identity:principal:'' @ tenant_id @ '':'' @ principal_id)"

definition upsert_role_binding ::
    "table_codecs \<Rightarrow> KnowledgeTable \<Rightarrow> RoleBinding \<Rightarrow> KnowledgeTable \<times> RoleBinding result" where
  "upsert_role_binding c db x =
     put_record (tc_role_binding c) db
       (''identity:role-binding:'' @ rb_tenant_id x @ '':'' @ rb_principal_id x) x ''identity''"

definition get_role_binding ::
    "table_codecs \<Rightarrow> KnowledgeTable \<Rightarrow> string \<Rightarrow> string \<Rightarrow> RoleBinding option" where
  "get_role_binding c db tenant_id principal_id =
     fallback_kv_get (tc_role_binding c) db
       (''identity:role-binding:'' @ tenant_id @ '':'' @ principal_id)"

definition upsert_policy_binding ::
    "table_codecs \<Rightarrow> KnowledgeTable \<Rightarrow> PolicyBinding \<Rightarrow> KnowledgeTable \<times> PolicyBinding result" where
  "upsert_policy_binding c db x =
     put_record (tc_policy_binding c) db
       (''identity:policy-binding:'' @ pb_tenant_id x @ '':'' @ pb_policy_id x) x ''identity''"

definition get_policy_binding ::
    "table_codecs \<Rightarrow> KnowledgeTable \<Rightarrow> string \<Rightarrow> string \<Rightarrow> PolicyBinding option" where
  "get_policy_binding c db tenant_id policy_id =
     fallback_kv_get (tc_policy_binding c) db
       (''identity:policy-binding:'' @ tenant_id @ '':'' @ policy_id)"

definition upsert_session_lease ::
    "table_codecs \<Rightarrow> KnowledgeTable \<Rightarrow> SessionLease \<Rightarrow> KnowledgeTable \<times> SessionLease result" where
  "upsert_session_lease c db x =
     put_record (tc_session_lease c) db (''identity:session-lease:'' @ ls_session_id x) x ''identity''"

definition get_session_lease :: "table_codecs \<Rightarrow> KnowledgeTable \<Rightarrow> string \<Rightarrow> SessionLease option" where
  "get_session_lease c db session_id =
     fallback_kv_get (tc_session_lease c) db (''identity:session-lease:'' @ session_id)"

section \<open>Billing\<close>

definition account_key :: "string \<Rightarrow> string \<Rightarrow> string" where
  "account_key tenant_id account_id = ''billing:budget-account:'' @ tenant_id @ '':'' @ account_id"

definition upsert_budget_account ::
    "table_codecs \<Rightarrow> KnowledgeTable \<Rightarrow> BudgetAccount \<Rightarrow> KnowledgeTable \<times> BudgetAccount result" where
  "upsert_budget_account c db x =
     put_record (tc_budget_account c) db (account_key (ba_tenant_id x) (ba_account_id x)) x ''billing''"

definition get_budget_account ::
    "table_codecs \<Rightarrow> KnowledgeTable \<Rightarrow> string \<Rightarrow> string \<Rightarrow> BudgetAccount option" where
  "get_budget_account c db tenant_id account_id =
     fallback_kv_get (tc_budget_account c) db (account_key tenant_id account_id)"

definition ledger_prefix :: "string \<Rightarrow> string \<Rightarrow> string" where
  "ledger_prefix tenant_id account_id =
     ''billing:spend-ledger:'' @ tenant_id @ '':'' @ account_id @ '':''"

definition append_spend_ledger ::
    "table_codecs \<Rightarrow> KnowledgeTable \<Rightarrow> SpendLedger \<Rightarrow> KnowledgeTable \<times> SpendLedger result" where
  "append_spend_ledger c db entry =
     (let key = ledger_prefix (sl_tenant_id entry) (sl_account_id entry) @ sl_ledger_id entry
      in if get_knowledge db key \<noteq> None
         then (db, Err (''spend ledger '' @ sl_ledger_id entry @ '' already exists''))
         else put_record (tc_spend_ledger c) db key entry ''billing'')"

definition list_spend_ledger ::
    "table_codecs \<Rightarrow> KnowledgeTable \<Rightarrow> string \<Rightarrow> string \<Rightarrow> SpendLedger list" where
  "list_spend_ledger c db tenant_id account_id =
     sort_key sl_created_at_ms
       (fallback_kv_list (tc_spend_ledger c) db (ledger_prefix tenant_id account_id))"

definition list_spend_ledger_by_task ::
    "table_codecs \<Rightarrow> KnowledgeTable \<Rightarrow> string \<Rightarrow> string \<Rightarrow> SpendLedger list" where
  "list_spend_ledger_by_task c db session_id task_id =
     sort_key sl_created_at_ms
       (filter (\<lambda>e. sl_session_id e = session_id \<and> sl_task_id e = task_id)
         (fallback_kv_list (tc_spend_ledger c) db ''billing:spend-ledger:''))"

definition window_key :: "string \<Rightarrow> string \<Rightarrow> string \<Rightarrow> string" where
  "window_key tenant_id account_id window_id =
     ''billing:quota-window:'' @ tenant_id @ '':'' @ account_id @ '':'' @ window_id"

definition upsert_quota_window ::
    "table_codecs \<Rightarrow> KnowledgeTable \<Rightarrow> QuotaWindow \<Rightarrow> KnowledgeTable \<times> QuotaWindow result" where
  "upsert_quota_window c db x =
     put_record (tc_quota_window c) db
       (window_key (qw_tenant_id x) (qw_account_id x) (qw_window_id x)) x ''billing''"

definition get_quota_window ::
    "table_codecs \<Rightarrow> KnowledgeTable \<Rightarrow> string \<Rightarrow> string \<Rightarrow> string \<Rightarrow> QuotaWindow option" where
  "get_quota_window c db tenant_id account_id window_id =
     fallback_kv_get (tc_quota_window c) db (window_key tenant_id account_id window_id)"

definition attribution_prefix :: "string \<Rightarrow> string \<Rightarrow> string" where
  "attribution_prefix tenant_id session_id =
     ''billing:cost-attribution:'' @ tenant_id @ '':'' @ session_id @ '':''"

definition upsert_cost_attribution ::
    "table_codecs \<Rightarrow> KnowledgeTable \<Rightarrow> CostAttribution \<Rightarrow> KnowledgeTable \<times> CostAttribution result"
  where
  "upsert_cost_attribution c db x =
     put_record (tc_cost_attribution c) db
       (attribution_prefix (ca_tenant_id x) (ca_session_id x) @ ca_attribution_id x) x ''billing''"

definition get_cost_attribution ::
    "table_codecs \<Rightarrow> KnowledgeTable \<Rightarrow> string \<Rightarrow> string \<Rightarrow> string \<Rightarrow> CostAttribution option" where
  "get_cost_attribution c db tenant_id session_id attribution_id =
     fallback_kv_get (tc_cost_attribution c) db
       (attribution_prefix tenant_id session_id @ attribution_id)"

definition list_cost_attribution_by_session ::
    "table_codecs \<Rightarrow> KnowledgeTable \<Rightarrow> string \<Rightarrow> string \<Rightarrow> CostAttribution list" where
  "list_cost_attribution_by_session c db tenant_id session_id =
     sort_key ca_settled_at_ms
       (fallback_kv_list (tc_cost_attribution c) db
         (attribution_prefix tenant_id session_id))"

section \<open>A billing write, as the billing readers see it\<close>

text \<open>
  Every prefix of the ledger's keys ends before the ledger's id, so an account whose id extends
  another one's by a colon would show in its list. Accounts with the same number of colons do not.
\<close>

definition colons :: "string \<Rightarrow> nat" where
  "colons s = length (filter (\<lambda>c. c = CHR '':'') s)"

lemma colons_simps [simp]:
  "colons [] = 0" "colons (x # s) = (if x = CHR '':'' then Suc (colons s) else colons s)"
  "colons (s @ t) = colons s + colons t"
  by (auto simp: colons_def)

lemma prefix_colons: "prefix s t \<Longrightarrow> colons s \<le> colons t"
  by (auto simp: prefix_def)

lemma same_fields:
  assumes "colons a = colons b" "prefix (a @ '':'') (b @ CHR '':'' # r)"
  shows "a = b"
proof -
  consider "prefix (a @ '':'') b" | "prefix (b @ '':'') (a @ '':'')"
    using assms(2) prefix_same_cases [of "a @ '':''" "b @ CHR '':'' # r" "b @ '':''"]
    by (metis append.assoc append_Cons append_Nil prefixI prefix_append prefix_order.order_refl
        prefix_snoc)
  then show ?thesis
  proof cases
    case 1
    then show ?thesis using assms(1) prefix_colons [OF 1] by simp
  next
    case 2
    then show ?thesis using assms(1) by (auto dest: prefix_colons)
  qed
qed

lemma put_record_effect:
  assumes "codec_ok cx" "table_ok db" "\<not> evidence_key key"
  obtains db' where "put_record cx db key x source = (db', Ok x)" "table_ok db'"
    "fallback_kv_get cx db' key = Some x"
    "\<And>k. k \<noteq> key \<Longrightarrow> get_knowledge db' k = get_knowledge db k"
    "\<And>pfx. \<not> prefix pfx key \<Longrightarrow> list_knowledge_by_prefix db' pfx = list_knowledge_by_prefix db pfx"
    "\<And>pfx. prefix pfx key \<Longrightarrow> get_knowledge db key = None \<Longrightarrow>
       mset (fallback_kv_list cx db' pfx) = add_mset x (mset (fallback_kv_list cx db pfx))"
proof -
  obtain db' r where w: "upsert_json_knowledge cx db key x source = (db', Ok r)" "table_ok db'"
      "decode_record cx r = Some x" "get_knowledge db' = (get_knowledge db)(key \<mapsto> r)"
      "\<And>pfx. \<not> prefix pfx key \<Longrightarrow> list_knowledge_by_prefix db' pfx = list_knowledge_by_prefix db pfx"
      "\<And>pfx. prefix pfx key \<Longrightarrow> get_knowledge db key = None \<Longrightarrow>
         list_knowledge_by_prefix db' pfx = insort_key kr_key r (list_knowledge_by_prefix db pfx)"
    using json_write [of cx db key x source] assms by blast
  show thesis
  proof (rule that [of db'])
    show "put_record cx db key x source = (db', Ok x)" by (simp add: put_record_def w(1))
  qed (use w(2-6) in \<open>simp_all add: fallback_kv_get_def fallback_kv_list_def filter_map_insort_mset\<close>)
qed

lemma same_account_fields:
  assumes "colons t = 0" "colons t' = 0" "colons a = colons a'"
  shows "prefix (t @ CHR '':'' # a @ '':'') (t' @ CHR '':'' # a' @ CHR '':'' # r) \<longleftrightarrow> t = t' \<and> a = a'"
    (is "?P \<longleftrightarrow> _")
proof
  assume p: ?P
  then have "prefix (t @ '':'') (t' @ CHR '':'' # a' @ CHR '':'' # r)"
    by (metis append.assoc append_Cons append_Nil append_prefixD)
  with assms(1,2) have t: "t = t'" by (metis same_fields)
  with p have "prefix (a @ '':'') (a' @ CHR '':'' # r)" by simp
  with assms(3) show "t = t' \<and> a = a'" using t by (metis same_fields)
qed auto

text \<open>An account of one tenant whose name has no colon, with the three fields of \<^verbatim>\<open>account_id_for\<close>.\<close>

definition plain_account :: "string \<Rightarrow> string \<Rightarrow> bool" where
  "plain_account t a \<longleftrightarrow> colons t = 0 \<and> colons a = 2"

lemma account_key_eq:
  assumes "plain_account t a" "plain_account t' a'"
  shows "account_key t a = account_key t' a' \<longleftrightarrow> t = t' \<and> a = a'"
proof -
  have "t = t' \<and> a = a'" if "t @ CHR '':'' # a = t' @ CHR '':'' # a'"
  proof -
    have "prefix (t @ CHR '':'' # a @ '':'') (t' @ CHR '':'' # a' @ CHR '':'' # [])"
      using that by (metis append.assoc append_Cons prefix_order.order_refl)
    then show ?thesis using assms same_account_fields [of t t' a a' "[]"] by (simp add: plain_account_def)
  qed
  then show ?thesis by (auto simp: account_key_def)
qed

lemma window_key_eq:
  assumes "plain_account t a" "plain_account t' a'"
  shows "window_key t a w = window_key t' a' w' \<longleftrightarrow> t = t' \<and> a = a' \<and> w = w'"
proof -
  have "t = t' \<and> a = a'" if "t @ CHR '':'' # a @ CHR '':'' # w = t' @ CHR '':'' # a' @ CHR '':'' # w'"
  proof -
    have "prefix (t @ CHR '':'' # a @ '':'') (t' @ CHR '':'' # a' @ CHR '':'' # w')"
      unfolding that [symmetric] by (simp add: prefix_def)
    then show ?thesis using assms same_account_fields [of t t' a a' w'] by (simp add: plain_account_def)
  qed
  then show ?thesis by (auto simp: window_key_def)
qed

lemma ledger_prefix_of:
  assumes "plain_account t a" "plain_account t' a'"
  shows "prefix (ledger_prefix t a) (ledger_prefix t' a' @ r) \<longleftrightarrow> t = t' \<and> a = a'"
  using same_account_fields [of t t' a a' r] assms by (simp add: ledger_prefix_def plain_account_def)

section \<open>What the billing tables promise the runtime\<close>

locale billing_store =
  fixes ok :: "'s \<Rightarrow> bool"
    and account :: "'s \<Rightarrow> string \<Rightarrow> string \<Rightarrow> BudgetAccount option"
    and window :: "'s \<Rightarrow> string \<Rightarrow> string \<Rightarrow> string \<Rightarrow> QuotaWindow option"
    and ledger :: "'s \<Rightarrow> string \<Rightarrow> string \<Rightarrow> SpendLedger list"
    and put_account :: "'s \<Rightarrow> BudgetAccount \<Rightarrow> 's \<times> BudgetAccount result"
    and put_window :: "'s \<Rightarrow> QuotaWindow \<Rightarrow> 's \<times> QuotaWindow result"
    and append :: "'s \<Rightarrow> SpendLedger \<Rightarrow> 's \<times> SpendLedger result"
    and put_attribution :: "'s \<Rightarrow> CostAttribution \<Rightarrow> 's \<times> CostAttribution result"
  assumes account_put: "ok s \<Longrightarrow> plain_account (ba_tenant_id x) (ba_account_id x) \<Longrightarrow>
      \<exists>s'. put_account s x = (s', Ok x) \<and> ok s' \<and> window s' = window s \<and> ledger s' = ledger s \<and>
        (\<forall>t a. plain_account t a \<longrightarrow>
           account s' t a =
             (if t = ba_tenant_id x \<and> a = ba_account_id x then Some x else account s t a))"
    and window_put: "ok s \<Longrightarrow> plain_account (qw_tenant_id y) (qw_account_id y) \<Longrightarrow>
      \<exists>s'. put_window s y = (s', Ok y) \<and> ok s' \<and> account s' = account s \<and> ledger s' = ledger s \<and>
        (\<forall>t a w. plain_account t a \<longrightarrow>
           window s' t a w =
             (if t = qw_tenant_id y \<and> a = qw_account_id y \<and> w = qw_window_id y then Some y
              else window s t a w))"
    and append_entry: "ok s \<Longrightarrow> plain_account (sl_tenant_id e) (sl_account_id e) \<Longrightarrow>
      append s e = (s', Inr e') \<Longrightarrow>
        ok s' \<and> account s' = account s \<and> window s' = window s \<and>
        (\<forall>t a. plain_account t a \<longrightarrow>
           mset (ledger s' t a) =
             (if t = sl_tenant_id e \<and> a = sl_account_id e then {#e#} else {#}) + mset (ledger s t a))"
    and append_refused: "ok s \<Longrightarrow> append s e = (s', Inl err) \<Longrightarrow> s' = s"
    and attribution_put: "ok s \<Longrightarrow>
      \<exists>s'. put_attribution s z = (s', Ok z) \<and> ok s' \<and> account s' = account s \<and>
           window s' = window s \<and> ledger s' = ledger s"
begin

text \<open>Account and window written together, in the order of every billing operation.\<close>

lemma books:
  assumes "ok s" "plain_account (ba_tenant_id x) (ba_account_id x)"
    "plain_account (qw_tenant_id y) (qw_account_id y)"
  obtains s' where
    "then_do (put_account s x) (\<lambda>s _. then_do (put_window s y) (\<lambda>s _. (s, Ok ()))) = (s', Ok ())"
    "ok s'" "ledger s' = ledger s"
    "\<And>t a. plain_account t a \<Longrightarrow>
       account s' t a = (if t = ba_tenant_id x \<and> a = ba_account_id x then Some x else account s t a)"
    "\<And>t a w. plain_account t a \<Longrightarrow>
       window s' t a w = (if t = qw_tenant_id y \<and> a = qw_account_id y \<and> w = qw_window_id y
                          then Some y else window s t a w)"
proof -
  obtain s1 where s1: "put_account s x = (s1, Ok x)" "ok s1" "window s1 = window s"
      "ledger s1 = ledger s" "\<forall>t a. plain_account t a \<longrightarrow>
         account s1 t a = (if t = ba_tenant_id x \<and> a = ba_account_id x then Some x else account s t a)"
    using account_put [OF assms(1,2)] by blast
  obtain s2 where s2: "put_window s1 y = (s2, Ok y)" "ok s2" "account s2 = account s1"
      "ledger s2 = ledger s1" "\<forall>t a w. plain_account t a \<longrightarrow>
         window s2 t a w = (if t = qw_tenant_id y \<and> a = qw_account_id y \<and> w = qw_window_id y
                            then Some y else window s1 t a w)"
    using window_put [OF s1(2) assms(3)] by blast
  show thesis
    by (rule that [of s2]) (use s1 s2 in simp_all)
qed

end

definition billing_ok :: "table_codecs \<Rightarrow> KnowledgeTable \<Rightarrow> bool" where
  "billing_ok c db \<longleftrightarrow> billing_codecs_ok c \<and> table_ok db"

lemma billing_okD:
  "billing_ok c db \<Longrightarrow> codec_ok (tc_budget_account c)" "billing_ok c db \<Longrightarrow> codec_ok (tc_spend_ledger c)"
  "billing_ok c db \<Longrightarrow> codec_ok (tc_quota_window c)" "billing_ok c db \<Longrightarrow> codec_ok (tc_cost_attribution c)"
  "billing_ok c db \<Longrightarrow> table_ok db"
  by (simp_all add: billing_ok_def billing_codecs_ok_def)

lemma billing_ok_table: "billing_ok c db \<Longrightarrow> table_ok db' \<Longrightarrow> billing_ok c db'"
  by (simp add: billing_ok_def)

lemmas billing_reads = get_budget_account_def get_quota_window_def list_spend_ledger_def
  fallback_kv_get_def fallback_kv_list_def

lemma billing_keys [simp]:
  "account_key t a \<noteq> window_key t' a' w" "window_key t a w \<noteq> account_key t' a'"
  "account_key t a \<noteq> ledger_prefix t' a' @ r" "window_key t a w \<noteq> ledger_prefix t' a' @ r"
  "account_key t a \<noteq> attribution_prefix t' a' @ r" "window_key t a w \<noteq> attribution_prefix t' a' @ r"
  "\<not> prefix (ledger_prefix t a) (account_key t' a')"
  "\<not> prefix (ledger_prefix t a) (window_key t' a' w)"
  "\<not> prefix (ledger_prefix t a) (attribution_prefix t' s @ r)"
  "\<not> evidence_key (account_key t a)" "\<not> evidence_key (window_key t a w)"
  "\<not> evidence_key (ledger_prefix t a @ r)" "\<not> evidence_key (attribution_prefix t a @ r)"
  by (simp_all add: account_key_def window_key_def ledger_prefix_def attribution_prefix_def)

interpretation tables: billing_store "billing_ok c" "get_budget_account c" "get_quota_window c"
  "list_spend_ledger c" "upsert_budget_account c" "upsert_quota_window c" "append_spend_ledger c"
  "upsert_cost_attribution c" for c
proof
  fix s s' :: KnowledgeTable and x y e e' z err
  show "\<exists>s'. upsert_budget_account c s x = (s', Ok x) \<and> billing_ok c s' \<and>
      get_quota_window c s' = get_quota_window c s \<and> list_spend_ledger c s' = list_spend_ledger c s \<and>
      (\<forall>t a. plain_account t a \<longrightarrow> get_budget_account c s' t a =
         (if t = ba_tenant_id x \<and> a = ba_account_id x then Some x else get_budget_account c s t a))"
    if ok: "billing_ok c s" and plain: "plain_account (ba_tenant_id x) (ba_account_id x)"
    by (rule put_record_effect [OF billing_okD(1) [OF ok] billing_okD(5) [OF ok],
          of "account_key (ba_tenant_id x) (ba_account_id x)" x "''billing''"])
       (use ok plain in \<open>auto simp: upsert_budget_account_def billing_reads fun_eq_iff account_key_eq
          intro: billing_ok_table\<close>)
  show "\<exists>s'. upsert_quota_window c s y = (s', Ok y) \<and> billing_ok c s' \<and>
      get_budget_account c s' = get_budget_account c s \<and> list_spend_ledger c s' = list_spend_ledger c s \<and>
      (\<forall>t a w. plain_account t a \<longrightarrow> get_quota_window c s' t a w =
         (if t = qw_tenant_id y \<and> a = qw_account_id y \<and> w = qw_window_id y then Some y
          else get_quota_window c s t a w))"
    if ok: "billing_ok c s" and plain: "plain_account (qw_tenant_id y) (qw_account_id y)"
    by (rule put_record_effect [OF billing_okD(3) [OF ok] billing_okD(5) [OF ok],
          of "window_key (qw_tenant_id y) (qw_account_id y) (qw_window_id y)" y "''billing''"])
       (use ok plain in \<open>auto simp: upsert_quota_window_def billing_reads fun_eq_iff window_key_eq
          intro: billing_ok_table\<close>)
  show "\<exists>s'. upsert_cost_attribution c s z = (s', Ok z) \<and> billing_ok c s' \<and>
      get_budget_account c s' = get_budget_account c s \<and> get_quota_window c s' = get_quota_window c s \<and>
      list_spend_ledger c s' = list_spend_ledger c s" if ok: "billing_ok c s"
    by (rule put_record_effect [OF billing_okD(4) [OF ok] billing_okD(5) [OF ok],
          of "attribution_prefix (ca_tenant_id z) (ca_session_id z) @ ca_attribution_id z" z
             "''billing''"])
       (use ok in \<open>auto simp: upsert_cost_attribution_def billing_reads fun_eq_iff
          intro: billing_ok_table\<close>)
  show "billing_ok c s' \<and> get_budget_account c s' = get_budget_account c s \<and>
      get_quota_window c s' = get_quota_window c s \<and>
      (\<forall>t a. plain_account t a \<longrightarrow> mset (list_spend_ledger c s' t a) =
         (if t = sl_tenant_id e \<and> a = sl_account_id e then {#e#} else {#}) +
         mset (list_spend_ledger c s t a))"
    if ok: "billing_ok c s" and plain: "plain_account (sl_tenant_id e) (sl_account_id e)"
      and "append_spend_ledger c s e = (s', Inr e')"
  proof -
    let ?key = "ledger_prefix (sl_tenant_id e) (sl_account_id e) @ sl_ledger_id e"
    have fresh: "get_knowledge s ?key = None"
      and put: "put_record (tc_spend_ledger c) s ?key e ''billing'' = (s', Inr e')"
      using that(3) by (auto simp: append_spend_ledger_def Let_def split: if_splits)
    show ?thesis
    proof (rule put_record_effect [OF billing_okD(2) [OF ok] billing_okD(5) [OF ok], of ?key e "''billing''"])
      fix db'
      assume w: "put_record (tc_spend_ledger c) s ?key e ''billing'' = (db', Ok e)" "table_ok db'"
        "\<And>k. k \<noteq> ?key \<Longrightarrow> get_knowledge db' k = get_knowledge s k"
        "\<And>pfx. \<not> prefix pfx ?key \<Longrightarrow> list_knowledge_by_prefix db' pfx = list_knowledge_by_prefix s pfx"
        "\<And>pfx. prefix pfx ?key \<Longrightarrow> get_knowledge s ?key = None \<Longrightarrow>
           mset (fallback_kv_list (tc_spend_ledger c) db' pfx) =
           add_mset e (mset (fallback_kv_list (tc_spend_ledger c) s pfx))"
      have db': "db' = s'" using w(1) put by simp
      have "mset (fallback_kv_list (tc_spend_ledger c) s' (ledger_prefix t a)) =
          (if t = sl_tenant_id e \<and> a = sl_account_id e then {#e#} else {#}) +
          mset (fallback_kv_list (tc_spend_ledger c) s (ledger_prefix t a))" if "plain_account t a" for t a
        using w(4,5) [of "ledger_prefix t a"] fresh
        by (auto simp: db' ledger_prefix_of [OF that plain] fallback_kv_list_def)
      then show ?thesis
        using w(2,3) ok
        by (auto simp: db' get_budget_account_def get_quota_window_def list_spend_ledger_def
              fallback_kv_get_def fun_eq_iff intro: billing_ok_table)
    qed simp
  qed
  show "s' = s" if ok: "billing_ok c s" and "append_spend_ledger c s e = (s', Inl err)"
    by (rule put_record_effect [OF billing_okD(2) [OF ok] billing_okD(5) [OF ok],
          of "ledger_prefix (sl_tenant_id e) (sl_account_id e) @ sl_ledger_id e" e "''billing''"])
       (use that in \<open>auto simp: append_spend_ledger_def Let_def split: if_splits\<close>)
qed

end
