(* ===== verification/Float32.thy ===== *)
theory Float32
  imports Complex_Main Rust_Strings
begin

text \<open>
  The \<^verbatim>\<open>f32\<close> values the runtime compares: a finite, non-negative value is the rational it stands
  for, and \<open>round_f32\<close> rounds a rational below \<open>2 ^ 24\<close> to the nearest \<^verbatim>\<open>f32\<close>, ties to even, as
  a literal, a cast or a division does. NaN, infinities and the sign of zero do not occur.
\<close>

type_synonym f32 = rat

definition round_half_even :: "rat \<Rightarrow> int" where
  "round_half_even x =
     (let n = \<lfloor>x\<rfloor>; d = x - of_int n
      in if d < 1 / 2 then n else if 1 / 2 < d then n + 1 else if even n then n else n + 1)"

text \<open>The power of two that brings the value to a 24-bit significand; 149 is the subnormal limit.\<close>

fun f32_scale :: "nat \<Rightarrow> rat \<Rightarrow> nat" where
  "f32_scale 0 x = 0"
| "f32_scale (Suc n) x = (if 2 ^ 23 \<le> x then 0 else Suc (f32_scale n (2 * x)))"

definition round_f32 :: "rat \<Rightarrow> f32" where
  "round_f32 x = (let k = f32_scale 149 x in of_int (round_half_even (x * 2 ^ k)) / 2 ^ k)"

lemma round_half_even_le: "\<bar>of_int (round_half_even x) - x\<bar> \<le> 1 / 2"
proof -
  have "of_int \<lfloor>x\<rfloor> \<le> x" "x < of_int \<lfloor>x\<rfloor> + 1" by linarith+
  then show ?thesis by (auto simp: round_half_even_def Let_def abs_le_iff)
qed

lemma round_half_even_int [simp]: "round_half_even (of_int n) = n"
  by (simp add: round_half_even_def)

lemma round_half_even_le_int: "x \<le> of_int n \<Longrightarrow> round_half_even x \<le> n"
proof -
  assume x: "x \<le> of_int n"
  show ?thesis
  proof (cases "x = of_int n")
    case False
    with x have "\<lfloor>x\<rfloor> < n" by linarith
    then show ?thesis by (auto simp: round_half_even_def Let_def)
  qed simp
qed

lemma round_half_even_ge_int: "of_int n \<le> x \<Longrightarrow> n \<le> round_half_even x"
  by (auto simp: round_half_even_def Let_def le_floor_iff intro: le_floor_iff [THEN iffD2] order_trans)

text \<open>
  Fixed-point display (\<^verbatim>\<open>{:.2}\<close>): the exact value rounded to that many decimals, ties to even.
\<close>

definition show_fixed :: "nat \<Rightarrow> rat \<Rightarrow> string" where
  "show_fixed d x =
     (let n = nat (round_half_even (x * 10 ^ d)); f = show_nat (n mod 10 ^ d)
      in show_nat (n div 10 ^ d) @ (if d = 0 then [] else CHR ''.'' # replicate (d - length f) (CHR ''0'') @ f))"

end
