(* ===== verification/Manifest.thy ===== *)
theory Manifest
  imports Contracts Float32
begin

text \<open>
  The manifest of a forged capability, \<^verbatim>\<open>src/tools/cli_forge.rs\<close>, with its two predicates. The
  runtime guard and the tool registry both decide on it.
\<close>

datatype CliOutputMode = Out_Human | Out_Json | Out_Both

datatype CapabilityStatus =
    Cap_PendingVerification
  | Cap_Active
  | Cap_Deprecated
  | Cap_RolledBack

datatype ApprovalStatus = Appr_Pending | Appr_Verified | Appr_Rejected

datatype CapabilityScope = Scope_Session | Scope_TaskFamily | Scope_Global

datatype CapabilityRisk = Risk_Low | Risk_Medium | Risk_High

datatype SignatureAlgorithm = DeterministicV1

datatype TrustStatus = Trust_Pending | Trust_Trusted | Trust_Rejected

fun debug_capability_status :: "CapabilityStatus \<Rightarrow> string" where
  "debug_capability_status Cap_PendingVerification = ''PendingVerification''"
| "debug_capability_status Cap_Active = ''Active''"
| "debug_capability_status Cap_Deprecated = ''Deprecated''"
| "debug_capability_status Cap_RolledBack = ''RolledBack''"

fun debug_approval :: "ApprovalStatus \<Rightarrow> string" where
  "debug_approval Appr_Pending = ''Pending''"
| "debug_approval Appr_Verified = ''Verified''"
| "debug_approval Appr_Rejected = ''Rejected''"

fun debug_trust :: "TrustStatus \<Rightarrow> string" where
  "debug_trust Trust_Pending = ''Pending''"
| "debug_trust Trust_Trusted = ''Trusted''"
| "debug_trust Trust_Rejected = ''Rejected''"

fun debug_risk :: "CapabilityRisk \<Rightarrow> string" where
  "debug_risk Risk_Low = ''Low''"
| "debug_risk Risk_Medium = ''Medium''"
| "debug_risk Risk_High = ''High''"

fun debug_output_mode :: "CliOutputMode \<Rightarrow> string" where
  "debug_output_mode Out_Human = ''Human''"
| "debug_output_mode Out_Json = ''Json''"
| "debug_output_mode Out_Both = ''Both''"

record CapabilityArtifact =
  at_artifact_id :: string
  at_digest_sha256 :: string
  at_source_uri :: string
  at_build_epoch :: "64 word"

record Signature =
  sg_signer :: string
  sg_algorithm :: SignatureAlgorithm
  sg_signed_payload_hash :: string
  sg_signature :: string
  sg_signed_at_ms :: "64 word"

record Provenance =
  pv_source_repo :: string
  pv_source_ref :: string
  pv_builder :: string
  pv_generated_by :: string

record SbomComponent =
  sc_name :: string
  sc_version :: string
  sc_source :: string
  sc_checksum :: string

record TrustPolicy =
  tr_required_signers :: "string list"
  tr_blocked_dependencies :: "string list"
  tr_min_provenance_ref_len :: nat

text \<open>\<^verbatim>\<open>Sbom\<close> has the one field \<^verbatim>\<open>components\<close>.\<close>

record ForgedMcpToolManifest =
  mf_capability_id :: string
  mf_registered_tool_name :: string
  mf_delegate_tool_name :: string
  mf_server :: string
  mf_capability_name :: string
  mf_purpose :: string
  mf_executable :: string
  mf_command_template :: string
  mf_payload_template :: json
  mf_output_mode :: CliOutputMode
  mf_working_directory :: "string option"
  mf_success_signal :: "string option"
  mf_help_text :: string
  mf_skill_markdown :: string
  mf_examples :: "string list"
  mf_version :: "32 word"
  mf_lineage_key :: string
  mf_status :: CapabilityStatus
  mf_approval_status :: ApprovalStatus
  mf_health_score :: f32
  mf_scope :: CapabilityScope
  mf_tags :: "string list"
  mf_risk :: CapabilityRisk
  mf_requested_by :: string
  mf_created_at_ms :: "64 word"
  mf_updated_at_ms :: "64 word"
  mf_approved_at_ms :: "64 word option"
  mf_rollback_to_version :: "32 word option"
  mf_trust_status :: TrustStatus
  mf_trust_findings :: "string list"
  mf_artifact :: CapabilityArtifact
  mf_signature :: Signature
  mf_provenance :: Provenance
  mf_sbom :: "SbomComponent list"
  mf_trust_policy :: TrustPolicy

definition is_executable :: "ForgedMcpToolManifest \<Rightarrow> bool" where
  "is_executable m \<longleftrightarrow>
     mf_status m = Cap_Active \<and> mf_approval_status m = Appr_Verified \<and>
     mf_trust_status m = Trust_Trusted \<and> round_f32 (55 / 100) \<le> mf_health_score m"

definition requires_gate :: "ForgedMcpToolManifest \<Rightarrow> bool" where
  "requires_gate m \<longleftrightarrow> mf_risk m = Risk_High \<or> mf_risk m = Risk_Medium"

end
