(* ===== verification/Runtime_Kernel.thy ===== *)
theory Runtime_Kernel
  imports Manifest
begin

text \<open>
  \<^verbatim>\<open>RuntimeKernel\<close> of \<^verbatim>\<open>src/runtime/mod.rs\<close>: its configuration, the validation of it, the rollout
  gate, the class a task runs in, and the windows that bound the parallel tool calls of a session.
  The environment variables the code reads are an argument. \<^verbatim>\<open>usize\<close> is 64 bits wide.
\<close>

datatype RuntimeGateMode = Gate_Shadow | Gate_Canary | Gate_Full

datatype PolicyMode = Policy_Off | Policy_Shadow | Policy_Enforced

fun debug_policy_mode :: "PolicyMode \<Rightarrow> string" where
  "debug_policy_mode Policy_Off = ''Off''"
| "debug_policy_mode Policy_Shadow = ''Shadow''"
| "debug_policy_mode Policy_Enforced = ''Enforced''"

record ResourceLimits =
  rl_max_parallel_agents :: "64 word"
  rl_max_memory_mb :: "32 word"

record McpExecutionProfile =
  mp_enabled :: bool
  mp_allow_network_tools :: bool
  mp_tool_breaker_failure_threshold :: "32 word"
  mp_tool_breaker_cooldown_ms :: "64 word"
  mp_mcp_breaker_failure_threshold :: "32 word"
  mp_mcp_breaker_cooldown_ms :: "64 word"

text \<open>
  The attestation settings and the hook runtime belong to parts that are not modelled; the windows
  are a state of their own below; \<^verbatim>\<open>budget_lock\<close> makes each billing operation atomic.
\<close>

record RuntimeKernel =
  rk_limits :: ResourceLimits
  rk_mcp :: McpExecutionProfile
  rk_gate_mode :: RuntimeGateMode
  rk_gate_enforce_ratio :: f32
  rk_rollback_contract_version :: "string option"
  rk_budget_enforced :: bool
  rk_default_budget_micros :: "64 word"
  rk_quota_window_ms :: "64 word"
  rk_quota_window_budget_micros :: "64 word"
  rk_permission_mode_default :: string
  rk_policy_mode_default :: PolicyMode

definition runtime_validate :: "RuntimeKernel \<Rightarrow> unit result" where
  "runtime_validate k =
     (if rl_max_parallel_agents (rk_limits k) = 0
      then Err ''runtime.max_parallel_agents must be greater than 0''
      else if rl_max_memory_mb (rk_limits k) = 0
      then Err ''runtime.max_memory_mb must be greater than 0''
      else if mp_tool_breaker_failure_threshold (rk_mcp k) = 0
      then Err ''runtime.tool_breaker_failure_threshold must be greater than 0''
      else if mp_mcp_breaker_failure_threshold (rk_mcp k) = 0
      then Err ''runtime.mcp_breaker_failure_threshold must be greater than 0''
      else if \<not> (0 \<le> rk_gate_enforce_ratio k \<and> rk_gate_enforce_ratio k \<le> 1)
      then Err ''runtime.gate_enforce_ratio must be within [0.0, 1.0]''
      else if rk_default_budget_micros k = 0
      then Err ''runtime.default_budget_micros must be greater than 0''
      else if rk_quota_window_ms k = 0
      then Err ''runtime.quota_window_ms must be greater than 0''
      else if rk_quota_window_budget_micros k = 0
      then Err ''runtime.quota_window_budget_micros must be greater than 0''
      else Ok ())"

type_synonym env = "string \<Rightarrow> string option"

definition effective_policy_mode :: "RuntimeKernel \<Rightarrow> env \<Rightarrow> PolicyMode" where
  "effective_policy_mode k env =
     (let raw = (case env ''AUTOLOOP_POLICY_MODE'' of
                   Some v \<Rightarrow> v
                 | None \<Rightarrow> to_ascii_lowercase (debug_policy_mode (rk_policy_mode_default k)));
          mode = to_ascii_lowercase (trim raw)
      in if mode = ''off'' then Policy_Off
         else if mode = ''enforced'' then Policy_Enforced else Policy_Shadow)"

definition CONTRACT_VERSION :: string where
  "CONTRACT_VERSION = ''v2''"

definition effective_contract_version :: "RuntimeKernel \<Rightarrow> string" where
  "effective_contract_version k =
     (case rk_rollback_contract_version k of Some v \<Rightarrow> v | None \<Rightarrow> CONTRACT_VERSION)"

section \<open>The rollout gate\<close>

fun fnv1a :: "64 word \<Rightarrow> string \<Rightarrow> 64 word" where
  "fnv1a h [] = h"
| "fnv1a h (c # s) = fnv1a (xor h (word_of_nat (byte c)) * 1099511628211) s"

definition gate_bucket :: "string \<Rightarrow> string \<Rightarrow> nat" where
  "gate_bucket session_id task_id =
     unat (fnv1a 1469598103934665603 (session_id @ '':'' @ task_id) mod 10000)"

definition should_enforce_gate :: "RuntimeKernel \<Rightarrow> string \<Rightarrow> string \<Rightarrow> bool" where
  "should_enforce_gate k session_id task_id =
     (case rk_gate_mode k of
        Gate_Shadow \<Rightarrow> False
      | Gate_Full \<Rightarrow> True
      | Gate_Canary \<Rightarrow>
          round_f32 (rat_of_nat (gate_bucket session_id task_id) / 10000) < rk_gate_enforce_ratio k)"

section \<open>The class of a task\<close>

datatype RuntimeClass = Class_Provider | Class_ToolNative | Class_ToolSandboxed | Class_TrustedHighRisk

definition classify_runtime_class ::
    "TaskEnvelope \<Rightarrow> ForgedMcpToolManifest option \<Rightarrow> bool \<Rightarrow> RuntimeClass" where
  "classify_runtime_class envelope manifest allow_shell =
     (if prefix ''provider:'' (te_capability_id envelope) then Class_Provider
      else let trusted_hint = (case te_trust_plan envelope of
                  None \<Rightarrow> False
                | Some plan \<Rightarrow> tp_attestation_required plan \<or> tp_verify_environment plan);
               high_risk_hint = (case manifest of None \<Rightarrow> False | Some m \<Rightarrow> mf_risk m = Risk_High)
           in if trusted_hint \<or> high_risk_hint then Class_TrustedHighRisk
              else if manifest \<noteq> None \<and> allow_shell then Class_ToolSandboxed
              else Class_ToolNative)"

section \<open>Parallel tool windows\<close>

text \<open>
  The windows are behind a lock that each operation holds to its end. A guard gives its place back
  when it is dropped.
\<close>

type_synonym windows = "string \<rightharpoonup> 64 word"

definition max_parallel_tool_window :: "RuntimeKernel \<Rightarrow> 64 word" where
  "max_parallel_tool_window k =
     (let parallel_limit = max (rl_max_parallel_agents (rk_limits k)) 1
      in if \<not> rk_budget_enforced k then parallel_limit
         else max (min parallel_limit (max (rk_quota_window_budget_micros k div 500) 1)) 1)"

record ParallelToolWindowGuard =
  wg_session_key :: string

definition try_enter_parallel_tool_window ::
    "RuntimeKernel \<Rightarrow> windows \<Rightarrow> string \<Rightarrow>
     windows \<times> (ParallelToolWindowGuard \<times> 64 word \<times> 64 word) result" where
  "try_enter_parallel_tool_window k windows session_id =
     (let limit = max_parallel_tool_window k;
          active = saturating_add (case windows session_id of None \<Rightarrow> 0 | Some n \<Rightarrow> n) 1
      in if limit < active then
           (let entry = saturating_sub active 1
            in (if entry = 0 then windows(session_id := None) else windows(session_id \<mapsto> entry),
                Err (''parallel tool-call budget guard exceeded: active='' @ show_word active @
                     '' limit='' @ show_word limit @ '' session='' @ session_id)))
         else (windows(session_id \<mapsto> active),
               Ok (\<lparr> wg_session_key = session_id \<rparr>, active, limit)))"

definition drop_window_guard :: "windows \<Rightarrow> ParallelToolWindowGuard \<Rightarrow> windows" where
  "drop_window_guard windows guard =
     (case windows (wg_session_key guard) of
        None \<Rightarrow> windows
      | Some n \<Rightarrow> (let active = saturating_sub n 1
                   in if active = 0 then windows(wg_session_key guard := None)
                      else windows(wg_session_key guard \<mapsto> active)))"

text \<open>
  The windows of a runtime with the guards it has given out and not yet dropped, in any
  interleaving of calls and drops.
\<close>

inductive windows_run ::
    "RuntimeKernel \<Rightarrow> windows \<Rightarrow> ParallelToolWindowGuard multiset \<Rightarrow> bool" for k where
  start: "windows_run k Map.empty {#}"
| enter: "windows_run k w held \<Longrightarrow>
    try_enter_parallel_tool_window k w s = (w', Inr (g, active, limit)) \<Longrightarrow>
    windows_run k w' (add_mset g held)"
| refuse: "windows_run k w held \<Longrightarrow>
    try_enter_parallel_tool_window k w s = (w', Inl e) \<Longrightarrow> windows_run k w' held"
| leave: "windows_run k w (add_mset g held) \<Longrightarrow> windows_run k (drop_window_guard w g) held"

definition window_of :: "windows \<Rightarrow> string \<Rightarrow> nat" where
  "window_of w s = (case w s of None \<Rightarrow> 0 | Some n \<Rightarrow> unat n)"

lemma max_parallel_tool_window_pos: "1 \<le> unat (max_parallel_tool_window k)"
proof -
  have "(1 :: 64 word) \<le> max_parallel_tool_window k"
    by (auto simp: max_parallel_tool_window_def Let_def)
  then show ?thesis by (simp add: word_le_nat_alt)
qed

text \<open>One call, as the window of a session sees it.\<close>

lemma enter_window:
  assumes "try_enter_parallel_tool_window k w t = (w', r)"
    and small: "unat (max_parallel_tool_window k) < 2 ^ 64 - 1"
    and le: "window_of w t \<le> unat (max_parallel_tool_window k)"
  shows "(case r of
            Inl _ \<Rightarrow> window_of w' t = window_of w t \<and> window_of w t = unat (max_parallel_tool_window k)
          | Inr (g, active, limit) \<Rightarrow>
              wg_session_key g = t \<and> window_of w' t = Suc (window_of w t) \<and>
              window_of w t < unat (max_parallel_tool_window k) \<and> unat active = window_of w' t \<and>
              limit = max_parallel_tool_window k) \<and>
         (\<forall>s. s \<noteq> t \<longrightarrow> w' s = w s)"
proof -
  define active where "active = saturating_add (case w t of None \<Rightarrow> 0 | Some n \<Rightarrow> n) (1 :: 64 word)"
  have active: "unat active = Suc (window_of w t)"
    using small le unfolding active_def unat_saturating_add window_of_def
    by (auto split: option.splits)
  then have "unat (saturating_sub active 1) = window_of w t" by simp
  moreover have "saturating_sub active 1 = 0 \<longleftrightarrow> window_of w t = 0"
    using calculation by (metis unat_0 unat_eq_zero)
  moreover have "max_parallel_tool_window k < active \<longleftrightarrow> window_of w t = unat (max_parallel_tool_window k)"
    using active le by (auto simp: word_less_nat_alt less_Suc_eq_le)
  ultimately show ?thesis
    using assms(1) active le max_parallel_tool_window_pos [of k]
    unfolding try_enter_parallel_tool_window_def Let_def active_def [symmetric]
    by (auto simp: window_of_def split: if_splits)
qed

lemma drop_window:
  "window_of (drop_window_guard w g) s =
     (if s = wg_session_key g then window_of w s - 1 else window_of w s)"
  by (auto simp: drop_window_guard_def window_of_def Let_def unat_eq_zero [symmetric]
           split: option.split)

lemma windows_run_held:
  assumes "windows_run k w held" "unat (max_parallel_tool_window k) < 2 ^ 64 - 1"
  shows "window_of w s = size (filter_mset (\<lambda>g. wg_session_key g = s) held) \<and>
         window_of w s \<le> unat (max_parallel_tool_window k)"
  using assms
proof (induction arbitrary: s)
  case start
  then show ?case by (simp add: window_of_def)
next
  case (enter w held t w' g active limit)
  then show ?case
    using enter_window [OF enter.hyps(2) enter.prems] enter.IH [OF enter.prems, of t]
      enter.IH [OF enter.prems, of s]
    by (cases "s = t") (auto simp: window_of_def)
next
  case (refuse w held t w' e)
  then show ?case
    using enter_window [OF refuse.hyps(2) refuse.prems] refuse.IH [OF refuse.prems, of t]
      refuse.IH [OF refuse.prems, of s]
    by (cases "s = t") (auto simp: window_of_def)
next
  case (leave w g held)
  then show ?case using leave.IH [OF leave.prems, of s] by (auto simp: drop_window)
qed

text \<open>
  C39: A session never runs more tools in parallel than its window: in every interleaving of calls
  and returns, the number of guards it holds is the size of its window, which is at most the
  limit, and a call is admitted exactly when the limit is not reached.
\<close>

theorem parallel_window_bounded:
  assumes "windows_run k w held" "unat (max_parallel_tool_window k) < 2 ^ 64 - 1"
  shows "size (filter_mset (\<lambda>g. wg_session_key g = s) held) \<le> unat (max_parallel_tool_window k) \<and>
         (is_ok (snd (try_enter_parallel_tool_window k w s)) \<longleftrightarrow>
          size (filter_mset (\<lambda>g. wg_session_key g = s) held) < unat (max_parallel_tool_window k))"
proof -
  have size: "size (filter_mset (\<lambda>g. wg_session_key g = s) held) = window_of w s"
    using windows_run_held [OF assms, of s] by simp
  obtain w' r where call: "try_enter_parallel_tool_window k w s = (w', r)" by fastforce
  have le: "window_of w s \<le> unat (max_parallel_tool_window k)"
    using windows_run_held [OF assms, of s] by blast
  have "is_ok r \<longleftrightarrow> window_of w s < unat (max_parallel_tool_window k)"
    using enter_window [OF call assms(2) le] by (cases r) auto
  then show ?thesis by (simp add: size call le)
qed

definition sample_kernel :: RuntimeKernel where
  "sample_kernel =
     \<lparr> rk_limits = \<lparr> rl_max_parallel_agents = 2, rl_max_memory_mb = 512 \<rparr>,
       rk_mcp = \<lparr> mp_enabled = True, mp_allow_network_tools = False,
                  mp_tool_breaker_failure_threshold = 2, mp_tool_breaker_cooldown_ms = 1000,
                  mp_mcp_breaker_failure_threshold = 2, mp_mcp_breaker_cooldown_ms = 1000 \<rparr>,
       rk_gate_mode = Gate_Full, rk_gate_enforce_ratio = 1, rk_rollback_contract_version = None,
       rk_budget_enforced = True, rk_default_budget_micros = 5000000,
       rk_quota_window_ms = 60000, rk_quota_window_budget_micros = 1000000,
       rk_permission_mode_default = ''strict'', rk_policy_mode_default = Policy_Shadow \<rparr>"

lemma sample_limit: "max_parallel_tool_window sample_kernel = 2"
  by (simp add: sample_kernel_def max_parallel_tool_window_def max_def min_def word_le_nat_alt)

theorem parallel_window_bounded_witness:
  "size (filter_mset (\<lambda>g. wg_session_key g = ''s'') {# \<lparr> wg_session_key = ''s'' \<rparr> #}) \<le>
     unat (max_parallel_tool_window sample_kernel) \<and>
   (is_ok (snd (try_enter_parallel_tool_window sample_kernel [''s'' \<mapsto> 1] ''s'')) \<longleftrightarrow>
    size (filter_mset (\<lambda>g. wg_session_key g = ''s'') {# \<lparr> wg_session_key = ''s'' \<rparr> #}) <
      unat (max_parallel_tool_window sample_kernel))"
proof (rule parallel_window_bounded)
  have "try_enter_parallel_tool_window sample_kernel Map.empty ''s'' =
          ([''s'' \<mapsto> 1], Inr (\<lparr> wg_session_key = ''s'' \<rparr>, 1, 2))"
    by (simp add: try_enter_parallel_tool_window_def sample_limit saturating_add_def Let_def)
  from windows_run.enter [OF windows_run.start this]
  show "windows_run sample_kernel [''s'' \<mapsto> 1] {# \<lparr> wg_session_key = ''s'' \<rparr> #}" by simp
qed (simp add: sample_limit)

end
