(* ===== verification/Runtime_Budget.thy ===== *)
theory Runtime_Budget
  imports State_Tables Runtime_Kernel
begin

text \<open>
  The billing of \<^verbatim>\<open>src/runtime/mod.rs\<close>: reservation of an estimate before a task runs, settlement
  with the measured cost or rollback after it, the spend ledger they write, and the reconciliation
  of an account with its ledger. \<^verbatim>\<open>budget_lock\<close> is held from the first read of an operation to
  its last write. The clock reading of an operation is an argument.
\<close>

section \<open>Costs\<close>

record CostBreakdown =
  cb_token_cost_micros :: "64 word"
  cb_tool_cost_micros :: "64 word"
  cb_duration_cost_micros :: "64 word"
  cb_total_cost_micros :: "64 word"

text \<open>\<^verbatim>\<open>saturating_mul\<close>.\<close>

definition saturating_mul :: "'a::len word \<Rightarrow> 'a word \<Rightarrow> 'a word" where
  "saturating_mul a b = (if unat a * unat b < 2 ^ LENGTH('a) then a * b else - 1)"

definition tool_charge :: "TaskEnvelope \<Rightarrow> 64 word" where
  "tool_charge envelope = (if prefix ''provider:'' (te_capability_id envelope) then 200 else 500)"

definition estimate_precharge_micros :: "TaskEnvelope \<Rightarrow> 32 word \<Rightarrow> 64 word" where
  "estimate_precharge_micros envelope estimated_tokens =
     (let token_cost = ucast estimated_tokens * 10;
          duration_cost = min (cn_timeout_ms (te_constraints envelope)) 5000 * 2
      in max (saturating_add (saturating_add token_cost (tool_charge envelope)) duration_cost) 1000)"

definition cost_breakdown :: "32 word \<Rightarrow> 32 word \<Rightarrow> 64 word \<Rightarrow> CostBreakdown" where
  "cost_breakdown provider_tokens tool_invocations duration_ms =
     (let token = ucast provider_tokens * 10;
          tool = ucast tool_invocations * 500;
          duration = saturating_mul (max duration_ms 1) 2
      in \<lparr> cb_token_cost_micros = token, cb_tool_cost_micros = tool,
           cb_duration_cost_micros = duration,
           cb_total_cost_micros = saturating_add (saturating_add token tool) duration \<rparr>)"

definition account_id_for :: "TaskEnvelope \<Rightarrow> string" where
  "account_id_for envelope =
     (let i = te_identity envelope
      in id_tenant_id i @ '':'' @ id_principal_id i @ '':'' @ id_policy_id i)"

text \<open>A zero window length, which \<open>runtime_validate\<close> refuses, panics here.\<close>

definition window_id_for :: "RuntimeKernel \<Rightarrow> 64 word \<Rightarrow> string result" where
  "window_id_for k timestamp_ms =
     (if rk_quota_window_ms k = 0 then Inl Panicked
      else Ok (show_word (timestamp_ms div rk_quota_window_ms k)))"

definition window_bounds :: "RuntimeKernel \<Rightarrow> 64 word \<Rightarrow> (64 word \<times> 64 word) result" where
  "window_bounds k timestamp_ms =
     (if rk_quota_window_ms k = 0 then Inl Panicked
      else let start = (timestamp_ms div rk_quota_window_ms k) * rk_quota_window_ms k
           in Ok (start, saturating_add start (rk_quota_window_ms k)))"

section \<open>Reserving\<close>

record BudgetReservation =
  br_reservation_id :: string
  br_account_id :: string
  br_tenant_id :: string
  br_principal_id :: string
  br_policy_id :: string
  br_reserved_micros :: "64 word"
  br_started_at_ms :: "64 word"

text \<open>What every operation writes: the account, the window, and entries of the spend ledger.\<close>

definition post_books ::
    "table_codecs \<Rightarrow> KnowledgeTable \<Rightarrow> BudgetAccount \<Rightarrow> QuotaWindow \<Rightarrow> KnowledgeTable \<times> unit result"
  where
  "post_books c db account window =
     then_do (upsert_budget_account c db account) (\<lambda>db _.
     then_do (upsert_quota_window c db window) (\<lambda>db _. (db, Ok ())))"

definition stamp :: "TaskEnvelope \<Rightarrow> 64 word \<Rightarrow> string" where
  "stamp envelope now = te_trace_id envelope @ '':'' @ te_task_id envelope @ '':'' @ show_word now"

definition ledger_entry ::
    "string \<Rightarrow> string \<Rightarrow> string \<Rightarrow> TaskEnvelope \<Rightarrow> SpendLedgerKind \<Rightarrow> 64 word \<Rightarrow>
     64 word \<times> 64 word \<times> 64 word \<Rightarrow> string \<Rightarrow> 64 word \<Rightarrow> SpendLedger" where
  "ledger_entry ledger_id tenant_id account_id envelope kind amount costs reason created =
     \<lparr> sl_ledger_id = ledger_id, sl_tenant_id = tenant_id, sl_account_id = account_id,
       sl_session_id = te_session_id envelope, sl_trace_id = te_trace_id envelope,
       sl_task_id = te_task_id envelope, sl_capability_id = te_capability_id envelope,
       sl_kind = kind, sl_amount_micros = amount, sl_token_cost_micros = fst costs,
       sl_tool_cost_micros = fst (snd costs), sl_duration_cost_micros = snd (snd costs),
       sl_reason = reason, sl_created_at_ms = created \<rparr>"

definition account_of ::
    "RuntimeKernel \<Rightarrow> table_codecs \<Rightarrow> KnowledgeTable \<Rightarrow> TaskEnvelope \<Rightarrow> 64 word \<Rightarrow> BudgetAccount" where
  "account_of k c db envelope now =
     (let i = te_identity envelope
      in case get_budget_account c db (id_tenant_id i) (account_id_for envelope) of
           Some account \<Rightarrow> account
         | None \<Rightarrow>
             \<lparr> ba_account_id = account_id_for envelope, ba_tenant_id = id_tenant_id i,
               ba_principal_id = id_principal_id i, ba_policy_id = id_policy_id i,
               ba_total_budget_micros = rk_default_budget_micros k, ba_reserved_micros = 0,
               ba_spent_micros = 0, ba_blocked_count = 0, ba_updated_at_ms = now \<rparr>)"

definition window_of_account ::
    "RuntimeKernel \<Rightarrow> table_codecs \<Rightarrow> KnowledgeTable \<Rightarrow> TaskEnvelope \<Rightarrow> string \<Rightarrow> 64 word \<times> 64 word \<Rightarrow>
     64 word \<Rightarrow> QuotaWindow" where
  "window_of_account k c db envelope window_id bounds now =
     (case get_quota_window c db (id_tenant_id (te_identity envelope)) (account_id_for envelope)
             window_id of
        Some window \<Rightarrow> window
      | None \<Rightarrow>
          \<lparr> qw_window_id = window_id, qw_tenant_id = id_tenant_id (te_identity envelope),
            qw_account_id = account_id_for envelope, qw_window_start_ms = fst bounds,
            qw_window_end_ms = snd bounds, qw_window_budget_micros = rk_quota_window_budget_micros k,
            qw_consumed_micros = 0, qw_blocked_count = 0, qw_updated_at_ms = now \<rparr>)"

definition account_remaining :: "BudgetAccount \<Rightarrow> 64 word" where
  "account_remaining account =
     saturating_sub (ba_total_budget_micros account)
       (saturating_add (ba_spent_micros account) (ba_reserved_micros account))"

definition window_remaining :: "QuotaWindow \<Rightarrow> 64 word" where
  "window_remaining window =
     saturating_sub (qw_window_budget_micros window) (qw_consumed_micros window)"

definition block_precharge ::
    "table_codecs \<Rightarrow> KnowledgeTable \<Rightarrow> TaskEnvelope \<Rightarrow> 32 word \<Rightarrow> 64 word \<Rightarrow> BudgetAccount \<Rightarrow>
     QuotaWindow \<Rightarrow> KnowledgeTable \<times> BudgetReservation option result" where
  "block_precharge c db envelope estimated_tokens now account window =
     then_do (post_books c db
         (account\<lparr> ba_blocked_count := saturating_add (ba_blocked_count account) 1,
                   ba_updated_at_ms := now \<rparr>)
         (window\<lparr> qw_blocked_count := saturating_add (qw_blocked_count window) 1,
                  qw_updated_at_ms := now \<rparr>)) (\<lambda>db _.
       (fst (append_spend_ledger c db
          (ledger_entry (''blocked:'' @ stamp envelope now) (id_tenant_id (te_identity envelope))
            (account_id_for envelope) envelope Spend_Blocked
            (estimate_precharge_micros envelope estimated_tokens)
            (ucast estimated_tokens * 10, tool_charge envelope, 0)
            ''budget_precharge_exceeded'' now)),
        Err ''budget precharge exceeded''))"

definition take_precharge ::
    "table_codecs \<Rightarrow> KnowledgeTable \<Rightarrow> TaskEnvelope \<Rightarrow> 32 word \<Rightarrow> 64 word \<Rightarrow> BudgetAccount \<Rightarrow>
     QuotaWindow \<Rightarrow> KnowledgeTable \<times> BudgetReservation option result" where
  "take_precharge c db envelope estimated_tokens now account window =
     (let estimated = estimate_precharge_micros envelope estimated_tokens;
          i = te_identity envelope;
          reservation_id = ''reserve:'' @ stamp envelope now
      in then_do (post_books c db
             (account\<lparr> ba_reserved_micros := saturating_add (ba_reserved_micros account) estimated,
                       ba_updated_at_ms := now \<rparr>)
             (window\<lparr> qw_consumed_micros := saturating_add (qw_consumed_micros window) estimated,
                      qw_updated_at_ms := now \<rparr>)) (\<lambda>db _.
         then_do (append_spend_ledger c db
             (ledger_entry reservation_id (id_tenant_id i) (account_id_for envelope) envelope
               Spend_Reserve estimated (ucast estimated_tokens * 10, tool_charge envelope, 0)
               ''precharge'' now)) (\<lambda>db _.
         (db, Ok (Some \<lparr> br_reservation_id = reservation_id, br_account_id = account_id_for envelope,
                         br_tenant_id = id_tenant_id i, br_principal_id = id_principal_id i,
                         br_policy_id = id_policy_id i, br_reserved_micros = estimated,
                         br_started_at_ms = now \<rparr>)))))"

definition precharge_budget ::
    "RuntimeKernel \<Rightarrow> table_codecs \<Rightarrow> KnowledgeTable \<Rightarrow> TaskEnvelope \<Rightarrow> 32 word \<Rightarrow> 64 word \<Rightarrow>
     KnowledgeTable \<times> BudgetReservation option result" where
  "precharge_budget k c db envelope estimated_tokens now =
     (if \<not> rk_budget_enforced k then (db, Ok None)
      else let account = account_of k c db envelope now;
               estimated = estimate_precharge_micros envelope estimated_tokens
           in case (window_id_for k now, window_bounds k now) of
                (Inr window_id, Inr bounds) \<Rightarrow>
                  (let window = window_of_account k c db envelope window_id bounds now
                   in if rk_gate_mode k \<noteq> Gate_Shadow \<and>
                         (account_remaining account < estimated \<or> window_remaining window < estimated)
                      then block_precharge c db envelope estimated_tokens now account window
                      else take_precharge c db envelope estimated_tokens now account window)
              | _ \<Rightarrow> (db, Inl Panicked))"

section \<open>Settling and rolling back\<close>

definition find_books ::
    "RuntimeKernel \<Rightarrow> table_codecs \<Rightarrow> KnowledgeTable \<Rightarrow> BudgetReservation \<Rightarrow> string \<Rightarrow>
     (BudgetAccount \<times> QuotaWindow) result" where
  "find_books k c db r during =
     and_then (ok_or (get_budget_account c db (br_tenant_id r) (br_account_id r))
         (''budget account missing during '' @ during)) (\<lambda>account.
     and_then (window_id_for k (br_started_at_ms r)) (\<lambda>window_id.
     and_then (ok_or (get_quota_window c db (br_tenant_id r) (br_account_id r) window_id)
         (''quota window missing during '' @ during)) (\<lambda>window.
     Ok (account, window))))"

definition attribution_of ::
    "TaskEnvelope \<Rightarrow> BudgetReservation \<Rightarrow> 32 word \<Rightarrow> 32 word \<Rightarrow> 64 word \<Rightarrow> CostBreakdown \<Rightarrow> 64 word \<Rightarrow>
     CostAttribution" where
  "attribution_of envelope r provider_tokens tool_invocations duration_ms b now =
     \<lparr> ca_attribution_id = stamp envelope now, ca_tenant_id = br_tenant_id r,
       ca_principal_id = br_principal_id r, ca_policy_id = br_policy_id r,
       ca_session_id = te_session_id envelope, ca_trace_id = te_trace_id envelope,
       ca_task_id = te_task_id envelope, ca_capability_id = te_capability_id envelope,
       ca_provider_tokens = provider_tokens, ca_tool_invocations = tool_invocations,
       ca_duration_ms = duration_ms, ca_token_cost_micros = cb_token_cost_micros b,
       ca_tool_cost_micros = cb_tool_cost_micros b,
       ca_duration_cost_micros = cb_duration_cost_micros b,
       ca_total_cost_micros = cb_total_cost_micros b, ca_settled_at_ms = now \<rparr>"

definition append_refund ::
    "table_codecs \<Rightarrow> KnowledgeTable \<Rightarrow> TaskEnvelope \<Rightarrow> BudgetReservation \<Rightarrow> 64 word \<Rightarrow> 64 word \<Rightarrow>
     KnowledgeTable \<times> unit result" where
  "append_refund c db envelope r cost now =
     (if cost < br_reserved_micros r
      then then_do (append_spend_ledger c db
             (ledger_entry (''refund:'' @ stamp envelope now) (br_tenant_id r) (br_account_id r)
               envelope Spend_Refund (- saturating_sub (br_reserved_micros r) cost) (0, 0, 0)
               (''refund_from:'' @ br_reservation_id r) (saturating_add now 1)))
             (\<lambda>db _. (db, Ok ()))
      else (db, Ok ()))"

definition settle_budget ::
    "RuntimeKernel \<Rightarrow> table_codecs \<Rightarrow> KnowledgeTable \<Rightarrow> TaskEnvelope \<Rightarrow> BudgetReservation \<Rightarrow>
     32 word \<Rightarrow> 32 word \<Rightarrow> 64 word \<Rightarrow> 64 word \<Rightarrow> KnowledgeTable \<times> CostBreakdown result" where
  "settle_budget k c db envelope r provider_tokens tool_invocations duration_ms now =
     (if \<not> rk_budget_enforced k
      then (db, Ok \<lparr> cb_token_cost_micros = 0, cb_tool_cost_micros = 0,
                     cb_duration_cost_micros = 0, cb_total_cost_micros = 0 \<rparr>)
      else case find_books k c db r ''settle'' of
        Inl e \<Rightarrow> (db, Inl e)
      | Inr (account, window) \<Rightarrow>
         (let b = cost_breakdown provider_tokens tool_invocations duration_ms;
              cost = cb_total_cost_micros b
          in then_do (post_books c db
               (account\<lparr> ba_reserved_micros := saturating_sub (ba_reserved_micros account) (br_reserved_micros r),
                         ba_spent_micros := saturating_add (ba_spent_micros account) cost,
                         ba_updated_at_ms := now \<rparr>)
               (window\<lparr> qw_consumed_micros :=
                          saturating_add (saturating_sub (qw_consumed_micros window) (br_reserved_micros r)) cost,
                        qw_updated_at_ms := now \<rparr>)) (\<lambda>db _.
             then_do (append_spend_ledger c db
               (ledger_entry (''settle:'' @ stamp envelope now) (br_tenant_id r) (br_account_id r)
                 envelope Spend_Settle cost
                 (cb_token_cost_micros b, cb_tool_cost_micros b, cb_duration_cost_micros b)
                 (''settled_from:'' @ br_reservation_id r) now)) (\<lambda>db _.
             then_do (append_refund c db envelope r cost now) (\<lambda>db _.
             then_do (upsert_cost_attribution c db
               (attribution_of envelope r provider_tokens tool_invocations duration_ms b now)) (\<lambda>db _.
             (db, Ok b)))))))"

definition rollback_budget ::
    "RuntimeKernel \<Rightarrow> table_codecs \<Rightarrow> KnowledgeTable \<Rightarrow> TaskEnvelope \<Rightarrow> BudgetReservation \<Rightarrow> string \<Rightarrow>
     64 word \<Rightarrow> KnowledgeTable \<times> unit result" where
  "rollback_budget k c db envelope r reason now =
     (if \<not> rk_budget_enforced k then (db, Ok ())
      else case find_books k c db r ''rollback'' of
        Inl e \<Rightarrow> (db, Inl e)
      | Inr (account, window) \<Rightarrow>
          then_do (post_books c db
            (account\<lparr> ba_reserved_micros := saturating_sub (ba_reserved_micros account) (br_reserved_micros r),
                      ba_updated_at_ms := now \<rparr>)
            (window\<lparr> qw_consumed_micros := saturating_sub (qw_consumed_micros window) (br_reserved_micros r),
                     qw_updated_at_ms := now \<rparr>)) (\<lambda>db _.
          then_do (append_spend_ledger c db
            (ledger_entry (''rollback:'' @ stamp envelope now) (br_tenant_id r) (br_account_id r)
              envelope Spend_Refund (- br_reserved_micros r) (0, 0, 0) (''rollback:'' @ reason) now))
            (\<lambda>db _. (db, Ok ()))))"

section \<open>Reconciliation\<close>

text \<open>\<^verbatim>\<open>i64\<close> arithmetic on words read with \<open>sint\<close>.\<close>

definition i64_clamp :: "int \<Rightarrow> 64 word" where
  "i64_clamp n = word_of_int (max (- (2 ^ 63)) (min (2 ^ 63 - 1) n))"

definition i64_max0 :: "64 word \<Rightarrow> 64 word" where
  "i64_max0 w = (if sint w < 0 then 0 else w)"

definition i64_abs :: "64 word \<Rightarrow> 64 word" where
  "i64_abs w = (if sint w < 0 then - w else w)"

definition i64_saturating_add :: "64 word \<Rightarrow> 64 word \<Rightarrow> 64 word" where
  "i64_saturating_add a b = i64_clamp (sint a + sint b)"

definition i64_saturating_sub :: "64 word \<Rightarrow> 64 word \<Rightarrow> 64 word" where
  "i64_saturating_sub a b = i64_clamp (sint a - sint b)"

text \<open>The sum wraps as in the release profile; the fold saturates.\<close>

definition ledger_settled :: "SpendLedger list \<Rightarrow> 64 word" where
  "ledger_settled es =
     sum_list (map (\<lambda>e. i64_max0 (sl_amount_micros e)) (filter (\<lambda>e. sl_kind e = Spend_Settle) es))"

definition ledger_step :: "64 word \<Rightarrow> SpendLedger \<Rightarrow> 64 word" where
  "ledger_step acc e =
     (case sl_kind e of
        Spend_Reserve \<Rightarrow> i64_saturating_add acc (i64_max0 (sl_amount_micros e))
      | Spend_Settle \<Rightarrow> i64_saturating_sub acc (i64_max0 (sl_amount_micros e))
      | Spend_Refund \<Rightarrow> i64_saturating_sub acc (i64_abs (sl_amount_micros e))
      | Spend_Blocked \<Rightarrow> acc)"

definition ledger_reserved_open :: "SpendLedger list \<Rightarrow> 64 word" where
  "ledger_reserved_open es = foldl ledger_step 0 es"

record BudgetReconciliationReport =
  rp_tenant_id :: string
  rp_account_id :: string
  rp_ledger_settled_micros :: "64 word"
  rp_ledger_reserved_open_micros :: "64 word"
  rp_account_spent_micros :: "64 word"
  rp_account_reserved_micros :: "64 word"
  rp_consistent :: bool

definition reconcile_budget_account ::
    "table_codecs \<Rightarrow> KnowledgeTable \<Rightarrow> string \<Rightarrow> string \<Rightarrow> BudgetReconciliationReport result" where
  "reconcile_budget_account c db tenant_id account_id =
     and_then (ok_or (get_budget_account c db tenant_id account_id) ''budget account not found'')
       (\<lambda>account.
        let ledger = list_spend_ledger c db tenant_id account_id;
            settled = ledger_settled ledger;
            reserved_open = ledger_reserved_open ledger
        in Ok \<lparr> rp_tenant_id = tenant_id, rp_account_id = account_id,
                rp_ledger_settled_micros = settled, rp_ledger_reserved_open_micros = reserved_open,
                rp_account_spent_micros = ba_spent_micros account,
                rp_account_reserved_micros = ba_reserved_micros account,
                rp_consistent = (settled = ba_spent_micros account \<and>
                                 reserved_open = ba_reserved_micros account) \<rparr>)"

end
