(* ===== verification/Runtime_Accounts.thy ===== *)
theory Runtime_Accounts
  imports Runtime_Budget
begin

text \<open>
  What the billing operations of the runtime do to the books of an account, and the two promises
  that hold over any sequence of them: no account spends more than its budget, and the spend ledger
  reconciles with the account.
\<close>

section \<open>Bounds of the estimate\<close>

lemma unat_min [simp]: "unat (min a b) = min (unat a) (unat (b :: 'a::len word))"
  by (simp add: min_def word_le_nat_alt)

lemma unat_max [simp]: "unat (max a b) = max (unat a) (unat (b :: 'a::len word))"
  by (simp add: max_def word_le_nat_alt)

lemma unat_times_no_overflow:
  fixes a b :: "'a::len word"
  shows "unat a * unat b < 2 ^ LENGTH('a) \<Longrightarrow> unat (a * b) = unat a * unat b"
  by (simp add: unat_word_ariths)

lemma unat_ucast_64 [simp]: "unat (ucast (n :: 32 word) :: 64 word) = unat n"
  by transfer simp

lemma sint_of_int: "- (2 ^ 63) \<le> i \<Longrightarrow> i < 2 ^ 63 \<Longrightarrow> sint (word_of_int i :: 64 word) = i"
  unfolding sint_sbintrunc' by (rule signed_take_bit_int_eq_self) simp_all

lemma sint_small:
  assumes "unat w < 2 ^ 63"
  shows "sint (w :: 64 word) = int (unat w)"
proof -
  have "w = word_of_int (int (unat w))" by simp
  moreover have "- (2 ^ 63) \<le> int n" "int n < 2 ^ 63" if "n < 2 ^ 63" for n :: nat
    using that by simp_all
  ultimately show ?thesis using sint_of_int [of "int (unat w)"] assms by metis
qed

lemma sint_minus_small:
  assumes "unat w < 2 ^ 63"
  shows "sint (- w :: 64 word) = - int (unat w)"
proof -
  have "- w = word_of_int (- int (unat w))" by simp
  moreover have "- (2 ^ 63) \<le> - int n" "- int n < 2 ^ 63" if "n < 2 ^ 63" for n :: nat
    using that by simp_all
  ultimately show ?thesis using sint_of_int [of "- int (unat w)"] assms by metis
qed

text \<open>The largest estimate: \<open>10 * (2 ^ 32 - 1) + 500 + 2 * 5000\<close>.\<close>

abbreviation max_estimate :: nat where
  "max_estimate \<equiv> 42949683450"

lemma unat_estimate:
  "unat (estimate_precharge_micros envelope n) =
     max (unat n * 10 + unat (tool_charge envelope) +
          min (unat (cn_timeout_ms (te_constraints envelope))) 5000 * 2) 1000"
proof -
  have n: "unat n < 2 ^ 32" using unsigned_less [of n] by simp
  have token: "unat (ucast n * 10 :: 64 word) = unat n * 10"
    using n by (subst unat_times_no_overflow) simp_all
  have duration: "unat (min t 5000 * 2 :: 64 word) = min (unat t) 5000 * 2" for t :: "64 word"
    by (subst unat_times_no_overflow) simp_all
  have tool: "unat (tool_charge envelope) \<le> 500" by (simp add: tool_charge_def)
  show ?thesis
    unfolding estimate_precharge_micros_def Let_def unat_max unat_saturating_add token duration
    using n tool by simp
qed

lemma estimate_le: "unat (estimate_precharge_micros envelope n) \<le> max_estimate"
proof -
  have "unat n < 2 ^ 32" using unsigned_less [of n] by simp
  moreover have "unat (tool_charge envelope) \<le> 500" by (simp add: tool_charge_def)
  ultimately show ?thesis by (simp add: unat_estimate)
qed

text \<open>
  The estimate of a task is never lost to machine arithmetic: for every envelope and every
  token count it is the sum of its three charges as integers, at least the floor of 1000 and at
  most 42949683450 micros, so it also fits the signed amounts of the spend ledger.
\<close>

lemma estimate_bounds:
  "1000 \<le> unat (estimate_precharge_micros envelope n) \<and>
   unat (estimate_precharge_micros envelope n) \<le> 42949683450 \<and>
   sint (estimate_precharge_micros envelope n) =
     int (max (unat n * 10 + (if prefix ''provider:'' (te_capability_id envelope) then 200 else 500) +
               2 * min (unat (cn_timeout_ms (te_constraints envelope))) 5000) 1000)"
proof -
  have "unat (estimate_precharge_micros envelope n) < 2 ^ 63"
    using estimate_le [of envelope n] by simp
  then show ?thesis
    using estimate_le [of envelope n]
    by (simp add: sint_small unat_estimate tool_charge_def mult.commute)
qed

section \<open>The books after an operation\<close>

text \<open>
  \<open>billed c db db' x y es\<close>: the books \<open>db'\<close> are \<open>db\<close> with account \<open>x\<close> and window \<open>y\<close> of one account
  rewritten and the entries \<open>es\<close> added to its ledger.
\<close>

definition billed ::
    "table_codecs \<Rightarrow> KnowledgeTable \<Rightarrow> KnowledgeTable \<Rightarrow> BudgetAccount \<Rightarrow> QuotaWindow \<Rightarrow>
     SpendLedger multiset \<Rightarrow> bool" where
  "billed c db db' x y es \<longleftrightarrow>
     billing_ok c db' \<and>
     (\<forall>t a. plain_account t a \<longrightarrow>
        get_budget_account c db' t a =
          (if t = ba_tenant_id x \<and> a = ba_account_id x then Some x else get_budget_account c db t a) \<and>
        mset (list_spend_ledger c db' t a) =
          (if t = ba_tenant_id x \<and> a = ba_account_id x then es else {#}) + mset (list_spend_ledger c db t a)) \<and>
     (\<forall>t a w. plain_account t a \<longrightarrow>
        get_quota_window c db' t a w =
          (if t = qw_tenant_id y \<and> a = qw_account_id y \<and> w = qw_window_id y then Some y
           else get_quota_window c db t a w))"

lemma billed_ok: "billed c db db' x y es \<Longrightarrow> billing_ok c db'"
  by (simp only: billed_def)

lemma billed_account:
  "billed c db db' x y es \<Longrightarrow> plain_account t a \<Longrightarrow> get_budget_account c db' t a =
     (if t = ba_tenant_id x \<and> a = ba_account_id x then Some x else get_budget_account c db t a)"
  by (simp only: billed_def)

lemma billed_ledger:
  "billed c db db' x y es \<Longrightarrow> plain_account t a \<Longrightarrow> mset (list_spend_ledger c db' t a) =
     (if t = ba_tenant_id x \<and> a = ba_account_id x then es else {#}) + mset (list_spend_ledger c db t a)"
  by (simp only: billed_def)

lemma billed_window:
  "billed c db db' x y es \<Longrightarrow> plain_account t a \<Longrightarrow> get_quota_window c db' t a w =
     (if t = qw_tenant_id y \<and> a = qw_account_id y \<and> w = qw_window_id y then Some y
      else get_quota_window c db t a w)"
  by (simp only: billed_def)

lemma post_books_billed:
  assumes "billing_ok c db" "plain_account (ba_tenant_id x) (ba_account_id x)"
    "plain_account (qw_tenant_id y) (qw_account_id y)"
  obtains db' where "post_books c db x y = (db', Ok ())" "billed c db db' x y {#}"
proof (rule tables.books [OF assms])
  fix db'
  assume "then_do (upsert_budget_account c db x)
            (\<lambda>s _. then_do (upsert_quota_window c s y) (\<lambda>s _. (s, Ok ()))) = (db', Ok ())"
    "billing_ok c db'" "list_spend_ledger c db' = list_spend_ledger c db"
    "\<And>t a. plain_account t a \<Longrightarrow> get_budget_account c db' t a =
       (if t = ba_tenant_id x \<and> a = ba_account_id x then Some x else get_budget_account c db t a)"
    "\<And>t a w. plain_account t a \<Longrightarrow> get_quota_window c db' t a w =
       (if t = qw_tenant_id y \<and> a = qw_account_id y \<and> w = qw_window_id y then Some y
        else get_quota_window c db t a w)"
  then show thesis by (intro that [of db']) (simp_all add: post_books_def billed_def)
qed

lemma append_billed:
  assumes "billed c db db1 x y es" "append_spend_ledger c db1 e = (db2, Inr e')"
    "sl_tenant_id e = ba_tenant_id x" "sl_account_id e = ba_account_id x"
    "plain_account (ba_tenant_id x) (ba_account_id x)"
  shows "billed c db db2 x y (add_mset e es)"
proof -
  have "billing_ok c db1" using assms(1) by (simp add: billed_def)
  from tables.append_entry [OF this _ assms(2)] assms(1,3-5) show ?thesis
    by (auto simp: billed_def)
qed

lemma attribution_billed:
  assumes "billed c db db1 x y es" "upsert_cost_attribution c db1 z = (db2, r)"
  shows "billed c db db2 x y es"
proof -
  have "billing_ok c db1" using assms(1) by (simp add: billed_def)
  from tables.attribution_put [OF this, of z] assms show ?thesis
    by (auto simp: billed_def)
qed

text \<open>Accounts and windows are stored under their own ids.\<close>

definition own_ids :: "table_codecs \<Rightarrow> KnowledgeTable \<Rightarrow> bool" where
  "own_ids c db \<longleftrightarrow>
     (\<forall>t a x. plain_account t a \<longrightarrow> get_budget_account c db t a = Some x \<longrightarrow>
        ba_tenant_id x = t \<and> ba_account_id x = a) \<and>
     (\<forall>t a w y. plain_account t a \<longrightarrow> get_quota_window c db t a w = Some y \<longrightarrow>
        qw_tenant_id y = t \<and> qw_account_id y = a \<and> qw_window_id y = w)"

definition plain_envelope :: "TaskEnvelope \<Rightarrow> bool" where
  "plain_envelope envelope \<longleftrightarrow>
     colons (id_tenant_id (te_identity envelope)) = 0 \<and>
     colons (id_principal_id (te_identity envelope)) = 0 \<and>
     colons (id_policy_id (te_identity envelope)) = 0"

abbreviation tenant_of :: "TaskEnvelope \<Rightarrow> string" where
  "tenant_of envelope \<equiv> id_tenant_id (te_identity envelope)"

lemma plain_envelope_account:
  "plain_envelope envelope \<Longrightarrow> plain_account (tenant_of envelope) (account_id_for envelope)"
  by (simp add: plain_envelope_def plain_account_def account_id_for_def Let_def)

lemma own_ids_billed:
  assumes "own_ids c db" "billed c db db' x y es"
  shows "own_ids c db'"
  unfolding own_ids_def
proof (intro conjI allI impI)
  fix t a z assume "plain_account t a" "get_budget_account c db' t a = Some z"
  then have "z = x \<and> t = ba_tenant_id x \<and> a = ba_account_id x \<or> get_budget_account c db t a = Some z"
    by (simp add: billed_account [OF assms(2)] split: if_splits)
  then show "ba_tenant_id z = t" "ba_account_id z = a"
    using assms(1) \<open>plain_account t a\<close> by (auto simp: own_ids_def)
next
  fix t a w z assume "plain_account t a" "get_quota_window c db' t a w = Some z"
  then have "z = y \<and> t = qw_tenant_id y \<and> a = qw_account_id y \<and> w = qw_window_id y \<or>
             get_quota_window c db t a w = Some z"
    by (simp add: billed_window [OF assms(2)] split: if_splits)
  then show "qw_tenant_id z = t" "qw_account_id z = a" "qw_window_id z = w"
    using assms(1) \<open>plain_account t a\<close> by (auto simp: own_ids_def)
qed

lemma account_of_ids:
  assumes "own_ids c db" "plain_envelope envelope"
  shows "ba_tenant_id (account_of k c db envelope now) = tenant_of envelope \<and>
         ba_account_id (account_of k c db envelope now) = account_id_for envelope"
  using assms plain_envelope_account [OF assms(2)]
  by (auto simp: account_of_def own_ids_def Let_def split: option.split)

lemma window_of_ids:
  assumes "own_ids c db" "plain_envelope envelope"
  shows "qw_tenant_id (window_of_account k c db envelope w b now) = tenant_of envelope \<and>
         qw_account_id (window_of_account k c db envelope w b now) = account_id_for envelope \<and>
         qw_window_id (window_of_account k c db envelope w b now) = w"
  using assms plain_envelope_account [OF assms(2)]
  by (auto simp: window_of_account_def own_ids_def split: option.split)

lemma ledger_entry_ids [simp]:
  "sl_tenant_id (ledger_entry i t a v q m cs s n) = t" "sl_account_id (ledger_entry i t a v q m cs s n) = a"
  "sl_kind (ledger_entry i t a v q m cs s n) = q" "sl_amount_micros (ledger_entry i t a v q m cs s n) = m"
  by (simp_all add: ledger_entry_def)

section \<open>The effect of each operation\<close>

text \<open>A reservation: the account and the window before, and what was written.\<close>

lemma precharge_taken:
  assumes "precharge_budget k c db envelope n now = (db', Inr (Some r))"
    and "billing_ok c db" "own_ids c db" "plain_envelope envelope"
  obtains w b x y e where "window_id_for k now = Inr w" "window_bounds k now = Inr b"
    "x = account_of k c db envelope now" "y = window_of_account k c db envelope w b now"
    "rk_gate_mode k \<noteq> Gate_Shadow \<Longrightarrow>
       br_reserved_micros r \<le> account_remaining x \<and> br_reserved_micros r \<le> window_remaining y"
    "br_tenant_id r = tenant_of envelope" "br_account_id r = account_id_for envelope"
    "br_reserved_micros r = estimate_precharge_micros envelope n" "br_started_at_ms r = now"
    "sl_kind e = Spend_Reserve" "sl_amount_micros e = br_reserved_micros r"
    "billed c db db'
       (x\<lparr> ba_reserved_micros := saturating_add (ba_reserved_micros x) (br_reserved_micros r),
           ba_updated_at_ms := now \<rparr>)
       (y\<lparr> qw_consumed_micros := saturating_add (qw_consumed_micros y) (br_reserved_micros r),
           qw_updated_at_ms := now \<rparr>) {#e#}"
proof -
  let ?E = "estimate_precharge_micros envelope n"
  have en: "rk_budget_enforced k" using assms(1) by (auto simp: precharge_budget_def split: if_splits)
  obtain w b where wb: "window_id_for k now = Inr w" "window_bounds k now = Inr b"
    using assms(1) en by (auto simp: precharge_budget_def Let_def split: sum.splits)
  define x where "x = account_of k c db envelope now"
  define y where "y = window_of_account k c db envelope w b now"
  have ids: "ba_tenant_id x = tenant_of envelope" "ba_account_id x = account_id_for envelope"
      "qw_tenant_id y = tenant_of envelope" "qw_account_id y = account_id_for envelope"
    using account_of_ids [OF assms(3,4)] window_of_ids [OF assms(3,4)] by (simp_all add: x_def y_def)
  note plain = plain_envelope_account [OF assms(4)]
  let ?x = "x\<lparr> ba_reserved_micros := saturating_add (ba_reserved_micros x) ?E, ba_updated_at_ms := now \<rparr>"
  let ?y = "y\<lparr> qw_consumed_micros := saturating_add (qw_consumed_micros y) ?E, qw_updated_at_ms := now \<rparr>"
  have branch: "\<not> (rk_gate_mode k \<noteq> Gate_Shadow \<and> (account_remaining x < ?E \<or> window_remaining y < ?E))"
      "take_precharge c db envelope n now x y = (db', Inr (Some r))"
    using assms(1) en wb
    by (auto simp: precharge_budget_def Let_def x_def y_def block_precharge_def then_do_def
             split: if_splits prod.splits sum.splits)
  obtain db1 where db1: "post_books c db ?x ?y = (db1, Ok ())" "billed c db db1 ?x ?y {#}"
    using post_books_billed [OF assms(2), of ?x ?y] ids plain by auto
  obtain e db2 e' where e: "append_spend_ledger c db1 e = (db2, Inr e')" "db2 = db'"
      "sl_tenant_id e = tenant_of envelope" "sl_account_id e = account_id_for envelope"
      "sl_kind e = Spend_Reserve" "sl_amount_micros e = ?E"
      and r: "br_tenant_id r = tenant_of envelope" "br_account_id r = account_id_for envelope"
      "br_reserved_micros r = ?E" "br_started_at_ms r = now"
    using branch(2) db1(1)
    by (auto simp: take_precharge_def Let_def then_do_def split: prod.splits sum.splits)
  show thesis
    by (rule that [OF wb x_def y_def])
      (use branch(1) e r append_billed [OF db1(2) e(1)] ids plain in \<open>auto simp: not_less\<close>)
qed

text \<open>A refusal: counters and at most one \<open>Blocked\<close> entry.\<close>

lemma precharge_refused:
  assumes "precharge_budget k c db envelope n now = (db', Err ''budget precharge exceeded'')"
    and "billing_ok c db" "own_ids c db" "plain_envelope envelope"
  obtains w b x y es where "window_id_for k now = Inr w"
    "x = account_of k c db envelope now" "y = window_of_account k c db envelope w b now"
    "rk_gate_mode k \<noteq> Gate_Shadow"
    "account_remaining x < estimate_precharge_micros envelope n \<or>
     window_remaining y < estimate_precharge_micros envelope n"
    "es = {#} \<or> (\<exists>e. es = {#e#} \<and> sl_kind e = Spend_Blocked \<and>
       sl_amount_micros e = estimate_precharge_micros envelope n)"
    "billed c db db'
       (x\<lparr> ba_blocked_count := saturating_add (ba_blocked_count x) 1, ba_updated_at_ms := now \<rparr>)
       (y\<lparr> qw_blocked_count := saturating_add (qw_blocked_count y) 1, qw_updated_at_ms := now \<rparr>) es"
proof -
  have en: "rk_budget_enforced k" using assms(1) by (auto simp: precharge_budget_def split: if_splits)
  obtain w b where wb: "window_id_for k now = Inr w" "window_bounds k now = Inr b"
    using assms(1) en by (auto simp: precharge_budget_def Let_def split: sum.splits)
  define x where "x = account_of k c db envelope now"
  define y where "y = window_of_account k c db envelope w b now"
  have ids: "ba_tenant_id x = tenant_of envelope" "ba_account_id x = account_id_for envelope"
      "qw_tenant_id y = tenant_of envelope" "qw_account_id y = account_id_for envelope"
    using account_of_ids [OF assms(3,4)] window_of_ids [OF assms(3,4)] by (simp_all add: x_def y_def)
  note plain = plain_envelope_account [OF assms(4)]
  let ?x = "x\<lparr> ba_blocked_count := saturating_add (ba_blocked_count x) 1, ba_updated_at_ms := now \<rparr>"
  let ?y = "y\<lparr> qw_blocked_count := saturating_add (qw_blocked_count y) 1, qw_updated_at_ms := now \<rparr>"
  have books: "\<exists>db1. post_books c db x' y' = (db1, Ok ()) \<and> billed c db db1 x' y' {#}"
    if "ba_tenant_id x' = tenant_of envelope" "ba_account_id x' = account_id_for envelope"
      "qw_tenant_id y' = tenant_of envelope" "qw_account_id y' = account_id_for envelope" for x' y'
    using post_books_billed [OF assms(2), of x' y'] that plain by metis
  have not_taken: "take_precharge c db envelope n now x y \<noteq> (db', Err ''budget precharge exceeded'')"
    using books [of "x\<lparr> ba_reserved_micros := saturating_add (ba_reserved_micros x)
          (estimate_precharge_micros envelope n), ba_updated_at_ms := now \<rparr>"
        "y\<lparr> qw_consumed_micros := saturating_add (qw_consumed_micros y)
          (estimate_precharge_micros envelope n), qw_updated_at_ms := now \<rparr>"] ids
    by (auto simp: take_precharge_def Let_def then_do_def append_spend_ledger_def put_record_def
          upsert_json_knowledge_def upsert_knowledge_def enforce_evidence_worm_write_def
          split: prod.splits sum.splits if_splits)
  have branch: "rk_gate_mode k \<noteq> Gate_Shadow"
      "account_remaining x < estimate_precharge_micros envelope n \<or>
       window_remaining y < estimate_precharge_micros envelope n"
      "block_precharge c db envelope n now x y = (db', Err ''budget precharge exceeded'')"
    using assms(1) en wb not_taken
    by (simp_all add: precharge_budget_def Let_def flip: x_def y_def split: if_splits)
  obtain db1 where db1: "post_books c db ?x ?y = (db1, Ok ())" "billed c db db1 ?x ?y {#}"
    using books [of ?x ?y] ids by auto
  define e where "e = ledger_entry (''blocked:'' @ stamp envelope now) (tenant_of envelope)
      (account_id_for envelope) envelope Spend_Blocked (estimate_precharge_micros envelope n)
      (ucast n * 10, tool_charge envelope, 0) ''budget_precharge_exceeded'' now"
  have "fst (append_spend_ledger c db1 e) = db'"
    using branch(3) db1(1) by (simp add: block_precharge_def e_def)
  then obtain r where e: "append_spend_ledger c db1 e = (db', r)" "sl_kind e = Spend_Blocked"
      "sl_tenant_id e = tenant_of envelope" "sl_account_id e = account_id_for envelope"
      "sl_amount_micros e = estimate_precharge_micros envelope n"
    by (cases "append_spend_ledger c db1 e") (simp add: e_def)
  have "\<exists>es. (es = {#} \<or> es = {#e#}) \<and> billed c db db' ?x ?y es"
  proof (cases r)
    case (Inl err)
    then have "db' = db1" using tables.append_refused [OF billed_ok [OF db1(2)]] e(1) by blast
    then show ?thesis using db1(2) by blast
  next
    case (Inr e')
    then show ?thesis using append_billed [OF db1(2), of e db' e'] e ids plain by auto
  qed
  then obtain es where "es = {#} \<or> es = {#e#}" "billed c db db' ?x ?y es" by blast
  then show thesis
    by (intro that [OF wb(1) x_def y_def branch(1,2), of es]) (use e in auto)
qed

text \<open>The books a reservation finds again.\<close>

lemma find_books_Inr:
  "find_books k c db r d = Inr (x, y) \<longleftrightarrow>
     get_budget_account c db (br_tenant_id r) (br_account_id r) = Some x \<and>
     (\<exists>w. window_id_for k (br_started_at_ms r) = Inr w \<and>
          get_quota_window c db (br_tenant_id r) (br_account_id r) w = Some y)"
  by (auto simp: find_books_def and_then_Ok_iff ok_or_Ok_iff)

lemma settle_effect:
  assumes "settle_budget k c db envelope r n i d now = (db', Inr b)"
    and "rk_budget_enforced k" "billing_ok c db" "own_ids c db"
    and "plain_account (br_tenant_id r) (br_account_id r)"
  obtains x y w e es where "get_budget_account c db (br_tenant_id r) (br_account_id r) = Some x"
    "window_id_for k (br_started_at_ms r) = Inr w"
    "get_quota_window c db (br_tenant_id r) (br_account_id r) w = Some y"
    "b = cost_breakdown n i d" "sl_kind e = Spend_Settle" "sl_amount_micros e = cb_total_cost_micros b"
    "if cb_total_cost_micros b < br_reserved_micros r
     then \<exists>f. es = {#f#} \<and> sl_kind f = Spend_Refund \<and>
       sl_amount_micros f = - saturating_sub (br_reserved_micros r) (cb_total_cost_micros b)
     else es = {#}"
    "billed c db db'
       (x\<lparr> ba_reserved_micros := saturating_sub (ba_reserved_micros x) (br_reserved_micros r),
           ba_spent_micros := saturating_add (ba_spent_micros x) (cb_total_cost_micros b),
           ba_updated_at_ms := now \<rparr>)
       (y\<lparr> qw_consumed_micros := saturating_add (saturating_sub (qw_consumed_micros y)
             (br_reserved_micros r)) (cb_total_cost_micros b), qw_updated_at_ms := now \<rparr>) (add_mset e es)"
proof -
  obtain x y where books: "find_books k c db r ''settle'' = Inr (x, y)"
    using assms(1,2) by (auto simp: settle_budget_def split: sum.splits)
  then obtain w where found: "get_budget_account c db (br_tenant_id r) (br_account_id r) = Some x"
      "window_id_for k (br_started_at_ms r) = Inr w"
      "get_quota_window c db (br_tenant_id r) (br_account_id r) w = Some y"
    by (auto simp: find_books_Inr)
  have ids: "ba_tenant_id x = br_tenant_id r" "ba_account_id x = br_account_id r"
      "qw_tenant_id y = br_tenant_id r" "qw_account_id y = br_account_id r"
    using assms(4,5) found by (auto simp: own_ids_def)
  define cost where "cost = cb_total_cost_micros (cost_breakdown n i d)"
  let ?x = "x\<lparr> ba_reserved_micros := saturating_sub (ba_reserved_micros x) (br_reserved_micros r),
             ba_spent_micros := saturating_add (ba_spent_micros x) cost, ba_updated_at_ms := now \<rparr>"
  let ?y = "y\<lparr> qw_consumed_micros := saturating_add (saturating_sub (qw_consumed_micros y)
             (br_reserved_micros r)) cost, qw_updated_at_ms := now \<rparr>"
  obtain db1 where db1: "post_books c db ?x ?y = (db1, Ok ())" "billed c db db1 ?x ?y {#}"
    using post_books_billed [OF assms(3), of ?x ?y] ids assms(5) by auto
  define e where "e = ledger_entry (''settle:'' @ stamp envelope now) (br_tenant_id r)
      (br_account_id r) envelope Spend_Settle cost
      (cb_token_cost_micros (cost_breakdown n i d), cb_tool_cost_micros (cost_breakdown n i d),
       cb_duration_cost_micros (cost_breakdown n i d)) (''settled_from:'' @ br_reservation_id r) now"
  define z where "z = attribution_of envelope r n i d (cost_breakdown n i d) now"
  have "then_do (append_spend_ledger c db1 e) (\<lambda>db _.
        then_do (append_refund c db envelope r cost now) (\<lambda>db _.
        then_do (upsert_cost_attribution c db z) (\<lambda>db _. (db, Ok (cost_breakdown n i d))))) =
        (db', Inr b)"
    using assms(1,2) db1(1) by (simp add: settle_budget_def books Let_def e_def z_def cost_def)
  then obtain db2 e' db3 u z' where e: "append_spend_ledger c db1 e = (db2, Inr e')"
      and refund: "append_refund c db2 envelope r cost now = (db3, Inr u)"
      and attr: "upsert_cost_attribution c db3 z = (db', Inr z')"
      and b: "b = cost_breakdown n i d"
    by (auto simp: then_do_Ok_iff)
  have e_billed: "billed c db db2 ?x ?y {#e#}"
    using append_billed [OF db1(2) e] ids assms(5) by (simp add: e_def)
  have "\<exists>es. (if cost < br_reserved_micros r
      then \<exists>f. es = {#f#} \<and> sl_kind f = Spend_Refund \<and>
        sl_amount_micros f = - saturating_sub (br_reserved_micros r) cost
      else es = {#}) \<and> billed c db db3 ?x ?y (add_mset e es)"
  proof (cases "cost < br_reserved_micros r")
    case True
    then obtain f f' where "append_spend_ledger c db2 f = (db3, Inr f')" "sl_kind f = Spend_Refund"
        "sl_tenant_id f = br_tenant_id r" "sl_account_id f = br_account_id r"
        "sl_amount_micros f = - saturating_sub (br_reserved_micros r) cost"
      using refund by (auto simp: append_refund_def then_do_def split: prod.splits sum.splits)
    then show ?thesis
      using append_billed [OF e_billed, of f db3 f'] ids assms(5) True
      by (intro exI [of _ "{#f#}"]) (simp add: add_mset_commute)
  qed (use refund e_billed in \<open>auto simp: append_refund_def\<close>)
  then obtain es where es: "if cost < br_reserved_micros r
      then \<exists>f. es = {#f#} \<and> sl_kind f = Spend_Refund \<and>
        sl_amount_micros f = - saturating_sub (br_reserved_micros r) cost
      else es = {#}" "billed c db db3 ?x ?y (add_mset e es)" by blast
  show thesis
  proof (rule that [OF found b, of e es])
    have cost: "cost = cb_total_cost_micros b" by (simp add: cost_def b)
    show "sl_kind e = Spend_Settle" "sl_amount_micros e = cb_total_cost_micros b"
      by (simp_all add: e_def cost)
    show "billed c db db'
       (x\<lparr> ba_reserved_micros := saturating_sub (ba_reserved_micros x) (br_reserved_micros r),
           ba_spent_micros := saturating_add (ba_spent_micros x) (cb_total_cost_micros b),
           ba_updated_at_ms := now \<rparr>)
       (y\<lparr> qw_consumed_micros := saturating_add (saturating_sub (qw_consumed_micros y)
             (br_reserved_micros r)) (cb_total_cost_micros b), qw_updated_at_ms := now \<rparr>) (add_mset e es)"
      using attribution_billed [OF es(2) attr] unfolding cost .
    show "if cb_total_cost_micros b < br_reserved_micros r
     then \<exists>f. es = {#f#} \<and> sl_kind f = Spend_Refund \<and>
       sl_amount_micros f = - saturating_sub (br_reserved_micros r) (cb_total_cost_micros b)
     else es = {#}"
      using es(1) unfolding cost .
  qed
qed

lemma rollback_effect:
  assumes "rollback_budget k c db envelope r reason now = (db', Inr u)"
    and "rk_budget_enforced k" "billing_ok c db" "own_ids c db"
    and "plain_account (br_tenant_id r) (br_account_id r)"
  obtains x y w e where "get_budget_account c db (br_tenant_id r) (br_account_id r) = Some x"
    "window_id_for k (br_started_at_ms r) = Inr w"
    "get_quota_window c db (br_tenant_id r) (br_account_id r) w = Some y"
    "sl_kind e = Spend_Refund" "sl_amount_micros e = - br_reserved_micros r"
    "billed c db db'
       (x\<lparr> ba_reserved_micros := saturating_sub (ba_reserved_micros x) (br_reserved_micros r),
           ba_updated_at_ms := now \<rparr>)
       (y\<lparr> qw_consumed_micros := saturating_sub (qw_consumed_micros y) (br_reserved_micros r),
           qw_updated_at_ms := now \<rparr>) {#e#}"
proof -
  obtain x y where books: "find_books k c db r ''rollback'' = Inr (x, y)"
    using assms(1,2) by (auto simp: rollback_budget_def split: sum.splits)
  then obtain w where found: "get_budget_account c db (br_tenant_id r) (br_account_id r) = Some x"
      "window_id_for k (br_started_at_ms r) = Inr w"
      "get_quota_window c db (br_tenant_id r) (br_account_id r) w = Some y"
    by (auto simp: find_books_Inr)
  have ids: "ba_tenant_id x = br_tenant_id r" "ba_account_id x = br_account_id r"
      "qw_tenant_id y = br_tenant_id r" "qw_account_id y = br_account_id r"
    using assms(4,5) found by (auto simp: own_ids_def)
  let ?x = "x\<lparr> ba_reserved_micros := saturating_sub (ba_reserved_micros x) (br_reserved_micros r),
             ba_updated_at_ms := now \<rparr>"
  let ?y = "y\<lparr> qw_consumed_micros := saturating_sub (qw_consumed_micros y) (br_reserved_micros r),
             qw_updated_at_ms := now \<rparr>"
  obtain db1 where db1: "post_books c db ?x ?y = (db1, Ok ())" "billed c db db1 ?x ?y {#}"
    using post_books_billed [OF assms(3), of ?x ?y] ids assms(5) by auto
  obtain e e' where e: "append_spend_ledger c db1 e = (db', Inr e')" "sl_kind e = Spend_Refund"
      "sl_tenant_id e = br_tenant_id r" "sl_account_id e = br_account_id r"
      "sl_amount_micros e = - br_reserved_micros r"
    using assms(1,2) db1(1)
    by (auto simp: rollback_budget_def books then_do_def split: prod.splits sum.splits)
  show thesis
    using that [OF found e(2,5)] append_billed [OF db1(2) e(1)] e ids assms(5) by simp
qed

end
