(* ===== verification/Billing_Samples.thy ===== *)
theory Billing_Samples
  imports Runtime_Accounts Sample_Codec
begin

text \<open>
  Concrete codecs for the tables, a sample task envelope and its first reservation, at which the
  billing properties are instantiated.
\<close>

definition the_word :: "string \<Rightarrow> 'a::len word" where
  "the_word s = (case parse_word s of None \<Rightarrow> 0 | Some w \<Rightarrow> w)"

lemma the_word [simp]: "the_word (show_word w) = w"
  by (simp add: the_word_def)

definition fields_codec :: "('a \<Rightarrow> string list) \<Rightarrow> (string list \<Rightarrow> 'a) \<Rightarrow> 'a codec" where
  "fields_codec enc dec = (\<lambda>x. pack (enc x), \<lambda>s. Inr (dec (unpack s)))"

lemma fields_codec_ok: "(\<And>x. dec (enc x) = x) \<Longrightarrow> codec_ok (fields_codec enc dec)"
  by (simp add: codec_ok_def fields_codec_def)

definition sample_account_codec :: "BudgetAccount codec" where
  "sample_account_codec = fields_codec
     (\<lambda>x. [ba_account_id x, ba_tenant_id x, ba_principal_id x, ba_policy_id x,
           show_word (ba_total_budget_micros x), show_word (ba_reserved_micros x),
           show_word (ba_spent_micros x), show_word (ba_blocked_count x), show_word (ba_updated_at_ms x)])
     (\<lambda>f. \<lparr> ba_account_id = f ! 0, ba_tenant_id = f ! 1, ba_principal_id = f ! 2, ba_policy_id = f ! 3,
            ba_total_budget_micros = the_word (f ! 4), ba_reserved_micros = the_word (f ! 5),
            ba_spent_micros = the_word (f ! 6), ba_blocked_count = the_word (f ! 7),
            ba_updated_at_ms = the_word (f ! 8) \<rparr>)"

fun kind_tag :: "SpendLedgerKind \<Rightarrow> string" where
  "kind_tag Spend_Reserve = ''reserve''"
| "kind_tag Spend_Settle = ''settle''"
| "kind_tag Spend_Refund = ''refund''"
| "kind_tag Spend_Blocked = ''blocked''"

definition tag_kind :: "string \<Rightarrow> SpendLedgerKind" where
  "tag_kind s = (if s = ''reserve'' then Spend_Reserve else if s = ''settle'' then Spend_Settle
     else if s = ''refund'' then Spend_Refund else Spend_Blocked)"

lemma tag_kind [simp]: "tag_kind (kind_tag q) = q"
  by (cases q) (simp_all add: tag_kind_def)

definition sample_ledger_codec :: "SpendLedger codec" where
  "sample_ledger_codec = fields_codec
     (\<lambda>x. [sl_ledger_id x, sl_tenant_id x, sl_account_id x, sl_session_id x, sl_trace_id x,
           sl_task_id x, sl_capability_id x, kind_tag (sl_kind x), show_word (sl_amount_micros x),
           show_word (sl_token_cost_micros x), show_word (sl_tool_cost_micros x),
           show_word (sl_duration_cost_micros x), sl_reason x, show_word (sl_created_at_ms x)])
     (\<lambda>f. \<lparr> sl_ledger_id = f ! 0, sl_tenant_id = f ! 1, sl_account_id = f ! 2, sl_session_id = f ! 3,
            sl_trace_id = f ! 4, sl_task_id = f ! 5, sl_capability_id = f ! 6, sl_kind = tag_kind (f ! 7),
            sl_amount_micros = the_word (f ! 8), sl_token_cost_micros = the_word (f ! 9),
            sl_tool_cost_micros = the_word (f ! 10), sl_duration_cost_micros = the_word (f ! 11),
            sl_reason = f ! 12, sl_created_at_ms = the_word (f ! 13) \<rparr>)"

definition sample_window_codec :: "QuotaWindow codec" where
  "sample_window_codec = fields_codec
     (\<lambda>x. [qw_window_id x, qw_tenant_id x, qw_account_id x, show_word (qw_window_start_ms x),
           show_word (qw_window_end_ms x), show_word (qw_window_budget_micros x),
           show_word (qw_consumed_micros x), show_word (qw_blocked_count x), show_word (qw_updated_at_ms x)])
     (\<lambda>f. \<lparr> qw_window_id = f ! 0, qw_tenant_id = f ! 1, qw_account_id = f ! 2,
            qw_window_start_ms = the_word (f ! 3), qw_window_end_ms = the_word (f ! 4),
            qw_window_budget_micros = the_word (f ! 5), qw_consumed_micros = the_word (f ! 6),
            qw_blocked_count = the_word (f ! 7), qw_updated_at_ms = the_word (f ! 8) \<rparr>)"

definition sample_attribution_codec :: "CostAttribution codec" where
  "sample_attribution_codec = fields_codec
     (\<lambda>x. [ca_attribution_id x, ca_tenant_id x, ca_principal_id x, ca_policy_id x, ca_session_id x,
           ca_trace_id x, ca_task_id x, ca_capability_id x, show_word (ca_provider_tokens x),
           show_word (ca_tool_invocations x), show_word (ca_duration_ms x),
           show_word (ca_token_cost_micros x), show_word (ca_tool_cost_micros x),
           show_word (ca_duration_cost_micros x), show_word (ca_total_cost_micros x),
           show_word (ca_settled_at_ms x)])
     (\<lambda>f. \<lparr> ca_attribution_id = f ! 0, ca_tenant_id = f ! 1, ca_principal_id = f ! 2,
            ca_policy_id = f ! 3, ca_session_id = f ! 4, ca_trace_id = f ! 5, ca_task_id = f ! 6,
            ca_capability_id = f ! 7, ca_provider_tokens = the_word (f ! 8),
            ca_tool_invocations = the_word (f ! 9), ca_duration_ms = the_word (f ! 10),
            ca_token_cost_micros = the_word (f ! 11), ca_tool_cost_micros = the_word (f ! 12),
            ca_duration_cost_micros = the_word (f ! 13), ca_total_cost_micros = the_word (f ! 14),
            ca_settled_at_ms = the_word (f ! 15) \<rparr>)"

definition sample_tenant_codec :: "Tenant codec" where
  "sample_tenant_codec = fields_codec
     (\<lambda>x. [tn_tenant_id x, tn_name x, tn_status x, show_word (tn_created_at_ms x)])
     (\<lambda>f. \<lparr> tn_tenant_id = f ! 0, tn_name = f ! 1, tn_status = f ! 2,
            tn_created_at_ms = the_word (f ! 3) \<rparr>)"

definition sample_principal_codec :: "Principal codec" where
  "sample_principal_codec = fields_codec
     (\<lambda>x. [pr_principal_id x, pr_tenant_id x, pr_principal_type x, pr_status x,
           show_word (pr_created_at_ms x)])
     (\<lambda>f. \<lparr> pr_principal_id = f ! 0, pr_tenant_id = f ! 1, pr_principal_type = f ! 2,
            pr_status = f ! 3, pr_created_at_ms = the_word (f ! 4) \<rparr>)"

definition sample_role_codec :: "RoleBinding codec" where
  "sample_role_codec = fields_codec
     (\<lambda>x. [rb_tenant_id x, rb_principal_id x, rb_role x, show_word (rb_updated_at_ms x)])
     (\<lambda>f. \<lparr> rb_tenant_id = f ! 0, rb_principal_id = f ! 1, rb_role = f ! 2,
            rb_updated_at_ms = the_word (f ! 3) \<rparr>)"

fun action_tag :: "PermissionAction \<Rightarrow> string" where
  "action_tag Perm_Read = ''read''"
| "action_tag Perm_Write = ''write''"
| "action_tag Perm_Dispatch = ''dispatch''"
| "action_tag Perm_Admin = ''admin''"

definition tag_action :: "string \<Rightarrow> PermissionAction" where
  "tag_action s = (if s = ''read'' then Perm_Read else if s = ''write'' then Perm_Write
     else if s = ''dispatch'' then Perm_Dispatch else Perm_Admin)"

lemma tag_action [simp]: "tag_action (action_tag q) = q"
  by (cases q) (simp_all add: tag_action_def)

definition sample_policy_codec :: "PolicyBinding codec" where
  "sample_policy_codec = fields_codec
     (\<lambda>x. [pb_policy_id x, pb_tenant_id x, pb_role x, pack (map action_tag (pb_allowed_actions x)),
           pack (pb_capability_prefixes x), show_word (pb_max_memory_mb x),
           show_word (pb_max_tokens x), show_word (pb_updated_at_ms x)])
     (\<lambda>f. \<lparr> pb_policy_id = f ! 0, pb_tenant_id = f ! 1, pb_role = f ! 2,
            pb_allowed_actions = map tag_action (unpack (f ! 3)),
            pb_capability_prefixes = unpack (f ! 4), pb_max_memory_mb = the_word (f ! 5),
            pb_max_tokens = the_word (f ! 6), pb_updated_at_ms = the_word (f ! 7) \<rparr>)"

definition sample_lease_codec :: "SessionLease codec" where
  "sample_lease_codec = fields_codec
     (\<lambda>x. [ls_lease_token x, ls_session_id x, ls_tenant_id x, ls_principal_id x, ls_policy_id x,
           show_word (ls_expires_at_ms x), show_word (ls_issued_at_ms x)])
     (\<lambda>f. \<lparr> ls_lease_token = f ! 0, ls_session_id = f ! 1, ls_tenant_id = f ! 2,
            ls_principal_id = f ! 3, ls_policy_id = f ! 4, ls_expires_at_ms = the_word (f ! 5),
            ls_issued_at_ms = the_word (f ! 6) \<rparr>)"

definition sample_codecs :: table_codecs where
  "sample_codecs =
     \<lparr> tc_tenant = sample_tenant_codec, tc_principal = sample_principal_codec,
       tc_role_binding = sample_role_codec, tc_policy_binding = sample_policy_codec,
       tc_session_lease = sample_lease_codec, tc_budget_account = sample_account_codec,
       tc_spend_ledger = sample_ledger_codec, tc_quota_window = sample_window_codec,
       tc_cost_attribution = sample_attribution_codec \<rparr>"

lemma sample_codecs_ok [simp]: "billing_codecs_ok sample_codecs" "identity_codecs_ok sample_codecs"
  by (simp_all add: billing_codecs_ok_def identity_codecs_ok_def sample_codecs_def fields_codec_ok
        sample_account_codec_def sample_ledger_codec_def sample_window_codec_def
        sample_attribution_codec_def sample_tenant_codec_def sample_principal_codec_def
        sample_role_codec_def sample_policy_codec_def sample_lease_codec_def comp_def)

definition sample_envelope :: TaskEnvelope where
  "sample_envelope =
     \<lparr> te_session_id = ''s'', te_trace_id = ''r'', te_task_id = ''k'', te_capability_id = ''mcp::x'',
       te_identity = \<lparr> id_tenant_id = ''t'', id_principal_id = ''p'', id_policy_id = ''q'',
                      id_lease_token = ''l'' \<rparr>,
       te_payload = J_Null,
       te_constraints = \<lparr> cn_max_cpu_percent = 50, cn_max_memory_mb = 256, cn_timeout_ms = 1000,
                         cn_max_retries = 1, cn_max_tokens = 100, cn_io_allow_paths = [],
                         cn_io_deny_paths = [], cn_sandbox_profile = ''default'',
                         cn_requires_human_approval = False \<rparr>,
       te_trust_plan = None \<rparr>"

section \<open>A reservation that succeeds\<close>

lemma put_record_other:
  assumes "put_record cx db key x source = (db', Inr z)" "k \<noteq> key"
  shows "get_knowledge db' k = get_knowledge db k"
  using assms
  by (auto simp: put_record_def upsert_json_knowledge_def upsert_knowledge_def then_do_def
        repo_upsert_knowledge_def get_knowledge_def update_conv Let_def
        split: sum.splits prod.splits option.splits)

lemma post_books_other:
  assumes "post_books c db x y = (db', Inr u)" "\<And>t a. k \<noteq> account_key t a" "\<And>t a w. k \<noteq> window_key t a w"
  shows "get_knowledge db' k = get_knowledge db k"
  using assms
  by (auto simp: post_books_def then_do_Ok_iff upsert_budget_account_def upsert_quota_window_def
        put_record_other)

lemma append_fresh:
  assumes "billing_ok c db"
    and "get_knowledge db (ledger_prefix (sl_tenant_id e) (sl_account_id e) @ sl_ledger_id e) = None"
  shows "\<exists>db'. append_spend_ledger c db e = (db', Inr e)"
  by (rule put_record_effect [OF billing_okD(2) [OF assms(1)] billing_okD(5) [OF assms(1)],
        of "ledger_prefix (sl_tenant_id e) (sl_account_id e) @ sl_ledger_id e" e "''billing''"])
     (use assms(2) in \<open>auto simp: append_spend_ledger_def Let_def\<close>)

text \<open>A precharge within the budget succeeds unless its ledger entry is already there.\<close>

lemma precharge_succeeds:
  assumes "rk_budget_enforced k" "window_id_for k now = Inr w" "window_bounds k now = Inr b"
    and "billing_ok c db" "own_ids c db" "plain_envelope e"
    and "rk_gate_mode k = Gate_Shadow \<or>
      estimate_precharge_micros e n \<le> account_remaining (account_of k c db e now) \<and>
      estimate_precharge_micros e n \<le> window_remaining (window_of_account k c db e w b now)"
    and "get_knowledge db (ledger_prefix (tenant_of e) (account_id_for e) @ ''reserve:'' @ stamp e now) = None"
  shows "\<exists>db' r. precharge_budget k c db e n now = (db', Inr (Some r)) \<and>
    br_reserved_micros r = estimate_precharge_micros e n \<and>
    br_tenant_id r = tenant_of e \<and> br_account_id r = account_id_for e"
proof -
  define x where "x = account_of k c db e now"
  define y where "y = window_of_account k c db e w b now"
  let ?E = "estimate_precharge_micros e n"
  let ?x = "x\<lparr> ba_reserved_micros := saturating_add (ba_reserved_micros x) ?E, ba_updated_at_ms := now \<rparr>"
  let ?y = "y\<lparr> qw_consumed_micros := saturating_add (qw_consumed_micros y) ?E, qw_updated_at_ms := now \<rparr>"
  have "ba_tenant_id x = tenant_of e" "ba_account_id x = account_id_for e"
      "qw_tenant_id y = tenant_of e" "qw_account_id y = account_id_for e"
    using account_of_ids [OF assms(5,6)] window_of_ids [OF assms(5,6)] by (simp_all add: x_def y_def)
  then obtain db1 where db1: "post_books c db ?x ?y = (db1, Ok ())" "billed c db db1 ?x ?y {#}"
    using post_books_billed [OF assms(4), of ?x ?y] plain_envelope_account [OF assms(6)] by auto
  define entry where "entry = ledger_entry (''reserve:'' @ stamp e now) (tenant_of e) (account_id_for e) e
      Spend_Reserve ?E (ucast n * 10, tool_charge e, 0) ''precharge'' now"
  have "get_knowledge db1 (ledger_prefix (tenant_of e) (account_id_for e) @ ''reserve:'' @ stamp e now) = None"
    using post_books_other [OF db1(1)] assms(8) by (metis billing_keys(3,4))
  then obtain db2 where "append_spend_ledger c db1 entry = (db2, Inr entry)"
    using append_fresh [OF billed_ok [OF db1(2)], of entry] by (auto simp: entry_def ledger_entry_def)
  then show ?thesis
    using assms(1-3,7) db1(1)
    by (auto simp: precharge_budget_def take_precharge_def Let_def entry_def simp flip: x_def y_def)
qed

text \<open>
  A precharge whose ledger entry is already there, a second one of the same task within the same
  millisecond, errs after the account has been charged: nothing will release that reservation.
\<close>

lemma duplicate_precharge_leaks:
  assumes "rk_budget_enforced k" "window_id_for k now = Inr w" "window_bounds k now = Inr b"
    and "billing_ok c db" "own_ids c db" "plain_envelope e" "rk_gate_mode k = Gate_Shadow"
    and "get_knowledge db (ledger_prefix (tenant_of e) (account_id_for e) @ ''reserve:'' @ stamp e now) = Some z"
  shows "\<exists>db' err x. precharge_budget k c db e n now = (db', Inl err) \<and>
    get_budget_account c db' (tenant_of e) (account_id_for e) = Some x \<and>
    ba_reserved_micros x = saturating_add (ba_reserved_micros (account_of k c db e now))
      (estimate_precharge_micros e n)"
proof -
  define x where "x = account_of k c db e now"
  define y where "y = window_of_account k c db e w b now"
  let ?E = "estimate_precharge_micros e n"
  let ?x = "x\<lparr> ba_reserved_micros := saturating_add (ba_reserved_micros x) ?E, ba_updated_at_ms := now \<rparr>"
  let ?y = "y\<lparr> qw_consumed_micros := saturating_add (qw_consumed_micros y) ?E, qw_updated_at_ms := now \<rparr>"
  have ids: "ba_tenant_id x = tenant_of e" "ba_account_id x = account_id_for e"
      "qw_tenant_id y = tenant_of e" "qw_account_id y = account_id_for e"
    using account_of_ids [OF assms(5,6)] window_of_ids [OF assms(5,6)] by (simp_all add: x_def y_def)
  note plain = plain_envelope_account [OF assms(6)]
  obtain db1 where db1: "post_books c db ?x ?y = (db1, Ok ())" "billed c db db1 ?x ?y {#}"
    using post_books_billed [OF assms(4), of ?x ?y] ids plain by auto
  have "get_knowledge db1 (ledger_prefix (tenant_of e) (account_id_for e) @ ''reserve:'' @ stamp e now) = Some z"
    using post_books_other [OF db1(1)] assms(8) by (metis billing_keys(3,4))
  then have "\<exists>err. append_spend_ledger c db1 (ledger_entry (''reserve:'' @ stamp e now) (tenant_of e)
      (account_id_for e) e Spend_Reserve ?E (ucast n * 10, tool_charge e, 0) ''precharge'' now) = (db1, Inl err)"
    by (simp add: append_spend_ledger_def Let_def ledger_entry_def)
  then obtain err where "append_spend_ledger c db1 (ledger_entry (''reserve:'' @ stamp e now) (tenant_of e)
      (account_id_for e) e Spend_Reserve ?E (ucast n * 10, tool_charge e, 0) ''precharge'' now) = (db1, Inl err)"
    by blast
  then have "precharge_budget k c db e n now = (db1, Inl err)"
    using assms(1-3,7) db1(1)
    by (simp add: precharge_budget_def take_precharge_def Let_def flip: x_def y_def)
  moreover have "get_budget_account c db1 (tenant_of e) (account_id_for e) = Some ?x"
    using billed_account [OF db1(2) plain] by (simp add: ids)
  ultimately show ?thesis unfolding x_def by (intro exI [of _ db1] exI [of _ err]) simp
qed

end
