(* ===== verification/Runtime_Billing.thy ===== *)
theory Runtime_Billing
  imports Billing_Samples
begin

text \<open>
  Sequences of billing operations, whatever each of them answers: the reservations that are still
  open, and what holds of the books after any such sequence.
\<close>

section \<open>Operations that fail\<close>

text \<open>
  An operation that fails has either written nothing, or posted its books and lost entries of the
  ledger.
\<close>

lemma append_any:
  assumes "billed c db db1 x y es" "append_spend_ledger c db1 e = (db2, res)"
    "sl_tenant_id e = ba_tenant_id x" "sl_account_id e = ba_account_id x"
    "plain_account (ba_tenant_id x) (ba_account_id x)"
  shows "\<exists>es'. billed c db db2 x y es'"
proof (cases res)
  case (Inl err)
  then show ?thesis using tables.append_refused [OF billed_ok [OF assms(1)]] assms(1,2) by blast
next
  case (Inr e')
  then show ?thesis using append_billed [OF assms(1)] assms(2-5) by blast
qed

lemma precharge_failed:
  assumes "precharge_budget k c db envelope n now = (db', Inl err)"
    and "billing_ok c db" "own_ids c db" "plain_envelope envelope"
  obtains (kept) "db' = db"
  | (blocked) w b x y es where
      "x = account_of k c db envelope now" "y = window_of_account k c db envelope w b now"
      "billed c db db'
         (x\<lparr> ba_blocked_count := saturating_add (ba_blocked_count x) 1, ba_updated_at_ms := now \<rparr>)
         (y\<lparr> qw_blocked_count := saturating_add (qw_blocked_count y) 1, qw_updated_at_ms := now \<rparr>) es"
  | (taken) w b x y es where
      "x = account_of k c db envelope now" "y = window_of_account k c db envelope w b now"
      "rk_gate_mode k \<noteq> Gate_Shadow \<Longrightarrow>
         estimate_precharge_micros envelope n \<le> account_remaining x \<and>
         estimate_precharge_micros envelope n \<le> window_remaining y"
      "billed c db db'
         (x\<lparr> ba_reserved_micros := saturating_add (ba_reserved_micros x)
               (estimate_precharge_micros envelope n), ba_updated_at_ms := now \<rparr>)
         (y\<lparr> qw_consumed_micros := saturating_add (qw_consumed_micros y)
               (estimate_precharge_micros envelope n), qw_updated_at_ms := now \<rparr>) es"
proof -
  have en: "rk_budget_enforced k" using assms(1) by (auto simp: precharge_budget_def split: if_splits)
  show thesis
  proof (cases "\<exists>w b. window_id_for k now = Inr w \<and> window_bounds k now = Inr b")
    case False
    then have "db' = db"
      using assms(1) en by (auto simp: precharge_budget_def Let_def split: sum.splits)
    then show thesis by (rule kept)
  next
    case True
    then obtain w b where wb: "window_id_for k now = Inr w" "window_bounds k now = Inr b" by blast
    define x where "x = account_of k c db envelope now"
    define y where "y = window_of_account k c db envelope w b now"
    let ?E = "estimate_precharge_micros envelope n"
    let ?refuse = "rk_gate_mode k \<noteq> Gate_Shadow \<and> (account_remaining x < ?E \<or> window_remaining y < ?E)"
    note plain = plain_envelope_account [OF assms(4)]
    have ids: "ba_tenant_id x = tenant_of envelope" "ba_account_id x = account_id_for envelope"
        "qw_tenant_id y = tenant_of envelope" "qw_account_id y = account_id_for envelope"
      using account_of_ids [OF assms(3,4)] window_of_ids [OF assms(3,4)] by (simp_all add: x_def y_def)
    have run: "(if ?refuse then block_precharge c db envelope n now x y
        else take_precharge c db envelope n now x y) = (db', Inl err)"
      using assms(1) en by (simp add: precharge_budget_def wb x_def y_def Let_def cong: if_cong)
    have books: "\<exists>db1. post_books c db x' y' = (db1, Ok ()) \<and> billed c db db1 x' y' {#}"
      if "ba_tenant_id x' = tenant_of envelope" "ba_account_id x' = account_id_for envelope"
        "qw_tenant_id y' = tenant_of envelope" "qw_account_id y' = account_id_for envelope" for x' y'
      using post_books_billed [OF assms(2), of x' y'] that plain by metis
    show thesis
    proof (cases ?refuse)
      case True
      let ?x = "x\<lparr> ba_blocked_count := saturating_add (ba_blocked_count x) 1, ba_updated_at_ms := now \<rparr>"
      let ?y = "y\<lparr> qw_blocked_count := saturating_add (qw_blocked_count y) 1, qw_updated_at_ms := now \<rparr>"
      obtain db1 where db1: "post_books c db ?x ?y = (db1, Ok ())" "billed c db db1 ?x ?y {#}"
        using books [of ?x ?y] ids by auto
      then obtain e where "fst (append_spend_ledger c db1 e) = db'"
          "sl_tenant_id e = tenant_of envelope" "sl_account_id e = account_id_for envelope"
        using run True by (auto simp: block_precharge_def)
      then obtain es where "billed c db db' ?x ?y es"
        using append_any [OF db1(2), of e "fst (append_spend_ledger c db1 e)"
          "snd (append_spend_ledger c db1 e)"] ids plain by auto
      then show thesis by (rule blocked [OF x_def y_def])
    next
      case False
      let ?x = "x\<lparr> ba_reserved_micros := saturating_add (ba_reserved_micros x) ?E, ba_updated_at_ms := now \<rparr>"
      let ?y = "y\<lparr> qw_consumed_micros := saturating_add (qw_consumed_micros y) ?E, qw_updated_at_ms := now \<rparr>"
      obtain db1 where db1: "post_books c db ?x ?y = (db1, Ok ())" "billed c db db1 ?x ?y {#}"
        using books [of ?x ?y] ids by auto
      then obtain e r where "append_spend_ledger c db1 e = (db', r)"
          "sl_tenant_id e = tenant_of envelope" "sl_account_id e = account_id_for envelope"
        using run False
        by (auto simp: take_precharge_def Let_def then_do_def split: prod.splits sum.splits)
      then obtain es where "billed c db db' ?x ?y es"
        using append_any [OF db1(2)] ids plain by fastforce
      then show thesis using False by (intro taken [OF x_def y_def]) (auto simp: not_less)
    qed
  qed
qed

lemma settle_any:
  assumes "settle_budget k c db envelope r n i d now = (db', res)"
    and "rk_budget_enforced k" "billing_ok c db" "own_ids c db"
    and "plain_account (br_tenant_id r) (br_account_id r)"
  obtains (kept) err where "db' = db" "res = Inl err"
  | (posted) x y w es where
      "get_budget_account c db (br_tenant_id r) (br_account_id r) = Some x"
      "window_id_for k (br_started_at_ms r) = Inr w"
      "get_quota_window c db (br_tenant_id r) (br_account_id r) w = Some y"
      "billed c db db'
         (x\<lparr> ba_reserved_micros := saturating_sub (ba_reserved_micros x) (br_reserved_micros r),
             ba_spent_micros := saturating_add (ba_spent_micros x) (cb_total_cost_micros (cost_breakdown n i d)),
             ba_updated_at_ms := now \<rparr>)
         (y\<lparr> qw_consumed_micros := saturating_add (saturating_sub (qw_consumed_micros y)
               (br_reserved_micros r)) (cb_total_cost_micros (cost_breakdown n i d)),
             qw_updated_at_ms := now \<rparr>) es"
proof (cases "find_books k c db r ''settle''")
  case (Inl err)
  then show thesis using assms(1,2) by (intro kept [of err]) (simp_all add: settle_budget_def)
next
  case (Inr books)
  then obtain x y where books: "find_books k c db r ''settle'' = Inr (x, y)" by (cases books) simp
  then obtain w where found: "get_budget_account c db (br_tenant_id r) (br_account_id r) = Some x"
      "window_id_for k (br_started_at_ms r) = Inr w"
      "get_quota_window c db (br_tenant_id r) (br_account_id r) w = Some y"
    by (auto simp: find_books_Inr)
  have ids: "ba_tenant_id x = br_tenant_id r" "ba_account_id x = br_account_id r"
      "qw_tenant_id y = br_tenant_id r" "qw_account_id y = br_account_id r"
    using assms(4,5) found by (auto simp: own_ids_def)
  define cost where "cost = cb_total_cost_micros (cost_breakdown n i d)"
  let ?x = "x\<lparr> ba_reserved_micros := saturating_sub (ba_reserved_micros x) (br_reserved_micros r),
             ba_spent_micros := saturating_add (ba_spent_micros x) cost, ba_updated_at_ms := now \<rparr>"
  let ?y = "y\<lparr> qw_consumed_micros := saturating_add (saturating_sub (qw_consumed_micros y)
             (br_reserved_micros r)) cost, qw_updated_at_ms := now \<rparr>"
  obtain db1 where db1: "post_books c db ?x ?y = (db1, Ok ())" "billed c db db1 ?x ?y {#}"
    using post_books_billed [OF assms(3), of ?x ?y] ids assms(5) by auto
  then obtain e z where run: "then_do (append_spend_ledger c db1 e) (\<lambda>db _.
        then_do (append_refund c db envelope r cost now) (\<lambda>db _.
        then_do (upsert_cost_attribution c db z) (\<lambda>db _. (db, Ok (cost_breakdown n i d))))) = (db', res)"
      and e: "sl_tenant_id e = br_tenant_id r" "sl_account_id e = br_account_id r"
    using assms(1,2) by (simp add: settle_budget_def books Let_def cost_def)
  obtain db2 r2 where e2: "append_spend_ledger c db1 e = (db2, r2)" by (cases "append_spend_ledger c db1 e")
  obtain es where b2: "billed c db db2 ?x ?y es" using append_any [OF db1(2) e2] e ids assms(5) by auto
  obtain db3 r3 where e3: "append_refund c db2 envelope r cost now = (db3, r3)"
    by (cases "append_refund c db2 envelope r cost now")
  have "\<exists>es. billed c db db3 ?x ?y es"
  proof (cases "cost < br_reserved_micros r")
    case True
    then obtain f r4 where "append_spend_ledger c db2 f = (db3, r4)"
        "sl_tenant_id f = br_tenant_id r" "sl_account_id f = br_account_id r"
      using e3 by (auto simp: append_refund_def then_do_def split: prod.splits sum.splits)
    then show ?thesis using append_any [OF b2] ids assms(5) by fastforce
  qed (use e3 b2 in \<open>auto simp: append_refund_def\<close>)
  then obtain es3 where b3: "billed c db db3 ?x ?y es3" by blast
  have "db' = db2 \<or> db' = db3 \<or> (\<exists>r4. upsert_cost_attribution c db3 z = (db', r4))"
    using run unfolding e2 by (auto simp: then_do_def e3 split: sum.splits prod.splits)
  then have "\<exists>es. billed c db db' ?x ?y es"
    using b2 b3 attribution_billed [OF b3] by blast
  then show thesis unfolding cost_def by (blast intro: posted [OF found])
qed

lemma rollback_any:
  assumes "rollback_budget k c db envelope r reason now = (db', res)"
    and "rk_budget_enforced k" "billing_ok c db" "own_ids c db"
    and "plain_account (br_tenant_id r) (br_account_id r)"
  obtains (kept) err where "db' = db" "res = Inl err"
  | (posted) x y w es where
      "get_budget_account c db (br_tenant_id r) (br_account_id r) = Some x"
      "window_id_for k (br_started_at_ms r) = Inr w"
      "get_quota_window c db (br_tenant_id r) (br_account_id r) w = Some y"
      "billed c db db'
         (x\<lparr> ba_reserved_micros := saturating_sub (ba_reserved_micros x) (br_reserved_micros r),
             ba_updated_at_ms := now \<rparr>)
         (y\<lparr> qw_consumed_micros := saturating_sub (qw_consumed_micros y) (br_reserved_micros r),
             qw_updated_at_ms := now \<rparr>) es"
proof (cases "find_books k c db r ''rollback''")
  case (Inl err)
  then show thesis using assms(1,2) by (intro kept [of err]) (simp_all add: rollback_budget_def)
next
  case (Inr books)
  then obtain x y where books: "find_books k c db r ''rollback'' = Inr (x, y)" by (cases books) simp
  then obtain w where found: "get_budget_account c db (br_tenant_id r) (br_account_id r) = Some x"
      "window_id_for k (br_started_at_ms r) = Inr w"
      "get_quota_window c db (br_tenant_id r) (br_account_id r) w = Some y"
    by (auto simp: find_books_Inr)
  have ids: "ba_tenant_id x = br_tenant_id r" "ba_account_id x = br_account_id r"
      "qw_tenant_id y = br_tenant_id r" "qw_account_id y = br_account_id r"
    using assms(4,5) found by (auto simp: own_ids_def)
  let ?x = "x\<lparr> ba_reserved_micros := saturating_sub (ba_reserved_micros x) (br_reserved_micros r),
             ba_updated_at_ms := now \<rparr>"
  let ?y = "y\<lparr> qw_consumed_micros := saturating_sub (qw_consumed_micros y) (br_reserved_micros r),
             qw_updated_at_ms := now \<rparr>"
  obtain db1 where db1: "post_books c db ?x ?y = (db1, Ok ())" "billed c db db1 ?x ?y {#}"
    using post_books_billed [OF assms(3), of ?x ?y] ids assms(5) by auto
  obtain e r2 where "append_spend_ledger c db1 e = (db', r2)"
      "sl_tenant_id e = br_tenant_id r" "sl_account_id e = br_account_id r"
    using assms(1,2) db1(1)
    by (auto simp: rollback_budget_def books then_do_def split: prod.splits sum.splits)
  then have "\<exists>es. billed c db db' ?x ?y es" using append_any [OF db1(2)] ids assms(5) by fastforce
  then show thesis by (blast intro: posted [OF found])
qed

section \<open>Runs\<close>

text \<open>What an operation was called with, as far as the books depend on it, and what it answered.\<close>

datatype billing_event =
    Precharged TaskEnvelope "BudgetReservation option result"
  | Settled BudgetReservation "64 word" "CostBreakdown result"
  | Rolled_Back BudgetReservation "unit result"

text \<open>
  \<open>billing_run k c evs db pending\<close>: the operations of \<open>evs\<close>, the latest first, lead from empty books
  to \<open>db\<close> with the reservations \<open>pending\<close> not yet settled or rolled back. An operation may answer
  anything and a settlement may cost anything. Envelopes name their identity without colons, and a
  reservation is settled or rolled back once, as in \<^verbatim>\<open>execute\<close>, which has no second try after either
  failed.
\<close>

inductive billing_run ::
    "RuntimeKernel \<Rightarrow> table_codecs \<Rightarrow> billing_event list \<Rightarrow> KnowledgeTable \<Rightarrow>
     BudgetReservation multiset \<Rightarrow> bool"
  for k c where
  new: "billing_run k c [] new_table {#}"
| reserve: "billing_run k c evs db pending \<Longrightarrow> plain_envelope envelope \<Longrightarrow>
    precharge_budget k c db envelope tokens now = (db', Inr (Some r)) \<Longrightarrow>
    billing_run k c (Precharged envelope (Inr (Some r)) # evs) db' (add_mset r pending)"
| no_reserve: "billing_run k c evs db pending \<Longrightarrow> plain_envelope envelope \<Longrightarrow>
    precharge_budget k c db envelope tokens now = (db', Inl err) \<Longrightarrow>
    billing_run k c (Precharged envelope (Inl err) # evs) db' pending"
| settle: "billing_run k c evs db (add_mset r pending) \<Longrightarrow>
    settle_budget k c db envelope r tokens calls duration now = (db', b) \<Longrightarrow>
    billing_run k c
      (Settled r (cb_total_cost_micros (cost_breakdown tokens calls duration)) b # evs) db' pending"
| roll_back: "billing_run k c evs db (add_mset r pending) \<Longrightarrow>
    rollback_budget k c db envelope r reason now = (db', u) \<Longrightarrow>
    billing_run k c (Rolled_Back r u # evs) db' pending"

section \<open>Sums over the books\<close>

definition reserved_of :: "table_codecs \<Rightarrow> KnowledgeTable \<Rightarrow> string \<Rightarrow> string \<Rightarrow> nat" where
  "reserved_of c db t a =
     (case get_budget_account c db t a of None \<Rightarrow> 0 | Some x \<Rightarrow> unat (ba_reserved_micros x))"

definition spent_of :: "table_codecs \<Rightarrow> KnowledgeTable \<Rightarrow> string \<Rightarrow> string \<Rightarrow> nat" where
  "spent_of c db t a =
     (case get_budget_account c db t a of None \<Rightarrow> 0 | Some x \<Rightarrow> unat (ba_spent_micros x))"

definition consumed_of :: "table_codecs \<Rightarrow> KnowledgeTable \<Rightarrow> string \<Rightarrow> string \<Rightarrow> string \<Rightarrow> nat" where
  "consumed_of c db t a w =
     (case get_quota_window c db t a w of None \<Rightarrow> 0 | Some y \<Rightarrow> unat (qw_consumed_micros y))"

definition of_account :: "string \<Rightarrow> string \<Rightarrow> BudgetReservation \<Rightarrow> bool" where
  "of_account t a r \<longleftrightarrow> br_tenant_id r = t \<and> br_account_id r = a"

definition held_total :: "BudgetReservation multiset \<Rightarrow> string \<Rightarrow> string \<Rightarrow> nat" where
  "held_total pending t a = (\<Sum>r\<in>#filter_mset (of_account t a) pending. unat (br_reserved_micros r))"

definition held_in ::
    "RuntimeKernel \<Rightarrow> BudgetReservation multiset \<Rightarrow> string \<Rightarrow> string \<Rightarrow> string \<Rightarrow> nat" where
  "held_in k pending t a w =
     (\<Sum>r\<in>#filter_mset (\<lambda>r. of_account t a r \<and> window_id_for k (br_started_at_ms r) = Inr w) pending.
        unat (br_reserved_micros r))"

lemma held_simps [simp]:
  "held_total {#} t a = 0"
  "held_total (add_mset r pending) t a = (if of_account t a r then unat (br_reserved_micros r) else 0) + held_total pending t a"
  by (auto simp: held_total_def)

lemma held_in_simps [simp]:
  "held_in k {#} t a w = 0"
  "held_in k (add_mset r pending) t a w =
     (if of_account t a r \<and> window_id_for k (br_started_at_ms r) = Inr w
      then unat (br_reserved_micros r) else 0) + held_in k pending t a w"
  by (auto simp: held_in_def)

lemma reserved_of_billed:
  "billed c db db' x y es \<Longrightarrow> plain_account t a \<Longrightarrow> reserved_of c db' t a =
     (if t = ba_tenant_id x \<and> a = ba_account_id x then unat (ba_reserved_micros x)
      else reserved_of c db t a)"
  by (simp add: reserved_of_def billed_account)

lemma spent_of_billed:
  "billed c db db' x y es \<Longrightarrow> plain_account t a \<Longrightarrow> spent_of c db' t a =
     (if t = ba_tenant_id x \<and> a = ba_account_id x then unat (ba_spent_micros x)
      else spent_of c db t a)"
  by (simp add: spent_of_def billed_account)

lemma consumed_of_billed:
  "billed c db db' x y es \<Longrightarrow> plain_account t a \<Longrightarrow> consumed_of c db' t a w =
     (if t = qw_tenant_id y \<and> a = qw_account_id y \<and> w = qw_window_id y
      then unat (qw_consumed_micros y) else consumed_of c db t a w)"
  by (simp add: consumed_of_def billed_window)

lemma account_of_sums:
  "unat (ba_reserved_micros (account_of k c db e now)) = reserved_of c db (tenant_of e) (account_id_for e)"
  "unat (ba_spent_micros (account_of k c db e now)) = spent_of c db (tenant_of e) (account_id_for e)"
  by (auto simp: account_of_def reserved_of_def spent_of_def Let_def split: option.split)

lemma window_of_sums:
  "unat (qw_consumed_micros (window_of_account k c db e w b now)) =
     consumed_of c db (tenant_of e) (account_id_for e) w"
  by (auto simp: window_of_account_def consumed_of_def split: option.split)

section \<open>What a run did to an account\<close>

text \<open>
  The overrun of an account is what its settlements cost above their reservations. An operation has
  failed on an account when it answered an error other than the refusal of a precharge.
\<close>

definition event_overrun :: "string \<Rightarrow> string \<Rightarrow> billing_event \<Rightarrow> nat" where
  "event_overrun t a ev =
     (case ev of
        Settled r cost b \<Rightarrow> if of_account t a r then unat cost - unat (br_reserved_micros r) else 0
      | _ \<Rightarrow> 0)"

definition overrun :: "billing_event list \<Rightarrow> string \<Rightarrow> string \<Rightarrow> nat" where
  "overrun evs t a = sum_list (map (event_overrun t a) evs)"

fun failed_on :: "string \<Rightarrow> string \<Rightarrow> billing_event \<Rightarrow> bool" where
  "failed_on t a (Precharged envelope (Inl err)) \<longleftrightarrow>
     tenant_of envelope = t \<and> account_id_for envelope = a \<and> err \<noteq> Anyhow ''budget precharge exceeded''"
| "failed_on t a (Settled r cost (Inl err)) \<longleftrightarrow> of_account t a r"
| "failed_on t a (Rolled_Back r (Inl err)) \<longleftrightarrow> of_account t a r"
| "failed_on t a ev \<longleftrightarrow> False"

definition unfailed :: "billing_event list \<Rightarrow> string \<Rightarrow> string \<Rightarrow> bool" where
  "unfailed evs t a = list_all (\<lambda>ev. \<not> failed_on t a ev) evs"

lemma overrun_simps [simp]:
  "overrun [] t a = 0"
  "overrun (Precharged envelope p # evs) t a = overrun evs t a"
  "overrun (Settled r cost b # evs) t a =
     (if of_account t a r then unat cost - unat (br_reserved_micros r) else 0) + overrun evs t a"
  "overrun (Rolled_Back r u # evs) t a = overrun evs t a"
  by (simp_all add: overrun_def event_overrun_def)

lemma unfailed_simps [simp]:
  "unfailed [] t a" "unfailed (ev # evs) t a \<longleftrightarrow> \<not> failed_on t a ev \<and> unfailed evs t a"
  by (simp_all add: unfailed_def)

section \<open>Every run\<close>

lemma new_books:
  "get_budget_account c new_table t a = None" "get_quota_window c new_table t a w = None"
  "list_spend_ledger c new_table t a = []"
  by (simp_all add: billing_reads get_knowledge_def list_knowledge_by_prefix_def new_table_def)

definition pending_ok :: "BudgetReservation multiset \<Rightarrow> bool" where
  "pending_ok pending \<longleftrightarrow> (\<forall>r\<in>#pending. plain_account (br_tenant_id r) (br_account_id r) \<and>
     unat (br_reserved_micros r) \<le> max_estimate)"

lemma billing_run_wf:
  assumes "billing_run k c evs db pending" "rk_budget_enforced k" "billing_codecs_ok c"
  shows "billing_ok c db \<and> own_ids c db \<and> pending_ok pending"
  using assms
proof (induction)
  case new
  then show ?case by (simp add: billing_ok_def table_ok_new own_ids_def new_books pending_ok_def)
next
  case (reserve evs db pending envelope tokens now db' r)
  then have wf: "billing_ok c db" "own_ids c db" "pending_ok pending" by blast+
  obtain x y e where "br_tenant_id r = tenant_of envelope" "br_account_id r = account_id_for envelope"
      "br_reserved_micros r = estimate_precharge_micros envelope tokens" "billed c db db' x y {#e#}"
    using precharge_taken [OF reserve.hyps(3) wf(1,2) reserve.hyps(2)] by metis
  then show ?case
    using wf plain_envelope_account [OF reserve.hyps(2)] estimate_le [of envelope tokens]
    by (auto simp: pending_ok_def dest: billed_ok own_ids_billed)
next
  case (no_reserve evs db pending envelope tokens now db' err)
  then have wf: "billing_ok c db" "own_ids c db" "pending_ok pending" by blast+
  have "db' = db \<or> (\<exists>x y es. billed c db db' x y es)"
    using precharge_failed [OF no_reserve.hyps(3) wf(1,2) no_reserve.hyps(2)] by metis
  then show ?case using wf by (auto dest: billed_ok own_ids_billed)
next
  case (settle evs db r pending envelope tokens calls duration now db' b)
  then have wf: "billing_ok c db" "own_ids c db" "pending_ok (add_mset r pending)" by blast+
  then have plain: "plain_account (br_tenant_id r) (br_account_id r)" "pending_ok pending"
    by (simp_all add: pending_ok_def)
  have "db' = db \<or> (\<exists>x y es. billed c db db' x y es)"
    using settle_any [OF settle.hyps(2) settle.prems(1) wf(1,2) plain(1)] by metis
  then show ?case using wf plain by (auto dest: billed_ok own_ids_billed)
next
  case (roll_back evs db r pending envelope reason now db' u)
  then have wf: "billing_ok c db" "own_ids c db" "pending_ok (add_mset r pending)" by blast+
  then have plain: "plain_account (br_tenant_id r) (br_account_id r)" "pending_ok pending"
    by (simp_all add: pending_ok_def)
  have "db' = db \<or> (\<exists>x y es. billed c db db' x y es)"
    using rollback_any [OF roll_back.hyps(2) roll_back.prems(1) wf(1,2) plain(1)] by metis
  then show ?case using wf plain by (auto dest: billed_ok own_ids_billed)
qed

section \<open>Spending is bounded by the budget and the overruns\<close>

definition within_budget :: "table_codecs \<Rightarrow> billing_event list \<Rightarrow> KnowledgeTable \<Rightarrow> bool" where
  "within_budget c evs db \<longleftrightarrow>
     (\<forall>t a x. plain_account t a \<longrightarrow> get_budget_account c db t a = Some x \<longrightarrow>
        unat (ba_spent_micros x) + unat (ba_reserved_micros x) \<le>
          unat (ba_total_budget_micros x) + overrun evs t a) \<and>
     (\<forall>t a w y. plain_account t a \<longrightarrow> get_quota_window c db t a w = Some y \<longrightarrow>
        unat (qw_consumed_micros y) \<le> unat (qw_window_budget_micros y) + overrun evs t a)"

lemma within_budgetD:
  assumes "within_budget c evs db" "plain_account t a"
  shows "get_budget_account c db t a = Some x \<Longrightarrow>
      unat (ba_spent_micros x) + unat (ba_reserved_micros x) \<le> unat (ba_total_budget_micros x) + overrun evs t a"
    "get_quota_window c db t a w = Some y \<Longrightarrow>
      unat (qw_consumed_micros y) \<le> unat (qw_window_budget_micros y) + overrun evs t a"
  using assms unfolding within_budget_def by blast+

lemma within_budget_more:
  assumes "within_budget c evs db" "\<And>t a. overrun evs t a \<le> overrun evs' t a"
  shows "within_budget c evs' db"
  using assms unfolding within_budget_def by (meson add_le_cancel_left order_trans)

lemma within_budget_billed:
  assumes "within_budget c evs db" "billed c db db' x y es" "\<And>t a. overrun evs t a \<le> overrun evs' t a"
    and "unat (ba_spent_micros x) + unat (ba_reserved_micros x) \<le>
           unat (ba_total_budget_micros x) + overrun evs' (ba_tenant_id x) (ba_account_id x)"
    and "unat (qw_consumed_micros y) \<le>
           unat (qw_window_budget_micros y) + overrun evs' (qw_tenant_id y) (qw_account_id y)"
  shows "within_budget c evs' db'"
proof -
  note more = within_budget_more [OF assms(1,3)]
  show ?thesis
    unfolding within_budget_def
  proof (intro conjI allI impI)
    fix t a z assume plain: "plain_account t a" and "get_budget_account c db' t a = Some z"
    then have "z = x \<and> t = ba_tenant_id x \<and> a = ba_account_id x \<or> get_budget_account c db t a = Some z"
      by (simp add: billed_account [OF assms(2)] split: if_splits)
    then show "unat (ba_spent_micros z) + unat (ba_reserved_micros z) \<le>
        unat (ba_total_budget_micros z) + overrun evs' t a"
      using assms(4) within_budgetD(1) [OF more plain] by blast
  next
    fix t a w z assume plain: "plain_account t a" and "get_quota_window c db' t a w = Some z"
    then have "z = y \<and> t = qw_tenant_id y \<and> a = qw_account_id y \<or> get_quota_window c db t a w = Some z"
      by (simp add: billed_window [OF assms(2)] split: if_splits)
    then show "unat (qw_consumed_micros z) \<le> unat (qw_window_budget_micros z) + overrun evs' t a"
      using assms(5) within_budgetD(2) [OF more plain] by blast
  qed
qed

lemma within_budget_new_account:
  assumes "within_budget c evs db" "plain_envelope e"
  shows "unat (ba_spent_micros (account_of k c db e now)) + unat (ba_reserved_micros (account_of k c db e now))
           \<le> unat (ba_total_budget_micros (account_of k c db e now)) + overrun evs (tenant_of e) (account_id_for e)"
    and "unat (qw_consumed_micros (window_of_account k c db e w b now)) \<le>
           unat (qw_window_budget_micros (window_of_account k c db e w b now)) +
             overrun evs (tenant_of e) (account_id_for e)"
  using within_budgetD [OF assms(1) plain_envelope_account [OF assms(2)]]
  by (auto simp: account_of_def window_of_account_def Let_def split: option.split)

lemma account_remaining_le:
  assumes "r \<le> account_remaining x" "0 < unat r"
  shows "unat (ba_spent_micros x) + unat (ba_reserved_micros x) + unat r \<le> unat (ba_total_budget_micros x)"
proof -
  have "unat r \<le> unat (ba_total_budget_micros x) -
      min (unat (ba_spent_micros x) + unat (ba_reserved_micros x)) (2 ^ 64 - 1)"
    using assms(1) by (simp add: account_remaining_def word_le_nat_alt unat_saturating_add)
  moreover have "unat (ba_total_budget_micros x) < 2 ^ 64"
    using unsigned_less [of "ba_total_budget_micros x"] by simp
  ultimately show ?thesis using assms(2) by (simp split: split_min_lin if_splits)
qed

lemma window_remaining_le:
  "r \<le> window_remaining y \<Longrightarrow> 0 < unat r \<Longrightarrow>
     unat (qw_consumed_micros y) + unat r \<le> unat (qw_window_budget_micros y)"
  by (simp add: window_remaining_def word_le_nat_alt)

text \<open>
  Open reservations are backed by the account and the window; when no operation has failed on the
  account, what it has reserved is exactly what is open.
\<close>

definition backed ::
    "RuntimeKernel \<Rightarrow> table_codecs \<Rightarrow> billing_event list \<Rightarrow> KnowledgeTable \<Rightarrow>
     BudgetReservation multiset \<Rightarrow> bool" where
  "backed k c evs db pending \<longleftrightarrow>
     (\<forall>t a. plain_account t a \<longrightarrow> held_total pending t a \<le> reserved_of c db t a \<and>
        (unfailed evs t a \<longrightarrow> reserved_of c db t a = held_total pending t a) \<and>
        (\<forall>w. held_in k pending t a w \<le> consumed_of c db t a w))"

lemma backedD:
  assumes "backed k c evs db pending" "plain_account t a"
  shows "held_total pending t a \<le> reserved_of c db t a"
    "unfailed evs t a \<Longrightarrow> reserved_of c db t a = held_total pending t a"
    "held_in k pending t a w \<le> consumed_of c db t a w"
  using assms unfolding backed_def by blast+

lemma backedI:
  assumes "\<And>t a. plain_account t a \<Longrightarrow> held_total pending t a \<le> reserved_of c db t a"
    "\<And>t a. plain_account t a \<Longrightarrow> unfailed evs t a \<Longrightarrow> reserved_of c db t a = held_total pending t a"
    "\<And>t a w. plain_account t a \<Longrightarrow> held_in k pending t a w \<le> consumed_of c db t a w"
  shows "backed k c evs db pending"
  unfolding backed_def using assms by blast

text \<open>An operation that failed before it wrote anything: its reservation is never released.\<close>

lemma backed_forgotten:
  assumes "backed k c evs db (add_mset r pending)" "failed_on (br_tenant_id r) (br_account_id r) ev"
  shows "backed k c (ev # evs) db pending"
proof (rule backedI)
  fix t a w assume plain: "plain_account t a"
  note b = backedD [OF assms(1) plain]
  show "held_total pending t a \<le> reserved_of c db t a" using b(1) by simp
  show "held_in k pending t a w \<le> consumed_of c db t a w" using b(3) [of w] by simp
  show "reserved_of c db t a = held_total pending t a" if "unfailed (ev # evs) t a"
  proof -
    have "\<not> of_account t a r" using that assms(2) by (auto simp: of_account_def)
    then show ?thesis using b(2) that by simp
  qed
qed

text \<open>What settlement and rollback share: the reservation leaves both books.\<close>

lemma backed_release:
  assumes "backed k c evs db (add_mset r pending)" "within_budget c evs db" "billed c db db' x' y' es"
    and found: "get_budget_account c db (br_tenant_id r) (br_account_id r) = Some x"
      "window_id_for k (br_started_at_ms r) = Inr w"
      "get_quota_window c db (br_tenant_id r) (br_account_id r) w = Some y"
    and plain: "plain_account (br_tenant_id r) (br_account_id r)"
    and ids: "ba_tenant_id x' = br_tenant_id r" "ba_account_id x' = br_account_id r"
      "qw_tenant_id y' = br_tenant_id r" "qw_account_id y' = br_account_id r" "qw_window_id y' = w"
    and same: "ba_total_budget_micros x' = ba_total_budget_micros x"
      "qw_window_budget_micros y' = qw_window_budget_micros y"
    and x': "ba_reserved_micros x' = saturating_sub (ba_reserved_micros x) (br_reserved_micros r)"
      "unat (ba_spent_micros x') \<le> unat (ba_spent_micros x) + cost"
    and y': "unat (qw_consumed_micros y) - unat (br_reserved_micros r) \<le> unat (qw_consumed_micros y')"
      "unat (qw_consumed_micros y') \<le> unat (qw_consumed_micros y) - unat (br_reserved_micros r) + cost"
    and cost: "\<And>t a. overrun (ev # evs) t a =
      (if of_account t a r then cost - unat (br_reserved_micros r) else 0) + overrun evs t a"
  shows "backed k c (ev # evs) db' pending \<and> within_budget c (ev # evs) db'"
proof -
  have mine: "of_account (br_tenant_id r) (br_account_id r) r" by (simp add: of_account_def)
  have before: "unat (ba_reserved_micros x) = reserved_of c db (br_tenant_id r) (br_account_id r)"
    using found(1) by (simp add: reserved_of_def)
  have res: "unat (br_reserved_micros r) + held_total pending (br_tenant_id r) (br_account_id r)
      \<le> unat (ba_reserved_micros x)"
    using backedD(1) [OF assms(1) plain] found(1) mine by (simp add: reserved_of_def)
  have con: "unat (br_reserved_micros r) + held_in k pending (br_tenant_id r) (br_account_id r) w
      \<le> unat (qw_consumed_micros y)"
    using backedD(3) [OF assms(1) plain, of w] found(2,3) mine by (simp add: consumed_of_def)
  have "backed k c (ev # evs) db' pending"
  proof (rule backedI)
    fix t a v assume pl: "plain_account t a"
    show "held_total pending t a \<le> reserved_of c db' t a"
      using backedD(1) [OF assms(1) pl] res
      by (auto simp: reserved_of_billed [OF assms(3) pl] ids x'(1) of_account_def)
    show "reserved_of c db' t a = held_total pending t a" if "unfailed (ev # evs) t a"
      using backedD(2) [OF assms(1) pl] that before
      by (auto simp: reserved_of_billed [OF assms(3) pl] ids x'(1) of_account_def)
    show "held_in k pending t a v \<le> consumed_of c db' t a v"
    proof (cases "t = br_tenant_id r \<and> a = br_account_id r \<and> v = w")
      case True
      then show ?thesis
        using con y'(1) unfolding consumed_of_billed [OF assms(3) pl] by (simp add: ids)
    next
      case False
      have "held_in k (add_mset r pending) t a v \<le> consumed_of c db t a v"
        by (rule backedD(3) [OF assms(1) pl])
      then show ?thesis using False by (auto simp: consumed_of_billed [OF assms(3) pl] ids split: if_splits)
    qed
  qed
  moreover have "within_budget c (ev # evs) db'"
  proof (rule within_budget_billed [OF assms(2,3)])
    show "overrun evs t a \<le> overrun (ev # evs) t a" for t a by (simp add: cost)
    show "unat (ba_spent_micros x') + unat (ba_reserved_micros x') \<le>
        unat (ba_total_budget_micros x') + overrun (ev # evs) (ba_tenant_id x') (ba_account_id x')"
      using within_budgetD(1) [OF assms(2) plain found(1)] x' res by (simp add: cost ids same mine)
    show "unat (qw_consumed_micros y') \<le>
        unat (qw_window_budget_micros y') + overrun (ev # evs) (qw_tenant_id y') (qw_account_id y')"
      using within_budgetD(2) [OF assms(2) plain found(3)] y' con by (simp add: cost ids same mine)
  qed
  ultimately show ?thesis by blast
qed

text \<open>What a precharge that is let through shares, whether or not its ledger entry was written.\<close>

lemma backed_reserve:
  assumes "backed k c evs db pending" "within_budget c evs db" "own_ids c db" "plain_envelope envelope"
    and xy: "x = account_of k c db envelope now" "y = window_of_account k c db envelope w b now"
    and fits: "amount \<le> account_remaining x" "amount \<le> window_remaining y" "0 < unat amount"
    and billed: "billed c db db'
       (x\<lparr> ba_reserved_micros := saturating_add (ba_reserved_micros x) amount, ba_updated_at_ms := now \<rparr>)
       (y\<lparr> qw_consumed_micros := saturating_add (qw_consumed_micros y) amount, qw_updated_at_ms := now \<rparr>) es"
    and same: "\<And>t a. overrun (ev # evs) t a = overrun evs t a"
  shows "within_budget c (ev # evs) db' \<and>
    (\<forall>t a. plain_account t a \<longrightarrow>
       reserved_of c db' t a = reserved_of c db t a +
         (if t = tenant_of envelope \<and> a = account_id_for envelope then unat amount else 0) \<and>
       (\<forall>v. consumed_of c db' t a v = consumed_of c db t a v +
         (if t = tenant_of envelope \<and> a = account_id_for envelope \<and> v = w then unat amount else 0)))"
proof -
  have le: "unat (ba_spent_micros x) + unat (ba_reserved_micros x) + unat amount
      \<le> unat (ba_total_budget_micros x)"
    by (rule account_remaining_le [OF fits(1,3)])
  have con: "unat (qw_consumed_micros y) + unat amount \<le> unat (qw_window_budget_micros y)"
    by (rule window_remaining_le [OF fits(2,3)])
  have small: "unat (ba_total_budget_micros x) < 2 ^ 64" "unat (qw_window_budget_micros y) < 2 ^ 64"
    using unsigned_less [of "ba_total_budget_micros x"] unsigned_less [of "qw_window_budget_micros y"]
    by simp_all
  have ids: "ba_tenant_id x = tenant_of envelope" "ba_account_id x = account_id_for envelope"
      "qw_tenant_id y = tenant_of envelope" "qw_account_id y = account_id_for envelope" "qw_window_id y = w"
    using account_of_ids [OF assms(3,4)] window_of_ids [OF assms(3,4)] by (simp_all add: xy)
  have sums: "unat (saturating_add (ba_reserved_micros x) amount) =
        reserved_of c db (tenant_of envelope) (account_id_for envelope) + unat amount"
      "unat (saturating_add (qw_consumed_micros y) amount) =
        consumed_of c db (tenant_of envelope) (account_id_for envelope) w + unat amount"
    using le con small
    by (simp_all add: unat_saturating_add account_of_sums window_of_sums flip: xy)
      (simp_all add: xy account_of_sums window_of_sums)
  have "within_budget c (ev # evs) db'"
    by (rule within_budget_billed [OF assms(2) billed])
      (use le con small in \<open>simp_all add: unat_saturating_add same\<close>)
  then show ?thesis
    using sums by (auto simp: reserved_of_billed [OF billed] consumed_of_billed [OF billed] ids)
qed

lemma own_idsD:
  assumes "own_ids c db" "plain_account t a"
  shows "get_budget_account c db t a = Some x \<Longrightarrow> ba_tenant_id x = t \<and> ba_account_id x = a"
    "get_quota_window c db t a w = Some y \<Longrightarrow>
       qw_tenant_id y = t \<and> qw_account_id y = a \<and> qw_window_id y = w"
  using assms by (simp_all add: own_ids_def)

lemma budget_run:
  assumes "billing_run k c evs db pending" "rk_budget_enforced k" "billing_codecs_ok c"
    "rk_gate_mode k \<noteq> Gate_Shadow"
  shows "backed k c evs db pending \<and> within_budget c evs db"
  using assms
proof (induction)
  case new
  then show ?case
    by (simp add: backed_def within_budget_def reserved_of_def consumed_of_def new_books)
next
  case (reserve evs db pending envelope tokens now db' r)
  then have IH: "backed k c evs db pending" "within_budget c evs db" by blast+
  have wf: "billing_ok c db" "own_ids c db"
    using billing_run_wf [OF reserve.hyps(1) reserve.prems(1,2)] by blast+
  obtain w b x y e where win: "window_id_for k now = Inr w"
      and xy: "x = account_of k c db envelope now" "y = window_of_account k c db envelope w b now"
      and fits: "br_reserved_micros r \<le> account_remaining x" "br_reserved_micros r \<le> window_remaining y"
      and r: "br_tenant_id r = tenant_of envelope" "br_account_id r = account_id_for envelope"
        "br_reserved_micros r = estimate_precharge_micros envelope tokens" "br_started_at_ms r = now"
      and billed: "billed c db db'
       (x\<lparr> ba_reserved_micros := saturating_add (ba_reserved_micros x) (br_reserved_micros r),
           ba_updated_at_ms := now \<rparr>)
       (y\<lparr> qw_consumed_micros := saturating_add (qw_consumed_micros y) (br_reserved_micros r),
           qw_updated_at_ms := now \<rparr>) {#e#}"
    using precharge_taken [OF reserve.hyps(3) wf reserve.hyps(2)] reserve.prems(3) by metis
  have pos: "0 < unat (br_reserved_micros r)" by (simp add: r unat_estimate)
  note step = backed_reserve [OF IH wf(2) reserve.hyps(2) xy fits pos billed,
      where ev = "Precharged envelope (Inr (Some r))", simplified]
  have "backed k c (Precharged envelope (Inr (Some r)) # evs) db' (add_mset r pending)"
    by (rule backedI) (use backedD [OF IH(1)] step win in \<open>auto simp: of_account_def r\<close>)
  then show ?case using step by blast
next
  case (no_reserve evs db pending envelope tokens now db' err)
  then have IH: "backed k c evs db pending" "within_budget c evs db" by blast+
  have wf: "billing_ok c db" "own_ids c db"
    using billing_run_wf [OF no_reserve.hyps(1) no_reserve.prems(1,2)] by blast+
  let ?ev = "Precharged envelope (Inl err)"
  let ?E = "estimate_precharge_micros envelope tokens"
  show ?case
  proof (rule precharge_failed [OF no_reserve.hyps(3) wf no_reserve.hyps(2)])
    assume "db' = db"
    then show ?thesis
      using IH within_budget_more [OF IH(2), of "?ev # evs"] by (auto simp: backed_def)
  next
    fix w b x y es
    assume xy: "x = account_of k c db envelope now" "y = window_of_account k c db envelope w b now"
      and billed: "billed c db db'
       (x\<lparr> ba_blocked_count := saturating_add (ba_blocked_count x) 1, ba_updated_at_ms := now \<rparr>)
       (y\<lparr> qw_blocked_count := saturating_add (qw_blocked_count y) 1, qw_updated_at_ms := now \<rparr>) es"
    have ids: "ba_tenant_id x = tenant_of envelope" "ba_account_id x = account_id_for envelope"
        "qw_tenant_id y = tenant_of envelope" "qw_account_id y = account_id_for envelope" "qw_window_id y = w"
      using account_of_ids [OF wf(2) no_reserve.hyps(2)] window_of_ids [OF wf(2) no_reserve.hyps(2)]
      by (simp_all add: xy)
    have same: "reserved_of c db' t a = reserved_of c db t a" "consumed_of c db' t a v = consumed_of c db t a v"
      if "plain_account t a" for t a v
      by (simp_all add: reserved_of_billed [OF billed that] consumed_of_billed [OF billed that] ids)
        (simp_all add: xy account_of_sums window_of_sums)
    have "within_budget c (?ev # evs) db'"
      by (rule within_budget_billed [OF IH(2) billed])
        (use within_budget_new_account [OF IH(2) no_reserve.hyps(2)] in \<open>simp_all add: ids\<close>,
         simp_all add: xy)
    then show ?thesis using IH(1) same by (simp add: backed_def)
  next
    fix w b x y es
    assume xy: "x = account_of k c db envelope now" "y = window_of_account k c db envelope w b now"
      and fits: "rk_gate_mode k \<noteq> Gate_Shadow \<Longrightarrow> ?E \<le> account_remaining x \<and> ?E \<le> window_remaining y"
      and billed: "billed c db db'
         (x\<lparr> ba_reserved_micros := saturating_add (ba_reserved_micros x) ?E, ba_updated_at_ms := now \<rparr>)
         (y\<lparr> qw_consumed_micros := saturating_add (qw_consumed_micros y) ?E, qw_updated_at_ms := now \<rparr>) es"
    have fit: "?E \<le> account_remaining x" "?E \<le> window_remaining y" "0 < unat ?E"
      using fits no_reserve.prems(3) by (simp_all add: unat_estimate)
    note step = backed_reserve [OF IH wf(2) no_reserve.hyps(2) xy fit billed, where ev = ?ev, simplified]
    have "err \<noteq> Anyhow ''budget precharge exceeded''"
    proof
      assume "err = Anyhow ''budget precharge exceeded''"
      with no_reserve.hyps(3) have refused:
        "precharge_budget k c db envelope tokens now = (db', Err ''budget precharge exceeded'')" by simp
      have "reserved_of c db' (tenant_of envelope) (account_id_for envelope) =
          reserved_of c db (tenant_of envelope) (account_id_for envelope)"
        by (rule precharge_refused [OF refused wf no_reserve.hyps(2)])
          (use plain_envelope_account [OF no_reserve.hyps(2)] account_of_ids [OF wf(2) no_reserve.hyps(2)]
           in \<open>simp add: reserved_of_billed account_of_sums\<close>)
      then show False using step plain_envelope_account [OF no_reserve.hyps(2)] fit(3) by auto
    qed
    then have "backed k c (?ev # evs) db' pending"
      by (intro backedI) (use backedD [OF IH(1)] step in \<open>auto simp: trans_le_add1\<close>)
    then show ?thesis using step by blast
  qed
next
  case (settle evs db r pending envelope tokens calls duration now db' b)
  then have IH: "backed k c evs db (add_mset r pending)" "within_budget c evs db" by blast+
  have wf: "billing_ok c db" "own_ids c db" "plain_account (br_tenant_id r) (br_account_id r)"
    using billing_run_wf [OF settle.hyps(1) settle.prems(1,2)] by (simp_all add: pending_ok_def)
  let ?cost = "cb_total_cost_micros (cost_breakdown tokens calls duration)"
  show ?case
  proof (rule settle_any [OF settle.hyps(2) settle.prems(1) wf])
    fix err assume kept: "db' = db" "b = Inl err"
    then have "backed k c (Settled r ?cost b # evs) db' pending"
      using backed_forgotten [OF IH(1), of "Settled r ?cost b"] by (simp add: of_account_def)
    then show ?thesis using within_budget_more [OF IH(2), of "Settled r ?cost b # evs"] kept by simp
  next
    fix x y w es
    assume found: "get_budget_account c db (br_tenant_id r) (br_account_id r) = Some x"
        "window_id_for k (br_started_at_ms r) = Inr w"
        "get_quota_window c db (br_tenant_id r) (br_account_id r) w = Some y"
      and billed: "billed c db db'
         (x\<lparr> ba_reserved_micros := saturating_sub (ba_reserved_micros x) (br_reserved_micros r),
             ba_spent_micros := saturating_add (ba_spent_micros x) ?cost, ba_updated_at_ms := now \<rparr>)
         (y\<lparr> qw_consumed_micros := saturating_add (saturating_sub (qw_consumed_micros y)
               (br_reserved_micros r)) ?cost, qw_updated_at_ms := now \<rparr>) es"
    have "unat (qw_consumed_micros y) < 2 ^ 64" using unsigned_less [of "qw_consumed_micros y"] by simp
    then show ?thesis
      by (intro backed_release [OF IH billed found wf(3), where cost = "unat ?cost"])
        (use own_idsD [OF wf(2,3)] found in \<open>simp_all add: unat_saturating_add\<close>)
  qed
next
  case (roll_back evs db r pending envelope reason now db' u)
  then have IH: "backed k c evs db (add_mset r pending)" "within_budget c evs db" by blast+
  have wf: "billing_ok c db" "own_ids c db" "plain_account (br_tenant_id r) (br_account_id r)"
    using billing_run_wf [OF roll_back.hyps(1) roll_back.prems(1,2)] by (simp_all add: pending_ok_def)
  show ?case
  proof (rule rollback_any [OF roll_back.hyps(2) roll_back.prems(1) wf])
    fix err assume kept: "db' = db" "u = Inl err"
    then have "backed k c (Rolled_Back r u # evs) db' pending"
      using backed_forgotten [OF IH(1), of "Rolled_Back r u"] by (simp add: of_account_def)
    then show ?thesis using within_budget_more [OF IH(2), of "Rolled_Back r u # evs"] kept by simp
  next
    fix x y w es
    assume found: "get_budget_account c db (br_tenant_id r) (br_account_id r) = Some x"
        "window_id_for k (br_started_at_ms r) = Inr w"
        "get_quota_window c db (br_tenant_id r) (br_account_id r) w = Some y"
      and billed: "billed c db db'
         (x\<lparr> ba_reserved_micros := saturating_sub (ba_reserved_micros x) (br_reserved_micros r),
             ba_updated_at_ms := now \<rparr>)
         (y\<lparr> qw_consumed_micros := saturating_sub (qw_consumed_micros y) (br_reserved_micros r),
             qw_updated_at_ms := now \<rparr>) es"
    show ?thesis
      by (rule backed_release [OF IH billed found wf(3), where cost = 0])
        (use own_idsD [OF wf(2,3)] found in simp_all)
  qed
qed

section \<open>Reconciliation\<close>

definition settle_value :: "SpendLedger \<Rightarrow> int" where
  "settle_value e = (if sl_kind e = Spend_Settle then max 0 (sint (sl_amount_micros e)) else 0)"

definition open_value :: "SpendLedger \<Rightarrow> int" where
  "open_value e =
     (case sl_kind e of
        Spend_Reserve \<Rightarrow> sint (sl_amount_micros e)
      | Spend_Settle \<Rightarrow> - sint (sl_amount_micros e)
      | Spend_Refund \<Rightarrow> sint (sl_amount_micros e)
      | Spend_Blocked \<Rightarrow> 0)"

definition good_entry :: "SpendLedger \<Rightarrow> bool" where
  "good_entry e \<longleftrightarrow> \<bar>sint (sl_amount_micros e)\<bar> \<le> int max_estimate \<and>
     (sl_kind e = Spend_Reserve \<or> sl_kind e = Spend_Settle \<longrightarrow> 0 \<le> sint (sl_amount_micros e)) \<and>
     (sl_kind e = Spend_Refund \<longrightarrow> sint (sl_amount_micros e) \<le> 0)"

lemma ledger_settled_sum: "ledger_settled es = word_of_int (\<Sum>e\<in>#mset es. settle_value e)"
proof (induction es)
  case (Cons e es)
  have "i64_max0 w = word_of_int (max 0 (sint w))" for w by (simp add: i64_max0_def)
  with Cons show ?case by (simp add: ledger_settled_def settle_value_def)
qed (simp add: ledger_settled_def)

lemma sint_clamp: "sint (i64_clamp n) = max (- (2 ^ 63)) (min (2 ^ 63 - 1) n)"
  unfolding i64_clamp_def by (rule sint_of_int) simp_all

lemma sint_abs:
  assumes "sint w \<le> 0" "- (2 ^ 63) < sint w"
  shows "sint (i64_abs w) = - sint (w :: 64 word)"
proof (cases "sint w < 0")
  case True
  have "- w = word_of_int (- sint w)" by simp
  then show ?thesis using True assms sint_of_int [of "- sint w"] by (simp add: i64_abs_def)
qed (use assms in \<open>simp add: i64_abs_def\<close>)

lemma sint_ledger_step:
  assumes "good_entry e" "\<bar>sint acc\<bar> + int max_estimate < 2 ^ 63"
  shows "sint (ledger_step acc e) = sint acc + open_value e"
proof -
  have "sint (i64_abs (sl_amount_micros e)) = - sint (sl_amount_micros e)" if "sl_kind e = Spend_Refund"
    using assms(1) that by (intro sint_abs) (auto simp: good_entry_def)
  then show ?thesis
    using assms
    by (cases "sl_kind e")
      (auto simp: ledger_step_def open_value_def good_entry_def i64_saturating_add_def
        i64_saturating_sub_def sint_clamp i64_max0_def)
qed

lemma open_value_le: "good_entry e \<Longrightarrow> \<bar>open_value e\<bar> \<le> int max_estimate"
  by (auto simp: good_entry_def open_value_def split: SpendLedgerKind.split)

lemma settle_value_le: "good_entry e \<Longrightarrow> 0 \<le> settle_value e \<and> settle_value e \<le> int max_estimate"
  by (auto simp: good_entry_def settle_value_def)

lemma sum_values_le:
  assumes "\<And>e. e \<in># M \<Longrightarrow> \<bar>f e\<bar> \<le> b"
  shows "\<bar>\<Sum>e\<in>#M. f e\<bar> \<le> int (size M) * (b :: int)"
  using assms
proof (induction M)
  case (add e M)
  then have "\<bar>f e\<bar> \<le> b" "\<bar>\<Sum>e\<in>#M. f e\<bar> \<le> int (size M) * b" by simp_all
  then show ?case by (simp add: algebra_simps)
qed simp

lemma sint_foldl_ledger:
  assumes "\<forall>e\<in>set es. good_entry e" "\<bar>sint acc\<bar> + int (length es) * int max_estimate < 2 ^ 63"
  shows "sint (foldl ledger_step acc es) = sint acc + (\<Sum>e\<in>#mset es. open_value e)"
  using assms
proof (induction es arbitrary: acc)
  case (Cons e es)
  have "\<bar>sint acc\<bar> + int max_estimate < 2 ^ 63" using Cons.prems(2) by simp
  then have step: "sint (ledger_step acc e) = sint acc + open_value e"
    using Cons.prems(1) by (intro sint_ledger_step) simp_all
  moreover have "\<bar>open_value e\<bar> \<le> int max_estimate" using Cons.prems(1) by (intro open_value_le) simp
  ultimately have "\<bar>sint (ledger_step acc e)\<bar> + int (length es) * int max_estimate < 2 ^ 63"
    using Cons.prems(2) by (simp add: algebra_simps)
  then show ?case using Cons.IH [of "ledger_step acc e"] Cons.prems(1) step by simp
qed simp

lemma sint_reserved_open:
  assumes "\<forall>e\<in>#mset es. good_entry e" "length es \<le> 200000000"
  shows "sint (ledger_reserved_open es) = (\<Sum>e\<in>#mset es. open_value e)"
  using sint_foldl_ledger [of es 0] assms by (simp add: ledger_reserved_open_def)

text \<open>No settlement on the account cost more than the largest estimate.\<close>

definition small_costs :: "billing_event list \<Rightarrow> string \<Rightarrow> string \<Rightarrow> bool" where
  "small_costs evs t a =
     list_all (\<lambda>ev. case ev of Settled r cost b \<Rightarrow> of_account t a r \<longrightarrow> unat cost \<le> max_estimate | _ \<Rightarrow> True) evs"

lemma small_costs_simps [simp]:
  "small_costs [] t a"
  "small_costs (Precharged envelope p # evs) t a = small_costs evs t a"
  "small_costs (Settled r cost b # evs) t a \<longleftrightarrow>
     (of_account t a r \<longrightarrow> unat cost \<le> max_estimate) \<and> small_costs evs t a"
  "small_costs (Rolled_Back r u # evs) t a = small_costs evs t a"
  by (simp_all add: small_costs_def)

definition booked ::
    "table_codecs \<Rightarrow> billing_event list \<Rightarrow> KnowledgeTable \<Rightarrow> BudgetReservation multiset \<Rightarrow> string \<Rightarrow>
     string \<Rightarrow> bool" where
  "booked c evs db pending t a \<longleftrightarrow>
     reserved_of c db t a = held_total pending t a \<and>
     (\<forall>e\<in>#mset (list_spend_ledger c db t a). good_entry e) \<and>
     length (list_spend_ledger c db t a) \<le> 2 * length evs \<and>
     reserved_of c db t a \<le> length evs * max_estimate \<and>
     spent_of c db t a \<le> length evs * max_estimate \<and>
     (\<Sum>e\<in>#mset (list_spend_ledger c db t a). open_value e) =
       int (reserved_of c db t a) - int (overrun evs t a) \<and>
     (\<Sum>e\<in>#mset (list_spend_ledger c db t a). settle_value e) = int (spent_of c db t a)"

lemma bookedD:
  assumes "booked c evs db pending t a"
  shows "reserved_of c db t a = held_total pending t a"
    "\<forall>e\<in>#mset (list_spend_ledger c db t a). good_entry e"
    "length (list_spend_ledger c db t a) \<le> 2 * length evs"
    "reserved_of c db t a \<le> length evs * max_estimate" "spent_of c db t a \<le> length evs * max_estimate"
    "(\<Sum>e\<in>#mset (list_spend_ledger c db t a). open_value e) =
       int (reserved_of c db t a) - int (overrun evs t a)"
    "(\<Sum>e\<in>#mset (list_spend_ledger c db t a). settle_value e) = int (spent_of c db t a)"
  using assms unfolding booked_def by blast+

lemma booked_small:
  assumes "booked c evs db pending t a" "length evs \<le> 100000000"
  shows "reserved_of c db t a \<le> 100000000 * max_estimate" "spent_of c db t a \<le> 100000000 * max_estimate"
  using bookedD(4,5) [OF assms(1)] assms(2) by simp_all

lemma booked_kept:
  assumes "booked c evs db pending t a" "overrun (ev # evs) t a = overrun evs t a"
    "held_total pending' t a = held_total pending t a"
  shows "booked c (ev # evs) db pending' t a"
  using assms by (simp add: booked_def)

lemma booked_aside:
  assumes "booked c evs db pending t a" "billed c db db' x y es" "plain_account t a"
    "\<not> (t = ba_tenant_id x \<and> a = ba_account_id x)"
    "overrun (ev # evs) t a = overrun evs t a" "held_total pending' t a = held_total pending t a"
  shows "booked c (ev # evs) db' pending' t a"
proof -
  have "mset (list_spend_ledger c db' t a) = mset (list_spend_ledger c db t a)"
    using billed_ledger [OF assms(2,3)] assms(4) by simp
  moreover have "length (list_spend_ledger c db' t a) = length (list_spend_ledger c db t a)"
    using calculation by (rule mset_eq_length)
  moreover have "reserved_of c db' t a = reserved_of c db t a" "spent_of c db' t a = spent_of c db t a"
    unfolding reserved_of_billed [OF assms(2,3)] spent_of_billed [OF assms(2,3)] if_not_P [OF assms(4)]
    by (rule refl)+
  ultimately show ?thesis using assms(1,5,6) unfolding booked_def by simp
qed

text \<open>One operation: what it adds to the ledger balances what it does to the account.\<close>

lemma booked_step:
  assumes "booked c evs db pending t a" "billed c db db' x y es" "plain_account t a"
    and here: "t = ba_tenant_id x" "a = ba_account_id x"
    and "\<forall>e\<in>#es. good_entry e" "size es \<le> 2"
    and "held_total pending' t a = unat (ba_reserved_micros x)"
    and "unat (ba_reserved_micros x) \<le> reserved_of c db t a + max_estimate"
    and "unat (ba_spent_micros x) \<le> spent_of c db t a + max_estimate"
    and "(\<Sum>e\<in>#es. open_value e) =
       int (unat (ba_reserved_micros x)) - int (reserved_of c db t a) -
       (int (overrun (ev # evs) t a) - int (overrun evs t a))"
    and "(\<Sum>e\<in>#es. settle_value e) = int (unat (ba_spent_micros x)) - int (spent_of c db t a)"
  shows "booked c (ev # evs) db' pending' t a"
proof -
  note b = bookedD [OF assms(1)]
  have L: "mset (list_spend_ledger c db' t a) = es + mset (list_spend_ledger c db t a)"
    using billed_ledger [OF assms(2,3)] here by simp
  have "length (list_spend_ledger c db' t a) = size (mset (list_spend_ledger c db' t a))" by simp
  also have "\<dots> \<le> 2 + length (list_spend_ledger c db t a)" unfolding L using assms(7) by simp
  finally have len: "length (list_spend_ledger c db' t a) \<le> 2 * length (ev # evs)" using b(3) by simp
  have acc: "reserved_of c db' t a = unat (ba_reserved_micros x)" "spent_of c db' t a = unat (ba_spent_micros x)"
    using here reserved_of_billed [OF assms(2,3)] spent_of_billed [OF assms(2,3)] by simp_all
  have good: "\<forall>e\<in>#mset (list_spend_ledger c db' t a). good_entry e"
    unfolding L using b(2) assms(6) by auto
  have sums: "(\<Sum>e\<in>#mset (list_spend_ledger c db' t a). open_value e) =
        int (unat (ba_reserved_micros x)) - int (overrun (ev # evs) t a)"
      "(\<Sum>e\<in>#mset (list_spend_ledger c db' t a). settle_value e) = int (unat (ba_spent_micros x))"
    unfolding L using b(6,7) assms(11,12) by simp_all
  show ?thesis
    unfolding booked_def acc
    using len good sums assms(8-10) b(4,5) by (simp del: of_nat_unat)
qed

lemma sint_estimate:
  "sint (estimate_precharge_micros e n) = int (unat (estimate_precharge_micros e n))"
  using estimate_le [of e n] by (intro sint_small) simp

lemma uint_estimate_le: "uint (estimate_precharge_micros e n) \<le> 42949683450"
proof -
  have "int (unat (estimate_precharge_micros e n)) \<le> int max_estimate"
    using estimate_le [of e n] by (simp only: of_nat_le_iff)
  then show ?thesis by simp
qed

text \<open>The entries of a settlement: the cost, and the refund of what was reserved above it.\<close>

lemma settle_entries:
  assumes "sl_kind e = Spend_Settle" "sl_amount_micros e = cost"
    and es: "if cost < reserved
     then \<exists>f. es = {#f#} \<and> sl_kind f = Spend_Refund \<and> sl_amount_micros f = - saturating_sub reserved cost
     else es = {#}"
    and small: "unat cost \<le> max_estimate" "unat reserved \<le> max_estimate"
  shows "(\<forall>f\<in>#add_mset e es. good_entry f) \<and> size (add_mset e es) \<le> 2 \<and>
      (\<Sum>f\<in>#add_mset e es. open_value f) = - int (unat reserved) - int (unat cost - unat reserved) \<and>
      (\<Sum>f\<in>#add_mset e es. settle_value f) = int (unat cost)"
proof -
  have cost: "sint cost = int (unat cost)" using small(1) by (intro sint_small) simp
  have good: "good_entry e" "open_value e = - int (unat cost)" "settle_value e = int (unat cost)"
    using small(1) by (simp_all add: good_entry_def open_value_def settle_value_def assms(1,2) cost del: of_nat_unat)
  show ?thesis
  proof (cases "cost < reserved")
    case True
    then obtain f where f: "es = {#f#}" "sl_kind f = Spend_Refund"
        "sl_amount_micros f = - saturating_sub reserved cost"
      using es by auto
    have "sint (- saturating_sub reserved cost) = - int (unat reserved - unat cost)"
      using small(2) by (subst sint_minus_small) simp_all
    moreover have less: "unat cost < unat reserved" using True by (simp add: word_less_nat_alt)
    ultimately have "sint (sl_amount_micros f) = int (unat cost) - int (unat reserved)"
      by (simp add: f(3))
    then have "good_entry f" "open_value f = int (unat cost) - int (unat reserved)" "settle_value f = 0"
      using less small by (simp_all add: f(2) good_entry_def open_value_def settle_value_def del: of_nat_unat)
    then show ?thesis using less by (simp add: f(1) good del: of_nat_unat)
  next
    case False
    then have "es = {#}" "unat reserved \<le> unat cost"
      using es by (simp_all add: word_le_nat_alt not_less)
    then show ?thesis by (simp add: good del: of_nat_unat)
  qed
qed

lemma booked_run:
  assumes "billing_run k c evs db pending" "rk_budget_enforced k" "billing_codecs_ok c"
    "length evs \<le> 100000000" "plain_account t a" "unfailed evs t a" "small_costs evs t a"
  shows "booked c evs db pending t a"
  using assms
proof (induction)
  case new
  then show ?case by (simp add: booked_def reserved_of_def spent_of_def new_books)
next
  case (reserve evs db pending envelope tokens now db' r)
  then have IH: "booked c evs db pending t a" by simp
  have wf: "billing_ok c db" "own_ids c db"
    using billing_run_wf [OF reserve.hyps(1) reserve.prems(1,2)] by blast+
  obtain x y e where x: "x = account_of k c db envelope now"
      and r: "br_tenant_id r = tenant_of envelope" "br_account_id r = account_id_for envelope"
        "br_reserved_micros r = estimate_precharge_micros envelope tokens"
      and e: "sl_kind e = Spend_Reserve" "sl_amount_micros e = br_reserved_micros r"
      and billed: "billed c db db'
       (x\<lparr> ba_reserved_micros := saturating_add (ba_reserved_micros x) (br_reserved_micros r),
           ba_updated_at_ms := now \<rparr>) y {#e#}"
    using precharge_taken [OF reserve.hyps(3) wf reserve.hyps(2)] by metis
  have ids: "ba_tenant_id x = tenant_of envelope" "ba_account_id x = account_id_for envelope"
    using account_of_ids [OF wf(2) reserve.hyps(2)] by (simp_all add: x)
  show ?case
  proof (cases "t = tenant_of envelope \<and> a = account_id_for envelope")
    case False
    then show ?thesis
      by (intro booked_aside [OF IH billed reserve.prems(4)]) (auto simp: ids r of_account_def)
  next
    case True
    have sums: "unat (ba_reserved_micros x) = reserved_of c db t a" "unat (ba_spent_micros x) = spent_of c db t a"
      using True by (simp_all add: x account_of_sums)
    have add: "unat (saturating_add (ba_reserved_micros x) (br_reserved_micros r)) =
        reserved_of c db t a + unat (br_reserved_micros r)"
      using booked_small(1) [OF IH] reserve.prems(3) estimate_le [of envelope tokens]
      by (simp add: unat_saturating_add sums r)
    show ?thesis
    proof (rule booked_step [OF IH billed reserve.prems(4)])
      show "\<forall>e\<in>#{#e#}. good_entry e"
        using uint_estimate_le [of envelope tokens] by (simp add: good_entry_def e r sint_estimate)
    qed (use True add bookedD(1) [OF IH] estimate_le [of envelope tokens] in
        \<open>simp_all add: open_value_def settle_value_def e ids sums r sint_estimate of_account_def del: of_nat_unat\<close>)
  qed
next
  case (no_reserve evs db pending envelope tokens now db' err)
  then have IH: "booked c evs db pending t a" by simp
  have wf: "billing_ok c db" "own_ids c db"
    using billing_run_wf [OF no_reserve.hyps(1) no_reserve.prems(1,2)] by blast+
  let ?here = "t = tenant_of envelope \<and> a = account_id_for envelope"
  show ?case
  proof (cases ?here)
    case False
    have "db' = db \<or> (\<exists>x y es. billed c db db' x y es \<and> ba_tenant_id x = tenant_of envelope \<and>
        ba_account_id x = account_id_for envelope)"
      by (rule precharge_failed [OF no_reserve.hyps(3) wf no_reserve.hyps(2)])
        (use account_of_ids [OF wf(2) no_reserve.hyps(2)] in fastforce)+
    then show ?thesis
      using False booked_kept [OF IH] booked_aside [OF IH _ no_reserve.prems(4)] by fastforce
  next
    case True
    then have "precharge_budget k c db envelope tokens now = (db', Err ''budget precharge exceeded'')"
      using no_reserve.hyps(3) no_reserve.prems(5) by auto
    then obtain x y es where x: "x = account_of k c db envelope now"
        and es: "es = {#} \<or> (\<exists>e. es = {#e#} \<and> sl_kind e = Spend_Blocked \<and>
          sl_amount_micros e = estimate_precharge_micros envelope tokens)"
        and billed: "billed c db db'
         (x\<lparr> ba_blocked_count := saturating_add (ba_blocked_count x) 1, ba_updated_at_ms := now \<rparr>) y es"
      using precharge_refused [OF _ wf no_reserve.hyps(2)] by metis
    have ids: "ba_tenant_id x = tenant_of envelope" "ba_account_id x = account_id_for envelope"
      using account_of_ids [OF wf(2) no_reserve.hyps(2)] by (simp_all add: x)
    have sums: "unat (ba_reserved_micros x) = reserved_of c db t a" "unat (ba_spent_micros x) = spent_of c db t a"
      using True by (simp_all add: x account_of_sums)
    show ?thesis
      by (rule booked_step [OF IH billed no_reserve.prems(4)])
        (use True es bookedD(1) [OF IH] uint_estimate_le [of envelope tokens] in
          \<open>auto simp: ids sums good_entry_def open_value_def settle_value_def sint_estimate\<close>)
  qed
next
  case (settle evs db r pending envelope tokens calls duration now db' b)
  let ?cost = "cb_total_cost_micros (cost_breakdown tokens calls duration)"
  have IH: "booked c evs db (add_mset r pending) t a" using settle by simp
  have wf: "billing_ok c db" "own_ids c db" "plain_account (br_tenant_id r) (br_account_id r)"
      "unat (br_reserved_micros r) \<le> max_estimate"
    using billing_run_wf [OF settle.hyps(1) settle.prems(1,2)] by (simp_all add: pending_ok_def)
  show ?case
  proof (cases "of_account t a r")
    case False
    have "db' = db \<or> (\<exists>x y es. billed c db db' x y es \<and> ba_tenant_id x = br_tenant_id r \<and>
        ba_account_id x = br_account_id r)"
      by (rule settle_any [OF settle.hyps(2) settle.prems(1) wf(1-3)])
        (use own_idsD(1) [OF wf(2,3)] in fastforce)+
    then show ?thesis
      using False booked_kept [OF IH] booked_aside [OF IH _ settle.prems(4)]
      by (fastforce simp: of_account_def)
  next
    case True
    then obtain b' where b': "b = Inr b'" using settle.prems(5) by (cases b) auto
    have cost: "unat ?cost \<le> max_estimate" using settle.prems(6) True by simp
    have at: "br_tenant_id r = t" "br_account_id r = a" using True by (simp_all add: of_account_def)
    obtain x y e es where found: "get_budget_account c db t a = Some x"
      and e: "sl_kind e = Spend_Settle" "sl_amount_micros e = ?cost"
      and es: "if ?cost < br_reserved_micros r
       then \<exists>f. es = {#f#} \<and> sl_kind f = Spend_Refund \<and>
         sl_amount_micros f = - saturating_sub (br_reserved_micros r) ?cost
       else es = {#}"
      and billed: "billed c db db'
         (x\<lparr> ba_reserved_micros := saturating_sub (ba_reserved_micros x) (br_reserved_micros r),
             ba_spent_micros := saturating_add (ba_spent_micros x) ?cost,
             ba_updated_at_ms := now \<rparr>) y (add_mset e es)"
      using settle_effect [OF settle.hyps(2) [unfolded b'] settle.prems(1) wf(1-3)] unfolding at by metis
    have ids: "ba_tenant_id x = t" "ba_account_id x = a"
      using own_idsD(1) [OF wf(2) settle.prems(4) found] by simp_all
    have sums: "unat (ba_reserved_micros x) = reserved_of c db t a" "unat (ba_spent_micros x) = spent_of c db t a"
      using found by (simp_all add: reserved_of_def spent_of_def)
    have mine: "reserved_of c db t a = unat (br_reserved_micros r) + held_total pending t a"
      using bookedD(1) [OF IH] True by simp
    have add: "unat (saturating_add (ba_spent_micros x) ?cost) = spent_of c db t a + unat ?cost"
      using booked_small(2) [OF IH] settle.prems(3) cost by (simp add: unat_saturating_add sums)
    note entries = settle_entries [OF e es cost wf(4)]
    show ?thesis
    proof (rule booked_step [OF IH billed settle.prems(4)])
      show "\<forall>f\<in>#add_mset e es. good_entry f" "size (add_mset e es) \<le> 2" using entries by blast+
      have "(\<Sum>f\<in>#add_mset e es. open_value f) =
          - int (unat (br_reserved_micros r)) - int (unat ?cost - unat (br_reserved_micros r))"
        "(\<Sum>f\<in>#add_mset e es. settle_value f) = int (unat ?cost)"
        using entries by blast+
      then show "(\<Sum>f\<in>#add_mset e es. open_value f) =
          int (unat (ba_reserved_micros (x\<lparr> ba_reserved_micros := saturating_sub (ba_reserved_micros x)
             (br_reserved_micros r), ba_spent_micros := saturating_add (ba_spent_micros x) ?cost,
             ba_updated_at_ms := now \<rparr>))) - int (reserved_of c db t a) -
          (int (overrun (Settled r ?cost b # evs) t a) - int (overrun evs t a))"
        "(\<Sum>f\<in>#add_mset e es. settle_value f) =
          int (unat (ba_spent_micros (x\<lparr> ba_reserved_micros := saturating_sub (ba_reserved_micros x)
             (br_reserved_micros r), ba_spent_micros := saturating_add (ba_spent_micros x) ?cost,
             ba_updated_at_ms := now \<rparr>))) - int (spent_of c db t a)"
        using mine add True by (simp_all add: sums del: of_nat_unat)
    qed (use mine add cost in \<open>simp_all add: ids sums\<close>)
  qed
next
  case (roll_back evs db r pending envelope reason now db' u)
  have IH: "booked c evs db (add_mset r pending) t a" using roll_back by simp
  have wf: "billing_ok c db" "own_ids c db" "plain_account (br_tenant_id r) (br_account_id r)"
      "unat (br_reserved_micros r) \<le> max_estimate"
    using billing_run_wf [OF roll_back.hyps(1) roll_back.prems(1,2)] by (simp_all add: pending_ok_def)
  show ?case
  proof (cases "of_account t a r")
    case False
    have "db' = db \<or> (\<exists>x y es. billed c db db' x y es \<and> ba_tenant_id x = br_tenant_id r \<and>
        ba_account_id x = br_account_id r)"
      by (rule rollback_any [OF roll_back.hyps(2) roll_back.prems(1) wf(1-3)])
        (use own_idsD(1) [OF wf(2,3)] in fastforce)+
    then show ?thesis
      using False booked_kept [OF IH] booked_aside [OF IH _ roll_back.prems(4)]
      by (fastforce simp: of_account_def)
  next
    case True
    then obtain u' where u': "u = Inr u'" using roll_back.prems(5) by (cases u) auto
    have at: "br_tenant_id r = t" "br_account_id r = a" using True by (simp_all add: of_account_def)
    obtain x y e where found: "get_budget_account c db t a = Some x"
      and e: "sl_kind e = Spend_Refund" "sl_amount_micros e = - br_reserved_micros r"
      and billed: "billed c db db'
         (x\<lparr> ba_reserved_micros := saturating_sub (ba_reserved_micros x) (br_reserved_micros r),
             ba_updated_at_ms := now \<rparr>) y {#e#}"
      using rollback_effect [OF roll_back.hyps(2) [unfolded u'] roll_back.prems(1) wf(1-3)] unfolding at by metis
    have ids: "ba_tenant_id x = t" "ba_account_id x = a"
      using own_idsD(1) [OF wf(2) roll_back.prems(4) found] by simp_all
    have sums: "unat (ba_reserved_micros x) = reserved_of c db t a" "unat (ba_spent_micros x) = spent_of c db t a"
      using found by (simp_all add: reserved_of_def spent_of_def)
    have mine: "reserved_of c db t a = unat (br_reserved_micros r) + held_total pending t a"
      using bookedD(1) [OF IH] True by simp
    have refund: "sint (- br_reserved_micros r) = - int (unat (br_reserved_micros r))"
      using wf(4) by (intro sint_minus_small) simp
    show ?thesis
      by (rule booked_step [OF IH billed roll_back.prems(4)])
        (use mine wf(4) in \<open>auto simp: ids sums e good_entry_def open_value_def settle_value_def refund simp del: of_nat_unat\<close>)
  qed
qed

lemma sint_inject:
  assumes "sint a = sint (b :: 64 word)"
  shows "a = b"
proof -
  have "word_of_int (sint a) = (word_of_int (sint b) :: 64 word)" by (simp only: assms)
  then show ?thesis by simp
qed

lemma reconcile_booked:
  assumes "booked c evs db pending t a" "length evs \<le> 100000000"
    and "get_budget_account c db t a = Some x"
  shows "\<exists>rep. reconcile_budget_account c db t a = Inr rep \<and>
    (rp_consistent rep \<longleftrightarrow> overrun evs t a = 0) \<and>
    unat (rp_ledger_settled_micros rep) = spent_of c db t a \<and>
    sint (rp_ledger_reserved_open_micros rep) = int (held_total pending t a) - int (overrun evs t a)"
proof -
  note b = bookedD [OF assms(1)]
  have x: "unat (ba_reserved_micros x) = reserved_of c db t a" "unat (ba_spent_micros x) = spent_of c db t a"
    using assms(3) by (simp_all add: reserved_of_def spent_of_def)
  have settled: "ledger_settled (list_spend_ledger c db t a) = ba_spent_micros x"
    unfolding ledger_settled_sum b(7) x(2) [symmetric] by simp
  have "length (list_spend_ledger c db t a) \<le> 200000000" using b(3) assms(2) by simp
  then have reserved: "sint (ledger_reserved_open (list_spend_ledger c db t a)) =
      int (reserved_of c db t a) - int (overrun evs t a)"
    using sint_reserved_open b(2,6) by metis
  moreover have "sint (ba_reserved_micros x) = int (reserved_of c db t a)"
    using booked_small(1) [OF assms(1,2)] x(1) by (subst sint_small) simp_all
  ultimately have "ledger_reserved_open (list_spend_ledger c db t a) = ba_reserved_micros x \<longleftrightarrow>
      overrun evs t a = 0"
    using sint_inject by fastforce
  then show ?thesis
    using settled reserved b(1) x
    by (simp add: reconcile_budget_account_def assms(3) Let_def)
qed

text \<open>
  A settlement above its reservation breaks the reconciliation for good: the ledger takes the whole
  cost off the open reservations, the account only what was reserved.
\<close>

lemma settle_above_reservation:
  assumes "booked c (Settled r cost b # evs) db pending (br_tenant_id r) (br_account_id r)"
    "length evs < 100000000" "br_reserved_micros r < cost"
    "get_budget_account c db (br_tenant_id r) (br_account_id r) = Some x"
  shows "\<exists>rep. reconcile_budget_account c db (br_tenant_id r) (br_account_id r) = Inr rep \<and>
    \<not> rp_consistent rep"
proof -
  have "0 < overrun (Settled r cost b # evs) (br_tenant_id r) (br_account_id r)"
    using assms(3) by (simp add: of_account_def word_less_nat_alt)
  then show ?thesis using reconcile_booked [OF assms(1) _ assms(4)] assms(2) by fastforce
qed

section \<open>The promises\<close>

text \<open>
  C33: An account spends more than its budget only by its overruns. While the rollout gate is not in
  shadow mode, after any sequence of precharges, settlements and rollbacks of any tasks of any
  accounts, each of which may succeed, be refused or fail, and of settlements of any cost, what an
  account has spent and reserved together is at most its total plus its overruns, the excess of the
  costs it was settled with above what had been reserved for them; its open reservations are within
  what it has reserved, and are all of it when no operation failed on the account; and no quota
  window has given out more than its budget plus the overruns. Identities have no colons and a
  reservation is settled or rolled back once.
\<close>

theorem overspending_is_bounded_by_overruns:
  assumes "billing_run k c evs db pending" "rk_budget_enforced k" "billing_codecs_ok c"
    "rk_gate_mode k \<noteq> Gate_Shadow" "plain_account t a"
  shows "(case get_budget_account c db t a of
            None \<Rightarrow> held_total pending t a = 0
          | Some x \<Rightarrow>
              unat (ba_spent_micros x) + unat (ba_reserved_micros x) \<le>
                unat (ba_total_budget_micros x) + overrun evs t a \<and>
              held_total pending t a \<le> unat (ba_reserved_micros x) \<and>
              (unfailed evs t a \<longrightarrow> unat (ba_reserved_micros x) = held_total pending t a)) \<and>
         (case get_quota_window c db t a w of
            None \<Rightarrow> held_in k pending t a w = 0
          | Some y \<Rightarrow> held_in k pending t a w \<le> unat (qw_consumed_micros y) \<and>
              unat (qw_consumed_micros y) \<le> unat (qw_window_budget_micros y) + overrun evs t a)"
proof -
  have run: "backed k c evs db pending" "within_budget c evs db"
    using budget_run [OF assms(1-4)] by blast+
  then show ?thesis
    using backedD(1,2) [OF run(1) assms(5)] backedD(3) [OF run(1) assms(5), of w] assms(5)
    by (auto simp: within_budget_def reserved_of_def consumed_of_def split: option.split)
qed

text \<open>
  C34: The books reconcile exactly when nothing was overrun. After at most a hundred million billing
  operations in any gate mode, for every opened account on which no operation failed with an error
  other than a refusal and no settlement cost more than the largest estimate of 42949683450 micros,
  the reconciliation succeeds; it reports the account consistent exactly when the account has no
  overrun; the ledger's settled sum is what the account has spent, and the ledger's open amount is
  the sum of its open reservations less its overruns, with no wrap-around in either sum. Other
  accounts may fail and overrun as they like.
\<close>

theorem billing_reconciles:
  assumes "billing_run k c evs db pending" "rk_budget_enforced k" "billing_codecs_ok c"
    "length evs \<le> 100000000" "plain_account t a" "unfailed evs t a" "small_costs evs t a"
    "get_budget_account c db t a \<noteq> None"
  shows "\<exists>rep. reconcile_budget_account c db t a = Inr rep \<and>
    (rp_consistent rep \<longleftrightarrow> overrun evs t a = 0) \<and>
    unat (rp_ledger_settled_micros rep) = spent_of c db t a \<and>
    sint (rp_ledger_reserved_open_micros rep) = int (held_total pending t a) - int (overrun evs t a)"
  using reconcile_booked [OF booked_run [OF assms(1-7)] assms(4)] assms(8) by blast

text \<open>
  C40: A refused reservation costs nothing. When the precharge answers that the budget is exceeded,
  every account has reserved and spent, and every window has consumed, what it had before, and the
  entries it may have left in the ledgers are marks of a block, which the reconciliation ignores.
\<close>

theorem refused_precharge_is_free:
  assumes "precharge_budget k c db envelope tokens now = (db', Err ''budget precharge exceeded'')"
    and "billing_ok c db" "own_ids c db" "plain_envelope envelope" "plain_account t a"
  shows "reserved_of c db' t a = reserved_of c db t a \<and> spent_of c db' t a = spent_of c db t a \<and>
    consumed_of c db' t a w = consumed_of c db t a w \<and>
    mset (filter (\<lambda>e. sl_kind e \<noteq> Spend_Blocked) (list_spend_ledger c db' t a)) =
      mset (filter (\<lambda>e. sl_kind e \<noteq> Spend_Blocked) (list_spend_ledger c db t a))"
proof -
  obtain v b x y es where
      xy: "x = account_of k c db envelope now" "y = window_of_account k c db envelope v b now"
      and es: "es = {#} \<or> (\<exists>e. es = {#e#} \<and> sl_kind e = Spend_Blocked \<and>
        sl_amount_micros e = estimate_precharge_micros envelope tokens)"
      and billed: "billed c db db'
       (x\<lparr> ba_blocked_count := saturating_add (ba_blocked_count x) 1, ba_updated_at_ms := now \<rparr>)
       (y\<lparr> qw_blocked_count := saturating_add (qw_blocked_count y) 1, qw_updated_at_ms := now \<rparr>) es"
    using precharge_refused [OF assms(1-4)] by metis
  have ids: "ba_tenant_id x = tenant_of envelope" "ba_account_id x = account_id_for envelope"
      "qw_tenant_id y = tenant_of envelope" "qw_account_id y = account_id_for envelope" "qw_window_id y = v"
    using account_of_ids [OF assms(3,4)] window_of_ids [OF assms(3,4)] by (simp_all add: xy)
  have sums: "unat (ba_reserved_micros x) = reserved_of c db (tenant_of envelope) (account_id_for envelope)"
      "unat (ba_spent_micros x) = spent_of c db (tenant_of envelope) (account_id_for envelope)"
      "unat (qw_consumed_micros y) = consumed_of c db (tenant_of envelope) (account_id_for envelope) v"
    by (simp_all add: xy account_of_sums window_of_sums)
  have "filter_mset (\<lambda>e. sl_kind e \<noteq> Spend_Blocked) (mset (list_spend_ledger c db' t a)) =
      filter_mset (\<lambda>e. sl_kind e \<noteq> Spend_Blocked) (mset (list_spend_ledger c db t a))"
    unfolding billed_ledger [OF billed assms(5)] using es by auto
  then show ?thesis
    by (simp add: reserved_of_billed [OF billed assms(5)] spent_of_billed [OF billed assms(5)]
          consumed_of_billed [OF billed assms(5)] ids sums)
qed

section \<open>The promises at a first reservation\<close>

lemma sample_new_table: "billing_ok sample_codecs new_table" "own_ids sample_codecs new_table"
  by (simp_all add: billing_ok_def table_ok_new own_ids_def new_books)

lemma sample_plain: "plain_envelope sample_envelope" "plain_account ''t'' ''t:p:q''"
  by (simp_all add: plain_envelope_def plain_account_def sample_envelope_def)

lemma show_two: "show_nat 2 = ''2''"
  by code_simp

lemma sample_window: "window_id_for sample_kernel 120000 = Inr ''2''"
    "window_bounds sample_kernel 120000 = Inr (120000, 180000)"
  by (simp_all add: window_id_for_def window_bounds_def sample_kernel_def Let_def saturating_add_def
        show_word_def show_two)

lemma sample_estimate: "estimate_precharge_micros sample_envelope 5 = 2550"
  by (intro word_unat_eq_iff [THEN iffD2])
     (simp add: unat_estimate tool_charge_def sample_envelope_def)

lemma sample_ids: "tenant_of sample_envelope = ''t''" "account_id_for sample_envelope = ''t:p:q''"
  by (simp_all add: sample_envelope_def account_id_for_def Let_def)

lemma sample_reservation:
  obtains db r where
    "precharge_budget sample_kernel sample_codecs new_table sample_envelope 5 120000 = (db, Inr (Some r))"
    "br_reserved_micros r = 2550" "br_tenant_id r = ''t''" "br_account_id r = ''t:p:q''"
    "billing_run sample_kernel sample_codecs [Precharged sample_envelope (Inr (Some r))] db {#r#}"
proof -
  have "\<exists>db r. precharge_budget sample_kernel sample_codecs new_table sample_envelope 5 120000 = (db, Inr (Some r)) \<and>
      br_reserved_micros r = estimate_precharge_micros sample_envelope 5 \<and>
      br_tenant_id r = tenant_of sample_envelope \<and> br_account_id r = account_id_for sample_envelope"
    by (rule precharge_succeeds [OF _ sample_window sample_new_table sample_plain(1)])
      (simp_all add: sample_estimate account_of_def window_of_account_def new_books account_remaining_def
        window_remaining_def word_le_nat_alt unat_saturating_add Let_def,
       simp_all add: sample_kernel_def)
  then obtain db r where
      r: "precharge_budget sample_kernel sample_codecs new_table sample_envelope 5 120000 = (db, Inr (Some r))"
        "br_reserved_micros r = 2550" "br_tenant_id r = ''t''" "br_account_id r = ''t:p:q''"
    by (auto simp: sample_estimate sample_ids)
  then have "billing_run sample_kernel sample_codecs [Precharged sample_envelope (Inr (Some r))] db {#r#}"
    using billing_run.reserve [OF billing_run.new sample_plain(1) r(1)] by simp
  then show thesis by (rule that [OF r])
qed

text \<open>The reservation settled after a million milliseconds, whatever the settlement answers.\<close>

lemma sample_cost: "cb_total_cost_micros (cost_breakdown 0 1 1000000) = 2000500"
  by (simp add: cost_breakdown_def saturating_mul_def saturating_add_def Let_def)

lemma sample_kernel_settings [simp]:
  "rk_budget_enforced sample_kernel" "rk_gate_mode sample_kernel = Gate_Full"
  by (simp_all add: sample_kernel_def)

text \<open>
  A first reservation of 2550 micros, its settlement at 2000500 micros, and what the properties say
  of the books.
\<close>

theorem overspending_is_bounded_by_overruns_witness:
  "\<exists>db r db' b. precharge_budget sample_kernel sample_codecs new_table sample_envelope 5 120000 = (db, Inr (Some r)) \<and>
     settle_budget sample_kernel sample_codecs db sample_envelope r 0 1 1000000 1120000 = (db', b) \<and>
     (case get_budget_account sample_codecs db ''t'' ''t:p:q'' of
        None \<Rightarrow> False
      | Some x \<Rightarrow>
          unat (ba_spent_micros x) + unat (ba_reserved_micros x) \<le> unat (ba_total_budget_micros x) \<and>
          unat (ba_reserved_micros x) = 2550) \<and>
     (case get_budget_account sample_codecs db' ''t'' ''t:p:q'' of
        None \<Rightarrow> True
      | Some x \<Rightarrow>
          unat (ba_spent_micros x) + unat (ba_reserved_micros x) \<le> unat (ba_total_budget_micros x) + 1997950)"
proof -
  obtain db r where r: "br_reserved_micros r = 2550" "br_tenant_id r = ''t''" "br_account_id r = ''t:p:q''"
      "precharge_budget sample_kernel sample_codecs new_table sample_envelope 5 120000 = (db, Inr (Some r))"
      "billing_run sample_kernel sample_codecs [Precharged sample_envelope (Inr (Some r))] db {#r#}"
    using sample_reservation by metis
  obtain db' b where s: "settle_budget sample_kernel sample_codecs db sample_envelope r 0 1 1000000 1120000 = (db', b)"
    by (metis prod.exhaust)
  have run: "billing_run sample_kernel sample_codecs
      [Settled r 2000500 b, Precharged sample_envelope (Inr (Some r))] db' {#}"
    using billing_run.settle [OF r(5) s] by (simp add: sample_cost)
  have mine: "of_account ''t'' ''t:p:q'' r" by (simp add: r of_account_def)
  show ?thesis
    using overspending_is_bounded_by_overruns [OF r(5) _ sample_codecs_ok(1) _ sample_plain(2), of "''2''"]
      overspending_is_bounded_by_overruns [OF run _ sample_codecs_ok(1) _ sample_plain(2), of "''2''"] r(1,4) s mine
    by (auto split: option.splits)
qed

theorem billing_reconciles_witness:
  "\<exists>db r rep. precharge_budget sample_kernel sample_codecs new_table sample_envelope 5 120000 = (db, Inr (Some r)) \<and>
     reconcile_budget_account sample_codecs db ''t'' ''t:p:q'' = Inr rep \<and> rp_consistent rep \<and>
     sint (rp_ledger_reserved_open_micros rep) = 2550"
proof -
  obtain db r where r: "br_reserved_micros r = 2550" "br_tenant_id r = ''t''" "br_account_id r = ''t:p:q''"
      "precharge_budget sample_kernel sample_codecs new_table sample_envelope 5 120000 = (db, Inr (Some r))"
      "billing_run sample_kernel sample_codecs [Precharged sample_envelope (Inr (Some r))] db {#r#}"
    using sample_reservation by metis
  have held_total: "held_total {#r#} ''t'' ''t:p:q'' = 2550" by (simp add: r of_account_def)
  then have "reserved_of sample_codecs db ''t'' ''t:p:q'' = 2550"
    using backedD(2) [OF _ sample_plain(2)] budget_run [OF r(5) _ sample_codecs_ok(1)] by fastforce
  then have "get_budget_account sample_codecs db ''t'' ''t:p:q'' \<noteq> None"
    by (auto simp: reserved_of_def split: option.splits)
  then show ?thesis
    using billing_reconciles [OF r(5) _ sample_codecs_ok(1) _ sample_plain(2)] held_total r(4) by fastforce
qed

text \<open>A budget of 2000 micros refuses the same task.\<close>

definition poor_kernel :: RuntimeKernel where
  "poor_kernel = sample_kernel\<lparr> rk_default_budget_micros := 2000 \<rparr>"

lemma sample_refusal:
  obtains db where
    "precharge_budget poor_kernel sample_codecs new_table sample_envelope 5 120000 =
       (db, Err ''budget precharge exceeded'')"
proof -
  define x where "x = account_of poor_kernel sample_codecs new_table sample_envelope 120000"
  define y where "y = window_of_account poor_kernel sample_codecs new_table sample_envelope ''2'' (120000, 180000) 120000"
  have "window_id_for poor_kernel = window_id_for sample_kernel"
      "window_bounds poor_kernel = window_bounds sample_kernel"
    by (simp_all add: fun_eq_iff window_id_for_def window_bounds_def poor_kernel_def)
  then have win: "window_id_for poor_kernel 120000 = Inr ''2''"
      "window_bounds poor_kernel 120000 = Inr (120000, 180000)"
    using sample_window by simp_all
  have "account_remaining x < 2550"
    by (simp add: x_def account_of_def new_books account_remaining_def word_less_nat_alt
          unat_saturating_add Let_def poor_kernel_def)
  then have "precharge_budget poor_kernel sample_codecs new_table sample_envelope 5 120000 =
      block_precharge sample_codecs new_table sample_envelope 5 120000 x y"
    by (simp add: precharge_budget_def win sample_estimate x_def y_def) (simp add: poor_kernel_def)
  moreover have "ba_tenant_id x = tenant_of sample_envelope" "ba_account_id x = account_id_for sample_envelope"
      "qw_tenant_id y = tenant_of sample_envelope" "qw_account_id y = account_id_for sample_envelope"
    using account_of_ids [OF sample_new_table(2) sample_plain(1)]
      window_of_ids [OF sample_new_table(2) sample_plain(1)] by (simp_all add: x_def y_def)
  then obtain db where "post_books sample_codecs new_table
      (x\<lparr> ba_blocked_count := saturating_add (ba_blocked_count x) 1, ba_updated_at_ms := 120000 \<rparr>)
      (y\<lparr> qw_blocked_count := saturating_add (qw_blocked_count y) 1, qw_updated_at_ms := 120000 \<rparr>) = (db, Ok ())"
    using post_books_billed [OF sample_new_table(1),
        of "x\<lparr> ba_blocked_count := saturating_add (ba_blocked_count x) 1, ba_updated_at_ms := 120000 \<rparr>"
           "y\<lparr> qw_blocked_count := saturating_add (qw_blocked_count y) 1, qw_updated_at_ms := 120000 \<rparr>"]
      plain_envelope_account [OF sample_plain(1)] by auto
  then have "snd (block_precharge sample_codecs new_table sample_envelope 5 120000 x y) =
      Err ''budget precharge exceeded''"
    by (simp add: block_precharge_def)
  ultimately show thesis using that by (metis prod.collapse)
qed

theorem refused_precharge_is_free_witness:
  "\<exists>db. precharge_budget poor_kernel sample_codecs new_table sample_envelope 5 120000 =
          (db, Err ''budget precharge exceeded'') \<and>
        reserved_of sample_codecs db ''t'' ''t:p:q'' = 0"
proof -
  obtain db where db: "precharge_budget poor_kernel sample_codecs new_table sample_envelope 5 120000 =
      (db, Err ''budget precharge exceeded'')"
    by (rule sample_refusal)
  have "reserved_of sample_codecs new_table ''t'' ''t:p:q'' = 0" by (simp add: reserved_of_def new_books)
  then show ?thesis
    using refused_precharge_is_free [OF db sample_new_table sample_plain] db by auto
qed

end
