(* ===== verification/Circuit.thy ===== *)
theory Circuit
  imports Workflow Listing Runtime_Kernel Sample_Codec
begin

text \<open>
  The circuit breaker of \<^verbatim>\<open>src/runtime/mod.rs\<close>: one state per tool and one per MCP server in the
  knowledge table, moved by the outcome of every execution that the guard allowed. serde_json at
  \<open>CircuitState\<close> is a codec; each reading of the clock is an argument.
\<close>

section \<open>The breaker\<close>

datatype CircuitPhase = Phase_Closed | Phase_Open | Phase_HalfOpen

record CircuitState =
  cs_scope_key :: string
  cs_failure_count :: "32 word"
  cs_success_count :: "32 word"
  cs_phase :: CircuitPhase
  cs_opened_at_ms :: "64 word option"
  cs_last_failure_ms :: "64 word option"
  cs_last_success_ms :: "64 word option"
  cs_cooldown_ms :: "64 word"
  cs_threshold :: "32 word"
  cs_last_reason :: "string option"

definition default_circuit_state :: "RuntimeKernel \<Rightarrow> string \<Rightarrow> bool \<Rightarrow> CircuitState" where
  "default_circuit_state k scope_key is_mcp =
     \<lparr> cs_scope_key = scope_key, cs_failure_count = 0, cs_success_count = 0, cs_phase = Phase_Closed,
       cs_opened_at_ms = None, cs_last_failure_ms = None, cs_last_success_ms = None,
       cs_cooldown_ms = (if is_mcp then mp_mcp_breaker_cooldown_ms (rk_mcp k)
                         else mp_tool_breaker_cooldown_ms (rk_mcp k)),
       cs_threshold = (if is_mcp then mp_mcp_breaker_failure_threshold (rk_mcp k)
                       else mp_tool_breaker_failure_threshold (rk_mcp k)),
       cs_last_reason = None \<rparr>"

definition transition_circuit_state :: "CircuitState \<Rightarrow> bool \<Rightarrow> 64 word \<Rightarrow> string \<Rightarrow> CircuitState" where
  "transition_circuit_state state succeeded now_ms reason =
     (if succeeded then
        state\<lparr> cs_success_count := saturating_add (cs_success_count state) 1, cs_failure_count := 0,
               cs_phase := Phase_Closed, cs_last_success_ms := Some now_ms, cs_opened_at_ms := None,
               cs_last_reason := Some ''execution succeeded and circuit closed'' \<rparr>
      else
        let state = state\<lparr> cs_failure_count := saturating_add (cs_failure_count state) 1,
                           cs_last_failure_ms := Some now_ms, cs_last_reason := Some reason \<rparr>
        in if cs_threshold state \<le> cs_failure_count state
           then state\<lparr> cs_phase := Phase_Open, cs_opened_at_ms := Some now_ms \<rparr>
           else if cs_phase state = Phase_HalfOpen
           then state\<lparr> cs_phase := Phase_Open, cs_opened_at_ms := Some now_ms \<rparr>
           else state)"

definition circuit_block_reason :: "CircuitState \<Rightarrow> 64 word \<Rightarrow> string option" where
  "circuit_block_reason state now_ms =
     (case cs_phase state of
        Phase_Closed \<Rightarrow> None
      | Phase_HalfOpen \<Rightarrow> None
      | Phase_Open \<Rightarrow>
         (let opened_at = (case cs_opened_at_ms state of Some t \<Rightarrow> t | None \<Rightarrow> now_ms)
          in if cs_cooldown_ms state \<le> saturating_sub now_ms opened_at then None
             else Some (''cooldown active for '' @
               show_word (saturating_sub (cs_cooldown_ms state) (saturating_sub now_ms opened_at)) @
               '' ms (failures: '' @ show_word (cs_failure_count state) @ '')'')))"

text \<open>An open circuit whose cooldown is over reads as half-open.\<close>

definition cool_down :: "CircuitState \<Rightarrow> 64 word \<Rightarrow> CircuitState" where
  "cool_down state now_ms =
     (case (cs_phase state, cs_opened_at_ms state) of
        (Phase_Open, Some opened_at) \<Rightarrow>
          if cs_cooldown_ms state \<le> saturating_sub now_ms opened_at
          then state\<lparr> cs_phase := Phase_HalfOpen \<rparr> else state
      | _ \<Rightarrow> state)"

definition load_circuit_state ::
    "CircuitState codec \<Rightarrow> KnowledgeTable \<Rightarrow> string \<Rightarrow> 64 word \<Rightarrow> CircuitState option" where
  "load_circuit_state c db key now_ms =
     map_option (\<lambda>state. cool_down state now_ms) (fallback_kv_get c db key)"

definition persist_circuit_state ::
    "CircuitState codec \<Rightarrow> KnowledgeTable \<Rightarrow> CircuitState \<Rightarrow> KnowledgeTable \<times> unit result" where
  "persist_circuit_state c db state =
     then_do (upsert_knowledge db (cs_scope_key state) (fst c state) ''runtime-circuit'')
       (\<lambda>db _. (db, Ok ()))"

definition tool_circuit_key :: "string \<Rightarrow> string" where
  "tool_circuit_key tool_name = ''metrics:circuit:tool:'' @ tool_name"

definition server_circuit_key :: "string \<Rightarrow> string" where
  "server_circuit_key server_name = ''metrics:circuit:server:'' @ server_name"

definition server_name_for :: "string \<Rightarrow> ForgedMcpToolManifest option \<Rightarrow> string option" where
  "server_name_for tool_name manifest =
     (case manifest of
        Some m \<Rightarrow> Some (mf_server m)
      | None \<Rightarrow> (case split_str ''::'' tool_name of
                   x # server # _ \<Rightarrow> if x = ''mcp'' then Some server else None
                 | _ \<Rightarrow> None))"

definition circuit_snapshot :: "CircuitState codec \<Rightarrow> KnowledgeTable \<Rightarrow> string \<rightharpoonup> CircuitState" where
  "circuit_snapshot c db =
     foldl (\<lambda>m r. case decode_record c r of None \<Rightarrow> m | Some state \<Rightarrow> m(kr_key r \<mapsto> state)) Map.empty
       (list_knowledge_by_prefix db ''metrics:circuit:'')"

section \<open>Recording an outcome\<close>

definition outcome_succeeded :: "ExecutionReport \<Rightarrow> bool" where
  "outcome_succeeded report \<longleftrightarrow>
     0 < sint (er_outcome_score report) \<and>
     \<not> contains (to_ascii_lowercase (er_output report)) ''failed'' \<and>
     \<not> contains (to_ascii_lowercase (er_output report)) ''blocked''"

definition record_scope ::
    "RuntimeKernel \<Rightarrow> CircuitState codec \<Rightarrow> KnowledgeTable \<Rightarrow> string \<Rightarrow> bool \<Rightarrow> bool \<Rightarrow> 64 word \<Rightarrow>
     64 word \<Rightarrow> string \<Rightarrow> KnowledgeTable \<times> CircuitState result" where
  "record_scope k c db key is_mcp succeeded now_ms load_ms output =
     (let state = (case load_circuit_state c db key load_ms of
                     Some state \<Rightarrow> state | None \<Rightarrow> default_circuit_state k key is_mcp);
          updated = transition_circuit_state state succeeded now_ms output
      in then_do (persist_circuit_state c db updated) (\<lambda>db _. (db, Ok updated)))"

definition scope_server :: "ExecutionReport \<Rightarrow> string \<Rightarrow> string option" where
  "scope_server report tool_name =
     (case er_mcp_server report of Some s \<Rightarrow> Some s | None \<Rightarrow> server_name_for tool_name None)"

definition record_execution_outcome ::
    "RuntimeKernel \<Rightarrow> CircuitState codec \<Rightarrow> KnowledgeTable \<Rightarrow> ExecutionReport \<Rightarrow>
     64 word \<Rightarrow> 64 word \<Rightarrow> 64 word \<Rightarrow> KnowledgeTable \<times> CircuitState list result" where
  "record_execution_outcome k c db report now_ms tool_ms server_ms =
     (case er_tool_used report of
        None \<Rightarrow> (db, Ok [])
      | Some tool_name \<Rightarrow>
         (if \<not> eq_ignore_ascii_case (er_guard_decision report) ''allow'' then (db, Ok [])
          else let succeeded = outcome_succeeded report
          in then_do (record_scope k c db (tool_circuit_key tool_name) False succeeded now_ms tool_ms
                        (er_output report)) (\<lambda>db tool_state.
             (case scope_server report tool_name of
                None \<Rightarrow> (db, Ok [tool_state])
              | Some server_name \<Rightarrow>
                  then_do (record_scope k c db (server_circuit_key server_name) True succeeded now_ms
                             server_ms (er_output report)) (\<lambda>db server_state.
                  (db, Ok [tool_state, server_state]))))))"

section \<open>The breaker as its history\<close>

text \<open>
  What a scope's state should be after a history of outcomes (success, time, output), oldest first:
  open exactly when the last \<open>threshold\<close> outcomes failed, since the last of them.
\<close>

type_synonym outcome = "bool \<times> 64 word \<times> string"

definition trailing_failures :: "outcome list \<Rightarrow> nat" where
  "trailing_failures h = length (takeWhile (\<lambda>x. \<not> fst x) (rev h))"

definition last_where :: "bool \<Rightarrow> outcome list \<Rightarrow> 64 word option" where
  "last_where b h = map_option (\<lambda>x. fst (snd x)) (find (\<lambda>x. fst x = b) (rev h))"

text \<open>A count that stops at the largest \<^verbatim>\<open>u32\<close>.\<close>

definition count32 :: "nat \<Rightarrow> 32 word" where
  "count32 n = word_of_nat (min n (2 ^ 32 - 1))"

lemma unat_count32: "unat (count32 n) = min n (2 ^ 32 - 1)"
  by (simp add: count32_def unat_of_nat min_def)

lemma count32_0 [simp]: "count32 0 = 0"
  by (simp add: count32_def)

lemma count32_Suc [simp]: "saturating_add (count32 n) 1 = count32 (Suc n)"
  by (intro word_unat_eq_iff [THEN iffD2]) (simp add: unat_saturating_add unat_count32)

lemma count32_reached: "t \<le> count32 n \<longleftrightarrow> unat t \<le> n"
proof -
  have "unat t < 2 ^ 32" using unsigned_less [of t, where 'a = nat] by simp
  then show ?thesis by (auto simp: word_le_nat_alt unat_count32)
qed

definition circuit_spec :: "RuntimeKernel \<Rightarrow> string \<Rightarrow> bool \<Rightarrow> outcome list \<Rightarrow> CircuitState" where
  "circuit_spec k key is_mcp h =
     (let new = default_circuit_state k key is_mcp;
          tripped = h \<noteq> [] \<and> 0 < trailing_failures h \<and> unat (cs_threshold new) \<le> trailing_failures h
      in new\<lparr> cs_failure_count := count32 (trailing_failures h),
              cs_success_count := count32 (length (filter fst h)),
              cs_phase := (if tripped then Phase_Open else Phase_Closed),
              cs_opened_at_ms := (if tripped then last_where False h else None),
              cs_last_failure_ms := last_where False h, cs_last_success_ms := last_where True h,
              cs_last_reason := (if h = [] then None
                 else if fst (last h) then Some ''execution succeeded and circuit closed''
                 else Some (snd (snd (last h)))) \<rparr>)"

lemma trailing_failures_snoc [simp]:
  "trailing_failures (h @ [x]) = (if fst x then 0 else Suc (trailing_failures h))"
  by (simp add: trailing_failures_def)

lemma last_where_snoc [simp]:
  "last_where b (h @ [x]) = (if fst x = b then Some (fst (snd x)) else last_where b h)"
  by (simp add: last_where_def)

lemma trailing_pos: "0 < trailing_failures h \<Longrightarrow> h \<noteq> []"
  by (auto simp: trailing_failures_def)

text \<open>Reading the state cools it down; the next outcome does not depend on whether it did.\<close>

lemma transition_cool_down:
  "cs_phase s = Phase_Open \<Longrightarrow> cs_threshold s \<le> saturating_add (cs_failure_count s) 1 \<Longrightarrow>
   transition_circuit_state (cool_down s t) b now r = transition_circuit_state s b now r"
  by (auto simp: transition_circuit_state_def cool_down_def Let_def split: option.split)

lemma transition_circuit_spec:
  "transition_circuit_state (cool_down (circuit_spec k key m h) t) b now r = circuit_spec k key m (h @ [(b, now, r)])"
proof -
  let ?s = "circuit_spec k key m h"
  have cooled: "transition_circuit_state (cool_down ?s t) b now r = transition_circuit_state ?s b now r"
  proof (cases "cs_phase ?s = Phase_Open")
    case True
    then have "cs_threshold ?s \<le> saturating_add (cs_failure_count ?s) 1"
      by (auto simp: circuit_spec_def Let_def count32_reached default_circuit_state_def
            split: if_splits)
    with True show ?thesis by (rule transition_cool_down)
  qed (simp add: cool_down_def split: CircuitPhase.split)
  show ?thesis unfolding cooled
    by (cases b)
      (auto simp: transition_circuit_state_def circuit_spec_def Let_def count32_reached
        default_circuit_state_def)
qed

definition circuit_key :: "bool \<Rightarrow> string \<Rightarrow> string" where
  "circuit_key is_mcp name = (if is_mcp then server_circuit_key name else tool_circuit_key name)"

lemma circuit_key_eq [simp]: "circuit_key m n = circuit_key m' n' \<longleftrightarrow> m = m' \<and> n = n'"
  by (auto simp: circuit_key_def server_circuit_key_def tool_circuit_key_def)

lemma circuit_key_plain [simp]: "\<not> evidence_key (circuit_key m n)"
  by (simp add: circuit_key_def server_circuit_key_def tool_circuit_key_def)

definition stored :: "outcome list \<Rightarrow> RuntimeKernel \<Rightarrow> bool \<Rightarrow> string \<Rightarrow> CircuitState option" where
  "stored h k m name = (if h = [] then None else Some (circuit_spec k (circuit_key m name) m h))"

lemma circuit_spec_Nil [simp]: "circuit_spec k key m [] = default_circuit_state k key m"
  by (simp add: circuit_spec_def default_circuit_state_def trailing_failures_def last_where_def)

lemma circuit_spec_key [simp]: "cs_scope_key (circuit_spec k key m h) = key"
  by (simp add: circuit_spec_def default_circuit_state_def Let_def)

lemma cool_down_default [simp]: "cool_down (default_circuit_state k key m) t = default_circuit_state k key m"
  by (simp add: cool_down_def default_circuit_state_def)

lemma load_stored:
  assumes "fallback_kv_get c db (circuit_key m name) = stored h k m name"
  shows "(case load_circuit_state c db (circuit_key m name) t of
            Some s \<Rightarrow> s | None \<Rightarrow> default_circuit_state k (circuit_key m name) m) =
         cool_down (circuit_spec k (circuit_key m name) m h) t"
  using assms by (auto simp: load_circuit_state_def stored_def)

lemma record_scope_step:
  assumes "codec_ok c" "table_ok db" "fallback_kv_get c db (circuit_key m name) = stored h k m name"
  obtains db' s where
    "record_scope k c db (circuit_key m name) m b now t out = (db', Ok s)" "table_ok db'"
    "fallback_kv_get c db' (circuit_key m name) = stored (h @ [(b, now, out)]) k m name"
    "\<And>key. key \<noteq> circuit_key m name \<Longrightarrow> fallback_kv_get c db' key = fallback_kv_get c db key"
proof -
  let ?s = "circuit_spec k (circuit_key m name) m (h @ [(b, now, out)])"
  obtain db' r where w: "upsert_json_knowledge c db (circuit_key m name) ?s ''runtime-circuit'' = (db', Ok r)"
      "table_ok db'" "decode_record c r = Some ?s"
      "get_knowledge db' = (get_knowledge db)(circuit_key m name \<mapsto> r)"
    by (rule json_write [OF assms(1,2), of "circuit_key m name" ?s "''runtime-circuit''"]) auto
  have "persist_circuit_state c db ?s = (db', Ok ())"
    using w(1) by (simp add: persist_circuit_state_def upsert_json_knowledge_def)
  then have "record_scope k c db (circuit_key m name) m b now t out = (db', Ok ?s)"
    by (simp add: record_scope_def load_stored [OF assms(3)] transition_circuit_spec)
  then show thesis
    by (rule that [OF _ w(2)]) (use w(3,4) in \<open>simp_all add: fallback_kv_get_def stored_def\<close>)
qed

section \<open>Every run of outcomes\<close>

type_synonym recorded = "ExecutionReport \<times> 64 word \<times> 64 word \<times> 64 word"

fun record_all ::
    "RuntimeKernel \<Rightarrow> CircuitState codec \<Rightarrow> KnowledgeTable \<Rightarrow> recorded list \<Rightarrow> KnowledgeTable \<times> unit result"
  where
  "record_all k c db [] = (db, Ok ())"
| "record_all k c db ((report, now, t, t') # rs) =
     then_do (record_execution_outcome k c db report now t t') (\<lambda>db _. record_all k c db rs)"

text \<open>The scopes an outcome counts for, and the history of a scope.\<close>

definition scopes :: "ExecutionReport \<Rightarrow> (bool \<times> string) list" where
  "scopes report =
     (case er_tool_used report of
        None \<Rightarrow> []
      | Some tool_name \<Rightarrow>
          if eq_ignore_ascii_case (er_guard_decision report) ''allow''
          then (False, tool_name) #
               (case scope_server report tool_name of None \<Rightarrow> [] | Some s \<Rightarrow> [(True, s)])
          else [])"

fun history :: "recorded list \<Rightarrow> bool \<Rightarrow> string \<Rightarrow> outcome list" where
  "history [] m name = []"
| "history ((report, now, t, t') # rs) m name =
     (if (m, name) \<in> set (scopes report)
      then [(outcome_succeeded report, now, er_output report)] else []) @ history rs m name"

definition tracks :: "RuntimeKernel \<Rightarrow> CircuitState codec \<Rightarrow> KnowledgeTable \<Rightarrow> (bool \<Rightarrow> string \<Rightarrow> outcome list) \<Rightarrow> bool"
  where
  "tracks k c db hist \<longleftrightarrow>
     table_ok db \<and> (\<forall>m name. fallback_kv_get c db (circuit_key m name) = stored (hist m name) k m name)"

lemma tracks_step:
  assumes "codec_ok c" "tracks k c db hist"
  obtains db' s where "record_scope k c db (circuit_key m name) m b now t out = (db', Ok s)"
    "tracks k c db' (hist(m := (hist m)(name := hist m name @ [(b, now, out)])))"
proof -
  have "table_ok db" "fallback_kv_get c db (circuit_key m name) = stored (hist m name) k m name"
    using assms(2) by (simp_all add: tracks_def)
  from record_scope_step [OF assms(1) this, where b = b and now = now and t = t and out = out]
  obtain db' s where s: "record_scope k c db (circuit_key m name) m b now t out = (db', Ok s)" "table_ok db'"
      "fallback_kv_get c db' (circuit_key m name) = stored (hist m name @ [(b, now, out)]) k m name"
      "\<And>key. key \<noteq> circuit_key m name \<Longrightarrow> fallback_kv_get c db' key = fallback_kv_get c db key"
    by blast
  show thesis
    by (rule that [OF s(1)]) (use assms(2) s(2-4) in \<open>auto simp: tracks_def\<close>)
qed

lemma tracks_outcome:
  assumes "codec_ok c" "tracks k c db hist"
  obtains db' ss where "record_execution_outcome k c db report now t t' = (db', Ok ss)"
    "tracks k c db' (\<lambda>m name. hist m name @
       (if (m, name) \<in> set (scopes report) then [(outcome_succeeded report, now, er_output report)] else []))"
proof (cases "\<exists>tool. er_tool_used report = Some tool \<and> eq_ignore_ascii_case (er_guard_decision report) ''allow''")
  case False
  then have "scopes report = []" "\<exists>ss. record_execution_outcome k c db report now t t' = (db, Ok ss)"
    by (auto simp: scopes_def record_execution_outcome_def split: option.splits)
  then show thesis using that assms(2) by auto
next
  case True
  then obtain tool where tool: "er_tool_used report = Some tool"
      and allowed: "eq_ignore_ascii_case (er_guard_decision report) ''allow''" by blast
  let ?x = "(outcome_succeeded report, now, er_output report)"
  obtain db1 s1 where s1: "record_scope k c db (circuit_key False tool) False (outcome_succeeded report) now t
        (er_output report) = (db1, Ok s1)"
      "tracks k c db1 (hist(False := (hist False)(tool := hist False tool @ [?x])))"
    using tracks_step [OF assms] by metis
  show thesis
  proof (cases "scope_server report tool")
    case None
    then have sc: "scopes report = [(False, tool)]" by (simp add: scopes_def tool allowed)
    have "record_execution_outcome k c db report now t t' = (db1, Ok [s1])"
      using s1(1) None by (simp add: record_execution_outcome_def tool allowed circuit_key_def)
    moreover have "(\<lambda>m name. hist m name @ (if (m, name) \<in> set (scopes report) then [?x] else [])) =
        hist(False := (hist False)(tool := hist False tool @ [?x]))"
      unfolding sc by (auto simp: fun_eq_iff)
    ultimately show thesis using that s1(2) by auto
  next
    case (Some srv)
    then have sc: "scopes report = [(False, tool), (True, srv)]" by (simp add: scopes_def tool allowed)
    let ?h1 = "hist(False := (hist False)(tool := hist False tool @ [?x]))"
    obtain db2 s2 where s2: "record_scope k c db1 (circuit_key True srv) True (outcome_succeeded report) now t'
          (er_output report) = (db2, Ok s2)"
        "tracks k c db2 (?h1(True := (?h1 True)(srv := ?h1 True srv @ [?x])))"
      using tracks_step [OF assms(1) s1(2)] by metis
    have "record_execution_outcome k c db report now t t' = (db2, Ok [s1, s2])"
      using s1(1) s2(1) Some by (simp add: record_execution_outcome_def tool allowed circuit_key_def)
    moreover have "(\<lambda>m name. hist m name @ (if (m, name) \<in> set (scopes report) then [?x] else [])) =
        ?h1(True := (?h1 True)(srv := ?h1 True srv @ [?x]))"
      unfolding sc by (auto simp: fun_eq_iff)
    ultimately show thesis using that s2(2) by auto
  qed
qed

lemma tracks_run:
  assumes "codec_ok c" "tracks k c db hist"
  shows "\<exists>db'. record_all k c db rs = (db', Ok ()) \<and> tracks k c db' (\<lambda>m name. hist m name @ history rs m name)"
  using assms(2)
proof (induction rs arbitrary: db hist)
  case (Cons x rs)
  obtain report now t t' where x: "x = (report, now, t, t')" by (cases x)
  obtain db1 ss where step: "record_execution_outcome k c db report now t t' = (db1, Ok ss)"
      "tracks k c db1 (\<lambda>m name. hist m name @
         (if (m, name) \<in> set (scopes report) then [(outcome_succeeded report, now, er_output report)] else []))"
    by (rule tracks_outcome [OF assms(1) Cons.prems])
  have hist: "(\<lambda>m name. (hist m name @ (if (m, name) \<in> set (scopes report)
        then [(outcome_succeeded report, now, er_output report)] else [])) @ history rs m name) =
      (\<lambda>m name. hist m name @ history (x # rs) m name)"
    by (simp add: x fun_eq_iff)
  show ?case
    using Cons.IH [OF step(2)] unfolding hist by (simp only: x record_all.simps step(1) then_do_simps)
qed simp

lemma tracks_new: "tracks k c new_table (\<lambda>m name. [])"
  by (simp add: tracks_def table_ok_new stored_def)

text \<open>
  C36: The stored breaker is a function of its history. From an empty store, any sequence of
  execution reports is recorded without an error, and the state then read for a tool or a server
  is the one its own outcomes define: failures counted since the last success, open exactly when
  they have reached the threshold, since the time of the last of them. Reading the state, which
  may turn it half-open, never changes what is recorded.
\<close>

theorem circuit_is_its_history:
  assumes "codec_ok c"
  shows "\<exists>db. record_all k c new_table rs = (db, Ok ()) \<and>
    fallback_kv_get c db (circuit_key m name) = stored (history rs m name) k m name"
  using tracks_run [OF assms tracks_new, of k rs] by (auto simp: tracks_def)

section \<open>A run on a sample store\<close>

fun phase_tag :: "CircuitPhase \<Rightarrow> string" where
  "phase_tag Phase_Closed = ''closed''"
| "phase_tag Phase_Open = ''open''"
| "phase_tag Phase_HalfOpen = ''half_open''"

definition tag_phase :: "string \<Rightarrow> CircuitPhase" where
  "tag_phase s = (if s = ''closed'' then Phase_Closed else if s = ''open'' then Phase_Open
     else Phase_HalfOpen)"

lemma tag_phase [simp]: "tag_phase (phase_tag p) = p"
  by (cases p) (simp_all add: tag_phase_def)

definition sample_circuit_codec :: "CircuitState codec" where
  "sample_circuit_codec =
     (\<lambda>x. pack [cs_scope_key x, show_word (cs_failure_count x), show_word (cs_success_count x),
             phase_tag (cs_phase x), pack_time (cs_opened_at_ms x), pack_time (cs_last_failure_ms x),
             pack_time (cs_last_success_ms x), show_word (cs_cooldown_ms x), show_word (cs_threshold x),
             pack_opt (cs_last_reason x)],
      \<lambda>s. let f = unpack s in
          (case (parse_word (f ! 1), parse_word (f ! 2), parse_word (f ! 7), parse_word (f ! 8)) of
             (Some fails, Some wins, Some cooldown, Some threshold) \<Rightarrow>
               Inr \<lparr> cs_scope_key = f ! 0, cs_failure_count = fails, cs_success_count = wins,
                     cs_phase = tag_phase (f ! 3), cs_opened_at_ms = unpack_time (f ! 4),
                     cs_last_failure_ms = unpack_time (f ! 5), cs_last_success_ms = unpack_time (f ! 6),
                     cs_cooldown_ms = cooldown, cs_threshold = threshold,
                     cs_last_reason = unpack_opt (f ! 9) \<rparr>
           | _ \<Rightarrow> Inl ''invalid number''))"

lemma sample_circuit_codec_ok [simp]: "codec_ok sample_circuit_codec"
  by (simp add: codec_ok_def sample_circuit_codec_def Let_def)

definition failing_report :: ExecutionReport where
  "failing_report = \<lparr> er_output = ''failed'', er_tool_used = Some ''read_file'', er_mcp_server = None,
     er_outcome_score = 1, er_guard_decision = ''Allow'' \<rparr>"

lemma failing_scopes: "scopes failing_report = [(False, ''read_file'')]" "\<not> outcome_succeeded failing_report"
  by code_simp+

theorem circuit_is_its_history_witness:
  "\<exists>db s. record_all sample_kernel sample_circuit_codec new_table
            [(failing_report, 10, 10, 10), (failing_report, 20, 20, 20)] = (db, Ok ()) \<and>
          fallback_kv_get sample_circuit_codec db ''metrics:circuit:tool:read_file'' = Some s \<and>
          cs_phase s = Phase_Open \<and> cs_opened_at_ms s = Some 20 \<and> cs_failure_count s = 2"
proof -
  let ?rs = "[(failing_report, 10, 10, 10), (failing_report, 20, 20, 20)]"
  have h: "history ?rs False ''read_file'' =
      [(False, 10, er_output failing_report), (False, 20, er_output failing_report)]"
    by (simp add: failing_scopes)
  have key: "circuit_key False ''read_file'' = ''metrics:circuit:tool:read_file''"
    by (simp add: circuit_key_def tool_circuit_key_def)
  let ?h = "[(False, 10, er_output failing_report), (False, 20, er_output failing_report)]"
  have two: "count32 (Suc (Suc 0)) = 2" by (simp add: count32_def)
  have s: "cs_phase (circuit_spec sample_kernel key False ?h) = Phase_Open \<and>
      cs_opened_at_ms (circuit_spec sample_kernel key False ?h) = Some 20 \<and>
      cs_failure_count (circuit_spec sample_kernel key False ?h) = 2" for key
    by (simp add: circuit_spec_def Let_def trailing_failures_def last_where_def two
          default_circuit_state_def sample_kernel_def)
  show ?thesis
    using circuit_is_its_history [OF sample_circuit_codec_ok, of sample_kernel ?rs False "''read_file''"] s
    unfolding key h stored_def by auto
qed

end
