(* ===== verification/Runtime_Guard.thy ===== *)
theory Runtime_Guard
  imports Circuit Runtime_Accounts
begin

text \<open>
  Who may run a tool: the permission modes of \<^verbatim>\<open>src/security/permission_mode.rs\<close>, and of
  \<^verbatim>\<open>src/runtime/mod.rs\<close> the guard of a tool call, the policy decision and the circuit check around
  it, the validation of a task's identity, and the decision the execution finally acts on.
\<close>

section \<open>Permission modes\<close>

datatype PermissionMode = Mode_Strict | Mode_Prompt | Mode_Auto | Mode_Bypass

definition parse_mode :: "string \<Rightarrow> PermissionMode" where
  "parse_mode s =
     (let m = to_ascii_lowercase (trim s)
      in if m = ''strict'' then Mode_Strict
         else if m = ''prompt'' then Mode_Prompt
         else if m = ''auto'' then Mode_Auto
         else if m = ''bypass'' then Mode_Bypass
         else Mode_Strict)"

fun mode_str :: "PermissionMode \<Rightarrow> string" where
  "mode_str Mode_Strict = ''strict''"
| "mode_str Mode_Prompt = ''prompt''"
| "mode_str Mode_Auto = ''auto''"
| "mode_str Mode_Bypass = ''bypass''"

definition high_risk_authorized :: "PermissionMode \<Rightarrow> bool" where
  "high_risk_authorized m \<longleftrightarrow> m = Mode_Strict"

datatype PermissionModeDecisionKind = PM_Allow | PM_RequiresApproval | PM_Blocked

type_synonym PermissionModeDecision = "PermissionModeDecisionKind \<times> string"

definition mode_from_sources :: "env \<Rightarrow> string \<Rightarrow> PermissionMode" where
  "mode_from_sources env config_mode =
     (case env ''AUTOLOOP_PERMISSION_MODE'' of
        Some env_mode \<Rightarrow> parse_mode env_mode
      | None \<Rightarrow> parse_mode config_mode)"

definition evaluate_capability ::
    "PermissionMode \<Rightarrow> ForgedMcpToolManifest option \<Rightarrow> PermissionModeDecision" where
  "evaluate_capability mode manifest =
     (case manifest of
        None \<Rightarrow> (PM_Allow, ''no forged capability manifest; permission mode leaves decision unchanged'')
      | Some m \<Rightarrow>
         (case mode of
            Mode_Strict \<Rightarrow>
              if mf_risk m = Risk_High
              then (PM_RequiresApproval, ''strict mode requires explicit approval for high-risk capability'')
              else if requires_gate m
              then (PM_RequiresApproval, ''strict mode requires approval for gated capability'')
              else (PM_Allow, ''strict mode allows non-gated capability'')
          | Mode_Prompt \<Rightarrow>
              if mf_risk m = Risk_High
              then (PM_Blocked, ''high-risk capability blocked in prompt mode; switch to strict mode'')
              else if requires_gate m
              then (PM_RequiresApproval, ''prompt mode requires approval for gated capability'')
              else (PM_Allow, ''prompt mode allows low-risk capability'')
          | Mode_Auto \<Rightarrow>
              if mf_risk m = Risk_High
              then (PM_Blocked, ''high-risk capability blocked in auto mode'')
              else (PM_Allow, ''auto mode allows low/medium capability'')
          | Mode_Bypass \<Rightarrow>
              if mf_risk m = Risk_High
              then (PM_Blocked, ''high-risk capability blocked in restricted bypass mode'')
              else (PM_Allow, ''restricted bypass mode allows low/medium capability'')))"

section \<open>The guard\<close>

datatype GuardDecision = Guard_Allow | Guard_RequiresApproval | Guard_Blocked

fun debug_guard :: "GuardDecision \<Rightarrow> string" where
  "debug_guard Guard_Allow = ''Allow''"
| "debug_guard Guard_RequiresApproval = ''RequiresApproval''"
| "debug_guard Guard_Blocked = ''Blocked''"

record SandboxPolicy =
  sp_filesystem_allow :: "string list"
  sp_filesystem_deny :: "string list"
  sp_cpu_budget_ms :: "64 word"
  sp_memory_budget_mb :: "32 word"

record RuntimeGuardReport =
  gr_decision :: GuardDecision
  gr_attempts_allowed :: "8 word"
  gr_timeout_secs :: "64 word"
  gr_reason :: string
  gr_breaker_key :: string
  gr_sandbox_policy :: "SandboxPolicy option"

definition sandbox_policy_for :: "RuntimeKernel \<Rightarrow> string \<Rightarrow> ForgedMcpToolManifest \<Rightarrow> SandboxPolicy" where
  "sandbox_policy_for k tool_name m =
     \<lparr> sp_filesystem_allow =
         [''.'', ''./workspace''] @
         (if mf_scope m = Scope_Session then [''./workspace/session''] else []) @
         (case mf_working_directory m of Some d \<Rightarrow> [d] | None \<Rightarrow> []),
       sp_filesystem_deny =
         [''./.git'', ''./deploy/secrets''] @
         (if mf_risk m = Risk_High \<or> contains tool_name ''deploy'' then [''/''] else []),
       sp_cpu_budget_ms = (if mf_risk m = Risk_High then 15000 else 6000),
       sp_memory_budget_mb =
         min (rl_max_memory_mb (rk_limits k)) (if mf_risk m = Risk_High then 768 else 384) \<rparr>"

definition guard_tool_execution ::
    "RuntimeKernel \<Rightarrow> env \<Rightarrow> string \<Rightarrow> string \<Rightarrow> ForgedMcpToolManifest option \<Rightarrow> RuntimeGuardReport"
  where
  "guard_tool_execution k env actor_id tool_name manifest =
     (let timeout_secs = (case manifest of
            Some m \<Rightarrow> (if mf_success_signal m \<noteq> None then 120 else 90) | None \<Rightarrow> 90);
          report = (\<lambda>decision attempts reason.
            \<lparr> gr_decision = decision, gr_attempts_allowed = attempts, gr_timeout_secs = timeout_secs,
              gr_reason = reason, gr_breaker_key = actor_id @ '':'' @ tool_name,
              gr_sandbox_policy = map_option (sandbox_policy_for k tool_name) manifest \<rparr>);
          allow = report Guard_Allow 2 ''runtime guard allows bounded execution''
      in case manifest of
           None \<Rightarrow> allow
         | Some m \<Rightarrow>
           (if mf_status m \<noteq> Cap_Active
            then report Guard_Blocked 0
              (''capability status '' @ debug_capability_status (mf_status m) @ '' is not runnable'')
            else if mf_approval_status m \<noteq> Appr_Verified
            then report Guard_RequiresApproval 0 ''capability is not verified yet''
            else if mf_trust_status m \<noteq> Trust_Trusted
            then report Guard_Blocked 0
              (''capability trust status '' @ debug_trust (mf_trust_status m) @ '' is not trusted ('' @
               join ''; '' (mf_trust_findings m) @ '')'')
            else if mf_health_score m < round_f32 (4 / 10)
            then report Guard_Blocked 0
              (''capability health '' @ show_fixed 2 (mf_health_score m) @ '' is below runtime minimum'')
            else
              let mode = mode_from_sources env (rk_permission_mode_default k)
              in case evaluate_capability mode (Some m) of
                   (PM_Blocked, why) \<Rightarrow> report Guard_Blocked 0
                     (''permission mode blocked ('' @ mode_str mode @ ''): '' @ why)
                 | (PM_RequiresApproval, why) \<Rightarrow> report Guard_RequiresApproval 1
                     (''permission mode requires approval ('' @ mode_str mode @ ''): '' @ why)
                 | (PM_Allow, why) \<Rightarrow>
                     if requires_gate m \<or> mp_allow_network_tools (rk_mcp k) \<and> mf_risk m = Risk_High
                     then report Guard_RequiresApproval 1 ''capability risk requires approval gate''
                     else allow))"

section \<open>Policy decision and circuit\<close>

definition json_allow_from_knowledge :: "json codec \<Rightarrow> KnowledgeTable \<Rightarrow> string \<Rightarrow> bool" where
  "json_allow_from_knowledge j db key =
     (case get_knowledge db key of
        None \<Rightarrow> False
      | Some record \<Rightarrow>
         (case snd j (kr_value record) of
            Inl _ \<Rightarrow> False
          | Inr raw \<Rightarrow>
             (let field = (\<lambda>name. Option.bind (json_get raw name) json_as_bool)
              in case field ''allow'' of Some b \<Rightarrow> b
                 | None \<Rightarrow> (case field ''allowed'' of Some b \<Rightarrow> b
                 | None \<Rightarrow> (case field ''approved'' of Some b \<Rightarrow> b | None \<Rightarrow> False)))))"

definition runtime_pdp_strategy_allow ::
    "json codec \<Rightarrow> KnowledgeTable \<Rightarrow> string \<Rightarrow> string \<Rightarrow> ForgedMcpToolManifest \<Rightarrow> bool" where
  "runtime_pdp_strategy_allow j db actor_id tool_name m \<longleftrightarrow>
     mf_risk m \<noteq> Risk_High \<or>
     json_allow_from_knowledge j db
       (''policy-pdp:runtime-strategy-allow:'' @ actor_id @ '':'' @ tool_name) \<or>
     json_allow_from_knowledge j db (''policy-pdp:runtime-strategy-allow:global:'' @ tool_name)"

text \<open>One circuit, as the guard passes it: blocked, or the report with the half-open limits.\<close>

definition check_tool_circuit ::
    "CircuitState codec \<Rightarrow> KnowledgeTable \<Rightarrow> string \<Rightarrow> 64 word \<Rightarrow> 64 word \<Rightarrow> RuntimeGuardReport \<Rightarrow>
     bool \<times> RuntimeGuardReport" where
  "check_tool_circuit c db tool_name now_ms load_ms report =
     (let key = tool_circuit_key tool_name
      in case load_circuit_state c db key load_ms of
           None \<Rightarrow> (False, report)
         | Some state \<Rightarrow>
            (case circuit_block_reason state now_ms of
               Some block_reason \<Rightarrow>
                 (True, report\<lparr> gr_decision := Guard_Blocked, gr_attempts_allowed := 0,
                                gr_reason := ''tool circuit open: '' @ block_reason,
                                gr_breaker_key := key \<rparr>)
             | None \<Rightarrow>
                 (False, if cs_phase state = Phase_HalfOpen
                         then report\<lparr> gr_attempts_allowed := 1,
                                      gr_reason := ''tool circuit is half-open: '' @ gr_reason report,
                                      gr_breaker_key := key \<rparr>
                         else report)))"

definition check_server_circuit ::
    "CircuitState codec \<Rightarrow> KnowledgeTable \<Rightarrow> string \<Rightarrow> 64 word \<Rightarrow> 64 word \<Rightarrow> RuntimeGuardReport \<Rightarrow>
     RuntimeGuardReport" where
  "check_server_circuit c db server_name now_ms load_ms report =
     (let key = server_circuit_key server_name
      in case load_circuit_state c db key load_ms of
           None \<Rightarrow> report
         | Some state \<Rightarrow>
            (case circuit_block_reason state now_ms of
               Some block_reason \<Rightarrow>
                 report\<lparr> gr_decision := Guard_Blocked, gr_attempts_allowed := 0,
                         gr_reason := ''mcp circuit open: '' @ block_reason, gr_breaker_key := key \<rparr>
             | None \<Rightarrow>
                 (if cs_phase state = Phase_HalfOpen
                  then report\<lparr> gr_attempts_allowed := min (gr_attempts_allowed report) 1,
                               gr_reason := ''mcp circuit is half-open: '' @ gr_reason report,
                               gr_breaker_key := key \<rparr>
                  else report)))"

definition shadow_diff_write ::
    "json codec \<Rightarrow> KnowledgeTable \<Rightarrow> string \<Rightarrow> string \<Rightarrow> ForgedMcpToolManifest \<Rightarrow> bool \<Rightarrow> 64 word \<Rightarrow>
     KnowledgeTable" where
  "shadow_diff_write j db actor_id tool_name m pdp_allowed at_ms =
     fst (upsert_json_knowledge j db
       (''policy-pdp:runtime-shadow-diff:'' @ actor_id @ '':'' @ tool_name @ '':'' @ show_word at_ms)
       (J_Object [(''actor_id'', J_String actor_id), (''tool_name'', J_String tool_name),
                  (''mode'', J_String ''shadow''), (''old_allowed'', J_Bool True),
                  (''new_allowed'', J_Bool pdp_allowed), (''risk'', J_String (debug_risk (mf_risk m)))])
       ''runtime-policy-pdp'')"

text \<open>The clock is read for the key of a shadow difference, for the check and for each load.\<close>

record guard_clock =
  gc_diff_ms :: "64 word"
  gc_now_ms :: "64 word"
  gc_tool_ms :: "64 word"
  gc_server_ms :: "64 word"

definition guard_tool_execution_with_state ::
    "RuntimeKernel \<Rightarrow> env \<Rightarrow> json codec \<Rightarrow> CircuitState codec \<Rightarrow> guard_clock \<Rightarrow> KnowledgeTable \<Rightarrow> string \<Rightarrow>
     string \<Rightarrow> ForgedMcpToolManifest option \<Rightarrow> KnowledgeTable \<times> RuntimeGuardReport" where
  "guard_tool_execution_with_state k env j c clock db actor_id tool_name manifest =
     (let report = guard_tool_execution k env actor_id tool_name manifest;
          circuits = (\<lambda>db.
            case check_tool_circuit c db tool_name (gc_now_ms clock) (gc_tool_ms clock) report of
              (True, blocked) \<Rightarrow> (db, blocked)
            | (False, report) \<Rightarrow>
                (case server_name_for tool_name manifest of
                   None \<Rightarrow> (db, report)
                 | Some server_name \<Rightarrow>
                     (db, check_server_circuit c db server_name (gc_now_ms clock) (gc_server_ms clock) report)))
      in if gr_decision report \<noteq> Guard_Allow then (db, report)
         else case manifest of
           None \<Rightarrow> circuits db
         | Some m \<Rightarrow>
            (let mode = effective_policy_mode k env;
                 pdp_allowed = runtime_pdp_strategy_allow j db actor_id tool_name m
             in if mode = Policy_Enforced \<and> mf_risk m = Risk_High \<and> \<not> pdp_allowed
                then (db, report\<lparr> gr_decision := Guard_Blocked, gr_attempts_allowed := 0,
                                   gr_reason := ''policy_pdp enforced deny for high-risk capability'',
                                   gr_breaker_key := ''pdp:'' @ actor_id @ '':'' @ tool_name \<rparr>)
                else circuits (if mode = Policy_Shadow \<and> \<not> pdp_allowed
                               then shadow_diff_write j db actor_id tool_name m pdp_allowed (gc_diff_ms clock)
                               else db)))"

section \<open>The decision the execution acts on\<close>

definition hook_checked :: "bool \<Rightarrow> string option \<Rightarrow> RuntimeGuardReport \<Rightarrow> RuntimeGuardReport" where
  "hook_checked hook_allowed hook_error guard =
     (if hook_allowed then guard
      else guard\<lparr> gr_decision := Guard_Blocked, gr_attempts_allowed := 0,
                  gr_reason := ''execution denied by PreToolUse hook: '' @
                    (case hook_error of Some e \<Rightarrow> e | None \<Rightarrow> ''hook denied pre_tool_use'') \<rparr>)"

definition approval_checked :: "TaskEnvelope \<Rightarrow> RuntimeGuardReport \<Rightarrow> RuntimeGuardReport" where
  "approval_checked envelope guard =
     (if cn_requires_human_approval (te_constraints envelope) \<and> gr_decision guard = Guard_Allow
      then guard\<lparr> gr_decision := Guard_RequiresApproval,
                  gr_reason := ''TaskEnvelope requires human approval'' \<rparr>
      else guard)"

definition shadow_checked :: "bool \<Rightarrow> RuntimeGuardReport \<Rightarrow> RuntimeGuardReport" where
  "shadow_checked enforced guard =
     (if \<not> enforced \<and> gr_decision guard \<noteq> Guard_Allow then
        (let hard_hook_block = contains (gr_reason guard) ''PreToolUse hook'' \<or>
               contains (gr_reason guard) ''step'' \<or> contains (gr_reason guard) ''OnResult hook''
         in if \<not> hard_hook_block
            then guard\<lparr> gr_decision := Guard_Allow,
                        gr_reason := ''shadow-observe-only (original decision '' @
                          debug_guard (gr_decision guard) @ '')'' \<rparr>
            else guard\<lparr> gr_reason := ''hard-hook-gate (shadow bypass disabled): '' @ gr_reason guard \<rparr>)
      else guard)"

definition gate_decision ::
    "RuntimeKernel \<Rightarrow> TaskEnvelope \<Rightarrow> bool \<Rightarrow> string option \<Rightarrow> RuntimeGuardReport \<Rightarrow> RuntimeGuardReport"
  where
  "gate_decision k envelope hook_allowed hook_error guard =
     shadow_checked (should_enforce_gate k (te_session_id envelope) (te_task_id envelope))
       (approval_checked envelope (hook_checked hook_allowed hook_error guard))"

section \<open>Identity\<close>

definition validate_execution_identity ::
    "table_codecs \<Rightarrow> KnowledgeTable \<Rightarrow> TaskEnvelope \<Rightarrow> 64 word \<Rightarrow> unit result" where
  "validate_execution_identity c db envelope now =
     (let i = te_identity envelope; cons = te_constraints envelope in
      and_then (ok_or (get_tenant c db (id_tenant_id i)) ''tenant not found'') (\<lambda>tenant.
      and_then (ensure (tn_status tenant = ''active'') ''tenant is not active'') (\<lambda>_.
      and_then (ok_or (get_principal c db (id_tenant_id i) (id_principal_id i)) ''principal not found'') (\<lambda>principal.
      and_then (ensure (pr_status principal = ''active'') ''principal is not active'') (\<lambda>_.
      and_then (ok_or (get_role_binding c db (id_tenant_id i) (id_principal_id i)) ''role binding not found'') (\<lambda>role_binding.
      and_then (ok_or (get_policy_binding c db (id_tenant_id i) (id_policy_id i)) ''policy binding not found'') (\<lambda>policy.
      and_then (ensure (rb_role role_binding = pb_role policy) ''role downgraded or mismatched with policy'') (\<lambda>_.
      and_then (ok_or (get_session_lease c db (te_session_id envelope)) ''session lease not found'') (\<lambda>lease.
      and_then (ensure (now < ls_expires_at_ms lease) ''session lease expired'') (\<lambda>_.
      and_then (ensure (ls_lease_token lease = id_lease_token i \<and> ls_tenant_id lease = id_tenant_id i \<and>
                        ls_principal_id lease = id_principal_id i \<and> ls_policy_id lease = id_policy_id i)
                  ''session lease identity mismatch'') (\<lambda>_.
      and_then (ensure (\<exists>p\<in>set (pb_capability_prefixes policy). prefix p (te_capability_id envelope))
                  ''capability not allowed by policy'') (\<lambda>_.
      and_then (ensure (cn_max_memory_mb cons \<le> pb_max_memory_mb policy)
                  ''requested memory exceeds policy max'') (\<lambda>_.
      ensure (cn_max_tokens cons \<le> pb_max_tokens policy) ''requested tokens exceeds policy max'')))))))))))))"

section \<open>What the guard admits\<close>

text \<open>Every mode sends a capability that is not low-risk to approval or refuses it.\<close>

lemma evaluate_capability_low:
  "evaluate_capability mode (Some m) = (PM_Allow, why) \<Longrightarrow> mode = Mode_Strict \<or> mode = Mode_Prompt \<Longrightarrow>
   mf_risk m = Risk_Low"
  by (cases "mf_risk m"; cases mode) (auto simp: evaluate_capability_def requires_gate_def)

lemma evaluate_low: "mf_risk m = Risk_Low \<Longrightarrow> fst (evaluate_capability mode (Some m)) = PM_Allow"
  by (cases mode) (simp_all add: evaluate_capability_def requires_gate_def)

definition runnable :: "ForgedMcpToolManifest \<Rightarrow> bool" where
  "runnable m \<longleftrightarrow> mf_status m = Cap_Active \<and> mf_approval_status m = Appr_Verified \<and>
     mf_trust_status m = Trust_Trusted \<and> round_f32 (4 / 10) \<le> mf_health_score m \<and> mf_risk m = Risk_Low"

lemma guard_allows:
  "gr_decision (guard_tool_execution k env actor tool manifest) = Guard_Allow \<longleftrightarrow>
     (case manifest of None \<Rightarrow> True | Some m \<Rightarrow> runnable m)"
proof (cases manifest)
  case (Some m)
  obtain kind why where e: "evaluate_capability (mode_from_sources env (rk_permission_mode_default k)) (Some m) = (kind, why)"
    by fastforce
  have gate: "requires_gate m \<longleftrightarrow> mf_risk m \<noteq> Risk_Low"
    by (cases "mf_risk m") (simp_all add: requires_gate_def)
  show ?thesis
    using evaluate_low [of m "mode_from_sources env (rk_permission_mode_default k)"] e gate
    by (cases kind) (auto simp: guard_tool_execution_def Let_def Some runnable_def not_less)
qed (simp add: guard_tool_execution_def Let_def)

text \<open>So the policy decision point is never asked about the capabilities it is for.\<close>

lemma guard_with_state_cases:
  assumes "guard_tool_execution k env actor tool manifest = report" "gr_decision report = Guard_Allow"
  shows "guard_tool_execution_with_state k env j c clock db actor tool manifest =
     (db, case check_tool_circuit c db tool (gc_now_ms clock) (gc_tool_ms clock) report of
            (True, blocked) \<Rightarrow> blocked
          | (False, report) \<Rightarrow>
              (case server_name_for tool manifest of
                 None \<Rightarrow> report
               | Some server_name \<Rightarrow>
                   check_server_circuit c db server_name (gc_now_ms clock) (gc_server_ms clock) report))"
proof -
  have "mf_risk m = Risk_Low" if "manifest = Some m" for m
    using guard_allows [of k env actor tool manifest] assms that by (simp add: runnable_def)
  then show ?thesis
    using assms by (auto simp: guard_tool_execution_with_state_def Let_def runtime_pdp_strategy_allow_def
        split: option.split bool.split prod.split)
qed

definition circuit_refuses :: "CircuitState codec \<Rightarrow> KnowledgeTable \<Rightarrow> string \<Rightarrow> 64 word \<Rightarrow> 64 word \<Rightarrow> bool"
  where
  "circuit_refuses c db key now load_ms \<longleftrightarrow>
     (case load_circuit_state c db key load_ms of
        None \<Rightarrow> False | Some s \<Rightarrow> circuit_block_reason s now \<noteq> None)"

lemma check_tool_circuit_cases:
  "check_tool_circuit c db tool now load_ms report = (b, r) \<Longrightarrow> gr_decision report = Guard_Allow \<Longrightarrow>
   b = circuit_refuses c db (tool_circuit_key tool) now load_ms \<and>
   gr_decision r = (if b then Guard_Blocked else Guard_Allow)"
  by (auto simp: check_tool_circuit_def circuit_refuses_def Let_def split: option.splits if_splits)

lemma check_server_circuit_decision:
  "gr_decision report = Guard_Allow \<Longrightarrow>
   gr_decision (check_server_circuit c db server now load_ms report) =
     (if circuit_refuses c db (server_circuit_key server) now load_ms then Guard_Blocked else Guard_Allow)"
  by (auto simp: check_server_circuit_def circuit_refuses_def Let_def split: option.splits)

text \<open>
  C37: What the guard lets run. In every permission mode and policy mode, whatever the environment
  and the stored policy decisions say, a tool call is allowed exactly when it has no manifest or its
  manifest is active, verified, trusted, healthy and of low risk, and neither the circuit of the
  tool nor that of its server refuses it; the guard never writes to the store.
\<close>

theorem guard_admits:
  "fst (guard_tool_execution_with_state k env j c clock db actor tool manifest) = db \<and>
   (gr_decision (snd (guard_tool_execution_with_state k env j c clock db actor tool manifest)) = Guard_Allow \<longleftrightarrow>
      (case manifest of None \<Rightarrow> True | Some m \<Rightarrow> runnable m) \<and>
      \<not> circuit_refuses c db (tool_circuit_key tool) (gc_now_ms clock) (gc_tool_ms clock) \<and>
      (case server_name_for tool manifest of
         None \<Rightarrow> True
       | Some server \<Rightarrow>
           \<not> circuit_refuses c db (server_circuit_key server) (gc_now_ms clock) (gc_server_ms clock)))"
proof (cases "gr_decision (guard_tool_execution k env actor tool manifest) = Guard_Allow")
  case True
  obtain b r where tool: "check_tool_circuit c db tool (gc_now_ms clock) (gc_tool_ms clock)
      (guard_tool_execution k env actor tool manifest) = (b, r)" by fastforce
  note t = check_tool_circuit_cases [OF tool True]
  show ?thesis
    using True t guard_allows [of k env actor tool manifest]
    unfolding guard_with_state_cases [OF refl True] tool
    by (cases "server_name_for tool manifest"; cases b) (auto simp: check_server_circuit_decision)
next
  case False
  then show ?thesis
    using guard_allows [of k env actor tool manifest]
    by (simp add: guard_tool_execution_with_state_def Let_def)
qed

text \<open>
  A circuit refuses after its threshold of failures and only while it cools down. After any
  recorded sequence of execution reports, the circuit of a tool or a server refuses a call exactly
  when its last \<open>threshold\<close> outcomes, at least one, all failed, and the cooldown since the last of
  them is over at neither of the two clock readings of the check.
\<close>

lemma circuit_refuses_iff:
  assumes "codec_ok c" "record_all k c new_table rs = (db, Ok ())"
  shows "circuit_refuses c db (circuit_key m name) now load_ms \<longleftrightarrow>
    (\<exists>t. last_where False (history rs m name) = Some t \<and>
         0 < trailing_failures (history rs m name) \<and>
         unat (cs_threshold (default_circuit_state k (circuit_key m name) m)) \<le>
           trailing_failures (history rs m name) \<and>
         saturating_sub now t < cs_cooldown_ms (default_circuit_state k (circuit_key m name) m) \<and>
         saturating_sub load_ms t < cs_cooldown_ms (default_circuit_state k (circuit_key m name) m))"
    (is "_ \<longleftrightarrow> ?R")
proof -
  let ?h = "history rs m name"
  let ?s = "circuit_spec k (circuit_key m name) m ?h"
  have get: "fallback_kv_get c db (circuit_key m name) = stored ?h k m name"
    using tracks_run [OF assms(1) tracks_new, of k rs] assms(2) by (auto simp: tracks_def)
  have fail: "\<exists>t. last_where False ?h = Some t" if "0 < trailing_failures ?h"
    using that
  proof (cases ?h rule: rev_cases)
    case (snoc ys y)
    with that show ?thesis by (cases "fst y") auto
  qed (simp add: trailing_failures_def)
  show ?thesis
  proof (cases "?h = []")
    case True
    then show ?thesis
      using get by (simp add: circuit_refuses_def load_circuit_state_def stored_def trailing_failures_def)
  next
    case False
    then have "circuit_refuses c db (circuit_key m name) now load_ms \<longleftrightarrow>
        circuit_block_reason (cool_down ?s load_ms) now \<noteq> None"
      using get by (simp add: circuit_refuses_def load_circuit_state_def stored_def)
    also have "\<dots> \<longleftrightarrow> ?R"
    proof (cases "0 < trailing_failures ?h \<and>
        unat (cs_threshold (default_circuit_state k (circuit_key m name) m)) \<le> trailing_failures ?h")
      case True
      then obtain t where t: "last_where False ?h = Some t" using fail by blast
      have "cs_phase ?s = Phase_Open" "cs_opened_at_ms ?s = Some t"
          "cs_cooldown_ms ?s = cs_cooldown_ms (default_circuit_state k (circuit_key m name) m)"
        using True False t by (simp_all add: circuit_spec_def Let_def)
      then have "circuit_block_reason (cool_down ?s load_ms) now \<noteq> None \<longleftrightarrow>
          saturating_sub now t < cs_cooldown_ms (default_circuit_state k (circuit_key m name) m) \<and>
          saturating_sub load_ms t < cs_cooldown_ms (default_circuit_state k (circuit_key m name) m)"
        by (auto simp: cool_down_def circuit_block_reason_def Let_def not_le)
      then show ?thesis using True t by simp
    next
      case False
      then have "cs_phase ?s = Phase_Closed" by (simp add: circuit_spec_def Let_def)
      then show ?thesis using False by (auto simp: cool_down_def circuit_block_reason_def)
    qed
    finally show ?thesis .
  qed
qed

lemma circuit_refuses_iff_example:
  "\<exists>db. record_all sample_kernel sample_circuit_codec new_table
            [(failing_report, 10, 10, 10), (failing_report, 20, 20, 20)] = (db, Ok ()) \<and>
        circuit_refuses sample_circuit_codec db (circuit_key False ''read_file'') 500 510"
proof -
  let ?rs = "[(failing_report, 10, 10, 10), (failing_report, 20, 20, 20)]"
  obtain db where run: "record_all sample_kernel sample_circuit_codec new_table ?rs = (db, Ok ())"
    using tracks_run [OF sample_circuit_codec_ok tracks_new, of sample_kernel ?rs] by blast
  have h: "history ?rs False ''read_file'' =
      [(False, 10, er_output failing_report), (False, 20, er_output failing_report)]"
    by (simp add: failing_scopes)
  have "circuit_refuses sample_circuit_codec db (circuit_key False ''read_file'') 500 510"
    unfolding circuit_refuses_iff [OF sample_circuit_codec_ok run] h
    by (simp add: trailing_failures_def last_where_def default_circuit_state_def sample_kernel_def
        saturating_sub_def)
  then show ?thesis using run by blast
qed

text \<open>
  The decision the execution acts on. With the gate enforced, a tool runs exactly when the guard
  allowed it, the hook did not deny it and the task asks for no human approval; without, it also runs
  after a refusal whose reason names neither the hook nor the words \<open>step\<close> or \<open>OnResult hook\<close>.
\<close>

lemma gate_decision_allows:
  "gr_decision (gate_decision k envelope hook_allowed hook_error guard) = Guard_Allow \<longleftrightarrow>
     hook_allowed \<and> gr_decision guard = Guard_Allow \<and>
       \<not> cn_requires_human_approval (te_constraints envelope) \<or>
     \<not> should_enforce_gate k (te_session_id envelope) (te_task_id envelope) \<and>
       list_all (\<lambda>w. \<not> contains (gr_reason (approval_checked envelope
           (hook_checked hook_allowed hook_error guard))) w) [''PreToolUse hook'', ''step'', ''OnResult hook''] \<and>
       hook_allowed"
proof -
  let ?g = "approval_checked envelope (hook_checked hook_allowed hook_error guard)"
  have shadow: "gr_decision (shadow_checked b g) = Guard_Allow \<longleftrightarrow> gr_decision g = Guard_Allow \<or>
      \<not> b \<and> list_all (\<lambda>w. \<not> contains (gr_reason g) w) [''PreToolUse hook'', ''step'', ''OnResult hook'']" for b g
    by (simp add: shadow_checked_def Let_def)
  have allow: "gr_decision ?g = Guard_Allow \<longleftrightarrow> hook_allowed \<and> gr_decision guard = Guard_Allow \<and>
      \<not> cn_requires_human_approval (te_constraints envelope)"
    by (auto simp: approval_checked_def hook_checked_def)
  have "contains (gr_reason ?g) ''PreToolUse hook''" if "\<not> hook_allowed"
  proof -
    have "contains (''execution denied by '' @ ''PreToolUse hook'' @ '': '' @ e) ''PreToolUse hook''" for e
      by (rule contains_append_mid)
    then show ?thesis using that by (simp add: approval_checked_def hook_checked_def)
  qed
  then have "list_all (\<lambda>w. \<not> contains (gr_reason ?g) w) [''PreToolUse hook'', ''step'', ''OnResult hook''] \<Longrightarrow>
      hook_allowed" by (metis list.pred_inject(2))
  then show ?thesis unfolding gate_decision_def shadow allow by blast
qed

text \<open>
  Execution identity. A task passes the identity check exactly when tenant and principal exist
  and are active, the principal's role is the policy's, the session's lease has not expired and names
  the same token, tenant, principal and policy, some prefix of the policy covers the capability, and
  the requested memory and tokens are within the policy.
\<close>

lemma identity_validated:
  "validate_execution_identity c db envelope now = Ok () \<longleftrightarrow>
     (\<exists>tenant principal role_binding policy lease.
        get_tenant c db (tenant_of envelope) = Some tenant \<and> tn_status tenant = ''active'' \<and>
        get_principal c db (tenant_of envelope) (id_principal_id (te_identity envelope)) = Some principal \<and>
        pr_status principal = ''active'' \<and>
        get_role_binding c db (tenant_of envelope) (id_principal_id (te_identity envelope)) = Some role_binding \<and>
        get_policy_binding c db (tenant_of envelope) (id_policy_id (te_identity envelope)) = Some policy \<and>
        rb_role role_binding = pb_role policy \<and>
        get_session_lease c db (te_session_id envelope) = Some lease \<and> now < ls_expires_at_ms lease \<and>
        ls_lease_token lease = id_lease_token (te_identity envelope) \<and>
        ls_tenant_id lease = tenant_of envelope \<and>
        ls_principal_id lease = id_principal_id (te_identity envelope) \<and>
        ls_policy_id lease = id_policy_id (te_identity envelope) \<and>
        (\<exists>p\<in>set (pb_capability_prefixes policy). prefix p (te_capability_id envelope)) \<and>
        cn_max_memory_mb (te_constraints envelope) \<le> pb_max_memory_mb policy \<and>
        cn_max_tokens (te_constraints envelope) \<le> pb_max_tokens policy)"
  by (auto simp: validate_execution_identity_def Let_def and_then_Ok_iff ok_or_Ok_iff ensure_Ok_iff)

end
