(* ===== verification/Forge.thy ===== *)
theory Forge
  imports Manifest
begin

text \<open>
  Forging a capability, \<^verbatim>\<open>src/tools/cli_forge.rs\<close>: from a request to a signed manifest, and from a
  manifest and an invocation to the command that runs. The standard library's \<^verbatim>\<open>DefaultHasher\<close>, whose
  algorithm is unspecified, is the argument \<open>h\<close>, a function of the sequence of hashed values; serde_json's
  parser and its text of an object are the arguments \<open>parse\<close> and \<open>txt\<close>; the clock is \<open>now_ms\<close>.
\<close>

section \<open>Requests\<close>

record ForgeArgumentSpec =
  fa_name :: string
  fa_description :: string
  fa_required :: bool
  fa_example :: "string option"

record McpToolForgeRequest =
  fr_server :: "string option"
  fr_capability_name :: string
  fr_purpose :: string
  fr_executable :: string
  fr_subcommands :: "string list"
  fr_json_flag :: "string option"
  fr_arguments :: "ForgeArgumentSpec list"
  fr_output_mode :: CliOutputMode
  fr_success_signal :: "string option"
  fr_working_directory :: "string option"
  fr_examples :: "string list"
  fr_tags :: "string list"
  fr_scope :: "CapabilityScope option"
  fr_requested_by :: "string option"
  fr_signer :: "string option"
  fr_source_repo :: "string option"
  fr_source_ref :: "string option"
  fr_sbom_components :: "SbomComponent list"

section \<open>Names\<close>

text \<open>
  \<^verbatim>\<open>sanitize_segment\<close> runs over characters; a character of several bytes is not alphanumeric, and
  its bytes make one dash together, as its one character does.
\<close>

fun sanitize_run :: "bool \<Rightarrow> string \<Rightarrow> string" where
  "sanitize_run previous_dash [] = []"
| "sanitize_run previous_dash (c # s) =
     (if ascii_alphanumeric c then ascii_lower c # sanitize_run False s
      else if previous_dash then sanitize_run True s
      else CHR ''-'' # sanitize_run True s)"

definition trim_matches :: "char \<Rightarrow> string \<Rightarrow> string" where
  "trim_matches d s = rev (dropWhile (\<lambda>c. c = d) (rev (dropWhile (\<lambda>c. c = d) s)))"

definition sanitize_segment :: "string \<Rightarrow> string" where
  "sanitize_segment s = trim_matches (CHR ''-'') (sanitize_run False s)"

section \<open>Texts\<close>

definition placeholder :: "string \<Rightarrow> string" where
  "placeholder key = ''{{'' @ key @ ''}}''"

definition build_command_template :: "McpToolForgeRequest \<Rightarrow> string" where
  "build_command_template r =
     join '' '' ([fr_executable r] @ fr_subcommands r @
       (case fr_json_flag r of Some flag \<Rightarrow> [flag] | None \<Rightarrow> []) @
       map (\<lambda>a. ''--'' @ sanitize_segment (fa_name a) @ '' '' @ placeholder (sanitize_segment (fa_name a)))
         (fr_arguments r))"

definition build_help_text :: "string \<Rightarrow> McpToolForgeRequest \<Rightarrow> string" where
  "build_help_text tool_name r =
     (let arg_list = join [newline]
            (map (\<lambda>a. ''- '' @ fa_name a @ (if fa_required a then '' (required)'' else '''') @ '': '' @
                      fa_description a) (fr_arguments r))
      in tool_name @ [newline] @ ''Purpose: '' @ fr_purpose r @ [newline] @
         ''Executable: '' @ fr_executable r @ [newline] @
         ''Output mode: '' @ debug_output_mode (fr_output_mode r) @ [newline] @
         ''Arguments:'' @ [newline] @ (if arg_list = [] then ''- none'' else arg_list))"

definition build_skill_markdown :: "string \<Rightarrow> string \<Rightarrow> McpToolForgeRequest \<Rightarrow> string" where
  "build_skill_markdown tool_name server r =
     (let examples = (if fr_examples r = [] then ''- No examples provided yet.''
            else join [newline] (map (\<lambda>e. ''- '' @ e) (fr_examples r)))
      in ''# '' @ tool_name @ [newline, newline] @ ''Use this forged MCP tool through `'' @ server @
         ''` to satisfy: '' @ fr_purpose r @ [newline, newline] @ ''## Contract'' @ [newline] @
         ''- Deterministic JSON-first CLI wrapper'' @ [newline] @
         ''- Self-describing argument schema'' @ [newline] @
         ''- Suitable for CLI agents that need reusable command surfaces'' @ [newline, newline] @
         ''## Examples'' @ [newline] @ examples)"

section \<open>Risk\<close>

definition infer_risk :: "McpToolForgeRequest \<Rightarrow> CapabilityRisk" where
  "infer_risk r =
     (let purpose = to_ascii_lowercase (fr_purpose r);
          executable = to_ascii_lowercase (fr_executable r)
      in if contains purpose ''delete'' \<or> contains purpose ''deploy'' \<or> contains purpose ''network'' \<or>
            contains executable ''powershell'' \<or> contains executable ''bash'' then Risk_High
         else if contains purpose ''write'' \<or> contains purpose ''modify'' \<or> contains purpose ''patch''
         then Risk_Medium
         else Risk_Low)"

fun initial_health_score :: "CapabilityRisk \<Rightarrow> f32" where
  "initial_health_score Risk_Low = round_f32 (82 / 100)"
| "initial_health_score Risk_Medium = round_f32 (65 / 100)"
| "initial_health_score Risk_High = round_f32 (45 / 100)"

section \<open>Supply chain\<close>

datatype hash_item = Hash_Str string | Hash_U32 "32 word" | Hash_U64 "64 word"

type_synonym hasher = "hash_item list \<Rightarrow> 64 word"

definition hash_seed :: "hasher \<Rightarrow> string \<Rightarrow> 64 word" where
  "hash_seed h s = h [Hash_Str s]"

definition supply_chain_payload_hash :: "hasher \<Rightarrow> ForgedMcpToolManifest \<Rightarrow> string" where
  "supply_chain_payload_hash h m =
     show_hex16 (h
       ([Hash_Str (mf_capability_id m), Hash_Str (mf_registered_tool_name m),
         Hash_Str (mf_delegate_tool_name m), Hash_Str (mf_server m), Hash_Str (mf_executable m),
         Hash_Str (mf_command_template m), Hash_U32 (mf_version m), Hash_Str (mf_lineage_key m),
         Hash_Str (at_artifact_id (mf_artifact m)), Hash_Str (at_digest_sha256 (mf_artifact m)),
         Hash_Str (at_source_uri (mf_artifact m)), Hash_U64 (at_build_epoch (mf_artifact m)),
         Hash_Str (pv_source_repo (mf_provenance m)), Hash_Str (pv_source_ref (mf_provenance m)),
         Hash_Str (pv_builder (mf_provenance m))] @
        concat (map (\<lambda>c. [Hash_Str (sc_name c), Hash_Str (sc_version c), Hash_Str (sc_source c),
                          Hash_Str (sc_checksum c)]) (mf_sbom m))))"

fun algorithm_name :: "SignatureAlgorithm \<Rightarrow> string" where
  "algorithm_name DeterministicV1 = ''deterministic_v1''"

definition signature_value_for :: "string \<Rightarrow> SignatureAlgorithm \<Rightarrow> string \<Rightarrow> string" where
  "signature_value_for signer alg payload_hash =
     ''sig:'' @ signer @ '':'' @ algorithm_name alg @ '':'' @ payload_hash"

definition default_signature :: Signature where
  "default_signature =
     \<lparr> sg_signer = ''autoloop-ci'', sg_algorithm = DeterministicV1,
       sg_signed_payload_hash = ''0000000000000000'',
       sg_signature = ''sig:autoloop-ci:deterministic_v1:0000000000000000'', sg_signed_at_ms = 0 \<rparr>"

definition default_trust_policy :: TrustPolicy where
  "default_trust_policy =
     \<lparr> tr_required_signers = [''autoloop-ci'', ''autoloop-operator''],
       tr_blocked_dependencies = [''evil-lib'', ''malware-kit''], tr_min_provenance_ref_len = 3 \<rparr>"

definition component_findings :: "TrustPolicy \<Rightarrow> SbomComponent \<Rightarrow> string list" where
  "component_findings policy c =
     (if list_ex (eq_ignore_ascii_case (sc_name c)) (tr_blocked_dependencies policy)
      then [''blocked dependency detected: '' @ sc_name c] else []) @
     (if trim (sc_checksum c) = []
      then [''dependency '' @ [CHR 0x27] @ sc_name c @ [CHR 0x27] @ '' missing checksum''] else [])"

definition manifest_findings :: "hasher \<Rightarrow> ForgedMcpToolManifest \<Rightarrow> string list" where
  "manifest_findings h m =
     (let payload_hash = supply_chain_payload_hash h m; s = mf_signature m; policy = mf_trust_policy m
      in (if sg_signed_payload_hash s \<noteq> payload_hash then [''signature payload hash mismatch''] else []) @
         (if sg_signature s \<noteq> signature_value_for (sg_signer s) (sg_algorithm s) payload_hash
          then [''signature verification failed''] else []) @
         (if \<not> list_ex (\<lambda>signer. signer = sg_signer s) (tr_required_signers policy)
          then [''signer '' @ [CHR 0x27] @ sg_signer s @ [CHR 0x27] @ '' is not allowed by trust policy'']
          else []) @
         (if length (pv_source_ref (mf_provenance m)) < tr_min_provenance_ref_len policy
          then [''provenance source_ref is too short''] else []) @
         concat (map (component_findings policy) (mf_sbom m)))"

section \<open>Building the manifest\<close>

fun output_mode_name :: "CliOutputMode \<Rightarrow> string" where
  "output_mode_name Out_Human = ''human''"
| "output_mode_name Out_Json = ''json''"
| "output_mode_name Out_Both = ''both''"

text \<open>A \<^verbatim>\<open>serde_json::Map\<close> keeps its keys in order.\<close>

definition argument_schema :: "ForgeArgumentSpec \<Rightarrow> json" where
  "argument_schema a =
     J_Object [(''example'', json_opt_str (fa_example a)), (''name'', J_String (fa_name a)),
               (''required'', J_Bool (fa_required a))]"

definition payload_template_for :: "string \<Rightarrow> McpToolForgeRequest \<Rightarrow> json" where
  "payload_template_for server r =
     J_Object [(''arguments'', J_Array (map argument_schema (fr_arguments r))),
               (''capability_name'', J_String (fr_capability_name r)),
               (''command'', J_String (build_command_template r)),
               (''output_mode'', J_String (output_mode_name (fr_output_mode r))),
               (''server'', J_String server),
               (''success_signal'', json_opt_str (fr_success_signal r)),
               (''working_directory'', json_opt_str (fr_working_directory r))]"

definition or_default :: "'a option \<Rightarrow> 'a \<Rightarrow> 'a" where
  "or_default x d = (case x of None \<Rightarrow> d | Some v \<Rightarrow> v)"

definition unsigned_manifest ::
    "hasher \<Rightarrow> 64 word \<Rightarrow> string \<Rightarrow> string \<Rightarrow> McpToolForgeRequest \<Rightarrow> ForgedMcpToolManifest" where
  "unsigned_manifest h now_ms tool_name server r =
     (let capability_id = server @ '':'' @ sanitize_segment (fr_capability_name r);
          command_template = build_command_template r;
          risk = infer_risk r;
          approval = (if risk = Risk_Low then Appr_Verified else Appr_Pending)
      in \<lparr> mf_capability_id = capability_id, mf_registered_tool_name = tool_name,
           mf_delegate_tool_name = ''mcp::'' @ server @ ''::invoke'', mf_server = server,
           mf_capability_name = fr_capability_name r, mf_purpose = fr_purpose r,
           mf_executable = fr_executable r, mf_command_template = command_template,
           mf_payload_template = payload_template_for server r,
           mf_output_mode = fr_output_mode r, mf_working_directory = fr_working_directory r,
           mf_success_signal = fr_success_signal r, mf_help_text = build_help_text tool_name r,
           mf_skill_markdown = build_skill_markdown tool_name server r,
           mf_examples = fr_examples r, mf_version = 1, mf_lineage_key = capability_id,
           mf_status = (if risk = Risk_Low then Cap_Active else Cap_PendingVerification),
           mf_approval_status = approval, mf_health_score = initial_health_score risk,
           mf_scope = or_default (fr_scope r) Scope_TaskFamily, mf_tags = fr_tags r, mf_risk = risk,
           mf_requested_by = or_default (fr_requested_by r) ''cli-agent'',
           mf_created_at_ms = now_ms, mf_updated_at_ms = now_ms,
           mf_approved_at_ms = (if approval = Appr_Verified then Some now_ms else None),
           mf_rollback_to_version = None, mf_trust_status = Trust_Pending, mf_trust_findings = [],
           mf_artifact =
             \<lparr> at_artifact_id = ''artifact:'' @ capability_id @ '':'' @ show_word now_ms,
               at_digest_sha256 = show_hex16
                 (hash_seed h (capability_id @ '':'' @ command_template @ '':'' @ show_word now_ms)),
               at_source_uri = ''mcp://'' @ server @ ''/'' @ sanitize_segment (fr_capability_name r),
               at_build_epoch = now_ms \<rparr>,
           mf_signature = default_signature,
           mf_provenance =
             \<lparr> pv_source_repo = or_default (fr_source_repo r) ''autoloop/forged-capability'',
               pv_source_ref = or_default (fr_source_ref r) (CHR ''v'' # show_word now_ms),
               pv_builder = ''autoloop-cli-forge'',
               pv_generated_by = or_default (fr_requested_by r) ''cli-agent'' \<rparr>,
           mf_sbom =
             (if fr_sbom_components r = []
              then [\<lparr> sc_name = fr_executable r, sc_version = ''latest'', sc_source = ''local'',
                      sc_checksum = show_hex16 (hash_seed h (fr_executable r)) \<rparr>]
              else fr_sbom_components r),
           mf_trust_policy = default_trust_policy \<rparr>)"

definition with_findings :: "string list \<Rightarrow> ForgedMcpToolManifest \<Rightarrow> ForgedMcpToolManifest" where
  "with_findings findings m =
     (let m = m\<lparr> mf_trust_findings := findings,
                mf_trust_status := (if findings = [] then Trust_Trusted else Trust_Rejected) \<rparr>
      in if findings = [] then m
         else m\<lparr> mf_approval_status := Appr_Rejected, mf_status := Cap_PendingVerification \<rparr>)"

definition build_manifest ::
    "hasher \<Rightarrow> 64 word \<Rightarrow> string \<Rightarrow> string \<Rightarrow> McpToolForgeRequest \<Rightarrow> ForgedMcpToolManifest result" where
  "build_manifest h now_ms tool_name server r =
     (if trim (fr_executable r) = [] then Err ''executable must not be empty''
      else
        (let m = unsigned_manifest h now_ms tool_name server r;
             payload_hash = supply_chain_payload_hash h m;
             m = m\<lparr> mf_signature :=
               \<lparr> sg_signer = or_default (fr_signer r) ''autoloop-ci'', sg_algorithm = DeterministicV1,
                 sg_signed_payload_hash = payload_hash,
                 sg_signature = signature_value_for (sg_signer (mf_signature m)) DeterministicV1 payload_hash,
                 sg_signed_at_ms = now_ms \<rparr> \<rparr>
         in Ok (with_findings (manifest_findings h m) m)))"

section \<open>Invocation\<close>

definition parse_invocation :: "(string \<Rightarrow> string + json) \<Rightarrow> string \<Rightarrow> json result" where
  "parse_invocation parse arguments =
     (if trim arguments = [] then Ok (J_Object [])
      else (case parse arguments of
              Inl e \<Rightarrow> Err (''forged tool invocation must be valid JSON: '' @ e)
            | Inr v \<Rightarrow> (case v of J_Object m \<Rightarrow> Ok v
                       | _ \<Rightarrow> Err ''forged tool invocation must be a JSON object'')))"

fun render_value :: "(json \<Rightarrow> string) \<Rightarrow> json \<Rightarrow> string" where
  "render_value txt J_Null = ''null''"
| "render_value txt (J_Bool b) = show_bool b"
| "render_value txt (J_Number n) = show_word n"
| "render_value txt (J_Other_Number s) = s"
| "render_value txt (J_String s) = s"
| "render_value txt (J_Array vs) = join '','' (map (render_value txt) vs)"
| "render_value txt (J_Object m) = txt (J_Object m)"

definition shell_plain :: "char \<Rightarrow> bool" where
  "shell_plain c \<longleftrightarrow> ascii_alphanumeric c \<or> c \<in> set ''-_./:''"

definition double_quote :: char where
  "double_quote = CHR 0x22"

definition shell_escape :: "string \<Rightarrow> string" where
  "shell_escape s =
     (if list_all shell_plain s then s
      else [double_quote] @ str_replace s [double_quote] [CHR 0x5C, double_quote] @ [double_quote])"

definition argument_specs :: "ForgedMcpToolManifest \<Rightarrow> json list" where
  "argument_specs m =
     or_default (Option.bind (json_get (mf_payload_template m) ''arguments'') json_as_array) []"

definition spec_name :: "json \<Rightarrow> string result" where
  "spec_name spec = ok_or (Option.bind (json_get spec ''name'') json_as_str) ''argument schema missing name''"

definition spec_required :: "json \<Rightarrow> bool" where
  "spec_required spec = or_default (Option.bind (json_get spec ''required'') json_as_bool) False"

definition argument_value :: "(string \<times> json) list \<Rightarrow> string \<Rightarrow> json option" where
  "argument_value object name =
     (case map_of object name of Some v \<Rightarrow> Some v | None \<Rightarrow> map_of object (sanitize_segment name))"

fun render_arguments ::
    "(json \<Rightarrow> string) \<Rightarrow> (string \<times> json) list \<Rightarrow> json list \<Rightarrow> string \<Rightarrow> string result" where
  "render_arguments txt object [] rendered = Ok rendered"
| "render_arguments txt object (spec # specs) rendered =
     and_then (spec_name spec) (\<lambda>name.
       let key = sanitize_segment name; hole = placeholder key
       in case argument_value object name of
            Some v \<Rightarrow> render_arguments txt object specs
                        (str_replace rendered hole (shell_escape (render_value txt v)))
          | None \<Rightarrow>
              if spec_required spec then Err (''missing required forged tool argument: '' @ name)
              else render_arguments txt object specs
                     (str_replace rendered ('' --'' @ key @ '' '' @ hole) ''''))"

definition render_command ::
    "(json \<Rightarrow> string) \<Rightarrow> ForgedMcpToolManifest \<Rightarrow> json \<Rightarrow> string result" where
  "render_command txt m payload =
     (case payload of
        J_Object object \<Rightarrow> render_arguments txt object (argument_specs m) (mf_command_template m)
      | _ \<Rightarrow> Err ''forged tool invocation must be a JSON object'')"

fun keep_segments :: "string \<Rightarrow> string list \<Rightarrow> string list" where
  "keep_segments executable [] = []"
| "keep_segments executable (token # tokens) =
     (if token = executable then keep_segments executable tokens
      else if contains token ''{{'' then keep_segments executable tokens
      else if prefix ''--'' token \<and> (case tokens of t # _ \<Rightarrow> contains t ''{{'' | [] \<Rightarrow> False)
      then keep_segments executable (tl tokens)
      else token # keep_segments executable tokens)"

definition subcommand_segments :: "ForgedMcpToolManifest \<Rightarrow> string list" where
  "subcommand_segments m =
     (let command = trim (mf_command_template m); executable = trim (mf_executable m)
      in keep_segments executable (filter (\<lambda>segment. segment \<noteq> [])
           (split_whitespace (if prefix executable command then drop (length executable) command
                              else command))))"

record RenderedCommandSpec =
  rc_executable :: string
  rc_args :: "string list"
  rc_display_command :: string
  rc_working_directory :: "string option"

fun collect_args ::
    "(json \<Rightarrow> string) \<Rightarrow> (string \<times> json) list \<Rightarrow> json list \<Rightarrow> string list \<Rightarrow> string list result" where
  "collect_args txt object [] args = Ok args"
| "collect_args txt object (spec # specs) args =
     and_then (spec_name spec) (\<lambda>name.
       case argument_value object name of
         Some v \<Rightarrow> collect_args txt object specs
                     (args @ [''--'' @ sanitize_segment name, render_value txt v])
       | None \<Rightarrow>
           if spec_required spec then Err (''missing required forged tool argument: '' @ name)
           else collect_args txt object specs args)"

definition build_command_spec ::
    "(string \<Rightarrow> string + json) \<Rightarrow> (json \<Rightarrow> string) \<Rightarrow> ForgedMcpToolManifest \<Rightarrow> string \<Rightarrow>
     RenderedCommandSpec result" where
  "build_command_spec parse txt m arguments =
     and_then (parse_invocation parse arguments) (\<lambda>payload.
     and_then (render_command txt m payload) (\<lambda>rendered.
     and_then (case payload of J_Object object \<Rightarrow> Ok object
               | _ \<Rightarrow> Err ''forged tool invocation must be a JSON object'') (\<lambda>object.
     and_then (collect_args txt object (argument_specs m) (subcommand_segments m)) (\<lambda>args.
       Ok \<lparr> rc_executable = mf_executable m, rc_args = args, rc_display_command = rendered,
            rc_working_directory = mf_working_directory m \<rparr>))))"

end
