(* ===== verification/Registry.thy ===== *)
theory Registry
  imports Forge Listing
begin

text \<open>
  The tool registry, \<^verbatim>\<open>src/tools/mod.rs\<close>, with the tools of \<^verbatim>\<open>src/tools/cli_forge.rs\<close> that change it.
  The registry is one state that every operation returns updated; its hash maps are association lists
  without duplicate keys. serde_json at the types used, the hasher of the forge, the two file tools and
  the build profile are the fields of \<open>ToolHost\<close>; an operation reads the clock once, as \<open>now_ms\<close>.
\<close>

section \<open>Data\<close>

record ToolResult =
  tr_name :: string
  tr_content :: string

datatype tool =
    T_Stub string
  | T_Mcp_Adapter string string
  | T_Read_File
  | T_Write_File
  | T_Forge string
  | T_Catalog
  | T_Verifier
  | T_Deprecation
  | T_Rollback
  | T_Forged string ForgedMcpToolManifest

fun tool_name :: "tool \<Rightarrow> string" where
  "tool_name (T_Stub name) = name"
| "tool_name (T_Mcp_Adapter server name) = name"
| "tool_name T_Read_File = ''read_file''"
| "tool_name T_Write_File = ''write_file''"
| "tool_name (T_Forge default_server) = ''cli::forge_mcp_tool''"
| "tool_name T_Catalog = ''cli::list_forged_tools''"
| "tool_name T_Verifier = ''cli::verify_capability''"
| "tool_name T_Deprecation = ''cli::deprecate_capability''"
| "tool_name T_Rollback = ''cli::rollback_capability''"
| "tool_name (T_Forged name manifest) = name"

record CapabilityMutationRequest =
  mu_tool_name :: string
  mu_health_score :: "f32 option"

record ToolHost =
  ho_hasher :: hasher
  ho_manifest :: "ForgedMcpToolManifest codec"
  ho_parse :: "string \<Rightarrow> string + json"
  ho_text :: "json \<Rightarrow> string"
  ho_pretty :: "json \<Rightarrow> string"
  ho_pretty_manifest :: "ForgedMcpToolManifest \<Rightarrow> string"
  ho_pretty_manifests :: "ForgedMcpToolManifest list \<Rightarrow> string"
  ho_forge_request :: "string \<Rightarrow> string + McpToolForgeRequest"
  ho_mutation_request :: "string \<Rightarrow> string + CapabilityMutationRequest"
  ho_file_tool :: "tool \<Rightarrow> string \<Rightarrow> ToolResult result"
  ho_overflow_checks :: bool

record ToolRegistry =
  tg_tools :: "(string \<times> tool) list"
  tg_manifests :: "(string \<times> ForgedMcpToolManifest) list"
  tg_lineage_max_versions :: "(string \<times> 32 word) list"
  tg_state_store :: "KnowledgeTable option"
  tg_allow_shell :: bool

record ToolsConfig =
  tc_builtin :: "string list"
  tc_allow_shell :: bool
  tc_mcp_servers :: "string list"

section \<open>Registration\<close>

definition registry_register :: "tool \<Rightarrow> ToolRegistry \<Rightarrow> ToolRegistry" where
  "registry_register t reg = reg\<lparr> tg_tools := AList.update (tool_name t) t (tg_tools reg) \<rparr>"

definition builtin_tool :: "string \<Rightarrow> tool" where
  "builtin_tool name =
     (if name = ''read_file'' then T_Read_File
      else if name = ''write_file'' then T_Write_File
      else T_Stub name)"

definition from_config :: "ToolsConfig \<Rightarrow> ToolRegistry" where
  "from_config config =
     (let reg = \<lparr> tg_tools = [], tg_manifests = [], tg_lineage_max_versions = [], tg_state_store = None,
                  tg_allow_shell = tc_allow_shell config \<rparr>;
          default_server = (case tc_mcp_servers config of [] \<Rightarrow> ''local-mcp'' | server # _ \<Rightarrow> server)
      in fold registry_register
           (map builtin_tool (tc_builtin config) @
            map (\<lambda>server. T_Mcp_Adapter server (''mcp::'' @ server @ ''::invoke'')) (tc_mcp_servers config) @
            [T_Forge default_server, T_Catalog, T_Verifier, T_Deprecation, T_Rollback]) reg)"

definition registry_validate :: "ToolRegistry \<Rightarrow> unit result" where
  "registry_validate reg = (if tg_tools reg = [] then Err ''at least one tool must be registered'' else Ok ())"

definition get_tool :: "ToolRegistry \<Rightarrow> string \<Rightarrow> tool option" where
  "get_tool reg name = map_of (tg_tools reg) name"

definition get_manifest :: "ToolRegistry \<Rightarrow> string \<Rightarrow> ForgedMcpToolManifest option" where
  "get_manifest reg name = map_of (tg_manifests reg) name"

definition lineage_max :: "ToolRegistry \<Rightarrow> string \<Rightarrow> 32 word" where
  "lineage_max reg lineage_key = or_default (map_of (tg_lineage_max_versions reg) lineage_key) 0"

definition remove_tool :: "string \<Rightarrow> ToolRegistry \<Rightarrow> ToolRegistry" where
  "remove_tool name reg = reg\<lparr> tg_tools := AList.delete name (tg_tools reg) \<rparr>"

definition register_manifest :: "ForgedMcpToolManifest \<Rightarrow> ToolRegistry \<Rightarrow> ToolRegistry" where
  "register_manifest m reg =
     reg\<lparr> tg_lineage_max_versions :=
            AList.update (mf_lineage_key m) (max (lineage_max reg (mf_lineage_key m)) (mf_version m))
              (tg_lineage_max_versions reg),
          tg_manifests := AList.update (mf_registered_tool_name m) m (tg_manifests reg) \<rparr>"

definition attach_state_store :: "KnowledgeTable \<Rightarrow> ToolRegistry \<Rightarrow> ToolRegistry" where
  "attach_state_store db reg = reg\<lparr> tg_state_store := Some db \<rparr>"

definition manifests :: "ToolRegistry \<Rightarrow> ForgedMcpToolManifest list" where
  "manifests reg = sort_key mf_registered_tool_name (map snd (tg_manifests reg))"

definition forged_tool_names :: "ToolRegistry \<Rightarrow> string list" where
  "forged_tool_names reg = map mf_registered_tool_name (filter is_executable (manifests reg))"

definition tool_names :: "ToolRegistry \<Rightarrow> string list" where
  "tool_names reg = sort (map fst (tg_tools reg))"

definition mcp_tool_names :: "ToolRegistry \<Rightarrow> string list" where
  "mcp_tool_names reg = filter (prefix ''mcp::'') (tool_names reg)"

definition hydrate_manifest :: "ForgedMcpToolManifest \<Rightarrow> ToolRegistry \<Rightarrow> ToolRegistry" where
  "hydrate_manifest m reg =
     register_manifest m
       (if mf_status m \<noteq> Cap_Deprecated \<and> mf_status m \<noteq> Cap_RolledBack
        then registry_register (T_Forged (mf_registered_tool_name m) m) reg
        else reg)"

section \<open>Persistence\<close>

definition FORGED_TOOL_PREFIX :: string where
  "FORGED_TOOL_PREFIX = ''tooling:forged:''"

definition persist_manifest ::
    "ToolHost \<Rightarrow> ForgedMcpToolManifest \<Rightarrow> ToolRegistry \<Rightarrow> ToolRegistry \<times> unit result" where
  "persist_manifest ho m reg =
     (case tg_state_store reg of
        None \<Rightarrow> (reg, Ok ())
      | Some db \<Rightarrow>
         (case upsert_json_knowledge (ho_manifest ho) db
                 (FORGED_TOOL_PREFIX @ mf_registered_tool_name m) m ''cli-forge'' of
            (db, Inl e) \<Rightarrow> (reg\<lparr> tg_state_store := Some db \<rparr>, Inl e)
          | (db, Inr _) \<Rightarrow> (reg\<lparr> tg_state_store := Some db \<rparr>, Ok ())))"

fun hydrate_records ::
    "ToolHost \<Rightarrow> KnowledgeRecord list \<Rightarrow> nat \<Rightarrow> ToolRegistry \<Rightarrow> ToolRegistry \<times> nat result" where
  "hydrate_records ho [] restored reg = (reg, Ok restored)"
| "hydrate_records ho (record # records) restored reg =
     (case snd (ho_manifest ho) (kr_value record) of
        Inl e \<Rightarrow> (reg, Err e)
      | Inr m \<Rightarrow> hydrate_records ho records (restored + 1) (hydrate_manifest m reg))"

definition restore_persisted_manifests :: "ToolHost \<Rightarrow> ToolRegistry \<Rightarrow> ToolRegistry \<times> nat result" where
  "restore_persisted_manifests ho reg =
     (case tg_state_store reg of
        None \<Rightarrow> (reg, Ok 0)
      | Some db \<Rightarrow> hydrate_records ho (list_knowledge_by_prefix db FORGED_TOOL_PREFIX) 0 reg)"

section \<open>Governance of capabilities\<close>

definition registry_findings :: "ToolHost \<Rightarrow> ToolRegistry \<Rightarrow> ForgedMcpToolManifest \<Rightarrow> string list" where
  "registry_findings ho reg m =
     (let lineage_max_verified = lineage_max reg (mf_lineage_key m)
      in manifest_findings (ho_hasher ho) m @
         (if 0 < lineage_max_verified \<and> mf_version m < lineage_max_verified
          then [''version rollback detected: '' @ show_word (mf_version m) @ '' < trusted '' @
                show_word lineage_max_verified] else []) @
         (if trim (pv_source_ref (mf_provenance m)) = [] then [''provenance source_ref missing''] else []))"

definition upsert_governed_manifest ::
    "ToolHost \<Rightarrow> ForgedMcpToolManifest \<Rightarrow> ToolRegistry \<Rightarrow> ToolRegistry \<times> unit result" where
  "upsert_governed_manifest ho m reg =
     (let m = (if mf_lineage_key m = [] then m\<lparr> mf_lineage_key := mf_capability_id m \<rparr> else m);
          versions = map mf_version (filter (\<lambda>e. mf_lineage_key e = mf_lineage_key m) (manifests reg))
      in case checked_plus (ho_overflow_checks ho) (fold max versions 0) 1 of
           Inl e \<Rightarrow> (reg, Inl e)
         | Inr next_version \<Rightarrow>
            (let m = m\<lparr> mf_version := next_version,
                       mf_updated_at_ms := max (mf_updated_at_ms m) (mf_created_at_ms m) \<rparr>;
                 m = (if mf_capability_id m = []
                      then m\<lparr> mf_capability_id := mf_lineage_key m @ '':v'' @ show_word (mf_version m) \<rparr>
                      else m);
                 m = with_findings (registry_findings ho reg m) m
             in persist_manifest ho m (hydrate_manifest m reg)))"

definition verify_capability ::
    "ToolHost \<Rightarrow> 64 word \<Rightarrow> string \<Rightarrow> ToolRegistry \<Rightarrow> ToolRegistry \<times> ForgedMcpToolManifest option result" where
  "verify_capability ho now_ms name reg =
     (case get_manifest reg name of
        None \<Rightarrow> (reg, Ok None)
      | Some m \<Rightarrow>
         (let findings = registry_findings ho reg m
          in if findings \<noteq> [] then
               (let m = with_findings findings m\<lparr> mf_updated_at_ms := now_ms \<rparr>
                in then_do (persist_manifest ho m (register_manifest m reg)) (\<lambda>reg _.
                     (reg, Err (''capability '' @ [CHR 0x27] @ name @ [CHR 0x27] @
                                '' failed trusted supply-chain verification: '' @ join ''; '' findings))))
             else
               (let m = m\<lparr> mf_trust_findings := findings, mf_status := Cap_Active,
                          mf_approval_status := Appr_Verified, mf_trust_status := Trust_Trusted,
                          mf_health_score := max (mf_health_score m) (round_f32 (8 / 10)),
                          mf_approved_at_ms := Some now_ms, mf_updated_at_ms := now_ms \<rparr>
                in then_do (persist_manifest ho m (hydrate_manifest m reg)) (\<lambda>reg _. (reg, Ok (Some m))))))"

definition deprecate_capability ::
    "ToolHost \<Rightarrow> 64 word \<Rightarrow> string \<Rightarrow> f32 \<Rightarrow> ToolRegistry \<Rightarrow>
     ToolRegistry \<times> ForgedMcpToolManifest option result" where
  "deprecate_capability ho now_ms name health_score reg =
     (case get_manifest reg name of
        None \<Rightarrow> (reg, Ok None)
      | Some m \<Rightarrow>
         (let m = m\<lparr> mf_status := Cap_Deprecated, mf_health_score := health_score,
                    mf_updated_at_ms := now_ms \<rparr>
          in then_do (persist_manifest ho m (register_manifest m (remove_tool name reg)))
               (\<lambda>reg _. (reg, Ok (Some m)))))"

text \<open>\<^verbatim>\<open>max_by_key\<close> returns the last of the greatest elements.\<close>

definition max_by_version :: "ForgedMcpToolManifest list \<Rightarrow> ForgedMcpToolManifest option" where
  "max_by_version ms =
     fold (\<lambda>m best. case best of
        None \<Rightarrow> Some m
      | Some b \<Rightarrow> if mf_version b \<le> mf_version m then Some m else Some b) ms None"

definition precedes :: "bool \<Rightarrow> ForgedMcpToolManifest \<Rightarrow> ForgedMcpToolManifest \<Rightarrow> bool result" where
  "precedes oc current m =
     (if mf_lineage_key m = mf_lineage_key current
      then and_then (checked_plus oc (mf_version m) 1) (\<lambda>v. Ok (v = mf_version current))
      else Ok False)"

fun filter_result :: "('a \<Rightarrow> bool result) \<Rightarrow> 'a list \<Rightarrow> 'a list result" where
  "filter_result f [] = Ok []"
| "filter_result f (x # xs) =
     and_then (f x) (\<lambda>b. and_then (filter_result f xs) (\<lambda>ys. Ok (if b then x # ys else ys)))"

definition rollback_capability ::
    "ToolHost \<Rightarrow> 64 word \<Rightarrow> string \<Rightarrow> ToolRegistry \<Rightarrow> ToolRegistry \<times> ForgedMcpToolManifest option result" where
  "rollback_capability ho now_ms name reg =
     (case get_manifest reg name of
        None \<Rightarrow> (reg, Ok None)
      | Some current \<Rightarrow>
         (case filter_result (precedes (ho_overflow_checks ho) current) (manifests reg) of
            Inl e \<Rightarrow> (reg, Inl e)
          | Inr candidates \<Rightarrow>
             (case max_by_version candidates of
                None \<Rightarrow> (reg, Ok None)
              | Some previous \<Rightarrow>
                 (let current = current\<lparr> mf_status := Cap_RolledBack,
                        mf_rollback_to_version := Some (mf_version previous),
                        mf_updated_at_ms := now_ms \<rparr>
                  in then_do (persist_manifest ho current (register_manifest current (remove_tool name reg)))
                       (\<lambda>reg _.
                         let previous = previous\<lparr> mf_status := Cap_Active,
                               mf_approval_status := Appr_Verified, mf_updated_at_ms := now_ms \<rparr>
                         in then_do (persist_manifest ho previous (hydrate_manifest previous reg))
                              (\<lambda>reg _. (reg, Ok (Some previous))))))))"

fun retire_candidates ::
    "ToolHost \<Rightarrow> 64 word \<Rightarrow> ForgedMcpToolManifest list \<Rightarrow> ForgedMcpToolManifest list \<Rightarrow> ToolRegistry \<Rightarrow>
     ToolRegistry \<times> ForgedMcpToolManifest list result" where
  "retire_candidates ho now_ms [] changed reg = (reg, Ok changed)"
| "retire_candidates ho now_ms (c # cs) changed reg =
     then_do (rollback_capability ho now_ms (mf_registered_tool_name c) reg) (\<lambda>reg rolled_back.
       case rolled_back of
         Some m \<Rightarrow> retire_candidates ho now_ms cs (changed @ [m]) reg
       | None \<Rightarrow>
           then_do (deprecate_capability ho now_ms (mf_registered_tool_name c)
                      (min (mf_health_score c) (round_f32 (35 / 100))) reg) (\<lambda>reg deprecated.
             retire_candidates ho now_ms cs
               (changed @ (case deprecated of Some m \<Rightarrow> [m] | None \<Rightarrow> [])) reg))"

definition auto_retire_unhealthy_capabilities ::
    "ToolHost \<Rightarrow> 64 word \<Rightarrow> ToolRegistry \<Rightarrow> ToolRegistry \<times> ForgedMcpToolManifest list result" where
  "auto_retire_unhealthy_capabilities ho now_ms reg =
     retire_candidates ho now_ms
       (filter (\<lambda>m. mf_status m = Cap_Active \<and> mf_approval_status m = Appr_Verified \<and>
                    mf_health_score m < round_f32 (45 / 100)) (manifests reg)) [] reg"

section \<open>Lifecycle report\<close>

record CapabilityLifecycleEntry =
  le_tool_name :: string
  le_lineage_key :: string
  le_active_version :: "32 word option"
  le_latest_version :: "32 word"
  le_stable_version :: "32 word option"
  le_deprecated_versions :: "32 word list"
  le_rolled_back_versions :: "32 word list"
  le_average_health :: f32
  le_status_summary :: string

record CapabilityLifecycleReport =
  lr_total_lineages :: nat
  lr_active_capabilities :: nat
  lr_deprecated_capabilities :: nat
  lr_rollback_ready_capabilities :: nat
  lr_entries :: "CapabilityLifecycleEntry list"

definition average_health :: "ForgedMcpToolManifest list \<Rightarrow> f32" where
  "average_health ms =
     (if ms = [] then 0
      else round_f32 (foldl (\<lambda>acc m. round_f32 (acc + mf_health_score m)) 0 ms /
                      round_f32 (of_nat (length ms))))"

definition lifecycle_entry :: "string \<Rightarrow> ForgedMcpToolManifest list \<Rightarrow> CapabilityLifecycleEntry" where
  "lifecycle_entry lineage_key lineage =
     (let ms = sort_key mf_version lineage;
          active = find (\<lambda>m. mf_status m = Cap_Active) ms;
          stable_version = map_option mf_version (max_by_version (filter (\<lambda>m. mf_status m = Cap_Active \<and>
            mf_approval_status m = Appr_Verified \<and> round_f32 (7 / 10) \<le> mf_health_score m) ms))
      in \<lparr> le_tool_name =
             (case active of
                Some m \<Rightarrow> mf_registered_tool_name m
              | None \<Rightarrow> if ms = [] then lineage_key else mf_registered_tool_name (last ms)),
           le_lineage_key = lineage_key,
           le_active_version = map_option mf_version active,
           le_latest_version = (if ms = [] then 1 else mf_version (last ms)),
           le_stable_version = stable_version,
           le_deprecated_versions = map mf_version (filter (\<lambda>m. mf_status m = Cap_Deprecated) ms),
           le_rolled_back_versions = map mf_version (filter (\<lambda>m. mf_status m = Cap_RolledBack) ms),
           le_average_health = average_health ms,
           le_status_summary =
             (if active = None then ''no active version''
              else if stable_version \<noteq> None then ''active and rollback-ready''
              else ''active but unstable'') \<rparr>)"

text \<open>
  The groups of one lineage come in the order of a hash map; the sort by tool name fixes it, but for
  entries with one tool name.
\<close>

definition lifecycle_report :: "ToolRegistry \<Rightarrow> CapabilityLifecycleReport" where
  "lifecycle_report reg =
     (let ms = manifests reg;
          entries = sort_key le_tool_name
            (map (\<lambda>key. lifecycle_entry key (filter (\<lambda>m. mf_lineage_key m = key) ms))
                 (remdups (map mf_lineage_key ms)))
      in \<lparr> lr_total_lineages = length entries,
           lr_active_capabilities = length (filter (\<lambda>e. le_active_version e \<noteq> None) entries),
           lr_deprecated_capabilities = length (filter (\<lambda>e. le_deprecated_versions e \<noteq> []) entries),
           lr_rollback_ready_capabilities = length (filter (\<lambda>e. le_stable_version e \<noteq> None) entries),
           lr_entries = entries \<rparr>)"

section \<open>Running a tool\<close>

definition forge_mcp_tool ::
    "ToolHost \<Rightarrow> 64 word \<Rightarrow> string \<Rightarrow> string \<Rightarrow> ToolRegistry \<Rightarrow> ToolRegistry \<times> ToolResult result" where
  "forge_mcp_tool ho now_ms default_server arguments reg =
     (case ho_forge_request ho arguments of
        Inl e \<Rightarrow> (reg, Err (''forge request must be valid JSON: '' @ e))
      | Inr request \<Rightarrow>
         (let server = or_default (fr_server request) default_server;
              capability_slug = sanitize_segment (fr_capability_name request)
          in if capability_slug = [] then
               (reg, Err ''capability_name must contain at least one alphanumeric character'')
             else case build_manifest (ho_hasher ho) now_ms (''mcp::'' @ server @ ''::'' @ capability_slug)
                         server request of
               Inl e \<Rightarrow> (reg, Inl e)
             | Inr m \<Rightarrow>
                 then_do (upsert_governed_manifest ho m reg) (\<lambda>reg _.
                   (reg, Ok \<lparr> tr_name = ''cli::forge_mcp_tool'', tr_content = ho_pretty_manifest ho m \<rparr>))))"

definition mutate_capability ::
    "ToolHost \<Rightarrow> string \<Rightarrow> string \<Rightarrow>
     (CapabilityMutationRequest \<Rightarrow> ToolRegistry \<Rightarrow> ToolRegistry \<times> ForgedMcpToolManifest option result) \<Rightarrow>
     string \<Rightarrow> ToolRegistry \<Rightarrow> ToolRegistry \<times> ToolResult result" where
  "mutate_capability ho name unknown change arguments reg =
     (case ho_mutation_request ho arguments of
        Inl e \<Rightarrow> (reg, Err e)
      | Inr request \<Rightarrow>
          then_do (change request reg) (\<lambda>reg changed.
            (reg, and_then (ok_or changed (unknown @ mu_tool_name request)) (\<lambda>m.
               Ok \<lparr> tr_name = name, tr_content = ho_pretty_manifest ho m \<rparr>))))"

definition invoke_forged :: "ToolHost \<Rightarrow> string \<Rightarrow> ForgedMcpToolManifest \<Rightarrow> string \<Rightarrow> ToolResult result" where
  "invoke_forged ho name m arguments =
     and_then (parse_invocation (ho_parse ho) arguments) (\<lambda>payload.
     and_then (render_command (ho_text ho) m payload) (\<lambda>rendered_command.
       Ok \<lparr> tr_name = name,
            tr_content = ho_pretty ho (J_Object
              [(''arguments'', payload),
               (''capability_name'', J_String (mf_capability_name m)),
               (''command'', J_String rendered_command),
               (''delegate_tool'', J_String (mf_delegate_tool_name m)),
               (''help_text'', J_String (mf_help_text m)),
               (''output_mode'', J_String (output_mode_name (mf_output_mode m))),
               (''server'', J_String (mf_server m)),
               (''success_signal'', json_opt_str (mf_success_signal m)),
               (''working_directory'', json_opt_str (mf_working_directory m))]) \<rparr>))"

fun run_tool ::
    "ToolHost \<Rightarrow> 64 word \<Rightarrow> tool \<Rightarrow> string \<Rightarrow> ToolRegistry \<Rightarrow> ToolRegistry \<times> ToolResult result" where
  "run_tool ho now_ms (T_Stub name) arguments reg =
     (reg, Ok \<lparr> tr_name = name, tr_content = ''[tool:'' @ name @ ''] '' @ arguments \<rparr>)"
| "run_tool ho now_ms (T_Mcp_Adapter server name) arguments reg =
     (reg, Ok \<lparr> tr_name = name,
                tr_content = ''[mcp-tool:'' @ server @ '':'' @ name @ ''] '' @ arguments \<rparr>)"
| "run_tool ho now_ms T_Read_File arguments reg = (reg, ho_file_tool ho T_Read_File arguments)"
| "run_tool ho now_ms T_Write_File arguments reg = (reg, ho_file_tool ho T_Write_File arguments)"
| "run_tool ho now_ms (T_Forge default_server) arguments reg =
     forge_mcp_tool ho now_ms default_server arguments reg"
| "run_tool ho now_ms T_Catalog arguments reg =
     (let requested_server = trim arguments
      in (reg, Ok \<lparr> tr_name = ''cli::list_forged_tools'',
                    tr_content = ho_pretty_manifests ho
                      (filter (\<lambda>m. requested_server = [] \<or> mf_server m = requested_server)
                         (manifests reg)) \<rparr>))"
| "run_tool ho now_ms T_Verifier arguments reg =
     mutate_capability ho ''cli::verify_capability'' ''unknown capability: ''
       (\<lambda>request. verify_capability ho now_ms (mu_tool_name request)) arguments reg"
| "run_tool ho now_ms T_Deprecation arguments reg =
     mutate_capability ho ''cli::deprecate_capability'' ''unknown capability: ''
       (\<lambda>request. deprecate_capability ho now_ms (mu_tool_name request)
                    (or_default (mu_health_score request) (1 / 4))) arguments reg"
| "run_tool ho now_ms T_Rollback arguments reg =
     mutate_capability ho ''cli::rollback_capability'' ''no rollback target for capability: ''
       (\<lambda>request. rollback_capability ho now_ms (mu_tool_name request)) arguments reg"
| "run_tool ho now_ms (T_Forged name manifest) arguments reg = (reg, invoke_forged ho name manifest arguments)"

definition admit_manifest :: "string \<Rightarrow> ForgedMcpToolManifest \<Rightarrow> unit result" where
  "admit_manifest name m =
     and_then (ensure (is_executable m)
       (''capability '' @ [CHR 0x27] @ name @ [CHR 0x27] @ '' is not executable: status='' @
        debug_capability_status (mf_status m) @ '' approval='' @ debug_approval (mf_approval_status m) @
        '' health='' @ show_fixed 2 (mf_health_score m))) (\<lambda>_.
     ensure (mf_trust_status m = Trust_Trusted)
       (''capability '' @ [CHR 0x27] @ name @ [CHR 0x27] @ '' is not trusted: trust_status='' @
        debug_trust (mf_trust_status m) @ '' findings='' @ join ''; '' (mf_trust_findings m)))"

definition execute_tool ::
    "ToolHost \<Rightarrow> 64 word \<Rightarrow> string \<Rightarrow> string \<Rightarrow> ToolRegistry \<Rightarrow> ToolRegistry \<times> ToolResult result" where
  "execute_tool ho now_ms name arguments reg =
     (case (case get_manifest reg name of Some m \<Rightarrow> admit_manifest name m | None \<Rightarrow> Ok ()) of
        Inl e \<Rightarrow> (reg, Inl e)
      | Inr _ \<Rightarrow>
         (case get_tool reg name of
            None \<Rightarrow> (reg, Err (''unknown tool: '' @ name))
          | Some t \<Rightarrow> run_tool ho now_ms t arguments reg))"

section \<open>Plans and file arguments\<close>

datatype ToolExecutionStep =
    Apply_Patch string string
  | Run_Command string "64 word"
  | Parse_Metrics string
  | Keep
  | Discard
  | Rollback_Step string

record ExecutionStepResult =
  es_action :: ToolExecutionStep
  es_succeeded :: bool
  es_details :: string

fun step_details :: "ToolExecutionStep \<Rightarrow> string" where
  "step_details (Apply_Patch target summary) = ''Prepared patch for '' @ target @ '': '' @ summary"
| "step_details (Run_Command command timeout_secs) =
     ''Scheduled run `'' @ command @ ''` with timeout '' @ show_word timeout_secs @ ''s''"
| "step_details (Parse_Metrics source) = ''Parsed immutable metrics from '' @ source"
| "step_details Keep = ''Iteration marked as keep''"
| "step_details Discard = ''Iteration marked as discard''"
| "step_details (Rollback_Step reason) = ''Rollback requested: '' @ reason"

definition execute_plan :: "ToolExecutionStep list \<Rightarrow> ExecutionStepResult list result" where
  "execute_plan actions =
     Ok (map (\<lambda>a. \<lparr> es_action = a, es_succeeded = True, es_details = step_details a \<rparr>) actions)"

definition extract_path_field :: "json \<Rightarrow> string option" where
  "extract_path_field v =
     (let field = (case json_get v ''path'' of Some x \<Rightarrow> Some x
            | None \<Rightarrow> (case json_get v ''file_path'' of Some x \<Rightarrow> Some x
            | None \<Rightarrow> json_get v ''target_path''))
      in case map_option trim (Option.bind field json_as_str) of
           Some p \<Rightarrow> if p = [] then None else Some p
         | None \<Rightarrow> None)"

definition unquote :: "string \<Rightarrow> string" where
  "unquote s = trim_matches (CHR 0x27) (trim_matches double_quote (trim s))"

definition parse_path_argument :: "(string \<Rightarrow> string + json) \<Rightarrow> string \<Rightarrow> string result" where
  "parse_path_argument parse arguments =
     (case (case parse arguments of Inr v \<Rightarrow> extract_path_field v | Inl _ \<Rightarrow> None) of
        Some path \<Rightarrow> Ok path
      | None \<Rightarrow>
          if unquote arguments = [] then Err ''read_file requires a non-empty path argument''
          else Ok (unquote arguments))"

definition parse_write_arguments ::
    "(string \<Rightarrow> string + json) \<Rightarrow> string \<Rightarrow> (string \<times> string \<times> bool) result" where
  "parse_write_arguments parse arguments =
     (case (case parse arguments of
              Inr v \<Rightarrow> map_option (\<lambda>path. (path, v)) (extract_path_field v) | Inl _ \<Rightarrow> None) of
        Some (path, v) \<Rightarrow>
          (let content = (case json_get v ''content'' of Some x \<Rightarrow> Some x
                 | None \<Rightarrow> (case json_get v ''text'' of Some x \<Rightarrow> Some x
                 | None \<Rightarrow> json_get v ''body''))
           in Ok (path, or_default (Option.bind content json_as_str) [],
                  or_default (Option.bind (json_get v ''append'') json_as_bool) False))
      | None \<Rightarrow>
         (case find_str arguments [newline] of
            Some i \<Rightarrow>
              if unquote (take i arguments) \<noteq> []
              then Ok (unquote (take i arguments), drop (i + 1) arguments, False)
              else Err ''write_file expects JSON arguments with path and content''
          | None \<Rightarrow> Err ''write_file expects JSON arguments with path and content''))"

end
