(* ===== verification/Forge_Commands.thy ===== *)
theory Forge_Commands
  imports Forge
begin

text \<open>
  The command a forged capability runs: the form of the names, and for a manifest that
  \<^verbatim>\<open>build_manifest\<close> returned, when an invocation is accepted and which argument vector it gives.
\<close>

section \<open>Names\<close>

definition slug_char :: "char \<Rightarrow> bool" where
  "slug_char c \<longleftrightarrow> c = CHR ''-'' \<or> ascii_alphanumeric c \<and> ascii_lower c = c"

definition slug :: "string \<Rightarrow> bool" where
  "slug s \<longleftrightarrow> list_all slug_char s \<and> \<not> contains s ''--'' \<and> \<not> prefix ''-'' s \<and> \<not> suffix ''-'' s"

lemma ascii_lower_alphanumeric [simp]:
  assumes "ascii_alphanumeric c"
  shows "ascii_alphanumeric (ascii_lower c)" "ascii_lower (ascii_lower c) = ascii_lower c"
  using assms by (auto simp: ascii_alphanumeric_def ascii_lower_def byte_def Let_def)

lemma dash_not_alphanumeric [simp]: "\<not> ascii_alphanumeric (CHR ''-'')"
  by (simp add: ascii_alphanumeric_def byte_def)

lemma sanitize_run_form:
  "list_all slug_char (sanitize_run p s) \<and> \<not> contains (sanitize_run p s) ''--'' \<and>
   (p \<longrightarrow> \<not> prefix ''-'' (sanitize_run p s))"
proof (induction p s rule: sanitize_run.induct)
  case (2 p c s)
  have "ascii_alphanumeric c \<Longrightarrow> ascii_lower c \<noteq> CHR ''-''"
    using ascii_lower_alphanumeric(1) [of c] by (metis dash_not_alphanumeric)
  with 2 show ?case by (auto simp: slug_char_def)
qed simp

lemma trim_matches_sublist: "sublist (trim_matches d s) s"
proof -
  let ?t = "dropWhile (\<lambda>c. c = d) s"
  have "suffix (rev (trim_matches d s)) (rev ?t)"
    unfolding trim_matches_def by (simp add: suffix_dropWhile)
  then have "prefix (trim_matches d s) ?t" by (simp add: suffix_to_prefix)
  moreover have "suffix ?t s" by (rule suffix_dropWhile)
  ultimately show ?thesis
    by (meson prefix_imp_sublist suffix_imp_sublist sublist_order.order_trans)
qed

lemma trim_matches_ends: "\<not> prefix [d] (trim_matches d s)" "\<not> suffix [d] (trim_matches d s)"
proof -
  let ?t = "dropWhile (\<lambda>c. c = d) s" and ?u = "trim_matches d s"
  have hd: "\<not> prefix [d] (dropWhile (\<lambda>c. c = d) t)" for t
    by (induction t) auto
  then show "\<not> suffix [d] ?u"
    unfolding trim_matches_def by (simp add: suffix_to_prefix)
  have "prefix ?u ?t" unfolding trim_matches_def
    by (metis rev_rev_ident suffix_dropWhile suffix_to_prefix)
  then show "\<not> prefix [d] ?u" using hd prefix_order.order_trans by blast
qed

lemma slug_sanitize_segment: "slug (sanitize_segment s)"
proof -
  let ?t = "sanitize_run False s"
  have sub: "sublist (sanitize_segment s) ?t"
    unfolding sanitize_segment_def by (rule trim_matches_sublist)
  have "list_all slug_char (sanitize_segment s)"
    using sanitize_run_form [of False s] set_mono_sublist [OF sub] by (auto simp: list_all_iff)
  moreover have "\<not> contains (sanitize_segment s) ''--''"
    using sanitize_run_form [of False s] sub sublist_order.order_trans
    unfolding contains_iff_sublist by blast
  ultimately show ?thesis
    unfolding slug_def sanitize_segment_def by (simp add: trim_matches_ends)
qed

lemma sanitize_run_slug:
  "list_all slug_char s \<Longrightarrow> \<not> contains s ''--'' \<Longrightarrow> p \<longrightarrow> \<not> prefix ''-'' s \<Longrightarrow> sanitize_run p s = s"
  by (induction p s rule: sanitize_run.induct) (auto simp: slug_char_def)

lemma trim_matches_id:
  assumes "\<not> prefix [d] s" "\<not> suffix [d] s"
  shows "trim_matches d s = s"
proof -
  have id: "\<not> prefix [d] t \<Longrightarrow> dropWhile (\<lambda>c. c = d) t = t" for t by (cases t) auto
  show ?thesis using assms unfolding trim_matches_def by (simp add: id suffix_to_prefix)
qed

lemma sanitize_slug: "slug s \<Longrightarrow> sanitize_segment s = s"
  by (simp add: slug_def sanitize_segment_def sanitize_run_slug trim_matches_id)

text \<open>
  The names of capabilities and arguments are normalised once and for all: what
  \<^verbatim>\<open>sanitize_segment\<close> leaves unchanged are exactly the lower-case alphanumeric words joined by
  single dashes, and every result is one of them.
\<close>

lemma sanitize_segment_normalises:
  "slug (sanitize_segment s) \<and> (sanitize_segment s = s \<longleftrightarrow> slug s)"
  using slug_sanitize_segment sanitize_slug by metis

lemma slug_char_byte: "slug_char c \<Longrightarrow> 45 \<le> byte c \<and> byte c \<le> 122"
proof -
  have "byte (CHR ''-'') = 45" by (simp add: byte_def)
  moreover assume "slug_char c"
  ultimately show ?thesis unfolding slug_char_def ascii_alphanumeric_def by auto
qed

lemma slug_graphic: "slug s \<Longrightarrow> list_all graphic s"
  unfolding slug_def graphic_def by (auto dest: slug_char_byte elim!: list.pred_mono_strong)

lemma slug_no_brace: "slug s \<Longrightarrow> CHR ''{'' \<notin> set s"
proof
  assume "slug s" "CHR ''{'' \<in> set s"
  then have "byte (CHR ''{'') \<le> 122" unfolding slug_def list_all_iff using slug_char_byte by blast
  then show False by (simp add: byte_def)
qed

section \<open>Forged manifests\<close>

lemma with_findings_fields [simp]:
  "mf_payload_template (with_findings fs m) = mf_payload_template m"
  "mf_executable (with_findings fs m) = mf_executable m"
  "mf_command_template (with_findings fs m) = mf_command_template m"
  "mf_registered_tool_name (with_findings fs m) = mf_registered_tool_name m"
  "mf_capability_id (with_findings fs m) = mf_capability_id m"
  "mf_lineage_key (with_findings fs m) = mf_lineage_key m"
  "mf_working_directory (with_findings fs m) = mf_working_directory m"
  "mf_version (with_findings fs m) = mf_version m"
  by (simp_all add: with_findings_def Let_def)

lemma unsigned_manifest_fields [simp]:
  "mf_payload_template (unsigned_manifest h now_ms tool_name server r) = payload_template_for server r"
  "mf_executable (unsigned_manifest h now_ms tool_name server r) = fr_executable r"
  "mf_command_template (unsigned_manifest h now_ms tool_name server r) = build_command_template r"
  "mf_registered_tool_name (unsigned_manifest h now_ms tool_name server r) = tool_name"
  "mf_capability_id (unsigned_manifest h now_ms tool_name server r) =
     server @ '':'' @ sanitize_segment (fr_capability_name r)"
  "mf_lineage_key (unsigned_manifest h now_ms tool_name server r) =
     server @ '':'' @ sanitize_segment (fr_capability_name r)"
  "mf_working_directory (unsigned_manifest h now_ms tool_name server r) = fr_working_directory r"
  "mf_version (unsigned_manifest h now_ms tool_name server r) = 1"
  by (simp_all add: unsigned_manifest_def Let_def)

lemma build_manifest_shape:
  assumes "build_manifest h now_ms tool_name server r = Inr m"
  obtains fs sg where "m = with_findings fs (unsigned_manifest h now_ms tool_name server r\<lparr> mf_signature := sg \<rparr>)"
proof -
  have "\<exists>fs sg. m = with_findings fs (unsigned_manifest h now_ms tool_name server r\<lparr> mf_signature := sg \<rparr>)"
    using assms unfolding build_manifest_def Let_def by (metis Inr_inject old.sum.distinct(1))
  then show thesis using that by blast
qed

lemma build_manifest_fields:
  assumes "build_manifest h now_ms tool_name server r = Inr m"
  shows "mf_payload_template m = payload_template_for server r" "mf_executable m = fr_executable r"
    "mf_command_template m = build_command_template r" "mf_registered_tool_name m = tool_name"
    "mf_capability_id m = server @ '':'' @ sanitize_segment (fr_capability_name r)"
    "mf_lineage_key m = server @ '':'' @ sanitize_segment (fr_capability_name r)"
    "mf_working_directory m = fr_working_directory r" "mf_version m = 1"
  by (rule build_manifest_shape [OF assms], simp)+

lemma argument_specs_forged:
  "build_manifest h now_ms tool_name server r = Inr m \<Longrightarrow>
   argument_specs m = map argument_schema (fr_arguments r)"
  by (simp add: argument_specs_def build_manifest_fields payload_template_for_def or_default_def)

lemma argument_schema_fields [simp]:
  "spec_name (argument_schema a) = Inr (fa_name a)"
  "spec_required (argument_schema a) = fa_required a"
  by (simp_all add: spec_name_def spec_required_def argument_schema_def or_default_def)

definition missing :: "(string \<times> json) list \<Rightarrow> McpToolForgeRequest \<Rightarrow> ForgeArgumentSpec option" where
  "missing object r = find (\<lambda>a. fa_required a \<and> argument_value object (fa_name a) = None) (fr_arguments r)"

abbreviation missing_error :: "ForgeArgumentSpec \<Rightarrow> error" where
  "missing_error a \<equiv> Anyhow (''missing required forged tool argument: '' @ fa_name a)"

lemma render_arguments_schema:
  "find (\<lambda>a. fa_required a \<and> argument_value object (fa_name a) = None) xs = None \<Longrightarrow>
     is_ok (render_arguments txt object (map argument_schema xs) rendered)"
  "find (\<lambda>a. fa_required a \<and> argument_value object (fa_name a) = None) xs = Some a \<Longrightarrow>
     render_arguments txt object (map argument_schema xs) rendered = Inl (missing_error a)"
proof (induction xs arbitrary: rendered)
  case (Cons x xs)
  { case 1 then show ?case using Cons
      by (cases "argument_value object (fa_name x)") (simp_all add: Let_def split: if_splits) }
  { case 2 then show ?case using Cons
      by (cases "argument_value object (fa_name x)") (simp_all add: Let_def split: if_splits) }
qed simp_all

text \<open>
  C38: A forged manifest is well-typed for its renderer. Rendering an object never fails on the
  argument schema: it fails exactly when a required argument is absent under its own name and under
  its normalised one, and then names the first such argument of the request.
\<close>

theorem forged_template_renders:
  assumes "build_manifest h now_ms tool_name server r = Ok m"
  shows "case missing object r of
           None \<Rightarrow> is_ok (render_command txt m (J_Object object))
         | Some a \<Rightarrow> render_command txt m (J_Object object) = Inl (missing_error a)"
  by (cases "missing object r")
     (simp_all add: render_command_def argument_specs_forged [OF assms] missing_def render_arguments_schema)

section \<open>Argument vectors\<close>

definition word_text :: "string \<Rightarrow> bool" where
  "word_text w \<longleftrightarrow> w \<noteq> [] \<and> list_all graphic w"

definition supplied_args ::
    "(json \<Rightarrow> string) \<Rightarrow> (string \<times> json) list \<Rightarrow> ForgeArgumentSpec list \<Rightarrow> string list" where
  "supplied_args txt object xs = concat (map (\<lambda>a. case argument_value object (fa_name a) of
     Some v \<Rightarrow> [''--'' @ sanitize_segment (fa_name a), render_value txt v] | None \<Rightarrow> []) xs)"

lemma collect_args_schema:
  "find (\<lambda>a. fa_required a \<and> argument_value object (fa_name a) = None) xs = None \<Longrightarrow>
   collect_args txt object (map argument_schema xs) args = Inr (args @ supplied_args txt object xs)"
proof (induction xs arbitrary: args)
  case (Cons a xs)
  then show ?case
    by (cases "argument_value object (fa_name a)") (simp_all add: supplied_args_def split: if_splits)
qed (simp add: supplied_args_def)

lemma strip_space [simp]: "strip_prefix_of whitespace (CHR '' '' # s) = Some s"
  by (simp add: whitespace_def utf8_bytes_def char_of_eq_iff)

lemma trim_start_space [simp]: "trim_start (CHR '' '' # s) = trim_start s"
  by (simp add: trim_start_def trim_with.simps [of whitespace "CHR '' '' # s"])

lemma graphic_not_whitespace: "graphic c \<Longrightarrow> strip_prefix_of whitespace (c # s) = None"
  using whitespace_not_graphic by (intro strip_prefix_of_None) auto

lemma trim_start_graphic: "graphic c \<Longrightarrow> trim_start (c # s) = c # s"
  by (simp add: trim_start_def trim_with.simps graphic_not_whitespace)

lemma take_word_text:
  "list_all graphic w \<Longrightarrow> take_word w = (w, [])"
  "list_all graphic w \<Longrightarrow> take_word (w @ CHR '' '' # s) = (w, CHR '' '' # s)"
proof (induction w)
  case Nil
  { case 2 then show ?case by simp }
qed (simp_all add: graphic_not_whitespace)

lemma split_whitespace_space: "split_whitespace (CHR '' '' # s) = split_whitespace s"
  by (subst (1 2) split_whitespace.simps) simp

lemma split_whitespace_text:
  assumes "word_text w"
  shows "split_whitespace w = [w]" "split_whitespace (w @ CHR '' '' # s) = w # split_whitespace s"
proof -
  obtain c v where w: "w = c # v" "graphic c" using assms by (cases w) (auto simp: word_text_def)
  have nil: "split_whitespace [] = []" by (simp add: split_whitespace.simps trim_start_def)
  show "split_whitespace w = [w]"
    using take_word_text(1) [of w] assms w
    by (subst split_whitespace.simps) (simp add: trim_start_graphic word_text_def nil)
  show "split_whitespace (w @ CHR '' '' # s) = w # split_whitespace s"
    using take_word_text(2) [of w s] assms w
    by (subst split_whitespace.simps) (simp add: trim_start_graphic word_text_def split_whitespace_space)
qed

lemma split_whitespace_join: "list_all word_text ws \<Longrightarrow> split_whitespace (join '' '' ws) = ws"
proof (induction ws)
  case Nil
  then show ?case by (simp add: split_whitespace.simps trim_start_def)
next
  case (Cons w ws)
  then show ?case by (cases "ws = []") (simp_all add: join_Cons split_whitespace_text)
qed

definition command_words :: "McpToolForgeRequest \<Rightarrow> string list" where
  "command_words r = fr_subcommands r @ (case fr_json_flag r of Some flag \<Rightarrow> [flag] | None \<Rightarrow> [])"

definition hole_words :: "ForgeArgumentSpec list \<Rightarrow> string list" where
  "hole_words xs = concat (map (\<lambda>a. [''--'' @ sanitize_segment (fa_name a),
                                       placeholder (sanitize_segment (fa_name a))]) xs)"

lemma join_concat:
  "xs \<noteq> [] \<Longrightarrow> ys \<noteq> [] \<Longrightarrow> join sep (xs @ ys) = join sep xs @ sep @ join sep ys"
proof (induction xs)
  case (Cons x xs)
  then show ?case by (cases "xs = []") (simp_all add: join_Cons)
qed simp

lemma template_words:
  "build_command_template r =
     join '' '' ([fr_executable r] @ command_words r @ hole_words (fr_arguments r))"
proof -
  define hole :: "ForgeArgumentSpec \<Rightarrow> string" where "hole = (\<lambda>a. ''--'' @ sanitize_segment (fa_name a) @ '' '' @
    placeholder (sanitize_segment (fa_name a)))"
  have "join '' '' (ws @ map hole xs) = join '' '' (ws @ hole_words xs)" if "ws \<noteq> []" for ws and xs :: "ForgeArgumentSpec list"
    using that
  proof (induction xs arbitrary: ws)
    case (Cons x xs)
    have "join '' '' (ws @ map hole (x # xs)) = join '' '' ((ws @ [hole x]) @ map hole xs)" by simp
    also have "\<dots> = join '' '' ((ws @ [hole x]) @ hole_words xs)" by (rule Cons.IH) simp
    also have "\<dots> = join '' '' ((ws @ [''--'' @ sanitize_segment (fa_name x),
        placeholder (sanitize_segment (fa_name x))]) @ hole_words xs)"
    proof -
      have "join '' '' (ws @ [hole x]) = join '' '' (ws @ [''--'' @ sanitize_segment (fa_name x),
              placeholder (sanitize_segment (fa_name x))])"
        using Cons.prems by (simp add: join_concat hole_def)
      then show ?thesis by (cases "hole_words xs = []") (simp_all only: join_concat append_Nil2 append_is_Nil_conv not_Cons_self2 simp_thms list.simps)
    qed
    finally show ?case by (simp add: hole_words_def)
  qed (simp add: hole_words_def)
  from this [of "[fr_executable r] @ command_words r"] show ?thesis
    by (simp add: build_command_template_def command_words_def hole_def)
qed

lemma word_text_slug: "word_text (''--'' @ sanitize_segment s)" "word_text (placeholder (sanitize_segment s))"
  using slug_graphic [OF slug_sanitize_segment [of s]]
  by (simp_all add: word_text_def placeholder_def graphic_def byte_def)

lemma word_text_holes: "list_all word_text (hole_words xs)"
  by (induction xs) (simp_all add: hole_words_def word_text_slug [simplified])

lemma contains_hole: "contains (placeholder key) ''{{''"
  by (simp add: placeholder_def)

lemma flag_no_hole: "\<not> contains (''--'' @ sanitize_segment s) ''{{''"
  using slug_no_brace [OF slug_sanitize_segment [of s]] contains_set [of "''--'' @ sanitize_segment s" "''{{''"]
  by auto

lemma keep_hole_words: "keep_segments executable (hole_words xs) = []"
  by (induction xs) (simp_all add: hole_words_def contains_hole flag_no_hole [simplified])

lemma keep_command_words:
  assumes "list_all (\<lambda>w. w \<noteq> executable \<and> \<not> contains w ''{{'') ws"
  shows "keep_segments executable (ws @ hole_words xs) = ws"
  using assms
proof (induction ws)
  case Nil
  then show ?case by (simp add: keep_hole_words)
next
  case (Cons w ws)
  have "\<not> contains t ''{{''" if "ws @ hole_words xs = t # ts" for t ts
    using that Cons.prems flag_no_hole
    by (cases ws; cases xs) (auto simp: hole_words_def)
  then show ?case using Cons by (auto split: list.split)
qed

lemma trim_words:
  assumes "list_all word_text ws" "ws \<noteq> []"
  shows "trim (join '' '' ws) = join '' '' ws"
proof -
  have "join '' '' ws \<noteq> [] \<and> graphic (hd (join '' '' ws)) \<and> graphic (last (join '' '' ws))"
    using assms
  proof (induction ws)
    case (Cons w ws)
    have w: "w \<noteq> []" "graphic (hd w)" "graphic (last w)"
      using Cons.prems by (auto simp: word_text_def list_all_iff)
    show ?case using Cons w by (cases "ws = []") (simp_all add: join_Cons)
  qed simp
  then show ?thesis by (intro trim_graphic) simp_all
qed

lemma subcommand_segments_forged:
  assumes "mf_command_template m = build_command_template r" "mf_executable m = fr_executable r"
    and "word_text (fr_executable r)"
    and "list_all (\<lambda>w. word_text w \<and> w \<noteq> fr_executable r \<and> \<not> contains w ''{{'') (command_words r)"
  shows "subcommand_segments m = command_words r"
proof -
  let ?rest = "command_words r @ hole_words (fr_arguments r)"
  have words: "list_all word_text ?rest"
    using assms(4) word_text_holes by (auto simp: list_all_iff)
  have t: "trim (join '' '' (fr_executable r # ?rest)) = join '' '' (fr_executable r # ?rest)"
    "trim (fr_executable r) = fr_executable r"
    using words assms(3) trim_words [of "fr_executable r # ?rest"] trim_words [of "[fr_executable r]"]
    by simp_all
  have "split_whitespace (drop (length (fr_executable r)) (join '' '' (fr_executable r # ?rest))) = ?rest"
  proof (cases "?rest = []")
    case True
    then show ?thesis using split_whitespace_join [of "[]"] by simp
  next
    case False
    then show ?thesis using split_whitespace_join [OF words] by (simp add: join_Cons split_whitespace_space)
  qed
  moreover have "prefix (fr_executable r) (join '' '' (fr_executable r # ?rest))"
    by (cases "?rest = []") (simp_all add: join_Cons)
  moreover have "filter (\<lambda>w. w \<noteq> []) ?rest = ?rest"
    using words by (auto simp: filter_id_conv list_all_iff word_text_def)
  moreover have "keep_segments (fr_executable r) ?rest = command_words r"
    using assms(4) by (intro keep_command_words) (auto simp: list_all_iff)
  ultimately show ?thesis
    using t by (simp add: subcommand_segments_def Let_def assms(1,2) template_words)
qed

text \<open>
  The argument vector of a forged capability. When executable, subcommands and JSON flag are plain
  words, none of the latter the executable itself or a placeholder, an invocation that supplies the
  required arguments runs the executable with the subcommands, the flag, and then for each supplied
  argument in the order of the request its option and its value as one word, whatever the value holds.
\<close>

lemma forged_argument_vector:
  assumes "build_manifest h now_ms tool_name server r = Ok m" "word_text (fr_executable r)"
    and "list_all (\<lambda>w. word_text w \<and> w \<noteq> fr_executable r \<and> \<not> contains w ''{{'') (command_words r)"
    and "parse_invocation parse arguments = Ok (J_Object object)" "missing object r = None"
  shows "\<exists>display. build_command_spec parse txt m arguments = Ok
           \<lparr> rc_executable = fr_executable r,
             rc_args = command_words r @ supplied_args txt object (fr_arguments r),
             rc_display_command = display, rc_working_directory = fr_working_directory r \<rparr>"
proof -
  note m = build_manifest_fields [OF assms(1)] argument_specs_forged [OF assms(1)]
  obtain display where "render_command txt m (J_Object object) = Inr display"
    using render_arguments_schema(1) assms(5)
    by (force simp: render_command_def m missing_def is_ok_iff)
  moreover have "subcommand_segments m = command_words r"
    by (rule subcommand_segments_forged [OF m(3,2) assms(2,3)])
  ultimately show ?thesis
    using assms(5) by (simp add: build_command_spec_def assms(4) m collect_args_schema missing_def)
qed

section \<open>A forged capability\<close>

definition sample_forge_request :: McpToolForgeRequest where
  "sample_forge_request =
     \<lparr> fr_server = None, fr_capability_name = ''Diagram Export'', fr_purpose = ''Export diagrams'',
       fr_executable = ''diagram-cli'', fr_subcommands = [''export''], fr_json_flag = Some ''--json'',
       fr_arguments =
         [\<lparr> fa_name = ''project'', fa_description = ''path'', fa_required = True, fa_example = None \<rparr>,
          \<lparr> fa_name = ''Theme Name'', fa_description = ''theme'', fa_required = False, fa_example = None \<rparr>],
       fr_output_mode = Out_Json, fr_success_signal = None, fr_working_directory = None,
       fr_examples = [], fr_tags = [], fr_scope = None, fr_requested_by = None, fr_signer = None,
       fr_source_repo = None, fr_source_ref = None, fr_sbom_components = [] \<rparr>"

definition sample_manifest :: ForgedMcpToolManifest where
  "sample_manifest =
     (case build_manifest (\<lambda>_. 7) 1000 ''mcp::local-mcp::diagram-export'' ''local-mcp'' sample_forge_request of
        Inr m \<Rightarrow> m | Inl _ \<Rightarrow> undefined)"

lemma sample_built:
  "build_manifest (\<lambda>_. 7) 1000 ''mcp::local-mcp::diagram-export'' ''local-mcp'' sample_forge_request = Inr sample_manifest"
proof -
  have "trim ''diagram-cli'' \<noteq> []" by (simp add: trim_graphic graphic_def byte_def)
  then show ?thesis by (simp add: sample_manifest_def build_manifest_def Let_def sample_forge_request_def)
qed

definition sample_parse :: "string \<Rightarrow> string + json" where
  "sample_parse s =
     (if s = ''call'' then Inr (J_Object [(''project'', J_String ''a b''), (''theme-name'', J_Number 3)])
      else Inl ''expected value'')"

theorem forged_template_renders_witness:
  "render_command (\<lambda>_. '''') sample_manifest (J_Object [(''theme'', J_Null)]) =
     Inl (Anyhow ''missing required forged tool argument: project'')"
  using forged_template_renders [OF sample_built, of "\<lambda>_. ''''" "[(''theme'', J_Null)]"]
  by (simp add: missing_def sample_forge_request_def argument_value_def sanitize_segment_def
        ascii_alphanumeric_def byte_def ascii_lower_def trim_matches_def)

lemma forged_argument_vector_example:
  "\<exists>display. build_command_spec sample_parse (\<lambda>_. '''') sample_manifest ''call'' = Ok
     \<lparr> rc_executable = ''diagram-cli'',
       rc_args = [''export'', ''--json'', ''--project'', ''a b'', ''--theme-name'', ''3''],
       rc_display_command = display, rc_working_directory = None \<rparr>"
proof -
  let ?object = "[(''project'', J_String ''a b''), (''theme-name'', J_Number 3)]"
  note ev = sample_forge_request_def argument_value_def sanitize_segment_def ascii_alphanumeric_def byte_def
    ascii_lower_def trim_matches_def
  have "word_text (fr_executable sample_forge_request)"
    by (simp add: word_text_def sample_forge_request_def graphic_def byte_def)
  moreover have "list_all (\<lambda>w. word_text w \<and> w \<noteq> fr_executable sample_forge_request \<and> \<not> contains w ''{{'')
      (command_words sample_forge_request)"
    by (simp add: word_text_def command_words_def sample_forge_request_def graphic_def byte_def)
  moreover have "parse_invocation sample_parse ''call'' = Ok (J_Object ?object)"
    by (simp add: parse_invocation_def sample_parse_def trim_graphic graphic_def byte_def)
  moreover have "missing ?object sample_forge_request = None"
    by (simp add: missing_def ev)
  ultimately have "\<exists>display. build_command_spec sample_parse (\<lambda>_. '''') sample_manifest ''call'' = Ok
           \<lparr> rc_executable = fr_executable sample_forge_request,
             rc_args = command_words sample_forge_request @ supplied_args (\<lambda>_. '''') ?object (fr_arguments sample_forge_request),
             rc_display_command = display, rc_working_directory = fr_working_directory sample_forge_request \<rparr>"
    by (rule forged_argument_vector [OF sample_built])
  moreover have "command_words sample_forge_request @ supplied_args (\<lambda>_. '''') ?object (fr_arguments sample_forge_request) =
      [''export'', ''--json'', ''--project'', ''a b'', ''--theme-name'', ''3'']"
    by (simp add: command_words_def supplied_args_def ev show_word_def digit_char_def char_of_eq_iff show_nat.simps)
  ultimately show ?thesis by (simp add: sample_forge_request_def)
qed

text \<open>The displayed command does not always quote, and a value can carry another argument's hole.\<close>

lemma shell_escape_backslash: "shell_escape [CHR 0x5C] = [double_quote, CHR 0x5C, double_quote]"
  by code_simp

lemma value_carries_hole:
  "render_arguments (\<lambda>_. '''') [(''a'', J_String ''{{b}}''), (''b'', J_String ''x'')]
     (map argument_schema
        [\<lparr> fa_name = ''a'', fa_description = '''', fa_required = True, fa_example = None \<rparr>,
         \<lparr> fa_name = ''b'', fa_description = '''', fa_required = True, fa_example = None \<rparr>])
     ''t --a {{a}}'' = Ok (''t --a '' @ [double_quote] @ ''x'' @ [double_quote])"
  by code_simp

text \<open>A subcommand with the executable's name is in the displayed command only.\<close>

definition make_request :: McpToolForgeRequest where
  "make_request = sample_forge_request\<lparr> fr_executable := ''make'', fr_subcommands := [''make''],
     fr_json_flag := None, fr_arguments := [] \<rparr>"

lemma subcommand_dropped:
  assumes "build_manifest h now_ms tool_name server make_request = Ok m"
  shows "mf_command_template m = ''make make'' \<and> subcommand_segments m = []"
proof -
  have t: "build_command_template make_request = ''make make''"
    by (simp add: build_command_template_def make_request_def sample_forge_request_def)
  have "fr_executable make_request = ''make''" by (simp add: make_request_def)
  moreover have "trim ''make make'' = ''make make''" "trim ''make'' = ''make''"
    by (simp_all add: trim_graphic graphic_def byte_def)
  moreover have "split_whitespace '' make'' = [''make'']"
    by (simp add: split_whitespace_space split_whitespace_text word_text_def graphic_def byte_def)
  ultimately show ?thesis
    using build_manifest_fields [OF assms] t by (simp add: subcommand_segments_def)
qed

end
