(* ===== verification/Registry_Safety.thy ===== *)
theory Registry_Safety
  imports Registry Forge_Commands
begin

text \<open>
  What the registry guarantees. Every operation is a sequence of \<open>put_step\<close>s, each the registration and
  persistence of one manifest; the invariant of the registry and its agreement with the store are
  invariants of that relation.
\<close>

section \<open>Observations\<close>

lemma get_tool_simps [simp]:
  "get_tool (registry_register t reg) = (get_tool reg)(tool_name t \<mapsto> t)"
  "get_tool (remove_tool name reg) = (get_tool reg)(name := None)"
  "get_tool (register_manifest m reg) = get_tool reg"
  "get_tool (reg\<lparr> tg_state_store := s \<rparr>) = get_tool reg"
  by (simp_all add: get_tool_def [abs_def] registry_register_def remove_tool_def register_manifest_def
        update_conv' delete_conv' restrict_complement_singleton_eq)

lemma get_manifest_simps [simp]:
  "get_manifest (registry_register t reg) = get_manifest reg"
  "get_manifest (remove_tool name reg) = get_manifest reg"
  "get_manifest (register_manifest m reg) = (get_manifest reg)(mf_registered_tool_name m \<mapsto> m)"
  "get_manifest (reg\<lparr> tg_state_store := s \<rparr>) = get_manifest reg"
  by (simp_all add: get_manifest_def [abs_def] registry_register_def remove_tool_def register_manifest_def
        update_conv')

lemma lineage_max_simps [simp]:
  "lineage_max (registry_register t reg) = lineage_max reg"
  "lineage_max (remove_tool name reg) = lineage_max reg"
  "lineage_max (register_manifest m reg) =
     (lineage_max reg)(mf_lineage_key m := max (lineage_max reg (mf_lineage_key m)) (mf_version m))"
  "lineage_max (reg\<lparr> tg_state_store := s \<rparr>) = lineage_max reg"
  by (auto simp: lineage_max_def [abs_def] registry_register_def remove_tool_def register_manifest_def
        update_conv' or_default_def fun_eq_iff)

lemma state_store_simps [simp]:
  "tg_state_store (registry_register t reg) = tg_state_store reg"
  "tg_state_store (remove_tool name reg) = tg_state_store reg"
  "tg_state_store (register_manifest m reg) = tg_state_store reg"
  by (simp_all add: registry_register_def remove_tool_def register_manifest_def)

definition keys_ok :: "ToolRegistry \<Rightarrow> bool" where
  "keys_ok reg \<longleftrightarrow> distinct (map fst (tg_manifests reg))"

lemma keys_ok_simps [simp]:
  "keys_ok (registry_register t reg) = keys_ok reg"
  "keys_ok (remove_tool name reg) = keys_ok reg"
  "keys_ok reg \<Longrightarrow> keys_ok (register_manifest m reg)"
  "keys_ok (reg\<lparr> tg_state_store := s \<rparr>) = keys_ok reg"
  by (simp_all add: keys_ok_def registry_register_def remove_tool_def register_manifest_def distinct_update)

lemma set_manifests:
  "keys_ok reg \<Longrightarrow> set (manifests reg) = {m. \<exists>name. get_manifest reg name = Some m}"
  by (force simp: keys_ok_def manifests_def get_manifest_def)

lemma manifests_member:
  "keys_ok reg \<Longrightarrow> m \<in> set (manifests reg) \<Longrightarrow> \<exists>name. get_manifest reg name = Some m"
  by (simp add: set_manifests)

lemma persist_keeps:
  obtains s where "fst (persist_manifest ho m reg) = reg\<lparr> tg_state_store := s \<rparr>"
proof (cases "tg_state_store reg")
  case None
  then have "fst (persist_manifest ho m reg) = reg\<lparr> tg_state_store := None \<rparr>"
    by (simp add: persist_manifest_def)
  then show thesis by (rule that)
next
  case (Some db)
  obtain db' r where u: "upsert_json_knowledge (ho_manifest ho) db
      (FORGED_TOOL_PREFIX @ mf_registered_tool_name m) m ''cli-forge'' = (db', r)" by fastforce
  then have "fst (persist_manifest ho m reg) = reg\<lparr> tg_state_store := Some db' \<rparr>"
    using Some by (cases r) (simp_all add: persist_manifest_def)
  then show thesis by (rule that)
qed

lemma persist_ok: "snd (persist_manifest ho m reg) = Ok ()"
proof (cases "tg_state_store reg")
  case (Some db)
  have "\<not> evidence_key (FORGED_TOOL_PREFIX @ mf_registered_tool_name m)"
    by (simp add: FORGED_TOOL_PREFIX_def)
  then obtain db' r where "upsert_json_knowledge (ho_manifest ho) db
      (FORGED_TOOL_PREFIX @ mf_registered_tool_name m) m ''cli-forge'' = (db', Ok r)"
    unfolding upsert_json_knowledge_def using knowledge.accepts by blast
  then show ?thesis using Some by (simp add: persist_manifest_def)
qed (simp add: persist_manifest_def)

lemma then_do_persist [simp]:
  "then_do (persist_manifest ho m reg) f = f (fst (persist_manifest ho m reg)) ()"
  using persist_ok [of ho m reg] by (cases "persist_manifest ho m reg") simp

section \<open>The invariant\<close>

text \<open>The part of a manifest that governance never changes.\<close>

definition core :: "ForgedMcpToolManifest \<Rightarrow> ForgedMcpToolManifest" where
  "core m = m\<lparr> mf_status := Cap_Active, mf_approval_status := Appr_Pending, mf_health_score := 0,
              mf_updated_at_ms := 0, mf_approved_at_ms := None, mf_rollback_to_version := None,
              mf_trust_status := Trust_Pending, mf_trust_findings := [] \<rparr>"

definition forged_name :: "ForgedMcpToolManifest \<Rightarrow> bool" where
  "forged_name m \<longleftrightarrow> (\<exists>server s. slug s \<and> mf_registered_tool_name m = ''mcp::'' @ server @ ''::'' @ s \<and>
     mf_lineage_key m = server @ '':'' @ s \<and> mf_capability_id m = server @ '':'' @ s)"

definition vouched :: "ToolHost \<Rightarrow> ForgedMcpToolManifest \<Rightarrow> bool" where
  "vouched ho m \<longleftrightarrow> forged_name m \<and>
     (mf_trust_status m = Trust_Trusted \<longrightarrow> manifest_findings (ho_hasher ho) m = [])"

definition registry_ok :: "ToolHost \<Rightarrow> ToolRegistry \<Rightarrow> bool" where
  "registry_ok ho reg \<longleftrightarrow> keys_ok reg \<and>
     (\<forall>name m. get_manifest reg name = Some m \<longrightarrow>
        mf_registered_tool_name m = name \<and> vouched ho m \<and>
        mf_version m \<le> lineage_max reg (mf_lineage_key m) \<and>
        (mf_status m = Cap_Active \<longrightarrow> (\<exists>t. get_tool reg name = Some (T_Forged name t)))) \<and>
     (\<forall>name n t. get_tool reg name = Some (T_Forged n t) \<longrightarrow>
        n = name \<and> (\<exists>m. get_manifest reg name = Some m \<and> core t = core m))"

lemma registry_okD:
  assumes "registry_ok ho reg"
  shows "keys_ok reg"
    "get_manifest reg name = Some m \<Longrightarrow> mf_registered_tool_name m = name"
    "get_manifest reg name = Some m \<Longrightarrow> vouched ho m"
    "get_manifest reg name = Some m \<Longrightarrow> mf_version m \<le> lineage_max reg (mf_lineage_key m)"
    "get_manifest reg name = Some m \<Longrightarrow> mf_status m = Cap_Active \<Longrightarrow>
       \<exists>t. get_tool reg name = Some (T_Forged name t)"
    "get_tool reg name = Some (T_Forged n t) \<Longrightarrow>
       n = name \<and> (\<exists>m. get_manifest reg name = Some m \<and> core t = core m)"
  using assms unfolding registry_ok_def by blast+

lemma registry_okI:
  assumes "keys_ok reg"
    and "\<And>n x. get_manifest reg n = Some x \<Longrightarrow> mf_registered_tool_name x = n \<and> vouched ho x \<and>
      mf_version x \<le> lineage_max reg (mf_lineage_key x) \<and>
      (mf_status x = Cap_Active \<longrightarrow> (\<exists>t. get_tool reg n = Some (T_Forged n t)))"
    and "\<And>n n' t. get_tool reg n = Some (T_Forged n' t) \<Longrightarrow>
      n' = n \<and> (\<exists>x. get_manifest reg n = Some x \<and> core t = core x)"
  shows "registry_ok ho reg"
  using assms unfolding registry_ok_def by blast

lemma registry_ok_store [simp]: "registry_ok ho (reg\<lparr> tg_state_store := s \<rparr>) = registry_ok ho reg"
  by (simp add: registry_ok_def)

lemma registry_ok_persist [simp]:
  "registry_ok ho (fst (persist_manifest ho m reg)) = registry_ok ho reg"
  by (rule persist_keeps [of ho m reg]) simp

inductive put_step :: "ToolHost \<Rightarrow> ToolRegistry \<Rightarrow> ToolRegistry \<Rightarrow> bool" for ho where
  put_hydrate: "vouched ho m \<Longrightarrow>
     put_step ho reg (fst (persist_manifest ho m (register_manifest m
       (registry_register (T_Forged (mf_registered_tool_name m) m) reg))))"
| put_retire: "vouched ho m \<Longrightarrow> get_manifest reg name = Some m0 \<Longrightarrow> core m = core m0 \<Longrightarrow>
     mf_status m \<noteq> Cap_Active \<Longrightarrow>
     put_step ho reg (fst (persist_manifest ho m (register_manifest m (remove_tool name reg))))"
| put_reject: "vouched ho m \<Longrightarrow> get_manifest reg name = Some m0 \<Longrightarrow> core m = core m0 \<Longrightarrow>
     mf_status m \<noteq> Cap_Active \<Longrightarrow>
     put_step ho reg (fst (persist_manifest ho m (register_manifest m reg)))"

lemma core_name: "core m = core m' \<Longrightarrow> mf_registered_tool_name m = mf_registered_tool_name m'"
proof -
  have "mf_registered_tool_name (core x) = mf_registered_tool_name x" for x by (simp add: core_def)
  then show "core m = core m' \<Longrightarrow> ?thesis" by metis
qed

lemma lineage_grows: "lineage_max reg l \<le> lineage_max (register_manifest m reg) l"
  by simp

lemma put_step_ok:
  assumes "put_step ho reg reg'" "registry_ok ho reg"
  shows "registry_ok ho reg'"
  using assms
proof cases
  case (put_hydrate m)
  let ?reg = "register_manifest m (registry_register (T_Forged (mf_registered_tool_name m) m) reg)"
  have "registry_ok ho ?reg"
    unfolding registry_ok_def
    using registry_okD [OF assms(2)] put_hydrate(2) by (auto simp: le_max_iff_disj) metis
  then show ?thesis using put_hydrate(1) by simp
next
  case (put_retire m name m0)
  have name: "mf_registered_tool_name m = name"
    using registry_okD(2) [OF assms(2) put_retire(3)] core_name [OF put_retire(4)] by simp
  have "registry_ok ho (register_manifest m (remove_tool name reg))"
    unfolding registry_ok_def
    using registry_okD [OF assms(2)] put_retire(2,5) name by (auto simp: le_max_iff_disj) metis+
  then show ?thesis using put_retire(1) by simp
next
  case (put_reject m name m0)
  have name: "mf_registered_tool_name m = name"
    using registry_okD(2) [OF assms(2) put_reject(3)] core_name [OF put_reject(4)] by simp
  note ok = registry_okD [OF assms(2)]
  have a: "mf_registered_tool_name x = n \<and> vouched ho x \<and>
        mf_version x \<le> lineage_max (register_manifest m reg) (mf_lineage_key x) \<and>
        (mf_status x = Cap_Active \<longrightarrow> (\<exists>t. get_tool reg n = Some (T_Forged n t)))"
    if "get_manifest (register_manifest m reg) n = Some x" for n x
  proof (cases "n = name")
    case True
    then show ?thesis using that put_reject(2,5) name by (simp add: le_max_iff_disj)
  next
    case False
    then have x: "get_manifest reg n = Some x" using that name by simp
    then show ?thesis
      using ok(2,3,5) [OF x] order.trans [OF ok(4) [OF x] lineage_grows [of reg _ m]] by simp
  qed
  have b: "n' = n \<and> (\<exists>x. get_manifest (register_manifest m reg) n = Some x \<and> core t = core x)"
    if tool: "get_tool reg n = Some (T_Forged n' t)" for n n' t
  proof -
    obtain x where x: "get_manifest reg n = Some x" "core t = core x" and n: "n' = n"
      using ok(6) [OF tool] by blast
    show ?thesis
    proof (cases "n = name")
      case True
      then have "core t = core m" using x put_reject(3,4) by simp
      then show ?thesis using True n name by simp
    next
      case False
      then show ?thesis using x n name by simp
    qed
  qed
  have "registry_ok ho (register_manifest m reg)"
    by (rule registry_okI, simp add: ok(1), unfold get_tool_simps, erule a, erule b)
  then show ?thesis using put_reject(1) by simp
qed

abbreviation puts :: "ToolHost \<Rightarrow> ToolRegistry \<Rightarrow> ToolRegistry \<Rightarrow> bool" where
  "puts ho \<equiv> rtranclp (put_step ho)"

lemma puts_ok: "puts ho reg reg' \<Longrightarrow> registry_ok ho reg \<Longrightarrow> registry_ok ho reg'"
  by (induction rule: rtranclp_induct) (auto intro: put_step_ok)

section \<open>Operations as puts\<close>

lemma hash_governance [simp]:
  "supply_chain_payload_hash h (m\<lparr> mf_status := a \<rparr>) = supply_chain_payload_hash h m"
  "supply_chain_payload_hash h (m\<lparr> mf_approval_status := b \<rparr>) = supply_chain_payload_hash h m"
  "supply_chain_payload_hash h (m\<lparr> mf_health_score := c \<rparr>) = supply_chain_payload_hash h m"
  "supply_chain_payload_hash h (m\<lparr> mf_updated_at_ms := d \<rparr>) = supply_chain_payload_hash h m"
  "supply_chain_payload_hash h (m\<lparr> mf_approved_at_ms := e \<rparr>) = supply_chain_payload_hash h m"
  "supply_chain_payload_hash h (m\<lparr> mf_trust_status := f \<rparr>) = supply_chain_payload_hash h m"
  "supply_chain_payload_hash h (m\<lparr> mf_trust_findings := g \<rparr>) = supply_chain_payload_hash h m"
  by (simp_all add: supply_chain_payload_hash_def)

lemma findings_governance [simp]:
  "manifest_findings h (m\<lparr> mf_status := a \<rparr>) = manifest_findings h m"
  "manifest_findings h (m\<lparr> mf_approval_status := b \<rparr>) = manifest_findings h m"
  "manifest_findings h (m\<lparr> mf_health_score := c \<rparr>) = manifest_findings h m"
  "manifest_findings h (m\<lparr> mf_updated_at_ms := d \<rparr>) = manifest_findings h m"
  "manifest_findings h (m\<lparr> mf_approved_at_ms := e \<rparr>) = manifest_findings h m"
  "manifest_findings h (m\<lparr> mf_trust_status := f \<rparr>) = manifest_findings h m"
  "manifest_findings h (m\<lparr> mf_trust_findings := g \<rparr>) = manifest_findings h m"
  by (simp_all add: manifest_findings_def)

lemma forged_name_governance [simp]:
  "forged_name (m\<lparr> mf_status := a \<rparr>) = forged_name m"
  "forged_name (m\<lparr> mf_approval_status := b \<rparr>) = forged_name m"
  "forged_name (m\<lparr> mf_health_score := c \<rparr>) = forged_name m"
  "forged_name (m\<lparr> mf_updated_at_ms := d \<rparr>) = forged_name m"
  "forged_name (m\<lparr> mf_approved_at_ms := e \<rparr>) = forged_name m"
  "forged_name (m\<lparr> mf_trust_status := f \<rparr>) = forged_name m"
  "forged_name (m\<lparr> mf_trust_findings := g \<rparr>) = forged_name m"
  "forged_name (m\<lparr> mf_version := v \<rparr>) = forged_name m"
  by (simp_all add: forged_name_def)

lemma with_findings_governance [simp]:
  "manifest_findings h (with_findings fs m) = manifest_findings h m"
  "forged_name (with_findings fs m) = forged_name m"
  "mf_trust_status (with_findings fs m) = (if fs = [] then Trust_Trusted else Trust_Rejected)"
  "mf_trust_findings (with_findings fs m) = fs"
  "mf_status (with_findings fs m) = (if fs = [] then mf_status m else Cap_PendingVerification)"
  "mf_approval_status (with_findings fs m) = (if fs = [] then mf_approval_status m else Appr_Rejected)"
  by (simp_all add: with_findings_def Let_def)

lemma core_with_findings [simp]: "core (with_findings fs m) = core m"
  by (simp add: with_findings_def Let_def core_def)

lemma registry_findings_nil: "registry_findings ho reg m = [] \<Longrightarrow> manifest_findings (ho_hasher ho) m = []"
  by (simp add: registry_findings_def Let_def)

lemma puts_put: "put_step ho reg reg' \<Longrightarrow> puts ho reg reg'"
  by (rule r_into_rtranclp)

lemma puts_upsert:
  assumes "forged_name m" "mf_status m = Cap_Active \<or> mf_status m = Cap_PendingVerification"
  shows "puts ho reg (fst (upsert_governed_manifest ho m reg))"
proof -
  have named: "mf_lineage_key m \<noteq> []" "mf_capability_id m \<noteq> []"
    using assms(1) by (auto simp: forged_name_def)
  show ?thesis
  proof (cases "checked_plus (ho_overflow_checks ho)
      (fold max (map mf_version (filter (\<lambda>e. mf_lineage_key e = mf_lineage_key m) (manifests reg))) 0) 1")
    case (Inl e)
    then show ?thesis using named by (simp add: upsert_governed_manifest_def Let_def)
  next
    case (Inr v)
    define m1 where "m1 = m\<lparr> mf_version := v, mf_updated_at_ms := max (mf_updated_at_ms m) (mf_created_at_ms m) \<rparr>"
    define m2 where "m2 = with_findings (registry_findings ho reg m1) m1"
    have "forged_name m1" using assms(1) by (simp add: m1_def)
    then have "vouched ho m2" by (simp add: vouched_def m2_def registry_findings_nil)
    moreover have "mf_status m2 \<noteq> Cap_Deprecated" "mf_status m2 \<noteq> Cap_RolledBack"
      using assms(2) by (auto simp: m2_def m1_def)
    moreover have "upsert_governed_manifest ho m reg = persist_manifest ho m2 (hydrate_manifest m2 reg)"
      using named Inr by (simp add: upsert_governed_manifest_def Let_def m2_def m1_def)
    ultimately show ?thesis
      using put_hydrate [of ho m2 reg] by (simp add: hydrate_manifest_def puts_put)
  qed
qed

lemma puts_verify:
  assumes "registry_ok ho reg"
  shows "puts ho reg (fst (verify_capability ho now_ms name reg))"
proof (cases "get_manifest reg name")
  case None
  then show ?thesis by (simp add: verify_capability_def)
next
  case (Some m)
  have v: "vouched ho m" by (rule registry_okD(3) [OF assms Some])
  show ?thesis
  proof (cases "registry_findings ho reg m = []")
    case False
    let ?m = "with_findings (registry_findings ho reg m) m\<lparr> mf_updated_at_ms := now_ms \<rparr>"
    have "put_step ho reg (fst (persist_manifest ho ?m (register_manifest ?m reg)))"
      using v False by (intro put_reject [OF _ Some]) (simp_all add: vouched_def, simp add: core_def with_findings_def Let_def)
    then show ?thesis using Some False by (simp add: verify_capability_def Let_def puts_put)
  next
    case True
    let ?m = "m\<lparr> mf_trust_findings := [], mf_status := Cap_Active,
                 mf_approval_status := Appr_Verified, mf_trust_status := Trust_Trusted,
                 mf_health_score := max (mf_health_score m) (round_f32 (8 / 10)),
                 mf_approved_at_ms := Some now_ms, mf_updated_at_ms := now_ms \<rparr>"
    have "vouched ho ?m" using v registry_findings_nil [OF True] by (simp add: vouched_def)
    then show ?thesis
      using Some True put_hydrate [of ho ?m reg]
      by (simp add: verify_capability_def Let_def hydrate_manifest_def puts_put)
  qed
qed

lemma puts_deprecate:
  assumes "registry_ok ho reg"
  shows "puts ho reg (fst (deprecate_capability ho now_ms name health reg))"
proof (cases "get_manifest reg name")
  case None
  then show ?thesis by (simp add: deprecate_capability_def)
next
  case (Some m)
  let ?m = "m\<lparr> mf_status := Cap_Deprecated, mf_health_score := health, mf_updated_at_ms := now_ms \<rparr>"
  have "put_step ho reg (fst (persist_manifest ho ?m (register_manifest ?m (remove_tool name reg))))"
    using registry_okD(3) [OF assms Some]
    by (intro put_retire [OF _ Some]) (simp_all add: vouched_def core_def)
  then show ?thesis using Some by (simp add: deprecate_capability_def Let_def puts_put)
qed

lemma colon_split:
  assumes "a @ CHR '':'' # s = b @ CHR '':'' # t" "CHR '':'' \<notin> set s" "CHR '':'' \<notin> set t"
  shows "a = b \<and> s = t"
proof -
  have "takeWhile (\<lambda>c. c \<noteq> CHR '':'') (rev (x @ CHR '':'' # y)) = rev y" if "CHR '':'' \<notin> set y" for x y
    using that by (auto simp: takeWhile_append)
  then have "rev s = rev t" using assms by metis
  then show ?thesis using assms(1) by simp
qed

lemma slug_no_colon: "slug s \<Longrightarrow> CHR '':'' \<notin> set s"
proof
  assume "slug s" "CHR '':'' \<in> set s"
  then have "slug_char (CHR '':'')" unfolding slug_def list_all_iff by blast
  then show False by (simp add: slug_char_def ascii_alphanumeric_def byte_def)
qed

lemma lineage_determines_name:
  assumes "forged_name m" "forged_name n" "mf_lineage_key m = mf_lineage_key n"
  shows "mf_registered_tool_name m = mf_registered_tool_name n"
proof -
  obtain server s where m: "slug s" "mf_registered_tool_name m = ''mcp::'' @ server @ ''::'' @ s"
      "mf_lineage_key m = server @ '':'' @ s" using assms(1) by (auto simp: forged_name_def)
  obtain server' s' where n: "slug s'" "mf_registered_tool_name n = ''mcp::'' @ server' @ ''::'' @ s'"
      "mf_lineage_key n = server' @ '':'' @ s'" using assms(2) by (auto simp: forged_name_def)
  have "server = server' \<and> s = s'"
    using colon_split [of server s server' s'] assms(3) m n slug_no_colon by simp
  then show ?thesis using m n by simp
qed

lemma filter_result_none:
  "\<forall>x\<in>set xs. f x = Ok False \<or> f x = Inl Panicked \<Longrightarrow>
   filter_result f xs = Ok [] \<or> filter_result f xs = Inl Panicked"
  by (induction xs) auto

lemma rollback_finds_nothing:
  assumes "registry_ok ho reg"
  shows "rollback_capability ho now_ms name reg = (reg, Ok None) \<or>
         rollback_capability ho now_ms name reg = (reg, Inl Panicked)"
proof (cases "get_manifest reg name")
  case None
  then show ?thesis by (simp add: rollback_capability_def)
next
  case (Some current)
  have "precedes (ho_overflow_checks ho) current m = Ok False \<or>
        precedes (ho_overflow_checks ho) current m = Inl Panicked" if mem: "m \<in> set (manifests reg)" for m
  proof (cases "mf_lineage_key m = mf_lineage_key current")
    case True
    obtain n where n: "get_manifest reg n = Some m"
      using manifests_member [OF registry_okD(1) [OF assms] mem] by blast
    have "forged_name m" "forged_name current"
      using registry_okD(3) [OF assms n] registry_okD(3) [OF assms Some] by (simp_all add: vouched_def)
    then have "n = name"
      using lineage_determines_name True registry_okD(2) [OF assms n] registry_okD(2) [OF assms Some] by metis
    then have "m = current" using n Some by simp
    then show ?thesis by (simp add: precedes_def checked_plus_def)
  qed (simp add: precedes_def)
  then have "filter_result (precedes (ho_overflow_checks ho) current) (manifests reg) = Ok [] \<or>
      filter_result (precedes (ho_overflow_checks ho) current) (manifests reg) = Inl Panicked"
    by (intro filter_result_none) blast
  then show ?thesis using Some by (auto simp: rollback_capability_def max_by_version_def)
qed

lemma puts_retire:
  "registry_ok ho reg \<Longrightarrow> puts ho reg (fst (retire_candidates ho now_ms cs changed reg))"
proof (induction cs arbitrary: changed reg)
  case (Cons c cs)
  let ?name = "mf_registered_tool_name c"
  define health where "health = min (mf_health_score c) (round_f32 (35 / 100))"
  obtain reg1 r where d: "deprecate_capability ho now_ms ?name health reg = (reg1, r)" by fastforce
  then have p: "puts ho reg reg1" using puts_deprecate [OF Cons.prems, of now_ms ?name health] by simp
  have tail: "puts ho reg (fst (retire_candidates ho now_ms cs ch reg1))" for ch
    by (rule rtranclp_trans [OF p Cons.IH [OF puts_ok [OF p Cons.prems]]])
  from rollback_finds_nothing [OF Cons.prems, of now_ms ?name] show ?case
  proof
    assume rb: "rollback_capability ho now_ms ?name reg = (reg, Ok None)"
    show ?thesis
      by (cases r) (simp_all only: retire_candidates.simps health_def [symmetric] rb d then_do_simps
        option.case fst_conv p tail)
  next
    assume "rollback_capability ho now_ms ?name reg = (reg, Inl Panicked)"
    then show ?thesis by simp
  qed
qed simp

section \<open>Runs\<close>

lemma build_manifest_forged:
  assumes "build_manifest h now_ms (''mcp::'' @ server @ ''::'' @ sanitize_segment (fr_capability_name r)) server r = Inr m"
  shows "forged_name m" "mf_status m = Cap_Active \<or> mf_status m = Cap_PendingVerification"
proof -
  show "forged_name m"
    unfolding forged_name_def using build_manifest_fields [OF assms] slug_sanitize_segment by blast
  obtain fs sg where m: "m = with_findings fs (unsigned_manifest h now_ms
      (''mcp::'' @ server @ ''::'' @ sanitize_segment (fr_capability_name r)) server r\<lparr> mf_signature := sg \<rparr>)"
    by (rule build_manifest_shape [OF assms])
  show "mf_status m = Cap_Active \<or> mf_status m = Cap_PendingVerification"
    unfolding m by (simp add: unsigned_manifest_def Let_def)
qed

lemma puts_forge: "puts ho reg (fst (forge_mcp_tool ho now_ms default_server arguments reg))"
proof (cases "ho_forge_request ho arguments")
  case (Inl e)
  then show ?thesis by (simp add: forge_mcp_tool_def)
next
  case (Inr r)
  let ?server = "or_default (fr_server r) default_server" and ?slug = "sanitize_segment (fr_capability_name r)"
  show ?thesis
  proof (cases "build_manifest (ho_hasher ho) now_ms (''mcp::'' @ ?server @ ''::'' @ ?slug) ?server r")
    case (Inl e)
    then show ?thesis using Inr by (simp add: forge_mcp_tool_def Let_def)
  next
    case m: (Inr m)
    obtain reg1 u where up: "upsert_governed_manifest ho m reg = (reg1, u)" by fastforce
    then have "puts ho reg reg1"
      using puts_upsert [OF build_manifest_forged [OF m], of ho reg] by simp
    then show ?thesis using Inr m up by (cases u) (simp_all add: forge_mcp_tool_def Let_def)
  qed
qed

lemma mutate_fst:
  "fst (mutate_capability ho name unknown change arguments reg) = reg \<or>
   (\<exists>request. fst (mutate_capability ho name unknown change arguments reg) = fst (change request reg))"
proof (cases "ho_mutation_request ho arguments")
  case (Inr request)
  obtain reg1 r where "change request reg = (reg1, r)" by fastforce
  then show ?thesis using Inr by (cases r) (auto simp: mutate_capability_def intro: exI [of _ request])
qed (simp add: mutate_capability_def)

lemma puts_mutate:
  assumes "\<And>request. puts ho reg (fst (change request reg))"
  shows "puts ho reg (fst (mutate_capability ho name unknown change arguments reg))"
  using mutate_fst [of ho name unknown change arguments reg] assms by (elim disjE exE) simp_all

lemma rollback_fst: "registry_ok ho reg \<Longrightarrow> fst (rollback_capability ho now_ms name reg) = reg"
  using rollback_finds_nothing [of ho reg now_ms name] by auto

lemma puts_run_tool:
  assumes "registry_ok ho reg"
  shows "puts ho reg (fst (run_tool ho now_ms t arguments reg))"
  by (cases t)
     (simp_all add: puts_forge puts_mutate puts_verify [OF assms] puts_deprecate [OF assms]
        rollback_fst [OF assms] Let_def)

lemma puts_execute:
  assumes "registry_ok ho reg"
  shows "puts ho reg (fst (execute_tool ho now_ms name arguments reg))"
  unfolding execute_tool_def
  by (simp add: puts_run_tool [OF assms] split: sum.split option.split)

datatype registry_op = Op_Execute "64 word" string string | Op_Retire "64 word"

fun registry_exec :: "ToolHost \<Rightarrow> registry_op \<Rightarrow> ToolRegistry \<Rightarrow> ToolRegistry" where
  "registry_exec ho (Op_Execute now_ms name arguments) reg = fst (execute_tool ho now_ms name arguments reg)"
| "registry_exec ho (Op_Retire now_ms) reg = fst (auto_retire_unhealthy_capabilities ho now_ms reg)"

definition registry_run :: "ToolHost \<Rightarrow> ToolsConfig \<Rightarrow> KnowledgeTable \<Rightarrow> registry_op list \<Rightarrow> ToolRegistry" where
  "registry_run ho config db ops = fold (registry_exec ho) ops (attach_state_store db (from_config config))"

lemma get_tool_fold:
  "get_tool (fold registry_register ts reg) name = Some t \<Longrightarrow> t \<in> set ts \<or> get_tool reg name = Some t"
proof (induction ts arbitrary: reg)
  case (Cons x ts)
  then show ?case by (fastforce split: if_splits)
qed simp

lemma fold_register_tool [simp]:
  "get_manifest (fold registry_register ts reg) = get_manifest reg"
  "keys_ok (fold registry_register ts reg) = keys_ok reg"
  by (induction ts arbitrary: reg) simp_all

lemma from_config_new:
  "get_manifest (from_config config) name = None" "keys_ok (from_config config)"
  "get_tool (from_config config) name \<noteq> Some (T_Forged n t)"
proof -
  show "get_manifest (from_config config) name = None"
    by (simp add: from_config_def Let_def) (simp add: get_manifest_def)
  show "keys_ok (from_config config)"
    by (simp add: from_config_def Let_def) (simp add: keys_ok_def)
  show "get_tool (from_config config) name \<noteq> Some (T_Forged n t)"
  proof
    assume "get_tool (from_config config) name = Some (T_Forged n t)"
    then show False unfolding from_config_def Let_def
      by (auto dest!: get_tool_fold simp: builtin_tool_def split: if_splits) (simp add: get_tool_def)
  qed
qed

lemma registry_ok_attached: "registry_ok ho (attach_state_store db (from_config config))"
  by (simp add: attach_state_store_def registry_ok_def from_config_new)

lemma puts_exec:
  assumes "registry_ok ho reg"
  shows "puts ho reg (registry_exec ho op reg)"
  using puts_execute [OF assms] puts_retire [OF assms]
  by (cases op) (simp_all add: auto_retire_unhealthy_capabilities_def)

lemma puts_fold:
  "registry_ok ho reg \<Longrightarrow> puts ho reg (fold (registry_exec ho) ops reg)"
proof (induction ops arbitrary: reg)
  case (Cons op ops)
  have p: "puts ho reg (registry_exec ho op reg)" by (rule puts_exec [OF Cons.prems])
  show ?case using rtranclp_trans [OF p Cons.IH [OF puts_ok [OF p Cons.prems]]] by simp
qed simp

lemma puts_registry_run:
  "puts ho (attach_state_store db (from_config config)) (registry_run ho config db ops)"
  unfolding registry_run_def by (rule puts_fold [OF registry_ok_attached])

lemma registry_ok_run: "registry_ok ho (registry_run ho config db ops)"
  by (rule puts_ok [OF puts_registry_run registry_ok_attached])

section \<open>What runs\<close>

lemma render_command_core: "render_command txt (core m) payload = render_command txt m payload"
  by (cases payload) (simp_all add: render_command_def argument_specs_def core_def)

lemma invoke_core: "core t = core m \<Longrightarrow> invoke_forged ho name t arguments = invoke_forged ho name m arguments"
proof -
  have "invoke_forged ho name (core x) arguments = invoke_forged ho name x arguments" for x
    unfolding invoke_forged_def render_command_core by (simp add: core_def)
  then show "core t = core m \<Longrightarrow> ?thesis" by metis
qed

text \<open>
  C32: A forged capability runs only while it is vouched for. In a registry reached from its configuration
  by any sequence of tool calls (forging, verification, deprecation, rollback, catalogue, forged tools)
  and retirement sweeps, a call to a capability with a manifest returns a result exactly when the
  manifest on record is active, verified, trusted and healthy, its supply-chain check passes at that
  moment, and the command of that manifest renders on the given arguments; the result is that rendering.
\<close>

theorem forged_capability_runs_iff_vouched:
  assumes "get_manifest (registry_run ho config db ops) name = Some m"
  shows "snd (execute_tool ho now_ms name arguments (registry_run ho config db ops)) = Ok r \<longleftrightarrow>
           is_executable m \<and> manifest_findings (ho_hasher ho) m = [] \<and>
           invoke_forged ho name m arguments = Ok r"
proof (cases "is_executable m")
  case False
  then show ?thesis using assms by (simp add: execute_tool_def admit_manifest_def)
next
  case True
  let ?reg = "registry_run ho config db ops"
  note ok = registry_okD [OF registry_ok_run [of ho config db ops]]
  have trusted: "mf_trust_status m = Trust_Trusted" "mf_status m = Cap_Active"
    using True by (simp_all add: is_executable_def)
  obtain t where t: "get_tool ?reg name = Some (T_Forged name t)"
    using ok(5) [OF assms trusted(2)] by blast
  have "core t = core m" using ok(6) [OF t] assms by simp
  moreover have "manifest_findings (ho_hasher ho) m = []"
    using ok(3) [OF assms] trusted(1) by (simp add: vouched_def)
  ultimately show ?thesis
    using True trusted assms t invoke_core [of t m ho name arguments]
    by (simp add: execute_tool_def admit_manifest_def)
qed

end
