(* ===== verification/Registry_Store.thy ===== *)
theory Registry_Store
  imports Registry_Safety
begin

text \<open>
  The registry and the store it persists to: restoring gives back the manifests of the registry that
  wrote them. Then a concrete registry, and what happens when a capability is forged a second time.
\<close>

section \<open>Agreement with the store\<close>

abbreviation forged_key :: "string \<Rightarrow> string" where
  "forged_key name \<equiv> FORGED_TOOL_PREFIX @ name"

definition store_ok :: "ToolHost \<Rightarrow> ToolRegistry \<Rightarrow> bool" where
  "store_ok ho reg \<longleftrightarrow> (\<forall>db. tg_state_store reg = Some db \<longrightarrow> table_ok db \<and>
     (\<forall>name. map_option kr_value (get_knowledge db (forged_key name)) =
             map_option (fst (ho_manifest ho)) (get_manifest reg name)))"

lemma store_ok_persist:
  assumes "store_ok ho reg" "tg_state_store reg' = tg_state_store reg"
    and "get_manifest reg' = (get_manifest reg)(mf_registered_tool_name m \<mapsto> m)"
  shows "store_ok ho (fst (persist_manifest ho m reg'))"
proof (cases "tg_state_store reg")
  case None
  then show ?thesis using assms(2) by (simp add: store_ok_def persist_manifest_def)
next
  case (Some db)
  let ?key = "forged_key (mf_registered_tool_name m)"
  have "\<not> evidence_key ?key" by (simp add: FORGED_TOOL_PREFIX_def)
  then obtain db' r where u: "upsert_knowledge db ?key (fst (ho_manifest ho) m) ''cli-forge'' = (db', Ok r)"
      "kr_value r = fst (ho_manifest ho) m" "get_knowledge db' = (get_knowledge db)(?key \<mapsto> r)"
    using knowledge.accepts by blast
  have "table_ok db" using assms(1) Some by (simp add: store_ok_def)
  then have "table_ok db'"
    using table_ok_upsert [of db ?key "fst (ho_manifest ho) m" "''cli-forge''"] u(1) by simp
  moreover have "fst (persist_manifest ho m reg') = reg'\<lparr> tg_state_store := Some db' \<rparr>"
    using Some assms(2) u(1) by (simp add: persist_manifest_def upsert_json_knowledge_def)
  ultimately show ?thesis
    using assms(1,3) Some u(2,3) by (simp add: store_ok_def)
qed

lemma put_step_store:
  assumes "put_step ho reg reg'" "store_ok ho reg"
  shows "store_ok ho reg'"
  using assms(1) by cases (simp_all add: store_ok_persist [OF assms(2)])

lemma puts_store: "puts ho reg reg' \<Longrightarrow> store_ok ho reg \<Longrightarrow> store_ok ho reg'"
  by (induction rule: rtranclp_induct) (auto intro: put_step_store)

lemma listing_empty:
  assumes "table_ok db" "list_knowledge_by_prefix db pfx = []"
  shows "get_knowledge db (pfx @ name) = None"
proof (rule ccontr)
  assume "get_knowledge db (pfx @ name) \<noteq> None"
  then obtain r where r: "get_knowledge db (pfx @ name) = Some r" by blast
  then have "r \<in> set (list_knowledge_by_prefix db pfx)"
    using table.own_key [OF assms(1) r] by (simp add: table.listed [OF assms(1)])
  then show False using assms(2) by simp
qed

lemma store_ok_attached:
  assumes "table_ok db" "list_knowledge_by_prefix db FORGED_TOOL_PREFIX = []"
  shows "store_ok ho (attach_state_store db (from_config config))"
  using assms(1) listing_empty [OF assms]
  by (simp add: store_ok_def attach_state_store_def from_config_new)

section \<open>Restoring\<close>

lemma hydrate_simps [simp]:
  "get_manifest (hydrate_manifest m reg) = (get_manifest reg)(mf_registered_tool_name m \<mapsto> m)"
  "keys_ok reg \<Longrightarrow> keys_ok (hydrate_manifest m reg)"
  by (simp_all add: hydrate_manifest_def)

lemma hydrate_records_effect:
  assumes "\<And>r. r \<in> set rs \<Longrightarrow> snd (ho_manifest ho) (kr_value r) = Inr (M r) \<and>
      kr_key r = forged_key (mf_registered_tool_name (M r))"
    and "distinct (map kr_key rs)" "keys_ok reg"
  shows "\<exists>reg'. hydrate_records ho rs n reg = (reg', Ok (n + length rs)) \<and> keys_ok reg' \<and>
    (\<forall>name. get_manifest reg' name =
       (case find (\<lambda>r. kr_key r = forged_key name) rs of Some r \<Rightarrow> Some (M r) | None \<Rightarrow> get_manifest reg name))"
  using assms
proof (induction rs arbitrary: n reg)
  case (Cons r rs)
  let ?reg = "hydrate_manifest (M r) reg"
  have "\<exists>reg'. hydrate_records ho rs (n + 1) ?reg = (reg', Ok (n + 1 + length rs)) \<and> keys_ok reg' \<and>
    (\<forall>name. get_manifest reg' name = (case find (\<lambda>r. kr_key r = forged_key name) rs of
       Some r \<Rightarrow> Some (M r) | None \<Rightarrow> get_manifest ?reg name))"
    using Cons.prems by (intro Cons.IH) simp_all
  then obtain reg' where h: "hydrate_records ho rs (n + 1) ?reg = (reg', Ok (n + 1 + length rs))" "keys_ok reg'"
      "\<And>name. get_manifest reg' name = (case find (\<lambda>r. kr_key r = forged_key name) rs of
         Some r \<Rightarrow> Some (M r) | None \<Rightarrow> get_manifest ?reg name)" by blast
  have dec: "snd (ho_manifest ho) (kr_value r) = Inr (M r)"
    and key: "kr_key r = forged_key (mf_registered_tool_name (M r))"
    using Cons.prems(1) [of r] by simp_all
  have "get_manifest reg' name = (case find (\<lambda>r. kr_key r = forged_key name) (r # rs) of
      Some r \<Rightarrow> Some (M r) | None \<Rightarrow> get_manifest reg name)" for name
  proof (cases "name = mf_registered_tool_name (M r)")
    case True
    then have "find (\<lambda>r. kr_key r = forged_key name) rs = None"
      using Cons.prems(2) key by (auto simp: find_None_iff image_iff)
    then show ?thesis using h(3) [of name] True key by simp
  next
    case False
    then have "kr_key r \<noteq> forged_key name" using key by simp
    then show ?thesis using h(3) [of name] False
      by (cases "find (\<lambda>r. kr_key r = forged_key name) rs") simp_all
  qed
  then show ?case using h(1,2) dec by auto
qed simp

lemma find_listing:
  assumes "table_ok db" "prefix pfx key"
  shows "find (\<lambda>r. kr_key r = key) (list_knowledge_by_prefix db pfx) = get_knowledge db key"
proof (cases "get_knowledge db key")
  case None
  have "kr_key r \<noteq> key" if "r \<in> set (list_knowledge_by_prefix db pfx)" for r
    using that None by (auto simp: table.listed [OF assms(1)])
  then show ?thesis using None by (auto simp: find_None_iff)
next
  case (Some r)
  have r: "kr_key r = key" by (rule table.own_key [OF assms(1) Some])
  obtain q where q: "find (\<lambda>r. kr_key r = key) (list_knowledge_by_prefix db pfx) = Some q"
  proof (cases "find (\<lambda>r. kr_key r = key) (list_knowledge_by_prefix db pfx)")
    case None
    have "r \<in> set (list_knowledge_by_prefix db pfx)"
      using Some r assms(2) by (simp add: table.listed [OF assms(1)])
    then show ?thesis using None r by (auto simp: find_None_iff)
  qed blast
  then have "q \<in> set (list_knowledge_by_prefix db pfx)" "kr_key q = key"
    by (auto simp: find_Some_iff)
  then show ?thesis using q Some by (simp add: table.listed [OF assms(1)])
qed

lemma manifests_unique:
  assumes "keys_ok reg" "keys_ok reg'" "get_manifest reg' = get_manifest reg"
    and "\<And>name m. get_manifest reg name = Some m \<Longrightarrow> mf_registered_tool_name m = name"
  shows "manifests reg' = manifests reg"
proof (rule map_sorted_distinct_set_unique [where f = mf_registered_tool_name])
  have distinct_names: "distinct (map mf_registered_tool_name (manifests r))"
    if r: "keys_ok r" "get_manifest r = get_manifest reg" for r
  proof -
    have "mf_registered_tool_name (snd p) = fst p" if p: "p \<in> set (tg_manifests r)" for p
    proof -
      have "get_manifest r (fst p) = Some (snd p)"
        using r(1) p by (simp add: keys_ok_def get_manifest_def)
      then show ?thesis using r(2) assms(4) by simp
    qed
    then have "map mf_registered_tool_name (map snd (tg_manifests r)) = map fst (tg_manifests r)" by simp
    then have names: "distinct (map mf_registered_tool_name (map snd (tg_manifests r)))"
      using r(1) by (simp only: keys_ok_def)
    have same: "mset (map mf_registered_tool_name (manifests r)) =
        mset (map mf_registered_tool_name (map snd (tg_manifests r)))"
      unfolding manifests_def mset_map mset_sort ..
    show ?thesis unfolding mset_eq_imp_distinct_iff [OF same] by (rule names)
  qed
  show "set (manifests reg') = set (manifests reg)"
    using assms(1-3) by (simp add: set_manifests)
  then show "inj_on mf_registered_tool_name (set (manifests reg') \<union> set (manifests reg))"
    using distinct_names [OF assms(1) refl] by (simp add: distinct_map)
  show "distinct (map mf_registered_tool_name (manifests reg'))"
    "distinct (map mf_registered_tool_name (manifests reg))"
    by (rule distinct_names [OF assms(2,3)], rule distinct_names [OF assms(1) refl])
qed (simp_all add: manifests_def)

text \<open>
  C35: Persist and restore is a round trip. Whatever the registry went through, forging, verification,
  rejection, deprecation and retirement included, a fresh registry restored from the store the first one
  wrote to has the same manifests in the same order, governance state included, and restoring them does
  not fail; serde_json need only read back the manifests that are there.
\<close>

theorem registry_persists_and_restores:
  assumes "table_ok db0" "list_knowledge_by_prefix db0 FORGED_TOOL_PREFIX = []"
    and "tg_state_store (registry_run ho config db0 ops) = Some db"
    and "list_all (\<lambda>m. snd (ho_manifest ho) (fst (ho_manifest ho) m) = Inr m)
           (manifests (registry_run ho config db0 ops))"
  shows "\<exists>reg' n. restore_persisted_manifests ho (attach_state_store db (from_config config')) = (reg', Ok n) \<and>
           manifests reg' = manifests (registry_run ho config db0 ops)"
proof -
  let ?reg = "registry_run ho config db0 ops" and ?new = "attach_state_store db (from_config config')"
  note ok = registry_okD [OF registry_ok_run [of ho config db0 ops]]
  have "store_ok ho ?reg"
    by (rule puts_store [OF puts_registry_run store_ok_attached [OF assms(1,2)]])
  then have db: "table_ok db" and agrees: "\<And>name. map_option kr_value (get_knowledge db (forged_key name)) =
      map_option (fst (ho_manifest ho)) (get_manifest ?reg name)"
    using assms(3) by (simp_all add: store_ok_def)
  define M :: "KnowledgeRecord \<Rightarrow> ForgedMcpToolManifest"
    where "M r = (case snd (ho_manifest ho) (kr_value r) of Inr m \<Rightarrow> m | Inl _ \<Rightarrow> undefined)" for r :: KnowledgeRecord
  have decode: "snd (ho_manifest ho) (kr_value r) = Inr m \<and> M r = m"
    if "get_manifest ?reg name = Some m" "get_knowledge db (forged_key name) = Some r" for name m r
  proof -
    have "m \<in> set (manifests ?reg)" using that(1) by (auto simp: set_manifests [OF ok(1)])
    then show ?thesis using assms(4) agrees [of name] that by (simp add: list_all_iff M_def)
  qed
  have entry: "snd (ho_manifest ho) (kr_value r) = Inr (M r) \<and>
      kr_key r = forged_key (mf_registered_tool_name (M r))"
    if r: "r \<in> set (list_knowledge_by_prefix db FORGED_TOOL_PREFIX)" for r
  proof -
    obtain name where name: "kr_key r = forged_key name" "get_knowledge db (forged_key name) = Some r"
      using r by (auto simp: table.listed [OF db] prefix_def)
    have "get_manifest ?reg name \<noteq> None" using agrees [of name] name(2)
      by (cases "get_manifest ?reg name") simp_all
    then obtain m where m: "get_manifest ?reg name = Some m" by blast
    show ?thesis using decode [OF m name(2)] ok(2) [OF m] name(1) by simp
  qed
  have "keys_ok ?new" by (simp add: attach_state_store_def from_config_new)
  then have "\<exists>reg'. hydrate_records ho (list_knowledge_by_prefix db FORGED_TOOL_PREFIX) 0 ?new =
      (reg', Ok (0 + length (list_knowledge_by_prefix db FORGED_TOOL_PREFIX))) \<and> keys_ok reg' \<and>
      (\<forall>name. get_manifest reg' name = (case find (\<lambda>r. kr_key r = forged_key name)
         (list_knowledge_by_prefix db FORGED_TOOL_PREFIX) of Some r \<Rightarrow> Some (M r) | None \<Rightarrow> get_manifest ?new name))"
    using entry table.in_order [OF db] by (intro hydrate_records_effect) simp_all
  then obtain reg' where h: "hydrate_records ho (list_knowledge_by_prefix db FORGED_TOOL_PREFIX) 0 ?new =
      (reg', Ok (0 + length (list_knowledge_by_prefix db FORGED_TOOL_PREFIX)))" "keys_ok reg'"
      "\<And>name. get_manifest reg' name = (case find (\<lambda>r. kr_key r = forged_key name)
         (list_knowledge_by_prefix db FORGED_TOOL_PREFIX) of Some r \<Rightarrow> Some (M r) | None \<Rightarrow> get_manifest ?new name)"
    by blast
  have "get_manifest reg' name = get_manifest ?reg name" for name
  proof (cases "get_manifest ?reg name")
    case None
    then have "get_knowledge db (forged_key name) = None" using agrees [of name] by simp
    then show ?thesis
      using h(3) [of name] None find_listing [OF db, of FORGED_TOOL_PREFIX "forged_key name"]
      by (simp add: attach_state_store_def from_config_new)
  next
    case (Some m)
    then obtain r where r: "get_knowledge db (forged_key name) = Some r" using agrees [of name] by auto
    then show ?thesis
      using h(3) [of name] Some find_listing [OF db, of FORGED_TOOL_PREFIX "forged_key name"] decode [OF Some r]
      by simp
  qed
  then have "manifests reg' = manifests ?reg"
    using ok(1) h(2) ok(2) by (intro manifests_unique) auto
  then show ?thesis
    using h(1) by (auto simp: restore_persisted_manifests_def attach_state_store_def)
qed

section \<open>A concrete registry\<close>

definition sample_host :: ToolHost where
  "sample_host =
     \<lparr> ho_hasher = (\<lambda>_. 7), ho_manifest = (\<lambda>_. ''m'', \<lambda>_. Inr sample_manifest),
       ho_parse = (\<lambda>_. Inr (J_Object [(''project'', J_String ''p'')])), ho_text = (\<lambda>_. ''''),
       ho_pretty = (\<lambda>_. ''command''), ho_pretty_manifest = (\<lambda>_. ''manifest''),
       ho_pretty_manifests = (\<lambda>_. ''manifests''), ho_forge_request = (\<lambda>_. Inr sample_forge_request),
       ho_mutation_request = (\<lambda>_. Inl ''expected value''), ho_file_tool = (\<lambda>_ _. Err ''no file''),
       ho_overflow_checks = True \<rparr>"

definition sample_tools :: ToolsConfig where
  "sample_tools = \<lparr> tc_builtin = [], tc_allow_shell = False, tc_mcp_servers = [] \<rparr>"

abbreviation sample_forge :: "registry_op list" where
  "sample_forge \<equiv> [Op_Execute 1000 ''cli::forge_mcp_tool'' ''request'']"

abbreviation sample_name :: string where
  "sample_name \<equiv> ''mcp::local-mcp::diagram-export''"

lemma sample_slug: "sanitize_segment ''Diagram Export'' = ''diagram-export''"
  by (simp add: sanitize_segment_def ascii_alphanumeric_def byte_def ascii_lower_def trim_matches_def
      char_of_eq_iff)

lemma trim_show_hex16: "trim (show_hex16 w) = show_hex16 w" "show_hex16 w \<noteq> []"
proof -
  have "graphic (nibble_char n)" if "n < 16" for n
    using hex_digit_nibble_char [OF that] by (auto simp: hex_digit_def graphic_def)
  then have "list_all graphic (show_hex16 w)" by (simp add: show_hex16_def list_all_iff)
  moreover show "show_hex16 w \<noteq> []" by (simp add: show_hex16_def)
  ultimately show "trim (show_hex16 w) = show_hex16 w"
    by (intro trim_graphic) (simp_all add: list_all_iff)
qed

definition sample_signed :: ForgedMcpToolManifest where
  "sample_signed = unsigned_manifest (\<lambda>_. 7) 1000 sample_name ''local-mcp'' sample_forge_request
     \<lparr> mf_signature :=
         \<lparr> sg_signer = ''autoloop-ci'', sg_algorithm = DeterministicV1, sg_signed_payload_hash = show_hex16 7,
           sg_signature = signature_value_for ''autoloop-ci'' DeterministicV1 (show_hex16 7),
           sg_signed_at_ms = 1000 \<rparr> \<rparr>"

lemma sample_time: "show_word (1000 :: 64 word) = ''1000''"
  by (simp add: show_word_def show_nat.simps digit_char_def char_of_eq_iff)

lemma sample_signed_findings: "manifest_findings (\<lambda>_. 7) sample_signed = []"
  by (simp add: sample_signed_def manifest_findings_def Let_def unsigned_manifest_def sample_forge_request_def
      supply_chain_payload_hash_def default_trust_policy_def or_default_def component_findings_def hash_seed_def
      trim_show_hex16 eq_ignore_ascii_case_def ascii_lower_def sample_time)

lemma sample_manifest_eq: "sample_manifest = with_findings [] sample_signed"
proof -
  have "trim ''diagram-cli'' \<noteq> []" by (simp add: trim_graphic graphic_def byte_def)
  moreover have "sg_signer (mf_signature (unsigned_manifest (\<lambda>_. 7) 1000 sample_name ''local-mcp'' sample_forge_request))
      = ''autoloop-ci''" by (simp add: unsigned_manifest_def Let_def default_signature_def)
  moreover have "or_default (fr_signer sample_forge_request) ''autoloop-ci'' = ''autoloop-ci''"
    "fr_executable sample_forge_request = ''diagram-cli''"
    by (simp_all add: sample_forge_request_def or_default_def)
  moreover have "supply_chain_payload_hash (\<lambda>_. 7) m = show_hex16 7" for m
    by (simp add: supply_chain_payload_hash_def)
  ultimately show ?thesis
    using sample_signed_findings
    by (simp add: sample_manifest_def build_manifest_def Let_def sample_signed_def)
qed

lemma sample_manifest_fields [simp]:
  "mf_lineage_key sample_manifest = ''local-mcp:diagram-export''"
  "mf_capability_id sample_manifest = ''local-mcp:diagram-export''"
  "mf_version sample_manifest = 1"
  "mf_registered_tool_name sample_manifest = sample_name"
  "mf_updated_at_ms sample_manifest = 1000" "mf_created_at_ms sample_manifest = 1000"
  "mf_status sample_manifest = Cap_Active"
  "pv_source_ref (mf_provenance sample_manifest) = ''v1000''"
  using sample_slug
  by (simp_all add: sample_manifest_eq with_findings_def sample_signed_def unsigned_manifest_def Let_def
      sample_forge_request_def or_default_def sample_time infer_risk_def ascii_lower_def)

lemma sample_executable: "is_executable sample_manifest"
proof -
  have "mf_approval_status sample_manifest = Appr_Verified" "mf_trust_status sample_manifest = Trust_Trusted"
    "mf_health_score sample_manifest = round_f32 (82 / 100)"
    by (simp_all add: sample_manifest_eq with_findings_def sample_signed_def unsigned_manifest_def Let_def
        sample_forge_request_def infer_risk_def ascii_lower_def)
  moreover have "round_f32 (55 / 100) \<le> round_f32 (82 / 100)" by code_simp
  ultimately show ?thesis by (simp add: is_executable_def)
qed

lemma sample_host_simps [simp]:
  "ho_hasher sample_host = (\<lambda>_. 7)" "ho_overflow_checks sample_host = True"
  "ho_forge_request sample_host arguments = Inr sample_forge_request"
  "ho_manifest sample_host = (\<lambda>_. ''m'', \<lambda>_. Inr sample_manifest)"
  "ho_parse sample_host arguments = Inr (J_Object [(''project'', J_String ''p'')])"
  by (simp_all add: sample_host_def)

lemma sample_upsert:
  assumes "tg_manifests reg = []" "lineage_max reg ''local-mcp:diagram-export'' = 0"
  shows "upsert_governed_manifest sample_host sample_manifest reg =
    persist_manifest sample_host sample_manifest (hydrate_manifest sample_manifest reg)"
proof -
  have same: "sample_manifest\<lparr> mf_version := 1, mf_updated_at_ms := 1000 \<rparr> = sample_manifest"
    by (simp add: sample_manifest_eq with_findings_def sample_signed_def unsigned_manifest_def Let_def)
  have "trim ''v1000'' \<noteq> []" by (simp add: trim_graphic graphic_def byte_def)
  moreover have "manifest_findings (\<lambda>_. 7) sample_manifest = []"
    unfolding sample_manifest_eq with_findings_governance by (rule sample_signed_findings)
  ultimately have none: "registry_findings sample_host reg sample_manifest = []"
    using assms(2) by (simp add: registry_findings_def Let_def)
  have kept: "with_findings [] sample_manifest = sample_manifest"
    by (simp add: sample_manifest_eq with_findings_def)
  have next_version: "checked_plus True (0 :: 32 word) 1 = Inr 1" by (simp add: checked_plus_def)
  have "manifests reg = []" using assms(1) by (simp add: manifests_def)
  then show ?thesis
    unfolding upsert_governed_manifest_def Let_def
    by (simp add: next_version same none kept del: ForgedMcpToolManifest.update_convs)
qed

lemma sample_run:
  obtains db where "registry_run sample_host sample_tools new_table sample_forge =
    hydrate_manifest sample_manifest (attach_state_store new_table (from_config sample_tools))
      \<lparr> tg_state_store := Some db \<rparr>"
proof -
  let ?reg = "attach_state_store new_table (from_config sample_tools)"
  have reg: "tg_manifests ?reg = []" "lineage_max ?reg l = 0" "get_manifest ?reg n = None"
    "get_tool ?reg ''cli::forge_mcp_tool'' = Some (T_Forge ''local-mcp'')" for l n
    by (simp_all add: attach_state_store_def from_config_def sample_tools_def registry_register_def
        lineage_max_def or_default_def get_manifest_def get_tool_def)
  have built: "build_manifest (\<lambda>_. 7) 1000 (''mcp::'' @ ''local-mcp'' @ ''::'' @ sanitize_segment (fr_capability_name sample_forge_request))
      (or_default (fr_server sample_forge_request) ''local-mcp'') sample_forge_request = Inr sample_manifest"
    and slug: "sanitize_segment (fr_capability_name sample_forge_request) \<noteq> []"
    and server: "or_default (fr_server sample_forge_request) ''local-mcp'' = ''local-mcp''"
    using sample_built sample_slug by (simp_all add: sample_forge_request_def or_default_def)
  have "fst (forge_mcp_tool sample_host 1000 ''local-mcp'' ''request'' ?reg) =
      fst (persist_manifest sample_host sample_manifest (hydrate_manifest sample_manifest ?reg))"
    unfolding forge_mcp_tool_def Let_def sample_host_simps server
    using slug built sample_upsert [OF reg(1,2)] server by simp
  then have "registry_run sample_host sample_tools new_table sample_forge =
      fst (persist_manifest sample_host sample_manifest (hydrate_manifest sample_manifest ?reg))"
    using reg by (simp add: registry_run_def execute_tool_def)
  moreover obtain s where s: "fst (persist_manifest sample_host sample_manifest (hydrate_manifest sample_manifest ?reg)) =
      hydrate_manifest sample_manifest ?reg\<lparr> tg_state_store := s \<rparr>"
    by (rule persist_keeps)
  moreover have "tg_state_store (fst (persist_manifest sample_host sample_manifest (hydrate_manifest sample_manifest ?reg))) \<noteq> None"
    by (simp add: persist_manifest_def hydrate_manifest_def attach_state_store_def split: prod.split sum.split)
  ultimately show thesis using that by auto
qed

lemma sample_registered:
  "get_manifest (registry_run sample_host sample_tools new_table sample_forge) sample_name = Some sample_manifest"
  by (rule sample_run) simp

theorem forged_capability_runs_iff_vouched_witness:
  "snd (execute_tool sample_host 2000 sample_name ''call''
      (registry_run sample_host sample_tools new_table sample_forge)) =
     Ok \<lparr> tr_name = sample_name, tr_content = ''command'' \<rparr>"
proof -
  have "missing [(''project'', J_String ''p'')] sample_forge_request = None"
    by (simp add: missing_def sample_forge_request_def argument_value_def sanitize_segment_def
        ascii_alphanumeric_def byte_def ascii_lower_def trim_matches_def)
  then obtain display where "render_command (\<lambda>_. '''') sample_manifest (J_Object [(''project'', J_String ''p'')]) = Inr display"
    using render_arguments_schema(1) argument_specs_forged [OF sample_built]
    by (force simp: render_command_def missing_def is_ok_iff)
  moreover have "trim ''call'' \<noteq> []" by (simp add: trim_graphic graphic_def byte_def)
  ultimately have "invoke_forged sample_host sample_name sample_manifest ''call'' =
      Ok \<lparr> tr_name = sample_name, tr_content = ''command'' \<rparr>"
    by (simp add: invoke_forged_def parse_invocation_def sample_host_def)
  moreover have "manifest_findings (ho_hasher sample_host) sample_manifest = []"
    unfolding sample_manifest_eq with_findings_governance sample_host_simps by (rule sample_signed_findings)
  ultimately show ?thesis
    using forged_capability_runs_iff_vouched [OF sample_registered, of 2000 "''call''"] sample_executable by blast
qed

theorem registry_persists_and_restores_witness:
  "\<exists>db reg' n. restore_persisted_manifests sample_host (attach_state_store db (from_config sample_tools)) = (reg', Ok n) \<and>
     manifests reg' = [sample_manifest]"
proof -
  obtain db where run: "registry_run sample_host sample_tools new_table sample_forge =
    hydrate_manifest sample_manifest (attach_state_store new_table (from_config sample_tools))
      \<lparr> tg_state_store := Some db \<rparr>" by (rule sample_run)
  have "tg_manifests (attach_state_store new_table (from_config sample_tools)) = []"
    by (simp add: attach_state_store_def from_config_def sample_tools_def registry_register_def)
  then have "manifests (registry_run sample_host sample_tools new_table sample_forge) = [sample_manifest]"
    unfolding run by (simp add: manifests_def hydrate_manifest_def register_manifest_def registry_register_def)
  moreover have "list_knowledge_by_prefix new_table FORGED_TOOL_PREFIX = []"
    by (simp add: list_knowledge_by_prefix_def new_table_def)
  ultimately show ?thesis
    using registry_persists_and_restores [OF table_ok_new, of sample_host sample_tools sample_forge db sample_tools]
    by (auto simp: run)
qed

section \<open>Forging again, signing as somebody else\<close>

text \<open>
  A manifest is signed over its version, which \<^verbatim>\<open>build_manifest\<close> always sets to 1; the registry then
  gives a second manifest of the lineage another version, checks the signature and rejects it, and the
  rejected manifest takes the place of the one that ran. The tool still answers with its own manifest.
\<close>

lemma reforging_disables:
  assumes built: "build_manifest (ho_hasher ho) now_ms tname server r = Ok m"
    and v: "checked_plus (ho_overflow_checks ho)
      (fold max (map mf_version (filter (\<lambda>e. mf_lineage_key e = mf_lineage_key m) (manifests reg))) 0) 1 = Ok v"
    and other: "supply_chain_payload_hash (ho_hasher ho) (m\<lparr> mf_version := v \<rparr>) \<noteq>
                supply_chain_payload_hash (ho_hasher ho) m"
  shows "\<exists>m'. get_manifest (fst (upsert_governed_manifest ho m reg)) tname = Some m' \<and> \<not> is_executable m'"
proof -
  define m1 where "m1 = m\<lparr> mf_version := v, mf_updated_at_ms := max (mf_updated_at_ms m) (mf_created_at_ms m) \<rparr>"
  define m2 where "m2 = with_findings (registry_findings ho reg m1) m1"
  let ?h = "ho_hasher ho"
  have m1_hash: "supply_chain_payload_hash ?h m1 = supply_chain_payload_hash ?h (m\<lparr> mf_version := v \<rparr>)"
    by (simp add: m1_def)
  obtain fs sg where m: "m = with_findings fs (unsigned_manifest ?h now_ms tname server r\<lparr> mf_signature := sg \<rparr>)"
      and sg: "sg_signed_payload_hash sg = supply_chain_payload_hash ?h (unsigned_manifest ?h now_ms tname server r)"
    using built unfolding build_manifest_def Let_def by (auto split: if_splits)
  have hash: "supply_chain_payload_hash ?h (with_findings fs x\<lparr> mf_signature := sg \<rparr>) = supply_chain_payload_hash ?h x" for fs x sg
    by (simp add: supply_chain_payload_hash_def with_findings_def Let_def)
  have hash2: "supply_chain_payload_hash ?h (with_findings fs (x\<lparr> mf_signature := sg \<rparr>)) = supply_chain_payload_hash ?h x" for fs x sg
    by (simp add: supply_chain_payload_hash_def with_findings_def Let_def)
  have "mf_signature m1 = sg" by (simp add: m1_def m with_findings_def Let_def)
  moreover have "sg_signed_payload_hash sg = supply_chain_payload_hash ?h m" unfolding sg m hash2 ..
  ultimately have "''signature payload hash mismatch'' \<in> set (manifest_findings ?h m1)"
    using other m1_hash by (simp add: manifest_findings_def Let_def)
  then have "registry_findings ho reg m1 \<noteq> []" by (auto simp: registry_findings_def Let_def)
  then have "\<not> is_executable m2" by (simp add: m2_def is_executable_def)
  moreover have "mf_lineage_key m \<noteq> []" "mf_capability_id m \<noteq> []" "mf_registered_tool_name m = tname"
    by (simp_all add: build_manifest_fields [OF built])
  moreover obtain s where "fst (persist_manifest ho m2 (hydrate_manifest m2 reg)) = hydrate_manifest m2 reg\<lparr> tg_state_store := s \<rparr>"
    by (rule persist_keeps)
  ultimately show ?thesis
    using v by (simp add: upsert_governed_manifest_def Let_def flip: m1_def m2_def) (simp add: m2_def m1_def)
qed

lemma signature_determines_signer:
  "signature_value_for s alg x = signature_value_for t alg y \<Longrightarrow> length x = length y \<Longrightarrow> s = t"
  by (simp add: signature_value_for_def)

lemma foreign_signer_rejected:
  assumes built: "build_manifest h now_ms tname server r = Ok m"
    and "fr_signer r = Some signer" "signer \<noteq> ''autoloop-ci''"
  shows "\<not> is_executable m"
proof -
  let ?m = "unsigned_manifest h now_ms tname server r"
  have "sg_signer (mf_signature ?m) = ''autoloop-ci''"
    by (simp add: unsigned_manifest_def Let_def default_signature_def)
  moreover have "signature_value_for ''autoloop-ci'' DeterministicV1 x \<noteq> signature_value_for signer DeterministicV1 y"
    if "length x = length y" for x y
    using assms(3) that by (auto dest: signature_determines_signer)
  moreover have "length (show_hex16 w) = 16" for w by (simp add: show_hex16_def)
  ultimately have bad: "''signature verification failed'' \<in> set (manifest_findings h (?m\<lparr> mf_signature :=
      \<lparr> sg_signer = signer, sg_algorithm = DeterministicV1, sg_signed_payload_hash = supply_chain_payload_hash h ?m,
        sg_signature = signature_value_for (sg_signer (mf_signature ?m)) DeterministicV1 (supply_chain_payload_hash h ?m),
        sg_signed_at_ms = now_ms \<rparr> \<rparr>))"
    by (simp add: manifest_findings_def Let_def supply_chain_payload_hash_def)
  have "or_default (fr_signer r) ''autoloop-ci'' = signer" using assms(2) by (simp add: or_default_def)
  then show ?thesis
    using built bad by (auto simp: build_manifest_def Let_def is_executable_def split: if_splits)
qed

end
