(* ===== verification/Hooks.thy ===== *)
theory Hooks
  imports Rust_Strings
begin

text \<open>
  The hook runtime, \<^verbatim>\<open>src/runtime/hook_runtime.rs\<close>: rules that allow, deny, rewrite or extend what a
  tool call carries, at seven phases of an execution. The rules are a list that \<^verbatim>\<open>set_rules\<close>
  replaces; \<^verbatim>\<open>HookRuntime\<close> holds nothing else.
\<close>

datatype HookPhase =
    Hook_Before | Hook_Step | Hook_Stream | Hook_Return | Hook_Throws | Hook_Timeout | Hook_Kill

datatype HookStage = Stage_PreToolUse | Stage_PostToolUse | Stage_OnResult | Stage_OnError

fun to_phase :: "HookStage \<Rightarrow> HookPhase" where
  "to_phase Stage_PreToolUse = Hook_Before"
| "to_phase Stage_PostToolUse = Hook_Step"
| "to_phase Stage_OnResult = Hook_Return"
| "to_phase Stage_OnError = Hook_Throws"

datatype HookAction = Hook_Allow | Hook_Deny | Hook_Rewrite | Hook_Mutate

datatype HookChannel = Channel_Command | Channel_Http | Channel_Prompt | Channel_Agent

record HookRule =
  hr_id :: string
  hr_phase :: HookPhase
  hr_action :: HookAction
  hr_channel :: "HookChannel option"
  hr_tool_contains :: "string option"
  hr_value :: "string option"
  hr_reason :: string

record HookTrace =
  ht_rule_id :: string
  ht_phase :: HookPhase
  ht_channel :: HookChannel
  ht_action :: HookAction
  ht_reason :: string

record HookOutcome =
  hk_allowed :: bool
  hk_channel :: HookChannel
  hk_tool_name :: string
  hk_arguments :: string
  hk_output :: "string option"
  hk_error :: "string option"
  hk_traces :: "HookTrace list"

text \<open>The names serde and \<^verbatim>\<open>{:?}\<close> give; the JSON of a trace is built from the former.\<close>

fun phase_name :: "HookPhase \<Rightarrow> string" where
  "phase_name Hook_Before = ''before''"
| "phase_name Hook_Step = ''step''"
| "phase_name Hook_Stream = ''stream''"
| "phase_name Hook_Return = ''return''"
| "phase_name Hook_Throws = ''throws''"
| "phase_name Hook_Timeout = ''timeout''"
| "phase_name Hook_Kill = ''kill''"

fun action_name :: "HookAction \<Rightarrow> string" where
  "action_name Hook_Allow = ''allow''"
| "action_name Hook_Deny = ''deny''"
| "action_name Hook_Rewrite = ''rewrite''"
| "action_name Hook_Mutate = ''mutate''"

fun channel_name :: "HookChannel \<Rightarrow> string" where
  "channel_name Channel_Command = ''command''"
| "channel_name Channel_Http = ''http''"
| "channel_name Channel_Prompt = ''prompt''"
| "channel_name Channel_Agent = ''agent''"

section \<open>One phase\<close>

definition applicable :: "HookRule list \<Rightarrow> HookPhase \<Rightarrow> HookChannel \<Rightarrow> string \<Rightarrow> HookRule list" where
  "applicable rules phase channel tool_name =
     filter (\<lambda>rule. case hr_tool_contains rule of None \<Rightarrow> True | Some p \<Rightarrow> contains tool_name p)
       (filter (\<lambda>rule. case hr_channel rule of None \<Rightarrow> True | Some c \<Rightarrow> c = channel)
          (filter (\<lambda>rule. hr_phase rule = phase) rules))"

definition rewrite_outcome :: "HookPhase \<Rightarrow> string \<Rightarrow> HookOutcome \<Rightarrow> HookOutcome" where
  "rewrite_outcome phase v ot =
     (if phase \<in> {Hook_Return, Hook_Stream} then ot\<lparr> hk_output := Some v \<rparr>
      else if phase \<in> {Hook_Throws, Hook_Timeout, Hook_Kill} then ot\<lparr> hk_error := Some v \<rparr>
      else ot\<lparr> hk_arguments := v \<rparr>)"

definition mutate_outcome :: "HookPhase \<Rightarrow> string \<Rightarrow> HookOutcome \<Rightarrow> HookOutcome" where
  "mutate_outcome phase v ot =
     (if phase \<in> {Hook_Return, Hook_Stream}
      then ot\<lparr> hk_output := Some ((case hk_output ot of None \<Rightarrow> [] | Some t \<Rightarrow> t) @ v) \<rparr>
      else if phase \<in> {Hook_Throws, Hook_Timeout, Hook_Kill}
      then ot\<lparr> hk_error := Some ((case hk_error ot of None \<Rightarrow> [] | Some t \<Rightarrow> t) @ v) \<rparr>
      else ot\<lparr> hk_arguments := hk_arguments ot @ v \<rparr>)"

definition trace_of :: "HookPhase \<Rightarrow> HookChannel \<Rightarrow> HookRule \<Rightarrow> HookTrace" where
  "trace_of phase channel rule =
     \<lparr> ht_rule_id = hr_id rule, ht_phase = phase, ht_channel = channel, ht_action = hr_action rule,
       ht_reason = hr_reason rule \<rparr>"

fun run_rules :: "HookPhase \<Rightarrow> HookRule list \<Rightarrow> HookOutcome \<Rightarrow> HookOutcome" where
  "run_rules phase [] ot = ot"
| "run_rules phase (rule # rules) ot =
     (let ot = ot\<lparr> hk_traces := hk_traces ot @ [trace_of phase (hk_channel ot) rule] \<rparr>
      in case hr_action rule of
           Hook_Allow \<Rightarrow> run_rules phase rules ot
         | Hook_Deny \<Rightarrow>
             ot\<lparr> hk_allowed := False,
                hk_error := (case hk_error ot of None \<Rightarrow> Some (hr_reason rule) | Some e \<Rightarrow> Some e) \<rparr>
         | Hook_Rewrite \<Rightarrow>
             run_rules phase rules
               (case hr_value rule of None \<Rightarrow> ot | Some v \<Rightarrow> rewrite_outcome phase v ot)
         | Hook_Mutate \<Rightarrow>
             run_rules phase rules
               (case hr_value rule of None \<Rightarrow> ot | Some v \<Rightarrow> mutate_outcome phase v ot))"

definition apply_phase_only ::
    "HookRule list \<Rightarrow> HookPhase \<Rightarrow> HookChannel \<Rightarrow> string \<Rightarrow> string \<Rightarrow> string option \<Rightarrow> string option \<Rightarrow>
     HookOutcome" where
  "apply_phase_only rules phase channel tool_name arguments output error =
     run_rules phase (applicable rules phase channel tool_name)
       \<lparr> hk_allowed = True, hk_channel = channel, hk_tool_name = tool_name, hk_arguments = arguments,
         hk_output = output, hk_error = error, hk_traces = [] \<rparr>"

section \<open>The phases\<close>

definition apply_before_with_channel where
  "apply_before_with_channel rules channel tool_name arguments =
     apply_phase_only rules Hook_Before channel tool_name arguments None None"

definition apply_step_with_channel where
  "apply_step_with_channel rules channel tool_name arguments =
     apply_phase_only rules Hook_Step channel tool_name arguments None None"

definition apply_stream_with_channel where
  "apply_stream_with_channel rules channel tool_name arguments output =
     apply_phase_only rules Hook_Stream channel tool_name arguments (Some output) None"

definition apply_return_with_channel where
  "apply_return_with_channel rules channel tool_name arguments output =
     apply_phase_only rules Hook_Return channel tool_name arguments (Some output) None"

definition apply_throws_with_channel where
  "apply_throws_with_channel rules channel tool_name arguments error =
     apply_phase_only rules Hook_Throws channel tool_name arguments None (Some error)"

definition apply_timeout_with_channel where
  "apply_timeout_with_channel rules channel tool_name arguments detail =
     apply_phase_only rules Hook_Timeout channel tool_name arguments None (Some detail)"

definition apply_kill_with_channel where
  "apply_kill_with_channel rules channel tool_name arguments detail =
     apply_phase_only rules Hook_Kill channel tool_name arguments None (Some detail)"

text \<open>The shorthands for the command channel, and the names of the older stages.\<close>

definition apply_before where "apply_before rules = apply_before_with_channel rules Channel_Command"
definition apply_step where "apply_step rules = apply_step_with_channel rules Channel_Command"
definition apply_stream where "apply_stream rules = apply_stream_with_channel rules Channel_Command"
definition apply_return where "apply_return rules = apply_return_with_channel rules Channel_Command"
definition apply_throws where "apply_throws rules = apply_throws_with_channel rules Channel_Command"
definition apply_timeout where "apply_timeout rules = apply_timeout_with_channel rules Channel_Command"
definition apply_kill where "apply_kill rules = apply_kill_with_channel rules Channel_Command"
definition apply_pre_tool_use where "apply_pre_tool_use rules = apply_before rules"
definition apply_pre_tool_use_with_channel where "apply_pre_tool_use_with_channel rules = apply_before_with_channel rules"
definition apply_post_tool_use where "apply_post_tool_use rules = apply_step rules"
definition apply_post_tool_use_with_channel where "apply_post_tool_use_with_channel rules = apply_step_with_channel rules"
definition apply_on_result where "apply_on_result rules = apply_return rules"
definition apply_on_result_with_channel where "apply_on_result_with_channel rules = apply_return_with_channel rules"
definition apply_on_error where "apply_on_error rules = apply_throws rules"
definition apply_on_error_with_channel where "apply_on_error_with_channel rules = apply_throws_with_channel rules"

section \<open>What a phase does\<close>

text \<open>The rules that act: the applicable ones up to the first that denies.\<close>

definition acting :: "HookRule list \<Rightarrow> HookRule list" where
  "acting rules = takeWhile (\<lambda>r. hr_action r \<noteq> Hook_Deny) rules"

definition denying :: "HookRule list \<Rightarrow> HookRule option" where
  "denying rules = find (\<lambda>r. hr_action r = Hook_Deny) rules"

text \<open>The text a phase works on, as a sequence of edits sees it.\<close>

fun edited :: "string option \<Rightarrow> HookRule list \<Rightarrow> string option" where
  "edited t [] = t"
| "edited t (r # rs) =
     edited (case (hr_action r, hr_value r) of
               (Hook_Rewrite, Some v) \<Rightarrow> Some v
             | (Hook_Mutate, Some v) \<Rightarrow> Some ((case t of None \<Rightarrow> [] | Some s \<Rightarrow> s) @ v)
             | _ \<Rightarrow> t) rs"

definition edits_arguments :: "HookPhase \<Rightarrow> bool" where
  "edits_arguments phase \<longleftrightarrow> phase = Hook_Before \<or> phase = Hook_Step"

definition edits_output :: "HookPhase \<Rightarrow> bool" where
  "edits_output phase \<longleftrightarrow> phase = Hook_Return \<or> phase = Hook_Stream"

lemma edited_Some: "\<exists>s. edited (Some t) rs = Some s"
  by (induction rs arbitrary: t) (auto split: HookAction.split option.split)

lemma run_rules_frame [simp]:
  "hk_channel (run_rules phase rs ot) = hk_channel ot"
  "hk_tool_name (run_rules phase rs ot) = hk_tool_name ot"
  by (induction phase rs ot rule: run_rules.induct)
    (auto simp: Let_def rewrite_outcome_def mutate_outcome_def split: HookAction.split option.split)

lemma run_rules_split:
  "run_rules phase (rs @ ts) ot =
     (if \<exists>r\<in>set rs. hr_action r = Hook_Deny then run_rules phase rs ot
      else run_rules phase ts (run_rules phase rs ot))"
  by (induction phase rs ot rule: run_rules.induct) (auto simp: Let_def split: HookAction.split)

lemma run_rules_edit:
  assumes "\<forall>r\<in>set rs. hr_action r \<noteq> Hook_Deny"
  shows "run_rules phase rs ot =
     ot\<lparr> hk_traces := hk_traces ot @ map (trace_of phase (hk_channel ot)) rs,
        hk_arguments := (if edits_arguments phase then the (edited (Some (hk_arguments ot)) rs)
                         else hk_arguments ot),
        hk_output := (if edits_output phase then edited (hk_output ot) rs else hk_output ot),
        hk_error := (if edits_arguments phase \<or> edits_output phase then hk_error ot
                     else edited (hk_error ot) rs) \<rparr>"
  using assms
proof (induction phase rs ot rule: run_rules.induct)
  case (1 phase ot)
  then show ?case by (cases ot) simp
next
  case (2 phase rule rules ot)
  then show ?case
    by (cases phase; cases "hr_action rule"; cases "hr_value rule")
      (simp_all add: Let_def edits_arguments_def edits_output_def rewrite_outcome_def mutate_outcome_def)
qed

lemma acting_denying:
  "rs = acting rs @ dropWhile (\<lambda>r. hr_action r \<noteq> Hook_Deny) rs"
  "\<forall>r\<in>set (acting rs). hr_action r \<noteq> Hook_Deny"
  unfolding acting_def by (auto dest: set_takeWhileD)

lemma run_rules_denying:
  "run_rules phase (dropWhile (\<lambda>r. hr_action r \<noteq> Hook_Deny) rs) ot =
     run_rules phase (case denying rs of None \<Rightarrow> [] | Some r \<Rightarrow> [r]) ot"
  by (induction rs) (simp_all add: denying_def Let_def)

lemma denying_None [simp]: "denying rs = None \<longleftrightarrow> (\<forall>r\<in>set rs. hr_action r \<noteq> Hook_Deny)"
  by (auto simp: denying_def find_None_iff)

lemma denying_Some: "denying rs = Some r \<Longrightarrow> r \<in> set rs \<and> hr_action r = Hook_Deny"
  by (auto simp: denying_def find_Some_iff)

lemma run_rules_allowed:
  "hk_allowed (run_rules phase rs ot) \<longleftrightarrow> hk_allowed ot \<and> (\<forall>r\<in>set rs. hr_action r \<noteq> Hook_Deny)"
  by (induction phase rs ot rule: run_rules.induct)
    (auto simp: Let_def rewrite_outcome_def mutate_outcome_def split: HookAction.split option.split)

lemma hook_allowed_iff:
  "hk_allowed (apply_phase_only rules phase channel tool_name arguments output error) \<longleftrightarrow>
     (\<forall>r\<in>set (applicable rules phase channel tool_name). hr_action r \<noteq> Hook_Deny)"
  by (simp add: apply_phase_only_def run_rules_allowed)

text \<open>
  C31: One phase of the hooks, for any rules, is the run of the applicable rules up to the first
  that denies: the call is allowed exactly when none of them denies; the traces are those rules in
  order, the denying one included and none after it; and only the text the phase works on (the
  arguments before a call, the output of a result or a stream, the error of a failure) is the
  result of their edits, while a denial adds its reason only where no error was there.
\<close>

theorem hook_phase_effect:
  "apply_phase_only rules phase channel tool_name arguments output error =
     (let rs = applicable rules phase channel tool_name; d = denying rs;
          err = (if edits_arguments phase \<or> edits_output phase then error else edited error (acting rs))
      in \<lparr> hk_allowed = (d = None), hk_channel = channel, hk_tool_name = tool_name,
           hk_arguments = (if edits_arguments phase then the (edited (Some arguments) (acting rs))
                           else arguments),
           hk_output = (if edits_output phase then edited output (acting rs) else output),
           hk_error = (case d of None \<Rightarrow> err
                       | Some r \<Rightarrow> (case err of None \<Rightarrow> Some (hr_reason r) | Some e \<Rightarrow> Some e)),
           hk_traces = map (trace_of phase channel)
             (acting rs @ (case d of None \<Rightarrow> [] | Some r \<Rightarrow> [r])) \<rparr>)"
proof -
  let ?rs = "applicable rules phase channel tool_name"
  let ?ot = "\<lparr> hk_allowed = True, hk_channel = channel, hk_tool_name = tool_name,
     hk_arguments = arguments, hk_output = output, hk_error = error, hk_traces = [] \<rparr>"
  have no: "\<not> (\<exists>r\<in>set (acting ?rs). hr_action r = Hook_Deny)" using acting_denying(2) by blast
  have "run_rules phase ?rs ?ot =
      run_rules phase (dropWhile (\<lambda>r. hr_action r \<noteq> Hook_Deny) ?rs) (run_rules phase (acting ?rs) ?ot)"
    using run_rules_split [of phase "acting ?rs" "dropWhile (\<lambda>r. hr_action r \<noteq> Hook_Deny) ?rs" ?ot]
      acting_denying(1) [of ?rs] no by simp
  also have "\<dots> = run_rules phase (case denying ?rs of None \<Rightarrow> [] | Some r \<Rightarrow> [r])
      (run_rules phase (acting ?rs) ?ot)"
    by (rule run_rules_denying)
  finally have run: "run_rules phase ?rs ?ot =
      run_rules phase (case denying ?rs of None \<Rightarrow> [] | Some r \<Rightarrow> [r]) (run_rules phase (acting ?rs) ?ot)" .
  show ?thesis
  proof (cases "denying ?rs")
    case None
    then show ?thesis
      unfolding apply_phase_only_def run run_rules_edit [OF acting_denying(2)] Let_def
      by (simp del: denying_None)
  next
    case (Some r)
    with denying_Some [OF Some] show ?thesis
      unfolding apply_phase_only_def run run_rules_edit [OF acting_denying(2)] Let_def by simp
  qed
qed

end
