(* ===== verification/Events.thy ===== *)
theory Events
  imports State_Tables
begin

text \<open>
  The event log and the replay snapshots, \<^verbatim>\<open>src/observability/event_stream.rs\<close>, over the knowledge
  table. The state is the table, the number of clock readings made so far and \<^verbatim>\<open>EVENT_SEQ\<close>, which
  starts at 1 with the process; later states extend it. serde_json at the record types, the text of
  a JSON value, the keys of \<^verbatim>\<open>DefaultHasher\<close> and the clock are the fields of \<open>EventHost\<close>.
\<close>

section \<open>Data\<close>

record EventEnvelope =
  ee_event_id :: string
  ee_kind :: string
  ee_trace_id :: string
  ee_session_id :: string
  ee_task_id :: "string option"
  ee_capability_id :: "string option"
  ee_version :: string
  ee_payload :: json
  ee_created_at_ms :: "64 word"

record SessionEventView =
  sv_session_id :: string
  sv_total_events :: nat
  sv_by_kind :: "(string \<times> nat) list"
  sv_latest_trace_id :: "string option"
  sv_latest_event_ms :: "64 word option"

record PolicyRejectView =
  pv_session_id :: string
  pv_total_rejects :: nat
  pv_by_stage :: "(string \<times> nat) list"
  pv_by_reason :: "(string \<times> nat) list"
  pv_latest_trace_id :: "string option"
  pv_latest_reason :: "string option"
  pv_latest_reject_ms :: "64 word option"

record ArtifactDigest =
  ad_name :: string
  ad_algorithm :: string
  ad_digest :: string

record DeterminismBoundary =
  db_mode :: string
  db_locked_fields :: "string list"
  db_non_deterministic_steps :: "string list"
  db_external_dependencies :: "string list"

record SeedRecord =
  sd_seed_key :: string
  sd_seed_value :: string
  sd_source :: string

record ReplaySnapshot =
  rs_snapshot_id :: string
  rs_session_id :: string
  rs_trace_id :: string
  rs_task_id :: string
  rs_capability_id :: string
  rs_actor_id :: string
  rs_preferred_model :: "string option"
  rs_route_model :: "string option"
  rs_input_digest :: string
  rs_parameters_digest :: string
  rs_output_digest :: string
  rs_artifacts :: "ArtifactDigest list"
  rs_boundary :: DeterminismBoundary
  rs_seed :: "SeedRecord option"
  rs_replay_input :: json
  rs_created_at_ms :: "64 word"

record ReplayDeviation =
  rd_field :: string
  rd_expected :: string
  rd_actual :: string
  rd_severity :: string
  rd_explanation :: string

record ReplayAnalysisReport =
  ra_snapshot_id :: string
  ra_session_id :: string
  ra_trace_id :: string
  ra_replay_output_digest :: string
  ra_matched :: bool
  ra_deterministic_boundary_respected :: bool
  ra_deviations :: "ReplayDeviation list"
  ra_notes :: "string list"
  ra_created_at_ms :: "64 word"

section \<open>State\<close>

record EventState =
  es_db :: KnowledgeTable
  es_ticks :: nat
  es_event_seq :: "64 word"

record EventHost =
  eh_clock :: "nat \<Rightarrow> 64 word"
  eh_event :: "EventEnvelope codec"
  eh_snapshot :: "ReplaySnapshot codec"
  eh_analysis :: "ReplayAnalysisReport codec"
  eh_text :: "json \<Rightarrow> string"
  eh_siphash :: "string \<Rightarrow> 64 word"

definition current_time_ms :: "('h) EventHost_scheme \<Rightarrow> ('s) EventState_scheme \<Rightarrow> 64 word" where
  "current_time_ms h st = eh_clock h (es_ticks st)"

definition tick :: "('s) EventState_scheme \<Rightarrow> ('s) EventState_scheme" where
  "tick st = st\<lparr> es_ticks := es_ticks st + 1 \<rparr>"

definition put_json ::
    "'a codec \<Rightarrow> string \<Rightarrow> 'a \<Rightarrow> string \<Rightarrow> ('s) EventState_scheme \<Rightarrow> ('s) EventState_scheme \<times> unit result"
  where
  "put_json c key x source st =
     (case upsert_json_knowledge c (es_db st) key x source of
        (db, Inl e) \<Rightarrow> (st\<lparr> es_db := db \<rparr>, Inl e)
      | (db, Inr _) \<Rightarrow> (st\<lparr> es_db := db \<rparr>, Ok ()))"

text \<open>\<^verbatim>\<open>fetch_add\<close> wraps.\<close>

definition next_seq :: "('s) EventState_scheme \<Rightarrow> ('s) EventState_scheme" where
  "next_seq st = st\<lparr> es_event_seq := es_event_seq st + 1 \<rparr>"

section \<open>The event log\<close>

definition event_key :: "string \<Rightarrow> 64 word \<Rightarrow> 64 word \<Rightarrow> string" where
  "event_key session_id created_at_ms seq =
     ''eventlog:'' @ session_id @ '':'' @ show_word created_at_ms @ '':'' @ show_word seq"

definition append_event ::
    "('h) EventHost_scheme \<Rightarrow> string \<Rightarrow> string \<Rightarrow> string \<Rightarrow> string option \<Rightarrow> string option \<Rightarrow> string \<Rightarrow>
     json \<Rightarrow> ('s) EventState_scheme \<Rightarrow> ('s) EventState_scheme \<times> EventEnvelope result" where
  "append_event h kind trace_id session_id task_id capability_id version payload st =
     (let created_at_ms = current_time_ms h st; st = tick st;
          seq = es_event_seq st; st = next_seq st;
          event = \<lparr> ee_event_id = ''evt:'' @ session_id @ '':'' @ show_word created_at_ms @ '':'' @ show_word seq,
                    ee_kind = kind, ee_trace_id = trace_id, ee_session_id = session_id,
                    ee_task_id = task_id, ee_capability_id = capability_id, ee_version = version,
                    ee_payload = payload, ee_created_at_ms = created_at_ms \<rparr>
      in then_do (put_json (eh_event h) (event_key session_id created_at_ms seq) event ''event-stream'' st)
           (\<lambda>st _. (st, Ok event)))"

definition event_prefix :: "string \<Rightarrow> string" where
  "event_prefix session_id = ''eventlog:'' @ session_id @ '':''"

definition list_session_events :: "('h) EventHost_scheme \<Rightarrow> KnowledgeTable \<Rightarrow> string \<Rightarrow> EventEnvelope list" where
  "list_session_events h db session_id =
     sort_key ee_created_at_ms (fallback_kv_list (eh_event h) db (event_prefix session_id))"

definition replay_trace_events ::
    "('h) EventHost_scheme \<Rightarrow> KnowledgeTable \<Rightarrow> string \<Rightarrow> string \<Rightarrow> EventEnvelope list" where
  "replay_trace_events h db session_id trace_id =
     sort_key ee_created_at_ms
       (filter (\<lambda>e. ee_trace_id e = trace_id) (list_session_events h db session_id))"

definition count_in :: "string \<Rightarrow> (string \<times> nat) list \<Rightarrow> (string \<times> nat) list" where
  "count_in k m = btree_insert k ((case map_of m k of None \<Rightarrow> 0 | Some n \<Rightarrow> n) + 1) m"

fun view_records ::
    "EventEnvelope codec \<Rightarrow> KnowledgeRecord list \<Rightarrow> SessionEventView \<Rightarrow> SessionEventView" where
  "view_records c [] view = view"
| "view_records c (record # records) view =
     view_records c records
       (case decode_record c record of
          None \<Rightarrow> view
        | Some event \<Rightarrow>
           (let view = view\<lparr> sv_by_kind := count_in (ee_kind event) (sv_by_kind view) \<rparr>
            in if (case sv_latest_event_ms view of None \<Rightarrow> True | Some ts \<Rightarrow> ts < ee_created_at_ms event)
               then view\<lparr> sv_latest_event_ms := Some (ee_created_at_ms event),
                          sv_latest_trace_id := Some (ee_trace_id event) \<rparr>
               else view))"

definition build_view :: "EventEnvelope codec \<Rightarrow> string \<Rightarrow> KnowledgeRecord list \<Rightarrow> SessionEventView" where
  "build_view c session_id records =
     view_records c records
       \<lparr> sv_session_id = session_id, sv_total_events = length records, sv_by_kind = [],
         sv_latest_trace_id = None, sv_latest_event_ms = None \<rparr>"

definition aggregate_session_view :: "('h) EventHost_scheme \<Rightarrow> KnowledgeTable \<Rightarrow> string \<Rightarrow> SessionEventView" where
  "aggregate_session_view h db session_id =
     build_view (eh_event h) session_id (list_knowledge_by_prefix db (event_prefix session_id))"

definition payload_str :: "EventEnvelope \<Rightarrow> string \<Rightarrow> string" where
  "payload_str event key =
     (case Option.bind (json_get (ee_payload event) key) json_as_str of
        None \<Rightarrow> ''unknown'' | Some s \<Rightarrow> s)"

definition count_reject :: "EventEnvelope \<Rightarrow> PolicyRejectView \<Rightarrow> PolicyRejectView" where
  "count_reject event view =
     (let stage = payload_str event ''stage''; reason = payload_str event ''reason'';
          view = view\<lparr> pv_by_stage := count_in stage (pv_by_stage view),
                       pv_by_reason := count_in reason (pv_by_reason view) \<rparr>
      in if (case pv_latest_reject_ms view of None \<Rightarrow> True | Some ms \<Rightarrow> ms < ee_created_at_ms event)
         then view\<lparr> pv_latest_reject_ms := Some (ee_created_at_ms event),
                    pv_latest_trace_id := Some (ee_trace_id event), pv_latest_reason := Some reason \<rparr>
         else view)"

definition aggregate_policy_reject_view ::
    "('h) EventHost_scheme \<Rightarrow> KnowledgeTable \<Rightarrow> string \<Rightarrow> PolicyRejectView" where
  "aggregate_policy_reject_view h db session_id =
     (let view = fold count_reject
            (filter (\<lambda>e. ee_kind e = ''policy_reject'') (list_session_events h db session_id))
            \<lparr> pv_session_id = session_id, pv_total_rejects = 0, pv_by_stage = [], pv_by_reason = [],
              pv_latest_trace_id = None, pv_latest_reason = None, pv_latest_reject_ms = None \<rparr>
      in view\<lparr> pv_total_rejects := sum_list (map snd (pv_by_reason view)) \<rparr>)"

section \<open>Replay snapshots\<close>

definition digest_text :: "('h) EventHost_scheme \<Rightarrow> string \<Rightarrow> string" where
  "digest_text h v = show_hex16 (eh_siphash h v)"

definition digest_value :: "('h) EventHost_scheme \<Rightarrow> json \<Rightarrow> string" where
  "digest_value h v = digest_text h (eh_text h v)"

definition with_snapshot_id ::
    "ReplaySnapshot \<Rightarrow> ('s) EventState_scheme \<Rightarrow> ('s) EventState_scheme \<times> ReplaySnapshot" where
  "with_snapshot_id snapshot st =
     (if trim (rs_snapshot_id snapshot) = []
      then (next_seq st,
            snapshot\<lparr> rs_snapshot_id := ''replay:'' @ rs_session_id snapshot @ '':'' @ rs_trace_id snapshot @
              '':'' @ rs_task_id snapshot @ '':'' @ show_word (es_event_seq st) \<rparr>)
      else (st, snapshot))"

definition persist_replay_snapshot ::
    "('h) EventHost_scheme \<Rightarrow> ReplaySnapshot \<Rightarrow> ('s) EventState_scheme \<Rightarrow>
     ('s) EventState_scheme \<times> ReplaySnapshot result" where
  "persist_replay_snapshot h snapshot st =
     (let (st, snapshot) = with_snapshot_id snapshot st;
          (st, snapshot) =
            (if rs_created_at_ms snapshot = 0
             then (tick st, snapshot\<lparr> rs_created_at_ms := current_time_ms h st \<rparr>)
             else (st, snapshot))
      in then_do (put_json (eh_snapshot h) (''replay:snapshot:'' @ rs_snapshot_id snapshot) snapshot ''replay'' st)
           (\<lambda>st _. (st, Ok snapshot)))"

definition get_replay_snapshot :: "('h) EventHost_scheme \<Rightarrow> KnowledgeTable \<Rightarrow> string \<Rightarrow> ReplaySnapshot option" where
  "get_replay_snapshot h db snapshot_id =
     fallback_kv_get (eh_snapshot h) db (''replay:snapshot:'' @ snapshot_id)"

definition list_replay_snapshots :: "('h) EventHost_scheme \<Rightarrow> KnowledgeTable \<Rightarrow> string \<Rightarrow> ReplaySnapshot list" where
  "list_replay_snapshots h db session_id =
     sort_key rs_created_at_ms
       (filter (\<lambda>s. rs_session_id s = session_id) (fallback_kv_list (eh_snapshot h) db ''replay:snapshot:''))"

definition persist_replay_analysis ::
    "('h) EventHost_scheme \<Rightarrow> ReplayAnalysisReport \<Rightarrow> ('s) EventState_scheme \<Rightarrow>
     ('s) EventState_scheme \<times> unit result" where
  "persist_replay_analysis h report st =
     put_json (eh_analysis h)
       (''replay:analysis:'' @ ra_snapshot_id report @ '':'' @ show_word (ra_created_at_ms report))
       report ''replay'' st"


section \<open>What a write leaves alone\<close>

text \<open>The part of the table under the prefix \<open>p\<close> reads the same, and the table stays well formed.\<close>

definition frame :: "string \<Rightarrow> KnowledgeTable \<Rightarrow> KnowledgeTable \<Rightarrow> bool" where
  "frame p db db' \<longleftrightarrow>
     (table_ok db \<longrightarrow> table_ok db' \<and>
        (\<forall>q. prefix p q \<longrightarrow> list_knowledge_by_prefix db' q = list_knowledge_by_prefix db q)) \<and>
     (\<forall>k. prefix p k \<longrightarrow> get_knowledge db' k = get_knowledge db k)"

lemma frame_refl [simp, intro]: "frame p db db"
  by (simp add: frame_def)

lemma frame_trans [trans]: "frame p db db' \<Longrightarrow> frame p db' db'' \<Longrightarrow> frame p db db''"
  by (simp add: frame_def)

lemma frame_get: "frame p db db' \<Longrightarrow> prefix p k \<Longrightarrow> get_knowledge db' k = get_knowledge db k"
  by (simp add: frame_def)

lemma frame_kv: "frame p db db' \<Longrightarrow> prefix p k \<Longrightarrow> fallback_kv_get c db' k = fallback_kv_get c db k"
  by (simp add: frame_def fallback_kv_get_def)

lemma frame_list:
  "frame p db db' \<Longrightarrow> table_ok db \<Longrightarrow> prefix p q \<Longrightarrow> fallback_kv_list c db' q = fallback_kv_list c db q"
  by (simp add: frame_def fallback_kv_list_def)

lemma frame_ok: "frame p db db' \<Longrightarrow> table_ok db \<Longrightarrow> table_ok db'"
  by (simp add: frame_def)

lemma frame_upsert:
  assumes "\<not> prefix p key"
  shows "frame p db (fst (upsert_knowledge db key val source))"
proof (cases rule: knowledge.upsert_cases [of db key val source])
  case (1 db' r)
  have "list_knowledge_by_prefix db' q = list_knowledge_by_prefix db q" if "table_ok db" "prefix p q" for q
    using table.listing_other [OF that(1) 1(1) _ 1(3), of q] assms that(2) prefix_order.trans by blast
  then show ?thesis
    using 1 assms table_ok_upsert [of db key val source] by (auto simp: frame_def)
qed simp

lemma frame_put_json: "\<not> prefix p key \<Longrightarrow> frame p (es_db st) (es_db (fst (put_json c key x source st)))"
  using frame_upsert [of p key "es_db st" "fst c x" source]
  by (auto simp: put_json_def upsert_json_knowledge_def split: prod.split sum.split)

lemma tick_simps [simp]:
  "es_db (tick st) = es_db st" "es_event_seq (tick st) = es_event_seq st" "es_ticks (tick st) = es_ticks st + 1"
  "es_db (next_seq st) = es_db st" "es_ticks (next_seq st) = es_ticks st"
  "es_event_seq (next_seq st) = es_event_seq st + 1"
  "EventState.more (tick st) = EventState.more st" "EventState.more (next_seq st) = EventState.more st"
  by (simp_all add: tick_def next_seq_def)

lemma put_json_simps [simp]:
  "es_event_seq (fst (put_json c key x source st)) = es_event_seq st"
  "es_ticks (fst (put_json c key x source st)) = es_ticks st"
  "EventState.more (fst (put_json c key x source st)) = EventState.more st"
  by (simp_all add: put_json_def split: prod.split sum.split)

text \<open>Only evidence keys can refuse a write.\<close>

lemma put_json_accepts:
  assumes "\<not> evidence_key key"
  obtains db' r where "put_json c key x source st = (st\<lparr> es_db := db' \<rparr>, Ok ())"
    "upsert_json_knowledge c (es_db st) key x source = (db', Ok r)" "kr_value r = fst c x"
    "get_knowledge db' = (get_knowledge (es_db st))(key \<mapsto> r)"
proof -
  obtain db' r where "upsert_knowledge (es_db st) key (fst c x) source = (db', Ok r)"
      "kr_value r = fst c x" "get_knowledge db' = (get_knowledge (es_db st))(key \<mapsto> r)"
    using knowledge.accepts [OF assms] by blast
  then show thesis by (intro that [of db' r]) (simp_all add: put_json_def upsert_json_knowledge_def)
qed

lemma put_json_Ok [simp]: "\<not> evidence_key key \<Longrightarrow> snd (put_json c key x source st) = Ok ()"
  by (erule put_json_accepts [where c = c and x = x and st = st and source = source]) simp

lemma then_put [simp]:
  "\<not> evidence_key key \<Longrightarrow>
     then_do (put_json c key x source st) f = f (fst (put_json c key x source st)) ()"
  by (cases "put_json c key x source st") (use put_json_Ok [of key c x source st] in simp)

lemma put_json_get:
  assumes "\<not> evidence_key key"
  obtains r where "kr_value r = fst c x"
    "get_knowledge (es_db (fst (put_json c key x source st))) = (get_knowledge (es_db st))(key \<mapsto> r)"
  using assms by (rule put_json_accepts [where c = c and x = x and st = st and source = source])
    (simp add: that)

lemma put_json_other:
  "\<not> evidence_key key \<Longrightarrow> k \<noteq> key \<Longrightarrow>
     get_knowledge (es_db (fst (put_json c key x source st))) k = get_knowledge (es_db st) k"
  by (erule put_json_get [where c = c and x = x and st = st and source = source]) simp

lemma event_key_prefix [simp]:
  "\<not> evidence_key (event_key s ms n)" "prefix (''eventlog:'' @ t) (event_key s ms n) = prefix t
     (s @ '':'' @ show_word ms @ '':'' @ show_word n)"
  by (simp_all add: event_key_def)

lemma prefix_apart: "\<not> prefix p q \<Longrightarrow> \<not> prefix q p \<Longrightarrow> \<not> prefix p (q @ r)"
  by (metis prefix_same_cases prefixI)

lemma fst_then_do: "(\<And>s x. fst (f s x) = s) \<Longrightarrow> fst (then_do p f) = fst p"
  by (simp add: then_do_def split: prod.split sum.split)

lemma append_event_frame:
  assumes "\<not> prefix p ''eventlog:''" "\<not> prefix ''eventlog:'' p"
  shows "frame p (es_db st) (es_db (fst (append_event h k t s task cap v pl st)))"
proof -
  have "\<not> prefix p (event_key s ms n)" for ms n
    unfolding event_key_def by (rule prefix_apart [OF assms])
  from frame_put_json [OF this, where st = "next_seq (tick st)"] show ?thesis
    by (simp add: append_event_def Let_def fst_then_do)
qed


section \<open>The log of a session\<close>

lemma last_field:
  assumes "x @ CHR '':'' # u = y @ CHR '':'' # v" "CHR '':'' \<notin> set u" "CHR '':'' \<notin> set v"
  shows "x = y \<and> u = v"
  using assms by (auto simp: append_eq_append_conv2 Cons_eq_append_conv append_eq_Cons_conv)

lemma show_word_no_colon: "CHR '':'' \<notin> set (show_word n)"
  by (simp add: show_word_def show_nat_no_char byte_def)

lemma event_key_seq: "event_key s ms n = event_key s' ms' n' \<Longrightarrow> n = n'"
proof -
  assume "event_key s ms n = event_key s' ms' n'"
  then have "(s @ '':'' @ show_word ms) @ CHR '':'' # show_word n =
             (s' @ '':'' @ show_word ms') @ CHR '':'' # show_word n'" by (simp add: event_key_def)
  from last_field [OF this show_word_no_colon show_word_no_colon] show ?thesis
    by (metis parse_word_show_word option.inject)
qed

text \<open>Every stored event has a sequence number that was given out.\<close>

definition log_ok :: "('s) EventState_scheme \<Rightarrow> bool" where
  "log_ok st \<longleftrightarrow> table_ok (es_db st) \<and>
     (\<forall>key r. get_knowledge (es_db st) key = Some r \<longrightarrow> prefix ''eventlog:'' key \<longrightarrow>
        (\<exists>s ms n. key = event_key s ms n \<and> n < es_event_seq st))"

type_synonym event_call =
  "string \<times> string \<times> string \<times> string option \<times> string option \<times> string \<times> json"

fun append_events ::
    "('h) EventHost_scheme \<Rightarrow> event_call list \<Rightarrow> ('s) EventState_scheme \<Rightarrow>
     ('s) EventState_scheme \<times> EventEnvelope list result" where
  "append_events h [] st = (st, Ok [])"
| "append_events h ((kind, trace, session, task, capability, version, payload) # calls) st =
     then_do (append_event h kind trace session task capability version payload st) (\<lambda>st e.
       then_do (append_events h calls st) (\<lambda>st es. (st, Ok (e # es))))"


lemma append_event_writes:
  assumes "log_ok st" "codec_ok (eh_event h)" "unat (es_event_seq st) < 2 ^ 64 - 1"
  obtains st' e where "append_event h k t s task cap v pl st = (st', Ok e)"
    "ee_kind e = k" "ee_trace_id e = t" "ee_session_id e = s" "ee_payload e = pl"
    "log_ok st'" "unat (es_event_seq st') = Suc (unat (es_event_seq st))"
    "\<And>q. q = event_prefix r \<Longrightarrow> mset (fallback_kv_list (eh_event h) (es_db st') q) =
       (if prefix (r @ '':'') (s @ '':'' @ show_word (ee_created_at_ms e) @ '':'' @ show_word (es_event_seq st))
        then {#e#} else {#}) + mset (fallback_kv_list (eh_event h) (es_db st) q)"
proof -
  let ?c = "eh_event h" and ?db = "es_db st" and ?n = "es_event_seq st"
  define e where "e = \<lparr> ee_event_id = ''evt:'' @ s @ '':'' @ show_word (current_time_ms h st) @ '':'' @ show_word ?n,
    ee_kind = k, ee_trace_id = t, ee_session_id = s, ee_task_id = task, ee_capability_id = cap,
    ee_version = v, ee_payload = pl, ee_created_at_ms = current_time_ms h st \<rparr>"
  let ?key = "event_key s (current_time_ms h st) ?n"
  have seq: "unat (?n + 1) = Suc (unat ?n)"
    using assms(3) by (simp add: unat_word_ariths)
  have fresh: "get_knowledge ?db ?key = None"
  proof (rule ccontr)
    assume "get_knowledge ?db ?key \<noteq> None"
    then obtain s' ms n where "?key = event_key s' ms n" "n < ?n"
      using assms(1) by (auto simp: log_ok_def event_key_def)
    then show False using event_key_seq by blast
  qed
  obtain db' rec where w: "upsert_json_knowledge ?c ?db ?key e ''event-stream'' = (db', Ok rec)"
      "table_ok db'" "decode_record ?c rec = Some e" "get_knowledge db' = (get_knowledge ?db)(?key \<mapsto> rec)"
      "\<And>pfx. \<not> prefix pfx ?key \<Longrightarrow> list_knowledge_by_prefix db' pfx = list_knowledge_by_prefix ?db pfx"
      "\<And>pfx. prefix pfx ?key \<Longrightarrow> get_knowledge ?db ?key = None \<Longrightarrow>
         list_knowledge_by_prefix db' pfx = insort_key kr_key rec (list_knowledge_by_prefix ?db pfx)"
    using json_write [of ?c ?db ?key e "''event-stream''"] assms(1,2) by (auto simp: log_ok_def)
  let ?st' = "(next_seq (tick st))\<lparr> es_db := db' \<rparr>"
  show thesis
  proof (rule that [of ?st' e])
    show "append_event h k t s task cap v pl st = (?st', Ok e)"
      using w(1) by (simp add: append_event_def Let_def put_json_def e_def)
    have less: "?n < ?n + 1" using seq by (simp add: word_less_nat_alt)
    have "n < ?n + 1" if "n < ?n" for n using that less by (rule less_trans)
    then show "log_ok ?st'"
      using assms(1) w(2,4) less by (fastforce simp: log_ok_def)
    show "mset (fallback_kv_list ?c (es_db ?st') q) =
       (if prefix (r @ '':'') (s @ '':'' @ show_word (ee_created_at_ms e) @ '':'' @ show_word ?n)
        then {#e#} else {#}) + mset (fallback_kv_list ?c ?db q)" if q: "q = event_prefix r" for q
    proof -
      have "prefix q ?key \<longleftrightarrow>
          prefix (r @ '':'') (s @ '':'' @ show_word (ee_created_at_ms e) @ '':'' @ show_word ?n)"
        unfolding q by (simp add: event_prefix_def event_key_def e_def)
      then show ?thesis
        using w(3) w(5) [of q] w(6) [OF _ fresh, of q]
        by (auto simp: fallback_kv_list_def filter_map_insort_mset)
    qed
  qed (simp_all add: e_def seq)
qed

text \<open>
  C30: Nothing is lost from the log of a session. However many events are appended, with whatever
  clock, each append succeeds, and the log of a session is afterwards its old log with the appended
  events of that session, each once and none of another session, in the order of their times (for
  session names with equally many colons, and as long as the process counter does not wrap).
\<close>

theorem session_log_keeps_every_event:
  assumes "log_ok st" "codec_ok (eh_event h)" "unat (es_event_seq st) + length calls < 2 ^ 64"
    and "\<forall>(k, t, s, rest) \<in> set calls. colons s = colons session"
  shows "\<exists>st' es. append_events h calls st = (st', Ok es) \<and> log_ok st' \<and>
     map (\<lambda>e. (ee_kind e, ee_trace_id e, ee_session_id e, ee_payload e)) es =
       map (\<lambda>(k, t, s, task, cap, v, pl). (k, t, s, pl)) calls \<and>
     mset (list_session_events h (es_db st') session) =
       mset (list_session_events h (es_db st) session) +
       mset (filter (\<lambda>e. ee_session_id e = session) es) \<and>
     sorted (map ee_created_at_ms (list_session_events h (es_db st') session))"
  using assms
proof (induction calls arbitrary: st)
  case Nil
  then show ?case by (simp add: list_session_events_def)
next
  case (Cons call calls)
  obtain k t s task cap v pl where call: "call = (k, t, s, task, cap, v, pl)" by (cases call) auto
  obtain st1 e where 1: "append_event h k t s task cap v pl st = (st1, Ok e)"
      "ee_kind e = k" "ee_trace_id e = t" "ee_session_id e = s" "ee_payload e = pl"
      "log_ok st1" "unat (es_event_seq st1) = Suc (unat (es_event_seq st))"
      "mset (fallback_kv_list (eh_event h) (es_db st1) (event_prefix session)) =
       (if prefix (session @ '':'') (s @ '':'' @ show_word (ee_created_at_ms e) @ '':'' @ show_word (es_event_seq st))
        then {#e#} else {#}) + mset (fallback_kv_list (eh_event h) (es_db st) (event_prefix session))"
    using append_event_writes [OF Cons.prems(1,2), of k t s task cap v pl session] Cons.prems(3) by auto
  have own: "prefix (session @ '':'') (s @ '':'' @ r) \<longleftrightarrow> s = session" for r
    using same_fields [of session s r] Cons.prems(4) call by (auto simp: prefix_def)
  obtain st' es where 2: "append_events h calls st1 = (st', Ok es)" "log_ok st'"
      "map (\<lambda>e. (ee_kind e, ee_trace_id e, ee_session_id e, ee_payload e)) es =
         map (\<lambda>(k, t, s, task, cap, v, pl). (k, t, s, pl)) calls"
      "mset (list_session_events h (es_db st') session) =
         mset (list_session_events h (es_db st1) session) +
         mset (filter (\<lambda>e. ee_session_id e = session) es)"
      "sorted (map ee_created_at_ms (list_session_events h (es_db st') session))"
    using Cons.IH [OF 1(6) Cons.prems(2)] Cons.prems(3,4) 1(7) by auto
  show ?case
    using 1 2 call own [unfolded append_Cons append_Nil]
    by (auto simp: list_session_events_def)
qed

text \<open>
  The prefix of a session's log does not end its name: a session whose name extends another one's by
  a colon, as the benchmark sessions \<^verbatim>\<open><session>:bench:<task>\<close> do, writes into the log of that one.
\<close>

lemma session_log_takes_extensions:
  assumes "log_ok st" "codec_ok (eh_event h)" "unat (es_event_seq st) < 2 ^ 64 - 1"
  shows "\<exists>st' e. append_event h k t (s @ '':'' @ r) task cap v pl st = (st', Ok e) \<and>
     ee_session_id e \<noteq> s \<and> e \<in> set (list_session_events h (es_db st') s)"
proof -
  obtain st' e where w: "append_event h k t (s @ '':'' @ r) task cap v pl st = (st', Ok e)"
      "ee_session_id e = s @ '':'' @ r"
      "mset (fallback_kv_list (eh_event h) (es_db st') (event_prefix s)) =
         {#e#} + mset (fallback_kv_list (eh_event h) (es_db st) (event_prefix s))"
    by (rule append_event_writes [OF assms, of k t "s @ '':'' @ r" task cap v pl s])
      (auto intro!: that)
  from arg_cong [OF w(3), of set_mset] w(1,2) show ?thesis by (auto simp: list_session_events_def)
qed

text \<open>A call whose result is dropped (\<^verbatim>\<open>let _ =\<close>).\<close>

definition note_event ::
    "('h) EventHost_scheme \<Rightarrow> string \<Rightarrow> string \<Rightarrow> string \<Rightarrow> string option \<Rightarrow> string option \<Rightarrow> string \<Rightarrow>
     json \<Rightarrow> ('s) EventState_scheme \<Rightarrow> ('s) EventState_scheme" where
  "note_event h kind trace_id session_id task_id capability_id version payload st =
     fst (append_event h kind trace_id session_id task_id capability_id version payload st)"

lemma append_event_more [simp]:
  "EventState.more (fst (append_event h k t s task cap v pl st)) = EventState.more st"
  by (simp add: append_event_def Let_def fst_then_do)

lemma note_event_more [simp]: "EventState.more (note_event h k t s task cap v pl st) = EventState.more st"
  by (simp add: note_event_def)

lemma note_event_frame:
  "\<not> prefix p ''eventlog:'' \<Longrightarrow> \<not> prefix ''eventlog:'' p \<Longrightarrow>
     frame p (es_db st) (es_db (note_event h k t s task cap v pl st))"
  unfolding note_event_def by (rule append_event_frame)

end
