(* ===== verification/Degrade.thy ===== *)
theory Degrade
  imports Events Runtime_Kernel
begin

text \<open>
  The degrade profiles of \<^verbatim>\<open>src/runtime/mod.rs\<close>: which one is active for a session, putting one in
  force with its failover record, recovering from it, the recovery plan, and chaos cases.
\<close>

section \<open>Data\<close>

datatype DegradeProfileKind =
    Degrade_Normal | Degrade_ProviderFallback | Degrade_McpConservative | Degrade_ReadOnly
  | Degrade_QueueThrottle | Degrade_ManualTakeover

fun degrade_name :: "DegradeProfileKind \<Rightarrow> string" where
  "degrade_name Degrade_Normal = ''normal''"
| "degrade_name Degrade_ProviderFallback = ''provider_fallback''"
| "degrade_name Degrade_McpConservative = ''mcp_conservative''"
| "degrade_name Degrade_ReadOnly = ''read_only''"
| "degrade_name Degrade_QueueThrottle = ''queue_throttle''"
| "degrade_name Degrade_ManualTakeover = ''manual_takeover''"

record DegradeProfile =
  dp_profile_id :: string
  dp_kind :: DegradeProfileKind
  dp_reason :: string
  dp_activated_at_ms :: "64 word"
  dp_expires_at_ms :: "64 word option"
  dp_max_parallel_agents_override :: "64 word option"
  dp_allow_provider_calls :: bool
  dp_allow_mcp_calls :: bool
  dp_read_only_mode :: bool
  dp_requires_manual_takeover :: bool

record RecoveryPlan =
  rp_plan_id :: string
  rp_session_id :: string
  rp_trace_id :: string
  rp_profile :: DegradeProfileKind
  rp_trigger :: string
  rp_steps :: "string list"
  rp_cooldown_ms :: "64 word"
  rp_auto_recover_enabled :: bool
  rp_created_at_ms :: "64 word"

record FailoverRecord =
  fo_record_id :: string
  fo_session_id :: string
  fo_trace_id :: string
  fo_task_id :: string
  fo_capability_id :: string
  fo_trigger :: string
  fo_profile :: DegradeProfileKind
  fo_outcome :: string
  fo_recovered :: bool
  fo_started_at_ms :: "64 word"
  fo_recovered_at_ms :: "64 word option"
  fo_mttr_ms :: "64 word option"
  fo_notes :: "string list"

record ChaosCase =
  ch_case_id :: string
  ch_name :: string
  ch_fault :: string
  ch_expected_profile :: DegradeProfileKind
  ch_target :: string
  ch_injected_at_ms :: "64 word"

record DegradeHost = EventHost +
  dh_profile :: "DegradeProfile codec"
  dh_failover :: "FailoverRecord codec"
  dh_plan :: "RecoveryPlan codec"
  dh_chaos :: "ChaosCase codec"
  dh_json :: "json codec"

section \<open>Operations\<close>

definition degrade_key :: "string \<Rightarrow> string" where
  "degrade_key session_id = ''runtime:degrade:'' @ session_id @ '':active''"

definition active_degrade_profile ::
    "('h) DegradeHost_scheme \<Rightarrow> string \<Rightarrow> ('s) EventState_scheme \<Rightarrow>
     ('s) EventState_scheme \<times> DegradeProfile option" where
  "active_degrade_profile h session_id st =
     (let now = current_time_ms h st
      in (tick st,
          case fallback_kv_get (dh_profile h) (es_db st) (degrade_key session_id) of
            None \<Rightarrow> None
          | Some profile \<Rightarrow>
              if (case dp_expires_at_ms profile of None \<Rightarrow> True | Some expires \<Rightarrow> now < expires)
              then Some profile else None))"

definition degrade_profile_from_kind ::
    "RuntimeKernel \<Rightarrow> DegradeProfileKind \<Rightarrow> string \<Rightarrow> 64 word \<Rightarrow> DegradeProfile" where
  "degrade_profile_from_kind k kind reason now =
     (let agents = rl_max_parallel_agents (rk_limits k);
          profile = (\<lambda>name expires agents mcp read_only manual.
            \<lparr> dp_profile_id = ''degrade:'' @ name @ '':'' @ show_word now, dp_kind = kind,
              dp_reason = reason, dp_activated_at_ms = now, dp_expires_at_ms = expires,
              dp_max_parallel_agents_override = agents, dp_allow_provider_calls = True,
              dp_allow_mcp_calls = mcp, dp_read_only_mode = read_only,
              dp_requires_manual_takeover = manual \<rparr>);
          for_at_least = (\<lambda>cooldown. Some (saturating_add now (max cooldown 30000)))
      in case kind of
           Degrade_ProviderFallback \<Rightarrow>
             profile ''provider-fallback'' (for_at_least (mp_tool_breaker_cooldown_ms (rk_mcp k)))
               (Some (min agents 2)) True False False
         | Degrade_McpConservative \<Rightarrow>
             profile ''mcp-conservative'' (for_at_least (mp_mcp_breaker_cooldown_ms (rk_mcp k)))
               (Some (min agents 2)) False False False
         | Degrade_ReadOnly \<Rightarrow>
             profile ''read-only'' (Some (saturating_add now 300000)) (Some 1) False True True
         | Degrade_QueueThrottle \<Rightarrow>
             profile ''queue-throttle'' (Some (saturating_add now 120000)) (Some (max (agents div 2) 1))
               True False False
         | Degrade_ManualTakeover \<Rightarrow> profile ''manual'' None (Some 1) False True True
         | Degrade_Normal \<Rightarrow>
             profile ''normal'' (Some (saturating_add now 60000)) None True False False)"

definition apply_degrade_profile ::
    "('h) DegradeHost_scheme \<Rightarrow> RuntimeKernel \<Rightarrow> string \<Rightarrow> string \<Rightarrow> DegradeProfileKind \<Rightarrow> string \<Rightarrow>
     ('s) EventState_scheme \<Rightarrow> ('s) EventState_scheme \<times> FailoverRecord result" where
  "apply_degrade_profile h k session_id trigger kind reason st =
     (let now = current_time_ms h st; st = tick st;
          profile = degrade_profile_from_kind k kind reason now;
          failover =
            \<lparr> fo_record_id = ''failover:'' @ session_id @ '':'' @ show_word now,
              fo_session_id = session_id, fo_trace_id = trigger, fo_task_id = ''system'',
              fo_capability_id = ''runtime:degrade'', fo_trigger = trigger, fo_profile = kind,
              fo_outcome = ''degrade_applied'', fo_recovered = False, fo_started_at_ms = now,
              fo_recovered_at_ms = None, fo_mttr_ms = None, fo_notes = [reason] \<rparr>
      in then_do (put_json (dh_profile h) (degrade_key session_id) profile ''runtime-degrade'' st) (\<lambda>st _.
         then_do (put_json (dh_failover h) (''runtime:failover:'' @ session_id @ '':'' @ show_word now)
                    failover ''runtime-failover'' st) (\<lambda>st _.
         (note_event h ''runtime_failover'' trigger session_id None (Some ''runtime:degrade'')
            (effective_contract_version k)
            (J_Object [(''profile'', J_String (degrade_name kind)), (''reason'', J_String reason),
                       (''failover_record_id'', J_String (fo_record_id failover))]) st,
          Ok failover))))"

definition recover_record :: "string \<Rightarrow> 64 word \<Rightarrow> FailoverRecord \<Rightarrow> FailoverRecord" where
  "recover_record reason now record =
     record\<lparr> fo_recovered := True, fo_recovered_at_ms := Some now,
             fo_mttr_ms := Some (saturating_sub now (fo_started_at_ms record)),
             fo_outcome := ''recovered'', fo_notes := fo_notes record @ [reason] \<rparr>"

definition latest_open_failover ::
    "('h) DegradeHost_scheme \<Rightarrow> KnowledgeTable \<Rightarrow> string \<Rightarrow> FailoverRecord option" where
  "latest_open_failover h db session_id =
     find (\<lambda>record. \<not> fo_recovered record)
       (rev (sort_key fo_started_at_ms
               (fallback_kv_list (dh_failover h) db (''runtime:failover:'' @ session_id @ '':''))))"

definition recover_from_degrade ::
    "('h) DegradeHost_scheme \<Rightarrow> RuntimeKernel \<Rightarrow> string \<Rightarrow> string \<Rightarrow> ('s) EventState_scheme \<Rightarrow>
     ('s) EventState_scheme \<times> FailoverRecord option result" where
  "recover_from_degrade h k session_id reason st =
     (case active_degrade_profile h session_id st of
        (st, None) \<Rightarrow> (st, Ok None)
      | (st, Some _) \<Rightarrow>
         (let now = current_time_ms h st; st = tick st;
              latest = map_option (recover_record reason now) (latest_open_failover h (es_db st) session_id)
          in then_do
               (case latest of
                  None \<Rightarrow> (st, Ok ())
                | Some record \<Rightarrow>
                    put_json (dh_failover h)
                      (''runtime:failover:'' @ fo_session_id record @ '':'' @ show_word now)
                      record ''runtime-failover'' st) (\<lambda>st _.
             then_do (put_json (dh_json h) (degrade_key session_id)
                 (J_Object [(''status'', J_String ''cleared''), (''cleared_at_ms'', J_Number now),
                            (''reason'', J_String reason)]) ''runtime-degrade'' st) (\<lambda>st _.
             (note_event h ''runtime_recovery'' (''recovery:'' @ session_id @ '':'' @ show_word now)
                session_id None (Some ''runtime:degrade'') (effective_contract_version k)
                (J_Object [(''reason'', J_String reason), (''recovered'', J_Bool (latest \<noteq> None))]) st,
              Ok latest)))))"

fun recovery_steps :: "DegradeProfileKind \<Rightarrow> string list" where
  "recovery_steps Degrade_ProviderFallback =
     [''switch provider route to fallback or cached responses'',
      ''keep verifier enabled, but lower exploration'',
      ''probe provider health before returning to normal'']"
| "recovery_steps Degrade_McpConservative =
     [''pause non-critical MCP tasks'', ''allow stable pool only for critical tasks'',
      ''re-open MCP circuit after cooldown and one probe'']"
| "recovery_steps Degrade_ReadOnly =
     [''freeze mutating operations'', ''serve read-only responses from memory/graph'',
      ''require operator approval before write path recovery'']"
| "recovery_steps Degrade_QueueThrottle =
     [''reduce parallelism'', ''drop low-priority tasks'', ''resume adaptive pool when queue drains'']"
| "recovery_steps Degrade_ManualTakeover =
     [''handoff to operator control plane'', ''lock risky capabilities'',
      ''resume only after manual approval'']"
| "recovery_steps Degrade_Normal = [''no recovery action required'']"

definition build_recovery_plan ::
    "('h) DegradeHost_scheme \<Rightarrow> RuntimeKernel \<Rightarrow> string \<Rightarrow> string \<Rightarrow> DegradeProfileKind \<Rightarrow>
     ('s) EventState_scheme \<Rightarrow> ('s) EventState_scheme \<times> RecoveryPlan result" where
  "build_recovery_plan h k session_id trigger profile st =
     (let now = current_time_ms h st; st = tick st;
          plan = \<lparr> rp_plan_id = ''recovery-plan:'' @ session_id @ '':'' @ show_word now,
                   rp_session_id = session_id, rp_trace_id = trigger, rp_profile = profile,
                   rp_trigger = trigger, rp_steps = recovery_steps profile,
                   rp_cooldown_ms = max (mp_tool_breaker_cooldown_ms (rk_mcp k))
                                        (mp_mcp_breaker_cooldown_ms (rk_mcp k)),
                   rp_auto_recover_enabled = True, rp_created_at_ms = now \<rparr>
      in then_do (put_json (dh_plan h) (''runtime:recovery-plan:'' @ session_id @ '':'' @ show_word now)
                    plan ''runtime-recovery'' st) (\<lambda>st _. (st, Ok plan)))"

definition run_chaos_case ::
    "('h) DegradeHost_scheme \<Rightarrow> RuntimeKernel \<Rightarrow> string \<Rightarrow> ChaosCase \<Rightarrow> ('s) EventState_scheme \<Rightarrow>
     ('s) EventState_scheme \<times> FailoverRecord result" where
  "run_chaos_case h k session_id c st =
     (let trigger = ''chaos:'' @ ch_case_id c @ '':'' @ show_word (ch_injected_at_ms c)
      in then_do (put_json (dh_chaos h) (''runtime:chaos:'' @ session_id @ '':'' @ ch_case_id c) c
                    ''runtime-chaos'' st) (\<lambda>st _.
         then_do (apply_degrade_profile h k session_id trigger (ch_expected_profile c)
                    (''chaos injected: '' @ ch_name c @ '' ('' @ ch_fault c @ '')'') st) (\<lambda>st failover.
         (fst (build_recovery_plan h k session_id trigger (ch_expected_profile c) st), Ok failover))))"


section \<open>What the operations leave alone\<close>

lemma then_do_frame:
  assumes "frame p db (es_db (fst m))" "\<And>st x. m = (st, Inr x) \<Longrightarrow> frame p (es_db st) (es_db (fst (f st x)))"
  shows "frame p db (es_db (fst (then_do m f)))"
  using assms by (cases m; cases "snd m") (auto intro: frame_trans)

lemma then_do_more:
  assumes "EventState.more (fst m) = x" "\<And>st y. m = (st, Inr y) \<Longrightarrow> EventState.more (fst (f st y)) = EventState.more st"
  shows "EventState.more (fst (then_do m f)) = x"
  using assms by (cases m; cases "snd m") auto

lemma degrade_prefix: "prefix ''runtime:'' (degrade_key s)"
  by (simp add: degrade_key_def)

lemma apart_put_json:
  "\<not> prefix p q \<Longrightarrow> \<not> prefix q p \<Longrightarrow> prefix q key \<Longrightarrow>
     frame p (es_db st) (es_db (fst (put_json c key x source st)))"
  by (rule frame_put_json) (metis prefix_same_cases)

locale runtime_frame =
  fixes p :: string
  assumes apart: "\<not> prefix p ''runtime:''" "\<not> prefix ''runtime:'' p"
    "\<not> prefix p ''eventlog:''" "\<not> prefix ''eventlog:'' p"
begin

lemma put: "prefix ''runtime:'' key \<Longrightarrow> frame p (es_db st) (es_db (fst (put_json c key x source st)))"
  by (rule apart_put_json [OF apart(1,2)])

lemma noted: "frame p (es_db st) (es_db (note_event h e t s task cap v pl st))"
  by (rule note_event_frame [OF apart(3,4)])

lemma active: "frame p (es_db st) (es_db (fst (active_degrade_profile h s st)))"
  by (simp add: active_degrade_profile_def Let_def)

lemma applied: "frame p (es_db st) (es_db (fst (apply_degrade_profile h k s trig kind reason st)))"
proof -
  have tick: "frame p (es_db st) db \<longleftrightarrow> frame p (es_db (tick st)) db" for db by simp
  show ?thesis
    unfolding apply_degrade_profile_def Let_def tick
    by (intro then_do_frame put) (simp_all add: degrade_key_def noted)
qed

lemma planned: "frame p (es_db st) (es_db (fst (build_recovery_plan h k s trig kind st)))"
proof -
  have tick: "frame p (es_db st) db \<longleftrightarrow> frame p (es_db (tick st)) db" for db by simp
  show ?thesis
    unfolding build_recovery_plan_def Let_def tick by (intro then_do_frame put) simp_all
qed

end


section \<open>A profile in force\<close>

lemma degrade_key_eq [simp]: "degrade_key s = degrade_key t \<longleftrightarrow> s = t"
  by (simp add: degrade_key_def)

lemma degrade_key_apart [simp]:
  "\<not> evidence_key (degrade_key s)" "prefix ''runtime:degrade:'' (degrade_key s)"
  by (simp_all add: degrade_key_def)

text \<open>serde refuses the record that clears a profile: the profile's fields are missing.\<close>

definition cleared_unreadable :: "('h) DegradeHost_scheme \<Rightarrow> bool" where
  "cleared_unreadable h \<longleftrightarrow>
     (\<forall>m. map_of m ''profile_id'' = None \<longrightarrow>
        (\<exists>e. snd (dh_profile h) (fst (dh_json h) (J_Object m)) = Inl e))"

lemma active_of_record:
  assumes "get_knowledge (es_db st) (degrade_key s) = Some r"
  shows "snd (active_degrade_profile h s st) =
     (case decode_record (dh_profile h) r of
        None \<Rightarrow> None
      | Some p \<Rightarrow> (case dp_expires_at_ms p of
            None \<Rightarrow> Some p
          | Some t \<Rightarrow> if current_time_ms h st < t then Some p else None))"
  using assms by (simp add: active_degrade_profile_def fallback_kv_get_def Let_def split: option.split)

lemma degrade_key_noted [simp]:
  "get_knowledge (es_db (note_event h e t s task cap v pl st)) (degrade_key u) =
     get_knowledge (es_db st) (degrade_key u)"
  by (rule frame_get [OF note_event_frame [where p = "''runtime:''"]]) (simp_all add: degrade_key_def)

lemma degrade_key_other [simp]:
  assumes "\<not> prefix ''runtime:degrade:'' key"
  shows "get_knowledge (es_db (fst (put_json c key x source st))) (degrade_key s) =
     get_knowledge (es_db st) (degrade_key s)"
  by (rule frame_get [OF frame_put_json [OF assms]]) simp

lemma apply_degrade_writes:
  obtains f r where "snd (apply_degrade_profile h k s trig kind reason st) = Ok f"
    "kr_value r = fst (dh_profile h) (degrade_profile_from_kind k kind reason (current_time_ms h st))"
    "\<And>t. get_knowledge (es_db (fst (apply_degrade_profile h k s trig kind reason st))) (degrade_key t) =
       (if t = s then Some r else get_knowledge (es_db st) (degrade_key t))"
proof (rule put_json_get [of "degrade_key s" "dh_profile h"
      "degrade_profile_from_kind k kind reason (current_time_ms h st)" "''runtime-degrade''" "tick st"])
  fix r
  assume "kr_value r = fst (dh_profile h) (degrade_profile_from_kind k kind reason (current_time_ms h st))"
    "get_knowledge (es_db (fst (put_json (dh_profile h) (degrade_key s)
       (degrade_profile_from_kind k kind reason (current_time_ms h st)) ''runtime-degrade'' (tick st)))) =
     (get_knowledge (es_db (tick st)))(degrade_key s \<mapsto> r)"
  then show thesis by (intro that) (auto simp: apply_degrade_profile_def Let_def)
qed simp

lemma recover_clears:
  assumes "snd (active_degrade_profile h s st) = Some p"
  obtains f r m where "snd (recover_from_degrade h k s reason st) = Ok f"
    "map_of m ''profile_id'' = None" "kr_value r = fst (dh_json h) (J_Object m)"
    "get_knowledge (es_db (fst (recover_from_degrade h k s reason st))) (degrade_key s) = Some r"
proof -
  define st1 where "st1 = tick (tick st)"
  define now where "now = current_time_ms h (tick st)"
  define latest where "latest = map_option (recover_record reason now) (latest_open_failover h (es_db st1) s)"
  define st2 where "st2 = (case latest of None \<Rightarrow> st1
      | Some record \<Rightarrow> fst (put_json (dh_failover h)
          (''runtime:failover:'' @ fo_session_id record @ '':'' @ show_word now) record ''runtime-failover'' st1))"
  let ?m = "[(''status'', J_String ''cleared''), (''cleared_at_ms'', J_Number now), (''reason'', J_String reason)]"
  have active: "active_degrade_profile h s st = (tick st, Some p)"
    using assms by (simp add: active_degrade_profile_def Let_def)
  have run: "recover_from_degrade h k s reason st =
     (note_event h ''runtime_recovery'' (''recovery:'' @ s @ '':'' @ show_word now)
        s None (Some ''runtime:degrade'') (effective_contract_version k)
        (J_Object [(''reason'', J_String reason), (''recovered'', J_Bool (latest \<noteq> None))])
        (fst (put_json (dh_json h) (degrade_key s) (J_Object ?m) ''runtime-degrade'' st2)), Ok latest)"
    unfolding recover_from_degrade_def active Let_def prod.case option.case now_def [symmetric]
      st1_def [symmetric] latest_def [symmetric]
    by (cases latest) (simp_all add: st2_def)
  show thesis
    by (rule put_json_get [of "degrade_key s" "dh_json h" "J_Object ?m" "''runtime-degrade''" st2])
      (auto simp: run intro!: that [of latest ?m])
qed

text \<open>
  C29: A degrade profile is in force from the moment it is applied until its own end: for every
  kind of profile and whatever the runtime does in between, as long as no other profile is applied
  to the session, the session has exactly this profile before the profile's end and none from then
  on (a manual takeover never ends), every other session keeps the profile it had, and a recovery
  that finds it in force lifts it at once.
\<close>

theorem degrade_profile_governs:
  fixes st :: "('s) EventState_scheme"
  assumes "codec_ok (dh_profile h)" "cleared_unreadable h"
  shows "let p = degrade_profile_from_kind k kind reason (current_time_ms h st);
             applied = apply_degrade_profile h k s trig kind reason st
   in is_ok (snd applied) \<and>
     (\<forall>t. t \<noteq> s \<longrightarrow> get_knowledge (es_db (fst applied)) (degrade_key t) = get_knowledge (es_db st) (degrade_key t)) \<and>
     (\<forall>st2 :: ('s) EventState_scheme. get_knowledge (es_db st2) (degrade_key s) = get_knowledge (es_db (fst applied)) (degrade_key s) \<longrightarrow>
        snd (active_degrade_profile h s st2) =
          (case dp_expires_at_ms p of
             None \<Rightarrow> Some p | Some t \<Rightarrow> if current_time_ms h st2 < t then Some p else None) \<and>
        (snd (active_degrade_profile h s st2) \<noteq> None \<longrightarrow>
           (let recovered = recover_from_degrade h k s why st2
            in is_ok (snd recovered) \<and>
               (\<forall>st3 :: ('s) EventState_scheme. get_knowledge (es_db st3) (degrade_key s) =
                    get_knowledge (es_db (fst recovered)) (degrade_key s) \<longrightarrow>
                  snd (active_degrade_profile h s st3) = None))))"
proof -
  define p where "p = degrade_profile_from_kind k kind reason (current_time_ms h st)"
  define applied where "applied = apply_degrade_profile h k s trig kind reason st"
  obtain f r where w: "snd applied = Ok f" "kr_value r = fst (dh_profile h) p"
      "\<And>t. get_knowledge (es_db (fst applied)) (degrade_key t) =
         (if t = s then Some r else get_knowledge (es_db st) (degrade_key t))"
    using apply_degrade_writes unfolding applied_def p_def by metis
  have decode: "decode_record (dh_profile h) r = Some p"
    by (rule decode_written [OF assms(1) w(2)])
  have lifted: "is_ok (snd (recover_from_degrade h k s why st2)) \<and>
       (\<forall>st3 :: ('s) EventState_scheme. get_knowledge (es_db st3) (degrade_key s) =
            get_knowledge (es_db (fst (recover_from_degrade h k s why st2))) (degrade_key s) \<longrightarrow>
          snd (active_degrade_profile h s st3) = None)"
    if active: "snd (active_degrade_profile h s st2) = Some q" for st2 :: "('s) EventState_scheme" and q
  proof -
    obtain g rc m where c: "snd (recover_from_degrade h k s why st2) = Ok g"
        "map_of m ''profile_id'' = None" "kr_value rc = fst (dh_json h) (J_Object m)"
        "get_knowledge (es_db (fst (recover_from_degrade h k s why st2))) (degrade_key s) = Some rc"
      using recover_clears [OF active, of k why] by metis
    obtain e where "snd (dh_profile h) (kr_value rc) = Inl e"
      using assms(2) c(2,3) unfolding cleared_unreadable_def by metis
    then have "decode_record (dh_profile h) rc = None" by (simp add: decode_record_def)
    with c show ?thesis by (simp add: active_of_record is_ok_def)
  qed
  have act: "snd (active_degrade_profile h s st2) = (case dp_expires_at_ms p of
       None \<Rightarrow> Some p | Some t \<Rightarrow> if current_time_ms h st2 < t then Some p else None)"
    if same: "get_knowledge (es_db st2) (degrade_key s) = get_knowledge (es_db (fst applied)) (degrade_key s)"
    for st2 :: "('s) EventState_scheme"
    using active_of_record [of st2 s r h] same w(3) [of s] decode by simp
  have others: "t \<noteq> s \<Longrightarrow> get_knowledge (es_db (fst applied)) (degrade_key t) = get_knowledge (es_db st) (degrade_key t)" for t
    using w(3) by simp
  have "is_ok (snd applied)" by (simp add: w(1) is_ok_def)
  then show ?thesis
    unfolding p_def [symmetric] applied_def [symmetric] Let_def
    using act others lifted by (meson not_None_eq)
qed


text \<open>
  A recovered failover is written under a new key; the record it was read from stays as it was,
  unrecovered, unless the recovery falls into the very millisecond of the failover.
\<close>

lemma recovered_failover_stays_open:
  assumes "snd (active_degrade_profile h s st) = Some p"
    and "latest_open_failover h (es_db st) s = Some record" "fo_session_id record = s"
    and "t0 \<noteq> current_time_ms h (tick st)"
  shows "get_knowledge (es_db (fst (recover_from_degrade h k s why st)))
           (''runtime:failover:'' @ s @ '':'' @ show_word t0) =
         get_knowledge (es_db st) (''runtime:failover:'' @ s @ '':'' @ show_word t0)"
proof -
  let ?key = "''runtime:failover:'' @ s @ '':'' @ show_word t0"
  have active: "active_degrade_profile h s st = (tick st, Some p)"
    using assms(1) by (simp add: active_degrade_profile_def Let_def)
  have differ: "show_word t0 \<noteq> show_word (current_time_ms h (tick st))"
    using assms(4) by (metis option.inject parse_word_show_word)
  have noted: "get_knowledge (es_db (note_event h e t u task cap v pl st')) ?key = get_knowledge (es_db st') ?key"
    for e t u task cap v pl and st' :: "('a) EventState_scheme"
    by (rule frame_get [OF note_event_frame [where p = "''runtime:''"]]) simp_all
  have lifted: "get_knowledge (es_db (fst (put_json c (degrade_key s) x src st'))) ?key = get_knowledge (es_db st') ?key"
    for c x src and st' :: "('a) EventState_scheme"
    by (rule put_json_other) (simp_all add: degrade_key_def)
  have written: "get_knowledge (es_db (fst (put_json c
       (''runtime:failover:'' @ s @ '':'' @ show_word (current_time_ms h (tick st))) x src st'))) ?key =
     get_knowledge (es_db st') ?key" for c x src and st' :: "('a) EventState_scheme"
    by (rule put_json_other) (simp_all add: differ)
  have "latest_open_failover h (es_db (tick (tick st))) s = Some record" using assms(2) by simp
  then show ?thesis
    using assms(3)
    by (simp add: recover_from_degrade_def active Let_def recover_record_def noted [simplified]
        lifted [simplified] written [simplified])
qed

end
