(* ===== verification/Tool_Stack.thy ===== *)
theory Tool_Stack
  imports Events
begin

text \<open>
  The reliability layer around a tool call, \<^verbatim>\<open>src/runtime/tool_execution_stack.rs\<close>. The executor is
  an argument, as in the code; given the deadline of an attempt it either finishes or lets the
  deadline pass. A panic of the executor unwinds through the layer. The loop may not end, so it
  answers an option.
\<close>

section \<open>Data\<close>

datatype ToolDegradeStrategy = Strategy_Off | Strategy_BestEffortFallback

fun debug_strategy :: "ToolDegradeStrategy \<Rightarrow> string" where
  "debug_strategy Strategy_Off = ''Off''"
| "debug_strategy Strategy_BestEffortFallback = ''BestEffortFallback''"

fun strategy_name :: "ToolDegradeStrategy \<Rightarrow> string" where
  "strategy_name Strategy_Off = ''off''"
| "strategy_name Strategy_BestEffortFallback = ''best_effort_fallback''"

record ToolReliabilityPolicy =
  tp_timeout_ms :: "64 word"
  tp_max_retries :: "8 word"
  tp_retry_backoff_ms :: "64 word"
  tp_circuit_failure_threshold :: "8 word"
  tp_degrade_strategy :: ToolDegradeStrategy

definition default_reliability_policy :: ToolReliabilityPolicy where
  "default_reliability_policy =
     \<lparr> tp_timeout_ms = 90000, tp_max_retries = 1, tp_retry_backoff_ms = 120,
       tp_circuit_failure_threshold = 3, tp_degrade_strategy = Strategy_Off \<rparr>"

record ToolReliabilityReport =
  tr_policy :: ToolReliabilityPolicy
  tr_attempts :: "8 word"
  tr_retries_used :: "8 word"
  tr_timed_out_attempts :: "8 word"
  tr_circuit_trip_suggested :: bool
  tr_degraded :: bool
  tr_final_status :: string
  tr_last_error :: "string option"

record ToolExecutionObservation =
  ob_layer :: string
  ob_status :: string
  ob_detail :: string
  ob_at_ms :: "64 word"

record ToolExecutionPipelineResult =
  tx_content :: string
  tx_observations :: "ToolExecutionObservation list"
  tx_reliability :: ToolReliabilityReport
  tx_persisted_ref :: string

record SignalContext =
  sc_session_id :: string
  sc_trace_id :: string
  sc_span_id :: "string option"
  sc_task_id :: "string option"
  sc_capability_id :: "string option"
  sc_tenant_id :: "string option"
  sc_principal_id :: "string option"

datatype attempt = Finished "string result" | Deadline_Passed

section \<open>Retrying\<close>

definition is_retryable_error :: "string \<Rightarrow> bool" where
  "is_retryable_error txt =
     (let lowered = to_ascii_lowercase txt
      in \<exists>w \<in> set [''timeout'', ''temporar'', ''unavailable'', ''connection'', ''reset'', ''refused'',
                  ''429'', ''rate limit'', ''throttle'']. contains lowered w)"

record ToolLoop =
  tl_attempts :: "8 word"
  tl_retries_used :: "8 word"
  tl_timed_out_attempts :: "8 word"
  tl_failed_attempts :: "8 word"
  tl_last_error :: "string option"
  tl_content :: "string option"
  tl_observations :: "ToolExecutionObservation list"

definition observation ::
    "('h) EventHost_scheme \<Rightarrow> ('s) EventState_scheme \<Rightarrow> string \<Rightarrow> string \<Rightarrow> string \<Rightarrow> ToolExecutionObservation"
  where
  "observation h st layer status detail =
     \<lparr> ob_layer = layer, ob_status = status, ob_detail = detail, ob_at_ms = current_time_ms h st \<rparr>"

definition observe ::
    "('h) EventHost_scheme \<Rightarrow> string \<Rightarrow> string \<Rightarrow> string \<Rightarrow> ToolLoop \<times> ('s) EventState_scheme \<Rightarrow>
     ToolLoop \<times> ('s) EventState_scheme" where
  "observe h layer status detail =
     (\<lambda>(l, st). (l\<lparr> tl_observations := tl_observations l @ [observation h st layer status detail] \<rparr>, tick st))"

datatype turn = Turn_Again | Turn_Stop | Turn_Panic

text \<open>One turn of the loop; the backoff sleeps and changes nothing.\<close>

definition backoff_ms :: "ToolReliabilityPolicy \<Rightarrow> 8 word \<Rightarrow> 64 word" where
  "backoff_ms policy attempts =
     (let product = unat (tp_retry_backoff_ms policy) * unat attempts
      in max (if product < 2 ^ 64 then word_of_nat product else - 1) 1)"

definition failed_attempt ::
    "('h) EventHost_scheme \<Rightarrow> ToolReliabilityPolicy \<Rightarrow> string \<Rightarrow> ToolLoop \<times> ('s) EventState_scheme \<Rightarrow>
     turn \<times> ToolLoop \<times> ('s) EventState_scheme" where
  "failed_attempt h policy error_text ls =
     (let (l, st) = ls;
          l = l\<lparr> tl_failed_attempts := saturating_add (tl_failed_attempts l) 1 \<rparr>;
          attempts = tl_attempts l;
          retryable = is_retryable_error error_text \<and> saturating_sub attempts 1 < tp_max_retries policy;
          (l, st) = observe h ''executor'' ''failed''
            (''attempt '' @ show_word attempts @ '' failed: '' @ error_text) (l, st);
          l = l\<lparr> tl_last_error := Some error_text \<rparr>
      in if retryable
         then (Turn_Again,
               observe h ''reliability'' ''retry''
                 (''retry scheduled after '' @ show_word (backoff_ms policy attempts) @ ''ms'')
                 (l\<lparr> tl_retries_used := saturating_add (tl_retries_used l) 1 \<rparr>, st))
         else (Turn_Stop, l, st))"

definition tool_attempt ::
    "('h) EventHost_scheme \<Rightarrow> ToolReliabilityPolicy \<Rightarrow>
     (64 word \<Rightarrow> ('s) EventState_scheme \<Rightarrow> ('s) EventState_scheme \<times> attempt) \<Rightarrow>
     ToolLoop \<times> ('s) EventState_scheme \<Rightarrow> turn \<times> ToolLoop \<times> ('s) EventState_scheme" where
  "tool_attempt h policy executor ls =
     (let (l, st) = ls;
          l = l\<lparr> tl_attempts := saturating_add (tl_attempts l) 1 \<rparr>;
          (l, st) = observe h ''reliability'' ''running''
            (''attempt '' @ show_word (tl_attempts l) @ '' started'') (l, st)
      in case executor (tp_timeout_ms policy) st of
           (st, Finished (Inr output)) \<Rightarrow>
             (Turn_Stop, observe h ''executor'' ''ok''
               (''tool execution succeeded on attempt '' @ show_word (tl_attempts l))
               (l\<lparr> tl_content := Some output \<rparr>, st))
         | (st, Finished (Inl (Anyhow error_text))) \<Rightarrow> failed_attempt h policy error_text (l, st)
         | (st, Finished (Inl Panicked)) \<Rightarrow> (Turn_Panic, l, st)
         | (st, Deadline_Passed) \<Rightarrow>
             failed_attempt h policy
               (''tool execution timeout after '' @ show_word (tp_timeout_ms policy) @ ''ms'')
               (l\<lparr> tl_timed_out_attempts := saturating_add (tl_timed_out_attempts l) 1 \<rparr>, st))"

partial_function (option) tool_loop ::
    "('h) EventHost_scheme \<Rightarrow> ToolReliabilityPolicy \<Rightarrow>
     (64 word \<Rightarrow> ('s) EventState_scheme \<Rightarrow> ('s) EventState_scheme \<times> attempt) \<Rightarrow>
     ToolLoop \<times> ('s) EventState_scheme \<Rightarrow> (turn \<times> ToolLoop \<times> ('s) EventState_scheme) option" where
  "tool_loop h policy executor ls =
     (if tl_attempts (fst ls) \<le> tp_max_retries policy
      then (case tool_attempt h policy executor ls of
              (Turn_Again, ls) \<Rightarrow> tool_loop h policy executor ls
            | (turn, ls) \<Rightarrow> Some (turn, ls))
      else Some (Turn_Stop, ls))"

section \<open>The layered execution\<close>

definition policy_json :: "ToolReliabilityPolicy \<Rightarrow> json" where
  "policy_json p =
     J_Object [(''timeout_ms'', J_Number (tp_timeout_ms p)),
       (''max_retries'', J_Number (ucast (tp_max_retries p))),
       (''retry_backoff_ms'', J_Number (tp_retry_backoff_ms p)),
       (''circuit_failure_threshold'', J_Number (ucast (tp_circuit_failure_threshold p))),
       (''degrade_strategy'', J_String (strategy_name (tp_degrade_strategy p)))]"

definition report_json :: "ToolReliabilityReport \<Rightarrow> json" where
  "report_json r =
     J_Object [(''policy'', policy_json (tr_policy r)), (''attempts'', J_Number (ucast (tr_attempts r))),
       (''retries_used'', J_Number (ucast (tr_retries_used r))),
       (''timed_out_attempts'', J_Number (ucast (tr_timed_out_attempts r))),
       (''circuit_trip_suggested'', J_Bool (tr_circuit_trip_suggested r)),
       (''degraded'', J_Bool (tr_degraded r)), (''final_status'', J_String (tr_final_status r)),
       (''last_error'', json_opt_str (tr_last_error r))]"

definition observation_json :: "ToolExecutionObservation \<Rightarrow> json" where
  "observation_json ob =
     J_Object [(''layer'', J_String (ob_layer ob)), (''status'', J_String (ob_status ob)),
       (''detail'', J_String (ob_detail ob)), (''at_ms'', J_Number (ob_at_ms ob))]"

text \<open>The summary that the last reliability observation carries.\<close>

definition report_summary :: "ToolReliabilityReport \<Rightarrow> json" where
  "report_summary r =
     J_Object [(''attempts'', J_Number (ucast (tr_attempts r))),
       (''retries_used'', J_Number (ucast (tr_retries_used r))),
       (''timed_out_attempts'', J_Number (ucast (tr_timed_out_attempts r))),
       (''circuit_trip_suggested'', J_Bool (tr_circuit_trip_suggested r)),
       (''degraded'', J_Bool (tr_degraded r)), (''final_status'', J_String (tr_final_status r))]"

definition start_tool_loop ::
    "('h) EventHost_scheme \<Rightarrow> string \<Rightarrow> ToolReliabilityPolicy \<Rightarrow> ('s) EventState_scheme \<Rightarrow>
     ToolLoop \<times> ('s) EventState_scheme" where
  "start_tool_loop h tool_name policy st =
     observe h ''reliability'' ''ok''
       (''policy timeout_ms='' @ show_word (tp_timeout_ms policy) @ '' max_retries='' @
        show_word (tp_max_retries policy) @ '' backoff_ms='' @ show_word (tp_retry_backoff_ms policy) @
        '' circuit_threshold='' @ show_word (tp_circuit_failure_threshold policy) @ '' degrade='' @
        debug_strategy (tp_degrade_strategy policy))
       (observe h ''orchestrator'' ''ok'' ''execution pipeline started''
         (observe h ''registry'' ''ok'' (''tool selected: '' @ tool_name)
           (\<lparr> tl_attempts = 0, tl_retries_used = 0, tl_timed_out_attempts = 0, tl_failed_attempts = 0,
              tl_last_error = None, tl_content = None, tl_observations = [] \<rparr>, st)))"

definition persist_execution ::
    "('h) EventHost_scheme \<Rightarrow> json codec \<Rightarrow> SignalContext \<Rightarrow> string \<Rightarrow> string \<Rightarrow> ToolReliabilityReport \<Rightarrow>
     ToolLoop \<times> ('s) EventState_scheme \<Rightarrow>
     ('s) EventState_scheme \<times> ToolExecutionPipelineResult result" where
  "persist_execution h j context tool_name content report ls =
     (let (l, st) =
            observe h ''commit'' ''ok'' ''side-effect commit prepared''
              (observe h ''observation'' ''ok'' ''execution observations collected''
                (observe h ''reliability'' ''ok'' (eh_text h (report_summary report)) ls));
          persisted_ref = ''execution-stack:'' @ sc_session_id context @ '':'' @
            (case sc_task_id context of None \<Rightarrow> ''none'' | Some t \<Rightarrow> t) @ '':'' @
            show_word (current_time_ms h st);
          st = tick st
      in then_do (put_json j persisted_ref
             (J_Object [(''session_id'', J_String (sc_session_id context)),
               (''trace_id'', J_String (sc_trace_id context)),
               (''span_id'', json_opt_str (sc_span_id context)),
               (''task_id'', json_opt_str (sc_task_id context)),
               (''capability_id'', json_opt_str (sc_capability_id context)),
               (''tool_name'', J_String tool_name), (''reliability'', report_json report),
               (''observations'', J_Array (map observation_json (tl_observations l)))])
             ''runtime:tool-execution-stack'' st) (\<lambda>st _.
         (st, Ok \<lparr> tx_content = content, tx_observations = tl_observations l,
                   tx_reliability = report, tx_persisted_ref = persisted_ref \<rparr>)))"

definition finish_tool_loop ::
    "('h) EventHost_scheme \<Rightarrow> json codec \<Rightarrow> SignalContext \<Rightarrow> string \<Rightarrow> ToolReliabilityPolicy \<Rightarrow>
     ToolLoop \<times> ('s) EventState_scheme \<Rightarrow>
     ('s) EventState_scheme \<times> ToolExecutionPipelineResult result" where
  "finish_tool_loop h j context tool_name policy ls =
     (let trip = max (tp_circuit_failure_threshold policy) 1 \<le> tl_failed_attempts (fst ls);
          (l, st) = (if trip then observe h ''reliability'' ''circuit''
                       ''failure threshold reached; circuit trip suggested'' ls else ls);
          report = (\<lambda>degraded final_status.
            \<lparr> tr_policy = policy, tr_attempts = tl_attempts l, tr_retries_used = tl_retries_used l,
              tr_timed_out_attempts = tl_timed_out_attempts l, tr_circuit_trip_suggested = trip,
              tr_degraded = degraded, tr_final_status = final_status,
              tr_last_error = tl_last_error l \<rparr>)
      in case tl_content l of
           Some content \<Rightarrow> persist_execution h j context tool_name content (report False ''ok'') (l, st)
         | None \<Rightarrow>
            (case tp_degrade_strategy policy of
               Strategy_BestEffortFallback \<Rightarrow>
                 (let reason = (case tl_last_error l of None \<Rightarrow> ''unknown tool failure'' | Some e \<Rightarrow> e)
                  in persist_execution h j context tool_name
                       (''degraded-tool-fallback: tool='' @ tool_name @ '' reason='' @ [CHR 0x22] @ reason @ [CHR 0x22])
                       (report True ''degraded'')
                       (observe h ''reliability'' ''degraded''
                         (''best-effort fallback activated: '' @ reason) (l, st)))
             | Strategy_Off \<Rightarrow>
                 (let reason = (case tl_last_error l of None \<Rightarrow> ''tool execution failed'' | Some e \<Rightarrow> e)
                  in (tick st, Err reason))))"

definition run_layered_tool_execution ::
    "('h) EventHost_scheme \<Rightarrow> json codec \<Rightarrow> SignalContext \<Rightarrow> string \<Rightarrow> ToolReliabilityPolicy \<Rightarrow>
     (64 word \<Rightarrow> ('s) EventState_scheme \<Rightarrow> ('s) EventState_scheme \<times> attempt) \<Rightarrow>
     ('s) EventState_scheme \<Rightarrow>
     (('s) EventState_scheme \<times> ToolExecutionPipelineResult result) option" where
  "run_layered_tool_execution h j context tool_name policy executor st =
     (case tool_loop h policy executor (start_tool_loop h tool_name policy st) of
        None \<Rightarrow> None
      | Some (Turn_Panic, l, st) \<Rightarrow> Some (st, Inl Panicked)
      | Some (_, ls) \<Rightarrow> Some (finish_tool_loop h j context tool_name policy ls))"


section \<open>How the loop ends\<close>

lemma observe_simps [simp]:
  "fst (observe h layer status detail ls) =
     (fst ls)\<lparr> tl_observations := tl_observations (fst ls) @ [observation h (snd ls) layer status detail] \<rparr>"
  "snd (observe h layer status detail ls) = tick (snd ls)"
  by (simp_all add: observe_def split: prod.split)

lemma observe_pair:
  "observe h layer status detail (l, st) =
     (l\<lparr> tl_observations := tl_observations l @ [observation h st layer status detail] \<rparr>, tick st)"
  by (simp add: observe_def)

text \<open>
  The calls that an executor received, one after the other from a state, with their outcomes; between
  them only the clock is read.
\<close>

inductive called ::
    "(64 word \<Rightarrow> ('s) EventState_scheme \<Rightarrow> ('s) EventState_scheme \<times> attempt) \<Rightarrow> 64 word \<Rightarrow>
     ('s) EventState_scheme \<Rightarrow> attempt list \<Rightarrow> ('s) EventState_scheme \<Rightarrow> bool"
  for executor t st where
  none: "called executor t st [] st"
| wait: "called executor t st outcomes st1 \<Longrightarrow> called executor t st outcomes (tick st1)"
| call: "called executor t st outcomes st1 \<Longrightarrow> executor t st1 = (st2, a) \<Longrightarrow>
    called executor t st (outcomes @ [a]) st2"

text \<open>The error of an attempt that failed.\<close>

fun failure_of :: "ToolReliabilityPolicy \<Rightarrow> attempt \<Rightarrow> string option" where
  "failure_of policy (Finished (Inl (Anyhow e))) = Some e"
| "failure_of policy (Finished (Inl Panicked)) = None"
| "failure_of policy (Finished (Inr output)) = None"
| "failure_of policy Deadline_Passed =
     Some (''tool execution timeout after '' @ show_word (tp_timeout_ms policy) @ ''ms'')"

definition retried :: "ToolReliabilityPolicy \<Rightarrow> attempt list \<Rightarrow> bool" where
  "retried policy outcomes \<longleftrightarrow> (\<forall>a \<in> set outcomes. \<exists>e. failure_of policy a = Some e \<and> is_retryable_error e)"

lemma retried_simps [simp]:
  "retried policy []"
  "retried policy (outcomes @ [a]) \<longleftrightarrow>
     retried policy outcomes \<and> (\<exists>e. failure_of policy a = Some e \<and> is_retryable_error e)"
  by (auto simp: retried_def)

definition tallied :: "attempt list \<Rightarrow> nat \<Rightarrow> nat \<Rightarrow> ToolLoop \<Rightarrow> bool" where
  "tallied outcomes failed retries l \<longleftrightarrow>
     unat (tl_attempts l) = length outcomes \<and> unat (tl_timed_out_attempts l) = count_list outcomes Deadline_Passed \<and>
     unat (tl_failed_attempts l) = failed \<and> unat (tl_retries_used l) = retries"

text \<open>So far every attempt has failed, and been followed by a retry.\<close>

definition retrying :: "ToolReliabilityPolicy \<Rightarrow> attempt list \<Rightarrow> ToolLoop \<Rightarrow> bool" where
  "retrying policy outcomes l \<longleftrightarrow>
     length outcomes \<le> unat (tp_max_retries policy) \<and> retried policy outcomes \<and>
     tallied outcomes (length outcomes) (length outcomes) l \<and> tl_content l = None \<and>
     tl_last_error l = (if outcomes = [] then None else failure_of policy (last outcomes))"

text \<open>The last attempt \<open>a\<close> succeeded, or failed beyond a retry.\<close>

definition settled :: "ToolReliabilityPolicy \<Rightarrow> attempt list \<Rightarrow> attempt \<Rightarrow> ToolLoop \<Rightarrow> bool" where
  "settled policy outcomes a l \<longleftrightarrow>
     (case failure_of policy a of
        None \<Rightarrow> \<exists>output. a = Finished (Inr output) \<and> tl_content l = Some output \<and>
          tallied (outcomes @ [a]) (length outcomes) (length outcomes) l \<and>
          tl_last_error l = (if outcomes = [] then None else failure_of policy (last outcomes))
      | Some e \<Rightarrow> tl_content l = None \<and> tl_last_error l = Some e \<and>
          tallied (outcomes @ [a]) (Suc (length outcomes)) (length outcomes) l \<and>
          (\<not> is_retryable_error e \<or> length outcomes = unat (tp_max_retries policy)))"

lemma failed_attempt_effect:
  assumes "failed_attempt h policy e (l, st) = (turn, l', st')"
  shows "tl_attempts l' = tl_attempts l \<and>
     unat (tl_failed_attempts l') = min (unat (tl_failed_attempts l) + 1) 255 \<and>
     tl_timed_out_attempts l' = tl_timed_out_attempts l \<and> tl_content l' = tl_content l \<and>
     tl_last_error l' = Some e \<and> (st' = tick st \<or> st' = tick (tick st)) \<and>
     (if is_retryable_error e \<and> unat (tl_attempts l) - 1 < unat (tp_max_retries policy)
      then turn = Turn_Again \<and> unat (tl_retries_used l') = min (unat (tl_retries_used l) + 1) 255
      else turn = Turn_Stop \<and> tl_retries_used l' = tl_retries_used l)"
  using assms
  by (auto simp: failed_attempt_def observe_pair Let_def unat_saturating_add word_less_nat_alt split: if_splits)

lemma failed_attempt_retrying:
  assumes "failed_attempt h policy e (l, st) = (turn, l', st')" "unat (tp_max_retries policy) < 255"
    and "failure_of policy a = Some e" "length outcomes \<le> unat (tp_max_retries policy)" "retried policy outcomes"
    and "tallied (outcomes @ [a]) (length outcomes) (length outcomes) l" "tl_content l = None"
  shows "(turn = Turn_Again \<and> retrying policy (outcomes @ [a]) l' \<or> turn = Turn_Stop \<and> settled policy outcomes a l') \<and>
     (st' = tick st \<or> st' = tick (tick st))"
  using failed_attempt_effect [OF assms(1)] assms(2-)
  by (auto simp: retrying_def settled_def tallied_def split: if_splits)

lemma tool_attempt_called:
  assumes "retrying policy outcomes l" "unat (tp_max_retries policy) < 255"
    and "called executor (tp_timeout_ms policy) st0 outcomes st"
    and "tool_attempt h policy executor (l, st) = (turn, l', st')"
  obtains a where "called executor (tp_timeout_ms policy) st0 (outcomes @ [a]) st'"
    "turn = Turn_Again \<and> retrying policy (outcomes @ [a]) l' \<or> turn = Turn_Stop \<and> settled policy outcomes a l' \<or>
     turn = Turn_Panic \<and> a = Finished (Inl Panicked)"
proof -
  note result = that
  define m where "m = l\<lparr> tl_attempts := saturating_add (tl_attempts l) 1 \<rparr>"
  define m1 where "m1 = fst (observe h ''reliability'' ''running'' (''attempt '' @ show_word (tl_attempts m) @ '' started'') (m, st))"
  have len: "length outcomes \<le> unat (tp_max_retries policy)" "retried policy outcomes" "tl_content m1 = None"
      "tl_last_error m1 = (if outcomes = [] then None else failure_of policy (last outcomes))"
    using assms(1) by (simp_all add: retrying_def m1_def m_def)
  have m1: "tallied (outcomes @ [a]) (length outcomes) (length outcomes) m1" if "a \<noteq> Deadline_Passed" for a
    using assms(1,2) that by (auto simp: retrying_def tallied_def m1_def m_def unat_saturating_add)
  have late: "tallied (outcomes @ [Deadline_Passed]) (length outcomes) (length outcomes)
      (m1\<lparr> tl_timed_out_attempts := saturating_add (tl_timed_out_attempts m1) 1 \<rparr>)"
    using assms(1,2) count_le_length [of outcomes Deadline_Passed]
    by (auto simp: retrying_def tallied_def m1_def m_def unat_saturating_add)
  have run: "tool_attempt h policy executor (l, st) =
      (case executor (tp_timeout_ms policy) (tick st) of
           (st, Finished (Inr output)) \<Rightarrow>
             (Turn_Stop, observe h ''executor'' ''ok''
               (''tool execution succeeded on attempt '' @ show_word (tl_attempts m1))
               (m1\<lparr> tl_content := Some output \<rparr>, st))
         | (st, Finished (Inl (Anyhow error_text))) \<Rightarrow> failed_attempt h policy error_text (m1, st)
         | (st, Finished (Inl Panicked)) \<Rightarrow> (Turn_Panic, m1, st)
         | (st, Deadline_Passed) \<Rightarrow>
             failed_attempt h policy
               (''tool execution timeout after '' @ show_word (tp_timeout_ms policy) @ ''ms'')
               (m1\<lparr> tl_timed_out_attempts := saturating_add (tl_timed_out_attempts m1) 1 \<rparr>, st))"
    unfolding tool_attempt_def m1_def m_def
    by (simp add: Let_def observe_pair split: prod.split attempt.split sum.split error.split)
  obtain st2 a where a: "executor (tp_timeout_ms policy) (tick st) = (st2, a)" by fastforce
  then have now: "called executor (tp_timeout_ms policy) st0 (outcomes @ [a]) st2"
    by (rule called.call [OF called.wait [OF assms(3)]])
  then have waited: "called executor (tp_timeout_ms policy) st0 (outcomes @ [a]) (tick st2)"
    by (rule called.wait)
  then have twice: "called executor (tp_timeout_ms policy) st0 (outcomes @ [a]) (tick (tick st2))"
    by (rule called.wait)
  have fail: thesis
    if "failed_attempt h policy e (m2, st2) = (turn, l', st')" "failure_of policy a = Some e"
      "tallied (outcomes @ [a]) (length outcomes) (length outcomes) m2" "tl_content m2 = None" for e m2
    using failed_attempt_retrying [OF that(1) assms(2) that(2) len(1,2) that(3,4)] waited twice
    by (intro result) auto
  show thesis
  proof (cases a)
    case Deadline_Passed
    then show ?thesis using assms(4) run a fail late len(3) by simp
  next
    case (Finished r)
    show ?thesis
    proof (cases r)
      case (Inr answer)
      have "turn = Turn_Stop" "tl_content l' = Some answer" "st' = tick st2"
          "tl_last_error l' = tl_last_error m1" "tallied (outcomes @ [a]) (length outcomes) (length outcomes) l'"
        using assms(4) m1 [of a] unfolding run a by (auto simp: Finished Inr observe_pair tallied_def)
      then show ?thesis
        using waited len(4) by (intro result [of a]) (auto simp: settled_def Finished Inr)
    next
      case (Inl e)
      show ?thesis
      proof (cases e)
        case (Anyhow msg)
        then show ?thesis using assms(4) run a fail [of msg m1] m1 [of a] len(3) Finished Inl by simp
      next
        case Panicked
        then show ?thesis using assms(4) run a now Finished Inl by (intro result [of a]) simp_all
      qed
    qed
  qed
qed

lemma tool_loop_settles:
  assumes "retrying policy outcomes l" "unat (tp_max_retries policy) < 255"
    and "called executor (tp_timeout_ms policy) st0 outcomes st"
  shows "\<exists>turn l' st' outcomes' a. tool_loop h policy executor (l, st) = Some (turn, l', st') \<and>
     called executor (tp_timeout_ms policy) st0 (outcomes' @ [a]) st' \<and>
     length outcomes' \<le> unat (tp_max_retries policy) \<and> retried policy outcomes' \<and>
     (turn = Turn_Stop \<and> settled policy outcomes' a l' \<or> turn = Turn_Panic \<and> a = Finished (Inl Panicked))"
  using assms
proof (induction "unat (tp_max_retries policy) - length outcomes" arbitrary: outcomes l st rule: less_induct)
  case less
  have here: "tl_attempts l \<le> tp_max_retries policy" "length outcomes \<le> unat (tp_max_retries policy)" "retried policy outcomes"
    using less.prems(1) by (simp_all add: retrying_def tallied_def word_le_nat_alt)
  obtain turn l' st' where t: "tool_attempt h policy executor (l, st) = (turn, l', st')" by (metis prod_cases3)
  from tool_attempt_called [OF less.prems t] obtain a where
      a: "called executor (tp_timeout_ms policy) st0 (outcomes @ [a]) st'"
      and how: "turn = Turn_Again \<and> retrying policy (outcomes @ [a]) l' \<or>
        turn = Turn_Stop \<and> settled policy outcomes a l' \<or> turn = Turn_Panic \<and> a = Finished (Inl Panicked)" .
  show ?case
  proof (cases turn)
    case Turn_Again
    with how have again: "retrying policy (outcomes @ [a]) l'" by simp
    then have "unat (tp_max_retries policy) - length (outcomes @ [a]) < unat (tp_max_retries policy) - length outcomes"
      by (auto simp: retrying_def)
    from less.hyps [OF this again less.prems(2) a] show ?thesis
      using Turn_Again t here(1) by (subst tool_loop.simps) simp
  next
    case Turn_Stop
    with how t here a show ?thesis by (subst tool_loop.simps) auto
  next
    case Turn_Panic
    with how t here a show ?thesis by (subst tool_loop.simps) auto
  qed
qed

lemma retrying_start: "retrying policy [] (fst (start_tool_loop h tool_name policy st))"
  by (simp add: start_tool_loop_def retrying_def tallied_def)

lemma called_start: "called executor t st [] (snd (start_tool_loop h tool_name policy st))"
  unfolding start_tool_loop_def observe_simps snd_conv by (intro called.wait called.none)

lemma persist_execution_Ok:
  obtains res where "snd (persist_execution h j context tool_name content report ls) = Ok res"
    "tx_content res = content" "tx_reliability res = report"
proof -
  have "\<exists>res. snd (persist_execution h j context tool_name content report ls) = Ok res \<and>
      tx_content res = content \<and> tx_reliability res = report"
    by (simp add: persist_execution_def Let_def split: prod.split)
  then show thesis using that by blast
qed

text \<open>
  What the layer reports, against the outcomes of the calls that the executor received: the last of
  them, and those before.
\<close>

definition truthful ::
    "ToolReliabilityPolicy \<Rightarrow> string \<Rightarrow> attempt list \<Rightarrow> attempt \<Rightarrow> ToolExecutionPipelineResult \<Rightarrow> bool" where
  "truthful policy tool_name outcomes a res \<longleftrightarrow>
     (let rep = tx_reliability res; calls = outcomes @ [a];
          failures = filter (\<lambda>b. failure_of policy b \<noteq> None) calls
      in tr_policy rep = policy \<and>
         unat (tr_attempts rep) = length calls \<and> unat (tr_retries_used rep) = length outcomes \<and>
         unat (tr_timed_out_attempts rep) = count_list calls Deadline_Passed \<and>
         tr_circuit_trip_suggested rep =
           (max (unat (tp_circuit_failure_threshold policy)) 1 \<le> length failures) \<and>
         tr_last_error rep = (if failures = [] then None else failure_of policy (last failures)) \<and>
         (case failure_of policy a of
            None \<Rightarrow> \<not> tr_degraded rep \<and> tr_final_status rep = ''ok'' \<and> a = Finished (Ok (tx_content res))
          | Some e \<Rightarrow> tr_degraded rep \<and> tr_final_status rep = ''degraded'' \<and>
              tp_degrade_strategy policy = Strategy_BestEffortFallback \<and>
              tx_content res = ''degraded-tool-fallback: tool='' @ tool_name @ '' reason='' @
                [CHR 0x22] @ e @ [CHR 0x22]))"

lemma retried_failures: "retried policy outcomes \<Longrightarrow> filter (\<lambda>b. failure_of policy b \<noteq> None) outcomes = outcomes"
  by (auto simp: retried_def filter_id_conv)

lemma finish_more: "EventState.more (fst (finish_tool_loop h j ctx tool_name policy ls)) = EventState.more (snd ls)"
  by (cases ls)
    (auto simp: finish_tool_loop_def persist_execution_def Let_def observe_pair split: option.split ToolDegradeStrategy.split)

lemma finish_settled:
  assumes "settled policy outcomes a (fst ls)" "retried policy outcomes"
  shows "case snd (finish_tool_loop h j ctx tool_name policy ls) of
           Inr res \<Rightarrow> truthful policy tool_name outcomes a res
         | Inl e \<Rightarrow> tp_degrade_strategy policy = Strategy_Off \<and> (\<exists>m. e = Anyhow m \<and> failure_of policy a = Some m)"
proof -
  note failures = retried_failures [OF assms(2)]
  define trip where "trip = (max (tp_circuit_failure_threshold policy) 1 \<le> tl_failed_attempts (fst ls))"
  obtain l st where l: "(if trip then observe h ''reliability'' ''circuit''
       ''failure threshold reached; circuit trip suggested'' ls else ls) = (l, st)" by (metis surj_pair)
  have same: "tl_attempts l = tl_attempts (fst ls)" "tl_retries_used l = tl_retries_used (fst ls)"
      "tl_timed_out_attempts l = tl_timed_out_attempts (fst ls)" "tl_content l = tl_content (fst ls)"
      "tl_last_error l = tl_last_error (fst ls)"
    using arg_cong [OF l, of fst] by (auto split: if_splits)
  have trip: "trip = (max (unat (tp_circuit_failure_threshold policy)) 1 \<le> unat (tl_failed_attempts (fst ls)))"
    by (auto simp: trip_def word_le_nat_alt max_def)
  define report where "report = (\<lambda>degraded final_status.
      \<lparr> tr_policy = policy, tr_attempts = tl_attempts l, tr_retries_used = tl_retries_used l,
        tr_timed_out_attempts = tl_timed_out_attempts l, tr_circuit_trip_suggested = trip,
        tr_degraded = degraded, tr_final_status = final_status, tr_last_error = tl_last_error l \<rparr>)"
  have run: "finish_tool_loop h j ctx tool_name policy ls =
      (case tl_content l of
           Some content \<Rightarrow> persist_execution h j ctx tool_name content (report False ''ok'') (l, st)
         | None \<Rightarrow>
            (case tp_degrade_strategy policy of
               Strategy_BestEffortFallback \<Rightarrow>
                 (let reason = (case tl_last_error l of None \<Rightarrow> ''unknown tool failure'' | Some e \<Rightarrow> e)
                  in persist_execution h j ctx tool_name
                       (''degraded-tool-fallback: tool='' @ tool_name @ '' reason='' @ [CHR 0x22] @ reason @ [CHR 0x22])
                       (report True ''degraded'')
                       (observe h ''reliability'' ''degraded''
                         (''best-effort fallback activated: '' @ reason) (l, st)))
             | Strategy_Off \<Rightarrow>
                 (let reason = (case tl_last_error l of None \<Rightarrow> ''tool execution failed'' | Some e \<Rightarrow> e)
                  in (tick st, Err reason))))"
    unfolding finish_tool_loop_def trip_def [symmetric] Let_def l prod.case report_def ..
  show ?thesis
  proof (cases "failure_of policy a")
    case None
    then obtain c where c: "a = Finished (Inr c)" "tl_content l = Some c"
        and tally: "tallied (outcomes @ [a]) (length outcomes) (length outcomes) (fst ls)"
        and err: "tl_last_error l = (if outcomes = [] then None else failure_of policy (last outcomes))"
      using assms(1) same by (auto simp: settled_def)
    obtain res where "snd (persist_execution h j ctx tool_name c (report False ''ok'') (l, st)) = Ok res"
        "tx_content res = c" "tx_reliability res = report False ''ok''" by (rule persist_execution_Ok)
    then show ?thesis
      unfolding run using c err tally same trip failures
      by (simp add: truthful_def report_def tallied_def Let_def)
  next
    case (Some e)
    then have e: "tl_last_error l = Some e" "tl_content l = None"
        and tally: "tallied (outcomes @ [a]) (Suc (length outcomes)) (length outcomes) (fst ls)"
      using assms(1) same by (auto simp: settled_def)
    show ?thesis
    proof (cases "tp_degrade_strategy policy")
      case Strategy_Off
      then show ?thesis unfolding run using e Some by simp
    next
      case Strategy_BestEffortFallback
      let ?text = "''degraded-tool-fallback: tool='' @ tool_name @ '' reason='' @ [CHR 0x22] @ e @ [CHR 0x22]"
      obtain res where "snd (persist_execution h j ctx tool_name ?text (report True ''degraded'')
            (observe h ''reliability'' ''degraded'' (''best-effort fallback activated: '' @ e) (l, st))) = Ok res"
          "tx_content res = ?text" "tx_reliability res = report True ''degraded''"
        by (rule persist_execution_Ok)
      then show ?thesis
        unfolding run using e Some tally Strategy_BestEffortFallback same(1-3) trip failures
        by (simp add: truthful_def report_def tallied_def Let_def)
    qed
  qed
qed

text \<open>
  C26: A tool call always comes to an end, for any executor, if the policy allows fewer than 255
  retries. The executor is called at least once and at most once more than the retries allowed, every
  call but the last failed with a retryable error, and nothing else changes the state but the clock
  and the table the report is written to. The report is truthful about the calls the executor
  received: how many there were, how many let their deadline pass, whether their failures reach the
  threshold of the circuit, and the last error; its content is what the last call returned, or the
  fallback with the last call's error. Without a fallback that error comes out. A call that failed at
  last did so with an error that is not retryable, or as the last one allowed; a panic comes out only
  when the last call panicked.
\<close>

theorem layered_execution_ends:
  assumes "unat (tp_max_retries policy) < 255"
  shows "\<exists>st' r outcomes a st1. run_layered_tool_execution h j context tool_name policy executor st = Some (st', r) \<and>
     called executor (tp_timeout_ms policy) st (outcomes @ [a]) st1 \<and> EventState.more st' = EventState.more st1 \<and>
     length outcomes \<le> unat (tp_max_retries policy) \<and> retried policy outcomes \<and>
     (case failure_of policy a of
        Some e \<Rightarrow> \<not> is_retryable_error e \<or> length outcomes = unat (tp_max_retries policy)
      | None \<Rightarrow> True) \<and>
     (case r of
        Inr res \<Rightarrow> truthful policy tool_name outcomes a res
      | Inl (Anyhow e) \<Rightarrow> tp_degrade_strategy policy = Strategy_Off \<and> failure_of policy a = Some e
      | Inl Panicked \<Rightarrow> a = Finished (Inl Panicked))"
proof -
  obtain l st0 where start: "start_tool_loop h tool_name policy st = (l, st0)" by (metis surj_pair)
  have "retrying policy [] l" "called executor (tp_timeout_ms policy) st [] st0"
    using retrying_start [of policy h tool_name st] called_start [of executor _ st h tool_name policy] start by auto
  from tool_loop_settles [OF this(1) assms this(2), of h] obtain turn l' st1 outcomes a where
      loop: "tool_loop h policy executor (l, st0) = Some (turn, l', st1)"
      and calls: "called executor (tp_timeout_ms policy) st (outcomes @ [a]) st1"
        "length outcomes \<le> unat (tp_max_retries policy)" "retried policy outcomes"
      and how: "turn = Turn_Stop \<and> settled policy outcomes a l' \<or> turn = Turn_Panic \<and> a = Finished (Inl Panicked)"
    by blast
  show ?thesis
  proof (cases "turn = Turn_Panic")
    case True
    then have "run_layered_tool_execution h j context tool_name policy executor st = Some (st1, Inl Panicked)"
      using loop start by (simp add: run_layered_tool_execution_def)
    with True how calls show ?thesis
      by (intro exI [of _ st1] exI [of _ "Inl Panicked"] exI [of _ outcomes] exI [of _ a]) simp
  next
    case False
    with how have settled: "turn = Turn_Stop" "settled policy outcomes a l'" by simp_all
    obtain st' r where fin: "finish_tool_loop h j context tool_name policy (l', st1) = (st', r)" by fastforce
    have "run_layered_tool_execution h j context tool_name policy executor st = Some (st', r)"
      using loop start settled(1) fin by (simp add: run_layered_tool_execution_def)
    moreover have "EventState.more st' = EventState.more st1"
      using finish_more [of h j "context" tool_name policy "(l', st1)"] fin by simp
    moreover have "case failure_of policy a of
        Some e \<Rightarrow> \<not> is_retryable_error e \<or> length outcomes = unat (tp_max_retries policy) | None \<Rightarrow> True"
      using settled(2) by (auto simp: settled_def split: option.splits)
    moreover have "case r of
        Inr res \<Rightarrow> truthful policy tool_name outcomes a res
      | Inl (Anyhow e) \<Rightarrow> tp_degrade_strategy policy = Strategy_Off \<and> failure_of policy a = Some e
      | Inl Panicked \<Rightarrow> a = Finished (Inl Panicked)"
      using finish_settled [where policy = policy and outcomes = outcomes and a = a and ls = "(l', st1)" and h = h and j = j and ctx = "context" and tool_name = tool_name] settled(2) calls(3) fin
      by (auto split: sum.splits)
    ultimately show ?thesis using calls by blast
  qed
qed

text \<open>
  With 255 retries the counter stops at its top, the bound is never passed, and a call that keeps
  failing with a retryable error is retried for ever.
\<close>

lemma retries_for_ever:
  assumes "tp_max_retries policy = 255"
    and "\<And>t st. \<exists>st' e. executor t st = (st', Finished (Err e)) \<and> is_retryable_error e"
  shows "run_layered_tool_execution h j context tool_name policy executor st = None"
proof -
  have again: "\<exists>ls'. tool_attempt h policy executor ls = (Turn_Again, ls')" for ls
  proof -
    obtain l st where ls: "ls = (l, st)" by (cases ls)
    obtain st' e where "executor (tp_timeout_ms policy) (tick st) = (st', Finished (Err e))" "is_retryable_error e"
      using assms(2) by blast
    moreover have "saturating_sub (saturating_add a 1) 1 < (255 :: 8 word)" for a :: "8 word"
      by (simp add: word_less_nat_alt unat_saturating_add)
    ultimately show ?thesis
      using assms(1) by (simp add: ls tool_attempt_def failed_attempt_def observe_pair Let_def)
  qed
  have "tp_max_retries policy = 255 \<longrightarrow> (\<forall>ls. \<exists>ls'. tool_attempt h policy executor ls = (Turn_Again, ls')) \<longrightarrow> False"
    if "tool_loop h policy executor ls = Some r" for ls r
  proof (rule tool_loop.raw_induct [OF _ that, where P = "\<lambda>h policy executor ls r.
      tp_max_retries policy = 255 \<longrightarrow>
      (\<forall>ls. \<exists>ls'. tool_attempt h policy executor ls = (Turn_Again, ls')) \<longrightarrow> False"], goal_cases)
    case (1 loop h policy executor ls r)
    have "unat (tl_attempts (fst ls)) < 2 ^ 8" using unsigned_less [of "tl_attempts (fst ls)"] by simp
    then have "tl_attempts (fst ls) \<le> 255" by (simp add: word_le_nat_alt)
    show ?case
    proof (intro impI)
      assume max: "tp_max_retries policy = 255"
        and again: "\<forall>ls. \<exists>ls'. tool_attempt h policy executor ls = (Turn_Again, ls')"
      then obtain ls' where "tool_attempt h policy executor ls = (Turn_Again, ls')" by blast
      with 1(2) max \<open>tl_attempts (fst ls) \<le> 255\<close> have "loop h policy executor ls' = Some r" by simp
      from 1(1) [OF this] max again show False by blast
    qed
  qed
  then have "tool_loop h policy executor ls = None" for ls
    using again assms(1) by (cases "tool_loop h policy executor ls") blast+
  then show ?thesis by (simp add: run_layered_tool_execution_def)
qed

end
