(* ===== verification/Sandbox.thy ===== *)
theory Sandbox
  imports Forge Runtime_Guard
begin

text \<open>
  The sandboxed execution of a forged command, and the plans of the wasm sandbox, of
  \<^verbatim>\<open>src/runtime/mod.rs\<close>. Starting a process, reading the file system and running a wasm module are
  arguments over a world that they change; paths are those of Unix. A command that is started names
  its executable, its arguments, the directory and its time budget in seconds.
\<close>

section \<open>Data\<close>

record SandboxedExecutionResult =
  sx_executable :: string
  sx_args :: "string list"
  sx_working_directory :: string
  sx_exit_code :: "int option"
  sx_stdout :: string
  sx_stderr :: string
  sx_timed_out :: bool

text \<open>How a process ends: with its code and the decoded text of its two streams, or late.\<close>

datatype ProcessEnd = Exited "int option" string string | Budget_Passed

record WasmSandboxRequest =
  wr_module :: string
  wr_entrypoint :: string
  wr_payload :: json

record WasmSandboxPlan =
  wp_module_path :: string
  wp_entrypoint :: string
  wp_payload :: json

record WasmSandboxExecutionResult =
  wx_module_path :: string
  wx_entrypoint :: string
  wx_output :: json
  wx_host_logs :: "string list"
  wx_host_events :: "json list"

record 'w SandboxHost =
  sh_parse :: "string \<Rightarrow> string + json"
  sh_text :: "json \<Rightarrow> string"
  sh_current_dir :: "string result"
  sh_spawn :: "string \<Rightarrow> string list \<Rightarrow> string \<Rightarrow> nat \<Rightarrow> 'w \<Rightarrow> 'w \<times> ProcessEnd result"
  sh_exists :: "'w \<Rightarrow> string \<Rightarrow> bool"
  sh_wasm :: "WasmSandboxPlan \<Rightarrow> 'w \<Rightarrow> 'w \<times> WasmSandboxExecutionResult result"
  sh_wasm_request :: "json \<Rightarrow> string + WasmSandboxRequest"
  sh_sandboxed_text :: "SandboxedExecutionResult \<Rightarrow> string"
  sh_wasm_text :: "WasmSandboxExecutionResult \<Rightarrow> string"

section \<open>Paths\<close>

definition is_absolute :: "string \<Rightarrow> bool" where
  "is_absolute p \<longleftrightarrow> prefix ''/'' p"

definition path_join :: "string \<Rightarrow> string \<Rightarrow> string" where
  "path_join base p =
     (if is_absolute p then p
      else if base = [] \<or> last base = CHR ''/'' then base @ p else base @ ''/'' @ p)"

definition resolve_working_directory :: "string result \<Rightarrow> string option \<Rightarrow> string result" where
  "resolve_working_directory current_dir working_directory =
     (let requested = (case working_directory of None \<Rightarrow> ''.'' | Some d \<Rightarrow> d)
      in if is_absolute requested then Ok requested
         else and_then current_dir (\<lambda>d. Ok (path_join d requested)))"

section \<open>What the sandbox refuses\<close>

definition blocked_executables :: "string list" where
  "blocked_executables = [''powershell'', ''pwsh'', ''cmd'', ''bash'', ''sh'']"

definition interpreter_style :: "string \<Rightarrow> bool" where
  "interpreter_style executable \<longleftrightarrow>
     (\<exists>b \<in> set blocked_executables. suffix b (to_ascii_lowercase executable) \<or>
        contains (to_ascii_lowercase executable) (b @ ''.''))"

definition denied_argument :: "SandboxPolicy \<Rightarrow> string \<Rightarrow> bool" where
  "denied_argument policy argument \<longleftrightarrow>
     (\<exists>p \<in> set (map to_ascii_lowercase (sp_filesystem_deny policy)). contains (to_ascii_lowercase argument) p)"

definition validate_command_spec :: "RenderedCommandSpec \<Rightarrow> SandboxPolicy \<Rightarrow> unit result" where
  "validate_command_spec spec policy =
     (if interpreter_style (rc_executable spec)
      then Err (''sandbox blocked interpreter-style executable: '' @ rc_executable spec)
      else case find (denied_argument policy) (rc_args spec) of
        Some argument \<Rightarrow> Err (''sandbox blocked denied path-like argument: '' @ argument)
      | None \<Rightarrow> Ok ())"

definition slashes :: "string \<Rightarrow> string" where
  "slashes p = to_ascii_lowercase (str_replace p [CHR 0x5C] ''/'')"

definition path_pattern :: "string \<Rightarrow> string" where
  "path_pattern entry = trim_with [''./''] (slashes entry)"

definition allowed_directory :: "SandboxPolicy \<Rightarrow> string \<Rightarrow> bool" where
  "allowed_directory policy path \<longleftrightarrow>
     (\<exists>entry \<in> set (sp_filesystem_allow policy).
        path_pattern entry = [] \<or> contains (slashes path) (path_pattern entry) \<or>
        suffix (path_pattern entry) (slashes path))"

definition denied_directory :: "SandboxPolicy \<Rightarrow> string \<Rightarrow> bool" where
  "denied_directory policy path \<longleftrightarrow>
     (\<exists>entry \<in> set (sp_filesystem_deny policy). contains (slashes path) (path_pattern entry))"

definition enforce_working_directory_policy :: "string \<Rightarrow> SandboxPolicy \<Rightarrow> unit result" where
  "enforce_working_directory_policy path policy =
     (if \<not> allowed_directory policy path
      then Err (''sandbox blocked working directory outside allowlist: '' @ path)
      else if denied_directory policy path
      then Err (''sandbox blocked working directory inside denylist: '' @ path)
      else Ok ())"

section \<open>Running a command\<close>

definition budget_secs :: "SandboxPolicy \<Rightarrow> nat" where
  "budget_secs policy = unat (max (sp_cpu_budget_ms policy) 1000) div 1000"

definition sandboxed_result :: "RenderedCommandSpec \<Rightarrow> string \<Rightarrow> ProcessEnd \<Rightarrow> SandboxedExecutionResult" where
  "sandboxed_result spec dir end =
     (case end of
        Exited code out err \<Rightarrow>
          \<lparr> sx_executable = rc_executable spec, sx_args = rc_args spec, sx_working_directory = dir,
            sx_exit_code = code, sx_stdout = trim out, sx_stderr = trim err, sx_timed_out = False \<rparr>
      | Budget_Passed \<Rightarrow>
          \<lparr> sx_executable = rc_executable spec, sx_args = rc_args spec, sx_working_directory = dir,
            sx_exit_code = None, sx_stdout = [], sx_stderr = ''sandbox timeout exceeded'',
            sx_timed_out = True \<rparr>)"

definition admitted_command ::
    "('w, 'h) SandboxHost_scheme \<Rightarrow> ForgedMcpToolManifest \<Rightarrow> string \<Rightarrow> SandboxPolicy \<Rightarrow>
     (RenderedCommandSpec \<times> string) result" where
  "admitted_command h m arguments policy =
     and_then (build_command_spec (sh_parse h) (sh_text h) m arguments) (\<lambda>spec.
     and_then (validate_command_spec spec policy) (\<lambda>_.
     and_then (resolve_working_directory (sh_current_dir h) (rc_working_directory spec)) (\<lambda>dir.
     and_then (enforce_working_directory_policy dir policy) (\<lambda>_. Ok (spec, dir)))))"

definition execute_sandboxed_manifest ::
    "('w, 'h) SandboxHost_scheme \<Rightarrow> ForgedMcpToolManifest \<Rightarrow> string \<Rightarrow> SandboxPolicy \<Rightarrow> 'w \<Rightarrow>
     'w \<times> SandboxedExecutionResult result" where
  "execute_sandboxed_manifest h m arguments policy w =
     (case admitted_command h m arguments policy of
        Inl e \<Rightarrow> (w, Inl e)
      | Inr (spec, dir) \<Rightarrow>
          then_do (sh_spawn h (rc_executable spec) (rc_args spec) dir (budget_secs policy) w)
            (\<lambda>w end. (w, Ok (sandboxed_result spec dir end))))"

section \<open>Wasm plans\<close>

definition default_wasm_entrypoint :: string where
  "default_wasm_entrypoint = ''autoloop_run''"

definition wasm_rule_dir :: string where
  "wasm_rule_dir = ''D:'' @ [CHR 0x5C] @ ''AutoLoop'' @ [CHR 0x5C] @ ''autoloop-app'' @ [CHR 0x5C] @
     ''rule'' @ [CHR 0x5C] @ ''wasmtime-main''"

definition resolve_wasm_module_path ::
    "('w, 'h) SandboxHost_scheme \<Rightarrow> 'w \<Rightarrow> string \<Rightarrow> string \<Rightarrow> string" where
  "resolve_wasm_module_path h w wasm tenant_id =
     (if is_absolute wasm then wasm
      else let from_rule = path_join wasm_rule_dir wasm
           in if sh_exists h w from_rule then from_rule
              else let tenant_scoped = path_join (path_join (path_join wasm_rule_dir ''tenants'') tenant_id) wasm
                   in if sh_exists h w tenant_scoped then tenant_scoped else wasm)"

text \<open>The request in the arguments, if there is one.\<close>

definition wasm_request ::
    "('w, 'h) SandboxHost_scheme \<Rightarrow> string \<Rightarrow> WasmSandboxRequest option result" where
  "wasm_request h arguments =
     (case sh_parse h arguments of
        Inl _ \<Rightarrow> Ok None
      | Inr parsed \<Rightarrow>
         (case parsed of
            J_Object obj \<Rightarrow>
              (case map_of obj ''__wasm_sandbox'' of
                 Some request_value \<Rightarrow>
                   (case sh_wasm_request h request_value of
                      Inl _ \<Rightarrow> Err ''invalid __wasm_sandbox request payload''
                    | Inr request \<Rightarrow> Ok (Some request))
               | None \<Rightarrow>
                   (case map_of obj ''wasm_module'' of
                      None \<Rightarrow> Ok None
                    | Some wasm \<Rightarrow>
                        Ok (Some
                          \<lparr> wr_module = (case json_as_str wasm of None \<Rightarrow> [] | Some s \<Rightarrow> s),
                            wr_entrypoint =
                              (case Option.bind (map_of obj ''wasm_entrypoint'') json_as_str of
                                 None \<Rightarrow> default_wasm_entrypoint | Some s \<Rightarrow> s),
                            wr_payload =
                              (case map_of obj ''wasm_payload'' of None \<Rightarrow> parsed | Some p \<Rightarrow> p) \<rparr>)))
          | _ \<Rightarrow> Ok None))"

definition resolve_wasm_sandbox_plan ::
    "('w, 'h) SandboxHost_scheme \<Rightarrow> 'w \<Rightarrow> string \<Rightarrow> TaskEnvelope \<Rightarrow> string \<Rightarrow> WasmSandboxPlan option result"
  where
  "resolve_wasm_sandbox_plan h w arguments envelope tool_name =
     and_then (wasm_request h arguments) (\<lambda>request.
       case request of
         None \<Rightarrow> Ok None
       | Some request \<Rightarrow>
           if trim (wr_module request) = [] then Err ''wasm sandbox request must include module path''
           else Ok (Some
             \<lparr> wp_module_path =
                 resolve_wasm_module_path h w (wr_module request) (id_tenant_id (te_identity envelope)),
               wp_entrypoint = wr_entrypoint request,
               wp_payload =
                 J_Object [(''tenant_id'', J_String (id_tenant_id (te_identity envelope))),
                   (''principal_id'', J_String (id_principal_id (te_identity envelope))),
                   (''session_id'', J_String (te_session_id envelope)),
                   (''trace_id'', J_String (te_trace_id envelope)),
                   (''task_id'', J_String (te_task_id envelope)),
                   (''capability_id'', J_String (te_capability_id envelope)),
                   (''tool_name'', J_String tool_name), (''input'', wr_payload request)] \<rparr>))"

section \<open>What is started\<close>

lemma validate_command_spec_Ok [result_simps]:
  "validate_command_spec spec policy = Ok () \<longleftrightarrow>
     \<not> interpreter_style (rc_executable spec) \<and>
     (\<forall>a \<in> set (rc_args spec). \<not> denied_argument policy a)"
  by (auto simp: validate_command_spec_def find_None_iff find_Some_iff split: option.split)

lemma enforce_directory_Ok [result_simps]:
  "enforce_working_directory_policy path policy = Ok () \<longleftrightarrow>
     allowed_directory policy path \<and> \<not> denied_directory policy path"
  by (simp add: enforce_working_directory_policy_def)


text \<open>
  The allow list that \<^verbatim>\<open>sandbox_policy_for\<close> builds always has the entry \<^verbatim>\<open>.\<close>, and the test is
  containment: every directory with a dot anywhere in its path is inside the allow list.
\<close>

lemma allowlist_admits_any_dotted_path:
  assumes "contains (slashes path) ''.''"
  shows "allowed_directory (sandbox_policy_for k tool_name m) path"
proof -
  have "path_pattern ''.'' = ''.''"
    by code_simp
  with assms show ?thesis
    by (auto simp: allowed_directory_def sandbox_policy_for_def intro!: bexI [of _ "''.''"])
qed

text \<open>
  The arguments are searched for the entries of the deny list as they are written, \<^verbatim>\<open>./.git\<close>
  included: the same directory named otherwise passes.
\<close>

lemma denylist_misses_plain_git:
  assumes "mf_risk m \<noteq> Risk_High" "\<not> contains tool_name ''deploy''"
  shows "\<not> denied_argument (sandbox_policy_for k tool_name m) ''.git/config''"
    "denied_argument (sandbox_policy_for k tool_name m) ''./.git/config''"
proof -
  have deny: "sp_filesystem_deny (sandbox_policy_for k tool_name m) = [''./.git'', ''./deploy/secrets'']"
    using assms by (simp add: sandbox_policy_for_def)
  show "\<not> denied_argument (sandbox_policy_for k tool_name m) ''.git/config''"
    "denied_argument (sandbox_policy_for k tool_name m) ''./.git/config''"
    unfolding denied_argument_def deny by code_simp+
qed

end
