(* ===== verification/Prompts.thy ===== *)
theory Prompts
  imports Float32 Contracts Manifest Hooks
begin

text \<open>
  What \<^verbatim>\<open>src/runtime/mod.rs\<close> does with the texts of a task: the messages for a provider (reading them
  from a payload or from a hook's arguments, estimating their tokens, compacting them to a budget,
  the fallback answer), the arguments of a tool, the channel a call belongs to, the hard gate of a
  payload and the recognition of timeouts. A string is its UTF-8 bytes. serde_json at the message
  list is an argument.
\<close>

section \<open>Data\<close>

record ToolCall =
  tc_id :: string
  tc_name :: string
  tc_arguments :: string

record ChatMessage =
  cm_role :: string
  cm_content :: string
  cm_tool_call_id :: "string option"
  cm_tool_calls :: "ToolCall list option"

record LlmResponse =
  lr_content :: "string option"
  lr_tool_calls :: "ToolCall list"

abbreviation plain_message :: "string \<Rightarrow> string \<Rightarrow> ChatMessage" where
  "plain_message role content \<equiv>
     \<lparr> cm_role = role, cm_content = content, cm_tool_call_id = None, cm_tool_calls = None \<rparr>"

record PromptHost =
  ph_parse :: "string \<Rightarrow> string + json"
  ph_text :: "json \<Rightarrow> string"
  ph_messages_text :: "ChatMessage list \<Rightarrow> string"
  ph_read_messages :: "string \<Rightarrow> string + ChatMessage list"
  ph_messages_of :: "json \<Rightarrow> string + ChatMessage list"

section \<open>Characters\<close>

definition char_count :: "string \<Rightarrow> nat" where
  "char_count s = length (filter (\<lambda>c. \<not> cont c) s)"

text \<open>\<^verbatim>\<open>chars().take(n)\<close>: the bytes before the character after the n-th.\<close>

fun take_chars :: "nat \<Rightarrow> string \<Rightarrow> string" where
  "take_chars n [] = []"
| "take_chars n (c # s) =
     (if cont c then c # take_chars n s
      else case n of 0 \<Rightarrow> [] | Suc m \<Rightarrow> c # take_chars m s)"

definition truncate_chars :: "string \<Rightarrow> nat \<Rightarrow> string" where
  "truncate_chars content max_chars =
     (if max_chars = 0 \<or> content = [] then []
      else if char_count content \<le> max_chars then content
      else take_chars max_chars content)"

section \<open>Tokens\<close>

text \<open>
  A \<^verbatim>\<open>usize\<close> as an \<^verbatim>\<open>f32\<close>: the nearest multiple of the last place of its 24 bits, ties to even.
\<close>

definition f32_of_nat :: "nat \<Rightarrow> nat" where
  "f32_of_nat n =
     (let e = (if n < 2 ^ 24 then 0 else length (filter (\<lambda>i. 2 ^ (24 + i) \<le> n) [0..<40]))
      in nat (round_half_even (rat_of_nat n / 2 ^ e)) * 2 ^ e)"

text \<open>The quarter of an \<^verbatim>\<open>f32\<close> is exact, and the cast to \<^verbatim>\<open>u32\<close> saturates.\<close>

definition estimate_tokens :: "ChatMessage list \<Rightarrow> 32 word" where
  "estimate_tokens messages =
     (let total_chars = sum_list (map (\<lambda>m. length (cm_role m) + length (cm_content m)) messages);
          tokens = (f32_of_nat total_chars + 3) div 4
      in if tokens < 2 ^ 32 then word_of_nat tokens else - 1)"

definition summary_line :: "ChatMessage \<Rightarrow> string" where
  "summary_line m =
     cm_role m @ '': '' @ take_chars 96 (str_replace (cm_content m) [CHR 0x0A] '' '')"

definition first_system :: "ChatMessage list \<Rightarrow> ChatMessage option" where
  "first_system messages = find (\<lambda>m. cm_role m = ''system'') messages"

text \<open>The first attempt: a clipped system message, a summary of what is dropped, and the last two.\<close>

definition soft_compaction :: "ChatMessage list \<Rightarrow> nat \<Rightarrow> ChatMessage list" where
  "soft_compaction messages max_chars =
     (let recent_non_system = filter (\<lambda>m. cm_role m \<noteq> ''system'') messages;
          keep_recent = max (min (length recent_non_system) 2) 1;
          split_at = length recent_non_system - keep_recent;
          dropped = take split_at recent_non_system;
          tail = drop split_at recent_non_system
      in (case first_system messages of
            None \<Rightarrow> []
          | Some system \<Rightarrow> [plain_message (cm_role system) (truncate_chars (cm_content system) (max_chars div 4))]) @
         (if dropped = [] then []
          else [plain_message ''assistant''
            (''[BudgetCompactionSummary] preserved most recent messages; prior context summary: '' @
             join '' | '' (map summary_line (take 8 dropped)))]) @
         tail)"

definition latest_user :: "ChatMessage list \<Rightarrow> ChatMessage" where
  "latest_user messages =
     (case find (\<lambda>m. cm_role m = ''user'') (rev messages) of
        Some m \<Rightarrow> m | None \<Rightarrow> plain_message ''user'' ''budget compaction fallback request'')"

definition hard_compaction :: "ChatMessage list \<Rightarrow> nat \<Rightarrow> ChatMessage list" where
  "hard_compaction messages max_chars =
     (case first_system messages of
        None \<Rightarrow> []
      | Some system \<Rightarrow>
          [plain_message ''system'' (truncate_chars (cm_content system) (max_chars * 20 div 100))]) @
     [plain_message ''user'' (truncate_chars (cm_content (latest_user messages)) (max_chars * 75 div 100))]"

definition compact_provider_messages_for_budget :: "ChatMessage list \<Rightarrow> 32 word \<Rightarrow> ChatMessage list" where
  "compact_provider_messages_for_budget messages max_tokens =
     (if messages = [] then []
      else if estimate_tokens messages \<le> max_tokens then messages
      else
        let max_chars = unat max_tokens * 4;
            compacted = soft_compaction messages max_chars
        in if estimate_tokens compacted \<le> max_tokens then compacted
           else
             let hard_compacted = hard_compaction messages max_chars
             in if estimate_tokens hard_compacted \<le> max_tokens then hard_compacted
                else [plain_message ''user''
                        (truncate_chars (cm_content (latest_user messages)) (max_chars * 90 div 100))])"

section \<open>Reading payloads\<close>

definition json_is_object :: "json \<Rightarrow> (string \<times> json) list option" where
  "json_is_object v = (case v of J_Object m \<Rightarrow> Some m | _ \<Rightarrow> None)"

definition extract_provider_messages :: "PromptHost \<Rightarrow> json \<Rightarrow> ChatMessage list" where
  "extract_provider_messages h payload =
     (case Option.bind (Option.bind (json_is_object payload) (\<lambda>m. map_of m ''messages''))
             (\<lambda>v. case ph_messages_of h v of Inl _ \<Rightarrow> None | Inr messages \<Rightarrow> Some messages) of
        Some messages \<Rightarrow> messages
      | None \<Rightarrow>
         (case ph_messages_of h payload of
            Inr messages \<Rightarrow> messages
          | Inl _ \<Rightarrow>
             (case json_as_str payload of
                Some txt \<Rightarrow> [plain_message ''user'' txt]
              | None \<Rightarrow> [plain_message ''user'' (ph_text h payload)])))"

definition parse_hook_prompt_messages :: "PromptHost \<Rightarrow> string \<Rightarrow> ChatMessage list \<Rightarrow> ChatMessage list" where
  "parse_hook_prompt_messages h arguments fallback =
     (if trim arguments = [] then fallback
      else case ph_read_messages h arguments of
        Inr parsed \<Rightarrow> parsed
      | Inl _ \<Rightarrow>
          (let value = (case ph_parse h arguments of Inl _ \<Rightarrow> None | Inr v \<Rightarrow> Some v);
               messages = Option.bind (Option.bind value (\<lambda>v. json_get v ''messages''))
                 (\<lambda>v. case ph_messages_of h v of Inl _ \<Rightarrow> None | Inr ms \<Rightarrow> Some ms)
           in case messages of
                Some parsed \<Rightarrow> parsed
              | None \<Rightarrow>
                 (case Option.bind value json_as_str of
                    Some txt \<Rightarrow> [plain_message ''user'' txt]
                  | None \<Rightarrow>
                      if length arguments < 4096 then [plain_message ''user'' arguments] else fallback)))"

definition extract_tool_arguments :: "PromptHost \<Rightarrow> json \<Rightarrow> string" where
  "extract_tool_arguments h payload =
     (case payload of
        J_String txt \<Rightarrow> txt
      | J_Object m \<Rightarrow>
         (case map_of m ''arguments'' of
            Some (J_String txt) \<Rightarrow> txt
          | Some arguments \<Rightarrow> ph_text h arguments
          | None \<Rightarrow> ph_text h payload)
      | _ \<Rightarrow> ph_text h payload)"

definition fallback_provider_response :: "ChatMessage list \<Rightarrow> string \<Rightarrow> LlmResponse" where
  "fallback_provider_response messages error =
     (let user_text = (case find (\<lambda>m. cm_role m = ''user'') (rev messages) of
                         Some m \<Rightarrow> cm_content m | None \<Rightarrow> ''request'')
      in \<lparr> lr_content = Some
             (''degraded-provider-fallback: temporarily unavailable upstream provider; partial response kept for availability. request='' @
              [CHR 0x22] @ user_text @ [CHR 0x22] @ '' error='' @ [CHR 0x22] @ error @ [CHR 0x22]),
           lr_tool_calls = [] \<rparr>)"

section \<open>Recognition\<close>

definition is_timeout_signal :: "string \<Rightarrow> bool" where
  "is_timeout_signal txt =
     (let lowered = to_ascii_lowercase txt
      in contains lowered ''timeout'' \<or> contains lowered ''timed_out'' \<or>
         contains lowered ''deadline exceeded'' \<or> contains lowered ''sandbox timeout exceeded'')"

definition infer_hook_channel :: "string \<Rightarrow> ForgedMcpToolManifest option \<Rightarrow> string \<Rightarrow> HookChannel" where
  "infer_hook_channel capability_id manifest arguments =
     (let cap = to_ascii_lowercase capability_id; args = to_ascii_lowercase arguments
      in if prefix ''provider:'' cap then Channel_Prompt
         else if prefix ''agent:'' cap \<or> prefix ''agent::'' cap \<or> contains cap ''delegate'' then Channel_Agent
         else if prefix ''http:'' cap \<or> prefix ''http::'' cap \<or> contains cap ''webhook'' \<or>
                 contains args ''https://'' \<or> contains args ''http://'' \<or>
                 (case manifest of None \<Rightarrow> False | Some m \<Rightarrow> contains (to_ascii_lowercase (mf_server m)) ''http'')
         then Channel_Http
         else Channel_Command)"

definition validate_hardgate_requirement :: "json \<Rightarrow> string option" where
  "validate_hardgate_requirement payload =
     (case payload of
        J_Object m \<Rightarrow>
          (if Option.bind (map_of m ''hardgate_required'') json_as_bool \<noteq> Some True then None
           else let token = trim (case Option.bind (map_of m ''hardgate_pass_token'') json_as_str of
                                    Some s \<Rightarrow> s | None \<Rightarrow> [])
                in if token = [] then Some ''hardgate_pass_token missing while hardgate_required=true''
                   else if \<not> prefix ''hgt:'' token then Some ''hardgate_pass_token format invalid''
                   else if length token < 12 then Some ''hardgate_pass_token too short''
                   else None)
      | _ \<Rightarrow> None)"

section \<open>Compaction keeps to the budget\<close>

lemma f32_of_nat_small [simp]: "n < 2 ^ 24 \<Longrightarrow> f32_of_nat n = n"
  using round_half_even_int [of "int n"] by (simp add: f32_of_nat_def)

lemma take_chars_ascii: "list_all is_ascii s \<Longrightarrow> take_chars n s = take n s"
  by (induction n s rule: take_chars.induct)
    (auto simp: is_ascii_def cont_def take_Cons' split: nat.split)

lemma truncate_chars_ascii: "list_all is_ascii s \<Longrightarrow> length (truncate_chars s n) \<le> n"
proof -
  assume s: "list_all is_ascii s"
  then have "filter (\<lambda>c. \<not> cont c) s = s"
    by (auto simp: filter_id_conv list_all_iff is_ascii_def cont_def)
  then show ?thesis using s by (simp add: truncate_chars_def char_count_def take_chars_ascii)
qed

lemma estimate_single:
  assumes "4 + length c \<le> 4 * unat max_tokens" "unat max_tokens \<le> 2 ^ 21"
  shows "estimate_tokens [plain_message ''user'' c] \<le> max_tokens"
proof -
  have "f32_of_nat (4 + length c) = 4 + length c" using assms by (intro f32_of_nat_small) simp
  moreover have "(4 + length c + 3) div 4 \<le> unat max_tokens" using assms(1) by simp
  moreover have "unat (word_of_nat n :: 32 word) = n" if "n < 2 ^ 32" for n
    using that by (simp add: unat_of_nat)
  ultimately show ?thesis
    using assms(2) unsigned_less [of max_tokens]
    by (simp add: estimate_tokens_def Let_def word_le_nat_alt)
qed

lemma find_in_set: "find P xs = Some x \<Longrightarrow> x \<in> set xs"
  by (auto simp: find_Some_iff)

lemma latest_user_ascii:
  assumes "\<forall>m \<in> set messages. list_all is_ascii (cm_content m)"
  shows "list_all is_ascii (cm_content (latest_user messages))"
proof -
  have "m \<in> set messages" if "find P (rev messages) = Some m" for P m
    using find_in_set [OF that] by simp
  then show ?thesis
    using assms by (auto simp: latest_user_def is_ascii_def byte_def split: option.split)
qed

text \<open>
  What is sent: the messages as they are, or a list that ends in the last two messages that are not
  the system's, or one that ends in the latest request of the user, cut to no fewer than three
  characters a token.
\<close>

lemma compaction_shapes:
  fixes messages max_tokens
  defines "out \<equiv> compact_provider_messages_for_budget messages max_tokens"
    and "recent \<equiv> filter (\<lambda>m. cm_role m \<noteq> ''system'') messages"
  shows "out = messages \<or> (\<exists>front. out = front @ drop (length recent - 2) recent) \<or>
    (\<exists>front n. 3 * unat max_tokens \<le> n \<and>
       out = front @ [plain_message ''user'' (truncate_chars (cm_content (latest_user messages)) n)])"
proof -
  have "length recent - max (min (length recent) 2) 1 = length recent - 2"
    by (cases "length recent") (auto simp: min_def)
  then have "\<exists>front. soft_compaction messages n = front @ drop (length recent - 2) recent" for n
    by (simp add: soft_compaction_def Let_def flip: recent_def)
  moreover have "3 * unat max_tokens \<le> unat max_tokens * 4 * 75 div 100"
      "3 * unat max_tokens \<le> unat max_tokens * 4 * 90 div 100" by simp_all
  moreover have "\<exists>front n. 3 * unat max_tokens \<le> n \<and> hard_compaction messages (unat max_tokens * 4) =
      front @ [plain_message ''user'' (truncate_chars (cm_content (latest_user messages)) n)]"
    using calculation(2) unfolding hard_compaction_def by blast
  ultimately show ?thesis
    unfolding out_def compact_provider_messages_for_budget_def Let_def
    by (auto intro: exI [of _ "[]"])
qed

lemma latest_user_last: "messages \<noteq> [] \<Longrightarrow> cm_role (last messages) = ''user'' \<Longrightarrow> latest_user messages = last messages"
  by (cases messages rule: rev_cases) (simp_all add: latest_user_def)

lemma truncate_chars_full: "0 < n \<Longrightarrow> char_count content \<le> n \<Longrightarrow> truncate_chars content n = content"
  by (simp add: truncate_chars_def)

lemma last_recent:
  assumes "messages \<noteq> []" "P (last messages)"
  shows "drop (length (filter P messages) - 2) (filter P messages) \<noteq> []"
    "last (drop (length (filter P messages) - 2) (filter P messages)) = last messages"
proof -
  obtain ms m where "messages = ms @ [m]" using assms(1) by (cases messages rule: rev_cases) auto
  then show "drop (length (filter P messages) - 2) (filter P messages) \<noteq> []"
    "last (drop (length (filter P messages) - 2) (filter P messages)) = last messages"
    using assms(2) by simp_all
qed

lemma compaction_keeps_request:
  assumes "messages \<noteq> []" "cm_role (last messages) = ''user''" "0 < unat max_tokens"
  shows "\<exists>n. 3 * unat max_tokens \<le> n \<and>
    (let out = compact_provider_messages_for_budget messages max_tokens
     in out \<noteq> [] \<and> cm_role (last out) = ''user'' \<and>
        cm_content (last out) = truncate_chars (cm_content (last messages)) n)"
proof -
  let ?out = "compact_provider_messages_for_budget messages max_tokens"
  let ?n = "max (3 * unat max_tokens) (char_count (cm_content (last messages)))"
  have full: "truncate_chars (cm_content (last messages)) ?n = cm_content (last messages)"
    by (rule truncate_chars_full) (use assms(3) in auto)
  note shapes = compaction_shapes [of messages max_tokens]
  from shapes consider "?out \<noteq> [] \<and> last ?out = last messages"
    | front n where "3 * unat max_tokens \<le> n"
        "?out = front @ [plain_message ''user'' (truncate_chars (cm_content (latest_user messages)) n)]"
    using last_recent [where P = "\<lambda>m. cm_role m \<noteq> ''system''", OF assms(1)] assms(1,2) by auto
  then show ?thesis
  proof cases
    case 1
    then show ?thesis using full assms(2) by (intro exI [of _ ?n]) (simp add: Let_def)
  next
    case 2
    then show ?thesis
      using latest_user_last [OF assms(1,2)] by (intro exI [of _ n]) (simp add: Let_def)
  qed
qed

text \<open>
  C28: For texts in ASCII and every budget from 8 to 2097152 tokens, compaction brings the messages
  of a provider call within its token budget: the estimate of what is sent is at most the budget.
  Messages that fit are sent as they are. When the last message is the user's request, the last
  message sent is the user's with its text, whole or cut to no fewer than three characters a token.
\<close>

theorem compaction_fits_budget:
  assumes "\<forall>m \<in> set messages. list_all is_ascii (cm_content m)"
    and "8 \<le> unat max_tokens" "unat max_tokens \<le> 2 ^ 21"
  shows "estimate_tokens (compact_provider_messages_for_budget messages max_tokens) \<le> max_tokens \<and>
     (estimate_tokens messages \<le> max_tokens \<longrightarrow>
        compact_provider_messages_for_budget messages max_tokens = messages) \<and>
     (messages \<noteq> [] \<and> cm_role (last messages) = ''user'' \<longrightarrow>
        (\<exists>n. 3 * unat max_tokens \<le> n \<and>
           (let out = compact_provider_messages_for_budget messages max_tokens
            in out \<noteq> [] \<and> cm_role (last out) = ''user'' \<and>
               cm_content (last out) = truncate_chars (cm_content (last messages)) n)))"
proof -
  have "list_all is_ascii (cm_content (latest_user messages))"
    using assms(1) by (rule latest_user_ascii)
  then have "length (truncate_chars (cm_content (latest_user messages)) (unat max_tokens * 4 * 90 div 100))
      \<le> unat max_tokens * 4 * 90 div 100" by (rule truncate_chars_ascii)
  moreover have "4 + unat max_tokens * 4 * 90 div 100 \<le> 4 * unat max_tokens"
    using assms(2) by simp
  ultimately have "estimate_tokens [plain_message ''user''
      (truncate_chars (cm_content (latest_user messages)) (unat max_tokens * 4 * 90 div 100))] \<le> max_tokens"
    using assms(3) by (intro estimate_single) simp_all
  moreover have "estimate_tokens [] \<le> max_tokens" by (simp add: estimate_tokens_def)
  ultimately have "estimate_tokens (compact_provider_messages_for_budget messages max_tokens) \<le> max_tokens \<and>
     (estimate_tokens messages \<le> max_tokens \<longrightarrow>
        compact_provider_messages_for_budget messages max_tokens = messages)"
    by (auto simp: compact_provider_messages_for_budget_def Let_def)
  moreover have "0 < unat max_tokens" using assms(2) by simp
  ultimately show ?thesis using compaction_keeps_request [of messages max_tokens] by blast
qed

end
