(* ===== verification/Runtime_Execute.thy ===== *)
theory Runtime_Execute
  imports Hooks Degrade Tool_Stack Sandbox Prompts Registry_Safety
begin

text \<open>
  \<^verbatim>\<open>RuntimeKernel::execute\<close> of \<^verbatim>\<open>src/runtime/mod.rs\<close>, the one way a task reaches a provider, a tool or
  a process: its identity, hard gate, degrade profile, budget, hooks and guard, the layered
  execution of its class, and the settlement and records afterwards; and the replay of a snapshot.

  The world is what providers, processes, wasm modules and attestation change; it is an argument
  with the functions that change it. The tool registry writes to the store of the runtime. The rest
  of \<^verbatim>\<open>execute\<close> stands in \<^verbatim>\<open>async\<close> order; the retry loop of a tool may not end, so the result is an
  option. Two names of the kernel of \<open>NoumenonCore\<close> are taken: \<open>runtime_execute\<close> is
  \<^verbatim>\<open>execute\<close>, \<open>undo_charge\<close> the guarded call of \<^verbatim>\<open>rollback_budget\<close>.
\<close>

section \<open>State and host\<close>

datatype ProviderRouteStage = Route_Screening | Route_Reasoning | Route_Judge

fun debug_stage :: "ProviderRouteStage \<Rightarrow> string" where
  "debug_stage Route_Screening = ''Screening''"
| "debug_stage Route_Reasoning = ''Reasoning''"
| "debug_stage Route_Judge = ''Judge''"

record ProviderRouteDecision =
  pd_stage :: ProviderRouteStage
  pd_model :: string
  pd_rationale :: string
  pd_cache_hit :: bool

text \<open>The trace of the adapter, which the runtime does not read, is left out.\<close>

record ProviderChatTrace =
  pt_response :: LlmResponse
  pt_route :: ProviderRouteDecision
  pt_cache_key :: string

record RuntimeExecuteResult =
  xr_content :: string
  xr_guard_report :: RuntimeGuardReport
  xr_provider_response :: "LlmResponse option"
  xr_estimated_prompt_tokens :: "32 word option"

record 'w ExecState = EventState +
  xs_windows :: windows
  xs_tools :: ToolRegistry
  xs_world :: 'w

record 'w ExecHost = DegradeHost +
  xh_env :: env
  xh_codecs :: table_codecs
  xh_circuit :: "CircuitState codec"
  xh_tool :: ToolHost
  xh_sandbox :: "'w SandboxHost"
  xh_prompt :: PromptHost
  xh_hooks :: "HookRule list"
  xh_chat :: "ChatMessage list \<Rightarrow> string option \<Rightarrow> 'w \<Rightarrow> 'w \<times> ProviderChatTrace result"
  xh_default_provider :: string
  xh_preflight :: "TaskEnvelope \<Rightarrow> string option \<Rightarrow> 'w \<Rightarrow> 'w \<times> unit result"
  xh_late :: "64 word \<Rightarrow> nat \<Rightarrow> bool"
  xh_envelope_json :: "TaskEnvelope \<Rightarrow> json"

text \<open>Operations on the store, and on the world, as steps of the state.\<close>

definition on_db ::
    "(KnowledgeTable \<Rightarrow> KnowledgeTable \<times> 'a) \<Rightarrow> 'w ExecState \<Rightarrow> 'w ExecState \<times> 'a" where
  "on_db f st = (case f (es_db st) of (db, r) \<Rightarrow> (st\<lparr> es_db := db \<rparr>, r))"

definition on_world :: "('w \<Rightarrow> 'w \<times> 'a) \<Rightarrow> 'w ExecState \<Rightarrow> 'w ExecState \<times> 'a" where
  "on_world f st = (case f (xs_world st) of (w, r) \<Rightarrow> (st\<lparr> xs_world := w \<rparr>, r))"

definition note_task ::
    "'w ExecHost \<Rightarrow> RuntimeKernel \<Rightarrow> string \<Rightarrow> TaskEnvelope \<Rightarrow> json \<Rightarrow> 'w ExecState \<Rightarrow> 'w ExecState" where
  "note_task h k kind envelope payload st =
     note_event h kind (te_trace_id envelope) (te_session_id envelope) (Some (te_task_id envelope))
       (Some (te_capability_id envelope)) (effective_contract_version k) payload st"

definition identity_json :: "TaskEnvelope \<Rightarrow> (string \<times> json) list" where
  "identity_json envelope =
     [(''tenant_id'', J_String (id_tenant_id (te_identity envelope))),
      (''principal_id'', J_String (id_principal_id (te_identity envelope))),
      (''policy_id'', J_String (id_policy_id (te_identity envelope)))]"

definition lease_json :: "TaskEnvelope \<Rightarrow> (string \<times> json) list" where
  "lease_json envelope = identity_json envelope @ [(''lease_token'', J_String (id_lease_token (te_identity envelope)))]"

definition cost_json :: "CostBreakdown \<Rightarrow> json" where
  "cost_json b =
     J_Object [(''token_cost_micros'', J_Number (cb_token_cost_micros b)),
       (''tool_cost_micros'', J_Number (cb_tool_cost_micros b)),
       (''duration_cost_micros'', J_Number (cb_duration_cost_micros b)),
       (''total_cost_micros'', J_Number (cb_total_cost_micros b))]"

text \<open>A result without an execution.\<close>

definition withheld ::
    "TaskEnvelope \<Rightarrow> GuardDecision \<Rightarrow> string \<Rightarrow> string \<Rightarrow> string \<Rightarrow> RuntimeExecuteResult" where
  "withheld envelope decision reason key content =
     \<lparr> xr_content = content,
       xr_guard_report =
         \<lparr> gr_decision = decision, gr_attempts_allowed = 0,
           gr_timeout_secs = cn_timeout_ms (te_constraints envelope) div 1000, gr_reason = reason,
           gr_breaker_key = key, gr_sandbox_policy = None \<rparr>,
       xr_provider_response = None, xr_estimated_prompt_tokens = None \<rparr>"

section \<open>Hooks of a task\<close>

definition propagation_context :: "TaskEnvelope \<Rightarrow> string option \<Rightarrow> SignalContext" where
  "propagation_context envelope capability_id =
     \<lparr> sc_session_id = te_session_id envelope, sc_trace_id = te_trace_id envelope,
       sc_span_id = Some (''span:'' @ te_trace_id envelope @ '':'' @ te_task_id envelope),
       sc_task_id = Some (te_task_id envelope),
       sc_capability_id =
         Some (case capability_id of None \<Rightarrow> te_capability_id envelope | Some c \<Rightarrow> c),
       sc_tenant_id = Some (id_tenant_id (te_identity envelope)),
       sc_principal_id = Some (id_principal_id (te_identity envelope)) \<rparr>"

definition signal_json :: "SignalContext \<Rightarrow> json" where
  "signal_json c =
     J_Object [(''session_id'', J_String (sc_session_id c)), (''trace_id'', J_String (sc_trace_id c)),
       (''span_id'', json_opt_str (sc_span_id c)), (''task_id'', json_opt_str (sc_task_id c)),
       (''capability_id'', json_opt_str (sc_capability_id c)), (''tenant_id'', json_opt_str (sc_tenant_id c)),
       (''principal_id'', json_opt_str (sc_principal_id c))]"

definition trace_json :: "HookTrace \<Rightarrow> json" where
  "trace_json t =
     J_Object [(''rule_id'', J_String (ht_rule_id t)), (''phase'', J_String (phase_name (ht_phase t))),
       (''channel'', J_String (channel_name (ht_channel t))),
       (''action'', J_String (action_name (ht_action t))), (''reason'', J_String (ht_reason t))]"

definition record_hook_evidence ::
    "'w ExecHost \<Rightarrow> RuntimeKernel \<Rightarrow> TaskEnvelope \<Rightarrow> string \<Rightarrow> HookOutcome \<Rightarrow> 'w ExecState \<Rightarrow> 'w ExecState"
  where
  "record_hook_evidence h k envelope stage outcome st =
     note_task h k ''hook_runtime'' envelope
       (J_Object [(''stage'', J_String stage), (''channel'', J_String (channel_name (hk_channel outcome))),
         (''allowed'', J_Bool (hk_allowed outcome)), (''tool_name'', J_String (hk_tool_name outcome)),
         (''arguments_digest'', J_String (digest_text h (hk_arguments outcome))),
         (''output_digest'', json_opt_str (map_option (digest_text h) (hk_output outcome))),
         (''error'', json_opt_str (hk_error outcome)),
         (''traces'', J_Array (map trace_json (hk_traces outcome))),
         (''signal_context'', signal_json (propagation_context envelope (Some (hk_tool_name outcome))))]) st"

definition apply_stream_hook ::
    "'w ExecHost \<Rightarrow> RuntimeKernel \<Rightarrow> TaskEnvelope \<Rightarrow> HookChannel \<Rightarrow> string \<Rightarrow> string \<Rightarrow> string \<Rightarrow>
     'w ExecState \<Rightarrow> 'w ExecState \<times> HookOutcome" where
  "apply_stream_hook h k envelope channel name arguments output st =
     (let outcome = apply_stream_with_channel (xh_hooks h) channel name arguments output
      in (record_hook_evidence h k envelope ''stream'' outcome st, outcome))"

definition apply_kill_hook ::
    "'w ExecHost \<Rightarrow> RuntimeKernel \<Rightarrow> TaskEnvelope \<Rightarrow> HookChannel \<Rightarrow> string \<Rightarrow> string \<Rightarrow> string \<Rightarrow>
     'w ExecState \<Rightarrow> 'w ExecState \<times> HookOutcome" where
  "apply_kill_hook h k envelope channel name arguments detail st =
     (let outcome = apply_kill_with_channel (xh_hooks h) channel name arguments detail
      in (record_hook_evidence h k envelope ''kill'' outcome st, outcome))"

text \<open>The text of a denial: the kill hook's error, else the denying hook's, else a default.\<close>

definition error_or :: "HookOutcome \<Rightarrow> string \<Rightarrow> string" where
  "error_or outcome otherwise = (case hk_error outcome of None \<Rightarrow> otherwise | Some e \<Rightarrow> e)"

definition killed ::
    "'w ExecHost \<Rightarrow> RuntimeKernel \<Rightarrow> TaskEnvelope \<Rightarrow> HookChannel \<Rightarrow> string \<Rightarrow> string \<Rightarrow> HookOutcome \<Rightarrow> string \<Rightarrow>
     'w ExecState \<Rightarrow> 'w ExecState \<times> string" where
  "killed h k envelope channel name arguments outcome otherwise st =
     (case apply_kill_hook h k envelope channel name arguments (error_or outcome otherwise) st of
        (st, kill_outcome) \<Rightarrow> (st, error_or kill_outcome (error_or outcome otherwise)))"

section \<open>Before anything runs\<close>

definition charge ::
    "'w ExecHost \<Rightarrow> RuntimeKernel \<Rightarrow> TaskEnvelope \<Rightarrow> 32 word \<Rightarrow> 'w ExecState \<Rightarrow>
     'w ExecState \<times> BudgetReservation option result" where
  "charge h k envelope tokens st =
     on_db (\<lambda>db. precharge_budget k (xh_codecs h) db envelope tokens (current_time_ms h st)) (tick st)"

definition settle ::
    "'w ExecHost \<Rightarrow> RuntimeKernel \<Rightarrow> TaskEnvelope \<Rightarrow> BudgetReservation option \<Rightarrow> 32 word \<Rightarrow> 32 word \<Rightarrow>
     64 word \<Rightarrow> CostBreakdown \<Rightarrow> 'w ExecState \<Rightarrow> 'w ExecState \<times> CostBreakdown result" where
  "settle h k envelope reservation tokens calls duration_ms unbilled st =
     (case reservation of
        None \<Rightarrow> (st, Ok unbilled)
      | Some r \<Rightarrow>
          on_db (\<lambda>db. settle_budget k (xh_codecs h) db envelope r tokens calls duration_ms
                        (current_time_ms h st)) (tick st))"

definition undo_charge ::
    "'w ExecHost \<Rightarrow> RuntimeKernel \<Rightarrow> TaskEnvelope \<Rightarrow> BudgetReservation option \<Rightarrow> string \<Rightarrow>
     'w ExecState \<Rightarrow> 'w ExecState \<times> unit result" where
  "undo_charge h k envelope reservation reason st =
     (case reservation of
        None \<Rightarrow> (st, Ok ())
      | Some r \<Rightarrow>
          on_db (\<lambda>db. rollback_budget k (xh_codecs h) db envelope r reason (current_time_ms h st)) (tick st))"

definition hardgate_block ::
    "'w ExecHost \<Rightarrow> RuntimeKernel \<Rightarrow> TaskEnvelope \<Rightarrow> string \<Rightarrow> 'w ExecState \<Rightarrow>
     'w ExecState \<times> RuntimeExecuteResult" where
  "hardgate_block h k envelope reason st =
     (note_task h k ''policy_reject'' envelope
        (J_Object ((''reason'', J_String reason) # identity_json envelope)) st,
      withheld envelope Guard_Blocked reason (''hardgate:'' @ te_capability_id envelope)
        (''Execution blocked by hard gate: '' @ reason))"

text \<open>What a degrade profile in force answers in place of the execution, if anything.\<close>

definition degrade_block :: "TaskEnvelope \<Rightarrow> DegradeProfile \<Rightarrow> RuntimeExecuteResult option" where
  "degrade_block envelope p =
     (let capability_id = te_capability_id envelope; key = ''degrade:'' @ dp_profile_id p
      in if dp_read_only_mode p \<and> \<not> prefix ''provider:'' capability_id
         then Some (withheld envelope Guard_Blocked (''degrade read-only mode active: '' @ dp_reason p) key
                (''runtime is in read-only degrade profile `'' @ dp_profile_id p @
                 ''`; write/mcp execution blocked''))
         else if prefix ''provider:'' capability_id \<and> \<not> dp_allow_provider_calls p
         then Some (withheld envelope Guard_Blocked
                (''degrade profile disabled provider calls: '' @ dp_reason p) key
                (''provider path disabled by degrade profile `'' @ dp_profile_id p @ ''`''))
         else if prefix ''mcp::'' capability_id \<and> \<not> dp_allow_mcp_calls p
         then Some (withheld envelope Guard_RequiresApproval
                (''degrade profile disabled mcp calls: '' @ dp_reason p) key
                (''mcp path disabled by degrade profile `'' @ dp_profile_id p @ ''`; waiting for recovery''))
         else None)"

section \<open>The provider path\<close>

abbreviation task_key :: "string \<Rightarrow> TaskEnvelope \<Rightarrow> string" where
  "task_key actor_id envelope \<equiv> actor_id @ '':'' @ te_capability_id envelope"

text \<open>A denial on the provider path: the kill hook runs, and the reservation is left as it is.\<close>

definition prompt_denied ::
    "'w ExecHost \<Rightarrow> RuntimeKernel \<Rightarrow> string \<Rightarrow> TaskEnvelope \<Rightarrow> string \<Rightarrow> HookOutcome \<Rightarrow> string \<Rightarrow> string \<Rightarrow>
     string \<Rightarrow> 'w ExecState \<Rightarrow> 'w ExecState \<times> RuntimeExecuteResult" where
  "prompt_denied h k actor_id envelope arguments outcome otherwise label reason st =
     (case killed h k envelope Channel_Prompt (te_capability_id envelope) arguments outcome otherwise st of
        (st, txt) \<Rightarrow>
          (st, withheld envelope Guard_Blocked reason (task_key actor_id envelope)
                 (''Execution blocked by '' @ label @ '' hook: '' @ txt)))"

text \<open>The hooks before the call: the result of a denial, or the arguments they leave.\<close>

definition prompt_hooks ::
    "'w ExecHost \<Rightarrow> RuntimeKernel \<Rightarrow> string \<Rightarrow> TaskEnvelope \<Rightarrow> ChatMessage list \<Rightarrow> 'w ExecState \<Rightarrow>
     'w ExecState \<times> (RuntimeExecuteResult + string)" where
  "prompt_hooks h k actor_id envelope initial_messages st =
     (let target = te_capability_id envelope;
          pre_hook = apply_before_with_channel (xh_hooks h) Channel_Prompt target
                       (ph_messages_text (xh_prompt h) initial_messages);
          st = record_hook_evidence h k envelope ''before'' pre_hook st
      in if \<not> hk_allowed pre_hook
         then apsnd Inl (prompt_denied h k actor_id envelope (hk_arguments pre_hook) pre_hook
                ''hook denied pre_tool_use'' ''PreToolUse'' ''prompt hook blocked execution'' st)
         else
           let post_hook = apply_step_with_channel (xh_hooks h) Channel_Prompt target (hk_arguments pre_hook);
               st = record_hook_evidence h k envelope ''step'' post_hook st
           in if \<not> hk_allowed post_hook
              then apsnd Inl (prompt_denied h k actor_id envelope (hk_arguments post_hook) post_hook
                     ''hook denied post_tool_use'' ''PostToolUse'' ''prompt hook blocked execution'' st)
              else (st, Inr (hk_arguments post_hook)))"

text \<open>Fitting the messages to the budget: what is sent, its estimate, and whether it was compacted.\<close>

definition fit_messages ::
    "'w ExecHost \<Rightarrow> RuntimeKernel \<Rightarrow> TaskEnvelope \<Rightarrow> ChatMessage list \<Rightarrow> 'w ExecState \<Rightarrow>
     'w ExecState \<times> ChatMessage list \<times> 32 word \<times> bool" where
  "fit_messages h k envelope messages st =
     (let max_tokens = cn_max_tokens (te_constraints envelope);
          estimated = estimate_tokens messages;
          compacted = compact_provider_messages_for_budget messages max_tokens;
          compacted_tokens = estimate_tokens compacted
      in if max_tokens < estimated \<and> compacted_tokens < estimated
         then (note_task h k ''runtime_budget.compacted'' envelope
                 (J_Object [(''reason'', J_String ''provider token budget preflight compacted messages''),
                   (''original_estimated_tokens'', J_Number (ucast estimated)),
                   (''compacted_estimated_tokens'', J_Number (ucast compacted_tokens)),
                   (''max_tokens'', J_Number (ucast max_tokens))]) st,
               compacted, compacted_tokens, True)
         else (st, messages, estimated, False))"

definition over_token_budget ::
    "'w ExecHost \<Rightarrow> RuntimeKernel \<Rightarrow> TaskEnvelope \<Rightarrow> BudgetReservation option \<Rightarrow> 32 word \<Rightarrow> bool \<Rightarrow>
     'w ExecState \<Rightarrow> 'w ExecState \<times> RuntimeExecuteResult result" where
  "over_token_budget h k envelope reservation estimated compaction st =
     then_do (undo_charge h k envelope reservation ''provider_token_budget_exceeded'' st) (\<lambda>st _.
       (note_task h k ''runtime_blocks'' envelope
          (J_Object ([(''reason'', J_String ''provider token budget exceeded''),
             (''estimated_prompt_tokens'', J_Number (ucast estimated)),
             (''max_tokens'', J_Number (ucast (cn_max_tokens (te_constraints envelope)))),
             (''budget_compaction_applied'', J_Bool compaction)] @ lease_json envelope)) st,
        Err (''provider token budget exceeded: estimated='' @ show_word estimated @ '' max='' @
             show_word (cn_max_tokens (te_constraints envelope)))))"

text \<open>The provider refused: a degrade profile, a recovery plan, a roll-back and a fallback answer.\<close>

definition provider_failed ::
    "'w ExecHost \<Rightarrow> RuntimeKernel \<Rightarrow> TaskEnvelope \<Rightarrow> BudgetReservation option \<Rightarrow> string \<Rightarrow>
     ChatMessage list \<Rightarrow> 32 word \<Rightarrow> string \<Rightarrow> 'w ExecState \<Rightarrow> 'w ExecState \<times> RuntimeExecuteResult result"
  where
  "provider_failed h k envelope reservation arguments messages estimated error st =
     (let target = te_capability_id envelope; session = te_session_id envelope;
          on_error = apply_throws_with_channel (xh_hooks h) Channel_Prompt target arguments error;
          st = record_hook_evidence h k envelope ''throws'' on_error st;
          error_text = error_or on_error error;
          st = (if is_timeout_signal error_text
                then record_hook_evidence h k envelope ''timeout''
                       (apply_timeout_with_channel (xh_hooks h) Channel_Prompt target arguments error_text) st
                else st);
          st = fst (apply_degrade_profile h k session (te_trace_id envelope) Degrade_ProviderFallback
                      (''provider unavailable: '' @ error_text) st);
          st = fst (build_recovery_plan h k session (te_trace_id envelope) Degrade_ProviderFallback st);
          fallback = fallback_provider_response messages error_text
      in then_do (undo_charge h k envelope reservation ''provider_execution_error'' st) (\<lambda>st _.
           (fst (apply_kill_hook h k envelope Channel_Prompt target arguments error_text st),
            Ok \<lparr> xr_content = (case lr_content fallback of None \<Rightarrow> ''provider degraded fallback response''
                               | Some c \<Rightarrow> c),
                 xr_guard_report =
                   \<lparr> gr_decision = Guard_Allow, gr_attempts_allowed = 1,
                     gr_timeout_secs = cn_timeout_ms (te_constraints envelope) div 1000,
                     gr_reason = ''provider degraded to fallback mode'',
                     gr_breaker_key = ''degrade:provider:'' @ session, gr_sandbox_policy = None \<rparr>,
                 xr_provider_response = Some fallback, xr_estimated_prompt_tokens = Some estimated \<rparr>)))"


text \<open>
  The hooks on an answer: the stream hook, the timeout hook when the answer looks like one, and the
  return hook. Each may deny; the first and the last may rewrite. \<open>answer_denied\<close> keeps the response.
\<close>

definition answer_denied ::
    "'w ExecHost \<Rightarrow> RuntimeKernel \<Rightarrow> string \<Rightarrow> TaskEnvelope \<Rightarrow> string \<Rightarrow> LlmResponse \<Rightarrow> 32 word \<Rightarrow>
     HookOutcome \<Rightarrow> string \<Rightarrow> string \<Rightarrow> string \<Rightarrow> 'w ExecState \<Rightarrow>
     'w ExecState \<times> (RuntimeExecuteResult + string)" where
  "answer_denied h k actor_id envelope arguments response estimated outcome otherwise label reason st =
     apsnd (\<lambda>r. Inl (r\<lparr> xr_provider_response := Some response,
                        xr_estimated_prompt_tokens := Some estimated \<rparr>))
       (prompt_denied h k actor_id envelope arguments outcome otherwise label reason st)"

definition provider_return ::
    "'w ExecHost \<Rightarrow> RuntimeKernel \<Rightarrow> string \<Rightarrow> TaskEnvelope \<Rightarrow> string \<Rightarrow> LlmResponse \<Rightarrow> 32 word \<Rightarrow> string \<Rightarrow>
     'w ExecState \<Rightarrow> 'w ExecState \<times> (RuntimeExecuteResult + string)" where
  "provider_return h k actor_id envelope arguments response estimated content st =
     (let on_result = apply_return_with_channel (xh_hooks h) Channel_Prompt (te_capability_id envelope)
                        arguments content;
          st = record_hook_evidence h k envelope ''return'' on_result st
      in if \<not> hk_allowed on_result
         then answer_denied h k actor_id envelope arguments response estimated on_result
                ''hook denied on_result'' ''OnResult'' ''prompt on_result hook blocked execution'' st
         else (st, Inr (case hk_output on_result of None \<Rightarrow> content | Some rewritten \<Rightarrow> rewritten)))"

definition provider_answer ::
    "'w ExecHost \<Rightarrow> RuntimeKernel \<Rightarrow> string \<Rightarrow> TaskEnvelope \<Rightarrow> string \<Rightarrow> LlmResponse \<Rightarrow> 32 word \<Rightarrow>
     'w ExecState \<Rightarrow> 'w ExecState \<times> (RuntimeExecuteResult + string)" where
  "provider_answer h k actor_id envelope arguments response estimated st =
     (let target = te_capability_id envelope;
          content = (case lr_content response of None \<Rightarrow> [] | Some c \<Rightarrow> c)
      in case apply_stream_hook h k envelope Channel_Prompt target arguments content st of (st, on_stream) \<Rightarrow>
         if \<not> hk_allowed on_stream
         then answer_denied h k actor_id envelope arguments response estimated on_stream
                ''hook denied stream'' ''Stream'' ''prompt stream hook blocked execution'' st
         else
           let content = (case hk_output on_stream of None \<Rightarrow> content | Some streamed \<Rightarrow> streamed)
           in if \<not> is_timeout_signal content
              then provider_return h k actor_id envelope arguments response estimated content st
              else
                let on_timeout = apply_timeout_with_channel (xh_hooks h) Channel_Prompt target arguments content;
                    st = record_hook_evidence h k envelope ''timeout'' on_timeout st
                in if \<not> hk_allowed on_timeout
                   then answer_denied h k actor_id envelope arguments response estimated on_timeout
                          ''hook denied timeout'' ''Timeout'' ''prompt timeout hook blocked execution'' st
                   else provider_return h k actor_id envelope arguments response estimated content st)"

section \<open>The snapshot of an execution\<close>

abbreviation boundary_fields :: "string list" where
  "boundary_fields \<equiv>
     [''session_id'', ''trace_id'', ''task_id'', ''capability_id'', ''payload'', ''constraints'']"

definition siphash_digest :: "'w ExecHost \<Rightarrow> string \<Rightarrow> string \<Rightarrow> ArtifactDigest" where
  "siphash_digest h name digest =
     \<lparr> ad_name = name, ad_algorithm = ''siphash64'', ad_digest = digest \<rparr>"

definition record_replay_snapshot ::
    "'w ExecHost \<Rightarrow> RuntimeKernel \<Rightarrow> string \<Rightarrow> TaskEnvelope \<Rightarrow> string option \<Rightarrow> string option \<Rightarrow> string \<Rightarrow>
     json \<Rightarrow> string \<Rightarrow> ArtifactDigest list \<Rightarrow> DeterminismBoundary \<Rightarrow> SeedRecord option \<Rightarrow>
     'w ExecState \<Rightarrow> 'w ExecState \<times> unit result" where
  "record_replay_snapshot h k actor_id envelope preferred_model route_model surface parameters
       output_content artifacts boundary seed st =
     then_do (persist_replay_snapshot h
         \<lparr> rs_snapshot_id = [], rs_session_id = te_session_id envelope, rs_trace_id = te_trace_id envelope,
           rs_task_id = te_task_id envelope, rs_capability_id = te_capability_id envelope,
           rs_actor_id = actor_id, rs_preferred_model = preferred_model, rs_route_model = route_model,
           rs_input_digest = digest_value h (te_payload envelope),
           rs_parameters_digest = digest_value h parameters, rs_output_digest = digest_text h output_content,
           rs_artifacts = artifacts, rs_boundary = boundary, rs_seed = seed,
           rs_replay_input =
             J_Object [(''actor_id'', J_String actor_id), (''preferred_model'', json_opt_str preferred_model),
               (''execution_surface'', J_String surface), (''envelope'', xh_envelope_json h envelope)],
           rs_created_at_ms = 0 \<rparr> st) (\<lambda>st persisted.
       (note_task h k ''replay_snapshots'' envelope
          (J_Object [(''snapshot_id'', J_String (rs_snapshot_id persisted)),
            (''input_digest'', J_String (rs_input_digest persisted)),
            (''output_digest'', J_String (rs_output_digest persisted)),
            (''boundary_mode'', J_String (db_mode (rs_boundary persisted)))]) st,
        Ok ()))"

text \<open>The answer is billed, logged and kept for replay.\<close>

definition provider_settle ::
    "'w ExecHost \<Rightarrow> RuntimeKernel \<Rightarrow> string \<Rightarrow> TaskEnvelope \<Rightarrow> string option \<Rightarrow> BudgetReservation option \<Rightarrow>
     64 word \<Rightarrow> ChatMessage list \<Rightarrow> 32 word \<Rightarrow> ProviderChatTrace \<Rightarrow> string \<Rightarrow> 'w ExecState \<Rightarrow>
     'w ExecState \<times> RuntimeExecuteResult result" where
  "provider_settle h k actor_id envelope preferred_model reservation started_at_ms messages estimated
       traced content st =
     (let duration_ms = saturating_sub (current_time_ms h st) started_at_ms; st = tick st
      in then_do (settle h k envelope reservation estimated 0 duration_ms
                    (cost_breakdown estimated 0 duration_ms) st) (\<lambda>st costs.
       let route = pt_route traced;
           st = note_task h k ''task_runs'' envelope
             (J_Object ([(''estimated_prompt_tokens'', J_Number (ucast estimated)),
                (''preferred_model'', json_opt_str preferred_model),
                (''route_model'', J_String (pd_model route)),
                (''route_stage'', J_String (debug_stage (pd_stage route))),
                (''route_cache_hit'', J_Bool (pd_cache_hit route))] @ lease_json envelope @
                [(''cost_breakdown'', cost_json costs)])) st;
           st = fst (record_replay_snapshot h k actor_id envelope preferred_model (Some (pd_model route))
             ''provider'' (te_payload envelope) content
             [siphash_digest h ''provider_input'' (digest_text h (ph_messages_text (xh_prompt h) messages)),
              siphash_digest h ''provider_output'' (digest_text h content)]
             \<lparr> db_mode = ''best_effort'', db_locked_fields = boundary_fields @ [''preferred_model''],
               db_non_deterministic_steps = [''provider_response_generation''],
               db_external_dependencies = [xh_default_provider h] \<rparr>
             (Some \<lparr> sd_seed_key = ''provider_route'', sd_seed_value = pd_model route,
                     sd_source = ''providers.route_for_messages'' \<rparr>) st)
       in (st, Ok \<lparr> xr_content = content,
            xr_guard_report =
              \<lparr> gr_decision = Guard_Allow, gr_attempts_allowed = 1,
                gr_timeout_secs = cn_timeout_ms (te_constraints envelope) div 1000,
                gr_reason = ''provider execution allowed'', gr_breaker_key = task_key actor_id envelope,
                gr_sandbox_policy = None \<rparr>,
            xr_provider_response = Some (pt_response traced),
            xr_estimated_prompt_tokens = Some estimated \<rparr>)))"

definition provider_call ::
    "'w ExecHost \<Rightarrow> RuntimeKernel \<Rightarrow> string \<Rightarrow> TaskEnvelope \<Rightarrow> string option \<Rightarrow> BudgetReservation option \<Rightarrow>
     64 word \<Rightarrow> string \<Rightarrow> ChatMessage list \<Rightarrow> 32 word \<Rightarrow> 'w ExecState \<Rightarrow>
     'w ExecState \<times> RuntimeExecuteResult result" where
  "provider_call h k actor_id envelope preferred_model reservation started_at_ms arguments messages
       estimated st =
     (case on_world (xh_chat h messages preferred_model) st of
        (st, Inl (Anyhow error)) \<Rightarrow>
          provider_failed h k envelope reservation arguments messages estimated error st
      | (st, Inl Panicked) \<Rightarrow> (st, Inl Panicked)
      | (st, Inr traced) \<Rightarrow>
          (case provider_answer h k actor_id envelope arguments (pt_response traced) estimated st of
             (st, Inl denied) \<Rightarrow> (st, Ok denied)
           | (st, Inr content) \<Rightarrow>
               provider_settle h k actor_id envelope preferred_model reservation started_at_ms messages
                 estimated traced content st))"

definition provider_path ::
    "'w ExecHost \<Rightarrow> RuntimeKernel \<Rightarrow> string \<Rightarrow> TaskEnvelope \<Rightarrow> string option \<Rightarrow> BudgetReservation option \<Rightarrow>
     64 word \<Rightarrow> ChatMessage list \<Rightarrow> 'w ExecState \<Rightarrow> 'w ExecState \<times> RuntimeExecuteResult result" where
  "provider_path h k actor_id envelope preferred_model reservation started_at_ms initial_messages st =
     (case prompt_hooks h k actor_id envelope initial_messages st of
        (st, Inl denied) \<Rightarrow> (st, Ok denied)
      | (st, Inr arguments) \<Rightarrow>
          (case fit_messages h k envelope
                  (parse_hook_prompt_messages (xh_prompt h) arguments initial_messages) st of
             (st, messages, estimated, compaction) \<Rightarrow>
               if cn_max_tokens (te_constraints envelope) < estimated
               then over_token_budget h k envelope reservation estimated compaction st
               else provider_call h k actor_id envelope preferred_model reservation started_at_ms
                      arguments messages estimated st))"


section \<open>The tool path: reaching a decision\<close>

definition window_refused ::
    "'w ExecHost \<Rightarrow> RuntimeKernel \<Rightarrow> TaskEnvelope \<Rightarrow> string \<Rightarrow> 'w ExecState \<Rightarrow>
     'w ExecState \<times> RuntimeExecuteResult" where
  "window_refused h k envelope reason st =
     (note_task h k ''runtime_blocks'' envelope
        (J_Object ((''reason'', J_String reason) # identity_json envelope @
           [(''parallel_limit'', J_Number (max_parallel_tool_window k))])) st,
      withheld envelope Guard_Blocked reason (''parallel-budget:'' @ te_session_id envelope)
        (''Execution blocked by runtime guard: '' @ reason))"

text \<open>Four clock readings are set aside for the guard.\<close>

definition run_guard ::
    "'w ExecHost \<Rightarrow> RuntimeKernel \<Rightarrow> string \<Rightarrow> TaskEnvelope \<Rightarrow> ForgedMcpToolManifest option \<Rightarrow>
     'w ExecState \<Rightarrow> 'w ExecState \<times> RuntimeGuardReport" where
  "run_guard h k actor_id envelope manifest st =
     (let clock = \<lparr> gc_diff_ms = current_time_ms h st, gc_now_ms = current_time_ms h (tick st),
                    gc_tool_ms = current_time_ms h (tick (tick st)),
                    gc_server_ms = current_time_ms h (tick (tick (tick st))) \<rparr>
      in on_db (\<lambda>db. guard_tool_execution_with_state k (xh_env h) (dh_json h) (xh_circuit h) clock db
                       actor_id (te_capability_id envelope) manifest)
           (tick (tick (tick (tick st)))))"

record ToolDecision =
  td_channel :: HookChannel
  td_arguments :: string
  td_original :: GuardDecision
  td_guard :: RuntimeGuardReport

definition decide_tool ::
    "'w ExecHost \<Rightarrow> RuntimeKernel \<Rightarrow> string \<Rightarrow> TaskEnvelope \<Rightarrow> ForgedMcpToolManifest option \<Rightarrow>
     'w ExecState \<Rightarrow> 'w ExecState \<times> ToolDecision" where
  "decide_tool h k actor_id envelope manifest st =
     (let name = te_capability_id envelope;
          raw_arguments = extract_tool_arguments (xh_prompt h) (te_payload envelope);
          channel = infer_hook_channel name manifest raw_arguments;
          pre_hook = apply_before_with_channel (xh_hooks h) channel name raw_arguments;
          st = record_hook_evidence h k envelope ''before'' pre_hook st
      in case run_guard h k actor_id envelope manifest st of (st, report) \<Rightarrow>
         let guard = gate_decision k envelope (hk_allowed pre_hook) (hk_error pre_hook) report;
             st = (if contains (gr_reason guard) ''permission mode''
                   then note_task h k ''policy_reject'' envelope
                          (J_Object ([(''reason'', J_String (gr_reason guard)),
                             (''decision'', J_String (debug_guard (gr_decision guard)))] @
                             identity_json envelope)) st
                   else st)
         in (st, \<lparr> td_channel = channel, td_arguments = hk_arguments pre_hook,
                   td_original = gr_decision (approval_checked envelope
                     (hook_checked (hk_allowed pre_hook) (hk_error pre_hook) report)),
                   td_guard = guard \<rparr>))"

section \<open>The tool path: running\<close>

definition trusted_high_risk_preflight ::
    "'w ExecHost \<Rightarrow> RuntimeKernel \<Rightarrow> TaskEnvelope \<Rightarrow> string option \<Rightarrow> 'w ExecState \<Rightarrow>
     'w ExecState \<times> unit result" where
  "trusted_high_risk_preflight h k envelope preferred_model st =
     (let policy_mode = effective_policy_mode k (xh_env h)
      in if policy_mode = Policy_Off then (st, Ok ())
         else case on_world (xh_preflight h envelope preferred_model) st of
           (st, Inr _) \<Rightarrow> (st, Ok ())
         | (st, Inl Panicked) \<Rightarrow> (st, Inl Panicked)
         | (st, Inl (Anyhow reason)) \<Rightarrow>
             if policy_mode = Policy_Enforced
             then (note_task h k ''policy_reject'' envelope
                     (J_Object ([(''reason'', J_String reason),
                        (''runtime_class'', J_String ''trusted_high_risk''),
                        (''policy_mode'', J_String ''enforced'')] @ identity_json envelope)) st,
                   Err (''trusted_high_risk_preflight_failed: '' @ reason))
             else (note_task h k ''trusted_high_risk_shadow_diff'' envelope
                     (J_Object ([(''reason'', J_String reason),
                        (''runtime_class'', J_String ''trusted_high_risk''),
                        (''policy_mode'', J_String ''shadow''), (''old_decision'', J_String ''allow''),
                        (''new_decision'', J_String ''blocked'')] @ identity_json envelope)) st,
                   Ok ()))"

definition tool_reliability_policy_for ::
    "RuntimeKernel \<Rightarrow> env \<Rightarrow> RuntimeClass \<Rightarrow> string \<Rightarrow> RuntimeGuardReport \<Rightarrow> ForgedMcpToolManifest option \<Rightarrow>
     ToolReliabilityPolicy" where
  "tool_reliability_policy_for k env runtime_class capability_id guard manifest =
     (let max_retries = saturating_sub (gr_attempts_allowed guard) 1;
          is_mcp = prefix ''mcp::'' capability_id \<or>
            (case manifest of None \<Rightarrow> False | Some m \<Rightarrow> trim (mf_server m) \<noteq> []);
          threshold = (if is_mcp then mp_mcp_breaker_failure_threshold (rk_mcp k)
                       else mp_tool_breaker_failure_threshold (rk_mcp k))
      in \<lparr> tp_timeout_ms = max (saturating_mul (gr_timeout_secs guard) 1000) 1000,
           tp_max_retries = max_retries, tp_retry_backoff_ms = (if max_retries = 0 then 0 else 120),
           tp_circuit_failure_threshold = ucast (max threshold 1),
           tp_degrade_strategy =
             (if runtime_class = Class_ToolNative \<and> effective_policy_mode k env \<noteq> Policy_Enforced \<and> \<not> is_mcp
              then Strategy_BestEffortFallback else Strategy_Off) \<rparr>)"

text \<open>The registry works on the store of the runtime.\<close>

definition with_store :: "KnowledgeTable \<Rightarrow> ToolRegistry \<Rightarrow> ToolRegistry" where
  "with_store db reg = reg\<lparr> tg_state_store := map_option (\<lambda>_. db) (tg_state_store reg) \<rparr>"

definition run_registered ::
    "'w ExecHost \<Rightarrow> string \<Rightarrow> string \<Rightarrow> 'w ExecState \<Rightarrow> 'w ExecState \<times> string result" where
  "run_registered h name arguments st =
     (case execute_tool (xh_tool h) (current_time_ms h st) name arguments (with_store (es_db st) (xs_tools st)) of
        (reg, r) \<Rightarrow>
          ((tick st)\<lparr> es_db := (case tg_state_store reg of None \<Rightarrow> es_db st | Some db \<Rightarrow> db), xs_tools := reg \<rparr>,
           and_then r (\<lambda>result. Ok (tr_content result))))"

definition run_wasm ::
    "'w ExecHost \<Rightarrow> WasmSandboxPlan \<Rightarrow> 'w ExecState \<Rightarrow> 'w ExecState \<times> string result" where
  "run_wasm h plan st =
     then_do (on_world (sh_wasm (xh_sandbox h) plan) st)
       (\<lambda>st executed. (st, Ok (sh_wasm_text (xh_sandbox h) executed)))"

definition constrained_policy ::
    "RuntimeKernel \<Rightarrow> TaskEnvelope \<Rightarrow> ForgedMcpToolManifest \<Rightarrow> SandboxPolicy" where
  "constrained_policy k envelope m =
     (let policy = sandbox_policy_for k (te_capability_id envelope) m; cs = te_constraints envelope;
          policy = policy\<lparr> sp_cpu_budget_ms := cn_timeout_ms cs, sp_memory_budget_mb := cn_max_memory_mb cs \<rparr>;
          policy = (if cn_io_allow_paths cs = [] then policy
                    else policy\<lparr> sp_filesystem_allow := cn_io_allow_paths cs \<rparr>)
      in if cn_io_deny_paths cs = [] then policy else policy\<lparr> sp_filesystem_deny := cn_io_deny_paths cs \<rparr>)"

definition resolved_policy ::
    "RuntimeKernel \<Rightarrow> TaskEnvelope \<Rightarrow> RuntimeClass \<Rightarrow> ForgedMcpToolManifest option \<Rightarrow> SandboxPolicy option"
  where
  "resolved_policy k envelope runtime_class manifest =
     (if runtime_class = Class_ToolSandboxed then map_option (constrained_policy k envelope) manifest else None)"

text \<open>One attempt: what the class of the task runs, and whether its deadline has passed by then.\<close>

definition run_class ::
    "'w ExecHost \<Rightarrow> RuntimeKernel \<Rightarrow> TaskEnvelope \<Rightarrow> RuntimeClass \<Rightarrow> ForgedMcpToolManifest option \<Rightarrow> string \<Rightarrow>
     'w ExecState \<Rightarrow> 'w ExecState \<times> string result" where
  "run_class h k envelope runtime_class manifest arguments st =
     (let name = te_capability_id envelope;
          plan = resolve_wasm_sandbox_plan (xh_sandbox h) (xs_world st) arguments envelope name
      in case runtime_class of
           Class_Provider \<Rightarrow> (st, Err ''provider runtime class must not use tool execution path'')
         | Class_ToolNative \<Rightarrow> run_registered h name arguments st
         | Class_TrustedHighRisk \<Rightarrow>
             (case plan of
                Inl e \<Rightarrow> (st, Inl e)
              | Inr (Some plan) \<Rightarrow> run_wasm h plan st
              | Inr None \<Rightarrow> run_registered h name arguments st)
         | Class_ToolSandboxed \<Rightarrow>
             (case plan of
                Inl e \<Rightarrow> (st, Inl e)
              | Inr (Some plan) \<Rightarrow> run_wasm h plan st
              | Inr None \<Rightarrow>
                 (case manifest of
                    None \<Rightarrow> run_registered h name arguments st
                  | Some m \<Rightarrow>
                      then_do (on_world (execute_sandboxed_manifest (xh_sandbox h) m arguments
                          (constrained_policy k envelope m)) st)
                        (\<lambda>st executed. (st, Ok (sh_sandboxed_text (xh_sandbox h) executed))))))"

definition run_attempt ::
    "'w ExecHost \<Rightarrow> RuntimeKernel \<Rightarrow> TaskEnvelope \<Rightarrow> RuntimeClass \<Rightarrow> ForgedMcpToolManifest option \<Rightarrow> string \<Rightarrow>
     64 word \<Rightarrow> 'w ExecState \<Rightarrow> 'w ExecState \<times> attempt" where
  "run_attempt h k envelope runtime_class manifest arguments timeout_ms st =
     (case run_class h k envelope runtime_class manifest arguments st of
        (st, r) \<Rightarrow>
          (st, if r \<noteq> Inl Panicked \<and> xh_late h timeout_ms (es_ticks st) then Deadline_Passed else Finished r))"

fun class_label :: "RuntimeClass \<Rightarrow> string" where
  "class_label Class_Provider = ''provider''"
| "class_label Class_ToolNative = ''toolnative''"
| "class_label Class_ToolSandboxed = ''toolsandboxed''"
| "class_label Class_TrustedHighRisk = ''trustedhighrisk''"

definition execute_classified_tool_path ::
    "'w ExecHost \<Rightarrow> RuntimeKernel \<Rightarrow> TaskEnvelope \<Rightarrow> RuntimeClass \<Rightarrow> ForgedMcpToolManifest option \<Rightarrow> string \<Rightarrow>
     RuntimeGuardReport \<Rightarrow> 'w ExecState \<Rightarrow> ('w ExecState \<times> (string \<times> SandboxPolicy option) result) option"
  where
  "execute_classified_tool_path h k envelope runtime_class manifest arguments guard st =
     (let name = te_capability_id envelope; signal = propagation_context envelope (Some name);
          policy = tool_reliability_policy_for k (xh_env h) runtime_class name guard manifest
      in map_option (\<lambda>layered. then_do layered (\<lambda>st result.
           (note_task h k ''tool_execution_stack'' envelope
              (J_Object [(''tool_name'', J_String name),
                (''runtime_class'', J_String (class_label runtime_class)),
                (''persisted_ref'', J_String (tx_persisted_ref result)),
                (''observations'', J_Array (map observation_json (tx_observations result))),
                (''reliability'', report_json (tx_reliability result)),
                (''signal_context'', signal_json signal)]) st,
            Ok (tx_content result,
                case gr_sandbox_policy guard of
                  Some p \<Rightarrow> Some p | None \<Rightarrow> resolved_policy k envelope runtime_class manifest))))
         (run_layered_tool_execution h (dh_json h) signal name policy
            (run_attempt h k envelope runtime_class manifest arguments) st))"


text \<open>An allowed tool: the step hook, the execution, the stream hook.\<close>

record ToolTurn =
  tt_guard :: RuntimeGuardReport
  tt_arguments :: string
  tt_content :: "string result"

definition stream_tool ::
    "'w ExecHost \<Rightarrow> RuntimeKernel \<Rightarrow> TaskEnvelope \<Rightarrow> HookChannel \<Rightarrow> RuntimeGuardReport \<Rightarrow> string \<Rightarrow>
     string \<times> SandboxPolicy option \<Rightarrow> 'w ExecState \<Rightarrow> 'w ExecState \<times> ToolTurn" where
  "stream_tool h k envelope channel guard arguments classified st =
     (let name = te_capability_id envelope;
          guard = (if gr_sandbox_policy guard = None
                   then guard\<lparr> gr_sandbox_policy := snd classified \<rparr> else guard)
      in case apply_stream_hook h k envelope channel name arguments (fst classified) st of (st, stream) \<Rightarrow>
         if \<not> hk_allowed stream
         then (fst (apply_kill_hook h k envelope channel name arguments
                 (error_or stream ''hook denied stream'') st),
               \<lparr> tt_guard = guard, tt_arguments = arguments,
                 tt_content = Err (error_or stream ''hook denied stream'') \<rparr>)
         else (st, \<lparr> tt_guard = guard, tt_arguments = arguments,
                     tt_content = Ok (case hk_output stream of None \<Rightarrow> fst classified | Some t \<Rightarrow> t) \<rparr>))"

definition step_and_run ::
    "'w ExecHost \<Rightarrow> RuntimeKernel \<Rightarrow> TaskEnvelope \<Rightarrow> RuntimeClass \<Rightarrow> ForgedMcpToolManifest option \<Rightarrow>
     ToolDecision \<Rightarrow> 'w ExecState \<Rightarrow> ('w ExecState \<times> ToolTurn) option" where
  "step_and_run h k envelope runtime_class manifest d st =
     (let name = te_capability_id envelope; channel = td_channel d; guard = td_guard d;
          post_hook = apply_step_with_channel (xh_hooks h) channel name (td_arguments d);
          st = record_hook_evidence h k envelope ''step'' post_hook st;
          arguments = hk_arguments post_hook
      in if \<not> hk_allowed post_hook
         then Some (st, \<lparr> tt_guard = guard, tt_arguments = td_arguments d,
                          tt_content = Err (error_or post_hook ''hook denied post_tool_use'') \<rparr>)
         else map_option (\<lambda>(st, classified).
           (case classified of
              Inl e \<Rightarrow> (st, \<lparr> tt_guard = guard, tt_arguments = arguments, tt_content = Inl e \<rparr>)
            | Inr classified \<Rightarrow> stream_tool h k envelope channel guard arguments classified st))
           (execute_classified_tool_path h k envelope runtime_class manifest arguments guard st))"

definition act_on_decision ::
    "'w ExecHost \<Rightarrow> RuntimeKernel \<Rightarrow> TaskEnvelope \<Rightarrow> string option \<Rightarrow> RuntimeClass \<Rightarrow>
     ForgedMcpToolManifest option \<Rightarrow> ToolDecision \<Rightarrow> 'w ExecState \<Rightarrow> ('w ExecState \<times> ToolTurn) option" where
  "act_on_decision h k envelope preferred_model runtime_class manifest d st =
     (let name = te_capability_id envelope; guard = td_guard d;
          turn = (\<lambda>guard content. \<lparr> tt_guard = guard, tt_arguments = td_arguments d, tt_content = content \<rparr>)
      in case gr_decision guard of
           Guard_Blocked \<Rightarrow>
             (case apply_kill_hook h k envelope (td_channel d) name (td_arguments d) (gr_reason guard) st of
                (st, kill) \<Rightarrow>
                  Some (st, turn guard (Ok (''Execution blocked by runtime guard: '' @
                          error_or kill (gr_reason guard)))))
         | Guard_RequiresApproval \<Rightarrow>
             Some (st, turn guard (Ok (''Execution requires approval before running '' @ name @ '': '' @
                     gr_reason guard)))
         | Guard_Allow \<Rightarrow>
             if runtime_class = Class_TrustedHighRisk
             then (case trusted_high_risk_preflight h k envelope preferred_model st of
                     (st, Inl Panicked) \<Rightarrow> Some (st, turn guard (Inl Panicked))
                   | (st, Inl (Anyhow error)) \<Rightarrow>
                       (let reason = ''trusted high-risk preflight rejected execution: '' @ error
                        in Some (st, turn (guard\<lparr> gr_decision := Guard_Blocked, gr_attempts_allowed := 0,
                                                  gr_reason := reason \<rparr>)
                                   (Ok (''Execution blocked by runtime guard: '' @ reason))))
                   | (st, Inr _) \<Rightarrow> step_and_run h k envelope runtime_class manifest d st)
             else step_and_run h k envelope runtime_class manifest d st)"

section \<open>The tool path: afterwards\<close>

text \<open>The execution failed: an mcp tool puts a degrade profile in force, every other error is returned.\<close>

definition mcp_failed ::
    "'w ExecHost \<Rightarrow> RuntimeKernel \<Rightarrow> TaskEnvelope \<Rightarrow> BudgetReservation option \<Rightarrow> HookChannel \<Rightarrow> string \<Rightarrow>
     string \<Rightarrow> 'w ExecState \<Rightarrow> 'w ExecState \<times> RuntimeExecuteResult result" where
  "mcp_failed h k envelope reservation channel arguments error_text st =
     (let session = te_session_id envelope;
          st = fst (apply_degrade_profile h k session (te_trace_id envelope) Degrade_McpConservative
                      (''mcp execution failed: '' @ error_text) st);
          st = fst (build_recovery_plan h k session (te_trace_id envelope) Degrade_McpConservative st)
      in then_do (undo_charge h k envelope reservation ''mcp_execution_error'' st) (\<lambda>st _.
           (fst (apply_kill_hook h k envelope channel (te_capability_id envelope) arguments error_text st),
            Ok (withheld envelope Guard_RequiresApproval ''mcp conservative degrade profile active''
                  (''degrade:mcp:'' @ session)
                  (''mcp degraded mode activated due to failure; execution paused: '' @ error_text)))))"

definition tool_failed ::
    "'w ExecHost \<Rightarrow> RuntimeKernel \<Rightarrow> TaskEnvelope \<Rightarrow> BudgetReservation option \<Rightarrow> HookChannel \<Rightarrow> string \<Rightarrow>
     string \<Rightarrow> 'w ExecState \<Rightarrow> 'w ExecState \<times> RuntimeExecuteResult result" where
  "tool_failed h k envelope reservation channel arguments error st =
     (let name = te_capability_id envelope;
          on_error = apply_throws_with_channel (xh_hooks h) channel name arguments error;
          st = record_hook_evidence h k envelope ''throws'' on_error st;
          error_text = error_or on_error error;
          st = (if is_timeout_signal error_text
                then record_hook_evidence h k envelope ''timeout''
                       (apply_timeout_with_channel (xh_hooks h) channel name arguments error_text) st
                else st)
      in if prefix ''mcp::'' name then mcp_failed h k envelope reservation channel arguments error_text st
         else then_do (undo_charge h k envelope reservation ''execution_error'' st) (\<lambda>st _.
           (fst (apply_kill_hook h k envelope channel name arguments error_text st), Err error_text)))"

definition timeout_checked ::
    "'w ExecHost \<Rightarrow> RuntimeKernel \<Rightarrow> TaskEnvelope \<Rightarrow> HookChannel \<Rightarrow> string \<Rightarrow> RuntimeGuardReport \<Rightarrow> string \<Rightarrow>
     'w ExecState \<Rightarrow> 'w ExecState \<times> RuntimeGuardReport \<times> string" where
  "timeout_checked h k envelope channel arguments guard content st =
     (let name = te_capability_id envelope;
          on_timeout = apply_timeout_with_channel (xh_hooks h) channel name arguments content
      in if \<not> is_timeout_signal content then (st, guard, content)
         else let st = record_hook_evidence h k envelope ''timeout'' on_timeout st
           in if hk_allowed on_timeout then (st, guard, content)
              else let reason = error_or on_timeout ''hook denied timeout''
                in (fst (apply_kill_hook h k envelope channel name arguments reason st),
                    guard\<lparr> gr_decision := Guard_Blocked, gr_reason := reason \<rparr>,
                    ''Execution blocked by Timeout hook: '' @ reason))"

definition return_checked ::
    "'w ExecHost \<Rightarrow> RuntimeKernel \<Rightarrow> TaskEnvelope \<Rightarrow> HookChannel \<Rightarrow> string \<Rightarrow> RuntimeGuardReport \<Rightarrow> string \<Rightarrow>
     'w ExecState \<Rightarrow> 'w ExecState \<times> RuntimeGuardReport \<times> string" where
  "return_checked h k envelope channel arguments guard content st =
     (let name = te_capability_id envelope;
          on_result = apply_return_with_channel (xh_hooks h) channel name arguments content;
          st = record_hook_evidence h k envelope ''return'' on_result st
      in if \<not> hk_allowed on_result
         then let reason = error_or on_result ''hook denied on_result''
           in (fst (apply_kill_hook h k envelope channel name arguments reason st),
               guard\<lparr> gr_decision := Guard_Blocked, gr_reason := reason \<rparr>,
               ''Execution blocked by OnResult hook: '' @ reason)
         else (st, guard, case hk_output on_result of None \<Rightarrow> content | Some rewritten \<Rightarrow> rewritten))"

definition tool_costs ::
    "'w ExecHost \<Rightarrow> RuntimeKernel \<Rightarrow> TaskEnvelope \<Rightarrow> BudgetReservation option \<Rightarrow> GuardDecision \<Rightarrow> 64 word \<Rightarrow>
     'w ExecState \<Rightarrow> 'w ExecState \<times> CostBreakdown result" where
  "tool_costs h k envelope reservation decision duration_ms st =
     (let rolled = (\<lambda>reason. then_do (undo_charge h k envelope reservation reason st)
                      (\<lambda>st _. (st, Ok (cost_breakdown 0 0 0))))
      in if reservation = None then (st, Ok (cost_breakdown 0 0 duration_ms))
         else case decision of
           Guard_Allow \<Rightarrow> settle h k envelope reservation 0 1 duration_ms (cost_breakdown 0 0 duration_ms) st
         | Guard_Blocked \<Rightarrow> rolled ''runtime_guard_blocked''
         | Guard_RequiresApproval \<Rightarrow> rolled ''requires_human_approval'')"

definition tool_boundary :: "RuntimeClass \<Rightarrow> DeterminismBoundary" where
  "tool_boundary runtime_class =
     (if runtime_class = Class_ToolSandboxed
      then \<lparr> db_mode = ''best_effort'', db_locked_fields = boundary_fields,
             db_non_deterministic_steps = [''sandboxed_shell_execution''],
             db_external_dependencies = [''local_shell''] \<rparr>
      else \<lparr> db_mode = ''strict'', db_locked_fields = boundary_fields,
             db_non_deterministic_steps = [], db_external_dependencies = [] \<rparr>)"


definition tool_settle ::
    "'w ExecHost \<Rightarrow> RuntimeKernel \<Rightarrow> string \<Rightarrow> TaskEnvelope \<Rightarrow> string option \<Rightarrow> BudgetReservation option \<Rightarrow>
     64 word \<Rightarrow> RuntimeClass \<Rightarrow> 64 word \<times> 64 word \<Rightarrow> GuardDecision \<Rightarrow> RuntimeGuardReport \<Rightarrow> string \<Rightarrow>
     'w ExecState \<Rightarrow> 'w ExecState \<times> RuntimeExecuteResult result" where
  "tool_settle h k actor_id envelope preferred_model reservation started_at_ms runtime_class window
       original guard content st =
     (let duration_ms = saturating_sub (current_time_ms h st) started_at_ms; st = tick st
      in then_do (tool_costs h k envelope reservation (gr_decision guard) duration_ms st) (\<lambda>st costs.
         let st = note_task h k
               (if gr_decision guard = Guard_Blocked then ''runtime_blocks'' else ''task_runs'') envelope
               (J_Object ([(''decision'', J_String (debug_guard (gr_decision guard))),
                  (''original_decision'', J_String (debug_guard original)),
                  (''enforced'', J_Bool (should_enforce_gate k (te_session_id envelope) (te_task_id envelope))),
                  (''reason'', J_String (gr_reason guard))] @ lease_json envelope @
                  [(''cost_breakdown'', cost_json costs),
                   (''parallel_tool_window'',
                      J_Object [(''active'', J_Number (fst window)), (''limit'', J_Number (snd window))])])) st;
             st = fst (record_replay_snapshot h k actor_id envelope preferred_model None ''tool''
               (te_payload envelope) content
               [siphash_digest h ''tool_input'' (digest_value h (te_payload envelope)),
                siphash_digest h ''tool_output'' (digest_text h content)]
               (tool_boundary runtime_class) None st)
         in (st, Ok \<lparr> xr_content = content, xr_guard_report = guard, xr_provider_response = None,
                       xr_estimated_prompt_tokens = None \<rparr>)))"

definition tool_finish ::
    "'w ExecHost \<Rightarrow> RuntimeKernel \<Rightarrow> string \<Rightarrow> TaskEnvelope \<Rightarrow> string option \<Rightarrow> BudgetReservation option \<Rightarrow>
     64 word \<Rightarrow> RuntimeClass \<Rightarrow> 64 word \<times> 64 word \<Rightarrow> ToolDecision \<Rightarrow> 'w ExecState \<times> ToolTurn \<Rightarrow>
     'w ExecState \<times> RuntimeExecuteResult result" where
  "tool_finish h k actor_id envelope preferred_model reservation started_at_ms runtime_class window d turn =
     (case turn of (st, t) \<Rightarrow>
        (case tt_content t of
           Inl Panicked \<Rightarrow> (st, Inl Panicked)
         | Inl (Anyhow error) \<Rightarrow>
             tool_failed h k envelope reservation (td_channel d) (tt_arguments t) error st
         | Inr content \<Rightarrow>
             (case timeout_checked h k envelope (td_channel d) (tt_arguments t) (tt_guard t) content st of
                (st, guard, content) \<Rightarrow>
             (case return_checked h k envelope (td_channel d) (tt_arguments t) guard content st of
                (st, guard, content) \<Rightarrow>
              tool_settle h k actor_id envelope preferred_model reservation started_at_ms runtime_class
                window (td_original d) guard content st))))"

text \<open>The guard of the window is dropped on every way out.\<close>

definition leave_window ::
    "ParallelToolWindowGuard \<Rightarrow> 'w ExecState \<times> 'a \<Rightarrow> 'w ExecState \<times> 'a" where
  "leave_window wg p = (case p of (st, r) \<Rightarrow> (st\<lparr> xs_windows := drop_window_guard (xs_windows st) wg \<rparr>, r))"

definition tool_path ::
    "'w ExecHost \<Rightarrow> RuntimeKernel \<Rightarrow> string \<Rightarrow> TaskEnvelope \<Rightarrow> string option \<Rightarrow> BudgetReservation option \<Rightarrow>
     64 word \<Rightarrow> RuntimeClass \<Rightarrow> ForgedMcpToolManifest option \<Rightarrow> 'w ExecState \<Rightarrow>
     ('w ExecState \<times> RuntimeExecuteResult result) option" where
  "tool_path h k actor_id envelope preferred_model reservation started_at_ms runtime_class manifest st =
     (case try_enter_parallel_tool_window k (xs_windows st) (te_session_id envelope) of
        (windows, Inl (Anyhow reason)) \<Rightarrow>
          Some (apsnd Ok (window_refused h k envelope reason (st\<lparr> xs_windows := windows \<rparr>)))
      | (windows, Inl Panicked) \<Rightarrow> Some (st\<lparr> xs_windows := windows \<rparr>, Inl Panicked)
      | (windows, Inr (wg, window)) \<Rightarrow>
          (case decide_tool h k actor_id envelope manifest (st\<lparr> xs_windows := windows \<rparr>) of
             (st, d) \<Rightarrow>
               map_option (\<lambda>turn. leave_window wg
                   (tool_finish h k actor_id envelope preferred_model reservation started_at_ms
                      runtime_class window d turn))
                 (act_on_decision h k envelope preferred_model runtime_class manifest d st)))"

section \<open>The execution\<close>

definition runtime_execute ::
    "'w ExecHost \<Rightarrow> RuntimeKernel \<Rightarrow> string \<Rightarrow> TaskEnvelope \<Rightarrow> ForgedMcpToolManifest option \<Rightarrow> string option \<Rightarrow>
     'w ExecState \<Rightarrow> ('w ExecState \<times> RuntimeExecuteResult result) option" where
  "runtime_execute h k actor_id envelope manifest preferred_model st =
     (case validate_execution_identity (xh_codecs h) (es_db st) envelope (current_time_ms h st) of
        Inl e \<Rightarrow> Some (tick st, Inl e)
      | Inr _ \<Rightarrow>
         (let st = tick st; started_at_ms = current_time_ms h st; st = tick st;
              runtime_class = classify_runtime_class envelope manifest (tg_allow_shell (xs_tools st))
          in case validate_hardgate_requirement (te_payload envelope) of
               Some reason \<Rightarrow> Some (apsnd Ok (hardgate_block h k envelope reason st))
             | None \<Rightarrow>
                (case active_degrade_profile h (te_session_id envelope) st of (st, active) \<Rightarrow>
                 (case Option.bind active (degrade_block envelope) of
                    Some r \<Rightarrow> Some (st, Ok r)
                  | None \<Rightarrow>
                     (let messages = (if runtime_class = Class_Provider
                                      then Some (extract_provider_messages (xh_prompt h) (te_payload envelope))
                                      else None);
                          tokens = (case messages of None \<Rightarrow> 0 | Some ms \<Rightarrow> estimate_tokens ms)
                      in case charge h k envelope tokens st of
                           (st, Inl e) \<Rightarrow> Some (st, Inl e)
                         | (st, Inr reservation) \<Rightarrow>
                             if prefix ''provider:'' (te_capability_id envelope)
                             then Some (provider_path h k actor_id envelope preferred_model reservation
                                          started_at_ms (case messages of None \<Rightarrow> [] | Some ms \<Rightarrow> ms) st)
                             else tool_path h k actor_id envelope preferred_model reservation started_at_ms
                                    runtime_class manifest st)))))"

definition execute_provider ::
    "'w ExecHost \<Rightarrow> (ChatMessage list \<Rightarrow> json) \<Rightarrow> RuntimeKernel \<Rightarrow> TaskEnvelope \<Rightarrow> ChatMessage list \<Rightarrow>
     string option \<Rightarrow> 'w ExecState \<Rightarrow> ('w ExecState \<times> RuntimeExecuteResult result) option" where
  "execute_provider h messages_json k envelope messages preferred_model st =
     runtime_execute h k ''provider-exec'' (envelope\<lparr> te_payload := messages_json messages \<rparr>) None preferred_model st"

section \<open>Replaying a snapshot\<close>

record ReplayRunReport =
  rr_snapshot_id :: string
  rr_session_id :: string
  rr_trace_id :: string
  rr_task_id :: string
  rr_capability_id :: string
  rr_matched :: bool
  rr_deterministic_boundary_respected :: bool
  rr_original_output_digest :: string
  rr_replay_output_digest :: string
  rr_route_model_changed :: bool
  rr_deviations :: "ReplayDeviation list"
  rr_notes :: "string list"
  rr_created_at_ms :: "64 word"

record 'w ReplayHost =
  rh_read_envelope :: "json \<Rightarrow> string + TaskEnvelope"
  rh_route :: "ChatMessage list \<Rightarrow> string option \<Rightarrow> 'w \<Rightarrow> ProviderRouteDecision"

definition replay_messages :: "PromptHost \<Rightarrow> json \<Rightarrow> ChatMessage list" where
  "replay_messages h payload =
     (case ph_messages_of h payload of
        Inr messages \<Rightarrow> messages
      | Inl _ \<Rightarrow>
         (case json_as_str payload of
            Some txt \<Rightarrow> [plain_message ''user'' txt]
          | None \<Rightarrow> [plain_message ''user'' (ph_text h payload)]))"

definition replay_envelope :: "string \<Rightarrow> TaskEnvelope \<Rightarrow> TaskEnvelope" where
  "replay_envelope tag envelope =
     envelope\<lparr> te_trace_id := te_trace_id envelope @ '':'' @ tag,
               te_task_id := te_task_id envelope @ '':'' @ tag \<rparr>"

definition replay_deviations :: "ReplaySnapshot \<Rightarrow> string \<Rightarrow> bool \<Rightarrow> ReplayDeviation list" where
  "replay_deviations snapshot digest route_model_changed =
     (if digest = rs_output_digest snapshot then []
      else [\<lparr> rd_field = ''output_digest'', rd_expected = rs_output_digest snapshot, rd_actual = digest,
              rd_severity = (if db_mode (rs_boundary snapshot) = ''strict'' then ''high'' else ''medium''),
              rd_explanation = ''replay mismatch under boundary='' @ db_mode (rs_boundary snapshot) @
                '' (output hash changed for same snapshot input)'' \<rparr>]) @
     (if \<not> route_model_changed then []
      else [\<lparr> rd_field = ''route_model'',
              rd_expected = (case rs_route_model snapshot of None \<Rightarrow> [] | Some m \<Rightarrow> m), rd_actual = ''changed'',
              rd_severity = ''medium'',
              rd_explanation = ''Provider route model differs from the original snapshot route.'' \<rparr>])"

definition boundary_respected :: "DeterminismBoundary \<Rightarrow> bool \<Rightarrow> bool \<Rightarrow> bool" where
  "boundary_respected b matched route_model_changed =
     (if db_mode b = ''strict'' then matched \<and> \<not> route_model_changed
      else if db_external_dependencies b = [] then matched else True)"

definition replay_notes :: "DeterminismBoundary \<Rightarrow> string list" where
  "replay_notes b =
     (if db_external_dependencies b = [] then []
      else [''external dependencies detected: '' @ join '', '' (db_external_dependencies b)]) @
     (if db_non_deterministic_steps b = [] then []
      else [''non-deterministic steps: '' @ join '', '' (db_non_deterministic_steps b)])"

definition report_replay ::
    "'w ExecHost \<Rightarrow> ReplaySnapshot \<Rightarrow> bool \<Rightarrow> string \<Rightarrow> 'w ExecState \<Rightarrow> 'w ExecState \<times> ReplayRunReport" where
  "report_replay h snapshot route_model_changed content st =
     (let digest = digest_text h content; matched = (digest = rs_output_digest snapshot);
          respected = boundary_respected (rs_boundary snapshot) matched route_model_changed;
          deviations = replay_deviations snapshot digest route_model_changed;
          notes = replay_notes (rs_boundary snapshot);
          now = current_time_ms h st; st = tick st
      in (fst (persist_replay_analysis h
            \<lparr> ra_snapshot_id = rs_snapshot_id snapshot, ra_session_id = rs_session_id snapshot,
              ra_trace_id = rs_trace_id snapshot, ra_replay_output_digest = digest, ra_matched = matched,
              ra_deterministic_boundary_respected = respected, ra_deviations = deviations,
              ra_notes = notes, ra_created_at_ms = now \<rparr> st),
          \<lparr> rr_snapshot_id = rs_snapshot_id snapshot, rr_session_id = rs_session_id snapshot,
            rr_trace_id = rs_trace_id snapshot, rr_task_id = rs_task_id snapshot,
            rr_capability_id = rs_capability_id snapshot, rr_matched = matched,
            rr_deterministic_boundary_respected = respected,
            rr_original_output_digest = rs_output_digest snapshot, rr_replay_output_digest = digest,
            rr_route_model_changed = route_model_changed, rr_deviations = deviations, rr_notes = notes,
            rr_created_at_ms = now \<rparr>))"

definition replay_from_snapshot ::
    "'w ExecHost \<Rightarrow> 'w ReplayHost \<Rightarrow> RuntimeKernel \<Rightarrow> string \<Rightarrow> 'w ExecState \<Rightarrow>
     ('w ExecState \<times> ReplayRunReport result) option" where
  "replay_from_snapshot h rh k snapshot_id st =
     (case get_replay_snapshot h (es_db st) snapshot_id of
        None \<Rightarrow> Some (st, Err (''replay snapshot not found: '' @ snapshot_id))
      | Some snapshot \<Rightarrow>
         (case json_get (rs_replay_input snapshot) ''envelope'' of
            None \<Rightarrow> Some (st, Err ''replay snapshot missing envelope payload'')
          | Some v \<Rightarrow>
             (case rh_read_envelope rh v of
                Inl e \<Rightarrow> Some (st, Err e)
              | Inr original \<Rightarrow>
                 (let envelope = replay_envelope (''replay:'' @ show_word (current_time_ms h st)) original;
                      st = tick st;
                      text_of = (\<lambda>key. Option.bind (json_get (rs_replay_input snapshot) key) json_as_str);
                      actor_id = (case text_of ''actor_id'' of None \<Rightarrow> ''replay-runner'' | Some a \<Rightarrow> a);
                      preferred_model = text_of ''preferred_model'';
                      manifest = find (\<lambda>m. mf_registered_tool_name m = te_capability_id envelope)
                                   (manifests (xs_tools st));
                      route_model_changed =
                        prefix ''provider:'' (te_capability_id envelope) \<and>
                        (case rs_route_model snapshot of
                           None \<Rightarrow> False
                         | Some original_model \<Rightarrow>
                             pd_model (rh_route rh (replay_messages (xh_prompt h) (te_payload envelope))
                               preferred_model (xs_world st)) \<noteq> original_model)
                  in map_option (\<lambda>p. then_do p (\<lambda>st result.
                       apsnd Ok (report_replay h snapshot route_model_changed (xr_content result) st)))
                     (runtime_execute h k actor_id envelope manifest preferred_model st)))))"

end
