(* ===== verification/Runtime_Admission.thy ===== *)
theory Runtime_Admission
  imports Runtime_Execute
begin

text \<open>
  What \<open>runtime_execute\<close> lets happen: it always returns, and the world, the tools and the windows of a
  session change only in the steps that the identity, the gates, the budget, the hooks and the
  guard have let through.
\<close>

section \<open>Steps that only write records\<close>

text \<open>
  \<open>still st st'\<close>: nothing but records outside the billing tables was written, and clock readings
  and event numbers taken.
\<close>

definition still :: "'w ExecState \<Rightarrow> 'w ExecState \<Rightarrow> bool" where
  "still st st' \<longleftrightarrow>
     frame ''billing:'' (es_db st) (es_db st') \<and> EventState.more st' = EventState.more st"

named_theorems still_steps \<open>steps that only write records\<close>

lemma still_refl [simp, still_steps]: "still st st"
  by (simp add: still_def)

lemma still_trans [trans]: "still st st' \<Longrightarrow> still st' st'' \<Longrightarrow> still st st''"
  by (auto simp: still_def intro: frame_trans)

lemma more_parts:
  "EventState.more st' = EventState.more st \<Longrightarrow>
     xs_windows st' = xs_windows st \<and> xs_tools st' = xs_tools st \<and> xs_world st' = xs_world st"
  by (cases st; cases st') simp

lemma still_parts:
  assumes "still st st'"
  shows "xs_windows st' = xs_windows st" "xs_tools st' = xs_tools st" "xs_world st' = xs_world st"
    "frame ''billing:'' (es_db st) (es_db st')"
  using assms more_parts [of st' st] by (simp_all add: still_def)

interpretation billing_frame: runtime_frame "''billing:''"
  by unfold_locales simp_all

lemma still_tick [still_steps]: "still st (tick st)"
  by (simp add: still_def)

lemmas tick_parts [simp] = still_parts(1-3) [OF still_tick]

lemma still_note [still_steps]: "still st (note_task h k kind envelope payload st)"
  by (simp add: still_def note_task_def billing_frame.noted)

lemma still_evidence [still_steps]: "still st (record_hook_evidence h k envelope stage outcome st)"
  by (simp add: record_hook_evidence_def still_note)

lemma still_stream [still_steps]:
  "still st (fst (apply_stream_hook h k envelope channel name arguments output st))"
  by (simp add: apply_stream_hook_def still_evidence Let_def)

lemma still_kill [still_steps]:
  "still st (fst (apply_kill_hook h k envelope channel name arguments detail st))"
  by (simp add: apply_kill_hook_def still_evidence Let_def)

lemma still_killed [still_steps]:
  "still st (fst (killed h k envelope channel name arguments outcome txt st))"
  using still_kill [of st h k envelope channel name arguments "error_or outcome txt"]
  by (auto simp: killed_def split: prod.split)

lemma still_active [still_steps]: "still st (fst (active_degrade_profile h session st))"
  by (simp add: active_degrade_profile_def still_tick Let_def)

lemma still_apply [still_steps]: "still st (fst (apply_degrade_profile h k s trig kind reason st))"
  unfolding still_def
  by (rule conjI [OF billing_frame.applied]) (simp add: apply_degrade_profile_def Let_def)

lemma still_plan [still_steps]: "still st (fst (build_recovery_plan h k s trig kind st))"
  unfolding still_def
  by (rule conjI [OF billing_frame.planned]) (simp add: build_recovery_plan_def Let_def)

lemma still_put:
  "\<not> prefix ''billing:'' key \<Longrightarrow> still st (fst (put_json c key x source st))"
  by (simp add: still_def frame_put_json)

lemma still_then_do:
  "still st (fst p) \<Longrightarrow> (\<And>st' x. still st' (fst (f st' x))) \<Longrightarrow> still st (fst (then_do p f))"
  by (cases p; cases "snd p") (auto intro: still_trans)

lemma still_persist: "still st (fst (persist_replay_snapshot h snapshot st))"
proof -
  obtain st1 s1 where s1: "with_snapshot_id snapshot st = (st1, s1)" "still st st1"
    by (cases "trim (rs_snapshot_id snapshot) = []")
      (auto simp: with_snapshot_id_def still_def)
  obtain st2 s2 where s2: "(if rs_created_at_ms s1 = 0
      then (tick st1, s1\<lparr> rs_created_at_ms := current_time_ms h st1 \<rparr>) else (st1, s1)) = (st2, s2)"
    "still st1 st2"
    by (cases "rs_created_at_ms s1 = 0") (auto intro: still_tick)
  have "still st2 (fst (persist st2))" if "persist = (\<lambda>st. then_do (put_json (eh_snapshot h)
      (''replay:snapshot:'' @ rs_snapshot_id s2) s2 ''replay'' st) (\<lambda>st _. (st, Ok s2)))" for persist
    unfolding that by (intro still_then_do still_put) simp_all
  then show ?thesis
    using s1(1) s2(1) still_trans [OF still_trans [OF s1(2) s2(2)]]
    by (simp add: persist_replay_snapshot_def Let_def split del: if_split)
qed

lemma still_snapshot [still_steps]:
  "still st (fst (record_replay_snapshot h k actor envelope m r surface ps content artifacts b seed st))"
  unfolding record_replay_snapshot_def
  by (intro still_then_do still_persist) (simp add: still_note)

lemma guard_writes_nothing:
  "fst (guard_tool_execution_with_state k env j c clock db actor tool manifest) = db"
proof (cases "gr_decision (guard_tool_execution k env actor tool manifest) = Guard_Allow")
  case True
  then show ?thesis by (simp add: guard_with_state_cases [OF refl True])
qed (simp add: guard_tool_execution_with_state_def Let_def)

lemma still_guard [still_steps]: "still st (fst (run_guard h k actor envelope manifest st))"
proof -
  have "still st (fst (on_db f (tick (tick (tick (tick st))))))" if "\<And>db. fst (f db) = db"
    for f :: "KnowledgeTable \<Rightarrow> KnowledgeTable \<times> RuntimeGuardReport"
    using that [of "es_db st"] by (cases "f (es_db st)") (simp add: on_db_def still_def)
  then show ?thesis by (simp add: run_guard_def Let_def guard_writes_nothing)
qed


section \<open>The reliability layer\<close>

text \<open>A relation that holds of record steps and of every attempt holds of the layered execution.\<close>

lemma observe_tick: "snd (observe h layer status detail ls) = tick (snd ls)"
  by simp

lemma failed_attempt_still: "still (snd ls) (snd (snd (failed_attempt h policy e ls)))"
  by (cases ls) (auto simp: failed_attempt_def observe_pair Let_def still_def)

locale attempt_relation =
  fixes R :: "'w ExecState \<Rightarrow> 'w ExecState \<Rightarrow> bool"
  assumes R_trans: "R a b \<Longrightarrow> R b c \<Longrightarrow> R a c"
    and R_still: "still a b \<Longrightarrow> R a b"
begin

lemma attempt:
  assumes "\<And>t a. R a (fst (executor t a))"
  shows "R (snd ls) (snd (snd (tool_attempt h policy executor ls)))"
proof -
  obtain l st where ls: "ls = (l, st)" by (cases ls)
  obtain st' a where e: "executor (tp_timeout_ms policy) (tick st) = (st', a)" by fastforce
  have "R st st'"
    using R_trans [OF R_still [OF still_tick] assms] e by (metis fst_conv)
  moreover have "R st' (snd (snd (failed_attempt h policy x (l', st'))))" for x l'
    using R_still [OF failed_attempt_still [of "(l', st')" h policy x]] by simp
  ultimately show ?thesis
    using R_still [OF still_tick] R_still [OF still_refl]
    by (auto simp: tool_attempt_def ls observe_pair Let_def e intro: R_trans
        split: attempt.split sum.split error.split)
qed

lemma loop:
  assumes "tool_loop h policy executor ls = Some r" "\<And>t a. R a (fst (executor t a))"
  shows "R (snd ls) (snd (snd r))"
proof -
  have "(\<forall>t a. R a (fst (executor t a))) \<longrightarrow> R (snd ls) (snd (snd r))"
  proof (rule tool_loop.raw_induct [OF _ assms(1), where P = "\<lambda>h policy executor ls r.
      (\<forall>t a. R a (fst (executor t a))) \<longrightarrow> R (snd ls) (snd (snd r))"], goal_cases)
    case (1 loop h policy executor ls r)
    show ?case
    proof
      assume ex: "\<forall>t a. R a (fst (executor t a))"
      obtain turn ls' where t: "tool_attempt h policy executor ls = (turn, ls')"
        by (cases "tool_attempt h policy executor ls")
      have step: "R (snd ls) (snd ls')" using attempt [of executor ls h policy] ex t by simp
      show "R (snd ls) (snd (snd r))"
      proof (cases "tl_attempts (fst ls) \<le> tp_max_retries policy")
        case True
        then show ?thesis
        proof (cases turn)
          case Turn_Again
          then have "loop h policy executor ls' = Some r" using 1(2) True t by simp
          then show ?thesis using 1(1) ex step R_trans by blast
        qed (use 1(2) True step in \<open>auto simp: t\<close>)
      qed (use 1(2) R_still [OF still_refl] in auto)
    qed
  qed
  then show ?thesis using assms(2) by blast
qed

lemma layered:
  assumes "run_layered_tool_execution h j signal name policy executor st = Some (st', r)"
    "\<And>t a. R a (fst (executor t a))"
  shows "R st st'"
proof -
  have start: "R st (snd (start_tool_loop h name policy st))"
    by (rule R_still) (simp add: start_tool_loop_def still_def)
  have four: "still b (tick (tick (tick (tick b))))" for b by (simp add: still_def)
  have persist: "still (snd ls) (fst (persist_execution h j signal name content rep ls))" for ls content rep
    by (cases ls, simp add: persist_execution_def Let_def observe_pair)
      (rule still_trans [OF four still_put], simp)
  have persists: "still b (fst (persist_execution h j signal name content rep (l, b)))"
      "still b (fst (persist_execution h j signal name content rep (l, tick b)))"
      "still b (fst (persist_execution h j signal name content rep (l, tick (tick b))))" for b l content rep
    using persist [of "(l, b)"] persist [of "(l, tick b)"] persist [of "(l, tick (tick b))"]
    by (auto intro: still_trans [OF still_tick] still_trans [OF still_trans [OF still_tick still_tick]])
  have two: "still b (tick (tick b))" for b :: "'w ExecState" by (simp add: still_def)
  have finish: "still (snd ls) (fst (finish_tool_loop h j signal name policy ls))" for ls :: "ToolLoop \<times> 'w ExecState"
    by (cases ls)
      (simp add: finish_tool_loop_def Let_def observe_pair persists still_tick two
        split: option.split ToolDegradeStrategy.split)
  obtain turn ls where l: "tool_loop h policy executor (start_tool_loop h name policy st) = Some (turn, ls)"
    using assms(1) by (auto simp: run_layered_tool_execution_def split: option.splits)
  then have "R st (snd ls)" using R_trans [OF start loop [OF _ assms(2)]] by fastforce
  then show ?thesis
    using assms(1) l R_still [OF finish [of ls]]
    by (cases turn) (auto simp: run_layered_tool_execution_def split: prod.splits intro: R_trans)
qed

end


section \<open>The world of a task\<close>

text \<open>What may happen to the world while a task executes, and under which conditions.\<close>

inductive world_step ::
    "'w ExecHost \<Rightarrow> RuntimeKernel \<Rightarrow> TaskEnvelope \<Rightarrow> RuntimeClass \<Rightarrow> ForgedMcpToolManifest option \<Rightarrow>
     string option \<Rightarrow> 'w \<Rightarrow> 'w \<Rightarrow> bool" for h k envelope runtime_class manifest preferred_model where
  ask_provider: "prefix ''provider:'' (te_capability_id envelope) \<Longrightarrow>
     estimate_tokens messages \<le> cn_max_tokens (te_constraints envelope) \<Longrightarrow>
     world_step h k envelope runtime_class manifest preferred_model w
       (fst (xh_chat h messages preferred_model w))"
| attest: "runtime_class = Class_TrustedHighRisk \<Longrightarrow> effective_policy_mode k (xh_env h) \<noteq> Policy_Off \<Longrightarrow>
     world_step h k envelope runtime_class manifest preferred_model w
       (fst (xh_preflight h envelope preferred_model w))"
| start_wasm: "runtime_class = Class_TrustedHighRisk \<or> runtime_class = Class_ToolSandboxed \<Longrightarrow>
     resolve_wasm_sandbox_plan (xh_sandbox h) w arguments envelope (te_capability_id envelope) =
       Ok (Some plan) \<Longrightarrow>
     world_step h k envelope runtime_class manifest preferred_model w
       (fst (sh_wasm (xh_sandbox h) plan w))"
| start_process: "runtime_class = Class_ToolSandboxed \<Longrightarrow> manifest = Some m \<Longrightarrow>
     admitted_command (xh_sandbox h) m arguments (constrained_policy k envelope m) = Ok (spec, dir) \<Longrightarrow>
     world_step h k envelope runtime_class manifest preferred_model w
       (fst (sh_spawn (xh_sandbox h) (rc_executable spec) (rc_args spec) dir
               (budget_secs (constrained_policy k envelope m)) w))"

text \<open>What the execution of a task does to the state, whatever its class.\<close>

definition worked ::
    "'w ExecHost \<Rightarrow> RuntimeKernel \<Rightarrow> TaskEnvelope \<Rightarrow> RuntimeClass \<Rightarrow> ForgedMcpToolManifest option \<Rightarrow>
     string option \<Rightarrow> 'w ExecState \<Rightarrow> 'w ExecState \<Rightarrow> bool" where
  "worked h k envelope runtime_class manifest preferred_model st st' \<longleftrightarrow>
     (world_step h k envelope runtime_class manifest preferred_model)\<^sup>*\<^sup>* (xs_world st) (xs_world st') \<and>
     xs_windows st' = xs_windows st \<and>
     (registry_ok (xh_tool h) (xs_tools st) \<longrightarrow>
        registry_ok (xh_tool h) (xs_tools st') \<and> frame ''billing:'' (es_db st) (es_db st'))"

lemma worked_trans:
  "worked h k e c m p a b \<Longrightarrow> worked h k e c m p b d \<Longrightarrow> worked h k e c m p a d"
  by (auto simp: worked_def intro: rtranclp_trans frame_trans)

lemma worked_still: "still a b \<Longrightarrow> worked h k e c m p a b"
  by (simp add: worked_def still_parts)

interpretation run: attempt_relation "worked h k envelope runtime_class manifest preferred_model"
  for h k envelope runtime_class manifest preferred_model
  by unfold_locales (auto intro: worked_trans worked_still)

lemma worked_world:
  assumes "fst (f (xs_world st)) = xs_world st \<or>
      world_step h k e c m p (xs_world st) (fst (f (xs_world st)))"
  shows "worked h k e c m p st (fst (on_world f st))"
  using assms by (cases "f (xs_world st)") (auto simp: on_world_def worked_def)

text \<open>The registry writes its manifests, under keys of its own.\<close>

definition store_frame :: "ToolRegistry \<Rightarrow> ToolRegistry \<Rightarrow> bool" where
  "store_frame reg reg' \<longleftrightarrow>
     rel_option (frame ''billing:'') (tg_state_store reg) (tg_state_store reg')"

lemma store_frame_persist:
  "tg_state_store reg1 = tg_state_store reg \<Longrightarrow> store_frame reg (fst (persist_manifest ho m reg1))"
proof (cases "tg_state_store reg")
  case (Some db)
  assume "tg_state_store reg1 = tg_state_store reg"
  moreover have "frame ''billing:'' db (fst (upsert_knowledge db (FORGED_TOOL_PREFIX @ x) v s))" for x v s
    by (rule frame_upsert) (simp add: FORGED_TOOL_PREFIX_def)
  ultimately show ?thesis using Some
    by (auto simp: store_frame_def persist_manifest_def upsert_json_knowledge_def
        split: prod.split sum.split) (metis fst_conv)+
qed (simp add: store_frame_def persist_manifest_def)

lemma puts_frame: "puts ho reg reg' \<Longrightarrow> store_frame reg reg'"
proof (induction rule: rtranclp_induct)
  case base
  then show ?case by (simp add: store_frame_def option.rel_refl)
next
  case (step reg1 reg2)
  have "store_frame reg1 reg2"
    using step(2) by cases (auto intro!: store_frame_persist)
  with step(3) show ?case
    unfolding store_frame_def by (cases "tg_state_store reg"; cases "tg_state_store reg1") (auto elim!: option.rel_cases intro: frame_trans)
qed

lemma worked_registered: "worked h k e c m p st (fst (run_registered h name arguments st))"
proof -
  let ?reg = "with_store (es_db st) (xs_tools st)"
  obtain reg r where r: "execute_tool (xh_tool h) (current_time_ms h st) name arguments ?reg = (reg, r)"
    by fastforce
  have "registry_ok (xh_tool h) reg \<and> store_frame ?reg reg" if "registry_ok (xh_tool h) (xs_tools st)"
  proof -
    have ok: "registry_ok (xh_tool h) ?reg" using that by (simp add: with_store_def)
    have "puts (xh_tool h) ?reg reg"
      using puts_execute [OF ok, of "current_time_ms h st" name arguments] r by simp
    then show ?thesis using puts_ok [OF _ ok] puts_frame by blast
  qed
  moreover have "fst (run_registered h name arguments st) = (tick st)
      \<lparr> es_db := (case tg_state_store reg of None \<Rightarrow> es_db st | Some db \<Rightarrow> db), xs_tools := reg \<rparr>"
    by (simp add: run_registered_def r)
  ultimately show ?thesis
    by (cases "tg_state_store (xs_tools st)"; cases "tg_state_store reg")
      (auto simp: worked_def store_frame_def with_store_def still_parts [OF still_tick])
qed

lemma worked_then_do:
  assumes "worked h k e c m p st (fst q)"
  shows "worked h k e c m p st (fst (then_do q (\<lambda>st x. (st, g x))))"
  using assms by (cases q; cases "snd q") auto

lemma worked_wasm:
  assumes "c = Class_TrustedHighRisk \<or> c = Class_ToolSandboxed"
    "resolve_wasm_sandbox_plan (xh_sandbox h) (xs_world st) arguments e (te_capability_id e) = Ok (Some plan)"
  shows "worked h k e c m p st (fst (run_wasm h plan st))"
  unfolding run_wasm_def
  by (intro worked_then_do worked_world disjI2) (rule start_wasm [OF assms])

lemma worked_sandboxed:
  assumes "c = Class_ToolSandboxed" "m = Some x"
  shows "worked h k e c m p st
    (fst (on_world (execute_sandboxed_manifest (xh_sandbox h) x arguments (constrained_policy k e x)) st))"
proof (rule worked_world)
  let ?p = "constrained_policy k e x" and ?w = "xs_world st"
  show "fst (execute_sandboxed_manifest (xh_sandbox h) x arguments ?p ?w) = ?w \<or>
      world_step h k e c m p ?w (fst (execute_sandboxed_manifest (xh_sandbox h) x arguments ?p ?w))"
  proof (cases "admitted_command (xh_sandbox h) x arguments ?p")
    case (Inr a)
    obtain spec dir where a: "a = (spec, dir)" by (cases a)
    have "fst (execute_sandboxed_manifest (xh_sandbox h) x arguments ?p ?w) =
        fst (sh_spawn (xh_sandbox h) (rc_executable spec) (rc_args spec) dir (budget_secs ?p) ?w)"
      using Inr a fst_then_do [where f = "\<lambda>w end. (w, Ok (sandboxed_result spec dir end))"]
      by (simp add: execute_sandboxed_manifest_def)
    then show ?thesis
      using start_process [OF assms, of h arguments k e spec dir p ?w] Inr a by simp
  qed (simp add: execute_sandboxed_manifest_def)
qed

lemma worked_class: "worked h k e c m p st (fst (run_class h k e c m arguments st))"
proof (cases c)
  case Class_TrustedHighRisk
  then show ?thesis
    by (auto simp: run_class_def Let_def worked_registered worked_still
        intro: worked_wasm split: sum.split option.split)
next
  case Class_ToolSandboxed
  then show ?thesis
    by (auto simp: run_class_def Let_def worked_registered worked_still
        intro: worked_wasm worked_then_do worked_sandboxed split: sum.split option.split)
qed (simp_all add: run_class_def Let_def worked_registered worked_still)

lemma worked_attempt: "worked h k e c m p st (fst (run_attempt h k e c m arguments t st))"
  using worked_class [of h k e c m p st arguments] by (auto simp: run_attempt_def split: prod.split)

lemma worked_path:
  assumes "execute_classified_tool_path h k e c m arguments guard st = Some (st', r)"
  shows "worked h k e c m p st st'"
proof -
  obtain st1 r1 where l: "run_layered_tool_execution h (dh_json h)
      (propagation_context e (Some (te_capability_id e))) (te_capability_id e)
      (tool_reliability_policy_for k (xh_env h) c (te_capability_id e) guard m)
      (run_attempt h k e c m arguments) st = Some (st1, r1)"
    using assms by (auto simp: execute_classified_tool_path_def Let_def)
  have "worked h k e c m p st st1" by (rule run.layered [OF l worked_attempt])
  moreover have "still st1 st'"
    using assms l by (cases r1) (auto simp: execute_classified_tool_path_def Let_def still_note)
  ultimately show ?thesis by (blast intro: worked_trans worked_still)
qed


section \<open>The stages\<close>

text \<open>The stages of both paths are still but for the calls themselves and the settlement.\<close>

lemmas still_onto =
  still_trans [OF _ still_tick] still_trans [OF _ still_note] still_trans [OF _ still_evidence]
  still_trans [OF _ still_stream] still_trans [OF _ still_kill] still_trans [OF _ still_killed]
  still_trans [OF _ still_active] still_trans [OF _ still_apply] still_trans [OF _ still_plan]
  still_trans [OF _ still_snapshot] still_trans [OF _ still_guard]

lemma still_denied:
  "still s st \<Longrightarrow> still s (fst (prompt_denied h k actor e arguments outcome txt label reason st))"
  by (simp add: prompt_denied_def split_beta still_onto)

lemma still_hooks: "still s st \<Longrightarrow> still s (fst (prompt_hooks h k actor e messages st))"
  by (simp add: prompt_hooks_def Let_def still_onto still_denied)

lemma still_fit: "still s st \<Longrightarrow> still s (fst (fit_messages h k e messages st))"
  by (simp add: fit_messages_def Let_def still_onto)

lemma fit_estimates:
  "fit_messages h k e messages st = (st', ms, estimated, b) \<Longrightarrow> estimated = estimate_tokens ms"
  by (auto simp: fit_messages_def Let_def split: if_splits)

lemma still_answer_denied:
  "still s st \<Longrightarrow> still s (fst (answer_denied h k actor e arguments response n outcome txt label reason st))"
  by (simp add: answer_denied_def still_denied)

lemma still_return:
  "still s st \<Longrightarrow> still s (fst (provider_return h k actor e arguments response n content st))"
  by (simp add: provider_return_def Let_def still_onto still_answer_denied)

lemma still_answer:
  "still s st \<Longrightarrow> still s (fst (provider_answer h k actor e arguments response n st))"
  by (simp add: provider_answer_def Let_def split_beta still_onto still_answer_denied still_return)

lemma still_decide: "still s st \<Longrightarrow> still s (fst (decide_tool h k actor e m st))"
  by (simp add: decide_tool_def Let_def split_beta still_onto)

lemma still_timeout_checked:
  "still s st \<Longrightarrow> still s (fst (timeout_checked h k e channel arguments guard content st))"
  by (simp add: timeout_checked_def Let_def still_onto)

lemma still_return_checked:
  "still s st \<Longrightarrow> still s (fst (return_checked h k e channel arguments guard content st))"
  by (simp add: return_checked_def Let_def still_onto)

lemma still_stream_tool:
  "still s st \<Longrightarrow> still s (fst (stream_tool h k e channel guard arguments classified st))"
  by (simp add: stream_tool_def Let_def split_beta still_onto)

lemma worked_onto: "worked h k e c m p s st \<Longrightarrow> still st st' \<Longrightarrow> worked h k e c m p s st'"
  by (rule worked_trans [OF _ worked_still])

lemma worked_preflight:
  assumes "c = Class_TrustedHighRisk"
  shows "worked h k e c m p st (fst (trusted_high_risk_preflight h k e p st))"
proof (cases "effective_policy_mode k (xh_env h) = Policy_Off")
  case False
  obtain st1 r where r: "on_world (xh_preflight h e p) st = (st1, r)" by fastforce
  have "worked h k e c m p st (fst (on_world (xh_preflight h e p) st))"
    by (intro worked_world disjI2 attest) (use assms False in auto)
  then have "worked h k e c m p st st1" by (simp add: r)
  then show ?thesis
    using False
    by (simp add: trusted_high_risk_preflight_def Let_def r worked_onto [OF _ still_note]
        split: sum.split error.split)
qed (simp add: trusted_high_risk_preflight_def worked_still)

lemma worked_step:
  assumes "step_and_run h k e c m d st = Some (st', t)"
  shows "worked h k e c m p st st'"
proof -
  define post where "post = apply_step_with_channel (xh_hooks h) (td_channel d) (te_capability_id e) (td_arguments d)"
  let ?st1 = "record_hook_evidence h k e ''step'' post st"
  have start: "worked h k e c m p st ?st1" by (rule worked_still [OF still_evidence])
  show ?thesis
  proof (cases "hk_allowed post")
    case True
    then have run: "map_option (\<lambda>(st, classified). case classified of
           Inl x \<Rightarrow> (st, \<lparr> tt_guard = td_guard d, tt_arguments = hk_arguments post, tt_content = Inl x \<rparr>)
         | Inr x \<Rightarrow> stream_tool h k e (td_channel d) (td_guard d) (hk_arguments post) x st)
        (execute_classified_tool_path h k e c m (hk_arguments post) (td_guard d) ?st1) = Some (st', t)"
      using assms by (simp add: step_and_run_def Let_def post_def)
    then obtain st2 r where path: "execute_classified_tool_path h k e c m (hk_arguments post) (td_guard d) ?st1 = Some (st2, r)"
      by (cases "execute_classified_tool_path h k e c m (hk_arguments post) (td_guard d) ?st1") auto
    have st': "st' = (case r of Inl _ \<Rightarrow> st2 | Inr x \<Rightarrow>
          fst (stream_tool h k e (td_channel d) (td_guard d) (hk_arguments post) x st2))"
      using run by (cases r) (simp_all add: path)
    have "still st2 st'" by (simp add: st' still_stream_tool split: sum.split)
    then show ?thesis
      by (rule worked_onto [OF worked_trans [OF start worked_path [OF path]]])
  qed (use assms start in \<open>auto simp: step_and_run_def Let_def post_def\<close>)
qed

lemma decision_still:
  assumes "act_on_decision h k e p c m d st = Some (st', t)" "gr_decision (td_guard d) \<noteq> Guard_Allow"
  shows "still st st'"
proof (cases "gr_decision (td_guard d)")
  case Guard_Blocked
  then have "st' = fst (apply_kill_hook h k e (td_channel d) (te_capability_id e) (td_arguments d)
      (gr_reason (td_guard d)) st)"
    using assms(1) by (simp add: act_on_decision_def Let_def split_beta)
  then show ?thesis by (simp add: still_kill)
qed (use assms in \<open>simp_all add: act_on_decision_def Let_def\<close>)

lemma worked_decision:
  assumes "act_on_decision h k e p c m d st = Some (st', t)"
  shows "worked h k e c m p st st'"
proof (cases "gr_decision (td_guard d) = Guard_Allow")
  case True
  show ?thesis
  proof (cases "c = Class_TrustedHighRisk")
    case c: True
    obtain st2 r where pre: "trusted_high_risk_preflight h k e p st = (st2, r)" by fastforce
    have w: "worked h k e c m p st st2"
      using worked_preflight [OF c, of h k e m p st] pre by simp
    show ?thesis
    proof (cases r)
      case (Inl x)
      then show ?thesis
        using assms True c w by (cases x) (auto simp: act_on_decision_def Let_def pre)
    next
      case (Inr u)
      then have "step_and_run h k e c m d st2 = Some (st', t)"
        using assms True c by (simp add: act_on_decision_def Let_def pre)
      from worked_trans [OF w worked_step [OF this]] show ?thesis .
    qed
  next
    case False
    then have "step_and_run h k e c m d st = Some (st', t)"
      using assms True by (simp add: act_on_decision_def Let_def)
    then show ?thesis by (rule worked_step)
  qed
next
  case False
  then show ?thesis using decision_still [OF assms] worked_still by blast
qed


section \<open>Every execution returns\<close>

lemma layered_returns:
  assumes "unat (tp_max_retries policy) < 255"
  shows "\<exists>q. run_layered_tool_execution h j signal name policy executor st = Some q"
proof -
  obtain l st1 where start: "start_tool_loop h name policy st = (l, st1)" by (metis surj_pair)
  then have "retrying policy [] l" using retrying_start [of policy h name st] by simp
  from tool_loop_settles [OF this assms called.none, of h executor st1] obtain turn l' st' where
      "tool_loop h policy executor (l, st1) = Some (turn, l', st')" by blast
  then show ?thesis
    by (cases turn) (auto simp: run_layered_tool_execution_def start)
qed

text \<open>The retries of a tool are one less than an 8-bit count, so the counter passes their bound.\<close>

lemma policy_retries: "unat (tp_max_retries (tool_reliability_policy_for k env c name guard m)) < 255"
proof -
  have "unat (gr_attempts_allowed guard) < 2 ^ 8" using unsigned_less [of "gr_attempts_allowed guard"] by simp
  then show ?thesis by (simp add: tool_reliability_policy_for_def Let_def unat_saturating_sub)
qed

lemma path_returns: "\<exists>q. execute_classified_tool_path h k e c m arguments guard st = Some q"
proof -
  obtain q where "run_layered_tool_execution h (dh_json h)
      (propagation_context e (Some (te_capability_id e))) (te_capability_id e)
      (tool_reliability_policy_for k (xh_env h) c (te_capability_id e) guard m)
      (run_attempt h k e c m arguments) st = Some q"
    using layered_returns [OF policy_retries] by blast
  then show ?thesis by (simp add: execute_classified_tool_path_def Let_def)
qed

lemma step_returns: "\<exists>q. step_and_run h k e c m d st = Some q"
proof -
  define post where "post = apply_step_with_channel (xh_hooks h) (td_channel d) (te_capability_id e) (td_arguments d)"
  obtain q where "execute_classified_tool_path h k e c m (hk_arguments post) (td_guard d)
      (record_hook_evidence h k e ''step'' post st) = Some q" using path_returns by blast
  then show ?thesis by (simp add: step_and_run_def Let_def post_def [symmetric])
qed

lemma decision_returns: "\<exists>q. act_on_decision h k e p c m d st = Some q"
proof -
  note step = step_returns [of h k e c m d]
  show ?thesis
    using step by (auto simp: act_on_decision_def Let_def split_beta
        split: GuardDecision.split sum.split error.split)
qed

lemma tool_path_returns: "\<exists>q. tool_path h k actor e p r started c m st = Some q"
proof -
  obtain windows w where w: "try_enter_parallel_tool_window k (xs_windows st) (te_session_id e) = (windows, w)"
    by fastforce
  show ?thesis
  proof (cases w)
    case (Inl x)
    then show ?thesis by (cases x) (simp_all add: tool_path_def w)
  next
    case (Inr x)
    obtain st1 d where d: "decide_tool h k actor e m (st\<lparr> xs_windows := windows \<rparr>) = (st1, d)" by fastforce
    obtain q where "act_on_decision h k e p c m d st1 = Some q" using decision_returns by blast
    then show ?thesis using Inr by (cases x) (simp add: tool_path_def w d)
  qed
qed

lemma execute_runs: "\<exists>st' r. runtime_execute h k actor_id envelope manifest preferred_model st = Some (st', r)"
proof -
  have "\<exists>q. tool_path h k actor_id envelope preferred_model r started c manifest st = Some q"
    for r started c st by (rule tool_path_returns)
  then show ?thesis
    by (auto simp: runtime_execute_def Let_def split_beta split: sum.split option.split)
qed

text \<open>
  C25: Every execution returns, whatever the task, the hooks, the provider, the tools and the world
  do: the retry loop of a tool, the one loop of \<^verbatim>\<open>execute\<close> that is not bounded by its data, always ends,
  because a guard never allows more than 255 attempts and so never more than 254 retries. (With 255
  retries it would not: the counter saturates.)
\<close>

theorem execute_returns:
  "\<exists>st' r. runtime_execute h k actor_id envelope manifest preferred_model st = Some (st', r)"
  by (rule execute_runs)


section \<open>What has to let an execution through\<close>

text \<open>
  The state after the identity, the hard gate, the degrade profile and the budget have let a task
  through, with its reservation; \<open>None\<close> when one of them stops it.
\<close>

definition let_through ::
    "'w ExecHost \<Rightarrow> RuntimeKernel \<Rightarrow> TaskEnvelope \<Rightarrow> ForgedMcpToolManifest option \<Rightarrow> 'w ExecState \<Rightarrow>
     ('w ExecState \<times> BudgetReservation option) option" where
  "let_through h k envelope manifest st =
     (let runtime_class = classify_runtime_class envelope manifest (tg_allow_shell (xs_tools st));
          (st1, active) = active_degrade_profile h (te_session_id envelope) (tick (tick st));
          tokens = (if runtime_class = Class_Provider
                    then estimate_tokens (extract_provider_messages (xh_prompt h) (te_payload envelope)) else 0)
      in if validate_execution_identity (xh_codecs h) (es_db st) envelope (current_time_ms h st) = Ok () \<and>
            validate_hardgate_requirement (te_payload envelope) = None \<and>
            Option.bind active (degrade_block envelope) = None
         then (case charge h k envelope tokens st1 of
                 (_, Inl _) \<Rightarrow> None
               | (st2, Inr reservation) \<Rightarrow> Some (st2, reservation))
         else None)"

definition aside :: "'w ExecState \<Rightarrow> 'w ExecState \<Rightarrow> bool" where
  "aside st st' \<longleftrightarrow> EventState.more st' = EventState.more st"

lemma aside_refl [simp]: "aside st st"
  by (simp add: aside_def)

lemma aside_trans: "aside a b \<Longrightarrow> aside b c \<Longrightarrow> aside a c"
  by (simp add: aside_def)

lemma aside_still: "still st st' \<Longrightarrow> aside st st'"
  by (simp add: aside_def still_def)

lemma aside_parts:
  assumes "aside st st'"
  shows "xs_windows st' = xs_windows st" "xs_tools st' = xs_tools st" "xs_world st' = xs_world st"
  using more_parts [of st' st] assms by (simp_all add: aside_def)

lemma aside_on_db: "aside st (fst (on_db f st))"
  by (simp add: on_db_def aside_def split: prod.split)

lemma aside_charge: "aside st (fst (charge h k e tokens st))"
  unfolding charge_def by (rule aside_trans [OF aside_still [OF still_tick] aside_on_db])

lemma aside_roll_back: "aside st (fst (undo_charge h k e r reason st))"
  by (simp add: undo_charge_def aside_trans [OF aside_still [OF still_tick] aside_on_db] split: option.split)

lemma aside_settle: "aside st (fst (settle h k e r tokens calls d u st))"
  by (simp add: settle_def aside_trans [OF aside_still [OF still_tick] aside_on_db] split: option.split)

lemma aside_then_do:
  "aside st (fst q) \<Longrightarrow> (\<And>st x. aside st (fst (f st x))) \<Longrightarrow> aside st (fst (then_do q f))"
  by (cases q; cases "snd q") (auto intro: aside_trans)

lemma aside_over_budget: "aside st (fst (over_token_budget h k e r n b st))"
  unfolding over_token_budget_def
  by (intro aside_then_do aside_roll_back) (simp add: aside_still still_note)

lemma aside_rolled:
  assumes "still st st1" "\<And>st x. still st (fst (f st x))"
  shows "aside st (fst (then_do (undo_charge h k e r reason st1) f))"
  using assms aside_trans [OF aside_still aside_then_do [OF aside_roll_back aside_still]] by blast

lemma aside_failed: "aside st (fst (provider_failed h k e r arguments messages n error st))"
  unfolding provider_failed_def Let_def
  by (rule aside_rolled) (simp_all add: still_onto still_kill)

lemma aside_provider_settle:
  "aside st (fst (provider_settle h k actor e p r started messages n traced content st))"
  unfolding provider_settle_def Let_def
  by (rule aside_trans [OF aside_still [OF still_tick] aside_then_do [OF aside_settle aside_still]])
    (simp add: still_onto)

lemma aside_mcp_failed: "aside st (fst (mcp_failed h k e r channel arguments error st))"
  unfolding mcp_failed_def Let_def
  by (rule aside_rolled) (simp_all add: still_onto still_kill)

lemma aside_tool_failed: "aside st (fst (tool_failed h k e r channel arguments error st))"
  unfolding tool_failed_def Let_def
  by (auto intro!: aside_rolled aside_trans [OF aside_still aside_mcp_failed] simp: still_onto still_kill)

lemma aside_costs: "aside st (fst (tool_costs h k e r decision d st))"
  by (auto simp: tool_costs_def Let_def aside_settle split: GuardDecision.split
      intro!: aside_then_do aside_roll_back)

lemma aside_tool_settle:
  "aside st (fst (tool_settle h k actor e p r started c window original guard content st))"
  unfolding tool_settle_def Let_def
  by (rule aside_trans [OF aside_still [OF still_tick] aside_then_do [OF aside_costs aside_still]])
    (simp add: still_onto)

lemma aside_finish: "aside (fst turn) (fst (tool_finish h k actor e p r started c window d turn))"
proof -
  obtain st t where turn: "turn = (st, t)" by (cases turn)
  show ?thesis
  proof (cases "tt_content t")
    case (Inl x)
    then show ?thesis by (cases x) (simp_all add: tool_finish_def turn aside_tool_failed)
  next
    case (Inr content)
    obtain st1 g1 c1 where 1: "timeout_checked h k e (td_channel d) (tt_arguments t) (tt_guard t) content st = (st1, g1, c1)"
      by (metis prod_cases3)
    obtain st2 g2 c2 where 2: "return_checked h k e (td_channel d) (tt_arguments t) g1 c1 st1 = (st2, g2, c2)"
      by (metis prod_cases3)
    have "still st st2"
      using still_timeout_checked [OF still_refl, of st h k e "td_channel d" "tt_arguments t" "tt_guard t" content]
        still_return_checked [of st st1 h k e "td_channel d" "tt_arguments t" g1 c1] 1 2 by simp
    then show ?thesis
      using aside_trans [OF aside_still aside_tool_settle] by (simp add: tool_finish_def turn Inr 1 2)
  qed
qed

section \<open>Each path\<close>

lemma charge_through: "charge h k e n st = (st', r) \<Longrightarrow> aside st st'"
  using aside_charge [of st h k e n] by simp

lemma provider_path_world:
  assumes "provider_path h k actor e p r started messages st = (st', x)" "prefix ''provider:'' (te_capability_id e)"
  shows "aside st st' \<or>
     (\<exists>arguments. snd (prompt_hooks h k actor e messages st) = Inr arguments) \<and>
     (world_step h k e c m p)\<^sup>*\<^sup>* (xs_world st) (xs_world st') \<and> xs_tools st' = xs_tools st"
proof -
  obtain st1 y where y: "prompt_hooks h k actor e messages st = (st1, y)" by fastforce
  have 1: "still st st1" using still_hooks [OF still_refl, of st h k actor e messages] y by simp
  show ?thesis
  proof (cases y)
    case (Inl denied)
    then show ?thesis using assms(1) y 1 aside_still by (simp add: provider_path_def)
  next
    case (Inr arguments)
    obtain st2 ms n b where fit: "fit_messages h k e
        (parse_hook_prompt_messages (xh_prompt h) arguments messages) st1 = (st2, ms, n, b)" by (metis prod_cases4)
    have 2: "still st st2"
      using still_fit [OF 1, of h k e "parse_hook_prompt_messages (xh_prompt h) arguments messages"] fit by simp
    show ?thesis
    proof (cases "cn_max_tokens (te_constraints e) < n")
      case True
      then have "st' = fst (over_token_budget h k e r n b st2)"
        using assms(1) y Inr fit by (simp add: provider_path_def)
      then show ?thesis using aside_trans [OF aside_still [OF 2] aside_over_budget] by simp
    next
      case False
      obtain st3 z where chat: "on_world (xh_chat h ms p) st2 = (st3, z)" by fastforce
      have "world_step h k e c m p (xs_world st2) (fst (xh_chat h ms p (xs_world st2)))"
        using False fit_estimates [OF fit] by (intro ask_provider assms(2)) simp
      then have 3: "(world_step h k e c m p)\<^sup>*\<^sup>* (xs_world st) (xs_world st3)" "xs_tools st3 = xs_tools st"
        using chat still_parts [OF 2] by (auto simp: on_world_def split: prod.splits)
      have call: "provider_call h k actor e p r started arguments ms n st2 = (st', x)"
        using assms(1) y Inr fit False by (simp add: provider_path_def)
      have "aside st3 st'"
      proof (cases z)
        case (Inl err)
        then show ?thesis
          using call chat aside_failed [of st3 h k e r arguments ms n] by (cases err) (simp_all add: provider_call_def, metis fst_conv)
      next
        case (Inr traced)
        obtain st4 a where a: "provider_answer h k actor e arguments (pt_response traced) n st3 = (st4, a)" by fastforce
        have 4: "still st3 st4"
          using still_answer [OF still_refl, of st3 h k actor e arguments "pt_response traced" n] a by simp
        show ?thesis
        proof (cases a)
          case (Inl denied)
          then show ?thesis using call chat Inr a aside_still [OF 4] by (simp add: provider_call_def)
        next
          case (Inr content)
          then have "st' = fst (provider_settle h k actor e p r started ms n traced content st4)"
            using call chat a \<open>z = Inr traced\<close> by (simp add: provider_call_def)
          then show ?thesis using aside_trans [OF aside_still [OF 4] aside_provider_settle] by simp
        qed
      qed
      from aside_parts [OF this] show ?thesis using 3 y Inr by simp
    qed
  qed
qed


text \<open>The state in which the tool path reaches its decision, and the decision.\<close>

definition entered :: "RuntimeKernel \<Rightarrow> TaskEnvelope \<Rightarrow> 'w ExecState \<Rightarrow> 'w ExecState" where
  "entered k e st =
     st\<lparr> xs_windows := fst (try_enter_parallel_tool_window k (xs_windows st) (te_session_id e)) \<rparr>"

definition tool_decision ::
    "'w ExecHost \<Rightarrow> RuntimeKernel \<Rightarrow> string \<Rightarrow> TaskEnvelope \<Rightarrow> ForgedMcpToolManifest option \<Rightarrow>
     'w ExecState \<Rightarrow> GuardDecision" where
  "tool_decision h k actor e m st = gr_decision (td_guard (snd (decide_tool h k actor e m (entered k e st))))"

lemma tool_path_world:
  assumes "tool_path h k actor e p r started c m st = Some (st', x)"
  shows "xs_world st' = xs_world st \<and> xs_tools st' = xs_tools st \<or>
     is_ok (snd (try_enter_parallel_tool_window k (xs_windows st) (te_session_id e))) \<and>
     tool_decision h k actor e m st = Guard_Allow \<and>
     (world_step h k e c m p)\<^sup>*\<^sup>* (xs_world st) (xs_world st')"
proof -
  obtain windows w where w: "try_enter_parallel_tool_window k (xs_windows st) (te_session_id e) = (windows, w)"
    by fastforce
  have entered: "entered k e st = st\<lparr> xs_windows := windows \<rparr>" by (simp add: entered_def w)
  show ?thesis
  proof (cases w)
    case (Inl err)
    have same: "xs_world (fst (window_refused h k e reason (st\<lparr> xs_windows := windows \<rparr>))) = xs_world st \<and>
        xs_tools (fst (window_refused h k e reason (st\<lparr> xs_windows := windows \<rparr>))) = xs_tools st" for reason
      using still_parts(2,3) [OF still_note [of "st\<lparr> xs_windows := windows \<rparr>" h k "''runtime_blocks''" e]]
      by (simp add: window_refused_def)
    show ?thesis
    proof (cases err)
      case (Anyhow reason)
      then have "st' = fst (window_refused h k e reason (st\<lparr> xs_windows := windows \<rparr>))"
        using assms Inl by (cases "window_refused h k e reason (st\<lparr> xs_windows := windows \<rparr>)")
          (simp add: tool_path_def w)
      then show ?thesis using same by simp
    qed (use assms Inl in \<open>auto simp: tool_path_def w\<close>)
  next
    case (Inr y)
    obtain wg window where y: "y = (wg, window)" by (cases y)
    obtain st1 d where d: "decide_tool h k actor e m (st\<lparr> xs_windows := windows \<rparr>) = (st1, d)" by fastforce
    have 1: "xs_world st1 = xs_world st" "xs_tools st1 = xs_tools st"
      using still_parts [OF still_decide [OF still_refl, of "st\<lparr> xs_windows := windows \<rparr>" h k actor e m]] d by simp_all
    obtain turn where t: "act_on_decision h k e p c m d st1 = Some turn" using decision_returns by blast
    obtain st2 t2 where turn: "turn = (st2, t2)" by (cases turn)
    obtain st3 z where fin: "tool_finish h k actor e p r started c window d turn = (st3, z)" by fastforce
    have st': "st' = st3\<lparr> xs_windows := drop_window_guard (xs_windows st3) wg \<rparr>"
      using assms w Inr y d t fin by (simp add: tool_path_def leave_window_def)
    have 2: "xs_world st3 = xs_world st2" "xs_tools st3 = xs_tools st2"
      using aside_parts [OF aside_finish [of turn h k actor e p r started c window d]] turn fin by simp_all
    show ?thesis
    proof (cases "gr_decision (td_guard d) = Guard_Allow")
      case True
      have "(world_step h k e c m p)\<^sup>*\<^sup>* (xs_world st1) (xs_world st2)"
        using worked_decision [OF t [unfolded turn]] by (simp add: worked_def)
      then show ?thesis using True w Inr d st' 1 2 by (simp add: tool_decision_def entered)
    next
      case False
      then show ?thesis using still_parts [OF decision_still [OF t [unfolded turn]]] st' 1 2 by simp
    qed
  qed
qed

lemma case_if_option [simp]:
  "(case (if b then Some x else None) of None \<Rightarrow> y | Some z \<Rightarrow> f z) = (if b then f x else y)"
  by simp

lemma guard_report_allows:
  assumes "gr_decision (snd (guard_tool_execution_with_state k env j c clock db actor tool manifest)) = Guard_Allow"
  shows "case manifest of None \<Rightarrow> True | Some m \<Rightarrow> runnable m"
proof -
  have "gr_decision (guard_tool_execution k env actor tool manifest) = Guard_Allow"
    using assms by (rule contrapos_pp) (simp add: guard_tool_execution_with_state_def Let_def)
  then show ?thesis by (simp add: guard_allows)
qed

lemma enforced_decision:
  assumes "tool_decision h k actor e m st = Guard_Allow"
    "should_enforce_gate k (te_session_id e) (te_task_id e)"
  shows "\<not> cn_requires_human_approval (te_constraints e) \<and> (case m of None \<Rightarrow> True | Some x \<Rightarrow> runnable x)"
proof -
  define raw where "raw = extract_tool_arguments (xh_prompt h) (te_payload e)"
  define pre where "pre = apply_before_with_channel (xh_hooks h)
      (infer_hook_channel (te_capability_id e) m raw) (te_capability_id e) raw"
  define g where "g = snd (run_guard h k actor e m (record_hook_evidence h k e ''before'' pre (entered k e st)))"
  have "gr_decision (gate_decision k e (hk_allowed pre) (hk_error pre) g) = Guard_Allow"
    using assms(1)
    by (simp add: tool_decision_def decide_tool_def Let_def split_beta g_def flip: raw_def pre_def)
  moreover have g: "\<exists>clock db. g = snd (guard_tool_execution_with_state k (xh_env h) (dh_json h) (xh_circuit h) clock db actor
         (te_capability_id e) m)"
    by (auto simp: g_def run_guard_def on_db_def Let_def split_beta)
  ultimately have "gr_decision g = Guard_Allow \<and> \<not> cn_requires_human_approval (te_constraints e)"
    using assms(2)
    by (auto simp: gate_decision_def shadow_checked_def approval_checked_def hook_checked_def split: if_splits)
  then show ?thesis using g guard_report_allows by blast
qed

text \<open>
  C24: Whatever a task asks for, the world (providers, processes, wasm modules, attestation) and the
  tool registry are as before its execution, unless its identity is validated, its hard gate holds,
  no degrade profile in force stops it and its budget is reserved. Then a provider is only asked
  once the hooks before it have let it through, and only with messages within the token budget; a
  tool or a process only runs with a place in the session's parallel window and the decision Allow,
  which with the gate enforced means that no human approval is asked for and that its manifest, if it
  has one, is active, verified, trusted, healthy and of low risk; and what runs is a wasm module that
  the arguments name, or the process that the sandbox admits under the constraints of the task.
\<close>

theorem only_what_is_let_through:
  "case runtime_execute h k actor_id envelope manifest preferred_model st of
     None \<Rightarrow> False
   | Some (st', r) \<Rightarrow>
       xs_world st' = xs_world st \<and> xs_tools st' = xs_tools st \<or>
       (\<exists>st1 reservation. let_through h k envelope manifest st = Some (st1, reservation) \<and>
          (world_step h k envelope (classify_runtime_class envelope manifest (tg_allow_shell (xs_tools st)))
             manifest preferred_model)\<^sup>*\<^sup>* (xs_world st) (xs_world st') \<and>
          (if prefix ''provider:'' (te_capability_id envelope)
           then xs_tools st' = xs_tools st \<and>
             (\<exists>arguments. snd (prompt_hooks h k actor_id envelope
                (extract_provider_messages (xh_prompt h) (te_payload envelope)) st1) = Inr arguments)
           else is_ok (snd (try_enter_parallel_tool_window k (xs_windows st) (te_session_id envelope))) \<and>
             tool_decision h k actor_id envelope manifest st1 = Guard_Allow \<and>
             (if should_enforce_gate k (te_session_id envelope) (te_task_id envelope)
              then \<not> cn_requires_human_approval (te_constraints envelope) \<and>
                   (case manifest of None \<Rightarrow> True | Some m \<Rightarrow> runnable m)
              else True)))"
proof -
  let ?c = "classify_runtime_class envelope manifest (tg_allow_shell (xs_tools st))"
  let ?ms = "extract_provider_messages (xh_prompt h) (te_payload envelope)"
  obtain st' r where run: "runtime_execute h k actor_id envelope manifest preferred_model st = Some (st', r)"
    using execute_runs by blast
  have through: ?thesis if "aside st st'"
    using aside_parts [OF that] run by simp
  obtain st1 active where active: "active_degrade_profile h (te_session_id envelope) (tick (tick st)) = (st1, active)"
    by fastforce
  have 1: "still st st1"
    using still_active [of "tick (tick st)" h "te_session_id envelope"] active
      still_trans [OF still_trans [OF still_tick still_tick]] by simp
  let ?tokens = "if ?c = Class_Provider then estimate_tokens ?ms else 0"
  obtain st2 y where charged: "charge h k envelope ?tokens st1 = (st2, y)" by fastforce
  have 2: "aside st st2" by (rule aside_trans [OF aside_still [OF 1] charge_through [OF charged]])
  show ?thesis
  proof (cases "validate_execution_identity (xh_codecs h) (es_db st) envelope (current_time_ms h st) = Ok () \<and>
      validate_hardgate_requirement (te_payload envelope) = None \<and>
      Option.bind active (degrade_block envelope) = None \<and> is_ok y")
    case True
    then obtain reservation where y: "y = Inr reservation" by (cases y) simp_all
    have lt: "let_through h k envelope manifest st = Some (st2, reservation)"
      using True active charged y by (simp add: let_through_def)
    show ?thesis
    proof (cases "prefix ''provider:'' (te_capability_id envelope)")
      case provider: True
      then have c: "?c = Class_Provider" by (simp add: classify_runtime_class_def)
      have "provider_path h k actor_id envelope preferred_model reservation (current_time_ms h (tick st)) ?ms st2 = (st', r)"
        using run True active charged y provider c by (simp add: runtime_execute_def Let_def)
      from provider_path_world [OF this provider, of ?c manifest] show ?thesis
        using through 2 lt run provider aside_trans aside_parts [OF 2] by auto
    next
      case tool: False
      then have "tool_path h k actor_id envelope preferred_model reservation (current_time_ms h (tick st)) ?c manifest st2 =
          Some (st', r)"
        using run True active charged y by (simp add: runtime_execute_def Let_def split: if_splits)
      from tool_path_world [OF this] show ?thesis
        using lt run tool aside_parts [OF 2] enforced_decision [of h k actor_id envelope manifest st2] by auto
    qed
  next
    case False
    have gate: "still st (fst (hardgate_block h k envelope reason (tick (tick st))))" for reason
      by (simp add: hardgate_block_def still_onto)
    have "aside st st'"
    proof (cases "validate_execution_identity (xh_codecs h) (es_db st) envelope (current_time_ms h st)")
      case (Inl e)
      then show ?thesis using run by (auto simp: runtime_execute_def aside_still still_tick)
    next
      case identity: (Inr u)
      show ?thesis
      proof (cases "validate_hardgate_requirement (te_payload envelope)")
        case (Some reason)
        then have "st' = fst (hardgate_block h k envelope reason (tick (tick st)))"
          using run identity by (cases "hardgate_block h k envelope reason (tick (tick st))")
            (simp add: runtime_execute_def Let_def)
        then show ?thesis using aside_still [OF gate] by simp
      next
        case gate: None
        show ?thesis
        proof (cases "Option.bind active (degrade_block envelope)")
          case (Some r')
          then show ?thesis
            using run identity gate active aside_still [OF 1] by (simp add: runtime_execute_def Let_def)
        next
          case None
          then obtain e where "y = Inl e" using False identity gate by (cases y) auto
          then show ?thesis using run identity gate None active charged 2 by (simp add: runtime_execute_def Let_def)
        qed
      qed
    qed
    then show ?thesis by (rule through)
  qed
qed

end
