(* ===== verification/Runtime_Settlement.thy ===== *)
theory Runtime_Settlement
  imports Runtime_Admission Runtime_Billing
begin

text \<open>
  The reservation of an execution: on which ways out of \<open>runtime_execute\<close> it is settled or rolled back, and
  on which it stays behind.
\<close>

section \<open>Books\<close>

definition books_ok :: "'w ExecHost \<Rightarrow> 'w ExecState \<Rightarrow> bool" where
  "books_ok h st \<longleftrightarrow> billing_ok (xh_codecs h) (es_db st) \<and> own_ids (xh_codecs h) (es_db st)"

lemma frame_reads:
  assumes "frame ''billing:'' db db'"
  shows "get_budget_account c db' t a = get_budget_account c db t a"
    "get_quota_window c db' t a w = get_quota_window c db t a w"
    "reserved_of c db' t a = reserved_of c db t a"
proof -
  show account: "get_budget_account c db' t a = get_budget_account c db t a" for t a
    unfolding get_budget_account_def by (rule frame_kv [OF assms]) (simp add: account_key_def)
  show "get_quota_window c db' t a w = get_quota_window c db t a w"
    unfolding get_quota_window_def by (rule frame_kv [OF assms]) (simp add: window_key_def)
  show "reserved_of c db' t a = reserved_of c db t a" by (simp add: reserved_of_def account)
qed

lemma frame_books:
  assumes "frame ''billing:'' (es_db st) (es_db st')" "books_ok h st"
  shows "books_ok h st'"
  using assms frame_ok [OF assms(1)]
  by (simp add: books_ok_def billing_ok_def own_ids_def frame_reads [OF assms(1)])

text \<open>
  What an operation that ends a reservation does: the reserved amount is given back to its account,
  and no other account changes its own.
\<close>

definition good_reservation :: "RuntimeKernel \<Rightarrow> BudgetReservation option \<Rightarrow> bool" where
  "good_reservation k reservation \<longleftrightarrow>
     (case reservation of
        None \<Rightarrow> True
      | Some r \<Rightarrow> rk_budget_enforced k \<and> plain_account (br_tenant_id r) (br_account_id r))"

definition freed ::
    "'w ExecHost \<Rightarrow> BudgetReservation option \<Rightarrow> 'w ExecState \<Rightarrow> 'w ExecState \<Rightarrow> bool" where
  "freed h reservation st st' \<longleftrightarrow> books_ok h st' \<and>
     (\<forall>t a. plain_account t a \<longrightarrow>
        reserved_of (xh_codecs h) (es_db st') t a =
          reserved_of (xh_codecs h) (es_db st) t a -
            (case reservation of
               None \<Rightarrow> 0 | Some r \<Rightarrow> if of_account t a r then unat (br_reserved_micros r) else 0))"

lemma freed_frame:
  assumes "frame ''billing:'' (es_db a) (es_db b)" "freed h r b c" "frame ''billing:'' (es_db c) (es_db d)"
  shows "freed h r a d"
  using assms(2) frame_books [OF assms(3)]
  by (simp add: freed_def frame_reads [OF assms(1)] frame_reads [OF assms(3)])

lemma billed_frees:
  assumes "billed (xh_codecs h) (es_db st) (es_db st') x' y es" "books_ok h st"
    "get_budget_account (xh_codecs h) (es_db st) (br_tenant_id r) (br_account_id r) = Some x"
    "ba_tenant_id x' = br_tenant_id r" "ba_account_id x' = br_account_id r"
    "ba_reserved_micros x' = saturating_sub (ba_reserved_micros x) (br_reserved_micros r)"
  shows "freed h (Some r) st st'"
proof -
  have "books_ok h st'"
    using assms(1,2) billed_ok [OF assms(1)] own_ids_billed [OF _ assms(1)] by (simp add: books_ok_def)
  moreover have "unat (ba_reserved_micros x') = reserved_of (xh_codecs h) (es_db st) (br_tenant_id r) (br_account_id r) -
      unat (br_reserved_micros r)"
    using assms(3,6) by (simp add: reserved_of_def unat_saturating_sub)
  ultimately show ?thesis
    using assms(4,5) by (auto simp: freed_def reserved_of_billed [OF assms(1)] of_account_def)
qed

lemma own_account:
  "own_ids c db \<Longrightarrow> plain_account t a \<Longrightarrow> get_budget_account c db t a = Some x \<Longrightarrow>
     ba_tenant_id x = t \<and> ba_account_id x = a"
  unfolding own_ids_def by blast

lemma roll_back_frees:
  assumes "undo_charge h k e reservation reason st = (st', Inr u)" "books_ok h st"
    "good_reservation k reservation"
  shows "freed h reservation st st'"
proof (cases reservation)
  case None
  then show ?thesis using assms by (simp add: undo_charge_def freed_def)
next
  case (Some r)
  have roll: "rollback_budget k (xh_codecs h) (es_db st) e r reason (current_time_ms h st) = (es_db st', Inr u)"
    using assms(1) Some by (auto simp: undo_charge_def on_db_def split: prod.splits)
  have "rk_budget_enforced k" "billing_ok (xh_codecs h) (es_db st)" "own_ids (xh_codecs h) (es_db st)"
      "plain_account (br_tenant_id r) (br_account_id r)"
    using assms(2,3) Some by (simp_all add: good_reservation_def books_ok_def)
  from rollback_effect [OF roll this] obtain x y es where
      "get_budget_account (xh_codecs h) (es_db st) (br_tenant_id r) (br_account_id r) = Some x"
      "billed (xh_codecs h) (es_db st) (es_db st')
         (x\<lparr> ba_reserved_micros := saturating_sub (ba_reserved_micros x) (br_reserved_micros r),
             ba_updated_at_ms := current_time_ms h st \<rparr>) y es" by metis
  moreover from this have "ba_tenant_id x = br_tenant_id r \<and> ba_account_id x = br_account_id r"
    using assms(2,3) Some own_account by (auto simp: books_ok_def good_reservation_def)
  ultimately show ?thesis using Some assms(2) billed_frees by fastforce
qed

lemma settle_frees:
  assumes "settle h k e reservation n i d u st = (st', Inr b)" "books_ok h st"
    "good_reservation k reservation"
  shows "freed h reservation st st'"
proof (cases reservation)
  case None
  then show ?thesis using assms by (simp add: settle_def freed_def)
next
  case (Some r)
  have set: "settle_budget k (xh_codecs h) (es_db st) e r n i d (current_time_ms h st) = (es_db st', Inr b)"
    using assms(1) Some by (auto simp: settle_def on_db_def split: prod.splits)
  have "rk_budget_enforced k" "billing_ok (xh_codecs h) (es_db st)" "own_ids (xh_codecs h) (es_db st)"
      "plain_account (br_tenant_id r) (br_account_id r)"
    using assms(2,3) Some by (simp_all add: good_reservation_def books_ok_def)
  from settle_effect [OF set this] obtain x y es where
      "get_budget_account (xh_codecs h) (es_db st) (br_tenant_id r) (br_account_id r) = Some x"
      "billed (xh_codecs h) (es_db st) (es_db st')
         (x\<lparr> ba_reserved_micros := saturating_sub (ba_reserved_micros x) (br_reserved_micros r),
             ba_spent_micros := saturating_add (ba_spent_micros x) (cb_total_cost_micros b),
             ba_updated_at_ms := current_time_ms h st \<rparr>) y es" by metis
  moreover from this have "ba_tenant_id x = br_tenant_id r \<and> ba_account_id x = br_account_id r"
    using assms(2,3) Some own_account by (auto simp: books_ok_def good_reservation_def)
  ultimately show ?thesis using Some assms(2) billed_frees by fastforce
qed

section \<open>The provider path\<close>

lemma then_do_InrE:
  assumes "then_do q f = (st', Inr x)"
  obtains st1 y where "q = (st1, Inr y)" "f st1 y = (st', Inr x)"
  using assms by (cases q; cases "snd q") auto

lemma rolled_frees:
  assumes "then_do (undo_charge h k e reservation reason st1) (\<lambda>st _. (f st, g)) = (st', Inr x)"
    "still st st1" "\<And>st. still st (f st)" "books_ok h st" "good_reservation k reservation"
  shows "freed h reservation st st'"
  using assms(1)
proof (rule then_do_InrE)
  fix st2 y assume roll: "undo_charge h k e reservation reason st1 = (st2, Inr y)" "(f st2, g) = (st', Inr x)"
  have "freed h reservation st1 st2"
    using roll(1) frame_books [OF still_parts(4) [OF assms(2)] assms(4)] assms(5) by (rule roll_back_frees)
  then show ?thesis
    using freed_frame [OF still_parts(4) [OF assms(2)] _ still_parts(4) [OF assms(3)]] roll(2) by auto
qed

lemma settled_frees:
  assumes "then_do (settle h k e reservation n i d u st1) f = (st', Inr x)" "still st st1"
    "\<And>st y. still st (fst (f st y))" "books_ok h st" "good_reservation k reservation"
  shows "freed h reservation st st'"
  using assms(1)
proof (rule then_do_InrE)
  fix st2 y assume set: "settle h k e reservation n i d u st1 = (st2, Inr y)" "f st2 y = (st', Inr x)"
  have "freed h reservation st1 st2"
    using set(1) frame_books [OF still_parts(4) [OF assms(2)] assms(4)] assms(5) by (rule settle_frees)
  moreover have "still st2 st'" using assms(3) [of st2 y] set(2) by simp
  ultimately show ?thesis using freed_frame [OF still_parts(4) [OF assms(2)] _ still_parts(4)] by blast
qed

lemma failed_frees:
  assumes "provider_failed h k e reservation arguments messages n error st = (st', Inr x)" "books_ok h st"
    "good_reservation k reservation"
  shows "freed h reservation st st'"
  by (rule rolled_frees [OF assms(1) [unfolded provider_failed_def Let_def] _ _ assms(2,3)])
    (simp_all add: still_onto still_kill)

lemma provider_settle_frees:
  assumes "provider_settle h k actor e p reservation started messages n traced content st = (st', Inr x)"
    "books_ok h st" "good_reservation k reservation"
  shows "freed h reservation st st'"
  by (rule settled_frees [OF assms(1) [unfolded provider_settle_def Let_def] _ _ assms(2,3)])
    (simp_all add: still_onto still_tick)

text \<open>Every denial on the provider path answers Blocked; it leaves the reservation behind.\<close>

lemma denied_blocked:
  "gr_decision (xr_guard_report (snd (prompt_denied h k actor e arguments outcome t label reason st))) = Guard_Blocked"
  by (simp add: prompt_denied_def withheld_def split_beta)

lemma hooks_blocked:
  "snd (prompt_hooks h k actor e messages st) = Inl x \<Longrightarrow> gr_decision (xr_guard_report x) = Guard_Blocked"
  using denied_blocked by (auto simp: prompt_hooks_def Let_def split: if_splits)

lemma answer_blocked:
  "snd (provider_answer h k actor e arguments response n st) = Inl x \<Longrightarrow>
     gr_decision (xr_guard_report x) = Guard_Blocked"
proof -
  have denied: "snd (answer_denied h k actor e arguments response n outcome t label reason st) = Inl x \<Longrightarrow>
      gr_decision (xr_guard_report x) = Guard_Blocked" for outcome t label reason st
    using denied_blocked by (auto simp: answer_denied_def)
  have return: "snd (provider_return h k actor e arguments response n content st) = Inl x \<Longrightarrow>
      gr_decision (xr_guard_report x) = Guard_Blocked" for content st
    using denied by (auto simp: provider_return_def Let_def split: if_splits)
  show "snd (provider_answer h k actor e arguments response n st) = Inl x \<Longrightarrow> ?thesis"
    using denied return by (auto simp: provider_answer_def Let_def split_beta split: if_splits)
qed

lemma provider_path_frees:
  assumes "provider_path h k actor e p reservation started messages st = (st', Inr x)" "books_ok h st"
    "good_reservation k reservation"
  shows "freed h reservation st st' \<or>
    frame ''billing:'' (es_db st) (es_db st') \<and> gr_decision (xr_guard_report x) = Guard_Blocked"
proof -
  obtain st1 y where y: "prompt_hooks h k actor e messages st = (st1, y)" by fastforce
  have 1: "still st st1" using still_hooks [OF still_refl, of st h k actor e messages] y by simp
  show ?thesis
  proof (cases y)
    case (Inl denied)
    then show ?thesis
      using assms(1) y still_parts(4) [OF 1] hooks_blocked [of h k actor e messages st] by (simp add: provider_path_def)
  next
    case (Inr arguments)
    obtain st2 ms n b where fit: "fit_messages h k e
        (parse_hook_prompt_messages (xh_prompt h) arguments messages) st1 = (st2, ms, n, b)" by (metis prod_cases4)
    have 2: "still st st2"
      using still_fit [OF 1, of h k e "parse_hook_prompt_messages (xh_prompt h) arguments messages"] fit by simp
    have "\<not> cn_max_tokens (te_constraints e) < n"
    proof
      assume "cn_max_tokens (te_constraints e) < n"
      then have "over_token_budget h k e reservation n b st2 = (st', Inr x)"
        using assms(1) y Inr fit by (simp add: provider_path_def)
      then show False unfolding over_token_budget_def by (rule then_do_InrE) simp
    qed
    then have call: "provider_call h k actor e p reservation started arguments ms n st2 = (st', Inr x)"
      using assms(1) y Inr fit by (simp add: provider_path_def)
    obtain st3 z where chat: "on_world (xh_chat h ms p) st2 = (st3, z)" by fastforce
    have "es_db st3 = es_db st2" using chat by (auto simp: on_world_def split: prod.splits)
    then have 3: "frame ''billing:'' (es_db st) (es_db st3)" using still_parts(4) [OF 2] by simp
    note books = frame_books [OF 3 assms(2)]
    show ?thesis
    proof (cases z)
      case (Inl err)
      then obtain error where "provider_failed h k e reservation arguments ms n error st3 = (st', Inr x)"
        using call chat by (cases err) (simp_all add: provider_call_def)
      from failed_frees [OF this books assms(3)] show ?thesis using freed_frame [OF 3 _ frame_refl] by blast
    next
      case traced: (Inr traced)
      obtain st4 a where a: "provider_answer h k actor e arguments (pt_response traced) n st3 = (st4, a)" by fastforce
      have 4: "frame ''billing:'' (es_db st) (es_db st4)"
        using still_parts(4) [OF still_answer [OF still_refl, of st3 h k actor e arguments "pt_response traced" n]] a
        by (auto intro: frame_trans [OF 3])
      show ?thesis
      proof (cases a)
        case (Inl denied)
        then show ?thesis
          using call chat traced a 4 answer_blocked [of h k actor e arguments "pt_response traced" n st3]
          by (simp add: provider_call_def)
      next
        case (Inr content)
        then have "provider_settle h k actor e p reservation started ms n traced content st4 = (st', Inr x)"
          using call chat traced a by (simp add: provider_call_def)
        from provider_settle_frees [OF this frame_books [OF 4 assms(2)] assms(3)]
        show ?thesis using freed_frame [OF 4 _ frame_refl] by blast
      qed
    qed
  qed
qed


section \<open>The tool path\<close>

lemma costs_frees:
  assumes "tool_costs h k e reservation decision d st = (st', Inr b)" "books_ok h st"
    "good_reservation k reservation"
  shows "freed h reservation st st'"
proof (cases reservation)
  case None
  then show ?thesis using assms by (simp add: tool_costs_def freed_def)
next
  case (Some r)
  show ?thesis
  proof (cases decision)
    case Guard_Allow
    then show ?thesis using assms settle_frees by (simp add: tool_costs_def Let_def Some)
  next
    case Guard_RequiresApproval
    then have "then_do (undo_charge h k e reservation ''requires_human_approval'' st)
        (\<lambda>st _. (st, Ok (cost_breakdown 0 0 0))) = (st', Inr b)"
      using assms(1) Some by (simp add: tool_costs_def Let_def)
    from rolled_frees [OF this _ _ assms(2,3)] show ?thesis by simp
  next
    case Guard_Blocked
    then have "then_do (undo_charge h k e reservation ''runtime_guard_blocked'' st)
        (\<lambda>st _. (st, Ok (cost_breakdown 0 0 0))) = (st', Inr b)"
      using assms(1) Some by (simp add: tool_costs_def Let_def)
    from rolled_frees [OF this _ _ assms(2,3)] show ?thesis by simp
  qed
qed

lemma tool_settle_frees:
  assumes "tool_settle h k actor e p reservation started c window original guard content st = (st', Inr x)"
    "books_ok h st" "good_reservation k reservation"
  shows "freed h reservation st st'"
  using assms(1) unfolding tool_settle_def Let_def
proof (rule then_do_InrE)
  fix st2 y
  assume costs: "tool_costs h k e reservation (gr_decision guard)
      (saturating_sub (current_time_ms h st) started) (tick st) = (st2, Inr y)"
    and rest: "(fst (record_replay_snapshot h k actor e p None ''tool'' (te_payload e) content
        [siphash_digest h ''tool_input'' (digest_value h (te_payload e)),
         siphash_digest h ''tool_output'' (digest_text h content)] (tool_boundary c) None
        (note_task h k (if gr_decision guard = Guard_Blocked then ''runtime_blocks'' else ''task_runs'') e
          (J_Object ([(''decision'', J_String (debug_guard (gr_decision guard))),
             (''original_decision'', J_String (debug_guard original)),
             (''enforced'', J_Bool (should_enforce_gate k (te_session_id e) (te_task_id e))),
             (''reason'', J_String (gr_reason guard))] @ lease_json e @
             [(''cost_breakdown'', cost_json y),
              (''parallel_tool_window'',
                 J_Object [(''active'', J_Number (fst window)), (''limit'', J_Number (snd window))])])) st2)),
       Ok \<lparr> xr_content = content, xr_guard_report = guard, xr_provider_response = None,
            xr_estimated_prompt_tokens = None \<rparr>) = (st', Inr x)"
  have "still st2 st'" using rest by (auto simp: still_onto)
  moreover have "freed h reservation (tick st) st2"
    using costs frame_books [OF still_parts(4) [OF still_tick] assms(2)] assms(3) by (rule costs_frees)
  ultimately show ?thesis using freed_frame [OF still_parts(4) [OF still_tick] _ still_parts(4)] by blast
qed

lemma finish_frees:
  assumes "tool_finish h k actor e p reservation started c window d (st, t) = (st', Inr x)" "books_ok h st"
    "good_reservation k reservation"
  shows "freed h reservation st st'"
proof (cases "tt_content t")
  case (Inl err)
  then obtain error where failed: "tool_failed h k e reservation (td_channel d) (tt_arguments t) error st = (st', Inr x)"
    using assms(1) by (cases err) (simp_all add: tool_finish_def)
  obtain st1 msg where st1: "still st st1" and mcp:
      "mcp_failed h k e reservation (td_channel d) (tt_arguments t) msg st1 = (st', Inr x)"
  proof (cases "prefix ''mcp::'' (te_capability_id e)")
    case True
    then show thesis
      using failed by (intro that) (auto simp: tool_failed_def Let_def still_onto)
  next
    case False
    have "\<not> then_do (undo_charge h k e reservation ''execution_error'' s) (\<lambda>st _. (f st, Err y)) = (st', Inr x)"
      for s f y by (auto elim: then_do_InrE)
    then show thesis using failed False by (simp add: tool_failed_def Let_def)
  qed
  have "freed h reservation st1 st'"
    by (rule rolled_frees [OF mcp [unfolded mcp_failed_def Let_def] _ _ _ assms(3)])
      (simp_all add: still_onto still_kill frame_books [OF still_parts(4) [OF st1] assms(2)])
  then show ?thesis using freed_frame [OF still_parts(4) [OF st1] _ frame_refl] by blast
next
  case (Inr content)
  obtain st1 g1 c1 where 1: "timeout_checked h k e (td_channel d) (tt_arguments t) (tt_guard t) content st = (st1, g1, c1)"
    by (metis prod_cases3)
  obtain st2 g2 c2 where 2: "return_checked h k e (td_channel d) (tt_arguments t) g1 c1 st1 = (st2, g2, c2)"
    by (metis prod_cases3)
  have "still st st2"
    using still_timeout_checked [OF still_refl, of st h k e "td_channel d" "tt_arguments t" "tt_guard t" content]
      still_return_checked [of st st1 h k e "td_channel d" "tt_arguments t" g1 c1] 1 2 by simp
  note frame = still_parts(4) [OF this]
  have "tool_settle h k actor e p reservation started c window (td_original d) g2 c2 st2 = (st', Inr x)"
    using assms(1) by (simp add: tool_finish_def Inr 1 2)
  from tool_settle_frees [OF this frame_books [OF frame assms(2)] assms(3)]
  show ?thesis using freed_frame [OF frame _ frame_refl] by blast
qed

lemma tool_path_frees:
  assumes "tool_path h k actor e p reservation started c m st = Some (st', Inr x)" "books_ok h st"
    "good_reservation k reservation" "registry_ok (xh_tool h) (xs_tools st)"
  shows "freed h reservation st st' \<or>
    frame ''billing:'' (es_db st) (es_db st') \<and> gr_decision (xr_guard_report x) = Guard_Blocked \<and>
    \<not> is_ok (snd (try_enter_parallel_tool_window k (xs_windows st) (te_session_id e)))"
proof -
  obtain windows w where w: "try_enter_parallel_tool_window k (xs_windows st) (te_session_id e) = (windows, w)"
    by fastforce
  let ?st = "st\<lparr> xs_windows := windows \<rparr>"
  show ?thesis
  proof (cases w)
    case (Inl err)
    then obtain reason where refused: "apsnd Ok (window_refused h k e reason ?st) = (st', Inr x)"
      using assms(1) by (cases err) (simp_all add: tool_path_def w)
    then have "gr_decision (xr_guard_report x) = Guard_Blocked"
      by (auto simp: window_refused_def withheld_def)
    moreover have "frame ''billing:'' (es_db st) (es_db st')"
      using refused still_parts(4) [OF still_note [of ?st h k "''runtime_blocks''" e]] by (auto simp: window_refused_def)
    ultimately show ?thesis using w Inl by simp
  next
    case (Inr y)
    obtain wg window where y: "y = (wg, window)" by (cases y)
    obtain st1 d where d: "decide_tool h k actor e m ?st = (st1, d)" by fastforce
    have 1: "still ?st st1" using still_decide [OF still_refl, of ?st h k actor e m] d by simp
    obtain st2 t where t: "act_on_decision h k e p c m d st1 = Some (st2, t)" using decision_returns by fastforce
    obtain st3 where fin: "tool_finish h k actor e p reservation started c window d (st2, t) = (st3, Inr x)"
        "es_db st' = es_db st3"
      using assms(1) w Inr y d t
      by (cases "tool_finish h k actor e p reservation started c window d (st2, t)")
        (auto simp: tool_path_def leave_window_def)
    have "frame ''billing:'' (es_db st1) (es_db st2)"
      using worked_decision [OF t] still_parts [OF 1] assms(4) by (simp add: worked_def)
    then have 2: "frame ''billing:'' (es_db st) (es_db st2)"
      using still_parts(4) [OF 1] by (auto intro: frame_trans)
    have "freed h reservation st2 st3"
      by (rule finish_frees [OF fin(1) frame_books [OF 2 assms(2)] assms(3)])
    then have "freed h reservation st st3" using freed_frame [OF 2 _ frame_refl] by blast
    then show ?thesis using fin(2) by (simp add: freed_def books_ok_def)
  qed
qed


section \<open>The whole execution\<close>

definition reserved_in :: "'w ExecHost \<Rightarrow> 'w ExecState \<Rightarrow> string \<Rightarrow> string \<Rightarrow> nat" where
  "reserved_in h st t a = reserved_of (xh_codecs h) (es_db st) t a"

lemma charge_holds:
  assumes "charge h k e n st = (st', Inr reservation)" "books_ok h st" "plain_envelope e"
    and "reserved_in h st (tenant_of e) (account_id_for e) + max_estimate < 2 ^ 64"
  shows "books_ok h st' \<and> good_reservation k reservation \<and>
     (\<forall>r. reservation = Some r \<longrightarrow> br_tenant_id r = tenant_of e \<and> br_account_id r = account_id_for e \<and>
        br_reserved_micros r = estimate_precharge_micros e n) \<and>
     (\<forall>t a. plain_account t a \<longrightarrow> reserved_in h st' t a = reserved_in h st t a +
        (case reservation of
           None \<Rightarrow> 0 | Some r \<Rightarrow> if of_account t a r then unat (br_reserved_micros r) else 0))"
proof -
  let ?c = "xh_codecs h"
  have pre: "precharge_budget k ?c (es_db st) e n (current_time_ms h st) = (es_db st', Inr reservation)"
    using assms(1) by (auto simp: charge_def on_db_def split: prod.splits)
  have ok: "billing_ok ?c (es_db st)" "own_ids ?c (es_db st)" using assms(2) by (simp_all add: books_ok_def)
  show ?thesis
  proof (cases reservation)
    case None
    have "es_db st' = es_db st"
      using pre None by (auto simp: precharge_budget_def Let_def take_precharge_def block_precharge_def
          elim!: then_do_InrE split: if_splits sum.splits)
    then show ?thesis using None assms(2) by (simp add: good_reservation_def books_ok_def reserved_in_def)
  next
    case (Some r)
    have "rk_budget_enforced k" using pre Some by (auto simp: precharge_budget_def split: if_splits)
    from precharge_taken [OF pre [unfolded Some] ok assms(3)] obtain x y es where
        x: "x = account_of k ?c (es_db st) e (current_time_ms h st)"
        and r: "br_tenant_id r = tenant_of e" "br_account_id r = account_id_for e"
        "br_reserved_micros r = estimate_precharge_micros e n"
        and billed: "billed ?c (es_db st) (es_db st')
          (x\<lparr> ba_reserved_micros := saturating_add (ba_reserved_micros x) (br_reserved_micros r),
              ba_updated_at_ms := current_time_ms h st \<rparr>) y es" by metis
    have ids: "ba_tenant_id x = tenant_of e" "ba_account_id x = account_id_for e"
      using account_of_ids [OF ok(2) assms(3)] by (simp_all add: x)
    have "unat (saturating_add (ba_reserved_micros x) (br_reserved_micros r)) =
        reserved_in h st (tenant_of e) (account_id_for e) + unat (br_reserved_micros r)"
      using assms(4) estimate_le [of e n] r(3)
      by (simp add: unat_saturating_add x account_of_sums reserved_in_def)
    then show ?thesis
      using Some r ids \<open>rk_budget_enforced k\<close> billed_ok [OF billed] own_ids_billed [OF ok(2) billed]
        plain_envelope_account [OF assms(3)]
      by (auto simp: good_reservation_def books_ok_def reserved_in_def reserved_of_billed [OF billed] of_account_def)
  qed
qed

text \<open>What \<open>runtime_execute\<close> does once a task is let through.\<close>

lemma execute_cases:
  assumes "runtime_execute h k actor e m p st = Some (st', Inr x)"
  obtains "still st st'"
  | st1 st2 reservation n where "still st st1" "charge h k e n st1 = (st2, Inr reservation)"
      "let_through h k e m st = Some (st2, reservation)" "prefix ''provider:'' (te_capability_id e)"
      "provider_path h k actor e p reservation (current_time_ms h (tick st))
         (extract_provider_messages (xh_prompt h) (te_payload e)) st2 = (st', Inr x)"
  | st1 st2 reservation n where "still st st1" "charge h k e n st1 = (st2, Inr reservation)"
      "let_through h k e m st = Some (st2, reservation)" "\<not> prefix ''provider:'' (te_capability_id e)"
      "tool_path h k actor e p reservation (current_time_ms h (tick st))
         (classify_runtime_class e m (tg_allow_shell (xs_tools st))) m st2 = Some (st', Inr x)"
proof -
  let ?c = "classify_runtime_class e m (tg_allow_shell (xs_tools st))"
  let ?ms = "extract_provider_messages (xh_prompt h) (te_payload e)"
  let ?tokens = "if ?c = Class_Provider then estimate_tokens ?ms else 0"
  obtain st1 active where active: "active_degrade_profile h (te_session_id e) (tick (tick st)) = (st1, active)"
    by fastforce
  have 1: "still st st1"
    using still_active [of "tick (tick st)" h "te_session_id e"] active
      still_trans [OF still_trans [OF still_tick still_tick]] by simp
  have id: "validate_execution_identity (xh_codecs h) (es_db st) e (current_time_ms h st) = Ok ()"
    using assms by (auto simp: runtime_execute_def split: sum.splits)
  show thesis
  proof (cases "validate_hardgate_requirement (te_payload e)")
    case (Some reason)
    then have "st' = fst (hardgate_block h k e reason (tick (tick st)))"
      using assms id by (cases "hardgate_block h k e reason (tick (tick st))") (simp add: runtime_execute_def Let_def)
    then show thesis using that(1) by (simp add: hardgate_block_def still_onto)
  next
    case gate: None
    show thesis
    proof (cases "Option.bind active (degrade_block e)")
      case (Some r)
      then show thesis using assms id gate active 1 that(1) by (simp add: runtime_execute_def Let_def)
    next
      case None
      then obtain st2 reservation where charged: "charge h k e ?tokens st1 = (st2, Inr reservation)"
        using assms id gate active
        by (cases "charge h k e ?tokens st1"; cases "snd (charge h k e ?tokens st1)") (auto simp: runtime_execute_def Let_def)
      have lt: "let_through h k e m st = Some (st2, reservation)"
        using None id gate active charged by (simp add: let_through_def)
      show thesis
      proof (cases "prefix ''provider:'' (te_capability_id e)")
        case True
        then have "?c = Class_Provider" by (simp add: classify_runtime_class_def)
        then show thesis
          using assms True None id gate active charged lt by (intro that(2) [OF 1 charged lt]) (simp_all add: runtime_execute_def Let_def)
      next
        case False
        then show thesis
          using assms None id gate active charged lt
          by (intro that(3) [OF 1 charged lt]) (simp_all add: runtime_execute_def Let_def split: if_splits)
      qed
    qed
  qed
qed

lemma after_the_path:
  assumes "still st st1" "charge h k e n st1 = (st2, Inr reservation)" "books_ok h st" "plain_envelope e"
    and "reserved_in h st (tenant_of e) (account_id_for e) + max_estimate < 2 ^ 64" "plain_account t a"
    and ended: "books_ok h st2 \<Longrightarrow> good_reservation k reservation \<Longrightarrow>
      freed h reservation st2 st' \<or> frame ''billing:'' (es_db st2) (es_db st') \<and> Q"
  shows "books_ok h st' \<and>
    (reserved_in h st' t a = reserved_in h st t a \<or>
     Q \<and> t = tenant_of e \<and> a = account_id_for e \<and>
     (\<exists>tokens. reserved_in h st' t a = reserved_in h st t a + unat (estimate_precharge_micros e tokens)))"
proof -
  have same: "reserved_in h st1 t a = reserved_in h st t a" for t a
    unfolding reserved_in_def by (rule frame_reads(3) [OF still_parts(4) [OF assms(1)]])
  note held = charge_holds [OF assms(2) frame_books [OF still_parts(4) [OF assms(1)] assms(3)] assms(4)
      assms(5) [folded same]]
  let ?part = "case reservation of None \<Rightarrow> 0 | Some r \<Rightarrow> if of_account t a r then unat (br_reserved_micros r) else 0"
  have before: "reserved_in h st2 t a = reserved_in h st t a + ?part"
    using held assms(6) same by simp
  from ended held consider "freed h reservation st2 st'" | "frame ''billing:'' (es_db st2) (es_db st')" Q by blast
  then show ?thesis
  proof cases
    case 1
    then show ?thesis using before assms(6) by (simp add: freed_def reserved_in_def)
  next
    case 2
    have after: "reserved_in h st' t a = reserved_in h st t a + ?part"
      using before frame_reads(3) [OF 2(1)] by (simp add: reserved_in_def)
    have "?part = 0 \<or> t = tenant_of e \<and> a = account_id_for e \<and> ?part = unat (estimate_precharge_micros e n)"
      using held by (auto simp: of_account_def split: option.split)
    then show ?thesis using after 2(2) frame_books [OF 2(1)] held by auto
  qed
qed

text \<open>
  C23: An execution that answers leaves no reservation behind, except on two ways out. For plain
  tenant, principal and policy ids and whatever provider, tools, hooks and world do, the amount
  reserved in every account after an execution that answers is the amount before it, unless the
  answer is Blocked and either the capability is a provider's (a hook denied the call) or the
  session's parallel window is full; then the account of the task keeps the whole estimate. The
  books stay well formed.
\<close>

theorem execution_ends_its_reservation:
  assumes "runtime_execute h k actor_id envelope manifest preferred_model st = Some (st', Ok x)"
    and "books_ok h st" "registry_ok (xh_tool h) (xs_tools st)" "plain_envelope envelope"
    and "reserved_in h st (tenant_of envelope) (account_id_for envelope) + max_estimate < 2 ^ 64"
    and "plain_account t a"
  shows "books_ok h st' \<and>
     (reserved_in h st' t a = reserved_in h st t a \<or>
      gr_decision (xr_guard_report x) = Guard_Blocked \<and>
      t = tenant_of envelope \<and> a = account_id_for envelope \<and>
      (prefix ''provider:'' (te_capability_id envelope) \<or>
       \<not> is_ok (snd (try_enter_parallel_tool_window k (xs_windows st) (te_session_id envelope)))) \<and>
      (\<exists>tokens. reserved_in h st' t a = reserved_in h st t a + unat (estimate_precharge_micros envelope tokens)))"
  using assms(1)
proof (cases rule: execute_cases)
  case 1
  then show ?thesis
    using frame_books [OF still_parts(4) [OF 1] assms(2)] frame_reads(3) [OF still_parts(4) [OF 1]]
    by (simp add: reserved_in_def)
next
  case (2 st1 st2 reservation n)
  from after_the_path [OF 2(1,2) assms(2,4,5,6) provider_path_frees [OF 2(5)]] 2(4)
  show ?thesis by blast
next
  case (3 st1 st2 reservation n)
  have "aside st st2" by (rule aside_trans [OF aside_still [OF 3(1)] charge_through [OF 3(2)]])
  note same = aside_parts [OF this]
  from after_the_path [OF 3(1,2) assms(2,4,5,6) tool_path_frees [OF 3(5)]] assms(3) same
  show ?thesis by (simp add: same) blast
qed

text \<open>
  The first of the two: a task that finds the parallel window of its session full is answered
  Blocked after its budget has been reserved, and nothing gives the reservation back.
\<close>

lemma full_window_keeps_reservation:
  assumes "let_through h k e m st = Some (st2, Some r)" "\<not> prefix ''provider:'' (te_capability_id e)"
    and "snd (try_enter_parallel_tool_window k (xs_windows st) (te_session_id e)) = Err reason"
  shows "\<exists>st' x. runtime_execute h k actor e m p st = Some (st', Ok x) \<and>
    gr_decision (xr_guard_report x) = Guard_Blocked \<and> reserved_in h st' t a = reserved_in h st2 t a"
proof -
  let ?c = "classify_runtime_class e m (tg_allow_shell (xs_tools st))"
  let ?ms = "extract_provider_messages (xh_prompt h) (te_payload e)"
  let ?tokens = "if ?c = Class_Provider then estimate_tokens ?ms else 0"
  obtain st1 active where active: "active_degrade_profile h (te_session_id e) (tick (tick st)) = (st1, active)"
    by fastforce
  have through: "validate_execution_identity (xh_codecs h) (es_db st) e (current_time_ms h st) = Ok ()"
      "validate_hardgate_requirement (te_payload e) = None" "Option.bind active (degrade_block e) = None"
      "charge h k e ?tokens st1 = (st2, Inr (Some r))"
    using assms(1) active by (auto simp: let_through_def Let_def split: if_splits prod.splits sum.splits)
  have "still st st1"
    using still_active [of "tick (tick st)" h "te_session_id e"] active
      still_trans [OF still_trans [OF still_tick still_tick]] by simp
  then have "xs_windows st2 = xs_windows st"
    using aside_parts(1) [OF aside_trans [OF aside_still charge_through [OF through(4)]]] by blast
  then obtain windows where w: "try_enter_parallel_tool_window k (xs_windows st2) (te_session_id e) = (windows, Err reason)"
    using assms(3) by (cases "try_enter_parallel_tool_window k (xs_windows st) (te_session_id e)") simp
  let ?st = "st2\<lparr> xs_windows := windows \<rparr>"
  have "runtime_execute h k actor e m p st = Some (apsnd Ok (window_refused h k e reason ?st))"
    using through active assms(2) by (simp add: runtime_execute_def Let_def tool_path_def w split del: if_split)
  moreover have "reserved_in h (fst (window_refused h k e reason ?st)) t a = reserved_in h st2 t a"
    using frame_reads(3) [OF still_parts(4) [OF still_note [of ?st h k "''runtime_blocks''" e]]]
    by (simp add: window_refused_def reserved_in_def)
  moreover have "gr_decision (xr_guard_report (snd (window_refused h k e reason ?st))) = Guard_Blocked"
    by (simp add: window_refused_def withheld_def)
  ultimately show ?thesis
    by (cases "window_refused h k e reason ?st") (auto intro!: exI)
qed

end
