(* ===== verification/Event_Samples.thy ===== *)
theory Event_Samples
  imports Events Billing_Samples
begin

text \<open>
  A concrete printer and parser of JSON values, from which the witnesses build the serde_json
  arguments of records that hold JSON, and a sample host for the event log.
\<close>

section \<open>Packed JSON\<close>

fun pack_json :: "json \<Rightarrow> string" where
  "pack_json J_Null = ''n''"
| "pack_json (J_Bool b) = (if b then ''t'' else ''f'')"
| "pack_json (J_Number w) = CHR ''u'' # show_word w"
| "pack_json (J_Other_Number s) = CHR ''x'' # s"
| "pack_json (J_String s) = CHR ''s'' # s"
| "pack_json (J_Array vs) = CHR ''a'' # pack (map pack_json vs)"
| "pack_json (J_Object m) = CHR ''o'' # pack (map (\<lambda>(k, v). pack [k, pack_json v]) m)"

lemma snd_chunk_length: "length (fst (chunk n s)) + length (snd (chunk n s)) \<le> length s - 1"
  by (induction n s rule: chunk.induct) auto

lemma unpack_shorter: "x \<in> set (unpack s) \<Longrightarrow> length x < length s"
proof (induction s rule: unpack.induct)
  case (2 c s)
  then show ?case using snd_chunk_length [of 0 "c # s"] by fastforce
qed simp

lemma nth_unpack_shorter: "x \<in> set (unpack s) \<Longrightarrow> 1 < length (unpack x) \<Longrightarrow> length (unpack x ! 1) < Suc (length s)"
  using unpack_shorter [of "unpack x ! 1" x] unpack_shorter [of x s] by simp

function unpack_json :: "string \<Rightarrow> json" where
  "unpack_json s =
     (case s of
        [] \<Rightarrow> J_Null
      | c # r \<Rightarrow>
         if c = CHR ''t'' then J_Bool True
         else if c = CHR ''f'' then J_Bool False
         else if c = CHR ''u'' then J_Number (the_word r)
         else if c = CHR ''x'' then J_Other_Number r
         else if c = CHR ''s'' then J_String r
         else if c = CHR ''a'' then J_Array (map unpack_json (unpack r))
         else if c = CHR ''o'' then
           J_Object (map (\<lambda>x. if 1 < length (unpack x) then (unpack x ! 0, unpack_json (unpack x ! 1))
                              else ([], J_Null)) (unpack r))
         else J_Null)"
  by pat_completeness auto
termination
  by (relation "measure length")
    (use nth_unpack_shorter in \<open>auto intro: less_SucI unpack_shorter\<close>)

declare unpack_json.simps [simp del]

lemma unpack_pack_json [simp]: "unpack_json (pack_json v) = v"
proof (induction v)
  case (J_Object m)
  then have "map (\<lambda>x. (fst x, unpack_json (pack_json (snd x)))) m = m"
    by (intro map_idI) (auto simp: prod_eq_iff)
  then show ?case
    by (simp add: unpack_json.simps [of "_ # _"] o_def case_prod_unfold)
qed (simp_all add: unpack_json.simps [of "_ # _"] unpack_json.simps [of "[]"] o_def map_idI)

section \<open>A sample host\<close>

definition sample_event_codec :: "EventEnvelope codec" where
  "sample_event_codec = fields_codec
     (\<lambda>x. [ee_event_id x, ee_kind x, ee_trace_id x, ee_session_id x, pack_opt (ee_task_id x),
           pack_opt (ee_capability_id x), ee_version x, pack_json (ee_payload x),
           show_word (ee_created_at_ms x)])
     (\<lambda>f. \<lparr> ee_event_id = f ! 0, ee_kind = f ! 1, ee_trace_id = f ! 2, ee_session_id = f ! 3,
            ee_task_id = unpack_opt (f ! 4), ee_capability_id = unpack_opt (f ! 5),
            ee_version = f ! 6, ee_payload = unpack_json (f ! 7), ee_created_at_ms = the_word (f ! 8) \<rparr>)"

lemma sample_event_codec_ok: "codec_ok sample_event_codec"
  unfolding sample_event_codec_def by (rule fields_codec_ok) simp

definition sample_event_host :: EventHost where
  "sample_event_host =
     \<lparr> eh_clock = of_nat, eh_event = sample_event_codec, eh_snapshot = (\<lambda>x. [], \<lambda>s. Inl []),
       eh_analysis = (\<lambda>x. [], \<lambda>s. Inl []), eh_text = pack_json,
       eh_siphash = (\<lambda>s. of_nat (length s)) \<rparr>"

definition first_state :: EventState where
  "first_state = \<lparr> es_db = new_table, es_ticks = 0, es_event_seq = 1 \<rparr>"

lemma log_ok_first: "log_ok first_state"
  by (simp add: log_ok_def first_state_def table_ok_new)

theorem session_log_keeps_every_event_witness:
  "\<exists>st e. append_events sample_event_host
       [(''k'', ''t'', ''s'', None, None, ''v2'', J_Bool True), (''k'', ''t'', ''r'', None, None, ''v2'', J_Null)]
       first_state = (st, Ok e) \<and>
     mset (list_session_events sample_event_host (es_db st) ''s'') = {#e ! 0#}"
proof -
  let ?calls = "[(''k'', ''t'', ''s'', None, None, ''v2'', J_Bool True),
    (''k'', ''t'', ''r'', None, None, ''v2'', J_Null)]"
  have empty: "list_session_events sample_event_host (es_db first_state) ''s'' = []"
    by (simp add: list_session_events_def fallback_kv_list_def list_knowledge_by_prefix_def
        first_state_def new_table_def)
  obtain st es where "append_events sample_event_host ?calls first_state = (st, Ok es)"
      "map (\<lambda>e. (ee_kind e, ee_trace_id e, ee_session_id e, ee_payload e)) es =
         map (\<lambda>(k, t, s, task, cap, v, pl). (k, t, s, pl)) ?calls"
      "mset (list_session_events sample_event_host (es_db st) ''s'') =
         mset (list_session_events sample_event_host (es_db first_state) ''s'') +
         mset (filter (\<lambda>e. ee_session_id e = ''s'') es)"
    using session_log_keeps_every_event [OF log_ok_first, of sample_event_host ?calls "''s''"]
    by (auto simp: sample_event_host_def sample_event_codec_ok first_state_def)
  moreover from this(2) obtain e e' where "es = [e, e']" "ee_session_id e = ''s''" "ee_session_id e' = ''r''"
    by (auto simp: map_eq_Cons_conv)
  ultimately show ?thesis using empty by auto
qed

end
