(* ===== verification/Runtime_Samples.thy ===== *)
theory Runtime_Samples
  imports Runtime_Settlement Event_Samples Registry_Store
begin

text \<open>
  A concrete host of the runtime, and the witnesses that apply the theorems of its parts to it.
\<close>

section \<open>Degrade profiles\<close>

definition kind_of_name :: "string \<Rightarrow> DegradeProfileKind" where
  "kind_of_name s =
     (if s = ''normal'' then Degrade_Normal else if s = ''provider_fallback'' then Degrade_ProviderFallback
      else if s = ''mcp_conservative'' then Degrade_McpConservative
      else if s = ''read_only'' then Degrade_ReadOnly
      else if s = ''queue_throttle'' then Degrade_QueueThrottle else Degrade_ManualTakeover)"

lemma kind_of_name [simp]: "kind_of_name (degrade_name k) = k"
  by (cases k) (simp_all add: kind_of_name_def)

abbreviation flag :: "bool \<Rightarrow> string" where
  "flag b \<equiv> (if b then ''1'' else [])"

definition sample_profile_codec :: "DegradeProfile codec" where
  "sample_profile_codec =
     (\<lambda>x. pack [dp_profile_id x, degrade_name (dp_kind x), dp_reason x, show_word (dp_activated_at_ms x),
             pack_time (dp_expires_at_ms x), pack_time (dp_max_parallel_agents_override x),
             flag (dp_allow_provider_calls x), flag (dp_allow_mcp_calls x), flag (dp_read_only_mode x),
             flag (dp_requires_manual_takeover x)],
      \<lambda>s. let f = unpack s in
          if f = [] then Inl ''missing field profile_id''
          else Inr \<lparr> dp_profile_id = f ! 0, dp_kind = kind_of_name (f ! 1), dp_reason = f ! 2,
                     dp_activated_at_ms = the_word (f ! 3), dp_expires_at_ms = unpack_time (f ! 4),
                     dp_max_parallel_agents_override = unpack_time (f ! 5),
                     dp_allow_provider_calls = (f ! 6 \<noteq> []), dp_allow_mcp_calls = (f ! 7 \<noteq> []),
                     dp_read_only_mode = (f ! 8 \<noteq> []), dp_requires_manual_takeover = (f ! 9 \<noteq> []) \<rparr>)"

lemma sample_profile_codec_ok: "codec_ok sample_profile_codec"
  by (simp add: codec_ok_def sample_profile_codec_def Let_def)

definition sample_degrade_host :: DegradeHost where
  "sample_degrade_host =
     \<lparr> eh_clock = of_nat, eh_event = sample_event_codec, eh_snapshot = (\<lambda>x. [], \<lambda>s. Inl []),
       eh_analysis = (\<lambda>x. [], \<lambda>s. Inl []), eh_text = pack_json, eh_siphash = (\<lambda>s. of_nat (length s)),
       dh_profile = sample_profile_codec, dh_failover = (\<lambda>x. [], \<lambda>s. Inl []),
       dh_plan = (\<lambda>x. [], \<lambda>s. Inl []), dh_chaos = (\<lambda>x. [], \<lambda>s. Inl []),
       dh_json = (\<lambda>x. [], \<lambda>s. Inl []) \<rparr>"

lemma sample_cleared: "cleared_unreadable sample_degrade_host"
  by (simp add: cleared_unreadable_def sample_degrade_host_def sample_profile_codec_def Let_def)

text \<open>A read-only profile, applied at the first clock reading, is what the session has next.\<close>

theorem degrade_profile_governs_witness:
  "\<exists>p. snd (active_degrade_profile sample_degrade_host ''s''
       (fst (apply_degrade_profile sample_degrade_host sample_kernel ''s'' ''t'' Degrade_ReadOnly ''why'' first_state))) =
     Some p \<and> dp_read_only_mode p \<and> dp_expires_at_ms p = Some 300000"
proof -
  let ?applied = "apply_degrade_profile sample_degrade_host sample_kernel ''s'' ''t'' Degrade_ReadOnly ''why'' first_state"
  let ?p = "degrade_profile_from_kind sample_kernel Degrade_ReadOnly ''why'' 0"
  have codec: "codec_ok (dh_profile sample_degrade_host)"
    by (simp add: sample_degrade_host_def sample_profile_codec_ok)
  have now: "current_time_ms sample_degrade_host first_state = 0"
    by (simp add: current_time_ms_def sample_degrade_host_def first_state_def)
  have p: "dp_expires_at_ms ?p = Some 300000" "dp_read_only_mode ?p"
    by (simp_all add: degrade_profile_from_kind_def Let_def saturating_add_def)
  have few: "es_ticks (fst ?applied) = 2"
    by (simp add: apply_degrade_profile_def Let_def note_event_def append_event_def fst_then_do first_state_def degrade_key_def)
  have "current_time_ms sample_degrade_host (fst ?applied) < 300000"
    by (simp add: current_time_ms_def few) (simp add: sample_degrade_host_def)
  moreover have "snd (active_degrade_profile sample_degrade_host ''s'' (fst ?applied)) =
      (case dp_expires_at_ms ?p of
         None \<Rightarrow> Some ?p
       | Some t \<Rightarrow> if current_time_ms sample_degrade_host (fst ?applied) < t then Some ?p else None)"
    using degrade_profile_governs [OF codec sample_cleared, of sample_kernel Degrade_ReadOnly "''why''"
        first_state "''s''" "''t''"]
    unfolding now Let_def by blast
  ultimately show ?thesis using p by auto
qed

section \<open>The reliability layer\<close>

text \<open>
  A tool whose connection is always reset, under the default policy of one retry: two calls, both
  failed, and the error comes out.
\<close>

theorem layered_execution_ends_witness:
  "\<exists>st' outcomes a st1. run_layered_tool_execution sample_event_host (\<lambda>x. [], \<lambda>s. Inl [])
     (propagation_context sample_envelope None) ''read_file'' default_reliability_policy
     (\<lambda>t st. (tick st, Finished (Err ''connection reset''))) first_state = Some (st', Err ''connection reset'') \<and>
     called (\<lambda>t st. (tick st, Finished (Err ''connection reset''))) 90000 first_state (outcomes @ [a]) st1 \<and>
     length outcomes = 1"
proof -
  let ?ex = "\<lambda>t st. (tick st, Finished (Err ''connection reset''))"
  have two: "unat (tp_max_retries default_reliability_policy) < 255"
    by (simp add: default_reliability_policy_def)
  have same: "a = Finished (Err ''connection reset'')"
    if "called ?ex t st0 calls st1" "a \<in> set calls" for t st0 st1 calls and a
    using that by (induction) auto
  have again: "is_retryable_error ''connection reset''" by code_simp
  obtain st' r outcomes a st1 where run: "run_layered_tool_execution sample_event_host (\<lambda>x. [], \<lambda>s. Inl [])
      (propagation_context sample_envelope None) ''read_file'' default_reliability_policy ?ex first_state = Some (st', r)"
    and calls: "called ?ex (tp_timeout_ms default_reliability_policy) first_state (outcomes @ [a]) st1"
    and ends: "case failure_of default_reliability_policy a of
        Some e \<Rightarrow> \<not> is_retryable_error e \<or> length outcomes = unat (tp_max_retries default_reliability_policy)
      | None \<Rightarrow> True"
    and answer: "case r of
        Inr res \<Rightarrow> truthful default_reliability_policy ''read_file'' outcomes a res
      | Inl (Anyhow e) \<Rightarrow> tp_degrade_strategy default_reliability_policy = Strategy_Off \<and>
          failure_of default_reliability_policy a = Some e
      | Inl Panicked \<Rightarrow> a = Finished (Inl Panicked)"
    using layered_execution_ends [OF two, of sample_event_host "(\<lambda>x. [], \<lambda>s. Inl [])"
        "propagation_context sample_envelope None" "''read_file''" ?ex first_state] by blast
  have a: "a = Finished (Err ''connection reset'')" using same [OF calls] by simp
  with answer have "r = Err ''connection reset''"
    by (auto simp: truthful_def default_reliability_policy_def Let_def split: sum.splits error.splits)
  moreover have "length outcomes = 1" using ends again by (simp add: a default_reliability_policy_def)
  moreover have "called ?ex 90000 first_state (outcomes @ [a]) st1"
    using calls by (simp add: default_reliability_policy_def)
  ultimately show ?thesis using run by blast
qed

section \<open>Compaction\<close>

theorem compaction_fits_budget_witness:
  "let out = compact_provider_messages_for_budget [plain_message ''user'' (replicate 80 (CHR ''x''))] 16
   in estimate_tokens out \<le> 16 \<and> out \<noteq> [] \<and>
      (\<exists>n \<ge> 48. cm_content (last out) = truncate_chars (replicate 80 (CHR ''x'')) n)"
proof -
  have "list_all is_ascii (replicate 80 (CHR ''x''))" by (simp add: list_all_iff is_ascii_def byte_def)
  then show ?thesis
    using compaction_fits_budget [of "[plain_message ''user'' (replicate 80 (CHR ''x''))]" 16]
    by (simp add: Let_def) blast
qed

section \<open>A whole execution\<close>

text \<open>
  A task of a validated identity whose payload requires a hard gate it does not pass. The identity
  records of the sample are the ones of the task, whatever their text is.
\<close>

definition constant_codec :: "'a \<Rightarrow> 'a codec" where
  "constant_codec x = (\<lambda>_. [], \<lambda>_. Inr x)"

definition sample_identity_codecs :: table_codecs where
  "sample_identity_codecs = sample_codecs
     \<lparr> tc_tenant := constant_codec \<lparr> tn_tenant_id = ''t'', tn_name = ''t'', tn_status = ''active'', tn_created_at_ms = 0 \<rparr>,
       tc_principal := constant_codec \<lparr> pr_principal_id = ''p'', pr_tenant_id = ''t'', pr_principal_type = ''user'',
         pr_status = ''active'', pr_created_at_ms = 0 \<rparr>,
       tc_role_binding := constant_codec \<lparr> rb_tenant_id = ''t'', rb_principal_id = ''p'', rb_role = ''r'', rb_updated_at_ms = 0 \<rparr>,
       tc_policy_binding := constant_codec \<lparr> pb_policy_id = ''q'', pb_tenant_id = ''t'', pb_role = ''r'',
         pb_allowed_actions = [], pb_capability_prefixes = [''mcp::''], pb_max_memory_mb = 512,
         pb_max_tokens = 1000, pb_updated_at_ms = 0 \<rparr>,
       tc_session_lease := constant_codec \<lparr> ls_lease_token = ''l'', ls_session_id = ''s'', ls_tenant_id = ''t'',
         ls_principal_id = ''p'', ls_policy_id = ''q'', ls_expires_at_ms = 1000, ls_issued_at_ms = 0 \<rparr> \<rparr>"

definition gated_envelope :: TaskEnvelope where
  "gated_envelope = sample_envelope\<lparr> te_payload := J_Object [(''hardgate_required'', J_Bool True)] \<rparr>"

definition sample_sandbox :: "unit SandboxHost" where
  "sample_sandbox =
     \<lparr> sh_parse = (\<lambda>_. Inl []), sh_text = (\<lambda>_. []), sh_current_dir = Ok ''/'',
       sh_spawn = (\<lambda>_ _ _ _ w. (w, Err ''no process'')), sh_exists = (\<lambda>_ _. False),
       sh_wasm = (\<lambda>_ w. (w, Err ''no module'')), sh_wasm_request = (\<lambda>_. Inl []),
       sh_sandboxed_text = (\<lambda>_. []), sh_wasm_text = (\<lambda>_. []) \<rparr>"

definition sample_prompt_host :: PromptHost where
  "sample_prompt_host =
     \<lparr> ph_parse = (\<lambda>_. Inl []), ph_text = (\<lambda>_. []), ph_messages_text = (\<lambda>_. []),
       ph_read_messages = (\<lambda>_. Inl []), ph_messages_of = (\<lambda>_. Inl []) \<rparr>"

definition sample_exec_host :: "unit ExecHost" where
  "sample_exec_host =
     \<lparr> eh_clock = of_nat, eh_event = sample_event_codec, eh_snapshot = (\<lambda>x. [], \<lambda>s. Inl []),
       eh_analysis = (\<lambda>x. [], \<lambda>s. Inl []), eh_text = pack_json, eh_siphash = (\<lambda>s. of_nat (length s)),
       dh_profile = sample_profile_codec, dh_failover = (\<lambda>x. [], \<lambda>s. Inl []),
       dh_plan = (\<lambda>x. [], \<lambda>s. Inl []), dh_chaos = (\<lambda>x. [], \<lambda>s. Inl []),
       dh_json = (\<lambda>x. [], \<lambda>s. Inl []), xh_env = (\<lambda>_. None), xh_codecs = sample_identity_codecs,
       xh_circuit = sample_circuit_codec, xh_tool = sample_host, xh_sandbox = sample_sandbox,
       xh_prompt = sample_prompt_host, xh_hooks = [], xh_chat = (\<lambda>_ _ w. (w, Err ''no provider'')),
       xh_default_provider = ''none'', xh_preflight = (\<lambda>_ _ w. (w, Ok ())), xh_late = (\<lambda>_ _. False),
       xh_envelope_json = (\<lambda>_. J_Null) \<rparr>"


lemma table_with:
  "list_all (\<lambda>k. \<not> evidence_key k) ks \<Longrightarrow>
     \<exists>db. table_ok db \<and> (\<forall>k. get_knowledge db k \<noteq> None \<longleftrightarrow> k \<in> set ks)"
proof (induction ks)
  case Nil
  show ?case by (rule exI [of _ new_table]) (simp add: table_ok_new)
next
  case (Cons key ks)
  then obtain db where db: "table_ok db" "\<And>k. get_knowledge db k \<noteq> None \<longleftrightarrow> k \<in> set ks" by auto
  have "\<not> evidence_key key" using Cons.prems by simp
  then obtain db' r where "upsert_knowledge db key [] [] = (db', Ok r)" "get_knowledge db' = (get_knowledge db)(key \<mapsto> r)"
    using knowledge.accepts by blast
  then show ?case
    using table_ok_upsert [OF db(1), of key "[]" "[]"] db(2) by (intro exI [of _ db']) auto
qed

lemma apsnd_pair: "apsnd f p = (fst p, f (snd p))"
  by (cases p) simp

lemma constant_get: "get_knowledge db key \<noteq> None \<Longrightarrow> fallback_kv_get (constant_codec x) db key = Some x"
  by (auto simp: fallback_kv_get_def decode_record_def constant_codec_def)

theorem execution_ends_its_reservation_witness:
  "\<exists>st st' x. runtime_execute sample_exec_host sample_kernel ''a'' gated_envelope None None st = Some (st', Ok x) \<and>
     books_ok sample_exec_host st' \<and> reserved_in sample_exec_host st' ''t'' ''t:p:q'' = 0"
proof -
  let ?h = sample_exec_host and ?e = gated_envelope
  obtain db where db: "table_ok db"
      "\<And>k. get_knowledge db k \<noteq> None \<longleftrightarrow> k \<in> set [''identity:tenant:t'', ''identity:principal:t:p'',
         ''identity:role-binding:t:p'', ''identity:policy-binding:t:q'', ''identity:session-lease:s'']"
    using table_with [of "[''identity:tenant:t'', ''identity:principal:t:p'', ''identity:role-binding:t:p'',
        ''identity:policy-binding:t:q'', ''identity:session-lease:s'']"] by auto
  define st :: "unit ExecState" where
    "st = \<lparr> es_db = db, es_ticks = 0, es_event_seq = 1, xs_windows = Map.empty,
            xs_tools = from_config sample_tools, xs_world = () \<rparr>"
  have reads: "fallback_kv_get (constant_codec x) db ''identity:tenant:t'' = Some x"
      "fallback_kv_get (constant_codec x2) db ''identity:principal:t:p'' = Some x2"
      "fallback_kv_get (constant_codec x3) db ''identity:role-binding:t:p'' = Some x3"
      "fallback_kv_get (constant_codec x4) db ''identity:policy-binding:t:q'' = Some x4"
      "fallback_kv_get (constant_codec x5) db ''identity:session-lease:s'' = Some x5" for x x2 x3 x4 x5
    by (rule constant_get, subst db(2), simp)+
  have identity: "validate_execution_identity (xh_codecs ?h) db ?e 0 = Ok ()"
    by (simp add: validate_execution_identity_def Let_def sample_exec_host_def sample_identity_codecs_def
        gated_envelope_def sample_envelope_def get_tenant_def get_principal_def get_role_binding_def
        get_policy_binding_def get_session_lease_def reads and_then_def ok_or_def ensure_def)
  have none: "get_knowledge db key = None" if "prefix ''billing:'' key" for key
    using db(2) [of key] that by auto
  have empty: "get_budget_account c db t a = None" "get_quota_window c db t a w = None" for c t a w
    by (simp_all add: get_budget_account_def get_quota_window_def fallback_kv_get_def none account_key_def window_key_def)
  have gate: "validate_hardgate_requirement (te_payload ?e) = Some ''hardgate_pass_token missing while hardgate_required=true''"
    by (simp add: gated_envelope_def validate_hardgate_requirement_def Let_def)
  have clock: "current_time_ms ?h st = 0" and es: "es_db st = db"
    by (simp_all add: current_time_ms_def sample_exec_host_def st_def)
  have "runtime_execute ?h sample_kernel ''a'' ?e None None st = Some (apsnd Ok (hardgate_block ?h sample_kernel ?e
          ''hardgate_pass_token missing while hardgate_required=true'' (tick (tick st))))"
    by (simp add: runtime_execute_def Let_def clock es identity gate)
  then obtain st' x where run: "runtime_execute ?h sample_kernel ''a'' ?e None None st = Some (st', Ok x)"
    by (rule that [OF trans [OF _ arg_cong [where f = Some, OF apsnd_pair]]])
  have books: "books_ok ?h st"
    by (simp add: books_ok_def billing_ok_def own_ids_def empty st_def db(1))
      (use sample_codecs_ok(1) in \<open>simp add: sample_exec_host_def sample_identity_codecs_def billing_codecs_ok_def\<close>)
  have "registry_ok (xh_tool ?h) (xs_tools st)"
    using registry_ok_attached [of _ db sample_tools] by (simp add: st_def attach_state_store_def)
  moreover have "plain_envelope ?e" by (simp add: plain_envelope_def gated_envelope_def sample_envelope_def colons_def)
  moreover have "reserved_in ?h st t a = 0" for t a
    by (simp add: reserved_in_def reserved_of_def empty st_def)
  ultimately have "books_ok ?h st' \<and>
      (reserved_in ?h st' ''t'' ''t:p:q'' = 0 \<or> gr_decision (xr_guard_report x) = Guard_Blocked \<and>
       (prefix ''provider:'' (te_capability_id ?e) \<or>
       \<not> is_ok (snd (try_enter_parallel_tool_window sample_kernel (xs_windows st) (te_session_id ?e)))))"
    using execution_ends_its_reservation [OF run books, of "''t''" "''t:p:q''"]
    by (simp add: plain_account_def colons_def) blast
  moreover have "is_ok (snd (try_enter_parallel_tool_window sample_kernel (xs_windows st) (te_session_id ?e)))"
    by (simp add: st_def try_enter_parallel_tool_window_def sample_limit saturating_add_def Let_def)
  moreover have "\<not> prefix ''provider:'' (te_capability_id ?e)"
    by (simp add: gated_envelope_def sample_envelope_def)
  ultimately show ?thesis using run by blast
qed

end
