(* ===== verification/Spec2Isabelle.thy ===== *)
theory Spec2Isabelle
  imports Kernel_Replay Kernel_Accounts Sigstore Extensions Workflow Flow_State Checkpoint
    Runtime_Billing Runtime_Guard Registry_Store Runtime_Samples
begin

text \<open>
  A verification library for OntoLoop: its trusted execution kernel (\<^verbatim>\<open>NoumenonCore/\<close>) and, of the
  runtime around it (the crate under \<^verbatim>\<open>src/\<close> of the repository), the session workflow, the flow
  map of running tasks, the knowledge table both write to, the session checkpoints, the billing
  and the guards of the runtime kernel, and the forging and governing of command-line tools.

  The kernel takes a request (identity, plan, constraints, supply chain, closure), lets it
  through its admission and enforcement gates, runs the plan's capabilities, stores hash-linked
  evidence of every step, settles the tenant's budget, has the result validated and answers a
  record whose fingerprint can be recomputed from the evidence. \<^verbatim>\<open>ARCHITECTURE.md\<close> beside the
  sources states its invariants I1 to I8 and the admission contract.

  \<^bold>\<open>Theories\<close>, in the order in which they build on each other:
  \<^item> \<open>Prelude\<close>, \<open>Rust_Strings\<close>: machine integers, results, panics; the string functions of
    Rust's standard library the sources call; the contract of the \<^verbatim>\<open>hex\<close> crate.
  \<^item> \<open>IR\<close> (\<^verbatim>\<open>ir.rs\<close>), \<open>Samples\<close>: requests and records; concrete ones for the witnesses.
  \<^item> \<open>Exec_State\<close> (\<^verbatim>\<open>state.rs\<close>): the state machine, as code and as a step relation.
  \<^item> \<open>Trust\<close> (\<^verbatim>\<open>trust.rs\<close>), \<open>Governance\<close> (\<^verbatim>\<open>governance.rs\<close>), \<open>Resource\<close>
    (\<^verbatim>\<open>resource.rs\<close>), \<open>Replay\<close> (\<^verbatim>\<open>replay.rs\<close>): the gates, the governor, the fingerprint.
  \<^item> \<open>Syscall\<close> (\<^verbatim>\<open>syscall.rs\<close>), \<open>Routing\<close> (\<^verbatim>\<open>routing.rs\<close>), \<open>Execution\<close>
    (\<^verbatim>\<open>execution.rs\<close>): the scheduler and the run of a plan.
  \<^item> \<open>Ledger\<close>, \<open>Budget\<close> (\<^verbatim>\<open>ledger.rs\<close>): evidence and budget, in memory and on file.
  \<^item> \<open>Kernel\<close> (\<^verbatim>\<open>kernel.rs\<close>): the mandatory path and \<^verbatim>\<open>replay_check\<close>.
  \<^item> \<open>Kernel_Safety\<close>: what a run has passed; \<open>Kernel_Run\<close>: what it does, over the contract
    of its services; \<open>Compositions\<close>: the kernel with the crate's own services;
    \<open>Kernel_Replay\<close> and \<open>Kernel_Accounts\<close>: replay, budget and resources.
  \<^item> \<open>Sigstore\<close> (\<^verbatim>\<open>admission_sigstore.rs\<close>): admission by cosign, as the exact commands it runs;
    \<open>Extensions\<close> (\<^verbatim>\<open>evolution.rs\<close>, \<^verbatim>\<open>tooling.rs\<close>, \<^verbatim>\<open>memory_evolution.rs\<close>, \<^verbatim>\<open>truth.rs\<close>):
    recovery policies, tools, memory notes and the truth engine.
  \<^item> \<open>Workflow\<close> (\<^verbatim>\<open>src/session/\<close> \<^verbatim>\<open>state.rs\<close>, \<^verbatim>\<open>signal.rs\<close>, \<^verbatim>\<open>transition.rs\<close>, \<^verbatim>\<open>machine.rs\<close>,
    \<^verbatim>\<open>audit.rs\<close>, and the signals sent by \<^verbatim>\<open>src/orchestration/mod.rs\<close>): the session state machine.
  \<^item> \<open>Knowledge\<close> (\<^verbatim>\<open>autoloop-state-adapter\<close>, the knowledge table) and \<open>Flow_State\<close>
    (\<^verbatim>\<open>src/runtime/flow_state_engine.rs\<close>, \<^verbatim>\<open>src/contracts/flow.rs\<close>): the flow map over it.
  \<^item> \<open>Checkpoint\<close> (\<^verbatim>\<open>src/session/\<close> \<^verbatim>\<open>checkpoint.rs\<close>, \<^verbatim>\<open>runtime.rs\<close>, \<^verbatim>\<open>resume_runner.rs\<close>):
    session checkpoints and redaction. \<open>Sample_Codec\<close> serves the witnesses of the last three.
  \<^item> \<open>Contracts\<close> (\<^verbatim>\<open>src/contracts/types.rs\<close>): the task envelope; JSON values and the accessors
    used on them. \<open>Listing\<close>, \<open>State_Tables\<close> (\<^verbatim>\<open>autoloop-state-adapter\<close>): the ordered listing by
    prefix and the identity and billing tables. \<open>Float32\<close>: the rounding of an \<^verbatim>\<open>f32\<close> literal and
    of the scores compared with it. \<open>Manifest\<close> (\<^verbatim>\<open>src/tools/cli_forge.rs\<close>, data): forged manifests
    and their supply-chain findings.
  \<^item> \<open>Runtime_Kernel\<close>, \<open>Runtime_Budget\<close>, \<open>Runtime_Guard\<close> (\<^verbatim>\<open>src/runtime/mod.rs\<close>): gates, the
    window of parallel tool calls, permission modes; precharge, settlement, rollback and
    reconciliation of a tenant's budget; the guard of a tool call, the validation of an identity
    and the decision of a gate. \<open>Runtime_Accounts\<close> and \<open>Runtime_Billing\<close> hold the bounds, the
    frame lemmas and the properties of billing, \<open>Billing_Samples\<close> its witnesses. \<open>Circuit\<close>:
    circuit breakers per tool and per server, against the history of their outcomes.
  \<^item> \<open>Forge\<close>, \<open>Forge_Commands\<close> (\<^verbatim>\<open>src/tools/cli_forge.rs\<close>): from a forge request to a signed
    manifest; the command and the argument vector it renders. \<open>Registry\<close> (\<^verbatim>\<open>src/tools/mod.rs\<close>):
    the tool registry and its lifecycle tools; \<open>Registry_Safety\<close>: its invariant along any run of
    operations, and what may run; \<open>Registry_Store\<close>: persisting and restoring it.
  \<^item> \<open>Hooks\<close> (\<^verbatim>\<open>hook_runtime.rs\<close>), \<open>Events\<close> (\<^verbatim>\<open>src/observability/event_stream.rs\<close>), \<open>Degrade\<close>,
    \<open>Sandbox\<close>, \<open>Prompts\<close> (\<^verbatim>\<open>src/runtime/mod.rs\<close>), \<open>Tool_Stack\<close> (\<^verbatim>\<open>tool_execution_stack.rs\<close>): hook
    rules; the event log and replay snapshots; degrade profiles and recovery; the admission of a
    command and of a wasm module; the token budget of a prompt and the reading of payloads; the
    retries of a tool.
  \<^item> \<open>Runtime_Execute\<close> (\<^verbatim>\<open>RuntimeKernel::execute\<close> of \<^verbatim>\<open>src/runtime/mod.rs\<close> and what it calls): one
    task from its envelope to its answer, on the provider path and on the tool path, and the
    replay of a snapshot. \<open>Runtime_Admission\<close>: that it returns and what it lets through;
    \<open>Runtime_Settlement\<close>: what becomes of its reservation. \<open>Event_Samples\<close>, \<open>Runtime_Samples\<close>
    hold the witnesses.

  \<^bold>\<open>How code is modelled.\<close> A struct is a record with its fields in order, prefixed by the
  struct; an enum is a datatype; \<^verbatim>\<open>u8\<close> to \<^verbatim>\<open>u128\<close> are words. An \<^verbatim>\<open>anyhow::Result\<close> is a sum
  whose error is its displayed text or a panic; \<^verbatim>\<open>?\<close> is the propagating case. A method on
  \<^verbatim>\<open>&self\<close> that changes what is behind a mutex returns the changed state. Arithmetic that Rust
  checks in debug builds only takes the flag \<open>oc\<close> (overflow checks). What is not under
  \<^verbatim>\<open>src/\<close> is an argument: the HMAC, SHA-256 and hex crates, the clock, the host, the adapters
  and backends that an embedder registers, serde_json (\<open>serde\<close>, \<open>checkpoint_serde\<close>, \<open>table_codecs\<close>), the keys of \<^verbatim>\<open>DefaultHasher\<close>;
  hypotheses about it (\<open>hex_crate\<close>, \<open>hex_digest\<close>, \<open>serde_roundtrip\<close>, \<open>checkpoint_roundtrip\<close>,
  no collision on the texts a run hashes) are named where they are used.

  \<^bold>\<open>Interfaces.\<close> Each trait with a contract is a locale: \<open>syscall_queue\<close>, \<open>evidence_ledger\<close>,
  \<open>budget_ledger\<close>, \<open>resource_governor\<close>; \<open>kernel_contract\<close> joins the last three for one
  kernel. They are interpreted by the in-memory and the file implementations, and
  \<open>kernel_contract\<close> by both compositions of the kernel. \<open>knowledge_store\<close> is what the flow map
  relies on, interpreted by the state adapter's table. \<open>runtime_frame\<close> (what writing records
  leaves alone) and \<open>attempt_relation\<close> (what an attempt of a tool may do) carry the proofs about
  an execution; they are interpreted on the billing tables and on the runs of the model.

  \<^bold>\<open>What is shown.\<close> Complete mediation (a completed run passed every gate, a refused request
  changes nothing, evidence is written only for mediated runs), how runs end and by what cause,
  that a completed run replays from memory and from the files alone, when resources come back in
  either build, what happens to the budget; for the components, refinement of the in-memory ledgers by the file ledgers,
  round trips of their encodings, the order of execution, exactness of the hardening and the
  admission gates, what a fingerprint and a signature bind. For the runtime: the audit log of a
  workflow is a legal run and a verified closure needs every report to succeed; a runtime update
  refines the abstract map of task states; evidence records are written once; a checkpoint
  restores its session; no API key survives redaction; whatever its precharges, settlements
  and rollbacks answer, a tenant's account is overspent by no more than its settlements cost above
  their reservations, and its ledger reconciles exactly when they did not; a circuit breaker is a
  function of its history; a forged tool runs if and only if its manifest is active, verified and
  vouched for, whatever operations ran before; a rendered command fills every hole of its
  template, and its argument vector is the one the request describes. For one task: its execution
  returns whatever the tools and the provider do; a tool, a process or a provider is reached only
  past every gate; its reservation is settled or rolled back on every way out but two; the retries
  of a tool end and its report tells the calls its executor received; a process is started only for an admitted command;
  a compacted prompt fits its budget and keeps the user's last message as far as it fits; a degrade profile is in force for its time; the event log
  loses nothing; a hook phase does what its rules say up to the first denial. Some theorems state behaviour the
  documentation does not lead one to expect; they are listed as findings in the manifest.

  \<^bold>\<open>Bounds.\<close> The hypotheses \<open>length (steps request) < 2 ^ 64\<close> and alike hold of every value
  a 64-bit target can hold. The drain loop terminates by the length of its queue; the walk
  along the evidence is bounded by the number of events, as in the code.

  \<^bold>\<open>Not modelled.\<close> Threads and mutexes (each operation is atomic), real time, the operating
  system beyond the files' bytes, \<^verbatim>\<open>observability.rs\<close> and \<^verbatim>\<open>storage_vector.rs\<close> (floating
  point), the Postgres mirror of the state adapter, and the rest of the OntoLoop runtime (agents,
  query engine, interfaces, the dashboard server and the command line). In \<open>Runtime_Execute\<close> the
  choice of a provider and its network call, the attestation asked for by the preflight of a
  trusted task, and the wasm engine are arguments. The retries of a tool are a partial function:
  with the largest retry limit the code loops for ever.
\<close>

section \<open>A kernel for the witnesses\<close>

text \<open>A digest that is hexadecimal, never empty and free of collisions.\<close>

definition sample_digest :: CryptoService where
  "sample_digest x = CHR ''0'' # hex_encode x"

lemma hex_digest_sample: "hex_digest sample_digest"
  by (simp add: hex_digest_def sample_digest_def hex_crate_digits [OF hex_crate_instance])
    (simp add: hex_digit_def byte_def)

lemma inj_sample_digest: "inj_on sample_digest A"
proof (rule inj_onI)
  fix x y assume "sample_digest x = sample_digest y"
  then have "hex_encode x = hex_encode y" by (simp add: sample_digest_def)
  then show "x = y" by (metis hex_crate_decode [OF hex_crate_instance] option.inject)
qed

definition open_services :: "(unit, unit, unit, unit) NoumenonCore" where
  "open_services =
     \<lparr> identity_authority = (\<lambda>_. Ok ()),
       tenant_authority = static_authorize,
       attestation_verifier = static_attest \<lparr> trusted = True \<rparr>,
       supply_chain_verifier = (\<lambda>_. Ok ()),
       crypto = sample_digest,
       evidence_append = (\<lambda>l r. (Ok (), l)),
       evidence_by_execution = (\<lambda>l e. []),
       budget_reserve = (\<lambda>b a t n. (Ok (), b)),
       budget_consume = (\<lambda>b a n. (Ok (), b)),
       result_validator = (\<lambda>_. Ok ()),
       governor_acquire = (\<lambda>g r. (Ok (), g)),
       governor_return = (\<lambda>g r. g),
       learning_gate = status_allow_write,
       recovery_recover = noop_recover,
       rollout_gate = open_admit,
       replay_explainer = default_explain \<rparr>"

definition sample_state :: "(InMemoryEvidenceLedger, Accounts, ResourcePoolState, unit) KernelState" where
  "sample_state =
     \<lparr> ks_evidence = [], ks_budget = Map.empty, ks_governor = new_governor 8 1024,
       ks_recovery = (), ks_capabilities = sample_registry, ks_ticks = 0 \<rparr>"

definition echo_request :: TrustedExecutionRequest where
  "echo_request = sample_request ''exec-1'' [sample_step ''s1'' ''cap.echo'' ''hello'']"

abbreviation echo_kernel :: "(InMemoryEvidenceLedger, Accounts, ResourcePoolState, unit) NoumenonCore" where
  "echo_kernel \<equiv> in_memory True open_services"

abbreviation echo_outputs :: "StepExecutionOutput list" where
  "echo_outputs \<equiv> [\<lparr> so_step_id = ''s1'', so_output = ''echo:hello'', so_cost_units = 1 \<rparr>]"

lemma echo_request_simps [simp]:
  "rq_execution_id echo_request = ''exec-1''"
  "steps echo_request = [sample_step ''s1'' ''cap.echo'' ''hello'']"
  "budget_id echo_request = ''budget:acme''" "tenant echo_request = ''acme''"
  "units echo_request = 1"
  "in_operation (rq_intent echo_request) = ''run''"
  "rq_identity echo_request = sample_identity"
  by (simp_all add: echo_request_def sample_request_def sample_identity_def budget_id_def tenant_def
      units_def)

lemma trusted_sample_step:
  assumes "infer_runtime_island_from_capability (Some cap) = None"
  shows "enforce_runtime_island_hardening h (sample_step sid cap inp) cs = Ok ()"
  using assms by (simp add: enforce_Ok_iff effective_runtime_island_def sample_step_def)

lemma cap_echo_trusted: "infer_runtime_island_from_capability (Some ''cap.echo'') = None"
  by code_simp

lemma echo_acquire:
  "governor_reserve True (new_governor 8 1024) (requirement echo_request) =
     (Ok (), (new_governor 8 1024)\<lparr> rp_cpu_used := 4, rp_memory_used_mb := 64 \<rparr>)"
  by (simp add: requirement_def echo_request_def sample_request_def from_constraints_def
      governor_reserve_def new_governor_def checked_plus_def)

lemma echo_run: "run_plan True sample_registry echo_request = (Ok echo_outputs, sample_registry)"
  by (subst plan_executor_answers [where f = "\<lambda>cap inp. ''echo:'' @ inp"])
    (simp_all add: sample_step_def execute_capability_def sample_registry_def register_def
      new_registry_def echo_capability_def by_priority_def)

lemma echo_admitted: "admitted echo_kernel echo_request"
  by (simp add: admitted_def open_services_def open_admit_def)

lemma echo_enforced_by:
  assumes "tenant_authority self = static_authorize" and "attestation_verifier self = Ok ()"
  shows "enforced bare_host self echo_request"
proof -
  have "st_capability_ref (sample_step ''s1'' ''cap.echo'' ''hello'') = Some ''cap.echo''"
    by (simp add: sample_step_def)
  then show ?thesis
    by (simp add: enforced_def step_enforced_def assms static_authorize_def sample_identity_def
        trusted_sample_step [OF cap_echo_trusted])
qed

lemma echo_enforced: "enforced bare_host echo_kernel echo_request"
  by (rule echo_enforced_by) (simp_all add: open_services_def static_attest_def)

lemma echo_mediated: "mediated True bare_host echo_kernel echo_request sample_state"
  using echo_admitted echo_enforced echo_run echo_acquire
  by (simp add: mediated_def sample_state_def requirement_def mem_reserve_def Let_def)

definition echo_record :: ExecutionRecord where
  "echo_record = completed_record echo_kernel echo_request
     (map ev_record_id (evidence_chain echo_kernel (\<lambda>_. 0) echo_request echo_outputs 0))
     (step_records_of echo_kernel (\<lambda>_. 0) echo_request echo_outputs 1)"

lemma echo_completes:
  "\<exists>st'. execute True bare_host echo_kernel (\<lambda>_. 0) echo_request sample_state =
     (Ok echo_record, \<lparr> sm_state = Completed \<rparr>, st')"
proof (rule memory_kernel.mediated_run_completes [OF echo_mediated])
  show "run_plan True (ks_capabilities sample_state) echo_request = (Ok echo_outputs, sample_registry)"
    by (simp add: echo_run sample_state_def)
  show "sum_costs True (map so_cost_units echo_outputs) = Ok 1"
    by (simp add: sum_costs_def checked_plus_def)
  show "1 \<le> saturating_add (mem_budget.reserved (ks_budget sample_state) (budget_id echo_request))
      (units echo_request)"
    by (simp add: mem_budget.reserved_def sample_state_def saturating_add_def)
  show "echo_record = completed_record echo_kernel echo_request
      (map ev_record_id (evidence_chain echo_kernel (\<lambda>_. 0) echo_request echo_outputs (ks_ticks sample_state)))
      (step_records_of echo_kernel (\<lambda>_. 0) echo_request echo_outputs (ks_ticks sample_state + 1))"
    by (simp add: echo_record_def sample_state_def)
  show "learning_gate echo_kernel echo_record = Ok ()"
    by (simp add: open_services_def echo_record_def completed_record_def Let_def)
qed (simp_all add: open_services_def list_all_iff)

lemma echo_stored:
  assumes "execute True bare_host echo_kernel (\<lambda>_. 0) echo_request sample_state =
     (Ok echo_record, \<lparr> sm_state = Completed \<rparr>, st')"
  shows "ks_evidence st' =
     ks_evidence sample_state @ evidence_chain echo_kernel (\<lambda>_. 0) echo_request echo_outputs 0"
proof -
  have ran: "run_plan True (ks_capabilities sample_state) echo_request = (Ok echo_outputs, sample_registry)"
    by (simp add: echo_run sample_state_def)
  note facts = memory_kernel.completed_run [OF assms]
  show ?thesis
    by (rule facts) (use ran in \<open>simp_all add: sample_state_def list_all_iff\<close>)
qed

definition file_state :: "(LedgerFile, LedgerFile, ResourcePoolState, unit) KernelState" where
  "file_state =
     \<lparr> ks_evidence = empty_file, ks_budget = empty_file, ks_governor = new_governor 8 1024,
       ks_recovery = (), ks_capabilities = sample_registry, ks_ticks = 0 \<rparr>"

lemma empty_file_accounts: "load_accounts hex_decode empty_file = Map.empty"
  by (simp add: load_accounts_lines file_lines_def read_to_string_def empty_file_def)

lemma file_echo_mediated:
  "mediated True bare_host (on_file hex_encode hex_decode True open_services) echo_request file_state"
proof -
  have "is_ok (fst (file_reserve hex_encode empty_file (budget_id echo_request) (tenant echo_request)
      (units echo_request)))"
    by (simp add: file_reserve_def Budget.append_event_def append_to_file_def empty_file_def)
  moreover have "enforced bare_host (on_file hex_encode hex_decode True open_services) echo_request"
    by (rule echo_enforced_by) (simp_all add: open_services_def static_attest_def)
  ultimately show ?thesis
    using echo_admitted echo_run echo_acquire
    by (simp add: mediated_def file_state_def requirement_def admitted_def tenant_def units_def)
qed

lemma file_echo_completes:
  "\<exists>rec st'. execute True bare_host (on_file hex_encode hex_decode True open_services) (\<lambda>_. 0)
     echo_request file_state = (Ok rec, \<lparr> sm_state = Completed \<rparr>, st')"
proof -
  let ?k = "on_file hex_encode hex_decode True open_services"
  let ?rec = "completed_record ?k echo_request
     (map ev_record_id (evidence_chain ?k (\<lambda>_. 0) echo_request echo_outputs (ks_ticks file_state)))
     (step_records_of ?k (\<lambda>_. 0) echo_request echo_outputs (ks_ticks file_state + 1))"
  have ids: "utf8_valid (rq_execution_id echo_request)" "utf8_valid (tenant echo_request)"
    "\<forall>out\<in>set echo_outputs. utf8_valid (so_step_id out)"
    by (simp_all add: utf8_valid_ascii is_ascii_def byte_def)
  have crypto: "hex_digest (crypto ?k)"
    by (simp add: open_services_def hex_digest_sample)
  have ran: "run_plan True (ks_capabilities file_state) echo_request = (Ok echo_outputs, sample_registry)"
    by (simp add: echo_run file_state_def)
  have sum: "sum_costs True (map so_cost_units echo_outputs) = Ok 1"
    by (simp add: sum_costs_def checked_plus_def)
  have "\<exists>st'. execute True bare_host ?k (\<lambda>_. 0) echo_request file_state =
      (Ok ?rec, \<lparr> sm_state = Completed \<rparr>, st')"
    by (rule file_kernel.mediated_run_completes [OF file_echo_mediated _ _ budget_id_utf8 [OF ids(2)]
          ids(2) _ ran evidence_chain_utf8 [OF crypto ids(1,3)] sum])
      (simp_all add: file_state_def wf_empty_file file_budget.reserved_def empty_file_accounts
        saturating_add_def open_services_def completed_record_def Let_def)
  then show ?thesis by blast
qed

section \<open>Mandatory mediation\<close>

text \<open>
  C1: A completed execution has passed every gate of the mandatory path: the operation is not a
  replay or audit mode, the identity, the supply chain and the rollout gate admitted it, the
  attestation held when it was asked for, the tenant may use every capability and every step
  passed the hardening gate, resources and budget were reserved, the plan ran, and the result
  validator (when asked for) and the learning gate accepted the very record that is returned.
\<close>

theorem completed_runs_passed_every_gate:
  assumes "execute oc h self clock request st = (Ok rec, sm, st')" and "sm_state sm = Completed"
  shows "admitted self request \<and> enforced h self request \<and>
     is_ok (fst (governor_acquire self (ks_governor st) (requirement request))) \<and>
     is_ok (fst (budget_reserve self (ks_budget st) (budget_id request) (tenant request) (units request))) \<and>
     is_ok (fst (run_plan oc (ks_capabilities st) request)) \<and>
     (vs_validate_output (rq_verification_spec request) \<longrightarrow> result_validator self rec = Ok ()) \<and>
     learning_gate self rec = Ok () \<and> er_final_status rec = ''Completed''"
  using execute_completed_mediated [OF assms] execute_closed [of self request st oc h clock] assms
  by (auto simp: mediated_def requirement_def tenant_def units_def closed_with_def)

theorem completed_runs_passed_every_gate_witness:
  "admitted echo_kernel echo_request \<and> learning_gate echo_kernel echo_record = Ok ()"
proof -
  obtain st' where "execute True bare_host echo_kernel (\<lambda>_. 0) echo_request sample_state =
      (Ok echo_record, \<lparr> sm_state = Completed \<rparr>, st')"
    using echo_completes by blast
  from completed_runs_passed_every_gate [OF this] show ?thesis by simp
qed

text \<open>
  C3: A request that fails admission or enforcement leaves no trace: the kernel answers an
  error, the machine is \<open>Rejected\<close> (or stopped before \<open>Executing\<close> by a panicking service),
  and evidence, budget, governor, recovery, registry and clock are exactly as they were.
\<close>

theorem refused_requests_leave_no_trace:
  assumes "\<not> (admitted self request \<and> enforced h self request)"
  shows "\<exists>e sm. execute oc h self clock request st = (Inl e, sm, st) \<and>
     (sm_state sm = Rejected \<or> e = Panicked \<and> sm_state sm \<in> {PendingAdmission, Enforcing})"
  by (rule execute_refused [OF assms])

theorem refused_requests_leave_no_trace_witness:
  "\<exists>e sm. execute True bare_host echo_kernel (\<lambda>_. 0)
       (echo_request\<lparr> rq_intent := \<lparr> in_operation = ''replay_only'', in_payload = [] \<rparr> \<rparr>) sample_state =
     (Inl e, sm, sample_state) \<and>
     (sm_state sm = Rejected \<or> e = Panicked \<and> sm_state sm \<in> {PendingAdmission, Enforcing})"
  by (rule refused_requests_leave_no_trace) (simp add: admitted_def)

text \<open>
  C5: How an execution ends, for any services, any request and either build, with the cause of every
  end. An answer is a completed record with the machine in \<open>Completed\<close> and the recovery hook not
  called, or a rolled-back record with the machine in \<open>RolledBack\<close> and the recovery hook called with
  success. An error that is not a panic leaves the machine in \<open>Rejected\<close>, with the recovery hook not
  called; or in \<open>Failed\<close>, when the recovery hook was called and refused, with its error; or in
  \<open>RecordingEvidence\<close>, without recovery, when the evidence ledger refused a record or the budget
  ledger the cost, with the ledger's error (or the plan has \<open>2 ^ 64\<close> steps). The last is a way out
  that the documented list of terminal states does not have. A panic never leaves the machine in
  \<open>Completed\<close> or \<open>RolledBack\<close>.
\<close>

theorem every_end_has_its_cause:
  "case execute oc h self clock request st of
     (Inr rec, sm, st') \<Rightarrow>
       sm_state sm = Completed \<and> er_final_status rec = ''Completed'' \<and>
         ks_recovery st' = ks_recovery st \<or>
       sm_state sm = RolledBack \<and> er_final_status rec = ''RolledBack'' \<and>
         (\<exists>rec0. recovery_recover self (ks_recovery st) rec0 = (Ok (), ks_recovery st'))
   | (Inl (Anyhow m), sm, st') \<Rightarrow>
       sm_state sm = Rejected \<and> ks_recovery st' = ks_recovery st \<or>
       sm_state sm = Failed \<and>
         (\<exists>rec0. recovery_recover self (ks_recovery st) rec0 = (Err m, ks_recovery st')) \<or>
       sm_state sm = RecordingEvidence \<and> ks_recovery st' = ks_recovery st \<and>
         ((\<exists>ev r. evidence_append self ev r = (Err m, ks_evidence st')) \<or>
          (\<exists>bd cost. budget_consume self bd (budget_id request) cost = (Err m, ks_budget st')) \<or>
          2 ^ 64 \<le> length (steps request))
   | (Inl Panicked, sm, st') \<Rightarrow> sm_state sm \<noteq> Completed \<and> sm_state sm \<noteq> RolledBack"
  using execute_closed [of self request st oc h clock]
  by (auto simp: closed_with_def ends_with_error_def stopped_recording_def
      split: prod.splits sum.splits error.splits)

text \<open>
  C4: Evidence is written only for mediated runs: when the evidence ledger has changed, the
  request was admitted and enforced, resources and budget were reserved, and the whole plan
  had run with success.
\<close>

theorem evidence_is_written_only_for_mediated_runs:
  assumes "execute oc h self clock request st = (r, sm, st')" and "ks_evidence st' \<noteq> ks_evidence st"
  shows "admitted self request \<and> enforced h self request \<and>
     is_ok (fst (governor_acquire self (ks_governor st) (requirement request))) \<and>
     is_ok (fst (budget_reserve self (ks_budget st) (budget_id request) (tenant request) (units request))) \<and>
     is_ok (fst (run_plan oc (ks_capabilities st) request))"
  using execute_unmediated [OF _ assms(1)] assms(2)
  by (auto simp: mediated_def requirement_def tenant_def units_def)

theorem evidence_is_written_only_for_mediated_runs_witness:
  "is_ok (fst (run_plan True (ks_capabilities sample_state) echo_request)) \<and>
   enforced bare_host echo_kernel echo_request"
proof -
  obtain st' where ex: "execute True bare_host echo_kernel (\<lambda>_. 0) echo_request sample_state =
      (Ok echo_record, \<lparr> sm_state = Completed \<rparr>, st')"
    using echo_completes by blast
  have "ks_evidence st' \<noteq> ks_evidence sample_state"
    using echo_stored [OF ex] by (simp add: sample_state_def evidence_chain_def Let_def)
  from evidence_is_written_only_for_mediated_runs [OF ex this] show ?thesis by simp
qed

section \<open>Evidence and replay\<close>

text \<open>
  C2: A completed execution can be replayed from the evidence it stored: when the execution id
  is fresh and the digest is hexadecimal and collision-free on the texts this run hashes, the
  ledger holds under the id the context record followed by one hash-linked record for each
  step output, and \<open>replay_check\<close> recomputes the very fingerprint of the record.
\<close>

theorem completed_runs_replay:
  assumes "execute True h (in_memory True services) clock request st = (Ok rec, sm, st')"
    and "sm_state sm = Completed"
    and "length (steps request) < 2 ^ 64"
    and "run_plan True (ks_capabilities st) request = (Ok outs, caps)"
    and "hex_digest (crypto services)"
    and "inj_on (crypto services) (set (run_payloads (crypto services) request outs))"
    and "mem_by_execution (ks_evidence st) (rq_execution_id request) = []"
  shows "mem_by_execution (ks_evidence st') (rq_execution_id request) =
           evidence_chain (in_memory True services) clock request outs (ks_ticks st) \<and>
         replay_check (in_memory True services) st' rec = Ok (record_fingerprint rec)"
  using memory_kernel.completed_run_replays [OF assms(1,2) TrueI TrueI TrueI TrueI assms(3,4)] assms(5-7)
  by (simp add: list_all_iff)

theorem completed_runs_replay_witness:
  "\<exists>st'. execute True bare_host echo_kernel (\<lambda>_. 0) echo_request sample_state =
       (Ok echo_record, \<lparr> sm_state = Completed \<rparr>, st') \<and>
     replay_check echo_kernel st' echo_record = Ok (record_fingerprint echo_record)"
proof -
  obtain st' where ex: "execute True bare_host echo_kernel (\<lambda>_. 0) echo_request sample_state =
      (Ok echo_record, \<lparr> sm_state = Completed \<rparr>, st')"
    using echo_completes by blast
  have ran: "run_plan True (ks_capabilities sample_state) echo_request = (Ok echo_outputs, sample_registry)"
    by (simp add: echo_run sample_state_def)
  have "crypto open_services = sample_digest" by (simp add: open_services_def)
  then show ?thesis
    using completed_runs_replay [OF ex _ _ ran] ex
    by (simp add: hex_digest_sample inj_sample_digest sample_state_def mem_by_execution_def)
qed

text \<open>
  The same holds on the file ledgers, whose files are all the state there is, so a replay
  works after a restart: for every hex encoding that meets the crate's contract, a completed
  execution with UTF-8 ids leaves files from which \<open>replay_check\<close> recomputes the fingerprint.
\<close>

lemma completed_runs_replay_from_files:
  assumes "hex_crate henc hdec"
    and "execute True h (on_file henc hdec True services) clock request st = (Ok rec, sm, st')"
    and "sm_state sm = Completed"
    and "wf_file (ks_evidence st)" "wf_file (ks_budget st)"
    and "utf8_valid (rq_execution_id request)" "utf8_valid (tenant request)"
      "\<forall>s\<in>set (steps request). utf8_valid (st_step_id s)"
    and "length (steps request) < 2 ^ 64"
    and "run_plan True (ks_capabilities st) request = (Ok outs, caps)"
    and "hex_digest (crypto services)"
    and "inj_on (crypto services) (set (run_payloads (crypto services) request outs))"
    and "file_by_execution hdec (ks_evidence st) (rq_execution_id request) = []"
  shows "file_by_execution hdec (ks_evidence st') (rq_execution_id request) =
           evidence_chain (on_file henc hdec True services) clock request outs (ks_ticks st) \<and>
         replay_check (on_file henc hdec True services) st' rec = Ok (record_fingerprint rec)"
proof -
  have "list_all utf8_record (evidence_chain (on_file henc hdec True services) clock request outs (ks_ticks st))"
    by (rule evidence_chain_utf8) (use assms(11) run_step_ids_utf8 [OF assms(9,10,8)] assms(6) in simp_all)
  from kernel_contract.completed_run_replays [OF file_kernel_contract [OF assms(1)] assms(2-5)
      budget_id_utf8 [OF assms(7)] assms(7,9,10) this]
  show ?thesis using assms(11-13) by simp
qed

lemma completed_runs_replay_from_files_example:
  "\<exists>rec st'. execute True bare_host (on_file hex_encode hex_decode True open_services) (\<lambda>_. 0)
       echo_request file_state = (Ok rec, \<lparr> sm_state = Completed \<rparr>, st') \<and>
     replay_check (on_file hex_encode hex_decode True open_services) st' rec = Ok (record_fingerprint rec)"
proof -
  let ?k = "on_file hex_encode hex_decode True open_services"
  have crypto: "crypto open_services = sample_digest" by (simp add: open_services_def)
  have ids: "utf8_valid ''exec-1''" "utf8_valid ''acme''" "utf8_valid ''s1''"
    by (simp_all add: utf8_valid_ascii is_ascii_def byte_def)
  have ran: "run_plan True (ks_capabilities file_state) echo_request = (Ok echo_outputs, sample_registry)"
    by (simp add: echo_run file_state_def)
  have wf: "wf_file (ks_evidence file_state)" "wf_file (ks_budget file_state)"
    by (simp_all add: file_state_def wf_empty_file)
  have none: "file_by_execution hex_decode (ks_evidence file_state) e = []" for e
    by (simp add: file_state_def file_by_execution_records file_records_def file_lines_def
        read_to_string_def empty_file_def)
  obtain rec st' where ex: "execute True bare_host ?k (\<lambda>_. 0) echo_request file_state =
      (Ok rec, \<lparr> sm_state = Completed \<rparr>, st')"
    using file_echo_completes by blast
  show ?thesis
    using completed_runs_replay_from_files [OF hex_crate_instance ex _ wf _ _ _ _ ran] ids ex none
    by (simp add: crypto hex_digest_sample inj_sample_digest sample_step_def)
qed

section \<open>Resources and budget\<close>

text \<open>
  C7: What an execution leaves of the resource governor's pool, however it ends: completed, rolled
  back, rejected, with an error, or by a panic of any service. With overflow checks the pool is what
  it was before, except that a reservation whose addition overflows panics and poisons the pool's
  lock; this happens only to a request that passed admission and enforcement. Without overflow
  checks the same holds of every reservation that does not wrap around; one that does can be granted
  beyond the quota, and releasing it then takes units of others with it.
\<close>

theorem execution_returns_its_resources:
  assumes "oc \<or> unat (rp_cpu_used (ks_governor st)) + unat (rr_cpu_units (requirement request)) < 2 ^ 32 \<and>
      unat (rp_memory_used_mb (ks_governor st)) + unat (rr_memory_mb (requirement request)) < 2 ^ 32"
  shows "ks_governor (snd (snd (execute oc h (in_memory oc services) clock request st))) =
    (if admitted (in_memory oc services) request \<and> enforced h (in_memory oc services) request \<and>
        fst (governor_reserve oc (ks_governor st) (requirement request)) = Inl Panicked
     then (ks_governor st)\<lparr> rp_poisoned := True \<rparr> else ks_governor st)"
proof -
  let ?self = "in_memory oc services"
  have same: "governor_reserve oc (ks_governor st) (requirement request) =
      governor_reserve True (ks_governor st) (requirement request)"
    using assms governor_builds_agree [of "ks_governor st" "requirement request" oc]
    by (cases oc) (simp_all add: fits_words_def)
  obtain r gv where acq: "governor_reserve True (ks_governor st) (requirement request) = (r, gv)" by fastforce
  have "(case r of Inl e \<Rightarrow> gv | Inr u \<Rightarrow> governor_release gv (requirement request)) =
      (if r = Inl Panicked then (ks_governor st)\<lparr> rp_poisoned := True \<rparr> else ks_governor st)"
  proof (cases r)
    case (Inl e)
    with acq show ?thesis
      by (cases e) (auto dest: governor_panic checked_governor.refuse)
  qed (use acq in \<open>auto dest: checked_governor.undo\<close>)
  then show ?thesis
    using execute_governor_outcome [of ?self st request r gv oc h clock] acq same
    by (simp split: sum.splits)
qed

theorem execution_returns_its_resources_witness:
  "ks_governor (snd (snd (execute True bare_host echo_kernel (\<lambda>_. 0) echo_request sample_state))) =
     new_governor 8 1024 \<and>
   ks_governor (snd (snd (execute False bare_host (in_memory False open_services) (\<lambda>_. 0) echo_request sample_state))) =
     new_governor 8 1024"
proof -
  have state: "ks_governor sample_state = new_governor 8 1024" by (simp add: sample_state_def)
  have "unat (rp_cpu_used (new_governor 8 1024)) + unat (rr_cpu_units (requirement echo_request)) < 2 ^ 32 \<and>
      unat (rp_memory_used_mb (new_governor 8 1024)) + unat (rr_memory_mb (requirement echo_request)) < 2 ^ 32"
    by (simp add: requirement_def echo_request_def sample_request_def from_constraints_def new_governor_def)
  moreover from this have "governor_reserve False (new_governor 8 1024) (requirement echo_request) =
      governor_reserve True (new_governor 8 1024) (requirement echo_request)"
    by (intro governor_builds_agree) (simp add: fits_words_def)
  ultimately show ?thesis
    using execution_returns_its_resources [of False sample_state echo_request bare_host open_services "\<lambda>_. 0"]
      execution_returns_its_resources [of True sample_state echo_request bare_host open_services "\<lambda>_. 0"] echo_acquire
    by (simp add: state)
qed

text \<open>
  C6: What a completed execution does to its tenant's budget account: it reserves one unit a
  step and consumes the plan's cost, one unit a step and two for a step routed to a language
  model, so that the reserved units grow by the one and shrink by the other, the consumed units
  grow by the cost, and no other account changes (counters far from overflow).
\<close>

theorem completed_run_settles_its_budget:
  assumes "execute True h (in_memory True services) clock request st = (Ok rec, sm, st')"
    and "sm_state sm = Completed" and "2 * length (steps request) < 2 ^ 64"
    and "unat (mem_budget.reserved (ks_budget st) (budget_id request)) + length (steps request) < 2 ^ 64"
    and "unat (mem_budget.consumed (ks_budget st) (budget_id request)) + plan_cost request < 2 ^ 64"
  shows "unat (mem_budget.reserved (ks_budget st') (budget_id request)) + plan_cost request =
           unat (mem_budget.reserved (ks_budget st) (budget_id request)) + length (steps request) \<and>
         unat (mem_budget.consumed (ks_budget st') (budget_id request)) =
           unat (mem_budget.consumed (ks_budget st) (budget_id request)) + plan_cost request \<and>
         (\<forall>x. x \<noteq> budget_id request \<longrightarrow> ks_budget st' x = ks_budget st x)"
proof -
  have len: "length (steps request) < 2 ^ 64" using assms(3) by simp
  note facts = memory_kernel.completed_run [OF assms(1,2) TrueI TrueI TrueI TrueI len]
  obtain outs caps tot where ran: "run_plan True (ks_capabilities st) request = (Ok outs, caps)"
    and cost: "sum_costs True (map so_cost_units outs) = Ok tot"
    and cons: "mem_consume (account_after_reserve (ks_budget st) request) (budget_id request) tot =
      (Ok (), ks_budget st')"
    unfolding account_after_reserve_def by (rule facts) (auto simp: list_all_iff)
  have tot: "unat tot = plan_cost request"
    using run_cost [OF assms(3) ran] cost by auto
  have reserved: "unat (mem_budget.reserved (account_after_reserve (ks_budget st) request) (budget_id request)) =
      unat (mem_budget.reserved (ks_budget st) (budget_id request)) + length (steps request)"
    using assms(4) units_nat [OF len] by (simp add: account_after_reserve_effect unat_saturating_add)
  from mem_consume_Ok [OF cons] have le: "tot \<le> mem_budget.reserved (account_after_reserve (ks_budget st) request) (budget_id request)"
    and eff: "mem_budget.reserved (ks_budget st') (budget_id request) =
        mem_budget.reserved (account_after_reserve (ks_budget st) request) (budget_id request) - tot"
      "mem_budget.consumed (ks_budget st') (budget_id request) =
        saturating_add (mem_budget.consumed (ks_budget st) (budget_id request)) tot"
      "\<forall>x. x \<noteq> budget_id request \<longrightarrow> ks_budget st' x = account_after_reserve (ks_budget st) request x"
    by (simp_all add: account_after_reserve_effect)
  have "unat (mem_budget.reserved (ks_budget st') (budget_id request)) + unat tot =
      unat (mem_budget.reserved (account_after_reserve (ks_budget st) request) (budget_id request))"
    using le unfolding eff(1) by (simp add: unat_sub word_le_nat_alt)
  with reserved tot eff(2,3) assms(5) show ?thesis
    by (simp add: account_after_reserve_effect(4) unat_saturating_add)
qed

theorem completed_run_settles_its_budget_witness:
  "\<exists>st'. execute True bare_host echo_kernel (\<lambda>_. 0) echo_request sample_state =
       (Ok echo_record, \<lparr> sm_state = Completed \<rparr>, st') \<and>
     unat (mem_budget.reserved (ks_budget st') ''budget:acme'') = 0 \<and>
     unat (mem_budget.consumed (ks_budget st') ''budget:acme'') = 1"
proof -
  obtain st' where ex: "execute True bare_host echo_kernel (\<lambda>_. 0) echo_request sample_state =
      (Ok echo_record, \<lparr> sm_state = Completed \<rparr>, st')"
    using echo_completes by blast
  have "plan_cost echo_request = 1"
    by (simp add: plan_cost_def step_cost_cases sample_step_def)
  then show ?thesis
    using completed_run_settles_its_budget [OF ex] ex
    by (simp add: sample_state_def mem_budget.reserved_def mem_budget.consumed_def)
qed

text \<open>
  A failed plan keeps its reservation. When the plan errs, the kernel rolls back: the
  recovery hook runs, no evidence is written and the governor's units come back; but the
  budget units reserved for the plan stay reserved, because the path never calls \<^verbatim>\<open>refund\<close>.
\<close>

lemma failed_plan_keeps_its_reservation:
  assumes "admitted (in_memory True services) request" "enforced h (in_memory True services) request"
    and "governor_reserve True (ks_governor st) (requirement request) = (Ok (), gv)"
    and "run_plan oc (ks_capabilities st) request = (Err m, caps)"
    and "recovery_recover services (ks_recovery st)
           ((empty_record request ''Failed'')\<lparr> er_final_output := Some m \<rparr>) = (Ok (), rc)"
  shows "\<exists>st'. execute oc h (in_memory True services) clock request st =
      (Ok ((empty_record request ''RolledBack'')\<lparr> er_final_output := Some m \<rparr>),
       \<lparr> sm_state = RolledBack \<rparr>, st') \<and>
    ks_evidence st' = ks_evidence st \<and> ks_governor st' = ks_governor st \<and> ks_recovery st' = rc \<and>
    mem_budget.reserved (ks_budget st') (budget_id request) =
      saturating_add (mem_budget.reserved (ks_budget st) (budget_id request)) (units request)"
proof -
  obtain st' where "execute oc h (in_memory True services) clock request st =
      (Ok ((empty_record request ''RolledBack'')\<lparr> er_final_output := Some m \<rparr>),
       \<lparr> sm_state = RolledBack \<rparr>, st')"
    "ks_evidence st' = ks_evidence st" "ks_governor st' = ks_governor st" "ks_recovery st' = rc"
    "ks_budget st' = account_after_reserve (ks_budget st) request"
    using memory_kernel.failed_run_rolls_back [unfolded in_memory_simps,
        OF assms(1-3) TrueI TrueI TrueI assms(4,5)]
    by (auto simp: account_after_reserve_def)
  then show ?thesis by (auto simp: account_after_reserve_effect)
qed

lemma failed_plan_keeps_its_reservation_example:
  "\<exists>rec st'. execute True bare_host echo_kernel (\<lambda>_. 0) echo_request
       (sample_state\<lparr> ks_capabilities := new_registry \<rparr>) = (Ok rec, \<lparr> sm_state = RolledBack \<rparr>, st') \<and>
     mem_budget.reserved (ks_budget st') ''budget:acme'' = 1"
proof -
  have ran: "run_plan True new_registry echo_request = (Err ''capability not found: cap.echo'', new_registry)"
    by (simp add: run_plan_serves echo_request_def sample_request_def sample_step_def plan_agenda_def
        step_request_def plan_executor_def find_step_def execute_syscall_def execute_capability_def
        new_registry_def)
  show ?thesis
    using failed_plan_keeps_its_reservation [OF echo_admitted echo_enforced,
        of "sample_state\<lparr> ks_capabilities := new_registry \<rparr>" _ True _ _ "()" "\<lambda>_. 0"] echo_acquire ran
    by (simp add: sample_state_def open_services_def noop_recover_def mem_budget.reserved_def
        saturating_add_def) blast
qed

text \<open>
  A plan that uses a language model cannot complete for a tenant without left-over
  reservations: the path reserves one unit a step but consumes two for a step routed to a
  model, so after every step has run and its evidence is stored, the consumption is refused,
  the error leaves the machine in \<open>RecordingEvidence\<close>, and no recovery runs.
\<close>

lemma routed_plan_stops_after_recording:
  assumes "mediated True h (in_memory True services) request st"
    and "2 * length (steps request) < 2 ^ 64"
    and "mem_budget.reserved (ks_budget st) (budget_id request) = 0"
    and "s \<in> set (steps request)" "st_capability_ref s = Some ''llm.route''"
    and "run_plan True (ks_capabilities st) request = (Ok outs, caps)"
  shows "\<exists>st'. execute True h (in_memory True services) clock request st =
      (Err ''insufficient reserved budget'', \<lparr> sm_state = RecordingEvidence \<rparr>, st') \<and>
    ks_evidence st' =
      ks_evidence st @ evidence_chain (in_memory True services) clock request outs (ks_ticks st) \<and>
    ks_recovery st' = ks_recovery st"
proof -
  have len: "length (steps request) < 2 ^ 64" using assms(2) by simp
  obtain tot where cost: "sum_costs True (map so_cost_units outs) = Ok tot" "unat tot = plan_cost request"
    using run_cost [OF assms(2,6)] by auto
  have "plan_cost request \<noteq> length (steps request)"
    using assms(4,5) by (auto simp: plan_cost_eq_length)
  with plan_cost_bounds [of request] have "length (steps request) < plan_cost request" by linarith
  then have "saturating_add (mem_budget.reserved (ks_budget st) (budget_id request)) (units request) < tot"
    using assms(3) cost(2) units_nat [OF len] by (simp add: word_less_nat_alt unat_saturating_add)
  from memory_kernel.unfunded_run_stops [OF assms(1) TrueI TrueI TrueI TrueI len assms(6) _ cost(1) this]
  show ?thesis by (auto simp: list_all_iff)
qed

definition routed_registry :: CapabilityRegistry where
  "routed_registry = set_router (register_llm_backend new_registry (echo_backend ''model-a'')) router_sequential"

definition routed_request :: TrustedExecutionRequest where
  "routed_request = sample_request ''exec-2'' [sample_step ''s1'' ''llm.route'' ''hello'']"

lemma routed_run: "is_ok (fst (run_plan True routed_registry routed_request))"
  by (simp add: run_plan_serves routed_request_def sample_step_def plan_agenda_def step_request_def
      plan_executor_def find_step_def execute_syscall_def execute_llm_routed_def routed_registry_def
      set_router_def register_llm_backend_def new_registry_def echo_backend_def router_sequential_def
      parse_model_candidates_def select_def)

lemma routed_trusted: "infer_runtime_island_from_capability (Some ''llm.route'') = None"
  by code_simp

lemma routed_mediated:
  "mediated True bare_host echo_kernel routed_request (sample_state\<lparr> ks_capabilities := routed_registry \<rparr>)"
proof -
  have req: "from_constraints (rq_constraints routed_request) = requirement echo_request"
    by (simp add: requirement_def routed_request_def echo_request_def sample_request_def)
  have "st_capability_ref (sample_step ''s1'' ''llm.route'' ''hello'') = Some ''llm.route''"
    by (simp add: sample_step_def)
  then have "step_enforced bare_host echo_kernel routed_request (sample_step ''s1'' ''llm.route'' ''hello'')"
    using trusted_sample_step [OF routed_trusted]
    by (simp add: step_enforced_def open_services_def static_authorize_def routed_request_def
        sample_request_def sample_identity_def)
  moreover have "steps routed_request = [sample_step ''s1'' ''llm.route'' ''hello'']"
    by (simp add: routed_request_def)
  ultimately have "enforced bare_host echo_kernel routed_request"
    by (simp add: enforced_def open_services_def static_attest_def)
  then show ?thesis
    using routed_run echo_acquire req
    by (simp add: mediated_def admitted_def open_services_def open_admit_def routed_request_def
        sample_request_def sample_state_def mem_reserve_def Let_def)
qed

lemma routed_plan_stops_after_recording_example:
  "\<exists>st'. execute True bare_host echo_kernel (\<lambda>_. 0) routed_request
       (sample_state\<lparr> ks_capabilities := routed_registry \<rparr>) =
     (Err ''insufficient reserved budget'', \<lparr> sm_state = RecordingEvidence \<rparr>, st') \<and>
     ks_evidence st' \<noteq> []"
proof -
  obtain outs caps where ran: "run_plan True routed_registry routed_request = (Ok outs, caps)"
    using routed_run by (auto simp: is_ok_iff) (metis prod.collapse)
  have "\<exists>s. s \<in> set (steps routed_request) \<and> st_capability_ref s = Some ''llm.route''"
    by (simp add: routed_request_def sample_step_def)
  then obtain s where s: "s \<in> set (steps routed_request)" "st_capability_ref s = Some ''llm.route''"
    by blast
  show ?thesis
    using routed_plan_stops_after_recording [OF routed_mediated _ _ s, of outs caps "\<lambda>_. 0"] ran
    by (auto simp: sample_state_def mem_budget.reserved_def routed_request_def evidence_chain_def Let_def)
qed

text \<open>
  The keyword validator never sees a step's output on the kernel path: the record it is
  given holds the digest of the last output, so a list of banned words, each with a letter
  that neither hexadecimal text nor \<^verbatim>\<open>output_digest:\<close> contains, is satisfied by every run,
  whatever the capabilities have answered.
\<close>

lemma keyword_validator_is_blind_to_outputs:
  assumes "unicode_lower lower" and "hex_digest (crypto self)"
    and "\<forall>b\<in>set (banned v). \<exists>c\<in>set (lower b). \<not> digest_text_char c"
  shows "keyword_validate lower v
     (completed_record self request ids (step_records_of self clock request outs t)) = Ok ()"
proof (cases "outs = []")
  case True
  have "lower [] = []" using assms(1) by (auto simp: unicode_lower_def)
  then have "\<not> contains (lower []) (lower b)" if "b \<in> set (banned v)" for b
    using assms(3) that by (fastforce simp: contains_iff_sublist)
  then show ?thesis
    unfolding keyword_validate_Ok_iff using True by (simp add: completed_record_def Let_def)
next
  case False
  then obtain init out where outs: "outs = init @ [out]" by (metis rev_exhaust)
  let ?recs = "step_records_of self clock request outs t"
  have "length ?recs = length outs" by (metis length_map step_records_outputs)
  with False have recs: "?recs \<noteq> []" by auto
  then have "sr_output_digest (last ?recs) = last (map sr_output_digest ?recs)"
    by (simp add: last_map)
  also have "\<dots> = crypto self (so_output out)"
    unfolding step_records_outputs outs by simp
  finally have out: "er_final_output (completed_record self request ids ?recs) =
      Some (''output_digest:'' @ crypto self (so_output out))"
    using recs by (simp add: completed_record_def Let_def)
  show ?thesis
    by (rule keyword_validate_blind [OF assms(1) out _ assms(3)]) (use assms(2) in \<open>simp add: hex_digest_def\<close>)
qed

lemma keyword_validator_is_blind_to_outputs_example:
  "keyword_validate to_ascii_lowercase \<lparr> banned = [''blocked''] \<rparr>
     (completed_record echo_kernel echo_request []
        (step_records_of echo_kernel (\<lambda>_. 0) echo_request
           [\<lparr> so_step_id = ''s1'', so_output = ''blocked'', so_cost_units = 1 \<rparr>] 0)) = Ok ()"
  by (rule keyword_validator_is_blind_to_outputs)
    (simp_all add: unicode_lower_def open_services_def hex_digest_sample digest_text_char_def
      hex_digit_def byte_def to_ascii_lowercase_def ascii_lower_def)

section \<open>Completion and repetition\<close>

text \<open>
  C15: A mediated run completes: when the gates have let the request through, the plan has run
  and routes no step to a language model, and the validator and the learning gate accept the
  record, the in-memory kernel answers that record as \<open>Completed\<close> (budget counter far from
  overflow). In particular no transition of the state machine is refused on the way.
\<close>

theorem mediated_runs_complete:
  assumes "mediated True h (in_memory True services) request st"
    and "2 * length (steps request) < 2 ^ 64"
    and "\<forall>s\<in>set (steps request). st_capability_ref s \<noteq> Some ''llm.route''"
    and "run_plan True (ks_capabilities st) request = (Ok outs, caps)"
    and "unat (mem_budget.reserved (ks_budget st) (budget_id request)) + length (steps request) < 2 ^ 64"
    and "rec = completed_record (in_memory True services) request
           (map ev_record_id (evidence_chain (in_memory True services) clock request outs (ks_ticks st)))
           (step_records_of (in_memory True services) clock request outs (ks_ticks st + 1))"
    and "result_validator services rec = Ok ()" and "learning_gate services rec = Ok ()"
  shows "\<exists>st'. execute True h (in_memory True services) clock request st =
     (Ok rec, \<lparr> sm_state = Completed \<rparr>, st')"
proof -
  have len: "length (steps request) < 2 ^ 64" using assms(2) by simp
  obtain tot where cost: "sum_costs True (map so_cost_units outs) = Ok tot" "unat tot = plan_cost request"
    using run_cost [OF assms(2,4)] by auto
  have "plan_cost request = length (steps request)"
    using assms(3) by (simp add: plan_cost_eq_length)
  then have "tot \<le> saturating_add (mem_budget.reserved (ks_budget st) (budget_id request)) (units request)"
    using assms(5) cost(2) units_nat [OF len] by (simp add: word_le_nat_alt unat_saturating_add)
  from memory_kernel.mediated_run_completes [OF assms(1) TrueI TrueI TrueI TrueI len assms(4) _ cost(1) this assms(6)]
  show ?thesis using assms(7,8) by (simp add: list_all_iff)
qed

theorem mediated_runs_complete_witness:
  "\<exists>st'. execute True bare_host echo_kernel (\<lambda>_. 0) echo_request sample_state =
     (Ok echo_record, \<lparr> sm_state = Completed \<rparr>, st')"
proof -
  have ran: "run_plan True (ks_capabilities sample_state) echo_request = (Ok echo_outputs, sample_registry)"
    by (simp add: echo_run sample_state_def)
  show ?thesis
    by (rule mediated_runs_complete [OF echo_mediated _ _ ran])
      (simp_all add: echo_record_def sample_state_def mem_budget.reserved_def sample_step_def
        open_services_def completed_record_def Let_def)
qed

text \<open>
  An execution id can be used once only: when the same request completes twice with the same
  outputs, both records fail \<open>replay_check\<close> from then on, even for an ideal digest, because the
  two chains share their hashes and the fallback order collects the outputs of both runs.
\<close>

lemma reused_execution_id_breaks_replay:
  assumes first: "execute True h (in_memory True services) clock request st = (Ok rec1, sm1, st1)"
      "sm_state sm1 = Completed"
    and second: "execute True h (in_memory True services) clock request st1 = (Ok rec2, sm2, st2)"
      "sm_state sm2 = Completed"
    and len: "length (steps request) < 2 ^ 64" and "steps request \<noteq> []"
    and ran: "run_plan True (ks_capabilities st) request = (Ok outs, caps)"
      "run_plan True (ks_capabilities st1) request = (Ok outs, caps')"
    and digest: "hex_digest (crypto services)" "inj (crypto services)" "\<forall>x. crypto services x \<noteq> []"
    and fresh: "mem_by_execution (ks_evidence st) (rq_execution_id request) = []"
  shows "(\<exists>m. replay_check (in_memory True services) st2 rec1 = Err m) \<and>
         (\<exists>m. replay_check (in_memory True services) st2 rec2 = Err m)"
proof -
  let ?k = "in_memory True services"
  let ?chain = "\<lambda>s. evidence_chain ?k clock request outs (ks_ticks s)"
  have stored: "ks_evidence b = ks_evidence a @ ?chain a \<and>
      r = completed_record ?k request (map ev_record_id (?chain a))
        (step_records_of ?k clock request outs (ks_ticks a + 1))"
    if "execute True h ?k clock request a = (Ok r, sm, b)" "sm_state sm = Completed"
      "run_plan True (ks_capabilities a) request = (Ok outs, c)" for a b r sm c
  proof -
    note facts = memory_kernel.completed_run [OF that(1,2) TrueI TrueI TrueI TrueI len]
    show ?thesis by (rule facts) (use that(3) in \<open>simp_all add: list_all_iff\<close>)
  qed
  have mine: "mem_by_execution (evidence_chain ?k clock request outs t) (rq_execution_id request) =
      evidence_chain ?k clock request outs t" for t
    using evidence_chain_execution [of request ?k clock outs t]
    by (simp add: mem_by_execution_def filter_id_conv list_all_iff)
  have "mem_by_execution (xs @ ys) e = mem_by_execution xs e @ mem_by_execution ys e" for xs ys e
    by (simp add: mem_by_execution_def)
  then have events: "mem_by_execution (ks_evidence st2) (rq_execution_id request) = ?chain st @ ?chain st1"
    using stored [OF first ran(1)] stored [OF second ran(2)] fresh mine by simp
  have "outs \<noteq> []"
    using run_plan_order [OF len ran(1)] \<open>steps request \<noteq> []\<close>
    by (metis by_priority_def length_0_conv length_map length_sort)
  with replay_of_two_chains [of ?k outs st2 request clock "ks_ticks st" "ks_ticks st1"] digest events
    stored [OF first ran(1)] stored [OF second ran(2)]
  show ?thesis by simp
qed

lemma echo_completes_again:
  assumes "execute True bare_host echo_kernel (\<lambda>_. 0) echo_request sample_state =
     (Ok echo_record, \<lparr> sm_state = Completed \<rparr>, st1)"
  shows "ks_capabilities st1 = sample_registry \<and>
     (\<exists>rec2 st2. execute True bare_host echo_kernel (\<lambda>_. 0) echo_request st1 =
       (Ok rec2, \<lparr> sm_state = Completed \<rparr>, st2))"
proof -
  have ran: "run_plan True (ks_capabilities sample_state) echo_request = (Ok echo_outputs, sample_registry)"
    by (simp add: echo_run sample_state_def)
  note facts = memory_kernel.completed_run [OF assms]
  have st1: "ks_governor st1 = ks_governor sample_state \<and> ks_capabilities st1 = sample_registry"
    by (rule facts) (use ran in \<open>simp_all add: list_all_iff\<close>)
  then have med: "mediated True bare_host echo_kernel echo_request st1"
    using echo_mediated echo_run by (simp add: mediated_def mem_reserve_def Let_def)
  have run1: "run_plan True (ks_capabilities st1) echo_request = (Ok echo_outputs, sample_registry)"
    using st1 echo_run by simp
  have sum: "sum_costs True (map so_cost_units echo_outputs) = Ok 1"
    by (simp add: sum_costs_def checked_plus_def)
  have "1 \<le> saturating_add (mem_budget.reserved (ks_budget st1) (budget_id echo_request)) (units echo_request)"
    by (simp add: word_le_nat_alt unat_saturating_add)
  note completes = memory_kernel.mediated_run_completes [OF med TrueI TrueI TrueI TrueI _ run1 _ sum this refl]
  have "\<exists>st2. execute True bare_host echo_kernel (\<lambda>_. 0) echo_request st1 =
      (Ok (completed_record echo_kernel echo_request
         (map ev_record_id (evidence_chain echo_kernel (\<lambda>_. 0) echo_request echo_outputs (ks_ticks st1)))
         (step_records_of echo_kernel (\<lambda>_. 0) echo_request echo_outputs (ks_ticks st1 + 1))),
       \<lparr> sm_state = Completed \<rparr>, st2)"
    by (rule completes)
      (simp_all add: list_all_iff open_services_def completed_record_def Let_def)
  with st1 show ?thesis by blast
qed

lemma reused_execution_id_breaks_replay_example:
  "\<exists>st1 rec2 st2.
     execute True bare_host echo_kernel (\<lambda>_. 0) echo_request sample_state =
       (Ok echo_record, \<lparr> sm_state = Completed \<rparr>, st1) \<and>
     execute True bare_host echo_kernel (\<lambda>_. 0) echo_request st1 =
       (Ok rec2, \<lparr> sm_state = Completed \<rparr>, st2) \<and>
     replay_check echo_kernel st2 echo_record \<noteq> Ok (record_fingerprint echo_record)"
proof -
  obtain st1 where one: "execute True bare_host echo_kernel (\<lambda>_. 0) echo_request sample_state =
      (Ok echo_record, \<lparr> sm_state = Completed \<rparr>, st1)"
    using echo_completes by blast
  obtain rec2 st2 where two: "execute True bare_host echo_kernel (\<lambda>_. 0) echo_request st1 =
      (Ok rec2, \<lparr> sm_state = Completed \<rparr>, st2)"
    and caps: "ks_capabilities st1 = sample_registry"
    using echo_completes_again [OF one] by blast
  have ran: "run_plan True (ks_capabilities sample_state) echo_request = (Ok echo_outputs, sample_registry)"
    "run_plan True (ks_capabilities st1) echo_request = (Ok echo_outputs, sample_registry)"
    using caps by (simp_all add: echo_run sample_state_def)
  have digest: "crypto open_services = sample_digest" by (simp add: open_services_def)
  from reused_execution_id_breaks_replay [OF one _ two _ _ _ ran]
  have "\<exists>m. replay_check echo_kernel st2 echo_record = Err m"
    by (simp add: digest hex_digest_sample inj_sample_digest sample_digest_def sample_state_def
        mem_by_execution_def)
  with one two show ?thesis by auto
qed

end
